(* ===== verification/Prelude.thy ===== *)
theory Prelude
  imports Main "HOL-Library.AList" "HOL-Library.Sublist" "HOL-Library.Code_Target_Nat"
begin

text \<open>
  Shared vocabulary of the development: the fragment of the JavaScript string, array, map and
  JSON operations the gateway's sources use, the error values they throw, and the lemma
  collections the component theories draw on.

  A JavaScript string is a \<^typ>\<open>string\<close> whose characters are ASCII code units; case mapping and
  white space are those of JavaScript on that range. A JavaScript \<open>Map\<close> is an association list
  in insertion order (\<open>AList.update\<close> overwrites in place, or appends); a \<open>Set\<close> built
  from an array is \<open>js_uniq\<close> of the array. Numbers that the sources only compare and add
  (times, limits, statuses) are \<^typ>\<open>int\<close>; \<open>undefined\<close> is \<open>None\<close>.
\<close>

section \<open>Lemma collections\<close>

named_theorems js_simps \<open>unfolding of the JavaScript library fragment\<close>
named_theorems js_map_simps \<open>facts on insertion-ordered maps\<close>

section \<open>Characters and strings\<close>

definition is_upper :: "char \<Rightarrow> bool" where
  "is_upper c \<longleftrightarrow> (65::nat) \<le> of_char c \<and> of_char c \<le> (90::nat)"

definition is_lower :: "char \<Rightarrow> bool" where
  "is_lower c \<longleftrightarrow> (97::nat) \<le> of_char c \<and> of_char c \<le> (122::nat)"

definition is_digit :: "char \<Rightarrow> bool" where
  "is_digit c \<longleftrightarrow> (48::nat) \<le> of_char c \<and> of_char c \<le> (57::nat)"

definition is_alnum :: "char \<Rightarrow> bool" where
  "is_alnum c \<longleftrightarrow> is_upper c \<or> is_lower c \<or> is_digit c"

text \<open>The class \<open>\s\<close> of a regular expression, and what \<open>trim\<close> removes: tab to carriage
  return, and the space.\<close>

definition is_space :: "char \<Rightarrow> bool" where
  "is_space c \<longleftrightarrow> (9::nat) \<le> of_char c \<and> of_char c \<le> (13::nat) \<or> of_char c = (32::nat)"

fun lower_char :: "char \<Rightarrow> char" where
  "lower_char (Char b0 b1 b2 b3 b4 b5 b6 b7) =
     (if is_upper (Char b0 b1 b2 b3 b4 b5 b6 b7) then Char b0 b1 b2 b3 b4 True b6 b7
      else Char b0 b1 b2 b3 b4 b5 b6 b7)"

fun upper_char :: "char \<Rightarrow> char" where
  "upper_char (Char b0 b1 b2 b3 b4 b5 b6 b7) =
     (if is_lower (Char b0 b1 b2 b3 b4 b5 b6 b7) then Char b0 b1 b2 b3 b4 False b6 b7
      else Char b0 b1 b2 b3 b4 b5 b6 b7)"

definition to_lower :: "string \<Rightarrow> string" where
  "to_lower s = map lower_char s"

definition to_upper :: "string \<Rightarrow> string" where
  "to_upper s = map upper_char s"

definition trim :: "string \<Rightarrow> string" where
  "trim s = rev (dropWhile is_space (rev (dropWhile is_space s)))"

text \<open>\<open>s.split(d)\<close> for a one-character separator: never the empty list.\<close>

fun split_on :: "char \<Rightarrow> string \<Rightarrow> string list" where
  "split_on d [] = [[]]"
| "split_on d (c # cs) =
     (if c = d then [] # split_on d cs
      else (case split_on d cs of [] \<Rightarrow> [[c]] | p # ps \<Rightarrow> (c # p) # ps))"

text \<open>\<open>s.split(r).filter(Boolean)\<close> for a regular expression \<open>r\<close> that matches runs of
  characters in a class: the maximal runs of characters outside the class.\<close>

function fields :: "(char \<Rightarrow> bool) \<Rightarrow> string \<Rightarrow> string list" where
  "fields sep [] = []"
| "fields sep (c # cs) =
     (if sep c then fields sep cs
      else (c # takeWhile (\<lambda>x. \<not> sep x) cs) # fields sep (dropWhile (\<lambda>x. \<not> sep x) cs))"
  by pat_completeness auto
termination
  by (relation "measure (\<lambda>(sep, s). length s)") (auto simp: le_imp_less_Suc length_dropWhile_le)

definition words :: "string \<Rightarrow> string list" where
  "words s = fields is_space s"

fun join :: "string \<Rightarrow> string list \<Rightarrow> string" where
  "join sep [] = []"
| "join sep [x] = x"
| "join sep (x # y # xs) = x @ sep @ join sep (y # xs)"

text \<open>\<open>indexOf\<close> and \<open>lastIndexOf\<close> for one element; \<open>None\<close> stands for \<open>-1\<close>.\<close>

fun index_of :: "'a \<Rightarrow> 'a list \<Rightarrow> nat option" where
  "index_of x [] = None"
| "index_of x (y # ys) = (if x = y then Some 0 else map_option Suc (index_of x ys))"

fun last_index_of :: "'a \<Rightarrow> 'a list \<Rightarrow> nat option" where
  "last_index_of x [] = None"
| "last_index_of x (y # ys) =
     (case last_index_of x ys of Some i \<Rightarrow> Some (Suc i) | None \<Rightarrow> if x = y then Some 0 else None)"

definition starts_with :: "string \<Rightarrow> string \<Rightarrow> bool" where
  "starts_with s p \<longleftrightarrow> take (length p) s = p"

definition ends_with :: "string \<Rightarrow> string \<Rightarrow> bool" where
  "ends_with s p \<longleftrightarrow> length p \<le> length s \<and> drop (length s - length p) s = p"

text \<open>\<open>[...new Set(xs)]\<close>: the first occurrence of every element, in order.\<close>

fun js_uniq :: "'a list \<Rightarrow> 'a list" where
  "js_uniq [] = []"
| "js_uniq (x # xs) = x # filter (\<lambda>y. y \<noteq> x) (js_uniq xs)"

text \<open>Decimal notation: \<open>String(n)\<close> of a non-negative integer, \<open>padStart\<close>, and
  \<open>Number(s)\<close> of a string of decimal digits.\<close>

definition digit_char :: "nat \<Rightarrow> char" where
  "digit_char d = ''0123456789'' ! d"

definition digit_value :: "char \<Rightarrow> nat" where
  "digit_value c = of_char c - 48"

fun show_nat :: "nat \<Rightarrow> string" where
  "show_nat n = (if n < 10 then [digit_char n] else show_nat (n div 10) @ [digit_char (n mod 10)])"

declare show_nat.simps [simp del]

definition show_int :: "int \<Rightarrow> string" where
  "show_int n = (if n < 0 then CHR ''-'' # show_nat (nat (- n)) else show_nat (nat n))"

definition read_nat :: "string \<Rightarrow> nat" where
  "read_nat s = foldl (\<lambda>n c. 10 * n + digit_value c) 0 s"

definition pad_start :: "nat \<Rightarrow> char \<Rightarrow> string \<Rightarrow> string" where
  "pad_start n c s = replicate (n - length s) c @ s"

section \<open>JSON values\<close>

datatype json =
    JNull
  | JBool bool
  | JNum int
  | JStr string
  | JArr "json list"
  | JObj "(string \<times> json) list"

text \<open>Property access \<open>v.name\<close>; a missing property, and a property of a non-object, is
  \<open>undefined\<close>.\<close>

fun jget :: "json \<Rightarrow> string \<Rightarrow> json option" where
  "jget (JObj fs) k = map_of fs k"
| "jget _ k = None"

fun truthy :: "json option \<Rightarrow> bool" where
  "truthy None = False"
| "truthy (Some JNull) = False"
| "truthy (Some (JBool b)) = b"
| "truthy (Some (JNum n)) = (n \<noteq> 0)"
| "truthy (Some (JStr s)) = (s \<noteq> [])"
| "truthy (Some (JArr xs)) = True"
| "truthy (Some (JObj fs)) = True"

fun as_str :: "json option \<Rightarrow> string option" where
  "as_str (Some (JStr s)) = Some s"
| "as_str _ = None"

fun as_num :: "json option \<Rightarrow> int option" where
  "as_num (Some (JNum n)) = Some n"
| "as_num _ = None"

fun as_bool :: "json option \<Rightarrow> bool option" where
  "as_bool (Some (JBool b)) = Some b"
| "as_bool _ = None"

text \<open>An object literal, whose \<open>undefined\<close> properties read as absent; the update of one property, as in
  \<open>{...o, k: v}\<close>; and the object without some properties, as in a rest pattern.\<close>

fun jobj :: "(string \<times> json option) list \<Rightarrow> json" where
  "jobj fs = JObj (map (\<lambda>(k, v). (k, the v)) (filter (\<lambda>(k, v). v \<noteq> None) fs))"

fun jput :: "json \<Rightarrow> string \<Rightarrow> json option \<Rightarrow> json" where
  "jput (JObj fs) k None = JObj (AList.delete k fs)"
| "jput (JObj fs) k (Some v) = JObj (AList.update k v fs)"
| "jput j k v = j"

fun jputs :: "json \<Rightarrow> (string \<times> json option) list \<Rightarrow> json" where
  "jputs j [] = j"
| "jputs j ((k, v) # rest) = jputs (jput j k v) rest"

definition jstrs :: "string list \<Rightarrow> json" where
  "jstrs xs = JArr (map JStr xs)"

fun as_strs :: "json option \<Rightarrow> string list" where
  "as_strs (Some (JArr xs)) = List.map_filter (\<lambda>j. as_str (Some j)) xs"
| "as_strs _ = []"

text \<open>\<open>String(v)\<close>, and the elements of a value that the code iterates: an array, or the characters of a
  string.\<close>

fun js_text :: "json \<Rightarrow> string" where
  "js_text JNull = ''null''"
| "js_text (JBool b) = (if b then ''true'' else ''false'')"
| "js_text (JNum n) = show_int n"
| "js_text (JStr s) = s"
| "js_text (JArr xs) = join '','' (map (\<lambda>x. if x = JNull then [] else js_text x) xs)"
| "js_text (JObj fs) = ''[object Object]''"

fun js_elements :: "json option \<Rightarrow> string list" where
  "js_elements (Some (JArr xs)) = map js_text xs"
| "js_elements (Some (JStr s)) = map (\<lambda>c. [c]) s"
| "js_elements _ = []"

text \<open>\<open>a || b\<close> and \<open>a ?? b\<close> on values.\<close>

definition jor :: "json option \<Rightarrow> json option \<Rightarrow> json option" where
  "jor a b = (if truthy a then a else b)"

definition jnull :: "json option \<Rightarrow> json option \<Rightarrow> json option" where
  "jnull a b = (if a = None \<or> a = Some JNull then b else a)"

fun is_obj :: "json \<Rightarrow> bool" where
  "is_obj (JObj _) = True"
| "is_obj _ = False"

text \<open>Truthiness of an optional string, as in \<open>if (!value)\<close>.\<close>

definition str_truthy :: "string option \<Rightarrow> bool" where
  "str_truthy v \<longleftrightarrow> v \<noteq> None \<and> v \<noteq> Some []"

text \<open>\<open>value || fallback\<close> and \<open>value ?? fallback\<close> on optional strings.\<close>

definition or_str :: "string option \<Rightarrow> string \<Rightarrow> string" where
  "or_str v d = (case v of None \<Rightarrow> d | Some s \<Rightarrow> if s = [] then d else s)"

definition coalesce :: "'a option \<Rightarrow> 'a \<Rightarrow> 'a" where
  "coalesce v d = (case v of None \<Rightarrow> d | Some x \<Rightarrow> x)"

section \<open>Results\<close>

type_synonym ('e, 'a) result = "'e + 'a"

definition is_ok :: "('e, 'a) result \<Rightarrow> bool" where
  "is_ok r \<longleftrightarrow> (case r of Inl _ \<Rightarrow> False | Inr _ \<Rightarrow> True)"

text \<open>Sequencing of statements that may throw, and \<open>try\<close> with a handler.\<close>

definition rbind :: "('e, 'a) result \<Rightarrow> ('a \<Rightarrow> ('e, 'b) result) \<Rightarrow> ('e, 'b) result" where
  "rbind r f = (case r of Inl e \<Rightarrow> Inl e | Inr x \<Rightarrow> f x)"

definition ok_or :: "bool \<Rightarrow> 'e \<Rightarrow> ('e, unit) result" where
  "ok_or b e = (if b then Inr () else Inl e)"

definition rescue :: "('e \<Rightarrow> ('f, 'a) result) \<Rightarrow> ('e, 'a) result \<Rightarrow> ('f, 'a) result" where
  "rescue h r = (case r of Inl e \<Rightarrow> h e | Inr x \<Rightarrow> Inr x)"

lemma rbind_simps [simp]: "rbind (Inl e) f = Inl e" "rbind (Inr x) f = f x"
  by (simp_all add: rbind_def)

lemma rescue_simps [simp]: "rescue h (Inl e) = h e" "rescue h (Inr x) = Inr x"
  by (simp_all add: rescue_def)

lemma rbind_Inr_iff [simp]: "rbind r f = Inr y \<longleftrightarrow> (\<exists>x. r = Inr x \<and> f x = Inr y)"
  by (cases r) auto

lemma rbind_Inl_iff: "rbind r f = Inl e \<longleftrightarrow> r = Inl e \<or> (\<exists>x. r = Inr x \<and> f x = Inl e)"
  by (cases r) auto

lemma ok_or_Inr [simp]: "ok_or b e = Inr u \<longleftrightarrow> b"
  by (simp add: ok_or_def)

lemma ok_or_Inl [simp]: "ok_or b e = Inl e' \<longleftrightarrow> \<not> b \<and> e' = e"
  by (auto simp: ok_or_def)

section \<open>Facts on the string operations\<close>

lemma lower_char_idem [simp]: "lower_char (lower_char c) = lower_char c"
proof -
  have "lower_char (lower_char c) = lower_char c" if "c = Char b0 b1 b2 b3 b4 b5 b6 b7"
    for b0 b1 b2 b3 b4 b5 b6 b7
    unfolding that by (cases b0; cases b1; cases b2; cases b3; cases b4; cases b5; cases b6;
      cases b7) (simp_all add: is_upper_def)
  then show ?thesis by (cases c) blast
qed

lemma to_lower_simps [simp]:
  "to_lower [] = []"
  "to_lower (c # cs) = lower_char c # to_lower cs"
  "to_lower (s @ t) = to_lower s @ to_lower t"
  "length (to_lower s) = length s"
  "to_lower (to_lower s) = to_lower s"
  "to_lower s = [] \<longleftrightarrow> s = []"
  by (simp_all add: to_lower_def)

lemma to_upper_simps [simp]:
  "to_upper [] = []"
  "to_upper (c # cs) = upper_char c # to_upper cs"
  "to_upper (s @ t) = to_upper s @ to_upper t"
  "length (to_upper s) = length s"
  by (simp_all add: to_upper_def)

lemma lower_char_eq_iff: "lower_char c = d \<longleftrightarrow> c = d"
  if "\<not> is_upper d" "\<not> is_lower d"
proof -
  have "lower_char c = d \<longleftrightarrow> c = d" if "c = Char b0 b1 b2 b3 b4 b5 b6 b7"
    for b0 b1 b2 b3 b4 b5 b6 b7
    using \<open>\<not> is_upper d\<close> \<open>\<not> is_lower d\<close> unfolding that
    by (cases b0; cases b1; cases b2; cases b3; cases b4; cases b5; cases b6;
      cases b7) (auto simp: is_upper_def is_lower_def)
  then show ?thesis by (cases c) blast
qed

lemma in_set_to_lower_iff:
  assumes "\<not> is_upper d" "\<not> is_lower d"
  shows "d \<in> set (to_lower s) \<longleftrightarrow> d \<in> set s"
proof -
  have "d = lower_char c \<longleftrightarrow> d = c" for c
    using lower_char_eq_iff [OF assms, of c] by metis
  then show ?thesis
    by (induction s) auto
qed

lemma split_on_not_Nil [simp]: "split_on d s \<noteq> []"
  by (induction s) (auto split: list.splits)

lemma join_split_on: "join [d] (split_on d s) = s"
proof (induction s)
  case (Cons c cs)
  obtain p ps where p: "split_on d cs = p # ps"
    using split_on_not_Nil by (cases "split_on d cs") auto
  with Cons show ?case by (cases ps) auto
qed simp

lemma split_on_parts: "p \<in> set (split_on d s) \<Longrightarrow> d \<notin> set p"
  by (induction s arbitrary: p) (force split: if_splits list.splits)+

lemma split_on_no_sep [simp]: "d \<notin> set s \<Longrightarrow> split_on d s = [s]"
  by (induction s) auto

lemma split_on_append_sep: "d \<notin> set p \<Longrightarrow> split_on d (p @ d # s) = p # split_on d s"
  by (induction p) auto

lemma split_on_join:
  "xs \<noteq> [] \<Longrightarrow> (\<And>x. x \<in> set xs \<Longrightarrow> d \<notin> set x) \<Longrightarrow> split_on d (join [d] xs) = xs"
proof (induction "[d]" xs rule: join.induct)
  case (3 x y xs)
  then show ?case by (simp add: split_on_append_sep)
qed auto

lemma last_index_of_None [simp]: "last_index_of x xs = None \<longleftrightarrow> x \<notin> set xs"
  by (induction xs) (auto split: option.splits)

lemma last_index_of_Some:
  "last_index_of x xs = Some i \<Longrightarrow>
     i < length xs \<and> xs ! i = x \<and> x \<notin> set (drop (Suc i) xs)"
  by (induction xs arbitrary: i) (auto split: option.splits if_splits)

lemma last_index_of_split:
  "last_index_of x xs = Some i \<longleftrightarrow>
     (\<exists>ys zs. xs = ys @ x # zs \<and> length ys = i \<and> x \<notin> set zs)"
proof
  assume "last_index_of x xs = Some i"
  then have "i < length xs" "xs ! i = x" "x \<notin> set (drop (Suc i) xs)"
    using last_index_of_Some by metis+
  moreover from this have "xs = take i xs @ x # drop (Suc i) xs" "length (take i xs) = i"
    using id_take_nth_drop [of i xs] by simp_all
  ultimately show "\<exists>ys zs. xs = ys @ x # zs \<and> length ys = i \<and> x \<notin> set zs"
    by blast
next
  assume "\<exists>ys zs. xs = ys @ x # zs \<and> length ys = i \<and> x \<notin> set zs"
  then obtain ys zs where "xs = ys @ x # zs" "length ys = i" "x \<notin> set zs" by blast
  then have "last_index_of x (x # zs) = Some 0" by (simp split: option.splits)
  then have "last_index_of x (ys @ x # zs) = Some (length ys)" for ys
    by (induction ys) auto
  with \<open>xs = _\<close> \<open>length ys = i\<close> show "last_index_of x xs = Some i" by simp
qed

lemma index_of_None [simp]: "index_of x xs = None \<longleftrightarrow> x \<notin> set xs"
  by (induction xs) auto

lemma index_of_Some_iff:
  "index_of x xs = Some i \<longleftrightarrow> i < length xs \<and> xs ! i = x \<and> x \<notin> set (take i xs)"
proof (induction xs arbitrary: i)
  case (Cons y ys)
  then show ?case by (cases i) auto
qed simp

lemma index_of_nth: "distinct xs \<Longrightarrow> i < length xs \<Longrightarrow> index_of (xs ! i) xs = Some i"
proof -
  assume "distinct xs" "i < length xs"
  then have "xs ! i \<notin> set (take i xs)"
    by (auto simp: in_set_conv_nth nth_eq_iff_index_eq)
  with \<open>i < length xs\<close> show ?thesis by (simp add: index_of_Some_iff)
qed

lemma ends_with_suffix: "ends_with s p \<longleftrightarrow> suffix p s"
proof
  assume "ends_with s p"
  then show "suffix p s"
    unfolding ends_with_def suffix_def by (metis append_take_drop_id)
qed (auto simp: ends_with_def suffix_def)

lemma starts_with_prefix: "starts_with s p \<longleftrightarrow> prefix p s"
proof
  assume "starts_with s p"
  then show "prefix p s"
    unfolding starts_with_def prefix_def by (metis append_take_drop_id)
qed (auto simp: starts_with_def prefix_def)

lemma set_js_uniq [simp]: "set (js_uniq xs) = set xs"
  by (induction xs) auto

lemma distinct_js_uniq [simp]: "distinct (js_uniq xs)"
  by (induction xs) auto

lemma length_js_uniq: "length (js_uniq xs) \<le> length xs"
  by (induction xs) (auto intro: order_trans [OF length_filter_le])

lemma fields_no_sep: "w \<in> set (fields sep s) \<Longrightarrow> w \<noteq> [] \<and> (\<forall>c\<in>set w. \<not> sep c)"
proof (induction sep s rule: fields.induct)
  case (2 sep c cs)
  show ?case
  proof (cases "sep c")
    case True
    with 2 show ?thesis by simp
  next
    case False
    with "2.prems" consider "w = c # takeWhile (\<lambda>x. \<not> sep x) cs"
      | "w \<in> set (fields sep (dropWhile (\<lambda>x. \<not> sep x) cs))" by auto
    then show ?thesis
    proof cases
      case 1
      with False show ?thesis by (auto dest: set_takeWhileD)
    next
      case 2
      with False "2.IH"(2) show ?thesis by blast
    qed
  qed
qed simp

section \<open>Facts on decimal notation\<close>

lemma digit_char_facts:
  "d < 10 \<Longrightarrow> is_digit (digit_char d) \<and> digit_value (digit_char d) = d"
proof -
  assume "d < 10"
  then have "d \<in> set [0, 1, 2, 3, 4, 5, 6, 7, 8, 9]" by auto
  then show ?thesis
    by (auto simp: digit_char_def digit_value_def is_digit_def)
qed

lemma show_nat_digits: "c \<in> set (show_nat n) \<Longrightarrow> is_digit c"
proof (induction n rule: show_nat.induct)
  case (1 n)
  then show ?case
    by (subst (asm) (2) show_nat.simps) (auto simp: digit_char_facts split: if_splits)
qed

lemma read_show_nat [simp]: "read_nat (show_nat n) = n"
proof (induction n rule: show_nat.induct)
  case (1 n)
  then show ?case
    by (subst show_nat.simps) (auto simp: read_nat_def digit_char_facts)
qed

lemma digit_char_value: "is_digit c \<Longrightarrow> digit_char (digit_value c) = c \<and> digit_value c < 10"
proof -
  assume "is_digit c"
  then obtain n :: nat where n: "of_char c = n" "48 \<le> n" "n < 58" by (simp add: is_digit_def)
  then have "n \<in> {48, 49, 50, 51, 52, 53, 54, 55, 56, 57}" by simp arith
  moreover have "c = char_of n" using n(1) by (metis char_of_char)
  ultimately show ?thesis using n(1) by (auto simp: digit_char_def digit_value_def char_of_def bit_iff_odd)
qed

lemma read_nat_snoc: "read_nat (s @ [c]) = 10 * read_nat s + digit_value c"
  by (simp add: read_nat_def)

text \<open>A text of digits is a numeral after some zeros.\<close>

lemma digits_padded:
  "list_all is_digit s \<Longrightarrow> s \<noteq> [] \<Longrightarrow> \<exists>k. s = replicate k CHR ''0'' @ show_nat (read_nat s)"
proof (induction s rule: rev_induct)
  case (snoc c s)
  from snoc.prems have c: "digit_char (digit_value c) = c" "digit_value c < 10" using digit_char_value [of c] by auto
  show ?case
  proof (cases "s = []")
    case True
    then show ?thesis using c by (intro exI [of _ 0]) (simp add: read_nat_def show_nat.simps [of "digit_value c"])
  next
    case False
    with snoc obtain k where k: "s = replicate k CHR ''0'' @ show_nat (read_nat s)" by auto
    show ?thesis
    proof (cases "read_nat s = 0")
      case True
      then have "show_nat (read_nat s) = ''0''" by (simp add: show_nat.simps [of 0] digit_char_def)
      with k have "s @ [c] = replicate (Suc k) CHR ''0'' @ [c]" by (simp add: replicate_append_same)
      moreover have "show_nat (read_nat (s @ [c])) = [c]"
        using True c by (simp add: read_nat_snoc show_nat.simps [of "digit_value c"])
      ultimately show ?thesis by (intro exI [of _ "Suc k"]) simp
    next
      case False
      then have "show_nat (read_nat (s @ [c])) = show_nat (read_nat s) @ [c]"
        using c by (subst show_nat.simps) (simp add: read_nat_snoc)
      with k show ?thesis by (intro exI [of _ k]) simp
    qed
  qed
qed simp

lemma read_nat_padded: "read_nat (replicate k CHR ''0'' @ s) = read_nat s"
  by (induction k) (simp_all add: read_nat_def digit_value_def)

lemma show_nat_not_Nil [simp]: "show_nat n \<noteq> []"
  by (subst show_nat.simps) simp

lemma show_nat_inj [simp]: "show_nat m = show_nat n \<longleftrightarrow> m = n"
  by (metis read_show_nat)

lemma length_show_nat: "n < 10 ^ k \<Longrightarrow> 0 < k \<Longrightarrow> length (show_nat n) \<le> k"
proof (induction n arbitrary: k rule: show_nat.induct)
  case (1 n)
  show ?case
  proof (cases "n < 10")
    case True
    with "1.prems" show ?thesis by (subst show_nat.simps) simp
  next
    case False
    with "1.prems" obtain j where k: "k = Suc j" "0 < j"
      by (cases k; cases "k = 1") auto
    with "1.prems" have "n div 10 < 10 ^ j" by (simp add: less_mult_imp_div_less)
    with "1.IH" False k have "length (show_nat (n div 10)) \<le> j" by blast
    with False k show ?thesis by (subst show_nat.simps) simp
  qed
qed

lemma length_pad_start: "length (pad_start n c s) = max n (length s)"
  by (simp add: pad_start_def)

section \<open>Facts on insertion-ordered maps\<close>

lemma update_fresh:
  "k \<notin> fst ` set m \<Longrightarrow> AList.update k v m = m @ [(k, v)]"
  by (induction m) auto

lemma length_update_le: "length (AList.update k v m) \<le> Suc (length m)"
  by (induction m) auto

lemma length_update_present:
  "k \<in> fst ` set m \<Longrightarrow> length (AList.update k v m) = length m"
  by (induction m) auto

lemma map_of_filter_keep:
  "distinct (map fst m) \<Longrightarrow> map_of (filter P m) k =
     (case map_of m k of Some v \<Rightarrow> if P (k, v) then Some v else None | None \<Rightarrow> None)"
  by (induction m) (auto split: option.splits simp: map_of_eq_None_iff image_iff
      dest: map_of_SomeD)

lemma distinct_filter_fst: "distinct (map fst m) \<Longrightarrow> distinct (map fst (filter P m))"
  by (simp add: distinct_map_filter)

lemmas js_map_laws [js_map_simps] =
  update_conv' distinct_update map_of_filter_keep distinct_filter_fst

section \<open>Facts on objects\<close>

lemma jget_jobj_Nil [simp]: "jget (jobj []) k = None"
  by simp

lemma jget_jobj_Cons [simp]:
  "jget (jobj ((k, v) # fs)) k' = (if k = k' \<and> v \<noteq> None then v else jget (jobj fs) k')"
  by auto

lemma is_obj_jobj [simp]: "is_obj (jobj fs)"
  by simp

lemma is_obj_jput [simp]: "is_obj (jput j k v) \<longleftrightarrow> is_obj j"
  by (cases j; cases v) simp_all

lemma jget_jput [simp]: "is_obj j \<Longrightarrow> jget (jput j k v) k' = (if k = k' then v else jget j k')"
  by (cases j; cases v) (auto simp: update_conv' delete_conv')

lemma jget_jput_other: "k' \<noteq> k \<Longrightarrow> jget (jput j k v) k' = jget j k'"
  by (cases j; cases v) (simp_all add: delete_conv' update_conv')

lemma is_obj_jputs [simp]: "is_obj (jputs j fs) \<longleftrightarrow> is_obj j"
  by (induction j fs rule: jputs.induct) simp_all

lemma jget_jputs_other: "is_obj j \<Longrightarrow> k \<notin> fst ` set fs \<Longrightarrow> jget (jputs j fs) k = jget j k"
  by (induction j fs rule: jputs.induct) auto

lemma is_obj_jget: "jget j k \<noteq> None \<Longrightarrow> is_obj j"
  by (cases j) auto

lemma as_strs_jstrs [simp]: "as_strs (Some (jstrs xs)) = xs"
  by (induction xs) (simp_all add: jstrs_def map_filter_simps)

declare jobj.simps [simp del]

end
