(* ===== verification/Bytes.thy ===== *)
theory Bytes
  imports Prelude "HOL-Library.Word"
begin

text \<open>
  The byte helpers of \<^verbatim>\<open>src/util/bytes.js\<close>: base64url and base64, hexadecimal, concatenation
  and the constant-time comparison. A byte is an \<open>8 word\<close>; the bit operators of JavaScript work
  on 32-bit integers, so the accumulators are \<open>32 word\<close> values, with \<open>>>\<close> the arithmetic
  shift \<open>signed_drop_bit\<close>. The locale \<open>text_code\<close> is the contract of an encoder and its
  decoder; base64url, base64 and hexadecimal are interpretations of it.
\<close>

unbundle bit_operations_syntax

type_synonym byte = "8 word"
type_synonym bytes = "byte list"
type_synonym int32 = "32 word"

section \<open>Base64url\<close>

definition B64_ALPHA :: string where
  "B64_ALPHA = ''ABCDEFGHIJKLMNOPQRSTUVWXYZabcdefghijklmnopqrstuvwxyz0123456789+/''"

definition u32 :: "byte \<Rightarrow> int32" where
  "u32 b = ucast b"

definition alpha_at :: "int32 \<Rightarrow> char" where
  "alpha_at i = B64_ALPHA ! unat i"

text \<open>The loop of \<open>b64u\<close>: three bytes per turn, leaving at the first missing one.\<close>

fun b64_chunks :: "bytes \<Rightarrow> string" where
  "b64_chunks [] = []"
| "b64_chunks [b0] =
     [alpha_at (drop_bit 2 (u32 b0)), alpha_at (push_bit 4 (u32 b0 AND 3) OR drop_bit 4 0)]"
| "b64_chunks [b0, b1] =
     [alpha_at (drop_bit 2 (u32 b0)),
      alpha_at (push_bit 4 (u32 b0 AND 3) OR drop_bit 4 (u32 b1)),
      alpha_at (push_bit 2 (u32 b1 AND 15) OR drop_bit 6 0)]"
| "b64_chunks (b0 # b1 # b2 # bs) =
     alpha_at (drop_bit 2 (u32 b0)) #
     alpha_at (push_bit 4 (u32 b0 AND 3) OR drop_bit 4 (u32 b1)) #
     alpha_at (push_bit 2 (u32 b1 AND 15) OR drop_bit 6 (u32 b2)) #
     alpha_at (u32 b2 AND 63) # b64_chunks bs"

definition replace_char :: "char \<Rightarrow> char \<Rightarrow> string \<Rightarrow> string" where
  "replace_char a b s = map (\<lambda>c. if c = a then b else c) s"

definition b64u :: "bytes \<Rightarrow> string" where
  "b64u input =
     replace_char (CHR ''/'') (CHR ''_'') (replace_char (CHR ''+'') (CHR ''-'') (b64_chunks input))"

definition strip_trailing :: "char \<Rightarrow> string \<Rightarrow> string" where
  "strip_trailing c s = rev (dropWhile (\<lambda>x. x = c) (rev s))"

definition js_index :: "char \<Rightarrow> string \<Rightarrow> int32" where
  "js_index c s = (case index_of c s of Some i \<Rightarrow> of_nat i | None \<Rightarrow> - 1)"

text \<open>The decoding loop: the accumulator and the number of bits it holds beyond the bytes
  already written.\<close>

fun unb64_loop :: "int32 \<Rightarrow> nat \<Rightarrow> string \<Rightarrow> bytes" where
  "unb64_loop acc bits [] = []"
| "unb64_loop acc bits (ch # chs) =
     (let acc' = push_bit 6 acc OR js_index ch B64_ALPHA; bits' = bits + 6
      in if bits' \<ge> 8
         then ucast (signed_drop_bit (bits' - 8) acc' AND 255) # unb64_loop acc' (bits' - 8) chs
         else unb64_loop acc' bits' chs)"

definition unb64u :: "string \<Rightarrow> (string, bytes) result" where
  "unb64u str =
     (let norm = strip_trailing (CHR ''='')
                   (replace_char (CHR ''_'') (CHR ''/'') (replace_char (CHR ''-'') (CHR ''+'') str))
      in if \<not> list_all (\<lambda>c. is_alnum c \<or> c = CHR ''+'' \<or> c = CHR ''/'') norm
         then Inl ''invalid base64url''
         else Inr (unb64_loop 0 0 norm))"

section \<open>Base64 and hexadecimal\<close>

definition b64 :: "bytes \<Rightarrow> string" where
  "b64 input =
     (let s = replace_char (CHR ''_'') (CHR ''/'') (replace_char (CHR ''-'') (CHR ''+'') (b64u input))
      in s @ replicate ((4 - length s mod 4) mod 4) (CHR ''=''))"

definition unb64 :: "string \<Rightarrow> (string, bytes) result" where
  "unb64 str =
     unb64u (replace_char (CHR ''/'') (CHR ''_'') (replace_char (CHR ''+'') (CHR ''-'') str))"

definition HEX_DIGITS :: string where
  "HEX_DIGITS = ''0123456789abcdef''"

text \<open>\<open>b.toString(16).padStart(2, '0')\<close> of one byte.\<close>

definition hex_byte :: "byte \<Rightarrow> string" where
  "hex_byte b = [HEX_DIGITS ! (unat b div 16), HEX_DIGITS ! (unat b mod 16)]"

definition toHex :: "bytes \<Rightarrow> string" where
  "toHex bs = concat (map hex_byte bs)"

definition hex_value :: "char \<Rightarrow> nat" where
  "hex_value c = coalesce (index_of c HEX_DIGITS) 0"

fun hex_pairs :: "string \<Rightarrow> bytes" where
  "hex_pairs (a # b # cs) = of_nat (16 * hex_value a + hex_value b) # hex_pairs cs"
| "hex_pairs _ = []"

definition fromHex :: "string \<Rightarrow> (string, bytes) result" where
  "fromHex hex =
     (let clean = to_lower (trim hex)
      in if length clean mod 2 \<noteq> 0 \<or> \<not> list_all (\<lambda>c. c \<in> set HEX_DIGITS) clean
         then Inl ''invalid hex'' else Inr (hex_pairs clean))"

section \<open>Concatenation and comparison\<close>

definition concat_bytes :: "bytes list \<Rightarrow> bytes" where
  "concat_bytes parts = concat parts"

definition byte_at :: "bytes \<Rightarrow> nat \<Rightarrow> int32" where
  "byte_at bs i = (if i < length bs then u32 (bs ! i) else 0)"

definition timingSafeEqual :: "bytes \<Rightarrow> bytes \<Rightarrow> bool" where
  "timingSafeEqual ba bb =
     (let n = max (length ba) (length bb)
      in fold (\<lambda>i diff. diff OR (byte_at ba i XOR byte_at bb i)) [0..<n]
           (of_nat (length ba) XOR of_nat (length bb)) = 0)"

text \<open>\<open>utf8\<close> of an ASCII string.\<close>

definition utf8 :: "string \<Rightarrow> bytes" where
  "utf8 s = map (\<lambda>c. of_nat (of_char c)) s"

section \<open>The contract of a text encoding\<close>

text \<open>An encoder into strings and its decoder: decoding an encoding returns the value. The
  clients need two consequences: encodings of different values differ, and a decoder accepts every
  encoding.\<close>

locale text_code =
  fixes enc :: "'a \<Rightarrow> string" and dec :: "string \<Rightarrow> (string, 'a) result" and ok :: "'a \<Rightarrow> bool"
  assumes dec_enc: "ok x \<Longrightarrow> dec (enc x) = Inr x"
begin

lemma enc_inj: "ok x \<Longrightarrow> ok y \<Longrightarrow> enc x = enc y \<Longrightarrow> x = y"
  by (metis dec_enc Inr_inject)

lemma enc_accepted: "ok x \<Longrightarrow> is_ok (dec (enc x))"
  by (simp add: dec_enc is_ok_def)

lemma enc_list_inj:
  "list_all ok xs \<Longrightarrow> list_all ok ys \<Longrightarrow> map enc xs = map enc ys \<Longrightarrow> xs = ys"
proof (induction xs arbitrary: ys)
  case (Cons x xs)
  then show ?case by (cases ys) (auto dest: enc_inj)
qed simp

end

section \<open>Base64url round trip\<close>

lemma distinct_B64_ALPHA: "distinct B64_ALPHA"
  by (simp add: B64_ALPHA_def)

lemma length_B64_ALPHA: "length B64_ALPHA = 64"
  by (simp add: B64_ALPHA_def)

lemma js_index_alpha_at: "i < 64 \<Longrightarrow> js_index (alpha_at i) B64_ALPHA = i"
  using index_of_nth [OF distinct_B64_ALPHA, of "unat i"]
  by (simp add: js_index_def alpha_at_def length_B64_ALPHA word_less_nat_alt)

lemma u32_bit: "bit (u32 b) n \<longleftrightarrow> n < 8 \<and> bit b n"
  by (auto simp: u32_def bit_simps dest: bit_imp_le_length)

lemma lt64I: "(\<And>n. 6 \<le> n \<Longrightarrow> \<not> bit x n) \<Longrightarrow> (x::int32) < 64"
proof -
  assume high: "\<And>n. 6 \<le> n \<Longrightarrow> \<not> bit x n"
  have "x = take_bit 6 x"
  proof (rule bit_word_eqI)
    fix n show "bit x n = bit (take_bit 6 x) n"
      using high [of n] by (cases "6 \<le> n") (auto simp: bit_simps)
  qed
  then have "unat x = take_bit 6 (unat x)"
    by (metis unsigned_take_bit_eq)
  then have "unat x < 2 ^ 6"
    by (metis take_bit_nat_less_exp)
  then show ?thesis by (simp add: word_less_nat_alt)
qed

lemma bit_shifted_mask:
  "bit (push_bit k (mask m) :: int) n \<longleftrightarrow> k \<le> n \<and> n < k + m"
  by (auto simp: bit_push_bit_iff bit_mask_iff)

lemma bit_consts [simp]:
  "bit (3::int) n \<longleftrightarrow> n < 2" "bit (15::int) n \<longleftrightarrow> n < 4"
  "bit (63::int) n \<longleftrightarrow> n < 6" "bit (255::int) n \<longleftrightarrow> n < 8"
  "bit (48::int) n \<longleftrightarrow> 4 \<le> n \<and> n < 6" "bit (60::int) n \<longleftrightarrow> 2 \<le> n \<and> n < 6"
proof -
  have c: "(3::int) = push_bit 0 (mask 2)" "(15::int) = push_bit 0 (mask 4)"
    "(63::int) = push_bit 0 (mask 6)" "(255::int) = push_bit 0 (mask 8)"
    "(48::int) = push_bit 4 (mask 2)" "(60::int) = push_bit 2 (mask 4)"
    by (simp_all add: mask_eq_exp_minus_1)
  show "bit (3::int) n \<longleftrightarrow> n < 2" unfolding c(1) bit_shifted_mask by auto
  show "bit (15::int) n \<longleftrightarrow> n < 4" unfolding c(2) bit_shifted_mask by auto
  show "bit (63::int) n \<longleftrightarrow> n < 6" unfolding c(3) bit_shifted_mask by auto
  show "bit (255::int) n \<longleftrightarrow> n < 8" unfolding c(4) bit_shifted_mask by auto
  show "bit (48::int) n \<longleftrightarrow> 4 \<le> n \<and> n < 6" unfolding c(5) bit_shifted_mask by auto
  show "bit (60::int) n \<longleftrightarrow> 2 \<le> n \<and> n < 6" unfolding c(6) bit_shifted_mask by auto
qed

lemma sextets_lt64:
  "drop_bit 2 (u32 b0) < 64"
  "push_bit 4 (u32 b0 AND 3) OR drop_bit 4 (u32 b1) < 64"
  "push_bit 2 (u32 b1 AND 15) OR drop_bit 6 (u32 b2) < 64"
  "u32 b2 AND 63 < 64"
  "push_bit 4 (u32 b0 AND 3) < 64"
  "push_bit 2 (u32 b1 AND 15) < 64"
  by (auto intro!: lt64I simp: bit_simps u32_bit)

lemma suc_diff: "2 \<le> n \<Longrightarrow> Suc (Suc (n - Suc (Suc 0))) = n" "2 \<le> n \<Longrightarrow> 2 + (n - 2) = (n::nat)"
  "4 \<le> n \<Longrightarrow> 4 + (n - 4) = (n::nat)" "6 \<le> n \<Longrightarrow> 6 + (n - 6) = (n::nat)"
  by simp_all

text \<open>The three bytes that four sextets give back, whatever the accumulator held before.\<close>

lemma decode_byte0:
  assumes "\<And>n. 4 \<le> n \<Longrightarrow> \<not> bit (x::int32) n"
  shows "ucast (signed_drop_bit 4
     (push_bit 6 (push_bit 6 acc OR drop_bit 2 (u32 b0)) OR
      (push_bit 4 (u32 b0 AND 3) OR x)) AND 255) = b0"
proof (rule bit_word_eqI)
  fix n assume "n < LENGTH(8)"
  then show "bit (ucast (signed_drop_bit 4
     (push_bit 6 (push_bit 6 acc OR drop_bit 2 (u32 b0)) OR
      (push_bit 4 (u32 b0 AND 3) OR x)) AND 255) :: byte) n = bit b0 n"
    using assms [of "n + 4"]
    by (cases "2 \<le> n") (auto simp: bit_simps u32_bit add.commute suc_diff)
qed

lemma decode_byte1:
  assumes "\<And>n. 2 \<le> n \<Longrightarrow> \<not> bit (y::int32) n" "\<And>n. n < 4 \<Longrightarrow> \<not> bit p n"
  shows "ucast (signed_drop_bit 2
     (push_bit 6 (push_bit 6 acc OR (p OR drop_bit 4 (u32 b1))) OR
      (push_bit 2 (u32 b1 AND 15) OR y)) AND 255) = b1"
proof (rule bit_word_eqI)
  fix n assume "n < LENGTH(8)"
  then show "bit (ucast (signed_drop_bit 2
     (push_bit 6 (push_bit 6 acc OR (p OR drop_bit 4 (u32 b1))) OR
      (push_bit 2 (u32 b1 AND 15) OR y)) AND 255) :: byte) n = bit b1 n"
    using assms(1) [of "n + 2"] assms(2) [of "n - 4"]
    by (cases "4 \<le> n") (auto simp: bit_simps u32_bit add.commute suc_diff)
qed

lemma decode_byte2:
  assumes "\<And>n. n < 2 \<Longrightarrow> \<not> bit (q::int32) n"
  shows "ucast (signed_drop_bit 0
     (push_bit 6 (push_bit 6 acc OR (q OR drop_bit 6 (u32 b2))) OR (u32 b2 AND 63)) AND 255) = b2"
proof (rule bit_word_eqI)
  fix n assume "n < LENGTH(8)"
  then show "bit (ucast (signed_drop_bit 0
     (push_bit 6 (push_bit 6 acc OR (q OR drop_bit 6 (u32 b2))) OR (u32 b2 AND 63)) AND 255)
       :: byte) n = bit b2 n"
    using assms [of "n - 6"]
    by (cases "6 \<le> n") (auto simp: bit_simps u32_bit add.commute suc_diff)
qed

lemma low_bits:
  "4 \<le> n \<Longrightarrow> \<not> bit (drop_bit 4 (u32 b)) n"
  "2 \<le> n \<Longrightarrow> \<not> bit (drop_bit 6 (u32 b)) n"
  "n < 4 \<Longrightarrow> \<not> bit (push_bit 4 x :: int32) n"
  "n < 2 \<Longrightarrow> \<not> bit (push_bit 2 x :: int32) n"
  by (auto simp: bit_simps u32_bit)

lemmas sextet_decode = js_index_alpha_at sextets_lt64 sextets_lt64 [simplified]

lemma unb64_loop_b64_chunks: "unb64_loop acc 0 (b64_chunks bs) = bs"
proof (induction bs arbitrary: acc rule: b64_chunks.induct)
  case 1
  show ?case by simp
next
  case (2 b0)
  show ?case
    using decode_byte0 [of 0 acc b0] by (simp add: sextet_decode Let_def)
next
  case (3 b0 b1)
  show ?case
    using decode_byte0 [of "drop_bit 4 (u32 b1)" acc b0, OF low_bits(1)]
      decode_byte1 [of 0 "push_bit 4 (u32 b0 AND 3)" "push_bit 6 acc OR drop_bit 2 (u32 b0)" b1,
        OF _ low_bits(3)]
    by (simp add: sextet_decode Let_def)
next
  case (4 b0 b1 b2 bs)
  show ?case
    using decode_byte0 [of "drop_bit 4 (u32 b1)" acc b0, OF low_bits(1)]
      decode_byte1 [of "drop_bit 6 (u32 b2)" "push_bit 4 (u32 b0 AND 3)"
        "push_bit 6 acc OR drop_bit 2 (u32 b0)" b1, OF low_bits(2) low_bits(3)]
      decode_byte2 [of "push_bit 2 (u32 b1 AND 15)"
        "push_bit 6 (push_bit 6 acc OR drop_bit 2 (u32 b0)) OR
           (push_bit 4 (u32 b0 AND 3) OR drop_bit 4 (u32 b1))" b2, OF low_bits(4)] "4"
    by (simp add: sextet_decode Let_def)
qed

lemma alpha_at_in: "i < 64 \<Longrightarrow> alpha_at i \<in> set B64_ALPHA"
  by (simp add: alpha_at_def length_B64_ALPHA word_less_nat_alt)

lemma b64_chunks_alpha: "c \<in> set (b64_chunks bs) \<Longrightarrow> c \<in> set B64_ALPHA"
  by (induction bs rule: b64_chunks.induct) (auto simp: alpha_at_in sextet_decode)

lemma B64_ALPHA_all:
  "list_all (\<lambda>c. (is_alnum c \<or> c = CHR ''+'' \<or> c = CHR ''/'') \<and>
     c \<noteq> CHR ''-'' \<and> c \<noteq> CHR ''_'' \<and> c \<noteq> CHR ''='') B64_ALPHA"
  by (simp add: B64_ALPHA_def is_alnum_def is_upper_def is_lower_def is_digit_def)

lemma B64_ALPHA_char:
  "c \<in> set B64_ALPHA \<Longrightarrow> is_alnum c \<or> c = CHR ''+'' \<or> c = CHR ''/''"
  "c \<in> set B64_ALPHA \<Longrightarrow> c \<noteq> CHR ''-'' \<and> c \<noteq> CHR ''_'' \<and> c \<noteq> CHR ''=''"
  using B64_ALPHA_all unfolding list_all_iff by blast+

lemma url_safe_inverse:
  assumes "\<And>c. c \<in> set s \<Longrightarrow> c \<in> set B64_ALPHA"
  shows "replace_char (CHR ''_'') (CHR ''/'') (replace_char (CHR ''-'') (CHR ''+'')
    (replace_char (CHR ''/'') (CHR ''_'') (replace_char (CHR ''+'') (CHR ''-'') s))) = s"
  using assms by (induction s) (auto simp: replace_char_def dest: B64_ALPHA_char(2))

lemma strip_trailing_id: "c \<notin> set s \<Longrightarrow> strip_trailing c s = s"
  unfolding strip_trailing_def
  by (metis (full_types) dropWhile_eq_self_iff hd_in_set rev_rev_ident set_rev)

lemma strip_trailing_replicate: "c \<notin> set s \<Longrightarrow> strip_trailing c (s @ replicate n c) = s"
proof (induction n)
  case (Suc n)
  have "s @ replicate (Suc n) c = (s @ replicate n c) @ [c]"
    by (simp add: replicate_append_same)
  with Suc show ?case
    by (simp only: strip_trailing_def rev_append) simp
qed (simp add: strip_trailing_id)

lemma unb64u_normalised:
  assumes "\<And>c. c \<in> set s \<Longrightarrow> c \<in> set B64_ALPHA"
  shows "list_all (\<lambda>c. is_alnum c \<or> c = CHR ''+'' \<or> c = CHR ''/'') s" "CHR ''='' \<notin> set s"
  using assms B64_ALPHA_char by (auto simp: list_all_iff)

lemma unb64u_b64u [simp]: "unb64u (b64u bs) = Inr bs"
  using unb64u_normalised [of "b64_chunks bs", OF b64_chunks_alpha]
  by (simp add: unb64u_def b64u_def url_safe_inverse b64_chunks_alpha strip_trailing_id
      unb64_loop_b64_chunks)

lemma length_unb64_loop:
  "bits < 8 \<Longrightarrow> length (unb64_loop acc bits s) = (6 * length s + bits) div 8"
  by (induction s arbitrary: acc bits) (auto simp: Let_def algebra_simps div_if)

interpretation b64u: text_code b64u unb64u "\<lambda>_. True"
  by unfold_locales simp

section \<open>Base64 and hexadecimal round trips\<close>

lemma b64_eq: "b64 bs = b64_chunks bs @ replicate ((4 - length (b64_chunks bs) mod 4) mod 4) (CHR ''='')"
  by (simp add: b64_def b64u_def url_safe_inverse b64_chunks_alpha Let_def)

lemma length_b64: "length (b64 bs) mod 4 = 0"
proof -
  have "(n + (4 - n mod 4) mod 4) mod 4 = 0" for n :: nat
  proof -
    have "n mod 4 < 4" by simp
    then consider "n mod 4 = 0" | "n mod 4 = 1" | "n mod 4 = 2" | "n mod 4 = 3" by linarith
    then show ?thesis by cases (simp_all add: mod_Suc numeral_3_eq_3)
  qed
  then show ?thesis by (simp add: b64_eq)
qed

lemma replace_char_append: "replace_char a b (s @ t) = replace_char a b s @ replace_char a b t"
  by (simp add: replace_char_def)

lemma replace_char_replicate: "c \<noteq> a \<Longrightarrow> replace_char a b (replicate n c) = replicate n c"
  by (simp add: replace_char_def)

lemma unb64_b64 [simp]: "unb64 (b64 bs) = Inr bs"
  using unb64u_normalised [of "b64_chunks bs", OF b64_chunks_alpha]
  by (simp add: unb64_def b64_eq unb64u_def replace_char_append replace_char_replicate
      url_safe_inverse b64_chunks_alpha strip_trailing_replicate unb64_loop_b64_chunks)

interpretation b64: text_code b64 unb64 "\<lambda>_. True"
  by unfold_locales simp

lemma HEX_DIGITS_facts:
  "distinct HEX_DIGITS" "length HEX_DIGITS = 16"
  "c \<in> set HEX_DIGITS \<Longrightarrow> lower_char c = c \<and> \<not> is_space c"
  by (auto simp: HEX_DIGITS_def is_space_def is_upper_def)

lemma hex_value_nth: "i < 16 \<Longrightarrow> hex_value (HEX_DIGITS ! i) = i"
  by (simp add: hex_value_def index_of_nth HEX_DIGITS_facts coalesce_def)

lemma toHex_digits: "c \<in> set (toHex bs) \<Longrightarrow> c \<in> set HEX_DIGITS"
proof -
  have "unat b div 16 < 16" for b :: byte
    using unsigned_less [of b, where 'a = nat] by simp
  then show "c \<in> set (toHex bs) \<Longrightarrow> c \<in> set HEX_DIGITS"
    by (auto simp: toHex_def hex_byte_def HEX_DIGITS_facts)
qed

lemma trim_id: "(\<And>c. c \<in> set s \<Longrightarrow> \<not> is_space c) \<Longrightarrow> trim s = s"
proof -
  assume a: "\<And>c. c \<in> set s \<Longrightarrow> \<not> is_space c"
  then have "dropWhile is_space s = s" "dropWhile is_space (rev s) = rev s"
    by (metis (full_types) dropWhile_eq_self_iff hd_in_set set_rev)+
  then show ?thesis by (simp add: trim_def)
qed

lemma hex_pairs_toHex: "hex_pairs (toHex bs) = bs"
proof (induction bs)
  case (Cons b bs)
  have "unat b div 16 < 16" using unsigned_less [of b, where 'a = nat] by simp
  then have "16 * hex_value (HEX_DIGITS ! (unat b div 16)) + hex_value (HEX_DIGITS ! (unat b mod 16))
      = unat b"
    by (simp add: hex_value_nth)
  with Cons show ?case by (simp add: toHex_def hex_byte_def del: of_nat_add of_nat_mult)
qed (simp add: toHex_def)

lemma length_toHex: "length (toHex bs) = 2 * length bs"
  by (induction bs) (simp_all add: toHex_def hex_byte_def)

lemma fromHex_toHex [simp]: "fromHex (toHex bs) = Inr bs"
proof -
  have "trim (toHex bs) = toHex bs"
    by (rule trim_id) (auto dest: toHex_digits HEX_DIGITS_facts(3))
  moreover have "to_lower (toHex bs) = toHex bs"
    unfolding to_lower_def by (rule map_idI) (auto dest: toHex_digits HEX_DIGITS_facts(3))
  ultimately show ?thesis
    by (auto simp: fromHex_def hex_pairs_toHex length_toHex list_all_iff Let_def dest: toHex_digits)
qed

interpretation hex: text_code toHex fromHex "\<lambda>_. True"
  by unfold_locales simp

section \<open>The comparison\<close>

lemma fold_or_zero:
  "fold (\<lambda>i diff. diff OR f i) is d = (0::int32) \<longleftrightarrow> d = 0 \<and> (\<forall>i\<in>set is. f i = 0)"
  by (induction "is" arbitrary: d) (auto simp: or_eq_0_iff)

lemma xor_zero_iff: "(a::int32) XOR b = 0 \<longleftrightarrow> a = b"
  by (metis xor.assoc xor.left_neutral xor_self_eq)

lemma u32_inj [simp]: "u32 a = u32 b \<longleftrightarrow> a = b"
proof
  assume "u32 a = u32 b"
  then have "bit a n = bit b n" if "n < 8" for n
    using that u32_bit by metis
  then show "a = b" by (intro bit_word_eqI) simp
qed simp

lemma nth_by_byte_at:
  "length a = length b \<Longrightarrow> (\<And>i. i < length a \<Longrightarrow> byte_at a i = byte_at b i) \<Longrightarrow> a = b"
  by (rule nth_equalityI) (auto simp: byte_at_def)

lemma timingSafeEqual_iff [simp]:
  assumes "length a < 2 ^ 32" "length b < 2 ^ 32"
  shows "timingSafeEqual a b \<longleftrightarrow> a = b"
proof
  assume "timingSafeEqual a b"
  then have z: "(of_nat (length a) :: int32) = of_nat (length b)"
    "\<And>i. i < max (length a) (length b) \<Longrightarrow> byte_at a i = byte_at b i"
    by (auto simp: timingSafeEqual_def Let_def fold_or_zero xor_zero_iff)
  then have "length a = length b"
    using assms by (simp add: word_of_nat_eq_iff take_bit_nat_eq_self)
  with z(2) show "a = b" by (intro nth_by_byte_at) auto
next
  assume "a = b"
  have "fold (\<lambda>i diff. diff) xs d = d" for xs :: "nat list" and d :: int32
    by (induction xs) auto
  with \<open>a = b\<close> show "timingSafeEqual a b"
    by (simp add: timingSafeEqual_def)
qed

lemma of_char_lt: "(of_char c :: nat) < 256"
  by (metis of_char_mod_256 mod_less_divisor zero_less_numeral)

lemma utf8_inj [simp]: "utf8 a = utf8 b \<longleftrightarrow> a = b"
proof -
  have "inj (\<lambda>c. (of_nat (of_char c) :: byte))"
    using of_char_lt by (intro injI) (simp add: word_of_nat_eq_iff take_bit_nat_eq_self)
  then show ?thesis unfolding utf8_def by (rule inj_map_eq_map)
qed

lemma length_utf8 [simp]: "length (utf8 s) = length s"
  by (simp add: utf8_def)

lemma timingSafeEqual_str:
  "length a < 2 ^ 32 \<Longrightarrow> length b < 2 ^ 32 \<Longrightarrow> timingSafeEqual (utf8 a) (utf8 b) \<longleftrightarrow> a = b"
  by simp

section \<open>Properties\<close>

text \<open>Every byte string survives each of the text forms the gateway stores and sends: base64url,
  padded base64 and hexadecimal decode back to the bytes they were made from.\<close>

lemma codec_roundtrips:
  "unb64u (b64u bs) = Inr bs \<and> unb64 (b64 bs) = Inr bs \<and> fromHex (toHex bs) = Inr bs"
  by (simp add: unb64u_b64u unb64_b64 fromHex_toHex)

text \<open>The fixed-cost comparison loop, which compares byte arrays of different lengths with
  \<open>undefined ?? 0\<close> past the end of the shorter one, answers exactly equality, for arrays whose
  lengths fit the 32-bit operands of the source's \<open>^\<close>.\<close>

lemma timingSafeEqual_exact:
  "length a < 2 ^ 32 \<Longrightarrow> length b < 2 ^ 32 \<Longrightarrow> timingSafeEqual a b \<longleftrightarrow> a = b"
  by (rule timingSafeEqual_iff)

end
