(* ===== verification/Totp.thy ===== *)
theory Totp
  imports Bytes
begin

text \<open>
  RFC 6238 one-time passwords, \<^verbatim>\<open>src/local-identities/totp.js\<close>: the base32 codec of a seed, the
  code of one time step and the verification across the clock skew. The HMAC of the Web Crypto API
  is a parameter. The codec is proved against a bit-string reference, and the verification against
  the set of acceptable steps.
\<close>

unbundle bit_operations_syntax

section \<open>Base32\<close>

definition BASE32 :: string where
  "BASE32 = ''ABCDEFGHIJKLMNOPQRSTUVWXYZ234567''"

fun base32_in :: "int32 \<Rightarrow> nat \<Rightarrow> string \<Rightarrow> bytes" where
  "base32_in acc bits [] = []"
| "base32_in acc bits (ch # chs) =
     (let acc' = push_bit 5 acc OR js_index ch BASE32; bits' = bits + 5
      in if bits' \<ge> 8
         then ucast (signed_drop_bit (bits' - 8) acc' AND 255) # base32_in acc' (bits' - 8) chs
         else base32_in acc' bits' chs)"

definition decodeBase32 :: "string \<Rightarrow> (string, bytes) result" where
  "decodeBase32 value =
     (let text = strip_trailing (CHR ''='')
                   (filter (\<lambda>c. c \<noteq> CHR ''-'') (filter (\<lambda>c. c \<noteq> CHR '' '') (to_upper value)))
      in if text = [] \<or> \<not> list_all (\<lambda>c. c \<in> set BASE32) text then Inl ''invalid base32 secret''
         else (let out = base32_in 0 0 text
               in if length out < 10 then Inl ''TOTP secret must contain at least 80 bits''
                  else Inr out))"

text \<open>The inner \<open>while (bits >= 5)\<close> loop: the characters it writes and the bits it leaves.\<close>

function base32_emit :: "int32 \<Rightarrow> nat \<Rightarrow> string \<times> nat" where
  "base32_emit acc bits =
     (if bits \<ge> 5
      then (let bits' = bits - 5; (out, rest) = base32_emit acc bits'
            in (BASE32 ! unat (signed_drop_bit bits' acc AND 31) # out, rest))
      else ([], bits))"
  by pat_completeness auto
termination
  by (relation "measure snd") auto

fun base32_out :: "int32 \<Rightarrow> nat \<Rightarrow> bytes \<Rightarrow> string" where
  "base32_out acc bits [] =
     (if bits > 0 then [BASE32 ! unat (push_bit (5 - bits) acc AND 31)] else [])"
| "base32_out acc bits (b # bs) =
     (let acc' = push_bit 8 acc OR u32 b; (out, bits') = base32_emit acc' (bits + 8)
      in out @ base32_out acc' bits' bs)"

definition encodeBase32 :: "bytes \<Rightarrow> string" where
  "encodeBase32 input = base32_out 0 0 input"

section \<open>Codes\<close>

definition hashName :: "string \<Rightarrow> (string, string) result" where
  "hashName algorithm =
     (let value = filter (\<lambda>c. c \<noteq> CHR ''-'') (to_upper (if algorithm = [] then ''SHA1'' else algorithm))
      in if value = ''SHA1'' then Inr ''SHA-1''
         else if value = ''SHA256'' then Inr ''SHA-256''
         else if value = ''SHA512'' then Inr ''SHA-512''
         else Inl ''unsupported TOTP algorithm'')"

text \<open>\<open>setBigUint64(0, step, false)\<close>: eight bytes, most significant first.\<close>

definition counterBytes :: "nat \<Rightarrow> bytes" where
  "counterBytes step = map (\<lambda>i. of_nat (step div 256 ^ (7 - i))) [0..<8]"

definition truncated :: "bytes \<Rightarrow> nat" where
  "truncated digest =
     (let off = unat (last digest AND 15)
      in unat (push_bit 24 (byte_at digest off AND 127) OR push_bit 16 (byte_at digest (off + 1))
               OR push_bit 8 (byte_at digest (off + 2)) OR byte_at digest (off + 3)))"

text \<open>\<open>hmac hash key message\<close> is the Web Crypto HMAC. A step is a non-negative safe integer.\<close>

definition totpForStep ::
  "(string \<Rightarrow> bytes \<Rightarrow> bytes \<Rightarrow> bytes) \<Rightarrow> string \<Rightarrow> int \<Rightarrow> string \<Rightarrow> int \<Rightarrow> (string, string) result"
where
  "totpForStep hmac secret step algorithm digits =
     (if step < 0 \<or> step > 9007199254740991 then Inl ''invalid TOTP time-step''
      else if digits \<noteq> 6 \<and> digits \<noteq> 8 then Inl ''TOTP digits must be 6 or 8''
      else (case decodeBase32 secret of Inl e \<Rightarrow> Inl e
            | Inr key \<Rightarrow> (case hashName algorithm of Inl e \<Rightarrow> Inl e
              | Inr h \<Rightarrow>
                  Inr (pad_start (nat digits) (CHR ''0'')
                    (show_nat (truncated (hmac h key (counterBytes (nat step))) mod 10 ^ nat digits))))))"

text \<open>The loop over \<open>delta\<close>, from \<open>-skew\<close> to \<open>skew\<close>: a negative step is skipped, and the
  largest matching unused step is kept.\<close>

fun totp_scan ::
  "(int \<Rightarrow> (string, string) result) \<Rightarrow> string \<Rightarrow> int option \<Rightarrow> int list \<Rightarrow> int option \<Rightarrow>
   (string, int option) result" where
  "totp_scan code_at presented lastUsedStep [] matched = Inr matched"
| "totp_scan code_at presented lastUsedStep (step # steps) matched =
     (if step < 0 then totp_scan code_at presented lastUsedStep steps matched
      else (case code_at step of Inl e \<Rightarrow> Inl e
            | Inr expected \<Rightarrow>
                totp_scan code_at presented lastUsedStep steps
                  (if timingSafeEqual (utf8 expected) (utf8 presented) \<and>
                      (case lastUsedStep of None \<Rightarrow> True | Some l \<Rightarrow> step > l)
                   then (case matched of None \<Rightarrow> Some step | Some m \<Rightarrow> Some (max m step))
                   else matched)))"

record totp_args =
  ta_secret :: string
  ta_algorithm :: string
  ta_digits :: int
  ta_period :: int
  ta_skew :: int
  ta_lastUsedStep :: "int option"

definition presented_code :: "string option \<Rightarrow> string" where
  "presented_code code = filter (\<lambda>c. \<not> is_space c \<and> c \<noteq> CHR ''-'') (coalesce code [])"

text \<open>\<open>now\<close> is in milliseconds.\<close>

definition totp_steps :: "totp_args \<Rightarrow> int \<Rightarrow> int list" where
  "totp_steps a now = [now div (1000 * ta_period a) - ta_skew a .. now div (1000 * ta_period a) + ta_skew a]"

definition verifyTotp ::
  "(string \<Rightarrow> bytes \<Rightarrow> bytes \<Rightarrow> bytes) \<Rightarrow> totp_args \<Rightarrow> string option \<Rightarrow> int \<Rightarrow>
   (string, int option) result" where
  "verifyTotp hmac a code now =
     (let presented = presented_code code
      in if int (length presented) \<noteq> ta_digits a \<or> presented = [] \<or> \<not> list_all is_digit presented
         then Inr None
         else if ta_period a < 15 \<or> ta_period a > 120 then Inl ''invalid TOTP period''
         else if ta_skew a < 0 \<or> ta_skew a > 5 then Inl ''invalid TOTP skew''
         else totp_scan (\<lambda>s. totpForStep hmac (ta_secret a) s (ta_algorithm a) (ta_digits a))
                presented (ta_lastUsedStep a) (totp_steps a now) None)"

section \<open>Base32 against bit strings\<close>

text \<open>The lowest \<open>n\<close> bits of a word, most significant first.\<close>

definition low_bits_of :: "nat \<Rightarrow> 'a::len word \<Rightarrow> bool list" where
  "low_bits_of n x = map (\<lambda>i. bit x (n - 1 - i)) [0..<n]"

fun bits_value :: "bool list \<Rightarrow> nat" where
  "bits_value [] = 0"
| "bits_value (b # bs) = (if b then 2 ^ length bs else 0) + bits_value bs"

function groups5 :: "bool list \<Rightarrow> string" where
  "groups5 xs =
     (if xs = [] then []
      else if length xs < 5 then [BASE32 ! bits_value (xs @ replicate (5 - length xs) False)]
      else BASE32 ! bits_value (take 5 xs) # groups5 (drop 5 xs))"
  by pat_completeness auto
termination
  by (relation "measure length") auto

declare groups5.simps [simp del] base32_emit.simps [simp del]

lemma length_low_bits_of [simp]: "length (low_bits_of n x) = n"
  by (simp add: low_bits_of_def)

lemma low_bits_of_nth: "i < n \<Longrightarrow> low_bits_of n x ! i = bit x (n - 1 - i)"
  by (simp add: low_bits_of_def)

lemma low_bits_of_push:
  assumes "\<And>i. k \<le> i \<Longrightarrow> \<not> bit (y::int32) i" "m + k \<le> 32"
  shows "low_bits_of (m + k) (push_bit k x OR y) = low_bits_of m x @ low_bits_of k y"
proof (rule nth_equalityI)
  fix i assume i: "i < length (low_bits_of (m + k) (push_bit k x OR y))"
  show "low_bits_of (m + k) (push_bit k x OR y) ! i = (low_bits_of m x @ low_bits_of k y) ! i"
  proof (cases "i < m")
    case True
    then have "m + k - 1 - i = (m - 1 - i) + k" "k \<le> m + k - 1 - i" by auto
    with True i assms show ?thesis
      by (auto simp: low_bits_of_nth nth_append bit_simps)
  next
    case False
    then have "m + k - 1 - i = k - 1 - (i - m)" "m + k - 1 - i < k" using i by auto
    with False i assms show ?thesis
      by (auto simp: low_bits_of_nth nth_append bit_simps)
  qed
qed simp

lemma bits_value_lt: "bits_value bs < 2 ^ length bs"
  by (induction bs) auto

lemma low_bits_of_Suc: "low_bits_of (Suc k) x = bit x k # low_bits_of k x"
  by (rule nth_equalityI) (auto simp: low_bits_of_nth nth_Cons split: nat.splits)

lemma bits_value_low_bits: "bits_value (low_bits_of k x) = take_bit k (unat x)"
proof (induction k)
  case 0
  show ?case by (simp add: low_bits_of_def)
next
  case (Suc k)
  then show ?case
    by (auto simp: low_bits_of_Suc take_bit_Suc_from_most bit_unsigned_iff dest: bit_imp_le_length)
qed

lemma low_bits_of_split: "low_bits_of (m + k) x = low_bits_of m (drop_bit k x) @ low_bits_of k x"
proof (rule nth_equalityI)
  fix i assume "i < length (low_bits_of (m + k) x)"
  moreover have "m + k - 1 - i = k + (m - 1 - i)" if "i < m" using that by auto
  ultimately show "low_bits_of (m + k) x ! i = (low_bits_of m (drop_bit k x) @ low_bits_of k x) ! i"
    by (auto simp: low_bits_of_nth nth_append bit_simps add.commute)
qed simp

lemma low_bits_of_cong:
  "(\<And>i. i < k \<Longrightarrow> bit x i = bit y i) \<Longrightarrow> low_bits_of k x = low_bits_of k y"
  by (rule nth_equalityI) (auto simp: low_bits_of_nth)

lemma masked_shift_value:
  assumes "b + k \<le> 32"
  shows "unat (signed_drop_bit b (acc::int32) AND mask k) = bits_value (low_bits_of k (drop_bit b acc))"
proof -
  have "signed_drop_bit b acc AND mask k = take_bit k (drop_bit b acc)"
    using assms by (intro bit_word_eqI) (auto simp: bit_simps)
  then show ?thesis by (simp add: bits_value_low_bits unsigned_take_bit_eq)
qed

lemma mask31: "(31::int32) = mask 5" and mask255: "(255::int32) = mask 8"
  by (simp_all add: mask_eq_exp_minus_1)

lemma groups5_step: "length xs = 5 \<Longrightarrow> groups5 (xs @ ys) = BASE32 ! bits_value xs # groups5 ys"
  by (subst groups5.simps) auto

lemma base32_emit_groups:
  "base32_emit acc bits = (out, r) \<Longrightarrow> bits \<le> 32 \<Longrightarrow>
     r < 5 \<and> groups5 (low_bits_of bits acc @ ys) = out @ groups5 (low_bits_of r acc @ ys)"
proof (induction acc bits arbitrary: out rule: base32_emit.induct)
  case (1 acc bits)
  show ?case
  proof (cases "bits \<ge> 5")
    case True
    obtain o' r' where e: "base32_emit acc (bits - 5) = (o', r')" by fastforce
    with "1.prems" True have o: "out = BASE32 ! unat (signed_drop_bit (bits - 5) acc AND 31) # o'" "r = r'"
      by (subst (asm) base32_emit.simps, simp add: Let_def)+
    have "low_bits_of bits acc = low_bits_of 5 (drop_bit (bits - 5) acc) @ low_bits_of (bits - 5) acc"
      using low_bits_of_split [of 5 "bits - 5" acc] True by simp
    moreover have "unat (signed_drop_bit (bits - 5) acc AND 31)
        = bits_value (low_bits_of 5 (drop_bit (bits - 5) acc))"
      using masked_shift_value [of "bits - 5" 5 acc] True "1.prems" by (simp add: mask31)
    moreover have "r' < 5 \<and> groups5 (low_bits_of (bits - 5) acc @ ys) = o' @ groups5 (low_bits_of r' acc @ ys)"
      using "1.IH" [OF True refl e [unfolded o(2) [symmetric]]] "1.prems" o(2) by simp
    ultimately show ?thesis using o by (simp add: groups5_step)
  next
    case False
    with "1.prems" show ?thesis by (subst (asm) base32_emit.simps) simp
  qed
qed

lemma final_sextet:
  assumes "0 < bits" "bits < 5"
  shows "unat (push_bit (5 - bits) (acc::int32) AND 31)
    = bits_value (low_bits_of bits acc @ replicate (5 - bits) False)"
proof -
  have z: "low_bits_of k (0::int32) = replicate k False" for k
    by (rule nth_equalityI) (auto simp: low_bits_of_nth)
  have "push_bit (5 - bits) acc AND 31 = take_bit 5 (push_bit (5 - bits) acc)"
    unfolding mask31 by (simp add: take_bit_eq_mask)
  then have "unat (push_bit (5 - bits) acc AND 31) = bits_value (low_bits_of 5 (push_bit (5 - bits) acc))"
    by (simp add: bits_value_low_bits unsigned_take_bit_eq)
  also have "low_bits_of 5 (push_bit (5 - bits) acc) = low_bits_of bits acc @ replicate (5 - bits) False"
    using low_bits_of_push [of "5 - bits" 0 bits acc] assms z by simp
  finally show ?thesis .
qed

lemma base32_out_groups:
  "bits < 5 \<Longrightarrow> base32_out acc bits bs = groups5 (low_bits_of bits acc @ concat (map (low_bits_of 8) bs))"
proof (induction bs arbitrary: acc bits)
  case Nil
  then show ?case
    by (subst groups5.simps) (auto simp: final_sextet low_bits_of_def)
next
  case (Cons b bs)
  define acc' where "acc' = push_bit 8 acc OR u32 b"
  obtain out r where e: "base32_emit acc' (bits + 8) = (out, r)" by fastforce
  have u: "low_bits_of 8 (u32 b) = low_bits_of 8 b"
    by (rule nth_equalityI) (auto simp: low_bits_of_nth u32_bit)
  have "low_bits_of (bits + 8) acc' = low_bits_of bits acc @ low_bits_of 8 b"
    unfolding acc'_def using low_bits_of_push [of 8 "u32 b" bits acc] Cons.prems u
    by (simp add: u32_bit)
  then show ?case
    using base32_emit_groups [OF e, of "concat (map (low_bits_of 8) bs)"] Cons.prems Cons.IH [of r acc'] e
    by (simp add: Let_def acc'_def [symmetric])
qed

function groups8 :: "bool list \<Rightarrow> bytes" where
  "groups8 xs =
     (if length xs < 8 then [] else of_nat (bits_value (take 8 xs)) # groups8 (drop 8 xs))"
  by pat_completeness auto
termination
  by (relation "measure length") auto

declare groups8.simps [simp del]

lemma groups8_step: "length xs = 8 \<Longrightarrow> groups8 (xs @ ys) = of_nat (bits_value xs) # groups8 ys"
  by (subst groups8.simps) auto

lemma base32_facts: "distinct BASE32" "length BASE32 = 32"
  by (simp_all add: BASE32_def)

lemma js_index_base32_lt: "c \<in> set BASE32 \<Longrightarrow> 5 \<le> i \<Longrightarrow> \<not> bit (js_index c BASE32) i"
proof -
  assume "c \<in> set BASE32" "5 \<le> i"
  then obtain n where n: "index_of c BASE32 = Some n" "n < 32"
    by (metis base32_facts(2) index_of_None index_of_Some_iff not_None_eq)
  then have "take_bit 5 (of_nat n :: int32) = of_nat n"
    using take_bit_of_nat [of 5 n, where 'a = int32] take_bit_nat_eq_self [of n 5] by simp
  then have "bit (of_nat n :: int32) i \<Longrightarrow> i < 5"
    by (metis bit_take_bit_iff)
  with n \<open>5 \<le> i\<close> show ?thesis by (auto simp: js_index_def)
qed

definition char_bits :: "char \<Rightarrow> bool list" where
  "char_bits c = low_bits_of 5 (js_index c BASE32)"

lemma ucast_via_nat: "(ucast (w::int32) :: byte) = of_nat (unat w)"
  by (simp add: of_nat_unat)

lemma base32_in_groups:
  "bits < 8 \<Longrightarrow> (\<And>c. c \<in> set s \<Longrightarrow> c \<in> set BASE32) \<Longrightarrow>
     base32_in acc bits s = groups8 (low_bits_of bits acc @ concat (map char_bits s))"
proof (induction s arbitrary: acc bits)
  case Nil
  then show ?case by (subst groups8.simps) simp
next
  case (Cons c s)
  define acc' where "acc' = push_bit 5 acc OR js_index c BASE32"
  have l: "low_bits_of (bits + 5) acc' = low_bits_of bits acc @ char_bits c"
    unfolding acc'_def char_bits_def using Cons.prems
    by (intro low_bits_of_push) (auto dest: js_index_base32_lt)
  show ?case
  proof (cases "bits + 5 \<ge> 8")
    case True
    then have "low_bits_of (bits + 5) acc' = low_bits_of 8 (drop_bit (bits + 5 - 8) acc') @ low_bits_of (bits + 5 - 8) acc'"
      using low_bits_of_split [of 8 "bits + 5 - 8" acc'] by (simp add: add.commute)
    moreover have "ucast (signed_drop_bit (bits + 5 - 8) acc' AND 255)
        = (of_nat (bits_value (low_bits_of 8 (drop_bit (bits + 5 - 8) acc'))) :: byte)"
      using masked_shift_value [of "bits + 5 - 8" 8 acc'] Cons.prems
      by (simp add: mask255 ucast_via_nat)
    ultimately show ?thesis
      using True l Cons.IH [of "bits + 5 - 8" acc'] Cons.prems
      by (simp add: Let_def acc'_def [symmetric] groups8_step append_assoc [symmetric] del: append_assoc)
         (simp add: groups8_step)
  next
    case False
    then show ?thesis
      using l Cons.IH [of "bits + 5" acc'] Cons.prems
      by (simp add: Let_def acc'_def [symmetric])
  qed
qed

lemma bits_value_inj: "length xs = length ys \<Longrightarrow> bits_value xs = bits_value ys \<Longrightarrow> xs = ys"
proof (induction xs ys rule: list_induct2)
  case (Cons x xs y ys)
  then show ?case
    using bits_value_lt [of xs] bits_value_lt [of ys] by (auto split: if_splits)
qed simp

lemma char_bits_group: "length xs = 5 \<Longrightarrow> char_bits (BASE32 ! bits_value xs) = xs"
proof -
  assume l: "length xs = 5"
  then have v: "bits_value xs < 32" using bits_value_lt [of xs] by simp
  then have "js_index (BASE32 ! bits_value xs) BASE32 = of_nat (bits_value xs)"
    using index_of_nth [OF base32_facts(1)] by (simp add: js_index_def base32_facts)
  moreover have "bits_value (low_bits_of 5 (of_nat (bits_value xs) :: int32)) = bits_value xs"
    using v by (simp add: bits_value_low_bits unat_of_nat take_bit_nat_eq_self)
  ultimately show ?thesis
    using l by (intro bits_value_inj) (simp_all add: char_bits_def)
qed

lemma concat_char_bits_groups5:
  "\<exists>n<5. concat (map char_bits (groups5 xs)) = xs @ replicate n False"
proof (induction xs rule: groups5.induct)
  case (1 xs)
  consider "xs = []" | "xs \<noteq> []" "length xs < 5" | "\<not> length xs < 5" by blast
  then show ?case
  proof cases
    case 1
    then show ?thesis by (subst groups5.simps) (simp add: exI [of _ 0])
  next
    case 2
    then show ?thesis
      by (subst groups5.simps) (auto simp: char_bits_group intro!: exI [of _ "5 - length xs"])
  next
    case 3
    then obtain n where "n < 5" "concat (map char_bits (groups5 (drop 5 xs))) = drop 5 xs @ replicate n False"
      using "1.IH" by fastforce
    with 3 show ?thesis
      by (subst groups5.simps) (auto simp: char_bits_group append_assoc [symmetric] simp del: append_assoc
          intro!: exI [of _ n])
  qed
qed

lemma groups8_bytes: "n < 8 \<Longrightarrow> groups8 (concat (map (low_bits_of 8) bs) @ replicate n False) = bs"
proof (induction bs)
  case Nil
  then show ?case by (subst groups8.simps) simp
next
  case (Cons b bs)
  have "(of_nat (bits_value (low_bits_of 8 b)) :: byte) = b"
    using unsigned_less [of b, where 'a = nat] by (simp add: bits_value_low_bits take_bit_nat_eq_self)
  with Cons show ?case by (simp add: groups8_step)
qed

lemma groups5_chars: "c \<in> set (groups5 xs) \<Longrightarrow> c \<in> set BASE32"
proof (induction xs rule: groups5.induct)
  case (1 xs)
  have "bits_value ys < 32" if "length ys = 5" for ys
    using bits_value_lt [of ys] that by simp
  then have "groups5 xs = [] \<or> (\<exists>y. set (groups5 xs) \<subseteq> {y} \<and> y \<in> set BASE32) \<or>
      (\<not> length xs < 5 \<and> xs \<noteq> [] \<and> (\<exists>y. y \<in> set BASE32 \<and> groups5 xs = y # groups5 (drop 5 xs)))"
    by (subst (1 2 3) groups5.simps) (auto simp: base32_facts)
  with 1 show ?case by auto
qed

lemma base32_in_out: "base32_in 0 0 (base32_out 0 0 bs) = bs"
proof -
  have g: "base32_out 0 0 bs = groups5 (concat (map (low_bits_of 8) bs))"
    by (simp add: base32_out_groups low_bits_of_def)
  obtain n where "n < 5" "concat (map char_bits (groups5 (concat (map (low_bits_of 8) bs))))
      = concat (map (low_bits_of 8) bs) @ replicate n False"
    using concat_char_bits_groups5 by blast
  then show ?thesis
    using base32_in_groups [of 0 "base32_out 0 0 bs" 0] groups5_chars g
    by (simp add: groups8_bytes low_bits_of_def)
qed

section \<open>Round trip of a seed\<close>

lemma BASE32_chars:
  "list_all (\<lambda>c. upper_char c = c \<and> c \<noteq> CHR ''-'' \<and> c \<noteq> CHR '' '' \<and> c \<noteq> CHR ''='') BASE32"
  by (simp add: BASE32_def is_lower_def)

lemma encodeBase32_chars: "c \<in> set (encodeBase32 bs) \<Longrightarrow> c \<in> set BASE32"
  using groups5_chars by (simp add: encodeBase32_def base32_out_groups)

lemma base32_text_fixed:
  assumes "\<And>c. c \<in> set s \<Longrightarrow> c \<in> set BASE32"
  shows "strip_trailing (CHR ''='') (filter (\<lambda>c. c \<noteq> CHR ''-'') (filter (\<lambda>c. c \<noteq> CHR '' '') (to_upper s))) = s"
proof -
  have k: "upper_char c = c \<and> c \<noteq> CHR ''-'' \<and> c \<noteq> CHR '' '' \<and> c \<noteq> CHR ''=''" if "c \<in> set s" for c
    using BASE32_chars assms [OF that] unfolding list_all_iff by blast
  then have "to_upper s = s" unfolding to_upper_def by (intro map_idI) blast
  moreover have "filter (\<lambda>c. c \<noteq> CHR ''-'') (filter (\<lambda>c. c \<noteq> CHR '' '') s) = s"
    using k by (simp add: filter_id_conv)
  ultimately show ?thesis using k strip_trailing_id [of "CHR ''=''" s] by auto
qed

lemma decodeBase32_encodeBase32: "10 \<le> length bs \<Longrightarrow> decodeBase32 (encodeBase32 bs) = Inr bs"
proof -
  assume l: "10 \<le> length bs"
  have r: "base32_in 0 0 (encodeBase32 bs) = bs"
    by (simp add: encodeBase32_def base32_in_out)
  with l have "encodeBase32 bs \<noteq> []" by auto
  with l r show ?thesis
    using base32_text_fixed [of "encodeBase32 bs", OF encodeBase32_chars]
    by (auto simp: decodeBase32_def Let_def list_all_iff dest: encodeBase32_chars)
qed

lemma decodeBase32_long: "decodeBase32 s = Inr bs \<Longrightarrow> 10 \<le> length bs"
  by (auto simp: decodeBase32_def Let_def split: if_splits)

interpretation base32: text_code encodeBase32 decodeBase32 "\<lambda>bs. 10 \<le> length bs"
  by unfold_locales (rule decodeBase32_encodeBase32)

text \<open>Storing the normal form of a seed keeps the key: the records hold
  \<open>encodeBase32(decodeBase32(seed))\<close>.\<close>

lemma decodeBase32_normal_form:
  "decodeBase32 s = Inr bs \<Longrightarrow> decodeBase32 (encodeBase32 bs) = Inr bs"
  by (rule base32.dec_enc) (rule decodeBase32_long)

section \<open>Verification\<close>

text \<open>The steps a presented code may be accepted for.\<close>

definition acceptable :: "(int \<Rightarrow> (string, string) result) \<Rightarrow> string \<Rightarrow> int option \<Rightarrow> int \<Rightarrow> bool" where
  "acceptable code_at presented lastUsedStep step \<longleftrightarrow>
     0 \<le> step \<and> code_at step = Inr presented \<and> (\<forall>l. lastUsedStep = Some l \<longrightarrow> l < step)"

definition best_step :: "(int \<Rightarrow> bool) \<Rightarrow> int list \<Rightarrow> int option \<Rightarrow> bool" where
  "best_step P steps r \<longleftrightarrow>
     (case r of None \<Rightarrow> (\<forall>s\<in>set steps. \<not> P s)
      | Some s \<Rightarrow> s \<in> set steps \<and> P s \<and> (\<forall>t\<in>set steps. P t \<longrightarrow> t \<le> s))"

text \<open>One round of the loop keeps the larger of the match so far and an acceptable step.\<close>

definition keep_later :: "(int \<Rightarrow> bool) \<Rightarrow> int \<Rightarrow> int option \<Rightarrow> int option" where
  "keep_later P s m = (if P s then (case m of None \<Rightarrow> Some s | Some m \<Rightarrow> Some (max m s)) else m)"

lemma totp_scan_fold:
  assumes "\<And>s c. code_at s = Inr c \<Longrightarrow> length c < 2 ^ 32" "length p < 2 ^ 32"
  shows "totp_scan code_at p l steps m = Inr r \<Longrightarrow> r = fold (keep_later (acceptable code_at p l)) steps m"
proof (induction steps arbitrary: m)
  case (Cons s steps)
  show ?case
  proof (cases "s < 0")
    case True
    with Cons show ?thesis by (simp add: keep_later_def acceptable_def)
  next
    case False
    with Cons.prems obtain c where c: "code_at s = Inr c" by (auto split: sum.splits)
    have "acceptable code_at p l s \<longleftrightarrow>
        timingSafeEqual (utf8 c) (utf8 p) \<and> (case l of None \<Rightarrow> True | Some l \<Rightarrow> s > l)"
      using False c assms(1) [OF c] assms(2) by (auto simp: acceptable_def split: option.splits)
    with Cons.prems False c have "totp_scan code_at p l steps (keep_later (acceptable code_at p l) s m) = Inr r"
      by (simp add: keep_later_def)
    with Cons.IH show ?thesis by simp
  qed
qed simp

lemma fold_keep_later_None:
  "fold (keep_later P) steps m = None \<longleftrightarrow> m = None \<and> (\<forall>s\<in>set steps. \<not> P s)"
  by (induction steps arbitrary: m) (auto simp: keep_later_def split: option.splits)

lemma fold_keep_later_Some:
  "fold (keep_later P) steps m = Some y \<Longrightarrow>
     (m = Some y \<or> y \<in> set steps \<and> P y) \<and> (\<forall>t\<in>set steps. P t \<longrightarrow> t \<le> y) \<and> (\<forall>x. m = Some x \<longrightarrow> x \<le> y)"
proof (induction steps arbitrary: m)
  case (Cons s steps)
  note ih = Cons.IH [of "keep_later P s m"]
  show ?case
  proof (cases "P s")
    case True
    then show ?thesis using ih Cons.prems by (cases m) (auto simp: keep_later_def max_def split: if_splits)
  next
    case False
    then show ?thesis using ih Cons.prems by (simp add: keep_later_def) blast
  qed
qed simp

lemma fold_keep_later: "best_step P steps (fold (keep_later P) steps None)"
proof (cases "fold (keep_later P) steps None")
  case None
  then show ?thesis using fold_keep_later_None [of P steps None] by (simp add: best_step_def)
next
  case (Some y)
  then show ?thesis using fold_keep_later_Some [OF Some] by (simp add: best_step_def)
qed

lemma totp_scan_some:
  "totp_scan code_at p l steps None = Inr (Some r) \<Longrightarrow> \<exists>s c. code_at s = Inr c"
  by (induction steps) (auto split: if_splits sum.splits)

lemma totp_scan_ok:
  "(\<And>s. s \<in> set steps \<Longrightarrow> 0 \<le> s \<Longrightarrow> is_ok (code_at s)) \<Longrightarrow> is_ok (totp_scan code_at p l steps m)"
proof (induction steps arbitrary: m)
  case Nil
  then show ?case by (simp add: is_ok_def)
next
  case (Cons s steps)
  have "is_ok (totp_scan code_at p l steps m)" for m
    using Cons.prems by (intro Cons.IH) simp
  moreover have "\<exists>c. code_at s = Inr c" if "0 \<le> s"
    using Cons.prems [of s] that by (cases "code_at s") (auto simp: is_ok_def)
  ultimately show ?case by (cases "s < 0") auto
qed

lemma totpForStep_shape:
  "totpForStep hmac secret step alg digits = Inr c \<Longrightarrow>
     (digits = 6 \<or> digits = 8) \<and> int (length c) = digits \<and> list_all is_digit c"
proof -
  assume a: "totpForStep hmac secret step alg digits = Inr c"
  then obtain key h where d: "digits = 6 \<or> digits = 8"
    and c: "c = pad_start (nat digits) (CHR ''0'')
      (show_nat (truncated (hmac h key (counterBytes (nat step))) mod 10 ^ nat digits))"
    by (auto simp: totpForStep_def split: if_splits sum.splits)
  have "length (show_nat (n mod 10 ^ nat digits)) \<le> nat digits" for n
    using d by (intro length_show_nat) auto
  with d c show ?thesis
    by (auto simp: length_pad_start max_def pad_start_def list_all_iff is_digit_def dest: show_nat_digits)
qed

text \<open>The parameters a record can hold after validation, and a clock inside the safe integers.\<close>

definition totp_ready :: "totp_args \<Rightarrow> int \<Rightarrow> bool" where
  "totp_ready a now \<longleftrightarrow>
     (ta_digits a = 6 \<or> ta_digits a = 8) \<and> 15 \<le> ta_period a \<and> ta_period a \<le> 120 \<and>
     0 \<le> ta_skew a \<and> ta_skew a \<le> 5 \<and> is_ok (decodeBase32 (ta_secret a)) \<and>
     is_ok (hashName (ta_algorithm a)) \<and> 0 \<le> now \<and> now \<le> 9007199254740991"

lemma totp_steps_bound:
  "totp_ready a now \<Longrightarrow> s \<in> set (totp_steps a now) \<Longrightarrow> s \<le> 9007199254740991"
proof -
  assume r: "totp_ready a now" and s: "s \<in> set (totp_steps a now)"
  then have "now div (1000 * ta_period a) \<le> now div 15000"
    by (intro zdiv_mono2) (auto simp: totp_ready_def)
  with r s show ?thesis by (auto simp: totp_ready_def totp_steps_def)
qed

lemma totpForStep_ok:
  "totp_ready a now \<Longrightarrow> s \<in> set (totp_steps a now) \<Longrightarrow> 0 \<le> s \<Longrightarrow>
     is_ok (totpForStep hmac (ta_secret a) s (ta_algorithm a) (ta_digits a))"
  using totp_steps_bound [of a now s]
  by (auto simp: totpForStep_def totp_ready_def is_ok_def split: sum.splits)

abbreviation totp_code_at :: "(string \<Rightarrow> bytes \<Rightarrow> bytes \<Rightarrow> bytes) \<Rightarrow> totp_args \<Rightarrow> int \<Rightarrow> (string, string) result" where
  "totp_code_at hmac a s \<equiv> totpForStep hmac (ta_secret a) s (ta_algorithm a) (ta_digits a)"

lemma verifyTotp_best:
  assumes "totp_ready a now"
  shows "\<exists>r. verifyTotp hmac a code now = Inr r \<and>
    best_step (acceptable (totp_code_at hmac a) (presented_code code) (ta_lastUsedStep a)) (totp_steps a now) r"
proof (cases "int (length (presented_code code)) \<noteq> ta_digits a \<or> presented_code code = [] \<or>
    \<not> list_all is_digit (presented_code code)")
  case True
  then have "verifyTotp hmac a code now = Inr None"
    by (simp add: verifyTotp_def Let_def)
  moreover from True assms have "\<not> acceptable (totp_code_at hmac a) (presented_code code) (ta_lastUsedStep a) s" for s
    by (auto simp: acceptable_def totp_ready_def dest: totpForStep_shape)
  ultimately show ?thesis by (simp add: best_step_def)
next
  case False
  then have v: "verifyTotp hmac a code now = totp_scan (totp_code_at hmac a) (presented_code code)
      (ta_lastUsedStep a) (totp_steps a now) None"
    using assms by (auto simp: verifyTotp_def totp_ready_def Let_def)
  have "is_ok (verifyTotp hmac a code now)"
    unfolding v using assms totpForStep_ok by (intro totp_scan_ok) blast
  then obtain r where r: "verifyTotp hmac a code now = Inr r"
    by (auto simp: is_ok_def split: sum.splits)
  have len: "length c < 2 ^ 32" if "totp_code_at hmac a s = Inr c" for s c
    using totpForStep_shape [OF that] by auto
  moreover have "length (presented_code code) < 2 ^ 32"
    using False assms by (auto simp: totp_ready_def)
  ultimately have "r = fold (keep_later (acceptable (totp_code_at hmac a) (presented_code code) (ta_lastUsedStep a)))
      (totp_steps a now) None"
    using r v by (intro totp_scan_fold) auto
  with r show ?thesis
    using fold_keep_later [of "acceptable (totp_code_at hmac a) (presented_code code) (ta_lastUsedStep a)" "totp_steps a now"]
    by simp
qed

text \<open>Whatever the parameters, an accepted step lies in the skew window, is later than the last
  used one and has the presented code.\<close>

lemma verifyTotp_accepts:
  assumes "verifyTotp hmac a code now = Inr (Some s)"
  shows "s \<in> set (totp_steps a now)" "0 \<le> s" "\<forall>l. ta_lastUsedStep a = Some l \<longrightarrow> l < s"
    "totp_code_at hmac a s = Inr (presented_code code)"
proof -
  have v: "totp_scan (totp_code_at hmac a) (presented_code code) (ta_lastUsedStep a) (totp_steps a now) None
      = Inr (Some s)" and l: "int (length (presented_code code)) = ta_digits a"
    using assms by (auto simp: verifyTotp_def Let_def split: if_splits)
  have len: "length c < 2 ^ 32" if "totp_code_at hmac a s = Inr c" for s c
    using totpForStep_shape [OF that] by auto
  have "ta_digits a = 6 \<or> ta_digits a = 8"
    using totp_scan_some [OF v] by (auto dest: totpForStep_shape)
  then have "length (presented_code code) < 2 ^ 32" using l by auto
  with len have "Some s = fold (keep_later (acceptable (totp_code_at hmac a) (presented_code code) (ta_lastUsedStep a)))
      (totp_steps a now) None"
    using v by (intro totp_scan_fold) auto
  then have "best_step (acceptable (totp_code_at hmac a) (presented_code code) (ta_lastUsedStep a)) (totp_steps a now) (Some s)"
    using fold_keep_later [of "acceptable (totp_code_at hmac a) (presented_code code) (ta_lastUsedStep a)" "totp_steps a now"]
    by simp
  then show "s \<in> set (totp_steps a now)" "0 \<le> s" "\<forall>l. ta_lastUsedStep a = Some l \<longrightarrow> l < s"
    "totp_code_at hmac a s = Inr (presented_code code)"
    by (auto simp: best_step_def acceptable_def)
qed

section \<open>Properties\<close>

text \<open>A seed of at least 80 bits survives the base32 text of the provisioning tool, and the
  normal form that a record stores decodes to the key of the text it was made from.\<close>

lemma base32_roundtrip:
  "(10 \<le> length bs \<longrightarrow> decodeBase32 (encodeBase32 bs) = Inr bs) \<and>
   (\<forall>s key. decodeBase32 s = Inr key \<longrightarrow> decodeBase32 (encodeBase32 key) = Inr key)"
  using decodeBase32_encodeBase32 decodeBase32_normal_form by blast

text \<open>For the parameters a validated record holds, verification never throws and returns the
  largest step of the skew window that is not negative, is later than the last used step and whose
  code is the presented one, and \<open>undefined\<close> exactly when there is none.\<close>

lemma verifyTotp_exact:
  assumes "totp_ready a now"
  shows "\<exists>r. verifyTotp hmac a code now = Inr r \<and>
    best_step (acceptable (totp_code_at hmac a) (presented_code code) (ta_lastUsedStep a)) (totp_steps a now) r"
  using assms by (rule verifyTotp_best)

definition zero_hmac :: "string \<Rightarrow> bytes \<Rightarrow> bytes \<Rightarrow> bytes" where
  "zero_hmac h key msg = replicate 20 0"

definition sample_totp :: totp_args where
  "sample_totp = \<lparr>ta_secret = ''GEZDGNBVGY3TQOJQGEZDGNBVGY3TQOJQ'', ta_algorithm = ''SHA1'', ta_digits = 6,
     ta_period = 30, ta_skew = 1, ta_lastUsedStep = Some 2\<rparr>"

lemma sample_totp_ready: "totp_ready sample_totp 90000"
  by code_simp

text \<open>No accepted code is ever accepted again for the same step or an earlier one: once a step is
  recorded as last used, every later acceptance, at any time and under any presentation, is of a
  strictly later step.\<close>

lemma totp_step_used_once:
  assumes "verifyTotp hmac a code now = Inr (Some used)"
    and "verifyTotp hmac (a\<lparr>ta_lastUsedStep := Some used\<rparr>) code' now' = Inr (Some again)"
  shows "used < again \<and> (\<forall>l. ta_lastUsedStep a = Some l \<longrightarrow> l < used)"
  using verifyTotp_accepts(3) [OF assms(1)] verifyTotp_accepts(3) [OF assms(2)] by simp

lemma sample_totp_code:
  "0 \<le> s \<Longrightarrow> s \<le> 9007199254740991 \<Longrightarrow> totp_code_at zero_hmac sample_totp s = Inr ''000000''"
proof -
  have "is_ok (decodeBase32 ''GEZDGNBVGY3TQOJQGEZDGNBVGY3TQOJQ'')" by code_simp
  then obtain key where k: "decodeBase32 ''GEZDGNBVGY3TQOJQGEZDGNBVGY3TQOJQ'' = Inr key"
    by (auto simp: is_ok_def split: sum.splits)
  have h: "hashName ''SHA1'' = Inr ''SHA-1''" by code_simp
  have t: "truncated (replicate 20 0) = 0" by code_simp
  have p: "pad_start 6 (CHR ''0'') (show_nat 0) = ''000000''" by code_simp
  assume "0 \<le> s" "s \<le> 9007199254740991"
  with k h t p show ?thesis by (simp add: totpForStep_def sample_totp_def zero_hmac_def)
qed

lemma sample_totp_run:
  "verifyTotp zero_hmac sample_totp (Some ''000000'') 90000 = Inr (Some 4)"
  "verifyTotp zero_hmac (sample_totp\<lparr>ta_lastUsedStep := Some 4\<rparr>) (Some ''000000'') 150000 = Inr (Some 6)"
proof -
  have p: "presented_code (Some ''000000'') = ''000000''" "list_all is_digit ''000000''" by code_simp+
  have q: "totp_steps sample_totp 90000 = [2, 3, 4]" "totp_steps (sample_totp\<lparr>ta_lastUsedStep := Some 4\<rparr>) 150000 = [4, 5, 6]"
    by code_simp+
  have c: "totpForStep zero_hmac (ta_secret sample_totp) s ''SHA1'' 6 = Inr ''000000''"
    if "s \<in> {2, 3, 4, 5, 6}" for s
    using sample_totp_code [of s] that by (auto simp: sample_totp_def)
  show "verifyTotp zero_hmac sample_totp (Some ''000000'') 90000 = Inr (Some 4)"
    using p q c by (simp add: verifyTotp_def) (simp add: sample_totp_def)
  show "verifyTotp zero_hmac (sample_totp\<lparr>ta_lastUsedStep := Some 4\<rparr>) (Some ''000000'') 150000 = Inr (Some 6)"
    using p q c by (simp add: verifyTotp_def) (simp add: sample_totp_def)
qed

end
