(* ===== verification/Sealing.thy ===== *)
theory Sealing
  imports Bytes
begin

text \<open>
  Purpose-bound keys and sealed tokens, \<^verbatim>\<open>src/crypto/secrets.js\<close>. The primitives of the Web Crypto
  API and the JSON serialiser are the fields of a \<open>platform\<close> record, a parameter of every operation;
  what the code relies on of them is stated as predicates and appears as a hypothesis. The key cache
  is modelled and shown to return the key a fresh derivation would.
\<close>

section \<open>The platform\<close>

record platform =
  pf_sha256 :: "bytes \<Rightarrow> bytes"
  pf_hmac :: "string \<Rightarrow> bytes \<Rightarrow> bytes \<Rightarrow> bytes"
  pf_hkdf :: "bytes \<Rightarrow> bytes \<Rightarrow> nat \<Rightarrow> bytes"
  pf_encrypt :: "bytes \<Rightarrow> bytes \<Rightarrow> bytes \<Rightarrow> bytes \<Rightarrow> bytes"
  pf_decrypt :: "bytes \<Rightarrow> bytes \<Rightarrow> bytes \<Rightarrow> bytes \<Rightarrow> bytes option"
  pf_stringify :: "json \<Rightarrow> string"
  pf_parse :: "string \<Rightarrow> json option"

text \<open>Documented behaviour: AES-GCM decrypts what it encrypted and refuses it under another key, HKDF
  returns the bits asked for, and \<open>JSON.parse\<close> reads what \<open>JSON.stringify\<close> wrote.\<close>

definition gcm_roundtrip :: "platform \<Rightarrow> bool" where
  "gcm_roundtrip pf \<longleftrightarrow>
     (\<forall>k iv aad p. pf_decrypt pf k iv aad (pf_encrypt pf k iv aad p) = Some p)"

definition gcm_key_bound :: "platform \<Rightarrow> bool" where
  "gcm_key_bound pf \<longleftrightarrow>
     (\<forall>k k' iv aad p. length k = 32 \<and> length k' = 32 \<and> k' \<noteq> k \<longrightarrow>
        pf_decrypt pf k' iv aad (pf_encrypt pf k iv aad p) = None)"

definition hkdf_length :: "platform \<Rightarrow> bool" where
  "hkdf_length pf \<longleftrightarrow> (\<forall>ikm info n. length (pf_hkdf pf ikm info (8 * n)) = n)"

definition json_survives :: "platform \<Rightarrow> json \<Rightarrow> bool" where
  "json_survives pf j \<longleftrightarrow> pf_parse pf (pf_stringify pf j) = Some j"

section \<open>Digests and keys\<close>

definition HKDF_INFO_PREFIX :: string where
  "HKDF_INFO_PREFIX = ''sag/v1/''"

definition sha256 :: "platform \<Rightarrow> string \<Rightarrow> bytes" where
  "sha256 pf input = pf_sha256 pf (utf8 input)"

definition sha256b64u :: "platform \<Rightarrow> string \<Rightarrow> string" where
  "sha256b64u pf input = b64u (sha256 pf input)"

definition sha256hex :: "platform \<Rightarrow> string \<Rightarrow> string" where
  "sha256hex pf input = toHex (sha256 pf input)"

definition hmac :: "platform \<Rightarrow> bytes \<Rightarrow> string \<Rightarrow> bytes" where
  "hmac pf keyBytes data = pf_hmac pf ''SHA-256'' keyBytes (utf8 data)"

definition derive :: "platform \<Rightarrow> string \<Rightarrow> string \<Rightarrow> nat \<Rightarrow> bytes" where
  "derive pf masterSecret purpose len =
     pf_hkdf pf (utf8 masterSecret) (utf8 (HKDF_INFO_PREFIX @ purpose)) (len * 8)"

text \<open>The module-level \<open>aesCache\<close> is a map from strings to keys.\<close>

type_synonym aes_cache = "(string \<times> bytes) list"

definition aes_cache_key :: "string \<Rightarrow> string \<Rightarrow> string" where
  "aes_cache_key masterSecret purpose = purpose @ '' '' @ masterSecret"

definition aesKey_cached :: "platform \<Rightarrow> aes_cache \<Rightarrow> string \<Rightarrow> string \<Rightarrow> bytes \<times> aes_cache" where
  "aesKey_cached pf aesCache masterSecret purpose =
     (case map_of aesCache (aes_cache_key masterSecret purpose) of
        Some key \<Rightarrow> (key, aesCache)
      | None \<Rightarrow> (let key = derive pf masterSecret (''aead/'' @ purpose) 32
                 in (key, AList.update (aes_cache_key masterSecret purpose) key aesCache)))"

text \<open>The key without the cache, which the operations below use.\<close>

definition aesKey :: "platform \<Rightarrow> string \<Rightarrow> string \<Rightarrow> bytes" where
  "aesKey pf masterSecret purpose = derive pf masterSecret (''aead/'' @ purpose) 32"

section \<open>Sealed tokens\<close>

datatype seal_error = SealError string | TypeError

text \<open>The random initialisation vector is an argument.\<close>

definition seal :: "platform \<Rightarrow> bytes \<Rightarrow> string \<Rightarrow> string \<Rightarrow> json \<Rightarrow> string option \<Rightarrow> string" where
  "seal pf iv masterSecret purpose payload kv =
     (let keyVersion = coalesce kv ''k1'';
          aad = utf8 (keyVersion @ ''.'' @ purpose);
          ct = pf_encrypt pf (aesKey pf masterSecret purpose) iv aad (utf8 (pf_stringify pf payload))
      in keyVersion @ ''.'' @ purpose @ ''.'' @ b64u iv @ ''.'' @ b64u ct)"

definition from_utf8 :: "bytes \<Rightarrow> string" where
  "from_utf8 bs = map (\<lambda>b. char_of (unat b)) bs"

text \<open>\<open>payload.exp\<close> of \<open>null\<close> throws a \<open>TypeError\<close>; a \<open>maxAgeSeconds\<close> of 0 is no limit.\<close>

definition check_age :: "json \<Rightarrow> int \<Rightarrow> int option \<Rightarrow> (seal_error, json) result" where
  "check_age payload now maxAgeSeconds =
     (if payload = JNull then Inl TypeError
      else if (case as_num (jget payload ''exp'') of None \<Rightarrow> False | Some e \<Rightarrow> e < now)
      then Inl (SealError ''token expired'')
      else if (case maxAgeSeconds of None \<Rightarrow> False
               | Some m \<Rightarrow> m \<noteq> 0 \<and> (case as_num (jget payload ''iat'') of None \<Rightarrow> False | Some i \<Rightarrow> i + m < now))
      then Inl (SealError ''token too old'')
      else Inr payload)"

fun try_secrets ::
  "platform \<Rightarrow> string \<Rightarrow> bytes \<Rightarrow> bytes \<Rightarrow> bytes \<Rightarrow> int \<Rightarrow> int option \<Rightarrow> string list \<Rightarrow> (seal_error, json) result" where
  "try_secrets pf purpose iv aad ct now maxAge [] = Inl (SealError ''could not decrypt token'')"
| "try_secrets pf purpose iv aad ct now maxAge (secret # rest) =
     (case pf_decrypt pf (aesKey pf secret purpose) iv aad ct of
        None \<Rightarrow> try_secrets pf purpose iv aad ct now maxAge rest
      | Some pt \<Rightarrow>
          (case pf_parse pf (from_utf8 pt) of
             None \<Rightarrow> Inl (SealError ''malformed payload'')
           | Some payload \<Rightarrow> check_age payload now maxAge))"

definition unseal ::
  "platform \<Rightarrow> string list \<Rightarrow> string \<Rightarrow> string \<Rightarrow> int \<Rightarrow> int option \<Rightarrow> (seal_error, json) result" where
  "unseal pf secrets purpose token now maxAge =
     (case split_on (CHR ''.'') token of
        [keyVersion, tokenPurpose, ivPart, ctPart] \<Rightarrow>
          if tokenPurpose \<noteq> purpose then Inl (SealError ''purpose mismatch'')
          else (case (unb64u ivPart, unb64u ctPart) of
                  (Inr iv, Inr ct) \<Rightarrow>
                    try_secrets pf purpose iv (utf8 (keyVersion @ ''.'' @ purpose)) ct now maxAge
                      (filter (\<lambda>s. s \<noteq> []) secrets)
                | _ \<Rightarrow> Inl (SealError ''malformed token''))
      | _ \<Rightarrow> Inl (SealError ''malformed token''))"

definition verifyDigest :: "platform \<Rightarrow> string \<Rightarrow> string \<Rightarrow> (string, bool) result" where
  "verifyDigest pf stored presented =
     (let idx = index_of (CHR '':'') stored;
          (scheme, expected) = (case idx of None \<Rightarrow> (''plain'', stored)
             | Some i \<Rightarrow> if i > 0 then (take i stored, drop (i + 1) stored) else (''plain'', stored))
      in if scheme = ''sha256''
         then Inr (expected \<noteq> [] \<and> timingSafeEqual (utf8 (to_lower (sha256hex pf presented))) (utf8 (to_lower expected)))
         else if scheme = ''plain'' then Inr (expected \<noteq> [] \<and> timingSafeEqual (utf8 presented) (utf8 expected))
         else Inl (''unsupported secret digest scheme: '' @ scheme))"

section \<open>The cache\<close>

definition cache_ok :: "platform \<Rightarrow> aes_cache \<Rightarrow> bool" where
  "cache_ok pf c \<longleftrightarrow> (\<forall>secret purpose key. CHR '' '' \<notin> set purpose \<longrightarrow>
     map_of c (aes_cache_key secret purpose) = Some key \<longrightarrow> key = aesKey pf secret purpose)"

lemma aes_cache_key_inj:
  assumes "CHR '' '' \<notin> set p" "CHR '' '' \<notin> set p'"
  shows "aes_cache_key s p = aes_cache_key s' p' \<longleftrightarrow> s = s' \<and> p = p'"
proof
  assume a: "aes_cache_key s p = aes_cache_key s' p'"
  have "takeWhile (\<lambda>c. c \<noteq> CHR '' '') (aes_cache_key u q) = q" if "CHR '' '' \<notin> set q" for u q
    using that by (auto simp: aes_cache_key_def takeWhile_append)
  with assms a have "p = p'" by metis
  with a show "s = s' \<and> p = p'" by (simp add: aes_cache_key_def)
qed simp

lemma aesKey_cached_correct:
  assumes "cache_ok pf c" "CHR '' '' \<notin> set purpose"
  shows "fst (aesKey_cached pf c secret purpose) = aesKey pf secret purpose"
    and "cache_ok pf (snd (aesKey_cached pf c secret purpose))"
  using assms
  by (auto simp: aesKey_cached_def cache_ok_def aesKey_def Let_def update_conv' aes_cache_key_inj
      split: option.splits if_splits)

section \<open>Tokens\<close>

lemma from_utf8_utf8 [simp]: "from_utf8 (utf8 s) = s"
proof -
  have "char_of (unat (of_nat (of_char c) :: byte)) = c" for c :: char
    using of_char_lt [of c] by (simp add: unat_of_nat take_bit_nat_eq_self_iff)
  then show ?thesis by (simp add: from_utf8_def utf8_def comp_def)
qed

lemma B64_URL_safe:
  "list_all (\<lambda>c. (is_alnum c \<or> c = CHR ''+'' \<or> c = CHR ''/'')) B64_ALPHA"
  by code_simp

lemma b64u_alphabet: "c \<in> set (b64u bs) \<Longrightarrow> is_alnum c \<or> c = CHR ''-'' \<or> c = CHR ''_''"
proof -
  assume "c \<in> set (b64u bs)"
  then obtain d where "d \<in> set (b64_chunks bs)"
    "c = (if (if d = CHR ''+'' then CHR ''-'' else d) = CHR ''/'' then CHR ''_'' else (if d = CHR ''+'' then CHR ''-'' else d))"
    by (auto simp: b64u_def replace_char_def)
  then show ?thesis using B64_URL_safe b64_chunks_alpha [of d bs] by (auto simp: list_all_iff split: if_splits)
qed

lemma b64u_no_dot [simp]: "CHR ''.'' \<notin> set (b64u bs)"
proof
  assume "CHR ''.'' \<in> set (b64u bs)"
  then have "is_alnum (CHR ''.'')" using b64u_alphabet by fastforce
  moreover have "\<not> is_alnum (CHR ''.'')" by code_simp
  ultimately show False by simp
qed

text \<open>The text of a token splits back into its four parts.\<close>

lemma split_token:
  assumes "CHR ''.'' \<notin> set kv" "CHR ''.'' \<notin> set purpose"
  shows "split_on (CHR ''.'') (kv @ ''.'' @ purpose @ ''.'' @ b64u iv @ ''.'' @ b64u ct) = [kv, purpose, b64u iv, b64u ct]"
  using assms by (simp add: split_on_append_sep)

lemma length_aesKey: "hkdf_length pf \<Longrightarrow> length (aesKey pf s p) = 32"
  unfolding aesKey_def derive_def hkdf_length_def by (metis mult.commute)

lemma try_secrets_hit:
  assumes "gcm_roundtrip pf" "gcm_key_bound pf" "hkdf_length pf" "json_survives pf payload"
    and "secret \<in> set secrets"
  shows "try_secrets pf purpose iv aad (pf_encrypt pf (aesKey pf secret purpose) iv aad (utf8 (pf_stringify pf payload)))
     now maxAge secrets = check_age payload now maxAge"
  using assms(5)
proof (induction secrets)
  case (Cons s secrets)
  have p: "pf_parse pf (pf_stringify pf payload) = Some payload"
    using assms(4) by (simp add: json_survives_def)
  show ?case
  proof (cases "aesKey pf s purpose = aesKey pf secret purpose")
    case True
    with assms(1) p show ?thesis by (simp add: gcm_roundtrip_def)
  next
    case False
    then have "pf_decrypt pf (aesKey pf s purpose) iv aad
        (pf_encrypt pf (aesKey pf secret purpose) iv aad (utf8 (pf_stringify pf payload))) = None"
      using assms(2,3) length_aesKey by (simp add: gcm_key_bound_def)
    with Cons False show ?thesis by auto
  qed
qed simp

definition platform_ok :: "platform \<Rightarrow> bool" where
  "platform_ok pf \<longleftrightarrow> gcm_roundtrip pf \<and> gcm_key_bound pf \<and> hkdf_length pf"

lemma unseal_seal:
  assumes "platform_ok pf" "json_survives pf payload" "secret \<in> set secrets" "secret \<noteq> []"
    and "CHR ''.'' \<notin> set purpose" "CHR ''.'' \<notin> set (coalesce kv ''k1'')"
  shows "unseal pf secrets purpose (seal pf iv secret purpose payload kv) now maxAge = check_age payload now maxAge"
proof -
  have "try_secrets pf purpose iv (utf8 (coalesce kv ''k1'' @ ''.'' @ purpose))
      (pf_encrypt pf (aesKey pf secret purpose) iv (utf8 (coalesce kv ''k1'' @ ''.'' @ purpose)) (utf8 (pf_stringify pf payload)))
      now maxAge (filter (\<lambda>s. s \<noteq> []) secrets) = check_age payload now maxAge"
    using assms by (intro try_secrets_hit) (auto simp: platform_ok_def)
  then show ?thesis
    using split_token [OF assms(6,5)] by (simp add: unseal_def seal_def Let_def)
qed

lemma check_age_Inr: "check_age payload now maxAge = Inr p \<Longrightarrow>
   p = payload \<and> (\<forall>e. as_num (jget payload ''exp'') = Some e \<longrightarrow> now \<le> e)"
  by (auto simp: check_age_def split: if_splits option.splits)

lemma try_secrets_Inr:
  "try_secrets pf purpose iv aad ct now maxAge secrets = Inr payload \<Longrightarrow>
   \<exists>secret\<in>set secrets. \<exists>pt. pf_decrypt pf (aesKey pf secret purpose) iv aad ct = Some pt \<and>
     pf_parse pf (from_utf8 pt) = Some payload \<and> check_age payload now maxAge = Inr payload"
proof (induction secrets)
  case (Cons s secrets)
  show ?case
  proof (cases "pf_decrypt pf (aesKey pf s purpose) iv aad ct")
    case None
    with Cons show ?thesis by auto
  next
    case (Some pt)
    with Cons.prems show ?thesis by (auto split: option.splits dest: check_age_Inr)
  qed
qed simp

text \<open>What an opened token shows: it names the purpose it is opened for, its ciphertext decrypts under
  one of the secrets' keys for that purpose with the purpose authenticated, and it has not expired.\<close>

lemma unseal_Inr:
  assumes "unseal pf secrets purpose token now maxAge = Inr payload"
  obtains kv ivPart ctPart iv ct secret pt where
    "split_on (CHR ''.'') token = [kv, purpose, ivPart, ctPart]"
    "unb64u ivPart = Inr iv" "unb64u ctPart = Inr ct" "secret \<in> set secrets" "secret \<noteq> []"
    "pf_decrypt pf (aesKey pf secret purpose) iv (utf8 (kv @ ''.'' @ purpose)) ct = Some pt"
    "pf_parse pf (from_utf8 pt) = Some payload"
    "\<forall>e. as_num (jget payload ''exp'') = Some e \<longrightarrow> now \<le> e"
proof -
  from assms obtain kv ivPart ctPart iv ct where
    p: "split_on (CHR ''.'') token = [kv, purpose, ivPart, ctPart]" "unb64u ivPart = Inr iv" "unb64u ctPart = Inr ct"
    and t: "try_secrets pf purpose iv (utf8 (kv @ ''.'' @ purpose)) ct now maxAge (filter (\<lambda>s. s \<noteq> []) secrets) = Inr payload"
    unfolding unseal_def by (auto split: list.splits if_splits sum.splits)
  from try_secrets_Inr [OF t] p show thesis by (auto dest!: check_age_Inr intro: that)
qed

section \<open>Properties\<close>

text \<open>C27: what is sealed under one of the configured secrets (the current one or one being rotated
  out) opens to the same value until it expires, and is refused as expired afterwards.\<close>

theorem seal_roundtrip:
  assumes "platform_ok pf" "json_survives pf payload" "secret \<in> set secrets" "secret \<noteq> []"
    and "CHR ''.'' \<notin> set purpose" "as_num (jget payload ''exp'') = Some e"
  shows "unseal pf secrets purpose (seal pf iv secret purpose payload None) now None =
    (if now \<le> e then Inr payload else Inl (SealError ''token expired''))"
proof -
  have "CHR ''.'' \<notin> set (coalesce None ''k1'')" by (simp add: coalesce_def)
  moreover have "payload \<noteq> JNull" using assms(6) by auto
  ultimately show ?thesis using assms by (simp add: unseal_seal check_age_def)
qed

definition toy_encrypt :: "bytes \<Rightarrow> bytes \<Rightarrow> bytes \<Rightarrow> bytes \<Rightarrow> bytes" where
  "toy_encrypt k iv aad p = k @ iv @ aad @ p"

definition toy_decrypt :: "bytes \<Rightarrow> bytes \<Rightarrow> bytes \<Rightarrow> bytes \<Rightarrow> bytes option" where
  "toy_decrypt k iv aad c = (if prefix (k @ iv @ aad) c then Some (drop (length (k @ iv @ aad)) c) else None)"

definition toy_hkdf :: "bytes \<Rightarrow> bytes \<Rightarrow> nat \<Rightarrow> bytes" where
  "toy_hkdf ikm info n = take (n div 8) (ikm @ info @ replicate (n div 8) 0)"

definition toy_platform :: "json \<Rightarrow> platform" where
  "toy_platform j = \<lparr>pf_sha256 = (\<lambda>x. x), pf_hmac = (\<lambda>h k m. k @ m), pf_hkdf = toy_hkdf,
     pf_encrypt = toy_encrypt, pf_decrypt = toy_decrypt, pf_stringify = (\<lambda>_. ''{}''), pf_parse = (\<lambda>_. Some j)\<rparr>"

lemma toy_platform_ok: "platform_ok (toy_platform j)" "json_survives (toy_platform j) j"
  by (auto simp: platform_ok_def gcm_roundtrip_def gcm_key_bound_def hkdf_length_def json_survives_def
      toy_platform_def toy_encrypt_def toy_decrypt_def toy_hkdf_def prefix_def)

theorem seal_roundtrip_witness:
  "unseal (toy_platform (JObj [(''exp'', JNum 100)])) [''new'', ''old''] ''code''
     (seal (toy_platform (JObj [(''exp'', JNum 100)])) [1, 2, 3] ''old'' ''code'' (JObj [(''exp'', JNum 100)]) None) 90 None
   = Inr (JObj [(''exp'', JNum 100)])"
  using seal_roundtrip [OF toy_platform_ok(1) toy_platform_ok(2), of "''old''" "[''new'', ''old'']" "''code''"
      "JObj [(''exp'', JNum 100)]" 100 "[1, 2, 3]" 90]
  by simp

text \<open>A token opens only for the purpose it names, only when its ciphertext authenticates that
  purpose under a configured secret's key for it, and never after its expiry.\<close>

lemma unseal_purpose_bound:
  assumes "unseal pf secrets purpose token now maxAge = Inr payload"
  shows "\<exists>kv ivPart ctPart iv ct secret pt.
    split_on (CHR ''.'') token = [kv, purpose, ivPart, ctPart] \<and> unb64u ivPart = Inr iv \<and> unb64u ctPart = Inr ct \<and>
    secret \<in> set secrets \<and> secret \<noteq> [] \<and>
    pf_decrypt pf (aesKey pf secret purpose) iv (utf8 (kv @ ''.'' @ purpose)) ct = Some pt \<and>
    pf_parse pf (from_utf8 pt) = Some payload \<and> (\<forall>e. as_num (jget payload ''exp'') = Some e \<longrightarrow> now \<le> e)"
  using assms by (elim unseal_Inr) blast

fun warm :: "platform \<Rightarrow> aes_cache \<Rightarrow> (string \<times> string) list \<Rightarrow> aes_cache" where
  "warm pf c [] = c"
| "warm pf c ((secret, purpose) # rest) = warm pf (snd (aesKey_cached pf c secret purpose)) rest"

lemma warm_ok:
  "cache_ok pf c \<Longrightarrow> list_all (\<lambda>(s, p). CHR '' '' \<notin> set p) ks \<Longrightarrow> cache_ok pf (warm pf c ks)"
  by (induction pf c ks rule: warm.induct) (auto intro: aesKey_cached_correct)

text \<open>The key cache is transparent. Starting from an empty cache, after any lookups for purposes
  without spaces, a lookup returns the key a fresh derivation returns.\<close>

lemma aes_cache_transparent:
  assumes "list_all (\<lambda>(s, p). CHR '' '' \<notin> set p) ks" "CHR '' '' \<notin> set purpose"
  shows "fst (aesKey_cached pf (warm pf [] ks) secret purpose) = aesKey pf secret purpose"
  using assms by (intro aesKey_cached_correct warm_ok) (auto simp: cache_ok_def)

end
