(* ===== verification/State_Store.thy ===== *)
theory State_Store
  imports Prelude
begin

text \<open>
  The optional shared state, \<^verbatim>\<open>src/store/index.js\<close> and \<^verbatim>\<open>adapters/cloudflare/state-do.js\<close>.
  Three primitives, \<open>claim\<close>, \<open>has\<close> and \<open>increment\<close>, are modelled for the in-memory store and for the
  Durable Object namespace as functions of the state, the clock in milliseconds and the arguments.
  The contract their callers rely on is the locale \<open>state_store\<close>: a live claim is never granted
  again nor forgotten, and a protected counter is never set back. Both stores are interpretations.
\<close>

section \<open>Operations and replies\<close>

datatype store_op =
    Claim string int
  | Has string
  | Increment string int bool
  | Alarm string

datatype reply = Fresh bool | Claimed bool | Count int | Failed string | Done

text \<open>A store as its callers see it: the state, the clock in milliseconds and an operation give the reply
  and the new state.\<close>

type_synonym 's stepper = "'s \<Rightarrow> int \<Rightarrow> store_op \<Rightarrow> reply \<times> 's"

definition nowSeconds :: "int \<Rightarrow> int" where
  "nowSeconds now = now div 1000"

fun op_key :: "store_op \<Rightarrow> string" where
  "op_key (Claim k _) = k"
| "op_key (Has k) = k"
| "op_key (Increment k _ _) = k"
| "op_key (Alarm k) = k"

fun counts :: "store_op \<Rightarrow> bool" where
  "counts (Increment _ _ _) = True"
| "counts _ = False"

fun claims_op :: "store_op \<Rightarrow> bool" where
  "claims_op (Claim _ _) = True"
| "claims_op _ = False"

section \<open>The in-memory store\<close>

record counter =
  expiresAt :: int
  count :: int
  failClosed :: bool

record mem_store =
  maxEntries :: nat
  claims :: "(string \<times> int) list"
  counters :: "(string \<times> counter) list"

definition createMemoryStore :: "nat \<Rightarrow> mem_store" where
  "createMemoryStore m = \<lparr>maxEntries = m, claims = [], counters = []\<rparr>"

definition sweep :: "('v \<Rightarrow> int) \<Rightarrow> (string \<times> 'v) list \<Rightarrow> int \<Rightarrow> (string \<times> 'v) list" where
  "sweep expiry m now = filter (\<lambda>(k, v). \<not> expiry v < now) m"

definition mem_claim :: "mem_store \<Rightarrow> int \<Rightarrow> string \<Rightarrow> int \<Rightarrow> reply \<times> mem_store" where
  "mem_claim s clock cid ttlSeconds =
     (let now = nowSeconds clock
      in if (case map_of (claims s) cid of None \<Rightarrow> False | Some existing \<Rightarrow> existing \<ge> now)
         then (Fresh False, s)
         else (let cs = (if length (claims s) \<ge> maxEntries s then sweep (\<lambda>e. e) (claims s) now else claims s)
               in if length cs \<ge> maxEntries s
                  then (Failed ''the in-memory state store is full'', s\<lparr>claims := cs\<rparr>)
                  else (Fresh True, s\<lparr>claims := AList.update cid (now + max 1 ttlSeconds) cs\<rparr>)))"

definition mem_has :: "mem_store \<Rightarrow> int \<Rightarrow> string \<Rightarrow> reply \<times> mem_store" where
  "mem_has s clock cid =
     (case map_of (claims s) cid of None \<Rightarrow> (Claimed False, s)
      | Some expiry \<Rightarrow>
          if expiry < nowSeconds clock then (Claimed False, s\<lparr>claims := AList.delete cid (claims s)\<rparr>)
          else (Claimed True, s))"

text \<open>The eviction loop: it runs over the entries in insertion order, stops once there is room,
  skips protected counters, and deletes at most \<open>drop\<close> others.\<close>

fun evict :: "nat \<Rightarrow> nat \<Rightarrow> (string \<times> counter) list \<Rightarrow> (string \<times> counter) list \<Rightarrow> (string \<times> counter) list" where
  "evict m budget [] cs = cs"
| "evict m budget ((oldest, entry) # rest) cs =
     (if length cs < m then cs
      else if failClosed entry then evict m budget rest cs
      else (let cs' = AList.delete oldest cs
            in if budget - 1 = 0 then cs' else evict m (budget - 1) rest cs'))"

definition mem_increment :: "mem_store \<Rightarrow> int \<Rightarrow> string \<Rightarrow> int \<Rightarrow> bool \<Rightarrow> reply \<times> mem_store" where
  "mem_increment s clock key ttlSeconds fc =
     (let now = nowSeconds clock
      in case (case map_of (counters s) key of None \<Rightarrow> None
               | Some e \<Rightarrow> if expiresAt e \<ge> now then Some e else None) of
           Some e \<Rightarrow>
             (let e' = e\<lparr>failClosed := failClosed e \<or> fc, count := count e + 1\<rparr>
              in (Count (count e'), s\<lparr>counters := AList.update key e' (counters s)\<rparr>))
         | None \<Rightarrow>
             (let cs = (if length (counters s) \<ge> maxEntries s
                        then (let swept = sweep expiresAt (counters s) now
                              in evict (maxEntries s) (max 1 ((maxEntries s + 9) div 10)) swept swept)
                        else counters s)
              in if length cs \<ge> maxEntries s
                 then (Failed ''the in-memory state store is full'', s\<lparr>counters := cs\<rparr>)
                 else (Count 1, s\<lparr>counters := AList.update key
                         \<lparr>expiresAt = now + max 1 ttlSeconds, count = 1, failClosed = fc\<rparr> cs\<rparr>)))"

definition mem_size :: "mem_store \<Rightarrow> nat" where
  "mem_size s = length (claims s) + length (counters s)"

text \<open>No alarm exists in a single process.\<close>

fun mem_step :: "mem_store \<Rightarrow> int \<Rightarrow> store_op \<Rightarrow> reply \<times> mem_store" where
  "mem_step s now (Claim cid ttl) = mem_claim s now cid ttl"
| "mem_step s now (Has cid) = mem_has s now cid"
| "mem_step s now (Increment key ttl fc) = mem_increment s now key ttl fc"
| "mem_step s now (Alarm key) = (Done, s)"

section \<open>The Durable Object\<close>

text \<open>The storage of one object. The value under \<open>claimed\<close> is the time of the claim, so it is
  truthy for every clock after the epoch.\<close>

record guard_obj =
  claimed :: "int option"
  hits :: "int option"
  alarm :: "int option"

definition empty_obj :: guard_obj where
  "empty_obj = \<lparr>claimed = None, hits = None, alarm = None\<rparr>"

definition num_or :: "int option \<Rightarrow> int \<Rightarrow> int" where
  "num_or v d = (case v of None \<Rightarrow> d | Some n \<Rightarrow> if n = 0 then d else n)"

text \<open>\<open>fetch\<close>, from a method and a parsed body (\<open>None\<close> when it is not JSON) to a status and a body. The store always sends
  an object with a number; the JSON text \<open>null\<close>, on which the source fails, is answered here as a request without an identifier.\<close>

definition StateGuard_fetch :: "guard_obj \<Rightarrow> int \<Rightarrow> string \<Rightarrow> json option \<Rightarrow> (int \<times> json) \<times> guard_obj" where
  "StateGuard_fetch s now meth parsed =
     (if meth \<noteq> ''POST'' then ((405, JObj [(''error'', JStr ''method_not_allowed'')]), s)
      else (case parsed of None \<Rightarrow> ((400, JObj [(''error'', JStr ''invalid_request'')]), s)
      | Some body \<Rightarrow>
          if or_str (as_str (jget body ''id'')) [] = [] then ((400, JObj [(''error'', JStr ''invalid_request'')]), s)
          else (let ttl = min (max (num_or (as_num (jget body ''ttlSeconds'')) 120) 60) (366 * 86400);
                    asked = or_str (as_str (jget body ''op'')) [];
                    op = (if asked \<in> {''claim'', ''has'', ''increment''} then asked else ''claim'')
                in if op = ''has'' then ((200, JObj [(''claimed'', JBool (num_or (claimed s) 0 \<noteq> 0))]), s)
                   else if op = ''increment'' then
                     (let current = num_or (hits s) 0; nxt = current + 1; s1 = s\<lparr>hits := Some nxt\<rparr>
                      in ((200, JObj [(''count'', JNum nxt)]),
                          if current = 0 then s1\<lparr>alarm := Some (now + ttl * 1000)\<rparr> else s1))
                   else if num_or (claimed s) 0 \<noteq> 0 then ((200, JObj [(''fresh'', JBool False)]), s)
                   else ((200, JObj [(''fresh'', JBool True)]),
                         s\<lparr>claimed := Some now, alarm := Some (now + ttl * 1000)\<rparr>))))"

definition StateGuard_alarm :: "guard_obj \<Rightarrow> guard_obj" where
  "StateGuard_alarm s = empty_obj"

text \<open>The namespace: one object per key, \<open>binding.get(binding.idFromName(key))\<close>.\<close>

type_synonym do_store = "(string \<times> guard_obj) list"

definition obj_of :: "do_store \<Rightarrow> string \<Rightarrow> guard_obj" where
  "obj_of s k = (case map_of s k of None \<Rightarrow> empty_obj | Some ob \<Rightarrow> ob)"

definition do_call :: "do_store \<Rightarrow> int \<Rightarrow> string \<Rightarrow> string \<Rightarrow> int \<Rightarrow> (string, json) result \<times> do_store" where
  "do_call s now op key ttlSeconds =
     (let ((status, body), ob) = StateGuard_fetch (obj_of s key) now ''POST''
            (Some (JObj [(''op'', JStr op), (''id'', JStr key), (''ttlSeconds'', JNum ttlSeconds)]));
          s' = AList.update key ob s
      in (if status < 200 \<or> status > 299 then Inl (''state store returned HTTP '' @ show_int status) else Inr body, s'))"

definition do_claim :: "do_store \<Rightarrow> int \<Rightarrow> string \<Rightarrow> int \<Rightarrow> reply \<times> do_store" where
  "do_claim s now cid ttl =
     (case do_call s now ''claim'' cid ttl of (Inl e, s') \<Rightarrow> (Failed e, s')
      | (Inr body, s') \<Rightarrow> (Fresh (jget body ''fresh'' = Some (JBool True)), s'))"

definition do_has :: "do_store \<Rightarrow> int \<Rightarrow> string \<Rightarrow> reply \<times> do_store" where
  "do_has s now cid =
     (case do_call s now ''has'' cid 0 of (Inl e, s') \<Rightarrow> (Failed e, s')
      | (Inr body, s') \<Rightarrow> (Claimed (jget body ''claimed'' = Some (JBool True)), s'))"

definition do_increment :: "do_store \<Rightarrow> int \<Rightarrow> string \<Rightarrow> int \<Rightarrow> reply \<times> do_store" where
  "do_increment s now key ttl =
     (case do_call s now ''increment'' key ttl of (Inl e, s') \<Rightarrow> (Failed e, s')
      | (Inr body, s') \<Rightarrow> (Count (num_or (as_num (jget body ''count'')) 0), s'))"

text \<open>The runtime runs an object's alarm at its time or later, never before.\<close>

fun do_step :: "do_store \<Rightarrow> int \<Rightarrow> store_op \<Rightarrow> reply \<times> do_store" where
  "do_step s now (Claim cid ttl) = do_claim s now cid ttl"
| "do_step s now (Has cid) = do_has s now cid"
| "do_step s now (Increment key ttl fc) = do_increment s now key ttl"
| "do_step s now (Alarm key) =
     (case alarm (obj_of s key) of None \<Rightarrow> (Done, s)
      | Some a \<Rightarrow> if a \<le> now then (Done, AList.update key (StateGuard_alarm (obj_of s key)) s) else (Done, s))"

section \<open>The contract\<close>

text \<open>\<open>held s t cid\<close>: the claim on \<open>id\<close> is live until \<open>t\<close>. An operation on a claim's key that counts
  is outside the contract: the callers use different prefixes for claims and counters.\<close>

locale claim_store =
  fixes step :: "'s \<Rightarrow> int \<Rightarrow> store_op \<Rightarrow> reply \<times> 's"
    and held :: "'s \<Rightarrow> int \<Rightarrow> string \<Rightarrow> bool"
  assumes held_after: "step s now (Claim cid ttl) = (Fresh True, s') \<Longrightarrow> 0 < now \<Longrightarrow> now \<le> t \<Longrightarrow>
      ttl \<le> 366 * 86400 \<Longrightarrow> t < now + ttl * 1000 \<Longrightarrow> held s' t cid"
    and held_kept: "held s t cid \<Longrightarrow> 0 < now \<Longrightarrow> now \<le> t \<Longrightarrow> \<not> (counts op \<and> op_key op = cid) \<Longrightarrow>
      step s now op = (r, s') \<Longrightarrow> held s' t cid"
    and held_refused: "held s now cid \<Longrightarrow> 0 < now \<Longrightarrow> fst (step s now (Claim cid ttl)) \<noteq> Fresh True"
    and held_seen: "held s now cid \<Longrightarrow> 0 < now \<Longrightarrow> fst (step s now (Has cid)) \<noteq> Claimed False"
begin

fun run :: "'s \<Rightarrow> (int \<times> store_op) list \<Rightarrow> reply list \<times> 's" where
  "run s [] = ([], s)"
| "run s ((now, op) # ops) =
     (let (r, s1) = step s now op; (rs, s2) = run s1 ops in (r # rs, s2))"

lemma run_held:
  "held s t cid \<Longrightarrow> (\<And>now op. (now, op) \<in> set ops \<Longrightarrow> 0 < now \<and> now \<le> t \<and> \<not> (counts op \<and> op_key op = cid)) \<Longrightarrow>
     held (snd (run s ops)) t cid"
proof (induction ops arbitrary: s)
  case (Cons e ops)
  obtain now op where e: "e = (now, op)" by (cases e)
  obtain r s1 where st: "step s now op = (r, s1)" by (cases "step s now op")
  have "held s1 t cid"
    using Cons.prems(1) Cons.prems(2) [of now op] st e by (intro held_kept [of s t cid now op r s1]) auto
  then have "held (snd (run s1 ops)) t cid"
    using Cons.prems(2) by (intro Cons.IH) (auto simp: e)
  then show ?case by (simp add: e st split: prod.splits) (metis snd_conv)
qed simp

lemma run_invariant:
  "(\<And>s now op. P s \<Longrightarrow> P (snd (step s now op))) \<Longrightarrow> P s \<Longrightarrow> P (snd (run s ops))"
proof (induction ops arbitrary: s)
  case (Cons e ops)
  then show ?case by (cases e) (simp add: split_beta Let_def)
qed simp

text \<open>A claim is granted once: after a grant and any run of other operations, the same claim is
  refused for as long as the record was asked to live.\<close>

lemma claim_once:
  assumes "step s now (Claim cid ttl) = (Fresh True, s')" "0 < now" "now \<le> t" "t < now + ttl * 1000" "ttl \<le> 366 * 86400"
    and "\<And>u op. (u, op) \<in> set ops \<Longrightarrow> 0 < u \<and> u \<le> t \<and> \<not> (counts op \<and> op_key op = cid)"
  shows "fst (step (snd (run s' ops)) t (Claim cid ttl')) \<noteq> Fresh True"
    and "fst (step (snd (run s' ops)) t (Has cid)) \<noteq> Claimed False"
proof -
  have "held (snd (run s' ops)) t cid"
    using assms by (intro run_held held_after [of s now cid ttl]) auto
  moreover have "0 < t" using assms by simp
  ultimately show "fst (step (snd (run s' ops)) t (Claim cid ttl')) \<noteq> Fresh True"
    and "fst (step (snd (run s' ops)) t (Has cid)) \<noteq> Claimed False"
    using held_refused [of "snd (run s' ops)" t cid ttl'] held_seen [of "snd (run s' ops)" t cid] by auto
qed

end

text \<open>\<open>counted s t key n\<close>: until \<open>t\<close> the counter under \<open>key\<close> stands at \<open>n\<close> or more. \<open>safe fc\<close>: an
  increment with that \<open>failClosed\<close> flag is protected by this store.\<close>

locale counter_store =
  fixes step :: "'s \<Rightarrow> int \<Rightarrow> store_op \<Rightarrow> reply \<times> 's"
    and counted :: "'s \<Rightarrow> int \<Rightarrow> string \<Rightarrow> int \<Rightarrow> bool"
    and safe :: "bool \<Rightarrow> bool"
  assumes counted_kept: "counted s t key n \<Longrightarrow> now \<le> t \<Longrightarrow> op_key op \<noteq> key \<or> \<not> counts op \<and> \<not> claims_op op \<Longrightarrow>
      step s now op = (r, s') \<Longrightarrow> counted s' t key n"
    and counted_up: "counted s t key n \<Longrightarrow> now \<le> t \<Longrightarrow> t < now + ttl * 1000 \<Longrightarrow> ttl \<le> 366 * 86400 \<Longrightarrow> safe fc \<Longrightarrow>
      step s now (Increment key ttl fc) = (Count m, s') \<Longrightarrow> n < m \<and> counted s' t key (n + 1)"
    and counted_failed: "counted s t key n \<Longrightarrow> now \<le> t \<Longrightarrow> t < now + ttl * 1000 \<Longrightarrow> ttl \<le> 366 * 86400 \<Longrightarrow> safe fc \<Longrightarrow>
      step s now (Increment key ttl fc) = (Failed e, s') \<Longrightarrow> counted s' t key n"
    and increment_reply: "step s now (Increment key ttl fc) = (r, s') \<Longrightarrow> (\<exists>m. r = Count m) \<or> (\<exists>e. r = Failed e)"
begin

text \<open>The increments of \<open>key\<close> in a run whose reply is within the limit.\<close>

fun within :: "'s \<Rightarrow> string \<Rightarrow> int \<Rightarrow> (int \<times> store_op) list \<Rightarrow> nat" where
  "within s key lim [] = 0"
| "within s key lim ((now, op) # ops) =
     (case step s now op of (r, s1) \<Rightarrow>
        (if counts op \<and> op_key op = key \<and> (\<exists>m. r = Count m \<and> m \<le> lim) then 1 else 0) + within s1 key lim ops)"

text \<open>However the operations interleave, at most \<open>lim - n\<close> more increments of a counter that stands
  at \<open>n\<close> are answered with a number within the limit.\<close>

lemma limit_enforced:
  assumes "counted s t key n"
    and "\<And>now op. (now, op) \<in> set ops \<Longrightarrow> now \<le> t \<and> (op_key op = key \<longrightarrow>
       (\<exists>ttl fc. op = Increment key ttl fc \<and> safe fc \<and> t < now + ttl * 1000 \<and> ttl \<le> 366 * 86400) \<or> \<not> counts op \<and> \<not> claims_op op)"
  shows "int (within s key lim ops) \<le> max 0 (lim - n)"
  using assms
proof (induction ops arbitrary: s n)
  case (Cons e ops)
  obtain now op where e: "e = (now, op)" by (cases e)
  obtain r s1 where st: "step s now op = (r, s1)" by (cases "step s now op")
  have hyp: "now \<le> t \<and> (op_key op = key \<longrightarrow>
       (\<exists>ttl fc. op = Increment key ttl fc \<and> safe fc \<and> t < now + ttl * 1000 \<and> ttl \<le> 366 * 86400) \<or> \<not> counts op \<and> \<not> claims_op op)"
    using Cons.prems(2) [of now op] by (simp add: e)
  have tail: "int (within s1 key lim ops) \<le> max 0 (lim - n')" if "counted s1 t key n'" for n'
    using that Cons.prems(2) by (intro Cons.IH) (auto simp: e)
  show ?case
  proof (cases "op_key op = key \<and> counts op")
    case False
    then have "counted s1 t key n"
      using counted_kept [OF Cons.prems(1) _ _ st] hyp by (cases op) auto
    with False st show ?thesis by (auto simp: e dest: tail)
  next
    case True
    then obtain ttl fc where op: "op = Increment key ttl fc" "safe fc" "t < now + ttl * 1000" "ttl \<le> 366 * 86400"
      using hyp by auto
    from increment_reply st op(1) consider m where "r = Count m" | x where "r = Failed x" by blast
    then show ?thesis
    proof cases
      case 1
      with counted_up [OF Cons.prems(1) _ op(3,4,2)] hyp st op(1)
      have "n < m" "counted s1 t key (n + 1)" by auto
      with tail [of "n + 1"] st op 1 show ?thesis by (auto simp: e)
    next
      case 2
      then have "counted s1 t key n" using counted_failed [OF Cons.prems(1) _ op(3,4,2)] hyp st op(1) by auto
      with 2 st op tail show ?thesis by (simp add: e)
    qed
  qed
qed simp

end

text \<open>A store honours both contracts over the same operations.\<close>

locale state_store = claim_store step held + counter_store step counted safe
  for step :: "'s \<Rightarrow> int \<Rightarrow> store_op \<Rightarrow> reply \<times> 's"
    and held counted safe

section \<open>The in-memory store honours the contract\<close>

definition mem_held :: "mem_store \<Rightarrow> int \<Rightarrow> string \<Rightarrow> bool" where
  "mem_held s t cid \<longleftrightarrow> (case map_of (claims s) cid of None \<Rightarrow> False | Some e \<Rightarrow> nowSeconds t \<le> e)"

definition mem_counted :: "mem_store \<Rightarrow> int \<Rightarrow> string \<Rightarrow> int \<Rightarrow> bool" where
  "mem_counted s t key n \<longleftrightarrow> distinct (map fst (counters s)) \<and>
     (case map_of (counters s) key of None \<Rightarrow> n \<le> 0
      | Some e \<Rightarrow> nowSeconds t \<le> expiresAt e \<and> n \<le> count e \<and> (n \<le> 0 \<or> failClosed e))"

lemma nowSeconds_mono: "a \<le> b \<Longrightarrow> nowSeconds a \<le> nowSeconds b"
  by (simp add: nowSeconds_def zdiv_mono1)

lemma nowSeconds_window: "t < now + ttl * 1000 \<Longrightarrow> nowSeconds t \<le> nowSeconds now + max 1 ttl"
  unfolding nowSeconds_def by linarith

lemma map_of_sweep_None: "map_of m k = None \<Longrightarrow> map_of (sweep expiry m now) k = None"
  by (induction m) (auto simp: sweep_def split: if_splits)

lemma map_of_sweep_live:
  "map_of m k = Some v \<Longrightarrow> \<not> expiry v < now \<Longrightarrow> map_of (sweep expiry m now) k = Some v"
  by (induction m) (auto simp: sweep_def split: if_splits)

lemma distinct_sweep: "distinct (map fst m) \<Longrightarrow> distinct (map fst (sweep expiry m now))"
  unfolding sweep_def by (rule distinct_filter_fst)

lemma length_sweep: "length (sweep expiry m now) \<le> length m"
  by (simp add: sweep_def)

lemma distinct_evict: "distinct (map fst cs) \<Longrightarrow> distinct (map fst (evict m d rest cs))"
  by (induction m d rest cs rule: evict.induct) (auto simp: Let_def distinct_delete)

lemma length_evict: "length (evict m d rest cs) \<le> length cs"
  by (induction m d rest cs rule: evict.induct) (auto simp: Let_def length_delete_le intro: order_trans)

lemma map_of_evict_protected:
  "map_of cs k = Some e \<Longrightarrow> failClosed e \<Longrightarrow> (\<And>e'. (k, e') \<in> set rest \<Longrightarrow> failClosed e') \<Longrightarrow>
     map_of (evict m d rest cs) k = Some e"
proof (induction m d rest cs rule: evict.induct)
  case (2 m d oldest entry rest cs)
  show ?case
  proof (cases "length cs < m \<or> failClosed entry")
    case True
    with 2 show ?thesis by auto
  next
    case False
    then have "oldest \<noteq> k" using 2(5) by auto
    then have "map_of (AList.delete oldest cs) k = Some e" using 2 by (simp add: delete_conv')
    with 2 False show ?thesis by (auto simp: Let_def)
  qed
qed simp

lemma map_of_evict_cases:
  "map_of (evict m d rest cs) k = map_of cs k \<or> map_of (evict m d rest cs) k = None"
  by (induction m d rest cs rule: evict.induct) (auto simp: Let_def delete_conv' restrict_map_def)

lemma mem_claim_held:
  assumes "mem_held s t k" "now \<le> t" "mem_claim s now cid ttl = (r, s')"
  shows "mem_held s' t k"
proof -
  obtain e where e: "map_of (claims s) k = Some e" "nowSeconds t \<le> e"
    using assms(1) by (auto simp: mem_held_def split: option.splits)
  then have le: "nowSeconds now \<le> e" using nowSeconds_mono [OF assms(2)] by simp
  then have "map_of (sweep (\<lambda>e. e) (claims s) (nowSeconds now)) k = Some e"
    by (intro map_of_sweep_live e) simp
  with e le assms(3) show ?thesis
    by (auto simp: mem_claim_def mem_held_def Let_def update_conv' split: if_splits option.splits)
qed

lemma mem_has_held:
  "mem_held s t k \<Longrightarrow> now \<le> t \<Longrightarrow> mem_has s now cid = (r, s') \<Longrightarrow> mem_held s' t k"
  using nowSeconds_mono [of now t]
  by (auto simp: mem_has_def mem_held_def delete_conv' split: if_splits option.splits)

lemma mem_increment_claims: "mem_increment s now k ttl fc = (r, s') \<Longrightarrow> claims s' = claims s"
  by (auto simp: mem_increment_def Let_def split: if_splits option.splits)

lemma mem_claim_counters: "mem_claim s now k ttl = (r, s') \<Longrightarrow> counters s' = counters s"
  by (auto simp: mem_claim_def Let_def split: if_splits option.splits)

lemma mem_has_counters: "mem_has s now k = (r, s') \<Longrightarrow> counters s' = counters s"
  by (auto simp: mem_has_def split: if_splits option.splits)

lemmas mem_frame = mem_increment_claims mem_claim_counters mem_has_counters

text \<open>Making room for a new counter keeps the live protected ones.\<close>

definition make_room :: "mem_store \<Rightarrow> int \<Rightarrow> (string \<times> counter) list" where
  "make_room s now =
     (if length (counters s) \<ge> maxEntries s
      then evict (maxEntries s) (max 1 ((maxEntries s + 9) div 10))
             (sweep expiresAt (counters s) now) (sweep expiresAt (counters s) now)
      else counters s)"

lemma distinct_make_room: "distinct (map fst (counters s)) \<Longrightarrow> distinct (map fst (make_room s now))"
  by (simp add: make_room_def distinct_evict distinct_sweep)

lemma length_make_room: "length (make_room s now) \<le> length (counters s)"
  unfolding make_room_def
  using order_trans [OF length_evict length_sweep] by simp

lemma make_room_cases:
  "map_of (make_room s now) k = map_of (sweep expiresAt (counters s) now) k \<or>
   map_of (make_room s now) k = map_of (counters s) k \<or> map_of (make_room s now) k = None"
proof (cases "maxEntries s \<le> length (counters s)")
  case True
  define sw where "sw = sweep expiresAt (counters s) now"
  from True obtain d where "make_room s now = evict (maxEntries s) d sw sw"
    by (simp add: make_room_def sw_def)
  then show ?thesis using map_of_evict_cases [of "maxEntries s" d sw sw k] by (auto simp: sw_def)
qed (simp add: make_room_def)

lemma make_room_None: "map_of (counters s) k = None \<Longrightarrow> map_of (make_room s now) k = None"
  using make_room_cases [of s now k] map_of_sweep_None [of "counters s" k expiresAt now] by auto

lemma make_room_live:
  assumes "map_of (counters s) k = Some e" "now \<le> expiresAt e"
  shows "map_of (make_room s now) k = Some e \<or> map_of (make_room s now) k = None"
proof -
  have "map_of (sweep expiresAt (counters s) now) k = Some e"
    using assms by (intro map_of_sweep_live) auto
  with assms make_room_cases [of s now k] show ?thesis by auto
qed

lemma make_room_protected:
  assumes "distinct (map fst (counters s))" "map_of (counters s) k = Some e" "now \<le> expiresAt e" "failClosed e"
  shows "map_of (make_room s now) k = Some e"
proof -
  have "map_of (sweep expiresAt (counters s) now) k = Some e"
    using assms by (intro map_of_sweep_live) auto
  moreover from this have "failClosed e'" if "(k, e') \<in> set (sweep expiresAt (counters s) now)" for e'
    using that assms(1,4) by (auto dest: distinct_sweep [of _ expiresAt now] map_of_is_SomeI)
  ultimately show ?thesis using assms by (auto simp: make_room_def intro: map_of_evict_protected)
qed

lemma mem_increment_alt:
  "mem_increment s clock key ttl fc =
     (let now = nowSeconds clock
      in case map_of (counters s) key of
           Some e \<Rightarrow>
             if expiresAt e \<ge> now
             then (Count (count e + 1),
                   s\<lparr>counters := AList.update key (e\<lparr>failClosed := failClosed e \<or> fc, count := count e + 1\<rparr>) (counters s)\<rparr>)
             else if length (make_room s now) \<ge> maxEntries s
             then (Failed ''the in-memory state store is full'', s\<lparr>counters := make_room s now\<rparr>)
             else (Count 1, s\<lparr>counters := AList.update key
                     \<lparr>expiresAt = now + max 1 ttl, count = 1, failClosed = fc\<rparr> (make_room s now)\<rparr>)
         | None \<Rightarrow>
             if length (make_room s now) \<ge> maxEntries s
             then (Failed ''the in-memory state store is full'', s\<lparr>counters := make_room s now\<rparr>)
             else (Count 1, s\<lparr>counters := AList.update key
                     \<lparr>expiresAt = now + max 1 ttl, count = 1, failClosed = fc\<rparr> (make_room s now)\<rparr>))"
  by (auto simp: mem_increment_def make_room_def Let_def split: option.splits)

lemma mem_counted_room:
  assumes "mem_counted s t key n" "now \<le> t" "counters s' = make_room s (nowSeconds now)"
  shows "mem_counted s' t key n"
proof (cases "map_of (counters s) key")
  case None
  with assms show ?thesis
    by (simp add: mem_counted_def distinct_make_room make_room_None)
next
  case (Some e)
  have le: "nowSeconds now \<le> expiresAt e"
    using assms(1) Some nowSeconds_mono [OF assms(2)] by (simp add: mem_counted_def)
  have d: "distinct (map fst (counters s))" using assms(1) by (simp add: mem_counted_def)
  show ?thesis
  proof (cases "failClosed e")
    case True
    with assms Some le d show ?thesis
      by (simp add: mem_counted_def distinct_make_room make_room_protected)
  next
    case False
    with assms Some d make_room_live [OF Some le] show ?thesis
      by (auto simp: mem_counted_def distinct_make_room)
  qed
qed

lemma mem_counted_update_other:
  assumes "mem_counted s t key n" "key' \<noteq> key" "counters s' = AList.update key' e (counters s)"
  shows "mem_counted s' t key n"
  using assms by (simp add: mem_counted_def update_conv' distinct_update)

lemma mem_increment_other:
  assumes c: "mem_counted s t key n" and le: "now \<le> t"
    and ne: "key' \<noteq> key" and st: "mem_increment s now key' ttl fc = (r, s')"
  shows "mem_counted s' t key n"
proof -
  define room where "room = s\<lparr>counters := make_room s (nowSeconds now)\<rparr>"
  have room: "mem_counted room t key n" "counters room = make_room s (nowSeconds now)"
    using mem_counted_room [OF c le, of room] by (simp_all add: room_def)
  from st consider e where "counters s' = AList.update key' e (counters s)"
    | "counters s' = counters room"
    | e where "counters s' = AList.update key' e (counters room)"
    unfolding mem_increment_alt room_def by (auto simp: Let_def split: if_splits option.splits)
  then show ?thesis
  proof cases
    case 1 then show ?thesis by (rule mem_counted_update_other [OF c ne])
  next
    case 2 then show ?thesis using room(1) by (simp add: mem_counted_def)
  next
    case 3 then show ?thesis by (rule mem_counted_update_other [OF room(1) ne])
  qed
qed

lemma mem_increment_up:
  assumes c: "mem_counted s t key n" and le: "now \<le> t" and w: "t < now + ttl * 1000" and fc
    and st: "mem_increment s now key ttl fc = (Count m, s')"
  shows "n < m \<and> mem_counted s' t key (n + 1)"
proof (cases "map_of (counters s) key")
  case None
  with c st nowSeconds_window [OF w] \<open>fc\<close> show ?thesis
    by (auto simp: mem_increment_alt mem_counted_def Let_def update_conv' distinct_update distinct_make_room
        split: if_splits)
next
  case (Some e)
  have "nowSeconds now \<le> expiresAt e"
    using c Some nowSeconds_mono [OF le] by (simp add: mem_counted_def)
  with c st Some \<open>fc\<close> show ?thesis
    by (auto simp: mem_increment_alt mem_counted_def Let_def update_conv' distinct_update)
qed

lemma mem_increment_failed:
  assumes c: "mem_counted s t key n" and le: "now \<le> t"
    and st: "mem_increment s now key ttl fc = (Failed e, s')"
  shows "mem_counted s' t key n"
proof -
  from st have "counters s' = make_room s (nowSeconds now)"
    by (auto simp: mem_increment_alt Let_def split: if_splits option.splits)
  with c le show ?thesis by (rule mem_counted_room)
qed

interpretation mem: state_store mem_step mem_held mem_counted "\<lambda>fc. fc"
proof unfold_locales
  fix s now cid ttl s' t
  assume "mem_step s now (Claim cid ttl) = (Fresh True, s')" "now \<le> t" "t < now + ttl * 1000"
  then show "mem_held s' t cid"
    using nowSeconds_window [of t now ttl]
    by (auto simp: mem_claim_def mem_held_def Let_def update_conv' split: if_splits option.splits)
next
  fix s t cid now op r s'
  assume "mem_held s t cid" "now \<le> t" "mem_step s now op = (r, s')"
  then show "mem_held s' t cid"
    by (cases op) (auto simp: mem_held_def dest: mem_frame elim: mem_claim_held mem_has_held
        intro: mem_claim_held [unfolded mem_held_def] mem_has_held [unfolded mem_held_def])
next
  fix s now cid ttl
  assume "mem_held s now cid"
  then show "fst (mem_step s now (Claim cid ttl)) \<noteq> Fresh True"
    by (auto simp: mem_held_def mem_claim_def Let_def split: option.splits)
next
  fix s now cid
  assume "mem_held s now cid"
  then show "fst (mem_step s now (Has cid)) \<noteq> Claimed False"
    by (auto simp: mem_held_def mem_has_def split: option.splits)
next
  fix s t key n now op r s'
  assume a: "mem_counted s t key n" "now \<le> t" "op_key op \<noteq> key \<or> \<not> counts op \<and> \<not> claims_op op"
    "mem_step s now op = (r, s')"
  show "mem_counted s' t key n"
  proof (cases op)
    case (Increment k ttl fc)
    with a mem_increment_other show ?thesis by simp
  qed (use a in \<open>auto simp: mem_counted_def dest: mem_frame\<close>)
next
  fix s t key n now ttl fc m s'
  assume "mem_counted s t key n" "now \<le> t" "t < now + ttl * 1000" fc
    "mem_step s now (Increment key ttl fc) = (Count m, s')"
  then show "n < m \<and> mem_counted s' t key (n + 1)" using mem_increment_up by simp
next
  fix s t key n now ttl fc e s'
  assume "mem_counted s t key n" "now \<le> t" "mem_step s now (Increment key ttl fc) = (Failed e, s')"
  then show "mem_counted s' t key n" using mem_increment_failed by simp
next
  fix s now key ttl fc r s'
  assume "mem_step s now (Increment key ttl fc) = (r, s')"
  then show "(\<exists>m. r = Count m) \<or> (\<exists>e. r = Failed e)"
    by (auto simp: mem_increment_alt Let_def split: if_splits option.splits)
qed

section \<open>The Durable Object namespace honours the contract\<close>

definition guard_ttl :: "int \<Rightarrow> int" where
  "guard_ttl ttl = min (max (num_or (Some ttl) 120) 60) (366 * 86400)"

lemma guard_ttl_ge: "ttl \<le> 366 * 86400 \<Longrightarrow> ttl \<le> guard_ttl ttl"
  by (auto simp: guard_ttl_def num_or_def)

lemma num_or_zero [simp]: "num_or None 0 = 0" "num_or (Some n) 0 = n"
  by (simp_all add: num_or_def)

lemma obj_of_update [simp]: "obj_of (AList.update k ob s) k' = (if k' = k then ob else obj_of s k')"
  by (simp add: obj_of_def update_conv')

lemma obj_of_same [simp]: "obj_of (AList.update k (obj_of s k) s) k' = obj_of s k'"
  by simp

lemma do_claim_alt:
  "do_claim s now cid ttl =
     (if cid = [] then (Failed ''state store returned HTTP 400'', AList.update cid (obj_of s cid) s)
      else if num_or (claimed (obj_of s cid)) 0 \<noteq> 0 then (Fresh False, AList.update cid (obj_of s cid) s)
      else (Fresh True, AList.update cid
             ((obj_of s cid)\<lparr>claimed := Some now, alarm := Some (now + guard_ttl ttl * 1000)\<rparr>) s))"
proof -
  have "show_int 400 = ''400''" by code_simp
  then show ?thesis
    by (simp add: do_claim_def do_call_def StateGuard_fetch_def or_str_def str_truthy_def guard_ttl_def Let_def)
qed

lemma do_has_alt:
  "do_has s now cid =
     (if cid = [] then (Failed ''state store returned HTTP 400'', AList.update cid (obj_of s cid) s)
      else (Claimed (num_or (claimed (obj_of s cid)) 0 \<noteq> 0), AList.update cid (obj_of s cid) s))"
proof -
  have "show_int 400 = ''400''" by code_simp
  then show ?thesis
    by (simp add: do_has_def do_call_def StateGuard_fetch_def or_str_def str_truthy_def Let_def)
qed

lemma do_increment_alt:
  "do_increment s now key ttl =
     (if key = [] then (Failed ''state store returned HTTP 400'', AList.update key (obj_of s key) s)
      else (let current = num_or (hits (obj_of s key)) 0; s1 = (obj_of s key)\<lparr>hits := Some (current + 1)\<rparr>
            in (Count (current + 1), AList.update key
                 (if current = 0 then s1\<lparr>alarm := Some (now + guard_ttl ttl * 1000)\<rparr> else s1) s)))"
proof -
  have "show_int 400 = ''400''" by code_simp
  then show ?thesis
    by (simp add: do_increment_def do_call_def StateGuard_fetch_def or_str_def str_truthy_def guard_ttl_def Let_def)
qed

definition do_held :: "do_store \<Rightarrow> int \<Rightarrow> string \<Rightarrow> bool" where
  "do_held s t cid \<longleftrightarrow> num_or (claimed (obj_of s cid)) 0 \<noteq> 0 \<and>
     (case alarm (obj_of s cid) of None \<Rightarrow> False | Some a \<Rightarrow> t < a)"

definition do_counted :: "do_store \<Rightarrow> int \<Rightarrow> string \<Rightarrow> int \<Rightarrow> bool" where
  "do_counted s t key n \<longleftrightarrow> 0 \<le> num_or (hits (obj_of s key)) 0 \<and> n \<le> num_or (hits (obj_of s key)) 0 \<and>
     (num_or (hits (obj_of s key)) 0 = 0 \<or> (case alarm (obj_of s key) of None \<Rightarrow> False | Some a \<Rightarrow> t < a))"

interpretation durable: state_store do_step do_held do_counted "\<lambda>fc. True"
proof unfold_locales
  fix s now cid ttl s' t
  assume "do_step s now (Claim cid ttl) = (Fresh True, s')" "0 < now" "now \<le> t" "ttl \<le> 366 * 86400"
    "t < now + ttl * 1000"
  then show "do_held s' t cid"
    using guard_ttl_ge [of ttl] by (auto simp: do_claim_alt do_held_def split: if_splits)
next
  fix s t cid now op r s'
  assume "do_held s t cid" "now \<le> t" "\<not> (counts op \<and> op_key op = cid)" "do_step s now op = (r, s')"
  then show "do_held s' t cid"
    by (cases op) (auto simp: do_held_def do_claim_alt do_has_alt do_increment_alt Let_def
        split: if_splits option.splits)
next
  fix s now cid ttl
  assume "do_held s now cid"
  then show "fst (do_step s now (Claim cid ttl)) \<noteq> Fresh True"
    by (auto simp: do_held_def do_claim_alt)
next
  fix s now cid
  assume "do_held s now cid"
  then show "fst (do_step s now (Has cid)) \<noteq> Claimed False"
    by (auto simp: do_held_def do_has_alt)
next
  fix s t key n now op r s'
  assume "do_counted s t key n" "now \<le> t" "op_key op \<noteq> key \<or> \<not> counts op \<and> \<not> claims_op op"
    "do_step s now op = (r, s')"
  then show "do_counted s' t key n"
    by (cases op) (auto simp: do_counted_def do_claim_alt do_has_alt do_increment_alt StateGuard_alarm_def
        empty_obj_def Let_def split: if_splits option.splits)
next
  fix s t key n now ttl fc m s'
  assume "do_counted s t key n" "now \<le> t" "t < now + ttl * 1000" "ttl \<le> 366 * 86400"
    "do_step s now (Increment key ttl fc) = (Count m, s')"
  then show "n < m \<and> do_counted s' t key (n + 1)"
    using guard_ttl_ge [of ttl]
    by (auto simp: do_counted_def do_increment_alt Let_def split: if_splits option.splits)
next
  fix s t key n now ttl fc e s'
  assume "do_counted s t key n" "do_step s now (Increment key ttl fc) = (Failed e, s')"
  then show "do_counted s' t key n"
    by (auto simp: do_counted_def do_increment_alt Let_def split: if_splits)
next
  fix s now key ttl fc r s'
  assume "do_step s now (Increment key ttl fc) = (r, s')"
  then show "(\<exists>m. r = Count m) \<or> (\<exists>e. r = Failed e)"
    by (auto simp: do_increment_alt Let_def split: if_splits)
qed

section \<open>Capacity\<close>

definition mem_wf :: "mem_store \<Rightarrow> bool" where
  "mem_wf s \<longleftrightarrow> length (claims s) \<le> maxEntries s \<and> length (counters s) \<le> maxEntries s \<and>
     distinct (map fst (claims s)) \<and> distinct (map fst (counters s))"

lemma length_update_room:
  "length m < n \<Longrightarrow> length (AList.update k v m) \<le> n"
  using length_update_le [of k v m] by simp

lemma mem_claim_wf:
  assumes "mem_wf s"
  shows "mem_wf (snd (mem_claim s now k ttl))"
proof -
  have "length (sweep (\<lambda>e. e) (claims s) (nowSeconds now)) \<le> maxEntries s"
    using assms length_sweep [of "\<lambda>e. e" "claims s"] by (auto simp: mem_wf_def intro: order_trans)
  with assms show ?thesis
    by (auto simp: mem_wf_def mem_claim_def Let_def distinct_sweep distinct_update length_update_room split: option.splits)
qed

lemma mem_has_wf: "mem_wf s \<Longrightarrow> mem_wf (snd (mem_has s now k))"
  by (auto simp: mem_wf_def mem_has_def distinct_delete intro: order_trans [OF length_delete_le] split: option.splits)

lemma mem_increment_wf:
  assumes "mem_wf s"
  shows "mem_wf (snd (mem_increment s now k ttl fc))"
proof -
  have "length (make_room s (nowSeconds now)) \<le> maxEntries s"
    using assms length_make_room [of s] by (auto simp: mem_wf_def intro: order_trans)
  moreover have "length (AList.update k v (counters s)) \<le> maxEntries s" if "map_of (counters s) k = Some w" for v w
    using assms map_of_SomeD [OF that] length_update_present [of k "counters s" v] by (force simp: mem_wf_def)
  ultimately show ?thesis using assms
    by (auto simp: mem_wf_def mem_increment_alt Let_def distinct_make_room distinct_update length_update_room
        split: option.splits)
qed

lemma mem_step_wf: "mem_wf s \<Longrightarrow> mem_wf (snd (mem_step s now op))"
  by (cases op) (simp_all add: mem_claim_wf mem_has_wf mem_increment_wf)

lemma mem_step_max: "maxEntries (snd (mem_step s now op)) = maxEntries s"
  by (cases op) (auto simp: mem_claim_def mem_has_def mem_increment_alt Let_def split: option.splits)

lemma mem_run_wf: "mem_wf s \<Longrightarrow> mem_wf (snd (mem.run s ops)) \<and> maxEntries (snd (mem.run s ops)) = maxEntries s"
  by (rule mem.run_invariant [where P = "\<lambda>s'. mem_wf s' \<and> maxEntries s' = maxEntries s"])
    (auto simp: mem_step_wf mem_step_max)

section \<open>Properties\<close>

text \<open>The in-memory store never holds more than \<open>maxEntries\<close> claims nor more than \<open>maxEntries\<close>
  counters, whatever sequence of operations it serves, and no key twice.\<close>

lemma memory_store_bounded:
  "mem_wf (snd (mem.run (createMemoryStore n) ops)) \<and>
   mem_size (snd (mem.run (createMemoryStore n) ops)) \<le> 2 * n"
proof -
  have "mem_wf (createMemoryStore n)" by (simp add: mem_wf_def createMemoryStore_def)
  from mem_run_wf [OF this, of ops] show ?thesis
    by (simp add: mem_wf_def mem_size_def createMemoryStore_def)
qed


definition sample_ops :: "(int \<times> store_op) list" where
  "sample_ops = [(6000, Claim ''code:b'' 60), (7000, Increment ''otp'' 60 False)]"


text \<open>What a store may see in a window of the counter \<open>key\<close>: its increments ask for protection until the end of the window, and no
  claim is made under its key (claims and counters have keys of their own prefixes). Everything else may happen, the counter's
  own alarm and readings under its key included.\<close>

fun window_use :: "string \<Rightarrow> int \<Rightarrow> int \<times> store_op \<Rightarrow> bool" where
  "window_use key t (now, Increment k ttl fc) \<longleftrightarrow>
     now \<le> t \<and> (k = key \<longrightarrow> fc \<and> t < now + ttl * 1000 \<and> ttl \<le> 366 * 86400)"
| "window_use key t (now, Claim k ttl) \<longleftrightarrow> now \<le> t \<and> k \<noteq> key"
| "window_use key t (now, op) \<longleftrightarrow> now \<le> t"

lemma window_use_cases:
  "window_use key t (now, op) \<Longrightarrow> now \<le> t \<and> (op_key op = key \<longrightarrow>
     (\<exists>ttl fc. op = Increment key ttl fc \<and> fc \<and> t < now + ttl * 1000 \<and> ttl \<le> 366 * 86400) \<or> \<not> counts op \<and> \<not> claims_op op)"
  by (cases op) auto

text \<open>C25: an account-protection limit holds. From a store that has not counted the key yet, of all
  increments of one window's key, protected as the caller asks for and interleaved with any other
  operations but a claim under that very key, at most \<open>lim\<close> are answered with a number within the limit; in particular neither a
  flood of other keys nor the alarm of the counter's own object restores a guesser's allowance.\<close>

theorem protected_limit_holds:
  assumes "mem_wf m" "map_of (counters m) key = None" "hits (obj_of d key) = None" "0 \<le> lim"
    and "list_all (window_use key t) ops"
  shows "int (mem.within m key lim ops) \<le> lim \<and> int (durable.within d key lim ops) \<le> lim"
proof -
  have "mem_counted m t key 0" "do_counted d t key 0"
    using assms by (auto simp: mem_counted_def do_counted_def mem_wf_def)
  moreover have "now \<le> t \<and> (op_key op = key \<longrightarrow>
     (\<exists>ttl fc. op = Increment key ttl fc \<and> fc \<and> t < now + ttl * 1000 \<and> ttl \<le> 366 * 86400) \<or> \<not> counts op \<and> \<not> claims_op op)"
    if "(now, op) \<in> set ops" for now op
    using assms(5) that by (intro window_use_cases) (auto simp: list_all_iff)
  ultimately show ?thesis
    using mem.limit_enforced [of m t key 0 ops lim] durable.limit_enforced [of d t key 0 ops lim] assms(4)
    by (simp add: max_def) blast
qed

definition sample_attempts :: "(int \<times> store_op) list" where
  "sample_attempts = [(1000, Increment ''local:a'' 60 True), (2000, Increment ''local:b'' 60 True), (2500, Alarm ''local:a''),
     (3000, Increment ''otp'' 60 False), (4000, Increment ''local:a'' 60 True)]"

theorem protected_limit_holds_witness:
  "int (mem.within (createMemoryStore 2) ''local:a'' 1 sample_attempts) \<le> 1 \<and>
   int (durable.within [] ''local:a'' 1 sample_attempts) \<le> 1"
proof -
  have "mem_wf (createMemoryStore 2)" "map_of (counters (createMemoryStore 2)) ''local:a'' = None"
    "hits (obj_of [] ''local:a'') = None" "list_all (window_use ''local:a'' 59000) sample_attempts"
    by code_simp+
  then show ?thesis by (intro protected_limit_holds) simp_all
qed

end
