(* ===== verification/Settings.thy ===== *)
theory Settings
  imports Prelude
begin

text \<open>
  The data every component shares: URLs as the WHATWG \<open>URL\<close> class exposes them, relying parties,
  upstream providers and the resolved configuration that \<open>loadConfig\<close> returns
  (\<^verbatim>\<open>src/config.js\<close>). 
\<close>

section \<open>URLs\<close>

text \<open>The properties of a parsed URL that the code reads. The parser itself, \<open>new URL\<close>, is a parameter
  \<open>parse_url\<close> of the operations that call it; \<open>None\<close> is its \<open>TypeError\<close>.\<close>

record url =
  u_href :: string
  u_protocol :: string
  u_hostname :: string
  u_pathname :: string
  u_search :: string
  u_hash :: string
  u_username :: string
  u_password :: string
  u_origin :: string

type_synonym url_parser = "string \<Rightarrow> url option"

section \<open>Relying parties and upstreams\<close>

record client =
  cl_source :: string
  cl_clientId :: string
  cl_clientName :: string
  cl_clientSecret :: "string option"
  cl_clientSecretDigest :: "string option"
  cl_redirectUris :: "string list"
  cl_postLogoutRedirectUris :: "string list"
  cl_jwks :: "json option"
  cl_jwksUri :: "string option"
  cl_tokenEndpointAuthMethod :: string
  cl_scopes :: "string list option"
  cl_acrValues :: "string list"
  cl_idTokenSignedResponseAlg :: "string option"
  cl_sessionScope :: "string option"
  cl_logoutConfirm :: "string option"
  cl_subjectType :: "string option"
  cl_sectorIdentifier :: "string option"
  cl_sanitisePlusEmails :: "bool option"
  cl_requirePkce :: bool
  cl_logoUri :: "string option"
  cl_policyUri :: "string option"
  cl_tosUri :: "string option"

record upstream =
  up_id :: string
  up_provider :: string
  up_slug :: string
  up_domain :: string
  up_isCommon :: bool
  up_clientId :: string
  up_clientSecret :: "string option"
  up_tenant :: "string option"
  up_scopes :: "string list option"
  up_issuer :: "string option"
  up_authorizationEndpoint :: "string option"
  up_tokenEndpoint :: "string option"
  up_jwksUri :: "string option"
  up_hd :: "string option"
  up_label :: "string option"
  up_prompt :: "string option"
  up_acrValues :: "string list option"
  up_allowedTenants :: "string list"
  up_useDiscovery :: "bool option"
  up_mailProvider :: "string option"

section \<open>The configuration\<close>

record session_config =
  ss_scope :: string
  ss_cookieName :: string
  ss_idleTtlSeconds :: int
  ss_maxLifetimeSeconds :: int
  ss_promptConsentMode :: string
  ss_logoutConfirm :: string

record tokens_config =
  tk_authorizationCodeTtlSeconds :: int
  tk_transactionTtlSeconds :: int
  tk_idTokenTtlSeconds :: int
  tk_accessTokenTtlSeconds :: int
  tk_clockSkewSeconds :: int

record otp_config =
  otp_enabled :: bool
  otp_codeLength :: int
  otp_codeAlphabet :: string
  otp_ttlSeconds :: int
  otp_maxAttempts :: int
  otp_maxResends :: int
  otp_sendWindowSeconds :: int
  otp_sendBurst :: int
  otp_sendDailyLimit :: int
  otp_allowedDomains :: "string list"
  otp_blockedDomains :: "string list"

record local_config =
  li_backend :: string
  li_directory :: "string option"
  li_bindingName :: string
  li_domains :: "string list"
  li_attemptWindowSeconds :: int
  li_maxAttempts :: int
  li_networkMaxAttempts :: int
  li_maxPasswordBytes :: int
  li_totpSkew :: int
  li_argon2Concurrency :: int

record cimd_config =
  cm_enabled :: bool
  cm_allowedDomains :: "string list"
  cm_allowSubdomains :: bool
  cm_cacheTtlSeconds :: int
  cm_maxDocumentBytes :: int

record clients_config =
  cc_static :: "client list"
  cc_redirectUriSchemes :: "string list"
  cc_cimd :: cimd_config
  cc_opaqueEnabled :: bool
  cc_storeBackend :: string
  cc_storeDirectory :: "string option"
  cc_storeKvBindingName :: string
  cc_storeS3Bucket :: "string option"
  cc_storeS3Region :: "string option"
  cc_storeS3Endpoint :: "string option"
  cc_storePrefix :: string
  cc_storeCacheTtlSeconds :: int

record profile_config =
  pr_claims :: "string list"
  pr_showPicture :: bool
  pr_nameFromEmail :: string
  pr_avatarFallback :: string
  pr_showOnScreen :: bool

record state_config =
  st_backend :: string
  st_doBindingName :: string
  st_table :: "string option"
  st_region :: "string option"
  st_endpoint :: "string option"
  st_maxEntries :: int
  st_required :: bool

record peer_config =
  pj_urls :: "string list"
  pj_cacheTtlSeconds :: int
  pj_staleTtlSeconds :: int
  pj_retryAfterSeconds :: int
  pj_timeoutMs :: int
  pj_maxDocumentBytes :: int
  pj_cacheBackend :: string
  pj_cacheKvBindingName :: string
  pj_cacheTable :: "string option"
  pj_cacheRegion :: "string option"
  pj_cacheEndpoint :: "string option"
  pj_requireCache :: bool

record signing_config =
  sg_backend :: string
  sg_alg :: string
  sg_additionalAlgs :: "string list"
  sg_keysByAlg :: "(string \<times> (json option \<times> string option \<times> string option)) list"
  sg_requirePostQuantum :: bool
  sg_privateJwk :: "json option"
  sg_privatePem :: "string option"
  sg_extraPublicJwks :: "json list"
  sg_hsmBindingName :: string
  sg_hsmBinding :: "string option"
  sg_hsmSharedSecret :: "string option"
  sg_kmsKeyId :: "string option"
  sg_kmsRegion :: "string option"
  sg_kmsEndpoint :: "string option"

record email_config =
  em_provider :: string
  em_from :: "string option"
  em_replyTo :: "string option"
  em_subject :: string
  em_sesRegion :: "string option"
  em_sesConfigurationSet :: "string option"
  em_notifyApiKey :: "string option"
  em_notifyTemplateId :: "string option"
  em_notifyBaseUrl :: string
  em_mailchannelsEndpoint :: string
  em_mailchannelsApiKey :: "string option"
  em_cloudflareBindingName :: string
  em_cloudflareDestination :: "string option"
  em_smtpUrl :: "string option"

record dns_config =
  dn_hint :: string
  dn_resolverUrl :: string
  dn_timeoutMs :: int
  dn_cacheTtlSeconds :: int
  dn_bindingName :: string

record ui_config =
  ui_title :: string
  ui_organisation :: "string option"
  ui_supportUrl :: "string option"
  ui_logoUrl :: "string option"
  ui_customCssSnippet :: "string option"
  ui_customCssRemoteUrl :: "string option"
  ui_locale :: string
  ui_brandName :: string
  ui_productName :: string
  ui_whitelabel :: bool
  ui_brandUrl :: string
  ui_termsUrl :: "string option"
  ui_privacyUrl :: "string option"

record config =
  c_issuer :: string
  c_issuerOrigin :: string
  c_basePath :: string
  c_issuerDerived :: bool
  c_devMode :: bool
  c_insecureTransport :: bool
  c_secrets :: "string list"
  c_signing :: signing_config
  c_stateStore :: state_config
  c_peerJwks :: peer_config
  c_session :: session_config
  c_tokens :: tokens_config
  c_subjectType :: string
  c_subjectSalt :: "string option"
  c_sanitisePlusEmails :: bool
  c_localIdentities :: local_config
  c_corsEnabled :: bool
  c_corsOrigins :: "string list"
  c_clients :: clients_config
  c_upstreams :: "upstream list"
  c_otp :: otp_config
  c_unknownAddress :: string
  c_email :: email_config
  c_profile :: profile_config
  c_dns :: dns_config
  c_ui :: ui_config
  c_acrDefaultRequired :: "string list"
  c_logLevel :: string
  c_problems :: "string list"
  c_warnings :: "string list"
  c_internalWarnings :: "string list"

text \<open>\<open>config.secrets[0]\<close>, which seals; \<open>loadConfig\<close> reports a configuration with no secret as a
  problem, so the served list is not empty.\<close>

definition current_secret :: "config \<Rightarrow> string" where
  "current_secret c = (case c_secrets c of [] \<Rightarrow> [] | s # _ \<Rightarrow> s)"

section \<open>A concrete configuration\<close>

text \<open>The values a production deployment with one static client has by default; the witnesses of the
  development use it.\<close>

definition sample_client :: client where
  "sample_client = \<lparr>cl_source = ''static'', cl_clientId = ''app'', cl_clientName = ''App'', cl_clientSecret = None,
     cl_clientSecretDigest = None, cl_redirectUris = [''https://app.example/cb''], cl_postLogoutRedirectUris = [],
     cl_jwks = None, cl_jwksUri = None, cl_tokenEndpointAuthMethod = ''none'', cl_scopes = None, cl_acrValues = [],
     cl_idTokenSignedResponseAlg = None, cl_sessionScope = None, cl_logoutConfirm = None, cl_subjectType = None,
     cl_sectorIdentifier = None, cl_sanitisePlusEmails = None, cl_requirePkce = True, cl_logoUri = None,
     cl_policyUri = None, cl_tosUri = None\<rparr>"

definition sample_config :: config where
  "sample_config = \<lparr>c_issuer = ''https://id.example'', c_issuerOrigin = ''https://id.example'', c_basePath = [],
     c_issuerDerived = False, c_devMode = False, c_insecureTransport = False,
     c_secrets = [''0123456789abcdef0123456789abcdef''],
     c_signing = \<lparr>sg_backend = ''local'', sg_alg = ''ES256'', sg_additionalAlgs = [], sg_keysByAlg = [],
       sg_requirePostQuantum = False, sg_privateJwk = None, sg_privatePem = Some ''key'', sg_extraPublicJwks = [],
       sg_hsmBindingName = ''HSM'', sg_hsmBinding = None, sg_hsmSharedSecret = None, sg_kmsKeyId = None, sg_kmsRegion = None, sg_kmsEndpoint = None\<rparr>,
     c_stateStore = \<lparr>st_backend = ''memory'', st_doBindingName = ''SAG_STATE'', st_table = None, st_region = None,
       st_endpoint = None, st_maxEntries = 10000, st_required = False\<rparr>,
     c_peerJwks = \<lparr>pj_urls = [], pj_cacheTtlSeconds = 300, pj_staleTtlSeconds = 1209600, pj_retryAfterSeconds = 30,
       pj_timeoutMs = 4000, pj_maxDocumentBytes = 65536, pj_cacheBackend = ''memory'', pj_cacheKvBindingName = ''SAG_PEER_JWKS'', pj_cacheTable = None,
       pj_cacheRegion = None, pj_cacheEndpoint = None, pj_requireCache = False\<rparr>,
     c_session = \<lparr>ss_scope = ''shared'', ss_cookieName = ''__Host-sag_session'', ss_idleTtlSeconds = 43200,
       ss_maxLifetimeSeconds = 604800, ss_promptConsentMode = ''continue'', ss_logoutConfirm = ''auto''\<rparr>,
     c_tokens = \<lparr>tk_authorizationCodeTtlSeconds = 60, tk_transactionTtlSeconds = 900, tk_idTokenTtlSeconds = 300,
       tk_accessTokenTtlSeconds = 600, tk_clockSkewSeconds = 60\<rparr>,
     c_subjectType = ''public'', c_subjectSalt = Some ''abcdefghijklmnop'', c_sanitisePlusEmails = True,
     c_localIdentities = \<lparr>li_backend = ''file'', li_directory = None, li_bindingName = ''SAG_LOCAL_IDENTITIES'', li_domains = [''corp.example''], li_attemptWindowSeconds = 300, li_maxAttempts = 10,
       li_networkMaxAttempts = 50, li_maxPasswordBytes = 1024, li_totpSkew = 1, li_argon2Concurrency = 4\<rparr>,
     c_corsEnabled = True, c_corsOrigins = [''*''],
     c_clients = \<lparr>cc_static = [sample_client], cc_redirectUriSchemes = [''*''],
       cc_cimd = \<lparr>cm_enabled = False, cm_allowedDomains = [], cm_allowSubdomains = True, cm_cacheTtlSeconds = 300, cm_maxDocumentBytes = 32768\<rparr>,
       cc_opaqueEnabled = True, cc_storeBackend = ''none'', cc_storeDirectory = None, cc_storeKvBindingName = ''SAG_CLIENTS'',
       cc_storeS3Bucket = None, cc_storeS3Region = None, cc_storeS3Endpoint = None, cc_storePrefix = ''clients/'', cc_storeCacheTtlSeconds = 60\<rparr>,
     c_upstreams = [],
     c_otp = \<lparr>otp_enabled = True, otp_codeLength = 9, otp_codeAlphabet = ''alphanumeric'', otp_ttlSeconds = 600, otp_maxAttempts = 5,
       otp_maxResends = 3, otp_sendWindowSeconds = 600, otp_sendBurst = 2, otp_sendDailyLimit = 5, otp_allowedDomains = [],
       otp_blockedDomains = []\<rparr>,
     c_unknownAddress = ''silent'',
     c_email = \<lparr>em_provider = ''smtp'', em_from = Some ''no-reply@id.example'', em_replyTo = None, em_subject = ''Your sign-in code'',
       em_sesRegion = None, em_sesConfigurationSet = None, em_notifyApiKey = None, em_notifyTemplateId = None,
       em_notifyBaseUrl = ''https://api.notifications.service.gov.uk'',
       em_mailchannelsEndpoint = ''https://api.mailchannels.net/tx/v1/send'', em_mailchannelsApiKey = None,
       em_cloudflareBindingName = ''SEND_EMAIL'', em_cloudflareDestination = None, em_smtpUrl = Some ''smtps://mail.id.example''\<rparr>,
     c_profile = \<lparr>pr_claims = [''name'', ''given_name'', ''family_name'', ''preferred_username'', ''picture'', ''locale''],
       pr_showPicture = True, pr_nameFromEmail = ''off'', pr_avatarFallback = ''off'', pr_showOnScreen = True\<rparr>,
     c_dns = \<lparr>dn_hint = ''select'', dn_resolverUrl = ''https://cloudflare-dns.com/dns-query'', dn_timeoutMs = 1500,
       dn_cacheTtlSeconds = 3600, dn_bindingName = ''SAG_DNS''\<rparr>,
     c_ui = \<lparr>ui_title = ''Sign in'', ui_organisation = None, ui_supportUrl = None, ui_logoUrl = None, ui_customCssSnippet = None,
       ui_customCssRemoteUrl = None, ui_locale = ''en-GB'', ui_brandName = ''RESOAuth'', ui_productName = ''Smart Access Gateway'',
       ui_whitelabel = False, ui_brandUrl = ''https://resoauth.dev'', ui_termsUrl = None, ui_privacyUrl = None\<rparr>,
     c_acrDefaultRequired = [], c_logLevel = ''info'', c_problems = [], c_warnings = [], c_internalWarnings = []\<rparr>"

end
