(* ===== verification/Http.thy ===== *)
theory Http
  imports Settings Bytes
begin

text \<open>
  HTTP helpers: errors (\<^verbatim>\<open>src/util/errors.js\<close>), requests, responses, cookies, bounded bodies, escaping
  (\<^verbatim>\<open>src/util/http.js\<close>), outbound calls and CORS (\<^verbatim>\<open>src/util/cors.js\<close>). A response is its status, its header list in
  order and its body; a parameter list is what \<open>URLSearchParams\<close> holds.
\<close>

section \<open>Errors\<close>

record oauth_error =
  oe_code :: string
  oe_description :: string
  oe_status :: int
  oe_redirectable :: bool
  oe_uri :: "string option"

text \<open>\<open>Unexpected\<close> stands for an error of another class that reaches the router.\<close>

datatype failure =
    OAuthError oauth_error
  | UnredirectableError oauth_error
  | UserFacingError string string int
  | Unexpected string

definition oauthError :: "string \<Rightarrow> string \<Rightarrow> failure" where
  "oauthError code description =
     OAuthError \<lparr>oe_code = code, oe_description = description, oe_status = 400, oe_redirectable = False, oe_uri = None\<rparr>"

definition redirectableError :: "string \<Rightarrow> string \<Rightarrow> failure" where
  "redirectableError code description =
     OAuthError \<lparr>oe_code = code, oe_description = description, oe_status = 400, oe_redirectable = True, oe_uri = None\<rparr>"

definition unredirectableError :: "string \<Rightarrow> string \<Rightarrow> int \<Rightarrow> failure" where
  "unredirectableError code description status =
     UnredirectableError \<lparr>oe_code = code, oe_description = description, oe_status = status, oe_redirectable = False, oe_uri = None\<rparr>"

definition invalidRequest :: "string \<Rightarrow> failure" where
  "invalidRequest d = redirectableError ''invalid_request'' d"

definition invalidClient :: "string \<Rightarrow> failure" where
  "invalidClient d =
     OAuthError \<lparr>oe_code = ''invalid_client'', oe_description = d, oe_status = 401, oe_redirectable = False, oe_uri = None\<rparr>"

definition invalidGrant :: "string \<Rightarrow> failure" where
  "invalidGrant d = oauthError ''invalid_grant'' d"

definition accessDenied :: "string \<Rightarrow> failure" where
  "accessDenied d = redirectableError ''access_denied'' d"

definition loginRequired :: "string \<Rightarrow> failure" where
  "loginRequired d = redirectableError ''login_required'' d"

definition interactionRequired :: "string \<Rightarrow> failure" where
  "interactionRequired d = redirectableError ''interaction_required'' d"

definition unmetAcr :: "string \<Rightarrow> failure" where
  "unmetAcr d = redirectableError ''unmet_authentication_requirements'' d"

definition oauth_toJSON :: "oauth_error \<Rightarrow> json" where
  "oauth_toJSON e = jobj [(''error'', Some (JStr (oe_code e))), (''error_description'', Some (JStr (oe_description e))),
     (''error_uri'', if str_truthy (oe_uri e) then map_option JStr (oe_uri e) else None)]"

section \<open>Requests and responses\<close>

type_synonym params = "(string \<times> string) list"
type_synonym headers = "(string \<times> string) list"

record request =
  rq_method :: string
  rq_headers :: headers
  rq_chunks :: "bytes list option"

definition header :: "request \<Rightarrow> string \<Rightarrow> string option" where
  "header r name = map_of (rq_headers r) name"

datatype body = NoBody | TextBody string | JsonBody json | HtmlBody string

record response =
  rs_status :: int
  rs_headers :: headers
  rs_body :: body

definition SECURITY_HEADERS :: headers where
  "SECURITY_HEADERS =
     [(''x-content-type-options'', ''nosniff''), (''referrer-policy'', ''no-referrer''), (''x-frame-options'', ''DENY''),
      (''cross-origin-opener-policy'', ''same-origin''), (''strict-transport-security'', ''max-age=31536000'')]"

definition NO_STORE :: headers where
  "NO_STORE = [(''cache-control'', ''no-store''), (''pragma'', ''no-cache'')]"

text \<open>Spreading one header object over another: a later value replaces an earlier one.\<close>

definition spread :: "headers \<Rightarrow> headers \<Rightarrow> headers" where
  "spread base extra = fold (\<lambda>(k, v) hs. AList.update k v hs) extra base"

definition json_response :: "json \<Rightarrow> int \<Rightarrow> headers \<Rightarrow> response" where
  "json_response b status hs = \<lparr>rs_status = status,
     rs_headers = spread (spread (spread [(''content-type'', ''application/json; charset=utf-8'')] NO_STORE) SECURITY_HEADERS) hs,
     rs_body = JsonBody b\<rparr>"

definition cachedJson :: "json \<Rightarrow> nat \<Rightarrow> headers \<Rightarrow> response" where
  "cachedJson b maxAge hs = \<lparr>rs_status = 200,
     rs_headers = spread (spread [(''content-type'', ''application/json; charset=utf-8''),
       (''cache-control'', ''public, max-age='' @ show_nat maxAge), (''access-control-allow-origin'', ''*'')] SECURITY_HEADERS) hs,
     rs_body = JsonBody b\<rparr>"

definition html_response :: "string \<Rightarrow> int \<Rightarrow> headers \<Rightarrow> response" where
  "html_response b status hs = \<lparr>rs_status = status,
     rs_headers = spread (spread (spread [(''content-type'', ''text/html; charset=utf-8'')] NO_STORE) SECURITY_HEADERS) hs,
     rs_body = HtmlBody b\<rparr>"

definition text_response :: "string \<Rightarrow> int \<Rightarrow> headers \<Rightarrow> response" where
  "text_response b status hs = \<lparr>rs_status = status,
     rs_headers = spread (spread (spread [(''content-type'', ''text/plain; charset=utf-8'')] NO_STORE) SECURITY_HEADERS) hs,
     rs_body = TextBody b\<rparr>"

definition redirect :: "string \<Rightarrow> headers \<Rightarrow> response" where
  "redirect location hs = \<lparr>rs_status = 303,
     rs_headers = spread (spread (spread [(''location'', location)] NO_STORE) SECURITY_HEADERS) hs,
     rs_body = NoBody\<rparr>"

definition methodNotAllowed :: "string list \<Rightarrow> response" where
  "methodNotAllowed allow = text_response ''Method not allowed'' 405 [(''allow'', join '', '' allow)]"

definition withCookie :: "response \<Rightarrow> string \<Rightarrow> response" where
  "withCookie r cookie = r\<lparr>rs_headers := rs_headers r @ [(''set-cookie'', cookie)]\<rparr>"

definition withCookies :: "response \<Rightarrow> string option list \<Rightarrow> response" where
  "withCookies r cookies = fold (\<lambda>c r. if str_truthy c then withCookie r (the c) else r) cookies r"

section \<open>Cookies\<close>

text \<open>\<open>encodeURIComponent\<close> and \<open>decodeURIComponent\<close> on ASCII text; a percent sign that does not start
  an escape of an ASCII character is a \<open>URIError\<close>.\<close>

definition uri_unreserved :: "char \<Rightarrow> bool" where
  "uri_unreserved c \<longleftrightarrow> is_alnum c \<or> c \<in> set ''-_.!~*''  \<or> c = CHR 0x27 \<or> c = CHR ''('' \<or> c = CHR '')''"

definition percent_encode :: "char \<Rightarrow> string" where
  "percent_encode c = (if uri_unreserved c then [c] else CHR ''%'' # to_upper (hex_byte (of_nat (of_char c))))"

definition encodeURIComponent :: "string \<Rightarrow> string" where
  "encodeURIComponent s = concat (map percent_encode s)"

fun decodeURIComponent :: "string \<Rightarrow> string option" where
  "decodeURIComponent [] = Some []"
| "decodeURIComponent (c # cs) =
     (if c = CHR ''%''
      then (case cs of a # b # rest \<Rightarrow>
              if lower_char a \<in> set HEX_DIGITS \<and> lower_char b \<in> set HEX_DIGITS \<and>
                 hex_value (lower_char a) * 16 + hex_value (lower_char b) < 128
              then map_option (\<lambda>r. char_of (hex_value (lower_char a) * 16 + hex_value (lower_char b)) # r)
                     (decodeURIComponent rest)
              else None
            | _ \<Rightarrow> None)
      else map_option (\<lambda>r. c # r) (decodeURIComponent cs))"

definition cookie_pair :: "string \<Rightarrow> (string \<times> string) option" where
  "cookie_pair part =
     (case index_of (CHR ''='') part of None \<Rightarrow> None
      | Some idx \<Rightarrow>
          if idx < 1 then None
          else (let name = trim (take idx part); value = trim (drop (idx + 1) part)
                in if name = [] then None
                   else Some (name, case decodeURIComponent value of None \<Rightarrow> value | Some v \<Rightarrow> v)))"

definition parseCookies :: "request \<Rightarrow> (string \<times> string) list" where
  "parseCookies r =
     (case header r ''cookie'' of None \<Rightarrow> []
      | Some h \<Rightarrow> fold (\<lambda>part out. case cookie_pair part of None \<Rightarrow> out | Some (n, v) \<Rightarrow> AList.update n v out)
                    (split_on (CHR '';'') h) [])"

record cookie_opts =
  co_path :: "string option"
  co_sameSite :: "string option"
  co_maxAge :: "int option"
  co_httpOnly :: bool
  co_secure :: bool

definition serialiseCookie :: "string \<Rightarrow> string \<Rightarrow> cookie_opts \<Rightarrow> string" where
  "serialiseCookie name value opts =
     join ''; ''
       ([name @ ''='' @ encodeURIComponent value, ''Path='' @ coalesce (co_path opts) ''/'',
         ''SameSite='' @ coalesce (co_sameSite opts) ''Lax''] @
        (case co_maxAge opts of None \<Rightarrow> []
         | Some m \<Rightarrow> [''Max-Age='' @ show_int (max 0 m)] @
             (if m = 0 then [''Expires=Thu, 01 Jan 1970 00:00:00 GMT''] else [])) @
        (if co_httpOnly opts then [''HttpOnly''] else []) @
        (if co_secure opts then [''Secure''] else []))"

section \<open>Bodies\<close>

definition MAX_FORM_BODY_BYTES :: int where
  "MAX_FORM_BODY_BYTES = 64 * 1024"

definition body_too_large :: "int \<Rightarrow> string" where
  "body_too_large maxBytes = ''HTTP body is larger than '' @ show_int maxBytes @ '' bytes''"

text \<open>The read loop over the chunks of a stream: the bytes kept so far and the running total. The
  second component of the result is the number of bytes buffered when the loop stops.\<close>

fun read_chunks :: "int \<Rightarrow> bytes \<Rightarrow> bytes list \<Rightarrow> (string, bytes) result \<times> nat" where
  "read_chunks maxBytes kept [] = (Inr kept, length kept)"
| "read_chunks maxBytes kept (chunk # rest) =
     (if int (length kept + length chunk) > maxBytes then (Inl (body_too_large maxBytes), length kept)
      else read_chunks maxBytes (kept @ chunk) rest)"

definition declared_too_large :: "headers \<Rightarrow> int \<Rightarrow> bool" where
  "declared_too_large hs maxBytes \<longleftrightarrow>
     (case map_of hs ''content-length'' of None \<Rightarrow> False
      | Some d \<Rightarrow> d \<noteq> [] \<and> trim d \<noteq> [] \<and> list_all is_digit (trim d) \<and> int (read_nat (trim d)) > maxBytes)"

definition readTextLimited :: "headers \<Rightarrow> bytes list option \<Rightarrow> int \<Rightarrow> (string, string) result \<times> nat" where
  "readTextLimited hs chunks maxBytes =
     (if declared_too_large hs maxBytes then (Inl (body_too_large maxBytes), 0)
      else (case chunks of None \<Rightarrow> (Inr [], 0)
            | Some cs \<Rightarrow> (case read_chunks maxBytes [] cs of
                  (Inl e, n) \<Rightarrow> (Inl e, n)
                | (Inr bs, n) \<Rightarrow> (Inr (map (\<lambda>b. char_of (unat b)) bs), n))))"

section \<open>Outbound calls\<close>

text \<open>One call of \<open>fetch\<close> and its answer; the platform's \<open>fetch\<close> is a parameter, and \<open>Inl\<close> its rejection (a
  network failure, or the abort after the timeout). \<open>ft_opaque\<close> is the response type of a redirect that a
  browser-like runtime hides.\<close>

record http_call =
  hc_url :: string
  hc_method :: string
  hc_headers :: headers
  hc_body :: "string option"

record fetched =
  ft_status :: int
  ft_opaque :: bool
  ft_headers :: headers
  ft_chunks :: "bytes list option"

type_synonym fetcher = "http_call \<Rightarrow> (string, fetched) result"

text \<open>What the code uses of the web platform: \<open>new URL(s)\<close>, the host, path and query pairs of a URL,
  \<open>searchParams.set\<close> on a URL that parses, \<open>fetch\<close>, \<open>JSON.parse\<close>, and a platform resolver when one is bound
  (\<open>None\<close> is a rejected lookup).\<close>

record web =
  wb_parse :: url_parser
  wb_target :: "string \<Rightarrow> (string \<times> string \<times> params) option"
  wb_set :: "string \<Rightarrow> params \<Rightarrow> string option"
  wb_fetch :: fetcher
  wb_json :: "string \<Rightarrow> json option"
  wb_resolver :: "(string \<Rightarrow> string \<Rightarrow> string list option) option"

definition fetchWithTimeout :: "fetcher \<Rightarrow> http_call \<Rightarrow> (string, fetched) result" where
  "fetchWithTimeout fetch call =
     rbind (fetch call) (\<lambda>res.
       if ft_opaque res \<or> (ft_status res \<ge> 300 \<and> ft_status res < 400 \<and> ft_status res \<noteq> 304)
       then Inl (''refusing to follow a redirect (HTTP '' @ show_int (ft_status res) @ '')'')
       else Inr res)"

text \<open>\<open>res.ok\<close>.\<close>

definition res_ok :: "fetched \<Rightarrow> bool" where
  "res_ok res \<longleftrightarrow> 200 \<le> ft_status res \<and> ft_status res \<le> 299"

definition response_text :: "fetched \<Rightarrow> int \<Rightarrow> (string, string) result" where
  "response_text res maxBytes = fst (readTextLimited (ft_headers res) (ft_chunks res) maxBytes)"

definition readJsonLimited :: "(string \<Rightarrow> json option) \<Rightarrow> fetched \<Rightarrow> int \<Rightarrow> (string, json) result" where
  "readJsonLimited parse_json res maxBytes =
     rbind (response_text res maxBytes) (\<lambda>text.
       case parse_json text of None \<Rightarrow> Inl ''invalid JSON'' | Some j \<Rightarrow> Inr j)"

definition get_json :: "string \<Rightarrow> http_call" where
  "get_json url = \<lparr>hc_url = url, hc_method = ''GET'', hc_headers = [(''accept'', ''application/json'')], hc_body = None\<rparr>"

section \<open>Forms\<close>

text \<open>\<open>new URLSearchParams(body)\<close> is the parameter \<open>parse_params\<close>.\<close>

definition readForm :: "(string \<Rightarrow> params) \<Rightarrow> request \<Rightarrow> (failure, params) result" where
  "readForm parse_params r =
     (let ct = to_lower (trim (hd (split_on (CHR '';'') (or_str (header r ''content-type'') []))))
      in if ct \<noteq> ''application/x-www-form-urlencoded''
         then Inl (oauthError ''invalid_request'' ''Request body must be application/x-www-form-urlencoded'')
         else (case fst (readTextLimited (rq_headers r) (rq_chunks r) MAX_FORM_BODY_BYTES) of
                 Inl _ \<Rightarrow> Inl (oauthError ''invalid_request'' ''Request body too large'')
               | Inr b \<Rightarrow> Inr (parse_params b)))"

definition getAll :: "params \<Rightarrow> string \<Rightarrow> string list" where
  "getAll ps name = map snd (filter (\<lambda>(k, v). k = name) ps)"

definition single :: "params \<Rightarrow> string \<Rightarrow> (failure, string option) result" where
  "single ps name =
     (case getAll ps name of
        [] \<Rightarrow> Inr None
      | [v] \<Rightarrow> Inr (if v = [] then None else Some v)
      | _ \<Rightarrow> Inl (oauthError ''invalid_request'' (''Duplicate \"'' @ name @ ''\" parameter'')))"

section \<open>Escaping\<close>

definition safeHttpUrl :: "url_parser \<Rightarrow> string option \<Rightarrow> bool \<Rightarrow> string option" where
  "safeHttpUrl parse_url value allowHttp =
     (if \<not> str_truthy value then None
      else (case parse_url (the value) of None \<Rightarrow> None
            | Some u \<Rightarrow>
                if u_protocol u = ''https:'' then Some (u_href u)
                else if allowHttp \<and> u_protocol u = ''http:'' then Some (u_href u)
                else None))"

definition replace_with :: "char \<Rightarrow> string \<Rightarrow> string \<Rightarrow> string" where
  "replace_with c t s = concat (map (\<lambda>d. if d = c then t else [d]) s)"

definition escapeHtml :: "string option \<Rightarrow> string" where
  "escapeHtml value =
     replace_with (CHR 0x27) ''&#39;''
       (replace_with (CHR 0x22) ''&quot;''
         (replace_with (CHR ''>'') ''&gt;''
           (replace_with (CHR ''<'') ''&lt;''
             (replace_with (CHR ''&'') ''&amp;'' (coalesce value [])))))"

section \<open>CORS\<close>

definition allowedOrigin :: "config \<Rightarrow> string option \<Rightarrow> string option" where
  "allowedOrigin c origin =
     (if \<not> str_truthy origin then None
      else if ''*'' \<in> set (c_corsOrigins c) then Some ''*''
      else if the origin \<in> set (c_corsOrigins c) then origin else None)"

definition corsPreflight :: "config \<Rightarrow> request \<Rightarrow> response" where
  "corsPreflight c r =
     (let hs = [(''access-control-allow-methods'', ''GET, POST, OPTIONS''),
                (''access-control-allow-headers'', ''authorization, content-type''),
                (''access-control-max-age'', ''600'')]
      in \<lparr>rs_status = 204,
          rs_headers = (case allowedOrigin c (header r ''origin'') of None \<Rightarrow> hs
             | Some allow \<Rightarrow> hs @ [(''access-control-allow-origin'', allow)] @
                 (if allow \<noteq> ''*'' then [(''vary'', ''origin'')] else [])),
          rs_body = NoBody\<rparr>)"

definition withCors :: "config \<Rightarrow> request \<Rightarrow> response \<Rightarrow> response" where
  "withCors c r resp =
     (case allowedOrigin c (header r ''origin'') of None \<Rightarrow> resp
      | Some allow \<Rightarrow>
          resp\<lparr>rs_headers := AList.update ''access-control-expose-headers'' ''www-authenticate''
                (AList.update ''access-control-allow-origin'' allow (rs_headers resp)) @
                (if allow \<noteq> ''*'' then [(''vary'', ''origin'')] else [])\<rparr>)"

section \<open>Facts\<close>

lemma replace_with_Nil [simp]: "replace_with c t [] = []"
  by (simp add: replace_with_def)

lemma replace_with_Cons [simp]: "replace_with c t (d # s) = (if d = c then t else [d]) @ replace_with c t s"
  by (simp add: replace_with_def)

lemma replace_with_append [simp]: "replace_with c t (a @ b) = replace_with c t a @ replace_with c t b"
  by (simp add: replace_with_def)

text \<open>The five passes of \<open>escapeHtml\<close> are one pass: because \<open>&\<close> goes first, no entity is escaped
  twice.\<close>

definition entity :: "char \<Rightarrow> string" where
  "entity c =
     (if c = CHR ''&'' then ''&amp;'' else if c = CHR ''<'' then ''&lt;'' else if c = CHR ''>'' then ''&gt;''
      else if c = CHR 0x22 then ''&quot;'' else if c = CHR 0x27 then ''&#39;'' else [c])"

lemma escapeHtml_single_pass: "escapeHtml (Some s) = concat (map entity s)"
  unfolding escapeHtml_def coalesce_def by (induction s) (simp_all add: entity_def)

lemma entity_safe: "c \<in> set (entity d) \<Longrightarrow> c \<notin> {CHR ''<'', CHR ''>'', CHR 0x22, CHR 0x27}"
  by (auto simp: entity_def split: if_splits)

text \<open>A reference decoder, which shows that nothing is lost.\<close>

fun unescape :: "string \<Rightarrow> string" where
  "unescape [] = []"
| "unescape (c # cs) =
     (if c \<noteq> CHR ''&'' then c # unescape cs
      else if take 4 cs = ''amp;'' then CHR ''&'' # unescape (drop 4 cs)
      else if take 3 cs = ''lt;'' then CHR ''<'' # unescape (drop 3 cs)
      else if take 3 cs = ''gt;'' then CHR ''>'' # unescape (drop 3 cs)
      else if take 5 cs = ''quot;'' then CHR 0x22 # unescape (drop 5 cs)
      else if take 4 cs = ''#39;'' then CHR 0x27 # unescape (drop 4 cs)
      else c # unescape cs)"

lemma unescape_entity: "unescape (entity c @ s) = c # unescape s"
  by (auto simp: entity_def)

lemma unescape_escapeHtml: "unescape (escapeHtml (Some s)) = s"
  unfolding escapeHtml_single_pass by (induction s) (simp_all add: unescape_entity)

lemma read_chunks_exact:
  "read_chunks m kept cs =
     (if int (length (kept @ concat cs)) \<le> m then (Inr (kept @ concat cs), length (kept @ concat cs))
      else (Inl (body_too_large m), snd (read_chunks m kept cs)))"
  if "int (length kept) \<le> m"
  using that by (induction m kept cs rule: read_chunks.induct) auto

lemma read_chunks_bounded: "int (length kept) \<le> m \<Longrightarrow> int (snd (read_chunks m kept cs)) \<le> m"
  by (induction m kept cs rule: read_chunks.induct) auto

lemma getAll_duplicate: "1 < length (getAll ps n) \<Longrightarrow> single ps n = Inl (oauthError ''invalid_request'' (''Duplicate \"'' @ n @ ''\" parameter''))"
  by (auto simp: single_def split: list.splits)

lemma single_Inr: "single ps n = Inr v \<Longrightarrow> length (getAll ps n) \<le> 1 \<and> v \<noteq> Some []"
  by (auto simp: single_def split: list.splits if_splits)

lemma single_not_redirectable: "single ps n = Inl e \<Longrightarrow> \<exists>o'. e = OAuthError o' \<and> \<not> oe_redirectable o'"
  by (auto simp: single_def oauthError_def split: list.splits)

section \<open>Cookie values\<close>

definition ascii :: "string \<Rightarrow> bool" where
  "ascii s \<longleftrightarrow> list_all (\<lambda>c. (of_char c :: nat) < 128) s"

lemma hex_upper_lower: "list_all (\<lambda>c. lower_char (upper_char c) = c) HEX_DIGITS"
  by code_simp

lemma decode_percent:
  assumes "(of_char c :: nat) < 128"
  shows "decodeURIComponent (percent_encode c @ s) = map_option (\<lambda>r. c # r) (decodeURIComponent s)"
proof (cases "uri_unreserved c")
  case True
  moreover have "\<not> uri_unreserved (CHR ''%'')" by code_simp
  ultimately show ?thesis by (auto simp: percent_encode_def)
next
  case False
  define n where "n = (of_char c :: nat)"
  have b: "unat (of_nat n :: byte) = n" using assms by (simp add: n_def unat_of_nat take_bit_nat_eq_self_iff)
  have d: "n div 16 < 16" "n mod 16 < 16" using assms by (simp_all add: n_def)
  have h: "lower_char (upper_char (HEX_DIGITS ! i)) = HEX_DIGITS ! i \<and> HEX_DIGITS ! i \<in> set HEX_DIGITS" if "i < 16" for i
    using hex_upper_lower that HEX_DIGITS_facts by (auto simp: list_all_length)
  have "to_upper (hex_byte (of_nat n)) = [upper_char (HEX_DIGITS ! (n div 16)), upper_char (HEX_DIGITS ! (n mod 16))]"
    by (simp add: hex_byte_def to_upper_def b)
  with False d h assms show ?thesis
    by (simp add: percent_encode_def n_def [symmetric] hex_value_nth) (simp add: n_def)
qed

lemma decode_encodeURIComponent: "ascii s \<Longrightarrow> decodeURIComponent (encodeURIComponent s) = Some s"
  by (induction s) (simp_all add: encodeURIComponent_def ascii_def decode_percent)

lemma percent_encode_chars: "c \<in> set (percent_encode d) \<Longrightarrow> uri_unreserved c \<or> c = CHR ''%''"
proof -
  have h: "list_all (\<lambda>c. uri_unreserved (upper_char c)) HEX_DIGITS" by code_simp
  have "unat b div 16 < 16" "unat b mod 16 < 16" for b :: byte
    using unsigned_less [of b, where 'a = nat] by simp_all
  then have "HEX_DIGITS ! (unat b div 16) \<in> set HEX_DIGITS" "HEX_DIGITS ! (unat b mod 16) \<in> set HEX_DIGITS" for b :: byte
    using HEX_DIGITS_facts(2) by (metis nth_mem)+
  with h show "c \<in> set (percent_encode d) \<Longrightarrow> uri_unreserved c \<or> c = CHR ''%''"
    by (auto simp: percent_encode_def hex_byte_def to_upper_def list_all_iff split: if_splits)
qed

lemma encodeURIComponent_safe:
  "c \<in> set (encodeURIComponent s) \<Longrightarrow> c \<noteq> CHR '';'' \<and> \<not> is_space c"
proof -
  assume "c \<in> set (encodeURIComponent s)"
  then have "uri_unreserved c \<or> c = CHR ''%''"
    by (auto simp: encodeURIComponent_def dest: percent_encode_chars)
  then show ?thesis by (auto simp: uri_unreserved_def is_alnum_def is_space_def is_upper_def is_lower_def is_digit_def)
qed

definition cookie_name :: "string \<Rightarrow> bool" where
  "cookie_name n \<longleftrightarrow> n \<noteq> [] \<and> list_all (\<lambda>c. c \<noteq> CHR ''='' \<and> c \<noteq> CHR '';'' \<and> \<not> is_space c) n"

definition cookie_text :: "string \<times> string \<Rightarrow> string" where
  "cookie_text = (\<lambda>(n, v). n @ ''='' @ encodeURIComponent v)"

lemma index_of_append: "c \<notin> set n \<Longrightarrow> index_of c (n @ c # s) = Some (length n)"
  by (induction n) auto

lemma trim_Space: "(\<And>c. c \<in> set s \<Longrightarrow> \<not> is_space c) \<Longrightarrow> trim (CHR '' '' # s) = s"
proof -
  assume a: "\<And>c. c \<in> set s \<Longrightarrow> \<not> is_space c"
  have "is_space (CHR '' '')" by code_simp
  then have "trim (CHR '' '' # s) = trim s" by (simp add: trim_def)
  with trim_id [of s] a show ?thesis by simp
qed

lemma cookie_pair_parts:
  assumes "CHR ''='' \<notin> set pre" "pre \<noteq> []" "trim pre = n" "n \<noteq> []"
  shows "cookie_pair (pre @ CHR ''='' # encodeURIComponent v) =
    Some (n, case decodeURIComponent (encodeURIComponent v) of None \<Rightarrow> encodeURIComponent v | Some x \<Rightarrow> x)"
proof -
  have "trim (encodeURIComponent v) = encodeURIComponent v"
    by (rule trim_id) (simp add: encodeURIComponent_safe)
  with assms show ?thesis
    unfolding cookie_pair_def index_of_append [OF assms(1)] by (simp add: Let_def Suc_le_eq)
qed

lemma cookie_pair_text:
  assumes "cookie_name n" "ascii v"
  shows "cookie_pair (cookie_text (n, v)) = Some (n, v)" "cookie_pair (CHR '' '' # cookie_text (n, v)) = Some (n, v)"
proof -
  have n: "CHR ''='' \<notin> set n" "n \<noteq> []" and ns: "\<And>c. c \<in> set n \<Longrightarrow> \<not> is_space c"
    using assms(1) by (auto simp: cookie_name_def list_all_iff)
  show "cookie_pair (cookie_text (n, v)) = Some (n, v)"
    using cookie_pair_parts [of n n v] n trim_id [OF ns] decode_encodeURIComponent [OF assms(2)]
    by (simp add: cookie_text_def)
  show "cookie_pair (CHR '' '' # cookie_text (n, v)) = Some (n, v)"
    using cookie_pair_parts [of "CHR '' '' # n" n v] n trim_Space [OF ns] decode_encodeURIComponent [OF assms(2)]
    by (simp add: cookie_text_def)
qed

text \<open>The \<open>Cookie\<close> header a browser sends for a jar.\<close>

definition cookie_header :: "(string \<times> string) list \<Rightarrow> string" where
  "cookie_header jar = join ''; '' (map cookie_text jar)"

lemma cookie_text_no_semicolon: "cookie_name n \<Longrightarrow> CHR '';'' \<notin> set (cookie_text (n, v))"
  using encodeURIComponent_safe by (auto simp: cookie_text_def cookie_name_def list_all_iff)

fun spaced :: "string list \<Rightarrow> string list" where
  "spaced [] = []"
| "spaced (x # xs) = x # map (\<lambda>y. '' '' @ y) xs"

lemma split_on_Cons_other: "c \<noteq> d \<Longrightarrow> split_on d (c # s) = (c # hd (split_on d s)) # tl (split_on d s)"
  by (cases "split_on d s") simp_all

lemma split_cookie_header:
  "jar \<noteq> [] \<Longrightarrow> list_all (\<lambda>(n, v). cookie_name n) jar \<Longrightarrow>
     split_on (CHR '';'') (cookie_header jar) = spaced (map cookie_text jar)"
proof (induction jar)
  case (Cons c jar)
  obtain n v where c: "c = (n, v)" by (cases c)
  have semi: "CHR '';'' \<notin> set (cookie_text (n, v))" using Cons.prems cookie_text_no_semicolon [of n v] by (simp add: c)
  show ?case
  proof (cases "jar = []")
    case True
    with semi show ?thesis by (simp add: c cookie_header_def)
  next
    case False
    then have "cookie_header (c # jar) = cookie_text c @ CHR '';'' # CHR '' '' # cookie_header jar"
      by (cases jar) (simp_all add: cookie_header_def)
    moreover have "split_on (CHR '';'') (cookie_header jar) = spaced (map cookie_text jar)"
      using Cons False by simp
    ultimately show ?thesis using semi False
      by (cases jar) (simp_all add: c split_on_append_sep split_on_Cons_other del: split_on.simps)
  qed
qed simp

lemma fold_update_fresh:
  "distinct (map fst (acc @ jar)) \<Longrightarrow> fold (\<lambda>(n, v) out. AList.update n v out) jar acc = acc @ jar"
proof (induction jar arbitrary: acc)
  case (Cons c jar)
  then show ?case by (cases c) (simp add: update_fresh)
qed simp

definition keep_pair :: "string \<Rightarrow> (string \<times> string) list \<Rightarrow> (string \<times> string) list" where
  "keep_pair part out = (case cookie_pair part of None \<Rightarrow> out | Some (n, v) \<Rightarrow> AList.update n v out)"

lemma fold_keep_pair:
  assumes "\<And>n v. (n, v) \<in> set jar \<Longrightarrow> cookie_pair (f (n, v)) = Some (n, v)"
  shows "fold keep_pair (map f jar) acc = fold (\<lambda>(n, v) out. AList.update n v out) jar acc"
  using assms by (induction jar arbitrary: acc) (auto simp: keep_pair_def)

lemma parseCookies_jar:
  assumes "list_all (\<lambda>(n, v). cookie_name n \<and> ascii v) jar" "distinct (map fst jar)" "jar \<noteq> []"
    "header r ''cookie'' = Some (cookie_header jar)"
  shows "parseCookies r = jar"
proof -
  obtain c cs where jar: "jar = c # cs" using assms(3) by (cases jar) auto
  have ok: "cookie_pair (cookie_text (n, v)) = Some (n, v) \<and> cookie_pair (CHR '' '' # cookie_text (n, v)) = Some (n, v)"
    if "(n, v) \<in> set jar" for n v
    using assms(1) that cookie_pair_text by (auto simp: list_all_iff)
  have "parseCookies r = fold keep_pair (spaced (map cookie_text jar)) []"
    using assms split_cookie_header [of jar]
    by (simp add: parseCookies_def keep_pair_def [abs_def] list_all_iff split_beta)
  also have "\<dots> = fold keep_pair (map (\<lambda>c. CHR '' '' # cookie_text c) cs) (keep_pair (cookie_text c) [])"
    by (simp add: jar comp_def)
  also have "\<dots> = fold (\<lambda>(n, v) out. AList.update n v out) cs (keep_pair (cookie_text c) [])"
    using ok by (intro fold_keep_pair) (auto simp: jar)
  also have "keep_pair (cookie_text c) [] = [c]"
    using ok [of "fst c" "snd c"] by (simp add: jar keep_pair_def)
  also have "fold (\<lambda>(n, v) out. AList.update n v out) cs [c] = jar"
    using fold_update_fresh [of "[c]" cs] assms(2) by (simp add: jar)
  finally show ?thesis .
qed

section \<open>Properties\<close>

text \<open>Escaping is complete and exact. The five replacement passes equal one pass that replaces each
  special character by its entity, the result has no angle bracket and no quote, and a decoder of the
  five entities returns the original text.\<close>

lemma escapeHtml_safe:
  "escapeHtml (Some s) = concat (map entity s) \<and>
   set (escapeHtml (Some s)) \<inter> {CHR ''<'', CHR ''>'', CHR 0x22, CHR 0x27} = {} \<and>
   unescape (escapeHtml (Some s)) = s"
  using entity_safe unescape_escapeHtml [of s] by (auto simp: escapeHtml_single_pass)

text \<open>A bounded read never buffers more than its limit, whatever the header declares and however
  the body is chunked, and when it returns a text it is the whole body.\<close>

lemma readTextLimited_bounded:
  assumes "0 \<le> m"
  shows "int (snd (readTextLimited hs (Some cs) m)) \<le> m \<and>
    (declared_too_large hs m \<or> int (length (concat cs)) > m \<longrightarrow> fst (readTextLimited hs (Some cs) m) = Inl (body_too_large m)) \<and>
    (\<not> declared_too_large hs m \<and> int (length (concat cs)) \<le> m \<longrightarrow>
       fst (readTextLimited hs (Some cs) m) = Inr (map (\<lambda>b. char_of (unat b)) (concat cs)))"
proof -
  have "int (length []) \<le> m" using assms by simp
  note ex = read_chunks_exact [OF this, of cs] and bd = read_chunks_bounded [OF this, of cs]
  show ?thesis
    using assms ex bd by (auto simp: readTextLimited_def split: prod.splits sum.splits if_splits)
qed

text \<open>The cookies a browser returns are read as they were set: from the \<open>Cookie\<close> header of any
  jar of distinct names whose values \<open>serialiseCookie\<close> percent-encoded, \<open>parseCookies\<close> recovers exactly
  the jar.\<close>

lemma cookies_roundtrip:
  assumes "list_all (\<lambda>(n, v). cookie_name n \<and> ascii v) jar" "distinct (map fst jar)" "jar \<noteq> []"
    and "header r ''cookie'' = Some (join ''; '' (map (\<lambda>(n, v). n @ ''='' @ encodeURIComponent v) jar))"
  shows "parseCookies r = jar"
  using assms(4) by (intro parseCookies_jar assms(1-3)) (simp add: cookie_header_def cookie_text_def)

end
