(* ===== verification/Acr.thy ===== *)
theory Acr
  imports Prelude
begin

text \<open>
  Authentication contexts, \<^verbatim>\<open>src/acr.js\<close>: what an authentication is worth and when it meets a relying
  party's demand. The strength arithmetic of the code is proved equal to an explicit relation between
  what is held and what is asked for.
\<close>

definition ACR_OTP :: string where "ACR_OTP = ''urn:sag:acr:email-otp''"
definition ACR_LOCAL_PASSWORD :: string where "ACR_LOCAL_PASSWORD = ''urn:sag:acr:local-password''"
definition ACR_LOCAL_MFA :: string where "ACR_LOCAL_MFA = ''urn:sag:acr:local-mfa''"
definition ACR_FEDERATED :: string where "ACR_FEDERATED = ''urn:sag:acr:federated''"
definition ACR_FEDERATED_MFA :: string where "ACR_FEDERATED_MFA = ''urn:sag:acr:federated-mfa''"
definition ACR_MFA :: string where "ACR_MFA = ''urn:sag:acr:mfa''"

lemmas acr_defs = ACR_OTP_def ACR_LOCAL_PASSWORD_def ACR_LOCAL_MFA_def ACR_FEDERATED_def ACR_FEDERATED_MFA_def ACR_MFA_def

definition SUPPORTED_ACR_VALUES :: "string list" where
  "SUPPORTED_ACR_VALUES = [ACR_OTP, ACR_LOCAL_PASSWORD, ACR_LOCAL_MFA, ACR_FEDERATED, ACR_FEDERATED_MFA, ACR_MFA]"

definition strengthOf :: "string \<Rightarrow> nat" where
  "strengthOf acr =
     (if acr = ACR_OTP then 1 else if acr = ACR_FEDERATED then 2 else if acr = ACR_FEDERATED_MFA then 3 else 0)"

definition MFA_HINTS :: "string list" where
  "MFA_HINTS = [''mfa'', ''otp'', ''sms'', ''swk'', ''hwk'', ''fido'', ''phr'', ''phrh'', ''mca'', ''face'', ''fpt'']"

definition MAX_AMR_VALUES :: nat where "MAX_AMR_VALUES = 16"
definition MAX_AMR_LENGTH :: nat where "MAX_AMR_LENGTH = 32"

record auth_context =
  ctx_acr :: string
  ctx_amr :: "string list"
  ctx_upstreamAcr :: "string option"

definition acrFromUpstream :: "json \<Rightarrow> auth_context" where
  "acrFromUpstream upstreamClaims =
     (let raw = jget upstreamClaims ''amr'';
          all = (case raw of Some (JArr xs) \<Rightarrow> as_strs raw | Some (JStr s) \<Rightarrow> [s] | _ \<Rightarrow> []);
          amr = take MAX_AMR_VALUES (filter (\<lambda>v. length v \<le> MAX_AMR_LENGTH) all);
          normalised = ''fed'' # amr;
          mfa = (list_ex (\<lambda>v. to_lower v \<in> set MFA_HINTS) all \<or> length all > 1);
          normalised' = (if mfa \<and> ''mfa'' \<notin> set normalised then normalised @ [''mfa''] else normalised)
      in \<lparr>ctx_acr = (if mfa then ACR_FEDERATED_MFA else ACR_FEDERATED), ctx_amr = js_uniq normalised',
          ctx_upstreamAcr = as_str (jget upstreamClaims ''acr'')\<rparr>)"

definition acrForOtp :: auth_context where
  "acrForOtp = \<lparr>ctx_acr = ACR_OTP, ctx_amr = [''otp'', ''email''], ctx_upstreamAcr = None\<rparr>"

definition acrForLocal :: "string option \<Rightarrow> auth_context" where
  "acrForLocal secondFactor =
     (if \<not> str_truthy secondFactor then \<lparr>ctx_acr = ACR_LOCAL_PASSWORD, ctx_amr = [''pwd''], ctx_upstreamAcr = None\<rparr>
      else \<lparr>ctx_acr = ACR_LOCAL_MFA,
            ctx_amr = [''pwd'', if secondFactor = Some ''totp'' then ''otp'' else ''recovery'', ''mfa''],
            ctx_upstreamAcr = None\<rparr>)"

definition want_met :: "string \<Rightarrow> string \<Rightarrow> bool" where
  "want_met held want =
     (if want = ACR_MFA then held = ACR_LOCAL_MFA \<or> held = ACR_FEDERATED_MFA
      else if want = held then True
      else if held = ACR_LOCAL_PASSWORD \<or> held = ACR_LOCAL_MFA \<or> want = ACR_LOCAL_PASSWORD \<or> want = ACR_LOCAL_MFA
      then held = ACR_LOCAL_MFA \<and> want = ACR_LOCAL_PASSWORD
      else strengthOf want > 0 \<and> strengthOf held \<ge> strengthOf want)"

definition satisfies :: "string \<Rightarrow> string list \<Rightarrow> bool" where
  "satisfies held requested \<longleftrightarrow> requested = [] \<or> list_ex (want_met held) requested"

text \<open>\<open>Infinity\<close> is \<open>None\<close>.\<close>

definition minimumStrengthRequired :: "string list \<Rightarrow> nat option" where
  "minimumStrengthRequired requested =
     (if requested = [] then Some 0
      else (let known = filter (\<lambda>s. s > 0)
                  (map (\<lambda>want. strengthOf (if want = ACR_MFA then ACR_FEDERATED_MFA else want)) requested)
            in if known = [] then None else Some (Min (set known))))"

definition requiresFederation :: "string list \<Rightarrow> bool" where
  "requiresFederation requested =
     (case minimumStrengthRequired requested of None \<Rightarrow> True | Some m \<Rightarrow> m > strengthOf ACR_OTP)"

section \<open>The order of contexts\<close>

text \<open>Which demand each context meets, written out.\<close>

definition meets :: "(string \<times> string) set" where
  "meets =
     {(ACR_LOCAL_MFA, ACR_MFA), (ACR_FEDERATED_MFA, ACR_MFA), (ACR_LOCAL_MFA, ACR_LOCAL_PASSWORD),
      (ACR_FEDERATED, ACR_OTP), (ACR_FEDERATED_MFA, ACR_OTP), (ACR_FEDERATED_MFA, ACR_FEDERATED)}"

lemma acr_distinct: "distinct SUPPORTED_ACR_VALUES"
  by code_simp

lemma acr_neq [simp]:
  "ACR_OTP \<noteq> ACR_LOCAL_PASSWORD" "ACR_OTP \<noteq> ACR_LOCAL_MFA" "ACR_OTP \<noteq> ACR_FEDERATED" "ACR_OTP \<noteq> ACR_FEDERATED_MFA"
  "ACR_OTP \<noteq> ACR_MFA" "ACR_LOCAL_PASSWORD \<noteq> ACR_LOCAL_MFA" "ACR_LOCAL_PASSWORD \<noteq> ACR_FEDERATED"
  "ACR_LOCAL_PASSWORD \<noteq> ACR_FEDERATED_MFA" "ACR_LOCAL_PASSWORD \<noteq> ACR_MFA" "ACR_LOCAL_MFA \<noteq> ACR_FEDERATED"
  "ACR_LOCAL_MFA \<noteq> ACR_FEDERATED_MFA" "ACR_LOCAL_MFA \<noteq> ACR_MFA" "ACR_FEDERATED \<noteq> ACR_FEDERATED_MFA"
  "ACR_FEDERATED \<noteq> ACR_MFA" "ACR_FEDERATED_MFA \<noteq> ACR_MFA"
  by (simp_all add: acr_defs)

lemmas acr_neq_sym [simp] = acr_neq [symmetric]

lemma want_met_iff: "want_met held want \<longleftrightarrow> (held = want \<and> want \<noteq> ACR_MFA) \<or> (held, want) \<in> meets"
  by (auto simp: want_met_def meets_def strengthOf_def split: if_splits)

lemma satisfies_iff:
  "satisfies held requested \<longleftrightarrow>
     requested = [] \<or> (\<exists>want\<in>set requested. (held = want \<and> want \<noteq> ACR_MFA) \<or> (held, want) \<in> meets)"
  by (simp add: satisfies_def list_ex_iff want_met_iff)

lemma requiresFederation_iff: "requiresFederation requested \<longleftrightarrow> \<not> satisfies ACR_OTP requested"
proof (cases "requested = []")
  case True
  then show ?thesis by (simp add: requiresFederation_def minimumStrengthRequired_def satisfies_def)
next
  case False
  define f where "f want = strengthOf (if want = ACR_MFA then ACR_FEDERATED_MFA else want)" for want
  define known where "known = filter (\<lambda>s. s > 0) (map f requested)"
  have one: "f want = 1 \<longleftrightarrow> want = ACR_OTP" for want
    by (simp add: f_def strengthOf_def)
  have "1 \<in> set known \<longleftrightarrow> (\<exists>want\<in>set requested. f want = 1)"
    by (auto simp: known_def image_iff) (metis)
  then have k: "1 \<in> set known \<longleftrightarrow> ACR_OTP \<in> set requested" unfolding one by blast
  have pos: "\<forall>s\<in>set known. 0 < s" by (simp add: known_def)
  have s: "satisfies ACR_OTP requested \<longleftrightarrow> ACR_OTP \<in> set requested"
    using False by (auto simp: satisfies_iff meets_def)
  have "minimumStrengthRequired requested = (if known = [] then None else Some (Min (set known)))"
    using False by (simp add: minimumStrengthRequired_def known_def f_def [abs_def] Let_def)
  then have "requiresFederation requested \<longleftrightarrow> known = [] \<or> 1 < Min (set known)"
    by (simp add: requiresFederation_def strengthOf_def [of ACR_OTP])
  also have "\<dots> \<longleftrightarrow> known = [] \<or> (\<forall>s\<in>set known. 1 < s)"
    by (cases "known = []") (simp_all only: Min_gr_iff finite_set set_empty simp_thms)
  also have "\<dots> \<longleftrightarrow> 1 \<notin> set known"
  proof -
    have "1 < s \<longleftrightarrow> s \<noteq> 1" if "s \<in> set known" for s using pos that by fastforce
    then show ?thesis by auto
  qed
  finally show ?thesis using k s by simp
qed

text \<open>A federated context never stands in for a local account, nor a local one for federation.\<close>

definition is_local :: "string \<Rightarrow> bool" where
  "is_local acr \<longleftrightarrow> acr = ACR_LOCAL_PASSWORD \<or> acr = ACR_LOCAL_MFA"

definition is_federated :: "string \<Rightarrow> bool" where
  "is_federated acr \<longleftrightarrow> acr = ACR_FEDERATED \<or> acr = ACR_FEDERATED_MFA"

lemma acrFromUpstream_bounds:
  "ctx_acr (acrFromUpstream j) \<in> {ACR_FEDERATED, ACR_FEDERATED_MFA} \<and>
   distinct (ctx_amr (acrFromUpstream j)) \<and> length (ctx_amr (acrFromUpstream j)) \<le> MAX_AMR_VALUES + 2 \<and>
   (\<forall>v\<in>set (ctx_amr (acrFromUpstream j)). length v \<le> MAX_AMR_LENGTH) \<and>
   (ctx_acr (acrFromUpstream j) = ACR_FEDERATED_MFA \<longrightarrow> ''mfa'' \<in> set (ctx_amr (acrFromUpstream j)))"
proof -
  define all where "all = (case jget j ''amr'' of Some (JArr xs) \<Rightarrow> as_strs (jget j ''amr'') | Some (JStr s) \<Rightarrow> [s] | _ \<Rightarrow> [])"
  define amr where "amr = take MAX_AMR_VALUES (filter (\<lambda>v. length v \<le> MAX_AMR_LENGTH) all)"
  define mfa where "mfa = (list_ex (\<lambda>v. to_lower v \<in> set MFA_HINTS) all \<or> length all > 1)"
  define out where "out = (if mfa \<and> ''mfa'' \<notin> set (''fed'' # amr) then (''fed'' # amr) @ [''mfa''] else ''fed'' # amr)"
  have eq: "ctx_acr (acrFromUpstream j) = (if mfa then ACR_FEDERATED_MFA else ACR_FEDERATED)"
    "ctx_amr (acrFromUpstream j) = js_uniq out"
    by (simp_all add: acrFromUpstream_def all_def amr_def mfa_def out_def Let_def del: js_uniq.simps)
  have "length amr \<le> MAX_AMR_VALUES" "\<forall>v\<in>set amr. length v \<le> MAX_AMR_LENGTH"
    by (auto simp: amr_def dest: in_set_takeD)
  then have out: "length out \<le> MAX_AMR_VALUES + 2" "\<forall>v\<in>set out. length v \<le> MAX_AMR_LENGTH" "mfa \<longrightarrow> ''mfa'' \<in> set out"
    by (auto simp: out_def MAX_AMR_LENGTH_def)
  show ?thesis
    using out length_js_uniq [of out] by (simp add: eq)
qed

section \<open>Properties\<close>

text \<open>The demand of a relying party is met exactly along the order of contexts: a context meets its
  own name, multi-factor contexts meet \<open>mfa\<close>, a stronger federated context meets a weaker one and the
  mailed code, and local multi-factor meets the local password. Hence a federated session never meets
  a demand for a local account, a local one never meets a demand for federation or a mailed code, and
  an unknown demand is met by that very context only.\<close>

lemma satisfies_exact:
  "(satisfies held requested \<longleftrightarrow>
      requested = [] \<or> (\<exists>want\<in>set requested. (held = want \<and> want \<noteq> ACR_MFA) \<or> (held, want) \<in> meets)) \<and>
   (is_federated held \<and> is_local want \<longrightarrow> \<not> satisfies held [want]) \<and>
   (is_local held \<and> (is_federated want \<or> want = ACR_OTP) \<longrightarrow> \<not> satisfies held [want]) \<and>
   (want \<notin> set SUPPORTED_ACR_VALUES \<longrightarrow> satisfies held [want] = (held = want))"
  unfolding satisfies_iff is_federated_def is_local_def
  by (auto simp: meets_def SUPPORTED_ACR_VALUES_def)

text \<open>The routing shortcut agrees with the check that is enforced: a request is sent to a stronger
  route exactly when a mailed code could not satisfy it.\<close>

lemma requiresFederation_exact: "requiresFederation requested \<longleftrightarrow> \<not> satisfies ACR_OTP requested"
  by (rule requiresFederation_iff)

text \<open>What an upstream asserts about its methods is bounded before it reaches a cookie or a token:
  at most eighteen distinct values of at most 32 characters, a federated context, and the \<open>mfa\<close> value
  present whenever the multi-factor context is claimed.\<close>

lemma acrFromUpstream_bounded:
  "ctx_acr (acrFromUpstream j) \<in> {ACR_FEDERATED, ACR_FEDERATED_MFA} \<and>
   distinct (ctx_amr (acrFromUpstream j)) \<and> length (ctx_amr (acrFromUpstream j)) \<le> MAX_AMR_VALUES + 2 \<and>
   list_all (\<lambda>v. length v \<le> MAX_AMR_LENGTH) (ctx_amr (acrFromUpstream j)) \<and>
   (ctx_acr (acrFromUpstream j) = ACR_FEDERATED \<or> ''mfa'' \<in> set (ctx_amr (acrFromUpstream j)))"
  using acrFromUpstream_bounds [of j] by (auto simp: list_all_iff)

end
