(* ===== verification/Identity.thy ===== *)
theory Identity
  imports Sealing Settings
begin

text \<open>
  Addresses and subject identifiers, \<^verbatim>\<open>src/identity.js\<close>.
\<close>

definition normaliseEmail :: "string option \<Rightarrow> string option" where
  "normaliseEmail input =
     (let raw = trim (coalesce input [])
      in case last_index_of (CHR ''@'') raw of None \<Rightarrow> None
         | Some at \<Rightarrow> if at < 1 \<or> at = length raw - 1 then None
                     else Some (to_lower (take at raw) @ ''@'' @ to_lower (drop (at + 1) raw)))"

definition stripPlusTag :: "string \<Rightarrow> string" where
  "stripPlusTag email =
     (case last_index_of (CHR ''@'') email of None \<Rightarrow> email
      | Some at \<Rightarrow>
          if at < 1 then email
          else (let loc = take at email
                in if starts_with loc [CHR 0x22] then email
                   else (case index_of (CHR ''+'') loc of None \<Rightarrow> email
                         | Some i \<Rightarrow> if i < 1 then email else take i loc @ drop at email)))"

definition sanitisesPlusEmails :: "config \<Rightarrow> client option \<Rightarrow> bool" where
  "sanitisesPlusEmails c cl = coalesce (Option.bind cl cl_sanitisePlusEmails) (c_sanitisePlusEmails c)"

definition identityEmail :: "config \<Rightarrow> string \<Rightarrow> client option \<Rightarrow> string" where
  "identityEmail c email cl = (if sanitisesPlusEmails c cl then stripPlusTag email else email)"

text \<open>\<open>split('@')[1]?.toLowerCase()\<close>.\<close>

definition domainOf :: "string option \<Rightarrow> string option" where
  "domainOf email =
     (case split_on (CHR ''@'') (coalesce email []) of _ # d # _ \<Rightarrow> Some (to_lower d) | _ \<Rightarrow> None)"

definition looksLikeEmail :: "string option \<Rightarrow> bool" where
  "looksLikeEmail email =
     (let text = coalesce email []
      in if text = [] \<or> length text > 254 then False
         else (case split_on (CHR ''@'') text of
                 [loc, domain] \<Rightarrow>
                   if loc = [] \<or> list_ex is_space loc then False
                   else if domain = [] \<or> length domain > 253 \<or> starts_with domain ''-'' \<or> ends_with domain ''-'' then False
                   else (let labels = split_on (CHR ''.'') domain
                         in \<not> (length labels < 2 \<or> list_ex (\<lambda>l. l = [] \<or> list_ex (\<lambda>c. is_space c \<or> c = CHR ''@'') l) labels))
               | _ \<Rightarrow> False))"

definition sectorFor :: "client option \<Rightarrow> string" where
  "sectorFor cl =
     (if str_truthy (Option.bind cl cl_sectorIdentifier) then to_lower (the (Option.bind cl cl_sectorIdentifier))
      else ''client:'' @ (case cl of None \<Rightarrow> [] | Some k \<Rightarrow> cl_clientId k))"

definition SEP :: string where
  "SEP = '' | ''"

text \<open>The derivation input, before HKDF.\<close>

definition subject_input :: "string \<Rightarrow> string \<Rightarrow> string list \<Rightarrow> string" where
  "subject_input type scope parts = join SEP ([''sub'', type, scope] @ parts)"

definition subjectForPrincipal :: "platform \<Rightarrow> config \<Rightarrow> string list \<Rightarrow> client option \<Rightarrow> (string, string) result" where
  "subjectForPrincipal pf c parts cl =
     (let type = or_str (Option.bind cl cl_subjectType) (c_subjectType c)
      in if \<not> str_truthy (c_subjectSalt c) then Inl ''subjects require SUBJECT_SALT to be set''
         else (let scope = (if type = ''pairwise'' then sectorFor cl else ''public'')
               in Inr (b64u (derive pf (the (c_subjectSalt c)) (subject_input type scope parts) 24))))"

definition subjectFor :: "platform \<Rightarrow> config \<Rightarrow> string \<Rightarrow> client option \<Rightarrow> (string, string) result" where
  "subjectFor pf c email cl = subjectForPrincipal pf c [email] cl"

definition identity_id_ok :: "string \<Rightarrow> bool" where
  "identity_id_ok s \<longleftrightarrow> 1 \<le> length s \<and> length s \<le> 128 \<and>
     list_all (\<lambda>c. is_alnum c \<or> c = CHR ''_'' \<or> c = CHR ''-'') s"

definition subjectForLocalIdentity :: "platform \<Rightarrow> config \<Rightarrow> string option \<Rightarrow> client option \<Rightarrow> (string, string) result" where
  "subjectForLocalIdentity pf c identityId cl =
     (if \<not> identity_id_ok (coalesce identityId []) then Inl ''local subjects require a valid stable identity id''
      else subjectForPrincipal pf c [''local'', coalesce identityId []] cl)"

definition emailTag :: "platform \<Rightarrow> string \<Rightarrow> string" where
  "emailTag pf email = take 10 (sha256b64u pf (stripPlusTag email))"

section \<open>Plus tags\<close>

text \<open>An address by its last \<open>@\<close>, and the local part without its tag.\<close>

definition untag :: "string \<Rightarrow> string" where
  "untag loc = (if loc = [] \<or> hd loc = CHR 0x22 \<or> hd loc = CHR ''+'' then loc else takeWhile (\<lambda>c. c \<noteq> CHR ''+'') loc)"

lemma index_of_takeWhile: "index_of x xs = Some i \<Longrightarrow> take i xs = takeWhile (\<lambda>c. c \<noteq> x) xs"
  by (induction xs arbitrary: i) (auto split: if_splits)

lemma starts_with_single: "starts_with s [c] \<longleftrightarrow> s \<noteq> [] \<and> hd s = c"
  by (cases s) (auto simp: starts_with_def)

lemma last_at: "CHR ''@'' \<notin> set dm \<Longrightarrow> last_index_of (CHR ''@'') (loc @ CHR ''@'' # dm) = Some (length loc)"
  using last_index_of_split by fastforce

lemma index_of_0: "index_of x xs = Some 0 \<longleftrightarrow> xs \<noteq> [] \<and> hd xs = x"
  by (cases xs) auto

lemma stripPlusTag_split:
  assumes "CHR ''@'' \<notin> set dm"
  shows "stripPlusTag (loc @ CHR ''@'' # dm) = untag loc @ CHR ''@'' # dm"
proof (cases "index_of (CHR ''+'') loc")
  case None
  then have tw: "takeWhile (\<lambda>c. c \<noteq> CHR ''+'') loc = loc" by (auto simp: takeWhile_eq_all_conv)
  show ?thesis
    using None last_at [OF assms] by (simp add: stripPlusTag_def untag_def Let_def tw del: index_of_None)
next
  case (Some i)
  then have "take i loc = takeWhile (\<lambda>c. c \<noteq> CHR ''+'') loc" by (rule index_of_takeWhile)
  with Some last_at [OF assms] index_of_0 [of "CHR ''+''" loc] show ?thesis
    by (cases "i = 0") (auto simp: stripPlusTag_def untag_def Let_def starts_with_single)
qed

lemma stripPlusTag_no_at: "CHR ''@'' \<notin> set e \<Longrightarrow> stripPlusTag e = e"
  unfolding last_index_of_None [symmetric] by (simp add: stripPlusTag_def del: last_index_of_None)

lemma untag_idem: "untag (untag loc) = untag loc"
  by (cases loc) (auto simp: untag_def takeWhile_eq_all_conv dest: set_takeWhileD)

lemma address_cases:
  obtains "CHR ''@'' \<notin> set e" | loc dm where "e = loc @ CHR ''@'' # dm" "CHR ''@'' \<notin> set dm"
proof (cases "last_index_of (CHR ''@'') e")
  case None
  with that(1) show ?thesis by simp
next
  case (Some i)
  with that(2) show ?thesis using last_index_of_split by metis
qed

lemma stripPlusTag_idem: "stripPlusTag (stripPlusTag e) = stripPlusTag e"
  by (cases e rule: address_cases) (simp_all add: stripPlusTag_no_at stripPlusTag_split untag_idem)

lemma untag_tagged: "u \<noteq> [] \<Longrightarrow> hd u \<noteq> CHR 0x22 \<Longrightarrow> CHR ''+'' \<notin> set u \<Longrightarrow> untag (u @ CHR ''+'' # t) = u"
  by (cases u) (auto simp: untag_def takeWhile_append)

section \<open>Address shape\<close>

lemma split_on_two: "split_on d s = [a, b] \<longleftrightarrow> s = a @ d # b \<and> d \<notin> set a \<and> d \<notin> set b"
proof
  assume a: "split_on d s = [a, b]"
  then have "join [d] (split_on d s) = a @ d # b" by simp
  then have "s = a @ d # b" by (simp add: join_split_on)
  moreover have "d \<notin> set a" "d \<notin> set b" using split_on_parts [of _ d s] a by auto
  ultimately show "s = a @ d # b \<and> d \<notin> set a \<and> d \<notin> set b" by simp
next
  assume "s = a @ d # b \<and> d \<notin> set a \<and> d \<notin> set b"
  then show "split_on d s = [a, b]" by (simp add: split_on_append_sep)
qed

lemma looksLikeEmail_split:
  assumes "looksLikeEmail (Some e)"
  obtains loc dm where "e = loc @ CHR ''@'' # dm" "loc \<noteq> []" "dm \<noteq> []" "CHR ''@'' \<notin> set loc" "CHR ''@'' \<notin> set dm"
    "\<not> list_ex is_space loc" "list_ex (\<lambda>c. c = CHR ''.'') dm" "\<not> list_ex is_space dm"
proof -
  from assms obtain loc dm where s: "split_on (CHR ''@'') e = [loc, dm]"
    and l: "loc \<noteq> []" "\<not> list_ex is_space loc" "dm \<noteq> []"
    and d: "2 \<le> length (split_on (CHR ''.'') dm)"
      "\<not> list_ex (\<lambda>l. l = [] \<or> list_ex (\<lambda>c. is_space c \<or> c = CHR ''@'') l) (split_on (CHR ''.'') dm)"
    unfolding looksLikeEmail_def coalesce_def
    by (auto simp: Let_def split: list.splits if_splits)
  have dot: "CHR ''.'' \<in> set dm"
  proof (rule ccontr)
    assume "CHR ''.'' \<notin> set dm"
    with d(1) show False by simp
  qed
  have "\<not> list_ex is_space (join ''.'' xs)" if "\<not> list_ex (\<lambda>l. list_ex is_space l) xs" for xs
  proof -
    have "\<not> is_space (CHR ''.'')" by code_simp
    with that show ?thesis by (induction "''.''" xs rule: join.induct) auto
  qed
  moreover have "\<not> list_ex (\<lambda>l. list_ex is_space l) (split_on (CHR ''.'') dm)"
    using d(2) by (auto simp: list_ex_iff)
  ultimately have "\<not> list_ex is_space (join ''.'' (split_on (CHR ''.'') dm))" by blast
  then have "\<not> list_ex is_space dm" by (simp add: join_split_on)
  with s l dot that show ?thesis unfolding split_on_two by (auto simp: list_ex_iff)
qed

lemma domainOf_split: "CHR ''@'' \<notin> set loc \<Longrightarrow> CHR ''@'' \<notin> set dm \<Longrightarrow> domainOf (Some (loc @ CHR ''@'' # dm)) = Some (to_lower dm)"
  by (simp add: domainOf_def coalesce_def split_on_append_sep)

lemma normaliseEmail_split:
  assumes "normaliseEmail (Some e) = Some n"
  obtains loc dm where "trim e = loc @ CHR ''@'' # dm" "loc \<noteq> []" "dm \<noteq> []" "CHR ''@'' \<notin> set dm"
    "n = to_lower loc @ CHR ''@'' # to_lower dm"
proof -
  from assms obtain i where i: "last_index_of (CHR ''@'') (trim e) = Some i" "1 \<le> i" "i \<noteq> length (trim e) - 1"
    and n: "n = to_lower (take i (trim e)) @ CHR ''@'' # to_lower (drop (i + 1) (trim e))"
    unfolding normaliseEmail_def coalesce_def by (auto simp: Let_def split: option.splits if_splits)
  then obtain loc dm where s: "trim e = loc @ CHR ''@'' # dm" "length loc = i" "CHR ''@'' \<notin> set dm"
    using last_index_of_split by metis
  with i n show ?thesis by (intro that [of loc dm]) auto
qed

section \<open>Subjects\<close>

lemma first_sep_inj:
  "e @ d # xs = e' @ d # ys \<Longrightarrow> d \<notin> set e \<Longrightarrow> d \<notin> set e' \<Longrightarrow> e = e' \<and> xs = ys"
proof (induction e arbitrary: e')
  case Nil
  then show ?case by (cases e') auto
next
  case (Cons c e)
  then show ?case by (cases e') auto
qed

lemma last_sep_inj:
  assumes "xs @ d # e = ys @ d # e'" "d \<notin> set e" "d \<notin> set e'"
  shows "xs = ys \<and> e = e'"
proof -
  have "rev e @ d # rev xs = rev e' @ d # rev ys" using arg_cong [OF assms(1), of rev] by simp
  from first_sep_inj [OF this] assms(2,3) show ?thesis by simp
qed

lemma subject_input_one: "subject_input t s [p] = (''sub |'' @ CHR '' '' # t @ CHR '' '' # ''| '' @ s @ '' |'') @ CHR '' '' # p"
  by (simp add: subject_input_def SEP_def)

lemma subject_input_two:
  "subject_input t s [''local'', p] = (''sub |'' @ CHR '' '' # t @ CHR '' '' # ''| '' @ s @ '' | local |'') @ CHR '' '' # p"
  by (simp add: subject_input_def SEP_def)

lemma scope_part_inj:
  "t @ CHR '' '' # ''| '' @ s @ r = t' @ CHR '' '' # ''| '' @ s' @ r \<Longrightarrow> CHR '' '' \<notin> set t \<Longrightarrow> CHR '' '' \<notin> set t' \<Longrightarrow> t = t' \<and> s = s'"
  using first_sep_inj [of t "CHR '' ''" "''| '' @ s @ r" t' "''| '' @ s' @ r"] by simp

lemma subject_input_one_inj:
  assumes "subject_input t s [e] = subject_input t' s' [e']"
    "CHR '' '' \<notin> set t" "CHR '' '' \<notin> set t'" "CHR '' '' \<notin> set e" "CHR '' '' \<notin> set e'"
  shows "t = t' \<and> s = s' \<and> e = e'"
  using last_sep_inj [OF assms(1) [unfolded subject_input_one] assms(4,5)] scope_part_inj [of t s "'' |''" t' s'] assms(2,3)
  by simp

lemma subject_input_two_inj:
  assumes "subject_input t s [''local'', e] = subject_input t' s' [''local'', e']"
    "CHR '' '' \<notin> set t" "CHR '' '' \<notin> set t'" "CHR '' '' \<notin> set e" "CHR '' '' \<notin> set e'"
  shows "t = t' \<and> s = s' \<and> e = e'"
  using last_sep_inj [OF assms(1) [unfolded subject_input_two] assms(4,5)] scope_part_inj [of t s "'' | local |''" t' s'] assms(2,3)
  by simp

lemma identity_id_chars: "identity_id_ok i \<Longrightarrow> CHR '' '' \<notin> set i \<and> CHR ''@'' \<notin> set i"
proof -
  have "\<not> is_alnum (CHR '' '')" "\<not> is_alnum (CHR ''@'')" by code_simp+
  then show "identity_id_ok i \<Longrightarrow> CHR '' '' \<notin> set i \<and> CHR ''@'' \<notin> set i"
    by (auto simp: identity_id_ok_def list_all_iff)
qed

lemma email_chars: "looksLikeEmail (Some e) \<Longrightarrow> CHR '' '' \<notin> set e \<and> CHR ''@'' \<in> set e"
proof -
  assume "looksLikeEmail (Some e)"
  then obtain loc dm where e: "e = loc @ CHR ''@'' # dm" "\<not> list_ex is_space loc" "\<not> list_ex is_space dm"
    by (rule looksLikeEmail_split)
  have "is_space (CHR '' '')" by code_simp
  with e show ?thesis by (auto simp: list_ex_iff)
qed

section \<open>Properties\<close>

text \<open>Dropping a plus tag is a projection onto mailboxes: it is idempotent, keeps the domain after
  the last \<open>@\<close>, and gives the same address whatever tag is appended to an untagged local part.\<close>

lemma stripPlusTag_mailbox:
  "stripPlusTag (stripPlusTag e) = stripPlusTag e \<and>
   (CHR ''@'' \<notin> set d \<longrightarrow> stripPlusTag (loc @ ''@'' @ d) = untag loc @ ''@'' @ d) \<and>
   (CHR ''@'' \<notin> set d \<and> u \<noteq> [] \<and> hd u \<noteq> CHR 0x22 \<and> CHR ''+'' \<notin> set u \<longrightarrow>
      stripPlusTag (u @ ''+'' @ tag @ ''@'' @ d) = stripPlusTag (u @ ''@'' @ d) \<and>
      stripPlusTag (u @ ''@'' @ d) = u @ ''@'' @ d)"
proof -
  have "untag u = u" if "CHR ''+'' \<notin> set u" for u
    using that by (auto simp: untag_def takeWhile_eq_all_conv)
  then show ?thesis
    using stripPlusTag_split [of d] untag_tagged [of u tag] stripPlusTag_split [of d "u @ CHR ''+'' # tag"]
    by (auto simp: stripPlusTag_idem)
qed

text \<open>For every address that passes the shape check, the domain used for routing and allow lists is
  the part after the only \<open>@\<close>, in lower case, it is not empty, and normalising the address keeps it.\<close>

lemma looksLikeEmail_domain:
  assumes "looksLikeEmail (Some e)"
  shows "\<exists>loc d. e = loc @ ''@'' @ d \<and> loc \<noteq> [] \<and> d \<noteq> [] \<and> CHR ''@'' \<notin> set loc \<and> CHR ''@'' \<notin> set d \<and>
    domainOf (Some e) = Some (to_lower d) \<and>
    (\<exists>n. normaliseEmail (Some e) = Some n \<and> domainOf (Some n) = Some (to_lower d))"
proof -
  from assms obtain loc d where e: "e = loc @ CHR ''@'' # d" "loc \<noteq> []" "d \<noteq> []" "CHR ''@'' \<notin> set loc" "CHR ''@'' \<notin> set d"
    "\<not> list_ex is_space loc" "\<not> list_ex is_space d"
    by (rule looksLikeEmail_split)
  have "\<not> is_space (CHR ''@'')" by code_simp
  with e have "trim e = e" by (intro trim_id) (auto simp: list_ex_iff)
  with e last_at [OF e(5), of loc] have n: "normaliseEmail (Some e) = Some (to_lower loc @ CHR ''@'' # to_lower d)"
    by (auto simp: normaliseEmail_def coalesce_def Let_def Suc_le_eq)
  have "CHR ''@'' \<notin> set (to_lower loc)" "CHR ''@'' \<notin> set (to_lower d)"
    using e(4,5) in_set_to_lower_iff [of "CHR ''@''"] by (auto simp: is_upper_def is_lower_def)
  with n e domainOf_split [of loc d] domainOf_split [of "to_lower loc" "to_lower d"] show ?thesis
    by (intro exI [of _ loc] exI [of _ d]) (auto simp: to_lower_def)
qed

text \<open>Two principals never share the input their subject is derived from. For subject types without
  spaces and whatever the sectors, the derivation inputs of two verified addresses are equal only for
  the same type, sector and address; likewise for two local identities; and an address never shares one
  with a local identity.\<close>

lemma subject_inputs_separate:
  assumes "looksLikeEmail (Some e)" "looksLikeEmail (Some e')" "identity_id_ok i" "identity_id_ok i'"
    and "CHR '' '' \<notin> set t" "CHR '' '' \<notin> set t'"
  shows "(subject_input t s [e] = subject_input t' s' [e'] \<longleftrightarrow> t = t' \<and> s = s' \<and> e = e') \<and>
    (subject_input t s [''local'', i] = subject_input t' s' [''local'', i'] \<longleftrightarrow> t = t' \<and> s = s' \<and> i = i') \<and>
    subject_input t s [e] \<noteq> subject_input t' s' [''local'', i]"
proof -
  note c = email_chars [OF assms(1)] email_chars [OF assms(2)] identity_id_chars [OF assms(3)] identity_id_chars [OF assms(4)]
  have "subject_input t s [e] \<noteq> subject_input t' s' [''local'', i]"
    unfolding subject_input_one subject_input_two
    using last_sep_inj [of "''sub |'' @ CHR '' '' # t @ CHR '' '' # ''| '' @ s @ '' |''" "CHR '' ''" e _ i] c by blast
  with c assms(5,6) show ?thesis
    using subject_input_one_inj [of t s e t' s' e'] subject_input_two_inj [of t s i t' s' i'] by auto
qed

end
