(* ===== verification/Otp.thy ===== *)
theory Otp
  imports Identity
begin

text \<open>
  Mailed one-time codes, \<^verbatim>\<open>src/otp.js\<close>: drawing a code by rejection sampling, its digest bound to the
  transaction and the address, the check of a submitted code and the domain policy. The random bytes are
  the successive batches that \<open>randomBytes\<close> returns; a transaction is the JSON object that was sealed.
\<close>

section \<open>Drawing a code\<close>

definition ALPHANUMERIC :: string where "ALPHANUMERIC = ''23456789ABCDEFGHJKMNPQRSTVWXYZ''"
definition NUMERIC :: string where "NUMERIC = ''0123456789''"

definition alphabetFor :: "config \<Rightarrow> string" where
  "alphabetFor c = (if otp_codeAlphabet (c_otp c) = ''numeric'' then NUMERIC else ALPHANUMERIC)"

definition code_limit :: "string \<Rightarrow> nat" where
  "code_limit alphabet = 256 - 256 mod length alphabet"

text \<open>The \<open>for\<close> loop over one batch: it skips bytes at or above the limit and leaves when the code is
  complete.\<close>

fun code_bytes :: "nat \<Rightarrow> string \<Rightarrow> string \<Rightarrow> bytes \<Rightarrow> string" where
  "code_bytes len alphabet out [] = out"
| "code_bytes len alphabet out (b # bs) =
     (if unat b \<ge> code_limit alphabet then code_bytes len alphabet out bs
      else (let out' = out @ [alphabet ! (unat b mod length alphabet)]
            in if length out' = len then out' else code_bytes len alphabet out' bs))"

text \<open>The outer \<open>while\<close>; \<open>None\<close> when the batches at hand do not complete the code.\<close>

fun code_loop :: "nat \<Rightarrow> string \<Rightarrow> string \<Rightarrow> bytes list \<Rightarrow> string option" where
  "code_loop len alphabet out batches =
     (if length out < len
      then (case batches of [] \<Rightarrow> None | b # bs \<Rightarrow> code_loop len alphabet (code_bytes len alphabet out b) bs)
      else Some out)"

declare code_loop.simps [simp del]

definition generateCode :: "nat \<Rightarrow> string \<Rightarrow> bytes list \<Rightarrow> string option" where
  "generateCode len alphabet batches = code_loop len alphabet [] batches"

section \<open>Checking a code\<close>

definition normaliseCode :: "string option \<Rightarrow> string" where
  "normaliseCode input = filter (\<lambda>c. is_digit c \<or> is_upper c) (to_upper (coalesce input []))"

definition digestCode :: "platform \<Rightarrow> config \<Rightarrow> string \<Rightarrow> string \<Rightarrow> string option \<Rightarrow> string" where
  "digestCode pf c txId email code =
     b64u (hmac pf (derive pf (current_secret c) ''otp-digest'' 32) (join '' | '' [txId, email, normaliseCode code]))"

text \<open>\<open>Inr ()\<close> is \<open>{ ok: true }\<close>, \<open>Inl reason\<close> a refusal.\<close>

definition verifyCode :: "platform \<Rightarrow> config \<Rightarrow> json \<Rightarrow> string option \<Rightarrow> int \<Rightarrow> (string, unit) result" where
  "verifyCode pf c tx submitted now =
     (case Option.bind (jget tx ''otp'') (\<lambda>otp. if truthy (jget otp ''digest'') then Some otp else None) of
        None \<Rightarrow> Inl ''no-code''
      | Some otp \<Rightarrow>
          (let code = normaliseCode submitted;
               expected = or_str (as_str (jget otp ''digest'')) [];
               actual = digestCode pf c (or_str (as_str (jget tx ''id'')) []) (or_str (as_str (jget tx ''email'')) []) (Some code);
               matches = timingSafeEqual (utf8 actual) (utf8 expected)
           in if (case as_num (jget otp ''exp'') of None \<Rightarrow> False | Some e \<Rightarrow> e < now) then Inl ''expired''
              else if coalesce (as_num (jget otp ''attempts'')) 0 \<ge> otp_maxAttempts (c_otp c) then Inl ''too-many-attempts''
              else if \<not> matches then Inl ''mismatch''
              else Inr ()))"

section \<open>Policy and display\<close>

text \<open>\<open>entry.toLowerCase().replace(/^\*?\./, '')\<close>.\<close>

definition domain_entry :: "string \<Rightarrow> string" where
  "domain_entry entry =
     (case to_lower entry of
        c # d # rest \<Rightarrow> if c = CHR ''*'' \<and> d = CHR ''.'' then rest else if c = CHR ''.'' then d # rest else c # d # rest
      | [c] \<Rightarrow> if c = CHR ''.'' then [] else [c]
      | [] \<Rightarrow> [])"

definition domain_listed :: "string \<Rightarrow> string list \<Rightarrow> bool" where
  "domain_listed domain entries \<longleftrightarrow>
     list_ex (\<lambda>entry. let e = domain_entry entry in domain = e \<or> ends_with domain (CHR ''.'' # e)) entries"

definition otpAllowed :: "config \<Rightarrow> string option \<Rightarrow> bool" where
  "otpAllowed c email =
     (if \<not> otp_enabled (c_otp c) then False
      else if \<not> str_truthy (domainOf email) then False
      else (let domain = the (domainOf email)
            in if otp_blockedDomains (c_otp c) \<noteq> [] \<and> domain_listed domain (otp_blockedDomains (c_otp c)) then False
               else if otp_allowedDomains (c_otp c) \<noteq> [] \<and> \<not> domain_listed domain (otp_allowedDomains (c_otp c)) then False
               else True))"

text \<open>\<open>s.match(/.{1,n}/g)\<close>.\<close>

function chunks_of :: "nat \<Rightarrow> string \<Rightarrow> string list" where
  "chunks_of n s = (if n = 0 \<or> s = [] then [] else take n s # chunks_of n (drop n s))"
  by pat_completeness auto
termination
  by (relation "measure (length \<circ> snd)") auto

declare chunks_of.simps [simp del]

definition formatCodeForDisplay :: "string \<Rightarrow> string" where
  "formatCodeForDisplay code =
     (let size = (if length code mod 3 = 0 then 3 else 4)
      in if code = [] then code else join '' '' (chunks_of size code))"

section \<open>Facts on drawing\<close>

definition accepted :: "string \<Rightarrow> bytes \<Rightarrow> string" where
  "accepted alphabet bs =
     map (\<lambda>b. alphabet ! (unat b mod length alphabet)) (filter (\<lambda>b. unat b < code_limit alphabet) bs)"

lemma code_bytes_eq:
  "length out < len \<Longrightarrow> code_bytes len alphabet out bs = take len (out @ accepted alphabet bs)"
proof (induction len alphabet out bs rule: code_bytes.induct)
  case (2 len alphabet out b bs)
  then show ?case by (auto simp: accepted_def Let_def)
qed (simp add: accepted_def)

lemma accepted_concat: "accepted alphabet (concat (b # bs)) = accepted alphabet b @ accepted alphabet (concat bs)"
  by (simp add: accepted_def)

lemma code_loop_eq:
  "length out \<le> len \<Longrightarrow> code_loop len alphabet out batches =
     (if len \<le> length (out @ accepted alphabet (concat batches)) then Some (take len (out @ accepted alphabet (concat batches))) else None)"
proof (induction batches arbitrary: out)
  case Nil
  then show ?case by (auto simp: code_loop.simps accepted_def)
next
  case (Cons b bs)
  show ?case
  proof (cases "length out < len")
    case True
    define out' where "out' = take len (out @ accepted alphabet b)"
    have "code_loop len alphabet out (b # bs) = code_loop len alphabet out' bs"
      using True by (subst code_loop.simps) (simp add: code_bytes_eq out'_def)
    also have "\<dots> = (if len \<le> length (out' @ accepted alphabet (concat bs)) then Some (take len (out' @ accepted alphabet (concat bs))) else None)"
      by (rule Cons.IH) (simp add: out'_def)
    finally show ?thesis
      by (cases "len \<le> length (out @ accepted alphabet b)") (use True in \<open>auto simp: out'_def accepted_concat min_def simp del: concat.simps\<close>)
  next
    case False
    with Cons.prems show ?thesis by (simp add: code_loop.simps)
  qed
qed

lemma generateCode_eq:
  "generateCode len alphabet batches =
     (if len \<le> length (accepted alphabet (concat batches)) then Some (take len (accepted alphabet (concat batches))) else None)"
  unfolding generateCode_def using code_loop_eq [of "[]" len alphabet batches] by simp

lemma alphabets: "distinct ALPHANUMERIC" "length ALPHANUMERIC = 30" "distinct NUMERIC" "length NUMERIC = 10"
  "list_all (\<lambda>c. is_digit c \<or> is_upper c) ALPHANUMERIC" "list_all (\<lambda>c. is_digit c \<or> is_upper c) NUMERIC"
  by code_simp+

lemma card_residues: "i < k \<Longrightarrow> card {n::nat. n < q * k \<and> n mod k = i} = q"
proof -
  assume i: "i < k"
  have "{n. n < q * k \<and> n mod k = i} = (\<lambda>j. j * k + i) ` {..<q}"
  proof (intro equalityI subsetI)
    fix n assume n: "n \<in> {n. n < q * k \<and> n mod k = i}"
    then have "n div k < q" by (simp add: less_mult_imp_div_less)
    moreover from n have "n = n div k * k + i" using div_mult_mod_eq [of n k] by simp
    ultimately show "n \<in> (\<lambda>j. j * k + i) ` {..<q}" by blast
  next
    fix n assume "n \<in> (\<lambda>j. j * k + i) ` {..<q}"
    then obtain j where j: "j < q" "n = j * k + i" by auto
    have "j * k + i < (j + 1) * k" using i by simp
    also have "\<dots> \<le> q * k" using j(1) by (intro mult_le_mono1) simp
    finally show "n \<in> {n. n < q * k \<and> n mod k = i}" using j i by simp
  qed
  moreover have "inj_on (\<lambda>j. j * k + i) {..<q}" using i by (intro inj_onI) simp
  ultimately show ?thesis by (simp add: card_image)
qed

lemma code_limit_multiple: "code_limit a = (256 div length a) * length a"
  unfolding code_limit_def by (simp add: minus_mod_eq_div_mult)

section \<open>Facts on codes\<close>

lemma concat_chunks_of: "n \<noteq> 0 \<Longrightarrow> concat (chunks_of n s) = s"
  by (induction n s rule: chunks_of.induct) (subst chunks_of.simps, auto)

lemma filter_join_space:
  "(\<And>c. c = CHR '' '' \<Longrightarrow> \<not> P c) \<Longrightarrow> filter P (join '' '' xs) = filter P (concat xs)"
  by (induction "'' ''" xs rule: join.induct) auto

lemma upper_char_fixed: "is_digit c \<or> is_upper c \<Longrightarrow> upper_char c = c"
  by (cases c) (auto simp: is_digit_def is_upper_def is_lower_def)

lemma normaliseCode_display:
  assumes "list_all (\<lambda>c. is_digit c \<or> is_upper c) code"
  shows "normaliseCode (Some (formatCodeForDisplay code)) = code"
proof (cases "code = []")
  case True
  then show ?thesis by (simp add: normaliseCode_def formatCodeForDisplay_def coalesce_def to_upper_def)
next
  case False
  have u: "to_upper (join '' '' xs) = join '' '' (map to_upper xs)" for xs
  proof -
    have "upper_char (CHR '' '') = CHR '' ''" by code_simp
    then show ?thesis by (induction "'' ''" xs rule: join.induct) (auto simp: to_upper_def)
  qed
  have sp: "\<not> (is_digit (CHR '' '') \<or> is_upper (CHR '' ''))" by code_simp
  define n where "n = (if length code mod 3 = 0 then 3 else 4 :: nat)"
  have n: "n \<noteq> 0" by (simp add: n_def)
  have "to_upper code = code"
    using assms upper_char_fixed by (simp add: to_upper_def list_all_iff map_idI)
  moreover have "concat (map to_upper (chunks_of n code)) = to_upper (concat (chunks_of n code))"
    by (simp add: to_upper_def [abs_def] map_concat)
  ultimately have "concat (map to_upper (chunks_of n code)) = code" using concat_chunks_of [OF n] by simp
  moreover have "filter (\<lambda>c. is_digit c \<or> is_upper c) (join '' '' (map to_upper (chunks_of n code))) =
      filter (\<lambda>c. is_digit c \<or> is_upper c) (concat (map to_upper (chunks_of n code)))"
    using sp by (intro filter_join_space) simp
  ultimately show ?thesis using False assms
    by (simp add: normaliseCode_def formatCodeForDisplay_def coalesce_def n_def [symmetric] u Let_def list_all_iff filter_id_conv)
qed

lemma normaliseCode_id: "list_all (\<lambda>c. is_digit c \<or> is_upper c) code \<Longrightarrow> normaliseCode (Some code) = code"
proof -
  assume a: "list_all (\<lambda>c. is_digit c \<or> is_upper c) code"
  then have "to_upper code = code"
    using upper_char_fixed by (simp add: to_upper_def list_all_iff map_idI)
  with a show ?thesis by (simp add: normaliseCode_def coalesce_def list_all_iff filter_id_conv)
qed

lemma normaliseCode_chars: "list_all (\<lambda>c. is_digit c \<or> is_upper c) (normaliseCode x)"
  by (simp add: normaliseCode_def list_all_iff)

lemma normaliseCode_idem [simp]: "normaliseCode (Some (normaliseCode x)) = normaliseCode x"
  by (rule normaliseCode_id) (rule normaliseCode_chars)

lemma length_b64u: "length (b64u bs) \<le> 2 * length bs + 2"
  unfolding b64u_def replace_char_def by (induction bs rule: b64_chunks.induct) simp_all

text \<open>Documented behaviour: an HMAC has the length of its hash.\<close>

definition hmac_short :: "platform \<Rightarrow> bool" where
  "hmac_short pf \<longleftrightarrow> (\<forall>h k m. length (pf_hmac pf h k m) \<le> 64)"

lemma length_digestCode: "hmac_short pf \<Longrightarrow> length (digestCode pf c i e x) < 2 ^ 32"
proof -
  assume h: "hmac_short pf"
  define m where "m = hmac pf (derive pf (current_secret c) ''otp-digest'' 32) (join '' | '' [i, e, normaliseCode x])"
  have "length m \<le> 64" using h by (simp add: hmac_short_def hmac_def m_def)
  with length_b64u [of m] have "length (b64u m) \<le> 130" by simp
  then show ?thesis unfolding digestCode_def m_def [symmetric] by simp
qed

lemma digestCode_normalised: "digestCode pf c i e (Some (normaliseCode x)) = digestCode pf c i e x"
  by (simp add: digestCode_def)

section \<open>Properties\<close>

text \<open>C28: a drawn code is unbiased. Whatever random batches arrive, the code is exactly the first \<open>len\<close>
  symbols of the accepted bytes, so it is returned as soon as \<open>len\<close> bytes have been accepted; and of the
  256 byte values the same number maps to every symbol of the alphabet.\<close>

theorem generateCode_unbiased:
  assumes "i < length alphabet" "length alphabet \<le> 256"
  shows "generateCode len alphabet batches =
      (if len \<le> length (accepted alphabet (concat batches)) then Some (take len (accepted alphabet (concat batches))) else None) \<and>
    card {n. n < 256 \<and> n < code_limit alphabet \<and> n mod length alphabet = i} = 256 div length alphabet \<and>
    0 < 256 div length alphabet"
proof -
  have "{n. n < 256 \<and> n < code_limit alphabet \<and> n mod length alphabet = i} =
      {n. n < 256 div length alphabet * length alphabet \<and> n mod length alphabet = i}"
    using code_limit_multiple [of alphabet] by (auto simp: code_limit_def)
  then show ?thesis
    using assms card_residues [OF assms(1)] by (auto simp: generateCode_eq div_greater_zero_iff)
qed

theorem generateCode_unbiased_witness:
  "generateCode 3 ALPHANUMERIC [[255, 0, 31], [29, 1]] = Some ''23Z'' \<and>
   card {n. n < 256 \<and> n < code_limit ALPHANUMERIC \<and> n mod length ALPHANUMERIC = 0} = 8"
proof -
  have "take 3 (accepted ALPHANUMERIC (concat [[255, 0, 31], [29, 1]])) = ''23Z''"
    "3 \<le> length (accepted ALPHANUMERIC (concat [[255, 0, 31], [29, 1]]))"
    by code_simp+
  then show ?thesis
    using generateCode_unbiased [of 0 ALPHANUMERIC 3 "[[255, 0, 31], [29, 1]]"] alphabets(2) by simp
qed

text \<open>A code read off the mail is the code that was drawn: a code over either alphabet, grouped for
  display and typed back in any case with any spacing removed, normalises to itself.\<close>

lemma code_survives_display:
  assumes "list_all (\<lambda>c. c \<in> set (alphabetFor cfg)) code"
  shows "normaliseCode (Some (formatCodeForDisplay code)) = code \<and> normaliseCode (Some (to_lower (formatCodeForDisplay code))) = code"
proof -
  have c: "list_all (\<lambda>c. is_digit c \<or> is_upper c) code"
    using assms alphabets(5,6) by (auto simp: alphabetFor_def list_all_iff split: if_splits)
  have ul: "upper_char (lower_char x) = upper_char x" for x
    by (cases x) (auto simp: is_upper_def is_lower_def)
  have "normaliseCode (Some (to_lower s)) = normaliseCode (Some s)" for s
    by (simp add: normaliseCode_def coalesce_def to_upper_def to_lower_def comp_def ul)
  with c show ?thesis by (simp add: normaliseCode_display)
qed

text \<open>A submitted code is accepted exactly when the transaction carries a digest, the code has not
  expired, attempts remain, and the digest of the normalised code, bound to the transaction id and the
  address, is the stored one.\<close>

lemma verifyCode_exact:
  assumes "hmac_short pf" "jget tx ''otp'' = Some otp" "jget otp ''digest'' = Some (JStr d)" "d \<noteq> []" "length d < 2 ^ 32"
    and "jget tx ''id'' = Some (JStr i)" "jget tx ''email'' = Some (JStr e)"
  shows "verifyCode pf c tx submitted now = Inr () \<longleftrightarrow>
    (case as_num (jget otp ''exp'') of None \<Rightarrow> True | Some x \<Rightarrow> now \<le> x) \<and>
    coalesce (as_num (jget otp ''attempts'')) 0 < otp_maxAttempts (c_otp c) \<and>
    digestCode pf c i e submitted = d"
proof -
  have i: "or_str (as_str (jget tx ''id'')) [] = i" "or_str (as_str (jget tx ''email'')) [] = e" "or_str (as_str (jget otp ''digest'')) [] = d"
    using assms by (auto simp: or_str_def)
  have "timingSafeEqual (utf8 (digestCode pf c i e submitted)) (utf8 d) \<longleftrightarrow> digestCode pf c i e submitted = d"
    using length_digestCode [OF assms(1)] assms(5) by (rule timingSafeEqual_str)
  with assms i show ?thesis
    by (auto simp: verifyCode_def Let_def digestCode_normalised split: option.splits)
qed

definition sample_platform :: platform where
  "sample_platform = (toy_platform JNull)\<lparr>pf_hmac := \<lambda>h k m. take 64 m\<rparr>"

definition sample_otp_tx :: json where
  "sample_otp_tx = JObj [(''id'', JStr ''t''), (''email'', JStr ''a@b.org''),
     (''otp'', JObj [(''digest'', JStr (digestCode sample_platform sample_config ''t'' ''a@b.org'' (Some ''23Z''))),
       (''exp'', JNum 100), (''attempts'', JNum 1)])]"

end
