(* ===== verification/Limits.thy ===== *)
theory Limits
  imports Identity State_Store
begin

text \<open>
  Send limits and local authentication limits, \<^verbatim>\<open>src/store/limits.js\<close>, over any state store: the store is
  its step function and its state, and \<open>None\<close> is a deployment without one. The enforcement theorem is
  proved once inside the counter contract and read off for both stores.
\<close>

definition DAY :: int where
  "DAY = 86400"

definition addressKey :: "platform \<Rightarrow> config \<Rightarrow> string \<Rightarrow> string" where
  "addressKey pf c email =
     take 22 (b64u (hmac pf (derive pf (current_secret c) ''rate-limit'' 32) (stripPlusTag (to_lower email))))"

definition privateTag :: "platform \<Rightarrow> config \<Rightarrow> string \<Rightarrow> string \<Rightarrow> string" where
  "privateTag pf c purpose value =
     take 22 (b64u (hmac pf (derive pf (current_secret c) (''rate-limit/'' @ purpose) 32) value))"

text \<open>\<open>await stateStore.increment(...)\<close>: a count, or the exception.\<close>

definition increment :: "'s stepper \<Rightarrow> 's \<Rightarrow> int \<Rightarrow> string \<Rightarrow> int \<Rightarrow> bool \<Rightarrow> (string, int) result \<times> 's" where
  "increment step s clock key ttl fc =
     (case step s clock (Increment key ttl fc) of
        (Count n, s') \<Rightarrow> (Inr n, s')
      | (Failed e, s') \<Rightarrow> (Inl e, s')
      | (_, s') \<Rightarrow> (Inl ''unexpected reply'', s'))"

record verdict =
  allowed :: bool
  enforced :: bool
  reason :: "string option"
  retryAfterSeconds :: "int option"
  degraded :: bool

definition verdict_of :: "bool \<Rightarrow> bool \<Rightarrow> verdict" where
  "verdict_of a e = \<lparr>allowed = a, enforced = e, reason = None, retryAfterSeconds = None, degraded = False\<rparr>"

definition otp_send_key :: "string \<Rightarrow> int \<Rightarrow> string" where
  "otp_send_key tag bucket = ''otp-send:'' @ tag @ '':'' @ show_int bucket"

definition otp_day_key :: "string \<Rightarrow> int \<Rightarrow> string" where
  "otp_day_key tag bucket = ''otp-day:'' @ tag @ '':'' @ show_int bucket"

text \<open>The daily half of the check, which runs when the window half has not refused.\<close>

definition check_daily :: "'s stepper \<Rightarrow> config \<Rightarrow> string \<Rightarrow> int \<Rightarrow> 's \<Rightarrow> verdict \<times> 's" where
  "check_daily step c tag clock s =
     (let lim = otp_sendDailyLimit (c_otp c); now = nowSeconds clock; bucket = now div DAY
      in if lim > 0
         then (case increment step s clock (otp_day_key tag bucket) DAY False of
                 (Inl _, s') \<Rightarrow> ((verdict_of True False)\<lparr>degraded := True\<rparr>, s')
               | (Inr used, s') \<Rightarrow>
                   if used > lim
                   then ((verdict_of False True)\<lparr>reason := Some ''daily'', retryAfterSeconds := Some ((bucket + 1) * DAY - now)\<rparr>, s')
                   else (verdict_of True True, s'))
         else (verdict_of True True, s))"

definition checkOtpSendAllowed ::
  "platform \<Rightarrow> 's stepper \<Rightarrow> config \<Rightarrow> string \<Rightarrow> int \<Rightarrow> 's option \<Rightarrow> verdict \<times> 's option" where
  "checkOtpSendAllowed pf step c email clock store =
     (let window = otp_sendWindowSeconds (c_otp c); burst = otp_sendBurst (c_otp c); windowed = (window > 0 \<and> burst > 0)
      in case store of None \<Rightarrow> (verdict_of True False, None)
         | Some s \<Rightarrow>
             if \<not> windowed \<and> otp_sendDailyLimit (c_otp c) = 0 then (verdict_of True False, store)
             else (let tag = addressKey pf c email; now = nowSeconds clock
                   in if windowed
                      then (let bucket = now div window
                            in case increment step s clock (otp_send_key tag bucket) window False of
                                 (Inl _, s') \<Rightarrow> ((verdict_of True False)\<lparr>degraded := True\<rparr>, Some s')
                               | (Inr used, s') \<Rightarrow>
                                   if used > burst
                                   then ((verdict_of False True)\<lparr>reason := Some ''window'',
                                           retryAfterSeconds := Some ((bucket + 1) * window - now)\<rparr>, Some s')
                                   else (case check_daily step c tag clock s' of (v, s'') \<Rightarrow> (v, Some s'')))
                      else (case check_daily step c tag clock s of (v, s') \<Rightarrow> (v, Some s'))))"

definition local_network_key :: "string \<Rightarrow> string \<Rightarrow> int \<Rightarrow> string" where
  "local_network_key factor tag bucket = ''local-'' @ factor @ '':network:'' @ tag @ '':'' @ show_int bucket"

definition local_address_key :: "string \<Rightarrow> string \<Rightarrow> int \<Rightarrow> string" where
  "local_address_key factor tag bucket = ''local-'' @ factor @ '':address:'' @ tag @ '':'' @ show_int bucket"

definition store_failed :: verdict where
  "store_failed = (verdict_of False False)\<lparr>reason := Some ''store''\<rparr>"

text \<open>The address half: it runs only when the source network is within its own limit.\<close>

definition check_address :: "platform \<Rightarrow> 's stepper \<Rightarrow> config \<Rightarrow> string \<Rightarrow> string \<Rightarrow> int \<Rightarrow> 's \<Rightarrow> verdict \<times> 's" where
  "check_address pf step c email factor clock s =
     (let window = li_attemptWindowSeconds (c_localIdentities c); bucket = nowSeconds clock div window
      in case increment step s clock (local_address_key factor (addressKey pf c email) bucket) window True of
           (Inl _, s') \<Rightarrow> (store_failed, s')
         | (Inr used, s') \<Rightarrow>
             (let ok = (used \<le> li_maxAttempts (c_localIdentities c))
              in ((verdict_of ok True)\<lparr>reason := if ok then None else Some ''limit''\<rparr>, s')))"

definition checkLocalAuthAllowed ::
  "platform \<Rightarrow> 's stepper \<Rightarrow> config \<Rightarrow> string \<Rightarrow> string \<Rightarrow> string option \<Rightarrow> int \<Rightarrow> 's option \<Rightarrow> verdict \<times> 's option" where
  "checkLocalAuthAllowed pf step c email factor network clock store =
     (case store of None \<Rightarrow> (store_failed, None)
      | Some s \<Rightarrow>
          (let window = li_attemptWindowSeconds (c_localIdentities c); bucket = nowSeconds clock div window;
               netMax = li_networkMaxAttempts (c_localIdentities c)
           in if str_truthy network \<and> netMax > 0
              then (case increment step s clock (local_network_key factor (privateTag pf c ''network'' (the network)) bucket) window True of
                      (Inl _, s') \<Rightarrow> (store_failed, Some s')
                    | (Inr networkUsed, s') \<Rightarrow>
                        if networkUsed > netMax then ((verdict_of False True)\<lparr>reason := Some ''limit''\<rparr>, Some s')
                        else (case check_address pf step c email factor clock s' of (v, s'') \<Rightarrow> (v, Some s'')))
              else (case check_address pf step c email factor clock s of (v, s') \<Rightarrow> (v, Some s'))))"

section \<open>Keys\<close>

lemma key_prefixes:
  assumes "CHR '':'' \<notin> set f" "CHR '':'' \<notin> set f'"
  shows "local_network_key f tag b \<noteq> local_address_key f' tag' b'"
proof
  assume "local_network_key f tag b = local_address_key f' tag' b'"
  then have "f @ CHR '':'' # ''network:'' @ tag @ '':'' @ show_int b = f' @ CHR '':'' # ''address:'' @ tag' @ '':'' @ show_int b'"
    by (simp add: local_network_key_def local_address_key_def)
  from first_sep_inj [OF this assms] show False by simp
qed

lemma addressKey_mailbox: "stripPlusTag (to_lower e) = stripPlusTag (to_lower e') \<Longrightarrow> addressKey pf c e = addressKey pf c e'"
  by (simp add: addressKey_def)

section \<open>The wait of a refused mail\<close>

lemma bucket_wait:
  assumes "0 < (w :: int)"
  shows "0 < (n div w + 1) * w - n" "(n div w + 1) * w - n \<le> w" "(n + ((n div w + 1) * w - n)) mod w = 0"
proof -
  have "0 \<le> n mod w" "n mod w < w" using assms by simp_all
  moreover have "(n div w + 1) * w = n - n mod w + w" by (simp add: algebra_simps minus_mod_eq_mult_div)
  ultimately show "0 < (n div w + 1) * w - n" "(n div w + 1) * w - n \<le> w" by linarith+
qed simp

lemma daily_refused:
  assumes "\<not> allowed (fst (check_daily step c tag clock s))"
  shows "\<exists>r. reason (fst (check_daily step c tag clock s)) = Some ''daily'' \<and> retryAfterSeconds (fst (check_daily step c tag clock s)) = Some r \<and>
     0 < r \<and> r \<le> 86400 \<and> (nowSeconds clock + r) mod 86400 = 0"
  using assms bucket_wait [of 86400 "nowSeconds clock"]
  by (auto simp: check_daily_def DAY_def Let_def verdict_of_def split: prod.splits sum.splits if_splits)

lemma send_refused:
  assumes "\<not> allowed (fst (checkOtpSendAllowed pf step cfg email clock (Some s)))"
  shows "\<exists>period r. (reason (fst (checkOtpSendAllowed pf step cfg email clock (Some s))) = Some ''window'' \<and> period = otp_sendWindowSeconds (c_otp cfg) \<or>
            reason (fst (checkOtpSendAllowed pf step cfg email clock (Some s))) = Some ''daily'' \<and> period = 86400) \<and>
         retryAfterSeconds (fst (checkOtpSendAllowed pf step cfg email clock (Some s))) = Some r \<and>
         0 < r \<and> r \<le> period \<and> (nowSeconds clock + r) mod period = 0"
proof (cases "reason (fst (checkOtpSendAllowed pf step cfg email clock (Some s))) = Some ''window''")
  case True
  then have "0 < otp_sendWindowSeconds (c_otp cfg)" "retryAfterSeconds (fst (checkOtpSendAllowed pf step cfg email clock (Some s))) =
      Some ((nowSeconds clock div otp_sendWindowSeconds (c_otp cfg) + 1) * otp_sendWindowSeconds (c_otp cfg) - nowSeconds clock)"
    by (auto simp: checkOtpSendAllowed_def check_daily_def Let_def verdict_of_def split: prod.splits sum.splits if_splits)
  with True bucket_wait show ?thesis by blast
next
  case False
  with assms obtain tag s' where "fst (checkOtpSendAllowed pf step cfg email clock (Some s)) = fst (check_daily step cfg tag clock s')"
    by (auto simp: checkOtpSendAllowed_def Let_def verdict_of_def split: prod.splits sum.splits if_splits) (metis fst_conv)+
  with assms daily_refused [of step cfg tag clock s'] show ?thesis by auto
qed

section \<open>The attempt limit\<close>

text \<open>What happens to a store during one window: sign-in attempts, each naming an address, a factor and
  a source network, and any other operations.\<close>

datatype local_event = Attempt string string "string option" | Other store_op

fun attempts :: "platform \<Rightarrow> 's stepper \<Rightarrow> config \<Rightarrow> string \<Rightarrow> 's \<Rightarrow> (int \<times> local_event) list \<Rightarrow> nat" where
  "attempts pf step c key s [] = 0"
| "attempts pf step c key s ((now, Attempt email factor network) # es) =
     (case checkLocalAuthAllowed pf step c email factor network now (Some s) of (v, s') \<Rightarrow>
        (if allowed v \<and> local_address_key factor (addressKey pf c email) (nowSeconds now div li_attemptWindowSeconds (c_localIdentities c)) = key
         then 1 else 0) + attempts pf step c key (the s') es)"
| "attempts pf step c key s ((now, Other op) # es) = attempts pf step c key (snd (step s now op)) es"

definition window_end :: "config \<Rightarrow> int \<Rightarrow> int" where
  "window_end c bucket = (bucket + 1) * li_attemptWindowSeconds (c_localIdentities c) * 1000 - 1"

fun in_window :: "config \<Rightarrow> int \<Rightarrow> string \<Rightarrow> int \<times> local_event \<Rightarrow> bool" where
  "in_window c bucket key (now, e) \<longleftrightarrow>
     nowSeconds now div li_attemptWindowSeconds (c_localIdentities c) = bucket \<and>
     (case e of Attempt _ factor _ \<Rightarrow> CHR '':'' \<notin> set factor | Other op \<Rightarrow> op_key op = key \<longrightarrow> \<not> counts op \<and> \<not> claims_op op)"

lemma in_window_bounds:
  assumes "nowSeconds now div w = bucket" "0 < w"
  shows "now \<le> (bucket + 1) * w * 1000 - 1" "(bucket + 1) * w * 1000 - 1 < now + w * 1000"
proof -
  have "now div (1000 * w) = bucket"
    using assms zdiv_zmult2_eq [of w now 1000] by (simp add: nowSeconds_def)
  moreover have "now = now div (1000 * w) * (1000 * w) + now mod (1000 * w)" by (simp only: div_mult_mod_eq)
  moreover have "0 \<le> now mod (1000 * w)" "now mod (1000 * w) < 1000 * w" using assms(2) by simp_all
  ultimately show "now \<le> (bucket + 1) * w * 1000 - 1" "(bucket + 1) * w * 1000 - 1 < now + w * 1000"
    by (simp_all add: algebra_simps)
qed

context counter_store
begin

lemma increment_other:
  assumes "counted s t key n" "now \<le> t" "k \<noteq> key" "increment step s now k ttl fc = (r, s')"
  shows "counted s' t key n"
  using counted_kept [OF assms(1,2), of "Increment k ttl fc"] assms(3,4)
  by (cases "step s now (Increment k ttl fc)") (auto simp: increment_def split: reply.splits)

lemma increment_same:
  assumes "counted s t key n" "now \<le> t" "t < now + ttl * 1000" "ttl \<le> 366 * 86400" "safe fc"
    "increment step s now key ttl fc = (r, s')"
  shows "(case r of Inr m \<Rightarrow> n < m \<and> counted s' t key (n + 1) | Inl _ \<Rightarrow> counted s' t key n)"
proof -
  obtain rep s1 where st: "step s now (Increment key ttl fc) = (rep, s1)" by (cases "step s now (Increment key ttl fc)")
  from increment_reply [OF st] show ?thesis
    using counted_up [OF assms(1-5)] counted_failed [OF assms(1-5)] st assms(6)
    by (auto simp: increment_def)
qed

text \<open>One attempt: it is allowed only while the count is below the limit, and then the count grows.\<close>

lemma attempt_step:
  assumes c: "counted s t key n" and now: "now \<le> t" "t < now + w * 1000"
    and w: "w = li_attemptWindowSeconds (c_localIdentities cfg)" "w \<le> 366 * 86400" and sf: "safe True"
    and st: "checkLocalAuthAllowed pf step cfg email factor network now (Some s) = (v, s')"
    and nk: "\<And>tag. local_network_key factor tag (nowSeconds now div w) \<noteq> key"
  shows "if local_address_key factor (addressKey pf cfg email) (nowSeconds now div w) = key
         then (if allowed v then n < li_maxAttempts (c_localIdentities cfg) \<and> counted (the s') t key (n + 1)
               else counted (the s') t key n \<or> counted (the s') t key (n + 1))
         else counted (the s') t key n"
proof -
  have addr: "if local_address_key factor (addressKey pf cfg email) (nowSeconds now div w) = key
         then (if allowed v then n < li_maxAttempts (c_localIdentities cfg) \<and> counted s2 t key (n + 1)
               else counted s2 t key n \<or> counted s2 t key (n + 1))
         else counted s2 t key n"
    if "check_address pf step cfg email factor now s1 = (v, s2)" "counted s1 t key n" for s1 s2 v
  proof -
    obtain r s3 where r: "increment step s1 now (local_address_key factor (addressKey pf cfg email) (nowSeconds now div w)) w True = (r, s3)"
      by (cases "increment step s1 now (local_address_key factor (addressKey pf cfg email) (nowSeconds now div w)) w True")
    show ?thesis
    proof (cases "local_address_key factor (addressKey pf cfg email) (nowSeconds now div w) = key")
      case True
      then show ?thesis
        using increment_same [OF that(2) now w(2) sf, of r s3] r that(1) w(1)
        by (auto simp: check_address_def Let_def store_failed_def verdict_of_def split: sum.splits if_splits)
    next
      case False
      then show ?thesis
        using increment_other [OF that(2) now(1) False r] r that(1) w(1)
        by (auto simp: check_address_def Let_def split: sum.splits)
    qed
  qed
  show ?thesis
  proof (cases "str_truthy network \<and> li_networkMaxAttempts (c_localIdentities cfg) > 0")
    case False
    then show ?thesis
      using st addr [OF _ c] by (auto simp: checkLocalAuthAllowed_def Let_def split: prod.splits)
  next
    case True
    obtain r s1 where r: "increment step s now (local_network_key factor (privateTag pf cfg ''network'' (the network)) (nowSeconds now div w)) w True = (r, s1)"
      by (cases "increment step s now (local_network_key factor (privateTag pf cfg ''network'' (the network)) (nowSeconds now div w)) w True")
    have c1: "counted s1 t key n" using increment_other [OF c now(1) nk r] .
    show ?thesis
      using st True r addr [OF _ c1] c1 w(1)
      by (auto simp: checkLocalAuthAllowed_def Let_def store_failed_def verdict_of_def split: prod.splits sum.splits if_splits)
  qed
qed

lemma attempts_limited:
  assumes c: "counted s (window_end cfg bucket) key n"
    and w: "w = li_attemptWindowSeconds (c_localIdentities cfg)" "0 < w" "w \<le> 366 * 86400" and sf: "safe True"
    and key: "key = local_address_key factor tag bucket" "CHR '':'' \<notin> set factor"
    and es: "list_all (in_window cfg bucket key) es"
  shows "int (attempts pf step cfg key s es) \<le> max 0 (li_maxAttempts (c_localIdentities cfg) - n)"
  using c es
proof (induction es arbitrary: s n)
  case (Cons e es)
  obtain now ev where e: "e = (now, ev)" by (cases e)
  have inw: "nowSeconds now div w = bucket" using Cons.prems(2) w(1) by (simp add: e)
  have t: "now \<le> window_end cfg bucket" "window_end cfg bucket < now + w * 1000"
    using in_window_bounds [OF inw w(2)] w(1) by (simp_all add: window_end_def)
  have tail: "int (attempts pf step cfg key s1 es) \<le> max 0 (li_maxAttempts (c_localIdentities cfg) - n')"
    if "counted s1 (window_end cfg bucket) key n'" for s1 n'
    using Cons.IH [OF that] Cons.prems(2) by simp
  show ?case
  proof (cases ev)
    case (Other op)
    then have "counted (snd (step s now op)) (window_end cfg bucket) key n"
      using counted_kept [OF Cons.prems(1) t(1), of op] Cons.prems(2) by (cases "step s now op") (auto simp: e)
    from tail [OF this] show ?thesis by (simp add: e Other)
  next
    case (Attempt email f net)
    obtain v s' where st: "checkLocalAuthAllowed pf step cfg email f net now (Some s) = (v, s')"
      by (cases "checkLocalAuthAllowed pf step cfg email f net now (Some s)")
    have "local_network_key f tg (nowSeconds now div w) \<noteq> key" for tg
      unfolding key(1) using key_prefixes key(2) Cons.prems(2) by (simp add: e Attempt)
    note one = attempt_step [OF Cons.prems(1) t w(1,3) sf st this]
    show ?thesis
      using one tail [of "the s'" n] tail [of "the s'" "n + 1"] st w(1)
      by (simp add: e Attempt split: if_splits) linarith+
  qed
qed simp

end

section \<open>Properties\<close>

text \<open>C10: guessing is bounded. In one attempt window, whatever sign-in attempts from whatever networks and
  whatever other store operations run (the alarm of the counter's own object and readings under its key among them, but no claim or count
  that uses the key of the attempts), and whichever spelling of the mailbox the attempts use, no more
  than \<open>maxAttempts\<close> credential checks are allowed for one account and factor, in the in-memory store
  and in the Durable Object namespace.\<close>

theorem local_attempts_limited:
  assumes "key = local_address_key factor (addressKey pf cfg email) bucket" "CHR '':'' \<notin> set factor"
    and "0 < li_attemptWindowSeconds (c_localIdentities cfg)" "li_attemptWindowSeconds (c_localIdentities cfg) \<le> 86400"
    and "0 \<le> li_maxAttempts (c_localIdentities cfg)"
    and "list_all (in_window cfg bucket key) es"
    and "mem_wf m" "map_of (counters m) key = None" "hits (obj_of d key) = None"
  shows "int (attempts pf mem_step cfg key m es) \<le> li_maxAttempts (c_localIdentities cfg) \<and>
    int (attempts pf do_step cfg key d es) \<le> li_maxAttempts (c_localIdentities cfg)"
proof -
  have "mem_counted m (window_end cfg bucket) key 0" "do_counted d (window_end cfg bucket) key 0"
    using assms(7-9) by (auto simp: mem_counted_def do_counted_def mem_wf_def)
  then show ?thesis
    using mem.attempts_limited [of m cfg bucket key 0 _ factor "addressKey pf cfg email" es pf]
      durable.attempts_limited [of d cfg bucket key 0 _ factor "addressKey pf cfg email" es pf] assms(1-6)
    by simp
qed

definition sample_guesses :: "(int \<times> local_event) list" where
  "sample_guesses = [(1000, Attempt ''jo@corp.example'' ''password'' None), (2000, Other (Increment ''otp'' 60 False)), (2500, Other (Alarm ''otp'')),
     (3000, Attempt ''jo+x@corp.example'' ''password'' (Some ''10.0.0.1''))]"

theorem local_attempts_limited_witness:
  "int (attempts (toy_platform JNull) mem_step sample_config
     (local_address_key ''password'' (addressKey (toy_platform JNull) sample_config ''jo@corp.example'') 0) (createMemoryStore 3) sample_guesses) \<le> 10 \<and>
   int (attempts (toy_platform JNull) do_step sample_config
     (local_address_key ''password'' (addressKey (toy_platform JNull) sample_config ''jo@corp.example'') 0) [] sample_guesses) \<le> 10"
proof -
  have w: "li_attemptWindowSeconds (c_localIdentities sample_config) = 300" "li_maxAttempts (c_localIdentities sample_config) = 10"
    by (simp_all add: sample_config_def)
  have "list_all (in_window sample_config 0 (local_address_key ''password'' tag 0)) sample_guesses" for tag
    by (simp add: sample_guesses_def w nowSeconds_def local_address_key_def)
  then show ?thesis
    using local_attempts_limited [OF refl, of "''password''" sample_config 0 "toy_platform JNull" "''jo@corp.example''" sample_guesses "createMemoryStore 3" "[]"]
    by (simp add: w mem_wf_def createMemoryStore_def obj_of_def empty_obj_def)
qed

text \<open>C29: the two kinds of limit fail in opposite ways. Without a store, or when the store fails, a
  credential check is refused, while a mail is sent; and a mail is refused only for its window or its day, with a wait that is
  positive, no longer than that window or day, and ends with it.\<close>

theorem limits_fail_as_designed:
  "\<not> allowed (fst (checkLocalAuthAllowed pf step cfg email factor network clock None)) \<and>
   allowed (fst (checkOtpSendAllowed pf step cfg email clock None)) \<and>
   ((\<forall>op. \<exists>e s'. step s clock op = (Failed e, s')) \<longrightarrow>
      \<not> allowed (fst (checkLocalAuthAllowed pf step cfg email factor network clock (Some s))) \<and>
      allowed (fst (checkOtpSendAllowed pf step cfg email clock (Some s)))) \<and>
   (\<not> allowed (fst (checkOtpSendAllowed pf step cfg email clock (Some s))) \<longrightarrow>
      (\<exists>period r. (reason (fst (checkOtpSendAllowed pf step cfg email clock (Some s))) = Some ''window'' \<and> period = otp_sendWindowSeconds (c_otp cfg) \<or>
            reason (fst (checkOtpSendAllowed pf step cfg email clock (Some s))) = Some ''daily'' \<and> period = 86400) \<and>
         retryAfterSeconds (fst (checkOtpSendAllowed pf step cfg email clock (Some s))) = Some r \<and>
         0 < r \<and> r \<le> period \<and> (nowSeconds clock + r) mod period = 0))"
proof -
  have "\<not> allowed (fst (checkLocalAuthAllowed pf step cfg email factor network clock (Some s))) \<and>
      allowed (fst (checkOtpSendAllowed pf step cfg email clock (Some s)))"
    if f: "\<forall>op. \<exists>e s'. step s clock op = (Failed e, s')"
  proof -
    have "\<exists>e s'. increment step s clock k ttl fc = (Inl e, s')" for k ttl fc
      using f [rule_format, of "Increment k ttl fc"] by (auto simp: increment_def)
    then obtain E S where inc: "\<And>k ttl fc. increment step s clock k ttl fc = (Inl (E k ttl fc), S k ttl fc)" by metis
    show ?thesis
      by (simp add: checkLocalAuthAllowed_def checkOtpSendAllowed_def check_address_def check_daily_def Let_def inc
          store_failed_def verdict_of_def)
  qed
  moreover have "\<not> allowed (fst (checkLocalAuthAllowed pf step cfg email factor network clock None))"
    "allowed (fst (checkOtpSendAllowed pf step cfg email clock None))"
    by (simp_all add: checkLocalAuthAllowed_def checkOtpSendAllowed_def store_failed_def verdict_of_def Let_def)
  ultimately show ?thesis using send_refused [of pf step cfg email clock s] by blast
qed

definition down_store :: "unit stepper" where
  "down_store s now op = (Failed ''unreachable'', s)"

theorem limits_fail_as_designed_witness:
  "\<not> allowed (fst (checkLocalAuthAllowed (toy_platform JNull) down_store sample_config ''a@b.org'' ''mfa'' None 0 (Some ()))) \<and>
   allowed (fst (checkOtpSendAllowed (toy_platform JNull) down_store sample_config ''a@b.org'' 0 (Some ())))"
  using limits_fail_as_designed [of "toy_platform JNull" down_store sample_config "''a@b.org''" "''mfa''" None 0 "()"]
  by (simp add: down_store_def)

end
