(* ===== verification/Session.thy ===== *)
theory Session
  imports Http Identity State_Store
begin

text \<open>
  The sign-in session, \<^verbatim>\<open>src/session.js\<close>, and the remembered address, \<^verbatim>\<open>src/remember-me.js\<close>. A session is the
  JSON object that is sealed into the cookie. The clock of an operation is in milliseconds where it also
  asks the state store, and the random identifiers and initialisation vectors are arguments.
\<close>

definition SESSION_PURPOSE :: string where
  "SESSION_PURPOSE = ''session''"

section \<open>Records\<close>

definition cookieNameFor :: "platform \<Rightarrow> config \<Rightarrow> string option \<Rightarrow> string" where
  "cookieNameFor pf c clientId =
     (if \<not> str_truthy clientId then ss_cookieName (c_session c)
      else ss_cookieName (c_session c) @ ''_'' @
           filter (\<lambda>ch. ch \<noteq> CHR ''-'' \<and> ch \<noteq> CHR ''_'') (take 12 (sha256b64u pf (''cookie '' @ the clientId))))"

definition sessionClientFor :: "config \<Rightarrow> client option \<Rightarrow> string option" where
  "sessionClientFor c cl =
     (let scope = or_str (Option.bind cl cl_sessionScope) (ss_scope (c_session c))
      in if scope = ''rp'' then map_option cl_clientId cl else None)"

record session_args =
  sa_email :: "string option"
  sa_emailVerified :: "bool option"
  sa_acr :: string
  sa_amr :: "string list"
  sa_authTime :: "int option"
  sa_upstream :: "string option"
  sa_upstreamLabel :: "string option"
  sa_claims :: "json option"
  sa_localIdentityId :: "string option"
  sa_localIdentityKey :: "string option"
  sa_localSecurityVersion :: "int option"

definition newSession :: "config \<Rightarrow> session_args \<Rightarrow> string \<Rightarrow> int \<Rightarrow> json" where
  "newSession c a sid now = jobj
     [(''v'', Some (JNum 1)),
      (''sid'', Some (JStr sid)),
      (''email'', map_option JStr (sa_email a)),
      (''emailVerified'', Some (JBool (sa_emailVerified a = Some True))),
      (''acr'', Some (JStr (sa_acr a))),
      (''amr'', Some (jstrs (sa_amr a))),
      (''auth_time'', Some (JNum (coalesce (sa_authTime a) now))),
      (''upstream'', map_option JStr (sa_upstream a)),
      (''upstreamLabel'', map_option JStr (sa_upstreamLabel a)),
      (''claims'', if truthy (sa_claims a) then sa_claims a else None),
      (''localIdentityId'', map_option JStr (sa_localIdentityId a)),
      (''localIdentityKey'', map_option JStr (sa_localIdentityKey a)),
      (''localSecurityVersion'', map_option JNum (sa_localSecurityVersion a)),
      (''iat'', Some (JNum now)),
      (''exp'', Some (JNum (now + ss_idleTtlSeconds (c_session c)))),
      (''abs'', Some (JNum (now + ss_maxLifetimeSeconds (c_session c))))]"

definition reauthenticate :: "config \<Rightarrow> json \<Rightarrow> session_args \<Rightarrow> int \<Rightarrow> json" where
  "reauthenticate c session a now = jputs session
     [(''email'', case sa_email a of Some e \<Rightarrow> Some (JStr e) | None \<Rightarrow> jget session ''email''),
      (''emailVerified'', Some (JBool (sa_emailVerified a = Some True))),
      (''acr'', Some (JStr (sa_acr a))),
      (''amr'', Some (jstrs (sa_amr a))),
      (''auth_time'', Some (JNum now)),
      (''upstream'', map_option JStr (sa_upstream a)),
      (''upstreamLabel'', map_option JStr (sa_upstreamLabel a)),
      (''claims'', sa_claims a),
      (''localIdentityId'', map_option JStr (sa_localIdentityId a)),
      (''localIdentityKey'', map_option JStr (sa_localIdentityKey a)),
      (''localSecurityVersion'', map_option JNum (sa_localSecurityVersion a)),
      (''exp'', Some (JNum (now + ss_idleTtlSeconds (c_session c))))]"

text \<open>\<open>Math.min(x, undefined)\<close> is NaN, which serialises as \<open>null\<close>; every session carries \<open>abs\<close>.\<close>

definition touch :: "config \<Rightarrow> json \<Rightarrow> int \<Rightarrow> json" where
  "touch c session now = jput session ''exp''
     (case as_num (jget session ''abs'') of
        Some a \<Rightarrow> Some (JNum (min (now + ss_idleTtlSeconds (c_session c)) a))
      | None \<Rightarrow> Some JNull)"

definition sessionIsFresh :: "json \<Rightarrow> int option \<Rightarrow> int \<Rightarrow> int \<Rightarrow> bool" where
  "sessionIsFresh session maxAge clockSkew now =
     (if (case as_num (jget session ''exp'') of None \<Rightarrow> False | Some e \<Rightarrow> e + clockSkew < now) then False
      else if (case as_num (jget session ''abs'') of None \<Rightarrow> False | Some a \<Rightarrow> a < now) then False
      else if (case maxAge of None \<Rightarrow> False
               | Some m \<Rightarrow> (case as_num (jget session ''auth_time'') of None \<Rightarrow> False | Some t \<Rightarrow> t + m < now)) then False
      else True)"

section \<open>Cookies\<close>

definition sealSession :: "platform \<Rightarrow> bytes \<Rightarrow> config \<Rightarrow> json \<Rightarrow> string" where
  "sealSession pf iv c session = seal pf iv (current_secret c) SESSION_PURPOSE session None"

definition revocationKey :: "string \<Rightarrow> string" where
  "revocationKey sid = ''session-revoked:'' @ sid"

text \<open>What remains once the cookie value is found: open it, check the cap and the required members, ask
  whether it was revoked, and fill in the flag that older sessions lack.\<close>

definition check_session :: "'s stepper \<Rightarrow> int \<Rightarrow> 's option \<Rightarrow> json \<Rightarrow> (failure, json option) result \<times> 's option" where
  "check_session step clock store session =
     (if (case as_num (jget session ''abs'') of None \<Rightarrow> False | Some a \<Rightarrow> a < nowSeconds clock) then (Inr None, store)
      else if \<not> truthy (jget session ''email'') \<or> \<not> truthy (jget session ''sid'') then (Inr None, store)
      else (let upgraded = (if jget session ''emailVerified'' = None \<and> \<not> truthy (jget session ''localIdentityId'')
                            then jput session ''emailVerified'' (Some (JBool True)) else session)
            in case store of None \<Rightarrow> (Inr (Some upgraded), None)
               | Some s \<Rightarrow>
                   (case step s clock (Has (revocationKey (or_str (as_str (jget session ''sid'')) []))) of
                      (Claimed True, s') \<Rightarrow> (Inr None, Some s')
                    | (Claimed False, s') \<Rightarrow> (Inr (Some upgraded), Some s')
                    | (_, s') \<Rightarrow> (Inl (Unexpected ''state store''), Some s'))))"

definition readSessionByName ::
  "platform \<Rightarrow> 's stepper \<Rightarrow> config \<Rightarrow> request \<Rightarrow> string \<Rightarrow> int \<Rightarrow> 's option \<Rightarrow> (failure, json option) result \<times> 's option" where
  "readSessionByName pf step c r name clock store =
     (case map_of (parseCookies r) name of None \<Rightarrow> (Inr None, store)
      | Some raw \<Rightarrow>
          if raw = [] then (Inr None, store)
          else (case unseal pf (c_secrets c) SESSION_PURPOSE raw (nowSeconds clock) None of
                  Inl (SealError _) \<Rightarrow> (Inr None, store)
                | Inl TypeError \<Rightarrow> (Inl (Unexpected ''TypeError''), store)
                | Inr session \<Rightarrow> check_session step clock store session))"

definition readSession ::
  "platform \<Rightarrow> 's stepper \<Rightarrow> config \<Rightarrow> request \<Rightarrow> string option \<Rightarrow> int \<Rightarrow> 's option \<Rightarrow> (failure, json option) result \<times> 's option" where
  "readSession pf step c r clientId clock store = readSessionByName pf step c r (cookieNameFor pf c clientId) clock store"

definition revokeSession :: "'s stepper \<Rightarrow> json option \<Rightarrow> int \<Rightarrow> 's option \<Rightarrow> (failure, unit) result \<times> 's option" where
  "revokeSession step session clock store =
     (case (store, session) of
        (Some s, Some ses) \<Rightarrow>
          (case (as_str (jget ses ''sid''), as_num (jget ses ''abs'')) of
             (Some sid, Some a) \<Rightarrow>
               if sid = [] then (Inr (), store)
               else (let ttl = a - nowSeconds clock
                     in if ttl > 0
                        then (case step s clock (Claim (revocationKey sid) ttl) of
                                (Fresh _, s') \<Rightarrow> (Inr (), Some s')
                              | (_, s') \<Rightarrow> (Inl (Unexpected ''state store''), Some s'))
                        else (Inr (), store))
           | _ \<Rightarrow> (Inr (), store))
      | _ \<Rightarrow> (Inr (), store))"

definition cookiePath :: "config \<Rightarrow> string" where
  "cookiePath c = (if c_devMode c then or_str (Some (c_basePath c)) ''/'' else ''/'')"

definition session_cookie_opts :: "config \<Rightarrow> int \<Rightarrow> cookie_opts" where
  "session_cookie_opts c maxAge =
     \<lparr>co_path = Some (cookiePath c), co_sameSite = Some ''Lax'', co_maxAge = Some maxAge, co_httpOnly = True,
      co_secure = (\<not> c_insecureTransport c)\<rparr>"

definition sessionCookie :: "platform \<Rightarrow> bytes \<Rightarrow> config \<Rightarrow> json \<Rightarrow> string option \<Rightarrow> int \<Rightarrow> string" where
  "sessionCookie pf iv c session clientId now =
     serialiseCookie (cookieNameFor pf c clientId) (sealSession pf iv c session)
       (session_cookie_opts c (max 0 (coalesce (as_num (jget session ''exp'')) 0 - now)))"

definition clearCookieByName :: "config \<Rightarrow> string \<Rightarrow> string" where
  "clearCookieByName c name = serialiseCookie name [] (session_cookie_opts c 0)"

definition clearSessionCookie :: "platform \<Rightarrow> config \<Rightarrow> string option \<Rightarrow> string" where
  "clearSessionCookie pf c clientId = clearCookieByName c (cookieNameFor pf c clientId)"

definition allSessionCookieNames :: "config \<Rightarrow> request \<Rightarrow> string list" where
  "allSessionCookieNames c r =
     filter (\<lambda>n. n = ss_cookieName (c_session c) \<or> starts_with n (ss_cookieName (c_session c) @ ''_''))
       (map fst (parseCookies r))"

section \<open>The remembered address\<close>

definition REMEMBER_ME_COOKIE :: string where "REMEMBER_ME_COOKIE = ''__Host-RememberMe''"
definition REMEMBER_ME_TTL_SECONDS :: int where "REMEMBER_ME_TTL_SECONDS = 365 * 24 * 60 * 60"
definition REMEMBER_PURPOSE :: string where "REMEMBER_PURPOSE = ''remember-me''"

definition hasRememberMeCookie :: "request \<Rightarrow> bool" where
  "hasRememberMeCookie r \<longleftrightarrow> map_of (parseCookies r) REMEMBER_ME_COOKIE \<noteq> None"

definition readRememberedEmail :: "platform \<Rightarrow> config \<Rightarrow> request \<Rightarrow> int \<Rightarrow> (failure, string option) result" where
  "readRememberedEmail pf c r now =
     (case map_of (parseCookies r) REMEMBER_ME_COOKIE of None \<Rightarrow> Inr None
      | Some raw \<Rightarrow>
          if raw = [] then Inr None
          else (case unseal pf (c_secrets c) REMEMBER_PURPOSE raw now None of
                  Inl (SealError _) \<Rightarrow> Inr None
                | Inl TypeError \<Rightarrow> Inl (Unexpected ''TypeError'')
                | Inr remembered \<Rightarrow>
                    (let email = normaliseEmail (as_str (jget remembered ''email''))
                     in if jget remembered ''v'' \<noteq> Some (JNum 1) \<or>
                           (case as_num (jget remembered ''exp'') of None \<Rightarrow> True | Some e \<Rightarrow> e < now) \<or>
                           \<not> looksLikeEmail email
                        then Inr None else Inr email)))"

definition rememberMeCookie :: "platform \<Rightarrow> bytes \<Rightarrow> config \<Rightarrow> string \<Rightarrow> int \<Rightarrow> string" where
  "rememberMeCookie pf iv c email now =
     serialiseCookie REMEMBER_ME_COOKIE
       (seal pf iv (current_secret c) REMEMBER_PURPOSE
          (jobj [(''v'', Some (JNum 1)), (''email'', map_option JStr (normaliseEmail (Some email))),
                 (''exp'', Some (JNum (now + REMEMBER_ME_TTL_SECONDS)))]) None)
       \<lparr>co_path = Some ''/'', co_sameSite = Some ''Lax'', co_maxAge = Some REMEMBER_ME_TTL_SECONDS, co_httpOnly = True, co_secure = True\<rparr>"

definition clearRememberMeCookie :: string where
  "clearRememberMeCookie = serialiseCookie REMEMBER_ME_COOKIE []
     \<lparr>co_path = Some ''/'', co_sameSite = Some ''Lax'', co_maxAge = Some 0, co_httpOnly = True, co_secure = True\<rparr>"

section \<open>Lifetimes\<close>

text \<open>The sessions that grow out of one sign-in: any sequence of touches and re-authentications.\<close>

inductive_set sessions_of :: "config \<Rightarrow> string \<Rightarrow> int \<Rightarrow> json set" for c sid t0 where
  new: "newSession c a sid t0 \<in> sessions_of c sid t0"
| touched: "s \<in> sessions_of c sid t0 \<Longrightarrow> touch c s now \<in> sessions_of c sid t0"
| reauth: "s \<in> sessions_of c sid t0 \<Longrightarrow> reauthenticate c s a now \<in> sessions_of c sid t0"

lemma sessions_of_frame:
  "s \<in> sessions_of c sid t0 \<Longrightarrow> is_obj s \<and> jget s ''sid'' = Some (JStr sid) \<and> jget s ''iat'' = Some (JNum t0) \<and>
     jget s ''abs'' = Some (JNum (t0 + ss_maxLifetimeSeconds (c_session c)))"
proof (induction rule: sessions_of.induct)
  case (new a)
  then show ?case by (simp add: newSession_def)
next
  case (touched s now)
  then show ?case by (simp add: touch_def)
next
  case (reauth s a now)
  then show ?case by (simp add: reauthenticate_def jget_jputs_other del: jputs.simps)
qed

lemma check_session_Some:
  "check_session step clock store session = (Inr (Some s), store') \<Longrightarrow>
     (case as_num (jget session ''abs'') of None \<Rightarrow> True | Some a \<Rightarrow> nowSeconds clock \<le> a) \<and>
     truthy (jget session ''email'') \<and> truthy (jget session ''sid'') \<and>
     (s = session \<or> s = jput session ''emailVerified'' (Some (JBool True)))"
  by (auto simp: check_session_def Let_def split: if_splits option.splits prod.splits reply.splits bool.splits)

lemma readSessionByName_Some:
  assumes "readSessionByName pf step c r name clock store = (Inr (Some s), store')"
  obtains raw session where "map_of (parseCookies r) name = Some raw"
    "unseal pf (c_secrets c) SESSION_PURPOSE raw (nowSeconds clock) None = Inr session"
    "check_session step clock store session = (Inr (Some s), store')"
  using assms that
  by (auto simp: readSessionByName_def split: option.splits if_splits sum.splits seal_error.splits)

section \<open>Revocation\<close>

lemma before_deadline:
  assumes "nowSeconds t < a"
  shows "t < now + (a - nowSeconds now) * 1000"
proof -
  have "t = 1000 * nowSeconds t + t mod 1000" "now = 1000 * nowSeconds now + now mod 1000"
    by (simp_all add: nowSeconds_def)
  moreover have "t mod 1000 < 1000" "0 \<le> now mod 1000" by simp_all
  ultimately show ?thesis using assms by (simp add: algebra_simps)
qed

context claim_store
begin

lemma revoked_unreadable:
  assumes "step s now (Claim (revocationKey sid) (a - nowSeconds now)) = (Fresh True, s')"
    and "jget ses ''sid'' = Some (JStr sid)" "sid \<noteq> []" "jget ses ''abs'' = Some (JNum a)"
    and "0 < now" "now \<le> t" "a - nowSeconds now \<le> 366 * 86400" "nowSeconds t \<noteq> a"
    and "\<And>u op. (u, op) \<in> set ops \<Longrightarrow> 0 < u \<and> u \<le> t \<and> \<not> (counts op \<and> op_key op = revocationKey sid)"
  shows "fst (check_session step t (Some (snd (run s' ops))) ses) \<noteq> Inr (Some x)"
proof (cases "a < nowSeconds t")
  case True
  then show ?thesis using assms(4) by (simp add: check_session_def)
next
  case False
  with assms(8) have "nowSeconds t < a" by simp
  then have "t < now + (a - nowSeconds now) * 1000" by (rule before_deadline)
  from claim_once(2) [OF assms(1,5,6) this assms(7,9)]
  have h: "fst (step (snd (run s' ops)) t (Has (revocationKey sid))) \<noteq> Claimed False" by simp
  obtain r s2 where st: "step (snd (run s' ops)) t (Has (revocationKey sid)) = (r, s2)"
    by (cases "step (snd (run s' ops)) t (Has (revocationKey sid))")
  have sid: "or_str (as_str (jget ses ''sid'')) [] = sid" using assms(2,3) by (simp add: or_str_def)
  from h st have "r \<noteq> Claimed False" by simp
  then show ?thesis
    by (cases r) (simp_all add: check_session_def sid st Let_def split: bool.splits)
qed

end

section \<open>Properties\<close>

text \<open>No use keeps a session alive past its absolute cap. Whatever touches and re-authentications a
  session has been through, its identifier and its cap are those of the sign-in, a touch never sets the
  idle deadline past the cap, and once the cap has passed the session is neither read from a cookie nor
  fresh.\<close>

lemma session_capped:
  assumes "s \<in> sessions_of c sid t0"
  shows "jget s ''sid'' = Some (JStr sid) \<and> jget s ''abs'' = Some (JNum (t0 + ss_maxLifetimeSeconds (c_session c))) \<and>
    (\<exists>e. jget (touch c s now) ''exp'' = Some (JNum e) \<and> e \<le> t0 + ss_maxLifetimeSeconds (c_session c)) \<and>
    (t0 + ss_maxLifetimeSeconds (c_session c) < nowSeconds clock \<longrightarrow>
       check_session step clock store s = (Inr None, store) \<and> \<not> sessionIsFresh s maxAge skew (nowSeconds clock))"
  using sessions_of_frame [OF assms]
  by (auto simp: touch_def check_session_def sessionIsFresh_def split: option.splits)

definition sample_args :: session_args where
  "sample_args = \<lparr>sa_email = Some ''jo@corp.example'', sa_emailVerified = Some True, sa_acr = ''urn:sag:acr:email-otp'',
     sa_amr = [''otp''], sa_authTime = None, sa_upstream = None, sa_upstreamLabel = None, sa_claims = None,
     sa_localIdentityId = None, sa_localIdentityKey = None, sa_localSecurityVersion = None\<rparr>"

text \<open>A session that was signed out stays out. After its revocation, and after any further store
  operations, no copy of its cookie is read again, up to its absolute cap and after it, on the in-memory
  store and on the Durable Objects. (In the one second in which the clock equals the cap the record may
  already have lapsed.)\<close>

lemma revoked_session_unreadable:
  assumes "jget ses ''sid'' = Some (JStr sid)" "sid \<noteq> []" "jget ses ''abs'' = Some (JNum a)"
    and "0 < now" "now \<le> t" "a - nowSeconds now \<le> 366 * 86400" "nowSeconds t \<noteq> a" "nowSeconds now < a"
    and "list_all (\<lambda>(u, op). 0 < u \<and> u \<le> t \<and> \<not> (counts op \<and> op_key op = revocationKey sid)) ops"
  shows "(mem_step m now (Claim (revocationKey sid) (a - nowSeconds now)) = (Fresh True, m') \<longrightarrow>
      revokeSession mem_step (Some ses) now (Some m) = (Inr (), Some m') \<and>
      fst (check_session mem_step t (Some (snd (mem.run m' ops))) ses) \<noteq> Inr (Some x)) \<and>
    (do_step d now (Claim (revocationKey sid) (a - nowSeconds now)) = (Fresh True, d') \<longrightarrow>
      revokeSession do_step (Some ses) now (Some d) = (Inr (), Some d') \<and>
      fst (check_session do_step t (Some (snd (durable.run d' ops))) ses) \<noteq> Inr (Some x))"
proof -
  have ops: "0 < u \<and> u \<le> t \<and> \<not> (counts op \<and> op_key op = revocationKey sid)" if "(u, op) \<in> set ops" for u op
    using assms(9) that by (auto simp: list_all_iff)
  show ?thesis
    using mem.revoked_unreadable [OF _ assms(1-7) ops] durable.revoked_unreadable [OF _ assms(1-7) ops] assms(1-4,8)
    by (auto simp: revokeSession_def Let_def simp del: mem_step.simps do_step.simps)
qed

definition sample_session :: json where
  "sample_session = newSession sample_config sample_args ''s1'' 10"

lemma sample_session_fields:
  "jget sample_session ''sid'' = Some (JStr ''s1'')" "jget sample_session ''abs'' = Some (JNum 604810)"
  by (simp_all add: sample_session_def newSession_def sample_config_def)

end
