(* ===== verification/Transaction.thy ===== *)
theory Transaction
  imports Session Otp
begin

text \<open>
  The in-flight authorisation request, \<^verbatim>\<open>src/oauth/transaction.js\<close>: one JSON object sealed for the browser
  under one purpose and for an upstream under another.
\<close>

definition TX_PURPOSE :: string where "TX_PURPOSE = ''tx''"
definition UPSTREAM_STATE_PURPOSE :: string where "UPSTREAM_STATE_PURPOSE = ''upstream-state''"

definition STAGE_EMAIL :: string where "STAGE_EMAIL = ''email''"
definition STAGE_CHOOSE :: string where "STAGE_CHOOSE = ''choose''"
definition STAGE_OTP :: string where "STAGE_OTP = ''otp''"
definition STAGE_LOCAL_PASSWORD :: string where "STAGE_LOCAL_PASSWORD = ''local-password''"
definition STAGE_LOCAL_MFA :: string where "STAGE_LOCAL_MFA = ''local-mfa''"
definition STAGE_CONTINUE :: string where "STAGE_CONTINUE = ''continue''"

lemmas stage_defs = STAGE_EMAIL_def STAGE_CHOOSE_def STAGE_OTP_def STAGE_LOCAL_PASSWORD_def STAGE_LOCAL_MFA_def STAGE_CONTINUE_def

text \<open>The validated request of \<open>parseAuthorizationRequest\<close>.\<close>

record auth_request =
  ar_clientId :: string
  ar_redirectUri :: string
  ar_state :: "string option"
  ar_nonce :: "string option"
  ar_scope :: "string list"
  ar_responseType :: string
  ar_responseMode :: string
  ar_codeChallenge :: "string option"
  ar_codeChallengeMethod :: "string option"
  ar_acrValues :: "string list"
  ar_prompt :: "string list"
  ar_maxAge :: "int option"
  ar_loginHint :: "string option"
  ar_idTokenAlg :: "string option"
  ar_resource :: "string list"

definition newTransaction :: "config \<Rightarrow> auth_request \<Rightarrow> string \<Rightarrow> int \<Rightarrow> json" where
  "newTransaction c req txid now = jobj
     [(''v'', Some (JNum 1)),
      (''id'', Some (JStr txid)),
      (''stage'', Some (JStr STAGE_EMAIL)),
      (''client_id'', Some (JStr (ar_clientId req))),
      (''redirect_uri'', Some (JStr (ar_redirectUri req))),
      (''state'', map_option JStr (ar_state req)),
      (''nonce'', map_option JStr (ar_nonce req)),
      (''scope'', Some (jstrs (ar_scope req))),
      (''response_type'', Some (JStr (ar_responseType req))),
      (''response_mode'', Some (JStr (ar_responseMode req))),
      (''code_challenge'', map_option JStr (ar_codeChallenge req)),
      (''code_challenge_method'', map_option JStr (ar_codeChallengeMethod req)),
      (''acr_values'', Some (jstrs (ar_acrValues req))),
      (''prompt'', Some (jstrs (ar_prompt req))),
      (''max_age'', map_option JNum (ar_maxAge req)),
      (''login_hint'', map_option JStr (ar_loginHint req)),
      (''id_token_alg'', map_option JStr (ar_idTokenAlg req)),
      (''resource'', Some (jstrs (ar_resource req))),
      (''iat'', Some (JNum now)),
      (''exp'', Some (JNum (now + tk_transactionTtlSeconds (c_tokens c))))]"

definition sealTransaction :: "platform \<Rightarrow> bytes \<Rightarrow> config \<Rightarrow> json \<Rightarrow> string" where
  "sealTransaction pf iv c tx = seal pf iv (current_secret c) TX_PURPOSE tx None"

definition openTransaction :: "platform \<Rightarrow> config \<Rightarrow> string \<Rightarrow> int \<Rightarrow> (seal_error, json) result" where
  "openTransaction pf c token now =
     (case unseal pf (c_secrets c) TX_PURPOSE token now None of
        Inl e \<Rightarrow> Inl e
      | Inr tx \<Rightarrow>
          if \<not> truthy (Some tx) \<or> jget tx ''v'' \<noteq> Some (JNum 1) \<or> \<not> truthy (jget tx ''client_id'')
          then Inl (SealError ''unrecognised transaction'') else Inr tx)"

definition sealUpstreamState :: "platform \<Rightarrow> bytes \<Rightarrow> config \<Rightarrow> json \<Rightarrow> string" where
  "sealUpstreamState pf iv c tx = seal pf iv (current_secret c) UPSTREAM_STATE_PURPOSE tx None"

definition openUpstreamState :: "platform \<Rightarrow> config \<Rightarrow> string \<Rightarrow> int \<Rightarrow> (seal_error, json) result" where
  "openUpstreamState pf c token now =
     (case unseal pf (c_secrets c) UPSTREAM_STATE_PURPOSE token now None of
        Inl e \<Rightarrow> Inl e
      | Inr tx \<Rightarrow>
          if \<not> truthy (Some tx) \<or> jget tx ''v'' \<noteq> Some (JNum 1) \<or> \<not> truthy (jget tx ''upstream'')
          then Inl (SealError ''unrecognised upstream state'') else Inr tx)"

definition advance :: "json \<Rightarrow> (string \<times> json option) list \<Rightarrow> json" where
  "advance tx changes = jputs tx changes"

definition withOtp :: "json \<Rightarrow> string option \<Rightarrow> int \<Rightarrow> int \<Rightarrow> int \<Rightarrow> json" where
  "withOtp tx digest expAt resends now =
     jputs tx [(''stage'', Some (JStr STAGE_OTP)),
       (''otp'', Some (jobj [(''digest'', map_option JStr digest), (''exp'', Some (JNum expAt)), (''attempts'', Some (JNum 0)),
          (''resends'', Some (JNum resends)), (''iat'', Some (JNum now))]))]"

definition otp_attempts :: "json \<Rightarrow> int" where
  "otp_attempts tx = coalesce (as_num (Option.bind (jget tx ''otp'') (\<lambda>o'. jget o' ''attempts''))) 0"

text \<open>Spreading an absent \<open>otp\<close> gives an object with only \<open>attempts\<close>.\<close>

definition withOtpAttempt :: "json \<Rightarrow> json" where
  "withOtpAttempt tx =
     jput tx ''otp'' (Some (jput (coalesce (jget tx ''otp'') (JObj [])) ''attempts'' (Some (JNum (otp_attempts tx + 1)))))"

definition withoutOtp :: "json \<Rightarrow> json" where
  "withoutOtp tx = jputs tx [(''otp'', None), (''email'', None), (''upstream'', None), (''local_identity'', None),
     (''stage'', Some (JStr STAGE_EMAIL))]"

definition withoutAttempt :: "json \<Rightarrow> json" where
  "withoutAttempt tx = jputs tx [(''otp'', None), (''upstream'', None), (''local_identity'', None)]"

definition expired :: "json \<Rightarrow> int \<Rightarrow> bool" where
  "expired tx now = (case as_num (jget tx ''exp'') of None \<Rightarrow> False | Some e \<Rightarrow> e < now)"

section \<open>Frames\<close>

lemma newTransaction_obj [simp]: "is_obj (newTransaction c req i now)"
  by (simp add: newTransaction_def)

lemma is_obj_steps [simp]:
  "is_obj (withOtp tx d e r n) \<longleftrightarrow> is_obj tx" "is_obj (withOtpAttempt tx) \<longleftrightarrow> is_obj tx"
  "is_obj (withoutOtp tx) \<longleftrightarrow> is_obj tx" "is_obj (withoutAttempt tx) \<longleftrightarrow> is_obj tx"
  by (simp_all add: withOtp_def withOtpAttempt_def withoutOtp_def withoutAttempt_def del: jputs.simps)

text \<open>The members that name the request and its deadline, which no step changes.\<close>

definition identity_fields :: "string list" where
  "identity_fields = [''v'', ''id'', ''client_id'', ''redirect_uri'', ''state'', ''nonce'', ''scope'', ''response_type'', ''response_mode'',
     ''code_challenge'', ''code_challenge_method'', ''acr_values'', ''prompt'', ''max_age'', ''login_hint'', ''id_token_alg'',
     ''resource'', ''iat'', ''exp'']"

definition same_request :: "json \<Rightarrow> json \<Rightarrow> bool" where
  "same_request tx tx' \<longleftrightarrow> is_obj tx' \<and> (\<forall>k\<in>set identity_fields. jget tx' k = jget tx k)"

lemma jputs_same:
  "is_obj tx \<Longrightarrow> set (map fst fs) \<inter> set identity_fields = {} \<Longrightarrow> same_request tx (jputs tx fs)"
proof -
  assume a: "is_obj tx" "set (map fst fs) \<inter> set identity_fields = {}"
  have "jget (jputs tx fs) k = jget tx k" if "k \<in> set identity_fields" for k
    using a that by (intro jget_jputs_other) auto
  with a show ?thesis by (simp add: same_request_def)
qed

lemma step_same_request:
  assumes "is_obj tx"
  shows "same_request tx (withOtp tx d e r n)" "same_request tx (withOtpAttempt tx)" "same_request tx (withoutOtp tx)"
    "same_request tx (withoutAttempt tx)"
proof -
  show "same_request tx (withOtp tx d e r n)"
    unfolding withOtp_def using assms by (intro jputs_same) (simp_all add: identity_fields_def)
  show "same_request tx (withoutOtp tx)"
    unfolding withoutOtp_def using assms by (intro jputs_same) (simp_all add: identity_fields_def)
  show "same_request tx (withoutAttempt tx)"
    unfolding withoutAttempt_def using assms by (intro jputs_same) (simp_all add: identity_fields_def)
  show "same_request tx (withOtpAttempt tx)"
    using assms by (simp add: withOtpAttempt_def same_request_def identity_fields_def)
qed

lemma same_request_trans: "same_request a b \<Longrightarrow> same_request b d \<Longrightarrow> same_request a d"
  by (simp add: same_request_def)

lemma openTransaction_Inr:
  "openTransaction pf c token now = Inr tx \<Longrightarrow> unseal pf (c_secrets c) TX_PURPOSE token now None = Inr tx"
  by (auto simp: openTransaction_def split: sum.splits if_splits)

section \<open>Properties\<close>

text \<open>A token sealed for the browser is never accepted as upstream state, nor upstream state as a
  browser token: each opens only under the purpose in its text, and the two purposes differ.\<close>

lemma transaction_purposes_separate:
  assumes "platform_ok pf" "json_survives pf tx"
  shows "openUpstreamState pf c (sealTransaction pf iv c tx) now = Inl (SealError ''purpose mismatch'') \<and>
    openTransaction pf c (sealUpstreamState pf iv c tx) now = Inl (SealError ''purpose mismatch'')"
proof -
  have d: "CHR ''.'' \<notin> set (coalesce None ''k1'')" "CHR ''.'' \<notin> set ''tx''" "CHR ''.'' \<notin> set ''upstream-state''"
    by (simp_all add: coalesce_def)
  show ?thesis
    using split_token [OF d(1,2)] split_token [OF d(1,3)]
    by (simp add: openUpstreamState_def openTransaction_def sealTransaction_def sealUpstreamState_def unseal_def seal_def
        TX_PURPOSE_def UPSTREAM_STATE_PURPOSE_def Let_def)
qed

end
