(* ===== verification/Auth_Code.thy ===== *)
theory Auth_Code
  imports Transaction
begin

text \<open>
  Authorisation codes, \<^verbatim>\<open>src/oauth/code.js\<close>. The code is a sealed JSON object; redemption runs its checks
  in the order of the source and, when a state store is configured, claims the code's identifier.
\<close>

definition CODE_PURPOSE :: string where "CODE_PURPOSE = ''code''"

text \<open>The payload of \<open>issueCode\<close>, before sealing.\<close>

definition code_payload :: "config \<Rightarrow> json \<Rightarrow> json \<Rightarrow> string \<Rightarrow> string \<Rightarrow> string \<Rightarrow> int \<Rightarrow> json" where
  "code_payload c tx session sub email jti now = jobj
     [(''v'', Some (JNum 1)),
      (''jti'', Some (JStr jti)),
      (''client_id'', jget tx ''client_id''),
      (''redirect_uri'', jget tx ''redirect_uri''),
      (''scope'', jget tx ''scope''),
      (''nonce'', jget tx ''nonce''),
      (''code_challenge'', jget tx ''code_challenge''),
      (''code_challenge_method'', jget tx ''code_challenge_method''),
      (''id_token_alg'', jget tx ''id_token_alg''),
      (''resource'', if as_strs (jget tx ''resource'') \<noteq> [] then jget tx ''resource'' else None),
      (''sub'', Some (JStr sub)),
      (''email'', Some (JStr email)),
      (''email_verified'', Some (JBool (jget session ''emailVerified'' = Some (JBool True)))),
      (''acr'', jget session ''acr''),
      (''amr'', jget session ''amr''),
      (''auth_time'', jget session ''auth_time''),
      (''sid'', jget session ''sid''),
      (''claims'', jget session ''claims''),
      (''local_identity_id'', jget session ''localIdentityId''),
      (''local_identity_key'', jget session ''localIdentityKey''),
      (''local_security_version'', jget session ''localSecurityVersion''),
      (''iat'', Some (JNum now)),
      (''exp'', Some (JNum (now + tk_authorizationCodeTtlSeconds (c_tokens c))))]"

definition issueCode :: "platform \<Rightarrow> bytes \<Rightarrow> config \<Rightarrow> json \<Rightarrow> json \<Rightarrow> string \<Rightarrow> string \<Rightarrow> string \<Rightarrow> int \<Rightarrow> string" where
  "issueCode pf iv c tx session sub email jti now =
     seal pf iv (current_secret c) CODE_PURPOSE (code_payload c tx session sub email jti now) None"

definition pkce_char :: "char \<Rightarrow> bool" where
  "pkce_char ch \<longleftrightarrow> is_alnum ch \<or> ch \<in> {CHR ''-'', CHR ''.'', CHR ''_'', CHR ''~''}"

text \<open>\<open>/^[A-Za-z0-9\-._~]{43,128}$/\<close>.\<close>

definition pkce_text :: "string \<Rightarrow> bool" where
  "pkce_text s \<longleftrightarrow> 43 \<le> length s \<and> length s \<le> 128 \<and> list_all pkce_char s"

definition check_verifier :: "platform \<Rightarrow> json \<Rightarrow> string option \<Rightarrow> (failure, unit) result" where
  "check_verifier pf payload codeVerifier =
     (if truthy (jget payload ''code_challenge'')
      then (if \<not> str_truthy codeVerifier then Inl (invalidGrant ''A code_verifier is required for this authorization code.'')
            else if \<not> pkce_text (the codeVerifier) then Inl (invalidGrant ''The code_verifier is malformed.'')
            else if \<not> timingSafeEqual (utf8 (sha256b64u pf (the codeVerifier)))
                      (utf8 (or_str (as_str (jget payload ''code_challenge'')) []))
            then Inl (invalidGrant ''The code_verifier does not match the code_challenge.'')
            else Inr ())
      else Inr ())"

definition code_key :: "json \<Rightarrow> string" where
  "code_key payload = ''authorization-code:'' @ or_str (as_str (jget payload ''jti'')) ''undefined''"

definition claim_code :: "'s stepper \<Rightarrow> json \<Rightarrow> int \<Rightarrow> 's option \<Rightarrow> (failure, json) result \<times> 's option" where
  "claim_code step payload clock store =
     (case store of None \<Rightarrow> (Inr payload, None)
      | Some s \<Rightarrow>
          (case step s clock (Claim (code_key payload) (coalesce (as_num (jget payload ''exp'')) 0 - nowSeconds clock + 60)) of
             (Fresh True, s') \<Rightarrow> (Inr payload, Some s')
           | (Fresh False, s') \<Rightarrow> (Inl (invalidGrant ''This authorization code has already been used.''), Some s')
           | (_, s') \<Rightarrow> (Inl (Unexpected ''state store''), Some s')))"

text \<open>A payload minted before the evidence flag existed, on a path that verified the address.\<close>

definition legacy_verified :: "json \<Rightarrow> json" where
  "legacy_verified p =
     (if jget p ''email_verified'' = None \<and> \<not> truthy (jget p ''local_identity_id'')
      then jput p ''email_verified'' (Some (JBool True)) else p)"

definition redeemCode ::
  "platform \<Rightarrow> 's stepper \<Rightarrow> config \<Rightarrow> string \<Rightarrow> string \<Rightarrow> string option \<Rightarrow> string option \<Rightarrow> int \<Rightarrow> 's option \<Rightarrow>
   (failure, json) result \<times> 's option" where
  "redeemCode pf step c code clientId redirectUri codeVerifier clock store =
     (case unseal pf (c_secrets c) CODE_PURPOSE code (nowSeconds clock) None of
        Inl _ \<Rightarrow> (Inl (invalidGrant ''The authorization code is invalid or has expired.''), store)
      | Inr p \<Rightarrow>
          if jget p ''v'' \<noteq> Some (JNum 1)
          then (Inl (invalidGrant ''The authorization code is invalid or has expired.''), store)
          else (let payload = legacy_verified p
                in if jget payload ''client_id'' \<noteq> Some (JStr clientId)
                   then (Inl (invalidGrant ''The authorization code was not issued to this client.''), store)
                   else if \<not> str_truthy redirectUri \<or> jget payload ''redirect_uri'' \<noteq> map_option JStr redirectUri
                   then (Inl (invalidGrant ''The redirect_uri does not match the one used to obtain this code.''), store)
                   else (case check_verifier pf payload codeVerifier of
                           Inl e \<Rightarrow> (Inl e, store)
                         | Inr _ \<Rightarrow> claim_code step payload clock store)))"

section \<open>What a redemption shows\<close>

lemma claim_code_same: "claim_code step q clock store = (Inr payload, store') \<Longrightarrow> payload = q"
  by (auto simp: claim_code_def split: option.splits prod.splits reply.splits bool.splits)

lemma redeemCode_Inr:
  assumes "redeemCode pf step c code clientId redirectUri codeVerifier clock store = (Inr payload, store')"
  obtains p where "unseal pf (c_secrets c) CODE_PURPOSE code (nowSeconds clock) None = Inr p" "jget p ''v'' = Some (JNum 1)"
    "payload = legacy_verified p" "jget payload ''client_id'' = Some (JStr clientId)"
    "str_truthy redirectUri" "jget payload ''redirect_uri'' = map_option JStr redirectUri"
    "check_verifier pf payload codeVerifier = Inr ()" "claim_code step payload clock store = (Inr payload, store')"
proof -
  obtain p where p: "unseal pf (c_secrets c) CODE_PURPOSE code (nowSeconds clock) None = Inr p"
    using assms by (auto simp: redeemCode_def split: sum.splits)
  have v: "jget p ''v'' = Some (JNum 1)" "jget (legacy_verified p) ''client_id'' = Some (JStr clientId)" "str_truthy redirectUri"
    "jget (legacy_verified p) ''redirect_uri'' = map_option JStr redirectUri" "check_verifier pf (legacy_verified p) codeVerifier = Inr ()"
    and c: "claim_code step (legacy_verified p) clock store = (Inr payload, store')"
    using assms unfolding redeemCode_def p by (auto simp: Let_def split: if_splits sum.splits)
  from claim_code_same [OF c] v c p that show ?thesis by simp
qed

lemma claim_code_Some:
  assumes "claim_code step p clock (Some s) = (Inr q, store')"
  obtains s' where "store' = Some s'"
    "step s clock (Claim (code_key p) (coalesce (as_num (jget p ''exp'')) 0 - nowSeconds clock + 60)) = (Fresh True, s')"
  using assms that by (auto simp: claim_code_def split: prod.splits reply.splits bool.splits)

text \<open>Reading \<open>exp\<close> and \<open>jti\<close> is not affected by the upgrade of an old payload.\<close>

lemma legacy_verified_field: "k \<noteq> ''email_verified'' \<Longrightarrow> jget (legacy_verified p) k = jget p k"
  by (cases p) (auto simp: legacy_verified_def update_conv')

lemma code_payload_obj [simp]: "is_obj (code_payload c tx s sub e j now)"
  by (simp add: code_payload_def)

text \<open>A minted payload always carries the flag, so redemption returns it unchanged.\<close>

lemma legacy_verified_minted [simp]: "legacy_verified (code_payload c tx s sub e j now) = code_payload c tx s sub e j now"
  by (simp add: legacy_verified_def code_payload_def)

section \<open>One redemption\<close>

context claim_store
begin

text \<open>After one redemption of a code whose payload expires at \<open>e\<close>, no presentation of a code with the
  same identifier is redeemed: until \<open>e\<close> the claim is refused, and later the code does not open.\<close>

lemma code_once:
  assumes first: "redeemCode pf step c code client uri verifier now (Some s) = (Inr payload, Some s')"
    and e: "as_num (jget payload ''exp'') = Some e" and short: "e - nowSeconds now \<le> 366 * 86400 - 60"
    and now: "0 < now" "now \<le> t"
    and ops: "\<And>u op. (u, op) \<in> set ops \<Longrightarrow> 0 < u \<and> u \<le> t \<and> \<not> (counts op \<and> op_key op = code_key payload)"
    and same: "\<And>p. unseal pf (c_secrets c) CODE_PURPOSE code' (nowSeconds t) None = Inr p \<Longrightarrow>
        jget p ''jti'' = jget payload ''jti'' \<and> jget p ''exp'' = jget payload ''exp''"
  shows "fst (redeemCode pf step c code' client' uri' verifier' t (Some (snd (run s' ops)))) \<noteq> Inr q"
proof
  assume "fst (redeemCode pf step c code' client' uri' verifier' t (Some (snd (run s' ops)))) = Inr q"
  then obtain st where second: "redeemCode pf step c code' client' uri' verifier' t (Some (snd (run s' ops))) = (Inr q, st)"
    by (metis prod.collapse)
  from second obtain p2 where p2: "unseal pf (c_secrets c) CODE_PURPOSE code' (nowSeconds t) None = Inr p2" "q = legacy_verified p2"
    "claim_code step q t (Some (snd (run s' ops))) = (Inr q, st)"
    by (rule redeemCode_Inr)
  from unseal_Inr [OF p2(1)] have fresh: "\<forall>x. as_num (jget p2 ''exp'') = Some x \<longrightarrow> nowSeconds t \<le> x" by metis
  with same [OF p2(1)] e have le: "nowSeconds t \<le> e" by simp
  have key: "code_key q = code_key payload"
    using same [OF p2(1)] by (simp add: code_key_def p2(2) legacy_verified_field)
  from first have "claim_code step payload now (Some s) = (Inr payload, Some s')" by (rule redeemCode_Inr)
  then have grant: "step s now (Claim (code_key payload) (e - nowSeconds now + 60)) = (Fresh True, s')"
    using e by (elim claim_code_Some) (simp add: coalesce_def)
  have "nowSeconds t < e + 60" using le by simp
  then have "t < now + (e + 60 - nowSeconds now) * 1000" by (rule before_deadline)
  then have "fst (step (snd (run s' ops)) t (Claim (code_key payload) (coalesce (as_num (jget q ''exp'')) 0 - nowSeconds t + 60))) \<noteq> Fresh True"
    using short by (intro claim_once(1) [OF grant now] ops) (auto simp: algebra_simps)
  with p2(3) key show False by (auto elim!: claim_code_Some)
qed

end

section \<open>Codes that were issued\<close>

lemma opens_issued:
  assumes "platform_ok pf" "json_survives pf (code_payload c tx ses sub email jti t0)" "c_secrets c \<noteq> []" "current_secret c \<noteq> []"
  shows "unseal pf (c_secrets c) CODE_PURPOSE (issueCode pf iv c tx ses sub email jti t0) now None =
    (if now \<le> t0 + tk_authorizationCodeTtlSeconds (c_tokens c) then Inr (code_payload c tx ses sub email jti t0)
     else Inl (SealError ''token expired''))"
proof -
  have sec: "current_secret c \<in> set (c_secrets c)" using assms(3) by (cases "c_secrets c") (simp_all add: current_secret_def)
  have d: "CHR ''.'' \<notin> set CODE_PURPOSE" "CHR ''.'' \<notin> set (coalesce None ''k1'')" by (simp_all add: CODE_PURPOSE_def coalesce_def)
  have "code_payload c tx ses sub email jti t0 \<noteq> JNull" by (simp add: code_payload_def jobj.simps)
  moreover have "as_num (jget (code_payload c tx ses sub email jti t0) ''exp'') = Some (t0 + tk_authorizationCodeTtlSeconds (c_tokens c))"
    by (simp add: code_payload_def)
  ultimately show ?thesis
    unfolding issueCode_def unseal_seal [OF assms(1,2) sec assms(4) d]
    by (simp add: check_age_def)
qed

lemma sha256_short_verifier:
  "length (pf_sha256 pf (utf8 v)) \<le> 64 \<Longrightarrow> length (sha256b64u pf v) < 2 ^ 32"
  using length_b64u [of "pf_sha256 pf (utf8 v)"] by (simp add: sha256b64u_def sha256_def)

definition sha_short :: "platform \<Rightarrow> bool" where
  "sha_short pf \<longleftrightarrow> (\<forall>m. length (pf_sha256 pf m) \<le> 64)"

lemma check_verifier_iff:
  assumes "sha_short pf" "jget payload ''code_challenge'' = Some (JStr ch)" "ch \<noteq> []" "length ch < 2 ^ 32"
  shows "check_verifier pf payload verifier = Inr () \<longleftrightarrow>
    (\<exists>v. verifier = Some v \<and> pkce_text v \<and> sha256b64u pf v = ch)"
proof -
  have "length (sha256b64u pf v) < 2 ^ 32" for v
    using assms(1) by (intro sha256_short_verifier) (simp add: sha_short_def)
  then have t: "timingSafeEqual (utf8 (sha256b64u pf v)) (utf8 ch) \<longleftrightarrow> sha256b64u pf v = ch" for v
    using assms(4) by (intro timingSafeEqual_str) simp_all
  have "pkce_text v \<Longrightarrow> v \<noteq> []" for v by (auto simp: pkce_text_def)
  with assms t show ?thesis
    by (cases verifier) (auto simp: check_verifier_def str_truthy_def or_str_def)
qed

lemma claim_code_iff:
  "fst (claim_code step p clock store) = Inr p \<longleftrightarrow>
     store = None \<or> fst (step (the store) clock (Claim (code_key p) (coalesce (as_num (jget p ''exp'')) 0 - nowSeconds clock + 60))) = Fresh True"
  by (auto simp: claim_code_def split: option.split prod.split reply.split bool.split)

lemma redeem_iff:
  assumes "platform_ok pf" "sha_short pf" "json_survives pf P" "c_secrets c \<noteq> []" "current_secret c \<noteq> []"
    and P: "P = code_payload c tx ses sub email jti t0" and code: "code = issueCode pf iv c tx ses sub email jti t0"
    and ch: "jget tx ''code_challenge'' = map_option JStr challenge" "length (coalesce challenge []) < 2 ^ 32" and jti: "jti \<noteq> []"
  shows "fst (redeemCode pf step c code client uri verifier clock store) = Inr P \<longleftrightarrow>
    nowSeconds clock \<le> t0 + tk_authorizationCodeTtlSeconds (c_tokens c) \<and>
    jget tx ''client_id'' = Some (JStr client) \<and>
    (\<exists>u. uri = Some u \<and> u \<noteq> [] \<and> jget tx ''redirect_uri'' = Some (JStr u)) \<and>
    (coalesce challenge [] = [] \<or> (\<exists>v. verifier = Some v \<and> pkce_text v \<and> sha256b64u pf v = coalesce challenge [])) \<and>
    (store = None \<or> fst (step (the store) clock (Claim (''authorization-code:'' @ jti)
        (t0 + tk_authorizationCodeTtlSeconds (c_tokens c) - nowSeconds clock + 60))) = Fresh True)"
proof -
  have f: "jget P ''client_id'' = jget tx ''client_id''" "jget P ''redirect_uri'' = jget tx ''redirect_uri''"
    "jget P ''code_challenge'' = map_option JStr challenge" "jget P ''v'' = Some (JNum 1)" "code_key P = ''authorization-code:'' @ jti"
    "as_num (jget P ''exp'') = Some (t0 + tk_authorizationCodeTtlSeconds (c_tokens c))"
    using ch jti by (simp_all add: P code_payload_def code_key_def or_str_def)
  have legacy: "legacy_verified P = P" by (simp add: P)
  note opens = opens_issued [OF assms(1) _ assms(4,5), of tx ses sub email jti t0 iv, folded P code, OF assms(3)]
  have ver: "check_verifier pf P verifier = Inr () \<longleftrightarrow>
      coalesce challenge [] = [] \<or> (\<exists>v. verifier = Some v \<and> pkce_text v \<and> sha256b64u pf v = coalesce challenge [])"
  proof (cases "coalesce challenge [] = []")
    case True
    then have "\<not> truthy (jget P ''code_challenge'')" by (cases challenge) (simp_all add: f(3) coalesce_def)
    with True show ?thesis by (simp add: check_verifier_def)
  next
    case False
    then obtain ch' where "challenge = Some ch'" "ch' \<noteq> []" by (cases challenge) (simp_all add: coalesce_def)
    with check_verifier_iff [OF assms(2), of P ch' verifier] f(3) ch(2) show ?thesis by (simp add: coalesce_def)
  qed
  have none: "check_verifier pf P verifier \<noteq> Inr () \<Longrightarrow> \<exists>e. check_verifier pf P verifier = Inl e"
    by (cases "check_verifier pf P verifier") simp_all
  note cl = claim_code_iff [of step P clock store, unfolded f(5,6) coalesce_def option.case]
  show ?thesis
  proof (cases "nowSeconds clock \<le> t0 + tk_authorizationCodeTtlSeconds (c_tokens c)")
    case False
    then show ?thesis by (simp add: redeemCode_def opens)
  next
    case True
    show ?thesis
    proof (cases "jget tx ''client_id'' = Some (JStr client) \<and> str_truthy uri \<and> jget tx ''redirect_uri'' = map_option JStr uri")
      case False
      then show ?thesis using True
        by (auto simp: redeemCode_def opens f(1-4) legacy Let_def str_truthy_def)
    next
      case ok: True
      then have "fst (redeemCode pf step c code client uri verifier clock store) = Inr P \<longleftrightarrow>
          check_verifier pf P verifier = Inr () \<and> fst (claim_code step P clock store) = Inr P"
        using True none by (auto simp: redeemCode_def opens f(1-4) legacy Let_def split: sum.splits)
      with ok True ver cl show ?thesis by (auto simp: str_truthy_def)
    qed
  qed
qed

section \<open>A sample code\<close>

definition code_platform :: "json \<Rightarrow> platform" where
  "code_platform P = (toy_platform P)\<lparr>pf_sha256 := take 32\<rparr>"

definition sample_verifier :: string where
  "sample_verifier = replicate 43 (CHR ''a'')"

definition sample_tx :: json where
  "sample_tx = JObj [(''client_id'', JStr ''app''), (''redirect_uri'', JStr ''https://app.example/cb''), (''scope'', jstrs [''openid'']),
     (''code_challenge'', JStr (sha256b64u (code_platform JNull) sample_verifier)), (''code_challenge_method'', JStr ''S256'')]"

definition sample_payload :: json where
  "sample_payload = code_payload sample_config sample_tx sample_session ''sub1'' ''jo@corp.example'' ''j1'' 100"

definition sample_code :: string where
  "sample_code = issueCode (code_platform sample_payload) [1, 2, 3] sample_config sample_tx sample_session ''sub1'' ''jo@corp.example'' ''j1'' 100"

lemma sample_code_facts:
  "platform_ok (code_platform P)" "json_survives (code_platform P) P" "sha_short (code_platform P)"
  using toy_platform_ok [of P] by (auto simp: code_platform_def platform_ok_def gcm_roundtrip_def gcm_key_bound_def hkdf_length_def
      json_survives_def toy_platform_def sha_short_def)

lemma sample_config_secret: "c_secrets sample_config \<noteq> []" "current_secret sample_config \<noteq> []"
  by (simp_all add: sample_config_def current_secret_def)

lemma sample_challenge:
  "sha256b64u (code_platform JNull) sample_verifier \<noteq> []"
  "length (sha256b64u (code_platform JNull) sample_verifier) < 2 ^ 32"
proof -
  have "utf8 sample_verifier = replicate 43 97" by code_simp
  then have "sha256 (code_platform JNull) sample_verifier = 97 # 97 # 97 # replicate 29 97"
    by (simp add: sha256_def code_platform_def eval_nat_numeral)
  then show "sha256b64u (code_platform JNull) sample_verifier \<noteq> []"
    by (simp add: sha256b64u_def b64u_def replace_char_def)
  show "length (sha256b64u (code_platform JNull) sample_verifier) < 2 ^ 32"
    using sample_code_facts(3) [of JNull] by (intro sha256_short_verifier) (simp add: sha_short_def)
qed

lemma sample_redemption:
  "fst (redeemCode (code_platform sample_payload) mem_step sample_config sample_code ''app'' (Some ''https://app.example/cb'')
     (Some sample_verifier) 110000 (Some (createMemoryStore 5))) = Inr sample_payload"
proof -
  have tx: "jget sample_tx ''client_id'' = Some (JStr ''app'')" "jget sample_tx ''redirect_uri'' = Some (JStr ''https://app.example/cb'')"
    "jget sample_tx ''code_challenge'' = Some (JStr (sha256b64u (code_platform JNull) sample_verifier))"
    by (simp_all add: sample_tx_def)
  have sha: "sha256b64u (code_platform P) v = sha256b64u (code_platform JNull) v" for P v
    by (simp add: sha256b64u_def sha256_def code_platform_def toy_platform_def)
  have v: "pkce_text sample_verifier" by code_simp
  note ne = sample_challenge(1) and len = sample_challenge(2)
  have free: "fst (mem_claim (createMemoryStore 5) 110000 ''authorization-code:j1'' ttl) = Fresh True" for ttl
    by (simp add: mem_claim_def createMemoryStore_def Let_def)
  have exp: "nowSeconds 110000 \<le> 100 + tk_authorizationCodeTtlSeconds (c_tokens sample_config)"
    by (simp add: nowSeconds_def sample_config_def)
  show ?thesis
    using redeem_iff [where step = mem_step and store = "Some (createMemoryStore 5)" and clock = 110000 and challenge = "Some (sha256b64u (code_platform JNull) sample_verifier)",
        OF sample_code_facts(1,3,2) sample_config_secret sample_payload_def sample_code_def,
        of "''app''" "Some ''https://app.example/cb''" "Some sample_verifier"] tx v sha exp ne len free
    by (auto simp: coalesce_def)
qed

section \<open>Properties\<close>

text \<open>An authorisation code is spent once. After one successful redemption, and after any further
  store operations, no later request redeems a code that carries the same identifier, whatever client,
  redirect URI and verifier it presents and however the token is spelt: until the code expires the store
  refuses the claim, and afterwards the token does not open. This holds on the in-memory store and on the
  Durable Objects.\<close>

lemma code_redeemed_once:
  assumes "as_num (jget payload ''exp'') = Some e" "e - nowSeconds now \<le> 366 * 86400 - 60" "0 < now" "now \<le> t"
    and "list_all (\<lambda>(u, op). 0 < u \<and> u \<le> t \<and> \<not> (counts op \<and> op_key op = code_key payload)) ops"
    and "\<And>p. unseal pf (c_secrets c) CODE_PURPOSE code' (nowSeconds t) None = Inr p \<Longrightarrow>
        jget p ''jti'' = jget payload ''jti'' \<and> jget p ''exp'' = jget payload ''exp''"
  shows "(redeemCode pf mem_step c code client uri verifier now (Some m) = (Inr payload, Some m') \<longrightarrow>
      fst (redeemCode pf mem_step c code' client' uri' verifier' t (Some (snd (mem.run m' ops)))) \<noteq> Inr q) \<and>
    (redeemCode pf do_step c code client uri verifier now (Some d) = (Inr payload, Some d') \<longrightarrow>
      fst (redeemCode pf do_step c code' client' uri' verifier' t (Some (snd (durable.run d' ops)))) \<noteq> Inr q)"
proof -
  have ops: "0 < u \<and> u \<le> t \<and> \<not> (counts op \<and> op_key op = code_key payload)" if "(u, op) \<in> set ops" for u op
    using assms(5) that by (auto simp: list_all_iff)
  show ?thesis
  proof (intro conjI impI)
    assume "redeemCode pf mem_step c code client uri verifier now (Some m) = (Inr payload, Some m')"
    then show "fst (redeemCode pf mem_step c code' client' uri' verifier' t (Some (snd (mem.run m' ops)))) \<noteq> Inr q"
      by (rule mem.code_once [OF _ assms(1-4)]) (auto dest: ops assms(6))
  next
    assume "redeemCode pf do_step c code client uri verifier now (Some d) = (Inr payload, Some d')"
    then show "fst (redeemCode pf do_step c code' client' uri' verifier' t (Some (snd (durable.run d' ops)))) \<noteq> Inr q"
      by (rule durable.code_once [OF _ assms(1-4)]) (auto dest: ops assms(6))
  qed
qed

text \<open>C8: redemption is exactly the checks. For a code this deployment issued, redemption returns the minted payload exactly when the
  code has not expired, the client and the redirect URI are those of the authorisation request, the verifier is well formed and
  hashes to the challenge (where the request had one; a client exempt from PKCE has none), and the store, where one is
  configured, grants the claim on the code's identifier until a minute past its expiry.\<close>

theorem redeem_exact:
  assumes "platform_ok pf" "sha_short pf" "json_survives pf P" "c_secrets c \<noteq> []" "current_secret c \<noteq> []"
    and P: "P = code_payload c tx ses sub email jti t0" and code: "code = issueCode pf iv c tx ses sub email jti t0"
    and ch: "jget tx ''code_challenge'' = map_option JStr challenge" "length (coalesce challenge []) < 2 ^ 32" and jti: "jti \<noteq> []"
  shows "fst (redeemCode pf step c code client uri verifier clock store) = Inr P \<longleftrightarrow>
    nowSeconds clock \<le> t0 + tk_authorizationCodeTtlSeconds (c_tokens c) \<and>
    jget tx ''client_id'' = Some (JStr client) \<and>
    (\<exists>u. uri = Some u \<and> u \<noteq> [] \<and> jget tx ''redirect_uri'' = Some (JStr u)) \<and>
    (coalesce challenge [] = [] \<or> (\<exists>v. verifier = Some v \<and> pkce_text v \<and> sha256b64u pf v = coalesce challenge [])) \<and>
    (store = None \<or> fst (step (the store) clock (Claim (''authorization-code:'' @ jti)
        (t0 + tk_authorizationCodeTtlSeconds (c_tokens c) - nowSeconds clock + 60))) = Fresh True)"
  using assms by (rule redeem_iff)

theorem redeem_exact_witness:
  "fst (redeemCode (code_platform sample_payload) mem_step sample_config sample_code ''evil'' (Some ''https://app.example/cb'')
     (Some sample_verifier) 110000 (Some (createMemoryStore 5))) \<noteq> Inr sample_payload"
proof -
  have tx: "jget sample_tx ''client_id'' = Some (JStr ''app'')"
    "jget sample_tx ''code_challenge'' = map_option JStr (Some (sha256b64u (code_platform JNull) sample_verifier))"
    by (simp_all add: sample_tx_def)
  have len: "length (coalesce (Some (sha256b64u (code_platform JNull) sample_verifier)) []) < 2 ^ 32"
    using sample_challenge(2) by (simp add: coalesce_def)
  show ?thesis
    using redeem_exact [where step = mem_step and store = "Some (createMemoryStore 5)" and clock = 110000,
        OF sample_code_facts(1,3,2) sample_config_secret sample_payload_def sample_code_def tx(2) len,
        of "''evil''" "Some ''https://app.example/cb''" "Some sample_verifier"] tx(1)
    by simp
qed

end
