(* ===== verification/Ip.thy ===== *)
theory Ip
  imports Prelude "HOL-Library.Word"
begin

text \<open>
  Address classification for outbound requests, \<^verbatim>\<open>src/util/ip.js\<close>: dotted IPv4, IPv6 text with its
  compressed and embedded forms, and which addresses are public.
\<close>

unbundle bit_operations_syntax

definition ipv4_part_ok :: "string \<Rightarrow> bool" where
  "ipv4_part_ok part \<longleftrightarrow> 1 \<le> length part \<and> length part \<le> 3 \<and> list_all is_digit part \<and> read_nat part \<le> 255"

definition ipv4Number :: "string \<Rightarrow> nat option" where
  "ipv4Number value =
     (let parts = split_on (CHR ''.'') value
      in if length parts \<noteq> 4 \<or> list_ex (\<lambda>p. \<not> ipv4_part_ok p) parts then None
         else Some (fold (\<lambda>p n. n * 256 + read_nat p) parts 0))"

definition inV4Range :: "nat \<Rightarrow> nat \<Rightarrow> nat \<Rightarrow> bool" where
  "inV4Range number base bits \<longleftrightarrow> number \<ge> base \<and> number < base + 2 ^ (32 - bits)"

definition blocked_v4 :: "(string \<times> nat) list" where
  "blocked_v4 =
     [(''0.0.0.0'', 8), (''10.0.0.0'', 8), (''100.64.0.0'', 10), (''127.0.0.0'', 8), (''169.254.0.0'', 16), (''172.16.0.0'', 12),
      (''192.0.0.0'', 24), (''192.0.2.0'', 24), (''192.88.99.0'', 24), (''192.168.0.0'', 16), (''198.18.0.0'', 15),
      (''198.51.100.0'', 24), (''203.0.113.0'', 24), (''224.0.0.0'', 4), (''240.0.0.0'', 4)]"

definition isPublicIpv4 :: "string \<Rightarrow> bool" where
  "isPublicIpv4 value =
     (case ipv4Number value of None \<Rightarrow> False
      | Some n \<Rightarrow> \<not> list_ex (\<lambda>(base, bits). inV4Range n (the (ipv4Number base)) bits) blocked_v4)"

section \<open>IPv6\<close>

text \<open>\<open>n.toString(16)\<close> and \<open>parseInt(s, 16)\<close> on the groups that the code reads and writes.\<close>

definition hex_chars :: string where "hex_chars = ''0123456789abcdef''"

definition is_hex :: "char \<Rightarrow> bool" where
  "is_hex c \<longleftrightarrow> c \<in> set hex_chars"

function to_hex :: "nat \<Rightarrow> string" where
  "to_hex n = (if n < 16 then [hex_chars ! n] else to_hex (n div 16) @ [hex_chars ! (n mod 16)])"
  by pat_completeness auto
termination
  by (relation "measure (\<lambda>n. n)") auto

declare to_hex.simps [simp del]

definition from_hex :: "string \<Rightarrow> nat" where
  "from_hex s = fold (\<lambda>c n. n * 16 + coalesce (index_of c hex_chars) 0) s 0"

text \<open>\<open>text.split('::')\<close>: the parts between occurrences of a double colon, scanned from the left.\<close>

fun split_double :: "string \<Rightarrow> string \<Rightarrow> string list" where
  "split_double acc (a # b # rest) =
     (if a = CHR '':'' \<and> b = CHR '':'' then rev acc # split_double [] rest else split_double (a # acc) (b # rest))"
| "split_double acc [a] = [rev (a # acc)]"
| "split_double acc [] = [rev acc]"

text \<open>The dotted tail after the start or a colon, \<open>/(?:^|:)(\d+\.\d+\.\d+\.\d+)$/\<close>: the longest suffix of digits and
  dots, when it is preceded by nothing or a colon and has four non-empty parts.\<close>

definition dotted_tail :: "string \<Rightarrow> string option" where
  "dotted_tail text =
     (let tail = rev (takeWhile (\<lambda>c. is_digit c \<or> c = CHR ''.'') (rev text));
          before = take (length text - length tail) text;
          parts = split_on (CHR ''.'') tail
      in if (before = [] \<or> last before = CHR '':'') \<and> length parts = 4 \<and> list_all (\<lambda>p. p \<noteq> []) parts then Some tail else None)"

definition group_ok :: "string \<Rightarrow> bool" where
  "group_ok part \<longleftrightarrow> 1 \<le> length part \<and> length part \<le> 4 \<and> list_all is_hex part"

definition unbracket :: "string \<Rightarrow> string" where
  "unbracket text = (if starts_with text ''['' \<and> ends_with text '']'' then take (length text - 2) (drop 1 text) else text)"

definition expand_groups :: "string \<Rightarrow> nat list option" where
  "expand_groups text =
     (let pieces = split_double [] text
      in if length pieces > 2 then None
         else (let left = hd pieces; right = (if length pieces = 2 then pieces ! 1 else []);
                   before = (if left = [] then [] else split_on (CHR '':'') left);
                   after = (if right = [] then [] else split_on (CHR '':'') right)
               in if list_ex (\<lambda>p. \<not> group_ok p) before \<or> list_ex (\<lambda>p. \<not> group_ok p) after then None
                  else (let missing = 8 - int (length before) - int (length after)
                        in if (length pieces = 2 \<and> missing < 1) \<or> (length pieces \<noteq> 2 \<and> missing \<noteq> 0) then None
                           else Some (map from_hex (before @ replicate (nat missing) ''0'' @ after)))))"

definition ipv6Parts :: "string \<Rightarrow> nat list option" where
  "ipv6Parts value =
     (let text = takeWhile (\<lambda>c. c \<noteq> CHR ''%'') (unbracket (to_lower value))
      in case dotted_tail text of
           None \<Rightarrow> expand_groups text
         | Some v4 \<Rightarrow>
             (case ipv4Number v4 of None \<Rightarrow> None
              | Some n \<Rightarrow> expand_groups (take (length text - length v4) text @ to_hex (n div 65536 mod 65536) @ '':'' @ to_hex (n mod 65536))))"

definition isLoopbackIp :: "string \<Rightarrow> bool" where
  "isLoopbackIp value =
     (case ipv4Number value of Some v4 \<Rightarrow> inV4Range v4 (the (ipv4Number ''127.0.0.0'')) 8
      | None \<Rightarrow> (case ipv6Parts value of None \<Rightarrow> False
                | Some parts \<Rightarrow> list_all (\<lambda>p. p = 0) (take 7 parts) \<and> parts ! 7 = 1))"

definition dotted :: "nat list \<Rightarrow> string" where
  "dotted ps = join ''.'' (map show_nat ps)"

definition isPublicIpv6 :: "string \<Rightarrow> bool" where
  "isPublicIpv6 value =
     (case ipv6Parts value of None \<Rightarrow> False
      | Some p \<Rightarrow>
          if list_all (\<lambda>x. x = 0) (take 5 p) \<and> p ! 5 = 0xffff
          then isPublicIpv4 (dotted [p ! 6 div 256, p ! 6 mod 256, p ! 7 div 256, p ! 7 mod 256])
          else if p ! 0 = 0x2002 then isPublicIpv4 (dotted [p ! 1 div 256, p ! 1 mod 256, p ! 2 div 256, p ! 2 mod 256])
          else if p ! 0 = 0x2001 \<and> p ! 1 = 0
          then isPublicIpv4 (dotted [255 - p ! 6 div 256, 255 - p ! 6 mod 256, 255 - p ! 7 div 256, 255 - p ! 7 mod 256])
          else p ! 0 AND 0xe000 = 0x2000 \<and> \<not> (p ! 0 = 0x2001 \<and> p ! 1 = 0x0db8) \<and>
               \<not> (p ! 0 = 0x2001 \<and> p ! 1 = 2 \<and> p ! 2 = 0))"

definition isPublicIp :: "string \<Rightarrow> bool" where
  "isPublicIp value = (if CHR '':'' \<in> set value then isPublicIpv6 value else isPublicIpv4 value)"

definition isIpAddress :: "string \<Rightarrow> bool" where
  "isIpAddress value \<longleftrightarrow> ipv4Number value \<noteq> None \<or> ipv6Parts value \<noteq> None"

section \<open>IPv4 by octets\<close>

lemma show_octet:
  assumes "p \<le> 255"
  shows "ipv4_part_ok (show_nat p)" "CHR ''.'' \<notin> set (show_nat p)"
proof -
  have len: "length (show_nat p) \<le> 3"
    using length_show_nat [of p 3] assms by simp
  have ne: "show_nat p \<noteq> []" by (subst show_nat.simps) simp
  have dig: "list_all is_digit (show_nat p)" using show_nat_digits by (auto simp: list_all_iff)
  show "ipv4_part_ok (show_nat p)"
    using len ne dig assms by (simp add: ipv4_part_ok_def Suc_le_eq)
  have "\<not> is_digit (CHR ''.'')" by code_simp
  with dig show "CHR ''.'' \<notin> set (show_nat p)" by (auto simp: list_all_iff)
qed

lemma ipv4Number_dotted:
  assumes "a \<le> 255" "b \<le> 255" "c \<le> 255" "d \<le> 255"
  shows "ipv4Number (dotted [a, b, c, d]) = Some (((a * 256 + b) * 256 + c) * 256 + d)"
proof -
  have "split_on (CHR ''.'') (dotted [a, b, c, d]) = map show_nat [a, b, c, d]"
    unfolding dotted_def using show_octet assms by (intro split_on_join) auto
  with show_octet assms show ?thesis by (simp add: ipv4Number_def)
qed

text \<open>The blocks by octets.\<close>

definition reserved_octets :: "nat \<Rightarrow> nat \<Rightarrow> nat \<Rightarrow> bool" where
  "reserved_octets a b c \<longleftrightarrow>
     a = 0 \<or> a = 10 \<or> a = 127 \<or> (a = 100 \<and> 64 \<le> b \<and> b \<le> 127) \<or> (a = 169 \<and> b = 254) \<or> (a = 172 \<and> 16 \<le> b \<and> b \<le> 31) \<or>
     (a = 192 \<and> b = 0 \<and> (c = 0 \<or> c = 2)) \<or> (a = 192 \<and> b = 88 \<and> c = 99) \<or> (a = 192 \<and> b = 168) \<or>
     (a = 198 \<and> (b = 18 \<or> b = 19)) \<or> (a = 198 \<and> b = 51 \<and> c = 100) \<or> (a = 203 \<and> b = 0 \<and> c = 113) \<or> 224 \<le> a"

text \<open>A block of a power of two is a test on the quotient, and the quotients of a dotted number are its
  leading octets.\<close>

lemma block_quotient:
  "0 < (q::nat) \<Longrightarrow> n \<ge> b * q \<and> n < b * q + m * q \<longleftrightarrow> b \<le> n div q \<and> n div q < b + m"
  by (simp add: less_eq_div_iff_mult_less_eq div_less_iff_less_mult distrib_right)

lemma low_octet: "y \<le> 255 \<Longrightarrow> (x * 256 + y) div 256 = (x::nat)" "y \<le> 255 \<Longrightarrow> (x * 256 + y) mod 256 = y"
  by simp_all

definition v4 :: "nat \<Rightarrow> nat \<Rightarrow> nat \<Rightarrow> nat \<Rightarrow> nat" where
  "v4 a b c d = ((a * 256 + b) * 256 + c) * 256 + d"

lemma octet_quotients:
  assumes "b \<le> 255" "c \<le> 255" "d \<le> 255"
  shows "v4 a b c d div 256 = (a * 256 + b) * 256 + c"
    and "v4 a b c d div 65536 = a * 256 + b"
    and "v4 a b c d div 16777216 = a"
proof -
  show q1: "v4 a b c d div 256 = (a * 256 + b) * 256 + c"
    unfolding v4_def by (rule low_octet (1) [OF assms (3)])
  have "v4 a b c d div 65536 = v4 a b c d div 256 div 256"
    by (simp only: div_mult2_eq [symmetric]) simp
  with q1 low_octet (1) [OF assms (2)] show q2: "v4 a b c d div 65536 = a * 256 + b" by simp
  have "v4 a b c d div 16777216 = v4 a b c d div 65536 div 256"
    by (simp only: div_mult2_eq [symmetric]) simp
  with q2 low_octet (1) [OF assms (1)] show "v4 a b c d div 16777216 = a" by simp
qed

lemma pair_range:
  assumes "b \<le> 255" "l + m \<le> (256::nat)" "0 < m"
  shows "k * 256 + l \<le> a * 256 + b \<and> a * 256 + b < k * 256 + l + m \<longleftrightarrow> a = k \<and> l \<le> b \<and> b < l + m"
  by (cases a k rule: linorder_cases) (use assms in auto)

lemma pair_eq: "y \<le> 255 \<Longrightarrow> y' \<le> 255 \<Longrightarrow> x * 256 + y = x' * 256 + y' \<longleftrightarrow> x = x' \<and> y = (y'::nat)"
  by (metis low_octet)

lemma inV4Range_quotient:
  assumes "2 ^ (32 - bits) = m * q" "0 < q"
  shows "inV4Range n (b * q) bits \<longleftrightarrow> b \<le> n div q \<and> n div q < b + m"
  using block_quotient [of q b n m] assms by (simp add: inV4Range_def)

lemma inV4Range_8:
  assumes "b \<le> 255" "c \<le> 255" "d \<le> 255"
  shows "inV4Range (v4 a b c d) (v4 k 0 0 0) 8 \<longleftrightarrow> a = k" "inV4Range (v4 a b c d) (v4 k 0 0 0) 4 \<longleftrightarrow> k \<le> a \<and> a < k + 16"
proof -
  have k: "v4 k 0 0 0 = k * 16777216" by (simp add: v4_def)
  have "inV4Range (v4 a b c d) (k * 16777216) 8 \<longleftrightarrow> k \<le> a \<and> a < k + 1"
    by (subst inV4Range_quotient [where m = 1]) (simp_all add: octet_quotients [OF assms])
  then show "inV4Range (v4 a b c d) (v4 k 0 0 0) 8 \<longleftrightarrow> a = k" unfolding k by auto
  show "inV4Range (v4 a b c d) (v4 k 0 0 0) 4 \<longleftrightarrow> k \<le> a \<and> a < k + 16"
    unfolding k by (subst inV4Range_quotient [where m = 16]) (simp_all add: octet_quotients [OF assms])
qed

lemma inV4Range_16:
  assumes "b \<le> 255" "c \<le> 255" "d \<le> 255" "2 ^ (32 - bits) = m * 65536" "l + m \<le> 256" "0 < m"
  shows "inV4Range (v4 a b c d) (v4 k l 0 0) bits \<longleftrightarrow> a = k \<and> l \<le> b \<and> b < l + m"
proof -
  have k: "v4 k l 0 0 = (k * 256 + l) * 65536" by (simp add: v4_def)
  show ?thesis
    unfolding k inV4Range_quotient [OF assms (4) zero_less_numeral] octet_quotients (2) [OF assms (1-3)]
    by (rule pair_range [OF assms (1,5,6)])
qed

lemma inV4Range_24:
  assumes "b \<le> 255" "c \<le> 255" "d \<le> 255" "l \<le> 255" "m \<le> 255"
  shows "inV4Range (v4 a b c d) (v4 k l m 0) 24 \<longleftrightarrow> a = k \<and> b = l \<and> c = m"
proof -
  have k: "v4 k l m 0 = ((k * 256 + l) * 256 + m) * 256" by (simp only: v4_def add_0_right)
  have q: "(2::nat) ^ (32 - 24) = 1 * 256" by simp
  have "inV4Range (v4 a b c d) (v4 k l m 0) 24 \<longleftrightarrow> (k * 256 + l) * 256 + m = (a * 256 + b) * 256 + c"
    unfolding k inV4Range_quotient [OF q zero_less_numeral] octet_quotients (1) [OF assms (1-3)] by linarith
  also have "\<dots> \<longleftrightarrow> a = k \<and> b = l \<and> c = m"
    using pair_eq [OF assms (5,2)] pair_eq [OF assms (4,1)] by metis
  finally show ?thesis .
qed

lemma blocked_numbers:
  "map (\<lambda>(base, bits). (the (ipv4Number base), bits)) blocked_v4 =
     [(v4 0 0 0 0, 8), (v4 10 0 0 0, 8), (v4 100 64 0 0, 10), (v4 127 0 0 0, 8), (v4 169 254 0 0, 16), (v4 172 16 0 0, 12),
      (v4 192 0 0 0, 24), (v4 192 0 2 0, 24), (v4 192 88 99 0, 24), (v4 192 168 0 0, 16), (v4 198 18 0 0, 15),
      (v4 198 51 100 0, 24), (v4 203 0 113 0, 24), (v4 224 0 0 0, 4), (v4 240 0 0 0, 4)]"
  by code_simp

lemma blocked_exact:
  assumes "a \<le> 255" "b \<le> 255" "c \<le> 255" "d \<le> 255"
  shows "list_ex (\<lambda>(base, bits). inV4Range (v4 a b c d) (the (ipv4Number base)) bits) blocked_v4 \<longleftrightarrow> reserved_octets a b c"
proof -
  have "list_ex (\<lambda>(base, bits). inV4Range (v4 a b c d) (the (ipv4Number base)) bits) blocked_v4 =
      list_ex (\<lambda>(base, bits). inV4Range (v4 a b c d) base bits) (map (\<lambda>(base, bits). (the (ipv4Number base), bits)) blocked_v4)"
    by (simp add: list_ex_iff split_beta)
  also have "\<dots> = reserved_octets a b c"
    unfolding blocked_numbers reserved_octets_def
    using assms
    by (simp add: inV4Range_8 inV4Range_24 inV4Range_16 [where m = 64] inV4Range_16 [where m = 1]
        inV4Range_16 [where m = 2] inV4Range_16 [where m = 16]) arith
  finally show ?thesis .
qed

text \<open>One octet as it is written: a decimal numeral of at most three digits, with or without leading zeros.\<close>

definition octet_text :: "string \<Rightarrow> nat \<Rightarrow> bool" where
  "octet_text s a \<longleftrightarrow> a \<le> 255 \<and> length s \<le> 3 \<and> (\<exists>k. s = replicate k CHR ''0'' @ show_nat a)"

lemma octet_text_iff: "octet_text s a \<longleftrightarrow> ipv4_part_ok s \<and> read_nat s = a"
proof
  assume "octet_text s a"
  then obtain k where k: "s = replicate k CHR ''0'' @ show_nat a" "a \<le> 255" "length s \<le> 3" by (auto simp: octet_text_def)
  have "list_all is_digit s" using show_nat_digits by (auto simp: k(1) list_all_iff is_digit_def split: if_splits)
  moreover have "1 \<le> length s" using show_nat_not_Nil [of a] by (simp add: k(1) Suc_le_eq)
  ultimately show "ipv4_part_ok s \<and> read_nat s = a" using k read_nat_padded by (simp add: ipv4_part_ok_def)
next
  assume "ipv4_part_ok s \<and> read_nat s = a"
  moreover from this have "s \<noteq> []" by (auto simp: ipv4_part_ok_def)
  ultimately show "octet_text s a" using digits_padded [of s] by (simp add: ipv4_part_ok_def octet_text_def)
qed

lemma octet_text_no_dot: "octet_text s a \<Longrightarrow> CHR ''.'' \<notin> set s"
  by (auto simp: octet_text_iff ipv4_part_ok_def list_all_iff is_digit_def)

lemma ipv4Number_iff:
  "ipv4Number v = Some n \<longleftrightarrow> (\<exists>p q r s a b c d. v = p @ ''.'' @ q @ ''.'' @ r @ ''.'' @ s \<and>
     octet_text p a \<and> octet_text q b \<and> octet_text r c \<and> octet_text s d \<and> n = v4 a b c d)"
proof
  assume n: "ipv4Number v = Some n"
  then have "length (split_on (CHR ''.'') v) = 4" by (auto simp: ipv4Number_def Let_def split: if_splits)
  then obtain p q r s where parts: "split_on (CHR ''.'') v = [p, q, r, s]" by (auto simp: length_Suc_conv numeral_eq_Suc)
  then have "v = p @ ''.'' @ q @ ''.'' @ r @ ''.'' @ s" using join_split_on [of "CHR ''.''" v] by simp
  with n parts show "\<exists>p q r s a b c d. v = p @ ''.'' @ q @ ''.'' @ r @ ''.'' @ s \<and>
     octet_text p a \<and> octet_text q b \<and> octet_text r c \<and> octet_text s d \<and> n = v4 a b c d"
    by (auto simp: ipv4Number_def octet_text_iff v4_def split: if_splits)
next
  assume "\<exists>p q r s a b c d. v = p @ ''.'' @ q @ ''.'' @ r @ ''.'' @ s \<and>
     octet_text p a \<and> octet_text q b \<and> octet_text r c \<and> octet_text s d \<and> n = v4 a b c d"
  then obtain p q r s a b c d where v: "v = p @ ''.'' @ q @ ''.'' @ r @ ''.'' @ s"
    and o: "octet_text p a" "octet_text q b" "octet_text r c" "octet_text s d" and n: "n = v4 a b c d" by blast
  have "split_on (CHR ''.'') v = [p, q, r, s]"
    using octet_text_no_dot [OF o(1)] octet_text_no_dot [OF o(2)] octet_text_no_dot [OF o(3)] octet_text_no_dot [OF o(4)]
    by (simp add: v split_on_append_sep split_on_no_sep)
  with o n show "ipv4Number v = Some n" by (simp add: ipv4Number_def octet_text_iff v4_def)
qed

text \<open>C30: the IPv4 test of outbound requests is exact. A text is accepted exactly when it is four decimal octets between dots, each
  of at most three digits (leading zeros count as nothing), and the address lies outside every reserved block (this network,
  private, shared, loopback, link local, protocol assignments, documentation, relays, benchmarks, multicast and reserved).\<close>

theorem isPublicIpv4_exact:
  "isPublicIpv4 v \<longleftrightarrow>
     (\<exists>p q r s a b c d. v = p @ ''.'' @ q @ ''.'' @ r @ ''.'' @ s \<and>
        octet_text p a \<and> octet_text q b \<and> octet_text r c \<and> octet_text s d \<and> \<not> reserved_octets a b c)"
proof -
  have "isPublicIpv4 v \<longleftrightarrow> (\<exists>n. ipv4Number v = Some n \<and>
      \<not> list_ex (\<lambda>(base, bits). inV4Range n (the (ipv4Number base)) bits) blocked_v4)"
    by (simp add: isPublicIpv4_def split: option.split)
  also have "\<dots> \<longleftrightarrow> (\<exists>p q r s a b c d. v = p @ ''.'' @ q @ ''.'' @ r @ ''.'' @ s \<and>
        octet_text p a \<and> octet_text q b \<and> octet_text r c \<and> octet_text s d \<and> \<not> reserved_octets a b c)"
    unfolding ipv4Number_iff using blocked_exact unfolding octet_text_def by blast
  finally show ?thesis .
qed

end
