(* ===== verification/Bounded_Cache.thy ===== *)
theory Bounded_Cache
  imports Prelude
begin

text \<open>
  The in-process caches of the gateway are insertion-ordered maps from a key to a value and a deadline,
  with a cap on their size. This theory states what a reader of such a cache may rely on as a locale: a hit
  is the value last stored under that key, is younger than its lifetime, and the size never passes the
  cap. The components that keep a cache interpret it on their own operations.
\<close>

type_synonym 'v cache = "(string \<times> ('v \<times> int)) list"

text \<open>\<open>const hit = entries.get(key); hit && hit.expiresAt > now\<close>.\<close>

definition cache_get :: "'v cache \<Rightarrow> int \<Rightarrow> string \<Rightarrow> 'v option" where
  "cache_get c now k = (case map_of c k of None \<Rightarrow> None | Some (v, expires) \<Rightarrow> if expires > now then Some v else None)"

text \<open>Deleting what has expired, and the first key of the insertion order.\<close>

definition drop_expired :: "int \<Rightarrow> 'v cache \<Rightarrow> 'v cache" where
  "drop_expired now c = filter (\<lambda>(k, v, expires). \<not> expires \<le> now) c"

definition drop_oldest :: "'v cache \<Rightarrow> 'v cache" where
  "drop_oldest c = (case c of [] \<Rightarrow> [] | (k, _) # _ \<Rightarrow> AList.delete k c)"

section \<open>The interface\<close>

locale bounded_cache =
  fixes put :: "'v cache \<Rightarrow> int \<Rightarrow> string \<Rightarrow> 'v \<Rightarrow> int \<Rightarrow> 'v cache"
    and cap :: nat
  assumes put_wf: "distinct (map fst c) \<Longrightarrow> distinct (map fst (put c t k v ttl))"
    and put_size: "length c \<le> cap \<Longrightarrow> distinct (map fst c) \<Longrightarrow> length (put c t k v ttl) \<le> cap"
    and put_same: "0 < ttl \<Longrightarrow> distinct (map fst c) \<Longrightarrow> map_of (put c t k v ttl) k = Some (v, t + ttl)"
    and put_other: "k' \<noteq> k \<Longrightarrow> distinct (map fst c) \<Longrightarrow> map_of (put c t k v ttl) k' = Some e \<Longrightarrow> map_of c k' = Some e"
begin

text \<open>A history of stores, newest first: the time, the key, the value and its lifetime.\<close>

fun build :: "(int \<times> string \<times> 'v \<times> int) list \<Rightarrow> 'v cache" where
  "build [] = []"
| "build ((t, k, v, ttl) # h) = put (build h) t k v ttl"

fun latest :: "string \<Rightarrow> (int \<times> string \<times> 'v \<times> int) list \<Rightarrow> (int \<times> 'v \<times> int) option" where
  "latest k [] = None"
| "latest k ((t, k', v, ttl) # h) = (if k = k' then Some (t, v, ttl) else latest k h)"

lemma build_wf: "distinct (map fst (build h))"
  by (induction h rule: build.induct) (simp_all add: put_wf)

lemma build_size: "length (build h) \<le> cap"
  by (induction h rule: build.induct) (simp_all add: put_size build_wf)

lemma build_entry:
  "\<forall>(t, k, v, ttl)\<in>set h. 0 < ttl \<Longrightarrow> map_of (build h) k = Some (v, e) \<Longrightarrow>
     \<exists>t ttl. latest k h = Some (t, v, ttl) \<and> e = t + ttl"
proof (induction h rule: build.induct)
  case (2 t k' w ttl h)
  show ?case
  proof (cases "k = k'")
    case True
    with 2 show ?thesis using put_same [of ttl "build h" t k' w] build_wf by auto
  next
    case False
    with 2 have "map_of (build h) k = Some (v, e)" using put_other build_wf by fastforce
    with 2 False show ?thesis by auto
  qed
qed simp

lemma hit_is_latest:
  "\<forall>(t, k, v, ttl)\<in>set h. 0 < ttl \<Longrightarrow> cache_get (build h) now k = Some v \<Longrightarrow>
     \<exists>t ttl. latest k h = Some (t, v, ttl) \<and> now < t + ttl"
  using build_entry [of h k] by (auto simp: cache_get_def split: option.splits if_splits)

end

section \<open>The shared steps\<close>

lemma distinct_drop_expired: "distinct (map fst c) \<Longrightarrow> distinct (map fst (drop_expired now c))"
  by (simp add: drop_expired_def distinct_filter_fst)

lemma length_drop_expired: "length (drop_expired now c) \<le> length c"
  by (simp add: drop_expired_def)

lemma map_of_drop_expired:
  "distinct (map fst c) \<Longrightarrow> map_of (drop_expired now c) k = Some e \<Longrightarrow> map_of c k = Some e"
  by (auto simp: drop_expired_def map_of_filter_keep split: option.splits if_splits)

lemma drop_oldest_tl: "distinct (map fst c) \<Longrightarrow> drop_oldest c = tl c"
  by (cases c) (force simp: drop_oldest_def AList.delete_eq filter_id_conv)+

lemma drop_oldest_facts:
  assumes "distinct (map fst c)"
  shows "distinct (map fst (drop_oldest c))" "length (drop_oldest c) = length c - 1"
    and "map_of (drop_oldest c) k = Some e \<Longrightarrow> map_of c k = Some e"
proof -
  show "distinct (map fst (drop_oldest c))" "length (drop_oldest c) = length c - 1"
    using assms by (simp_all add: drop_oldest_tl map_tl distinct_tl)
  assume "map_of (drop_oldest c) k = Some e"
  then have "(k, e) \<in> set c" using assms by (cases c) (auto simp: drop_oldest_tl dest: map_of_SomeD)
  with assms show "map_of c k = Some e" by simp
qed

lemmas cache_laws = distinct_drop_expired length_drop_expired map_of_drop_expired drop_oldest_facts

end
