(* ===== verification/Sigv4.thy ===== *)
theory Sigv4
  imports Sealing Http "HOL-Library.List_Lexorder" "HOL-Library.Char_ord" "HOL-Library.Product_Lexorder" "HOL-Library.Multiset"
begin

text \<open>
  AWS Signature Version 4, \<^verbatim>\<open>src/crypto/sigv4.js\<close>: the canonical request, the string to sign and the chained
  keys. \<open>new URL\<close> is the parser parameter; the host and the query pairs of the signed URL, which the
  \<^typ>\<open>url\<close> record does not keep, are arguments.
\<close>

section \<open>Encoding\<close>

definition rfc3986_unreserved :: "char \<Rightarrow> bool" where
  "rfc3986_unreserved c \<longleftrightarrow> is_alnum c \<or> c \<in> set ''-._~''"

definition encodeRfc3986 :: "string \<Rightarrow> string" where
  "encodeRfc3986 value =
     concat (map (\<lambda>c. if rfc3986_unreserved c then [c] else CHR ''%'' # to_upper (hex_byte (of_nat (of_char c)))) value)"

definition canonicalQuery :: "params \<Rightarrow> string" where
  "canonicalQuery ps =
     join ''&'' (map (\<lambda>(k, v). k @ ''='' @ v) (sort (map (\<lambda>(k, v). (encodeRfc3986 k, encodeRfc3986 v)) ps)))"

section \<open>Dates\<close>

text \<open>The proleptic Gregorian date of a day number since 1 January 1970, as \<open>toISOString\<close> prints it; the
  stamp drops its separators and its milliseconds.\<close>

definition civil_date :: "int \<Rightarrow> int \<times> int \<times> int" where
  "civil_date days =
     (let z = days + 719468; era = z div 146097; doe = z mod 146097;
          yoe = (doe - doe div 1460 + doe div 36524 - doe div 146096) div 365;
          doy = doe - (365 * yoe + yoe div 4 - yoe div 100); mp = (5 * doy + 2) div 153;
          d = doy - (153 * mp + 2) div 5 + 1; m = (if mp < 10 then mp + 3 else mp - 9)
      in (yoe + era * 400 + (if m \<le> 2 then 1 else 0), m, d))"

definition two_digits :: "int \<Rightarrow> string" where
  "two_digits n = pad_start 2 (CHR ''0'') (show_int n)"

definition amzDate :: "int \<Rightarrow> string" where
  "amzDate ms =
     (let s = ms div 1000; (y, m, d) = civil_date (s div 86400); t = s mod 86400
      in pad_start 4 (CHR ''0'') (show_int y) @ two_digits m @ two_digits d @ ''T'' @
         two_digits (t div 3600) @ two_digits (t mod 3600 div 60) @ two_digits (t mod 60) @ ''Z'')"

section \<open>Signing\<close>

record credentials =
  cr_accessKeyId :: string
  cr_secretAccessKey :: string
  cr_sessionToken :: "string option"

record sign_args =
  sa_method :: string
  sa_host :: string
  sa_pathname :: string
  sa_query :: params
  sa_body :: string
  sa_service :: string
  sa_region :: string
  sa_credentials :: "credentials option"
  sa_headers :: headers
  sa_includeContentSha256 :: bool

definition credentialsFromEnv :: "(string \<times> string) list \<Rightarrow> credentials option" where
  "credentialsFromEnv env =
     (case (or_str (map_of env ''AWS_ACCESS_KEY_ID'') [], or_str (map_of env ''AWS_SECRET_ACCESS_KEY'') []) of
        (a, s) \<Rightarrow> if a = [] \<or> s = [] then None
                 else Some \<lparr>cr_accessKeyId = a, cr_secretAccessKey = s,
                   cr_sessionToken = (if str_truthy (map_of env ''AWS_SESSION_TOKEN'') then map_of env ''AWS_SESSION_TOKEN'' else None)\<rparr>)"

definition signed_header_map :: "platform \<Rightarrow> sign_args \<Rightarrow> credentials \<Rightarrow> string \<Rightarrow> headers" where
  "signed_header_map pf a cr stamp =
     spread ([(''host'', sa_host a), (''x-amz-date'', stamp)] @
             (if sa_includeContentSha256 a then [(''x-amz-content-sha256'', sha256hex pf (sa_body a))] else []) @
             (if str_truthy (cr_sessionToken cr) then [(''x-amz-security-token'', the (cr_sessionToken cr))] else []))
            (map (\<lambda>(k, v). (to_lower k, trim v)) (sa_headers a))"

definition canonical_request :: "platform \<Rightarrow> sign_args \<Rightarrow> headers \<Rightarrow> string" where
  "canonical_request pf a hs =
     (let names = sort (map fst hs)
      in join [CHR 10]
           [to_upper (sa_method a), if sa_pathname a = [] then ''/'' else sa_pathname a, canonicalQuery (sa_query a),
            concat (map (\<lambda>n. n @ '':'' @ the (map_of hs n) @ [CHR 10]) names), join '';'' names, sha256hex pf (sa_body a)])"

definition signing_key :: "platform \<Rightarrow> credentials \<Rightarrow> string \<Rightarrow> string \<Rightarrow> string \<Rightarrow> bytes" where
  "signing_key pf cr dateStamp region service =
     hmac pf (hmac pf (hmac pf (hmac pf (utf8 (''AWS4'' @ cr_secretAccessKey cr)) dateStamp) region) service) ''aws4_request''"

definition signRequest :: "platform \<Rightarrow> int \<Rightarrow> sign_args \<Rightarrow> (string, headers) result" where
  "signRequest pf now a =
     (case sa_credentials a of None \<Rightarrow> Inl (''AWS credentials are required to sign a '' @ sa_service a @ '' request'')
      | Some cr \<Rightarrow>
          (let stamp = amzDate now; dateStamp = take 8 stamp; hs = signed_header_map pf a cr stamp;
               scope = join ''/'' [dateStamp, sa_region a, sa_service a, ''aws4_request''];
               toSign = join [CHR 10] [''AWS4-HMAC-SHA256'', stamp, scope, sha256hex pf (canonical_request pf a hs)];
               signature = toHex (hmac pf (signing_key pf cr dateStamp (sa_region a) (sa_service a)) toSign)
           in Inr (AList.update ''authorization''
                (''AWS4-HMAC-SHA256 Credential='' @ cr_accessKeyId cr @ ''/'' @ scope @ '', SignedHeaders='' @
                 join '';'' (sort (map fst hs)) @ '', Signature='' @ signature) hs)))"

section \<open>Facts\<close>

lemma amzDate_examples:
  "amzDate 0 = ''19700101T000000Z''" "amzDate 1787393730123 = ''20260822T101530Z''" "amzDate 951782400000 = ''20000229T000000Z''"
  by code_simp+

text \<open>Pairs are compared as the sort of the code compares them: by encoded key, then by encoded value, so the
  canonical query does not depend on the order of the parameters.\<close>

lemma canonicalQuery_order:
  "mset ps = mset qs \<Longrightarrow> canonicalQuery ps = canonicalQuery qs"
proof -
  assume "mset ps = mset qs"
  then have "sort (map f ps) = sort (map f qs)" for f :: "string \<times> string \<Rightarrow> string \<times> string"
    by (intro properties_for_sort) simp_all
  then show ?thesis by (simp add: canonicalQuery_def)
qed

end
