(* ===== verification/Client_Store.thy ===== *)
theory Client_Store
  imports Bounded_Cache Sigv4
begin

text \<open>
  Relying parties held outside the environment, \<^verbatim>\<open>src/clients/store.js\<close>: records in a bound key-value store
  or an S3 bucket, read through a bounded cache that also remembers misses. Every operation is given the
  time of the request in seconds; the two clock reads of one lookup are the same instant.
\<close>

section \<open>Records\<close>

definition safe_key_char :: "char \<Rightarrow> bool" where
  "safe_key_char c \<longleftrightarrow> is_alnum c \<or> c \<in> set ''._~:-''"

definition safeKey :: "string \<Rightarrow> string option" where
  "safeKey clientId =
     (if 1 \<le> length clientId \<and> length clientId \<le> 128 \<and> list_all safe_key_char clientId then Some clientId else None)"

text \<open>A field used as a string that holds another type reads as absent.\<close>

definition str_of :: "json option \<Rightarrow> string option" where
  "str_of v = (if truthy v then as_str v else None)"

definition record_auth_method :: "json \<Rightarrow> string" where
  "record_auth_method doc =
     coalesce (str_of (jor (jget doc ''token_endpoint_auth_method'') (jget doc ''tokenEndpointAuthMethod'')))
       (if truthy (jor (jget doc ''client_secret_digest'') (jget doc ''clientSecretDigest'')) then ''client_secret_basic''
        else if truthy (jor (jget doc ''jwks'') (jget doc ''jwks_uri'')) then ''private_key_jwt'' else ''none'')"

definition fromRecord :: "string \<Rightarrow> json option \<Rightarrow> client option" where
  "fromRecord clientId value =
     (case value of None \<Rightarrow> None
      | Some doc \<Rightarrow>
          (let redirectUris = jor (jget doc ''redirect_uris'') (jget doc ''redirectUris'');
               sessionScope = jor (jget doc ''session_scope'') (jget doc ''sessionScope'')
           in case redirectUris of
                Some (JArr (u # us)) \<Rightarrow>
                  if sessionScope \<noteq> None \<and> sessionScope \<noteq> Some (JStr ''shared'') \<and> sessionScope \<noteq> Some (JStr ''rp'') then None
                  else Some \<lparr>cl_source = ''store'', cl_clientId = clientId,
                    cl_clientName = or_str (str_of (jor (jget doc ''client_name'') (jget doc ''clientName''))) [],
                    cl_clientSecret = None,
                    cl_clientSecretDigest = str_of (jor (jget doc ''client_secret_digest'') (jget doc ''clientSecretDigest'')),
                    cl_redirectUris = map js_text (u # us),
                    cl_postLogoutRedirectUris =
                      js_elements (jor (jget doc ''post_logout_redirect_uris'') (jget doc ''postLogoutRedirectUris'')),
                    cl_jwks = jget doc ''jwks'',
                    cl_jwksUri = str_of (jor (jget doc ''jwks_uri'') (jget doc ''jwksUri'')),
                    cl_tokenEndpointAuthMethod = record_auth_method doc,
                    cl_scopes = (case jget doc ''scope'' of Some (JStr s) \<Rightarrow> Some (words s)
                                 | _ \<Rightarrow> (case jget doc ''scopes'' of Some (JArr xs) \<Rightarrow> Some (map js_text xs) | _ \<Rightarrow> None)),
                    cl_acrValues = js_elements (jor (jget doc ''acr_values'') (jget doc ''acrValues'')),
                    cl_idTokenSignedResponseAlg =
                      str_of (jor (jget doc ''id_token_signed_response_alg'') (jget doc ''idTokenSignedResponseAlg'')),
                    cl_sessionScope = as_str sessionScope,
                    cl_logoutConfirm = str_of (jor (jget doc ''logout_confirm'') (jget doc ''logoutConfirm'')),
                    cl_subjectType = str_of (jor (jget doc ''subject_type'') (jget doc ''subjectType'')),
                    cl_sectorIdentifier = str_of (jor (jget doc ''sector_identifier'') (jget doc ''sectorIdentifier'')),
                    cl_sanitisePlusEmails =
                      as_bool (jnull (jget doc ''sanitise_plus_emails'') (jget doc ''sanitisePlusEmails'')),
                    cl_requirePkce =
                      (jnull (jget doc ''require_pkce'') (jget doc ''requirePkce'') \<noteq> Some (JBool False)),
                    cl_logoUri = str_of (jor (jget doc ''logo_uri'') (jget doc ''logoUri'')),
                    cl_policyUri = str_of (jor (jget doc ''policy_uri'') (jget doc ''policyUri'')),
                    cl_tosUri = str_of (jor (jget doc ''tos_uri'') (jget doc ''tosUri''))\<rparr>
              | _ \<Rightarrow> None))"

section \<open>The cache\<close>

definition MISS_TTL_SECONDS :: int where "MISS_TTL_SECONDS = 10"
definition MAX_S3_RECORD_BYTES :: int where "MAX_S3_RECORD_BYTES = 64 * 1024"
definition MAX_CACHED :: nat where "MAX_CACHED = 500"

definition evict_client :: "int \<Rightarrow> 'v cache \<Rightarrow> 'v cache" where
  "evict_client now c = (let kept = drop_expired now c in if length kept < length c then kept else drop_oldest c)"

definition store_client :: "'v cache \<Rightarrow> int \<Rightarrow> string \<Rightarrow> 'v \<Rightarrow> int \<Rightarrow> 'v cache" where
  "store_client c now clientId value ttl =
     (let without = AList.delete clientId c;
          room = (if length without \<ge> MAX_CACHED then evict_client now without else without)
      in AList.update clientId (value, now + ttl) room)"

text \<open>\<open>Inl\<close> is a loader that threw; nothing is remembered then.\<close>

definition withCache ::
  "(string \<Rightarrow> (string, client option) result) \<Rightarrow> int \<Rightarrow> client option cache \<Rightarrow> int \<Rightarrow> string \<Rightarrow>
     (string, client option) result \<times> client option cache" where
  "withCache loader ttlSeconds c now clientId =
     (if ttlSeconds \<le> 0 then (loader clientId, c)
      else (case cache_get c now clientId of
              Some value \<Rightarrow> (Inr value, c)
            | None \<Rightarrow>
                (case loader clientId of Inl e \<Rightarrow> (Inl e, c)
                 | Inr value \<Rightarrow>
                     (let ttl = (if value = None then min ttlSeconds MISS_TTL_SECONDS else ttlSeconds)
                      in (Inr value, store_client c now clientId value ttl)))))"

section \<open>Backends\<close>

text \<open>A bound namespace answers \<open>get(key)\<close> with the parsed record, \<open>null\<close> when there is none, or rejects.\<close>

type_synonym kv_binding = "string \<Rightarrow> (string, json option) result"

definition boundStore_get :: "config \<Rightarrow> kv_binding \<Rightarrow> string \<Rightarrow> (string, client option) result" where
  "boundStore_get c binding clientId =
     (case safeKey clientId of None \<Rightarrow> Inr None
      | Some key \<Rightarrow>
          rbind (binding (cc_storePrefix (c_clients c) @ key @ ''.json'')) (\<lambda>doc. Inr (fromRecord clientId doc)))"

definition s3_object_url :: "clients_config \<Rightarrow> string \<Rightarrow> string" where
  "s3_object_url cc key =
     (if str_truthy (cc_storeS3Endpoint cc)
      then the (cc_storeS3Endpoint cc) @ ''/'' @ or_str (cc_storeS3Bucket cc) [] @ ''/'' @ cc_storePrefix cc @ key @ ''.json''
      else ''https://'' @ or_str (cc_storeS3Bucket cc) [] @ ''.s3.'' @ or_str (cc_storeS3Region cc) [] @ ''.amazonaws.com/'' @
           cc_storePrefix cc @ key @ ''.json'')"

definition s3Store_get ::
  "web \<Rightarrow> platform \<Rightarrow> (string \<times> string) list \<Rightarrow> config \<Rightarrow> int \<Rightarrow> string \<Rightarrow> (string, client option) result" where
  "s3Store_get w pf env c nowMs clientId =
     (case safeKey clientId of None \<Rightarrow> Inr None
      | Some key \<Rightarrow>
          (let url = s3_object_url (c_clients c) key
           in case wb_target w url of None \<Rightarrow> Inl ''Invalid URL''
              | Some (host, path, query) \<Rightarrow>
                  rbind (signRequest pf nowMs
                     \<lparr>sa_method = ''GET'', sa_host = host, sa_pathname = path, sa_query = query, sa_body = [], sa_service = ''s3'',
                      sa_region = or_str (cc_storeS3Region (c_clients c)) [], sa_credentials = credentialsFromEnv env,
                      sa_headers = [], sa_includeContentSha256 = True\<rparr>) (\<lambda>headers.
                  rbind (fetchWithTimeout (wb_fetch w) \<lparr>hc_url = url, hc_method = ''GET'', hc_headers = headers, hc_body = None\<rparr>) (\<lambda>res.
                    if ft_status res = 404 \<or> ft_status res = 403 then Inr None
                    else if \<not> res_ok res then Inl (''client store read failed with HTTP '' @ show_int (ft_status res))
                    else rbind (readJsonLimited (wb_json w) res MAX_S3_RECORD_BYTES) (\<lambda>doc. Inr (fromRecord clientId (Some doc)))))))"

text \<open>What \<open>createClientStore\<close> needs to be built: the bound namespace, or a bucket and a region.\<close>

definition createClientStore :: "config \<Rightarrow> kv_binding option \<Rightarrow> (string, unit option) result" where
  "createClientStore c binding =
     (let cc = c_clients c in
      if cc_storeBackend cc = ''none'' then Inr None
      else if cc_storeBackend cc = ''s3''
      then (if \<not> str_truthy (cc_storeS3Bucket cc) then Inl ''CLIENTS_STORE_BACKEND is s3 but CLIENTS_STORE_S3_BUCKET is not set''
            else if \<not> str_truthy (cc_storeS3Region cc) then Inl ''CLIENTS_STORE_BACKEND is s3 but no region is set''
            else Inr (Some ()))
      else if binding = None
      then Inl (if cc_storeBackend cc = ''file''
                then ''CLIENTS_STORE_BACKEND is file, which only the Node adapter can provide. Nothing is bound as '' @
                     cc_storeKvBindingName cc @ ''.''
                else ''CLIENTS_STORE_BACKEND is cf-kv but no KV namespace is bound as '' @ cc_storeKvBindingName cc)
      else Inr (Some ()))"

definition client_loader ::
  "web \<Rightarrow> platform \<Rightarrow> (string \<times> string) list \<Rightarrow> kv_binding \<Rightarrow> config \<Rightarrow> int \<Rightarrow> string \<Rightarrow> (string, client option) result" where
  "client_loader w pf env binding c nowMs =
     (if cc_storeBackend (c_clients c) = ''s3'' then s3Store_get w pf env c nowMs else boundStore_get c binding)"

text \<open>The \<open>get\<close> of the store: a loader that throws is a miss for the caller.\<close>

definition clientStore_get ::
  "(string \<Rightarrow> (string, client option) result) \<Rightarrow> config \<Rightarrow> client option cache \<Rightarrow> int \<Rightarrow> string \<Rightarrow>
     client option \<times> client option cache" where
  "clientStore_get loader c entries now clientId =
     (case withCache loader (cc_storeCacheTtlSeconds (c_clients c)) entries now clientId of
        (Inl _, entries') \<Rightarrow> (None, entries')
      | (Inr value, entries') \<Rightarrow> (value, entries'))"

section \<open>The cache is bounded and fresh\<close>

lemma evict_client_facts:
  assumes "distinct (map fst c)"
  shows "distinct (map fst (evict_client now c))"
    and "c \<noteq> [] \<Longrightarrow> length (evict_client now c) < length c"
    and "map_of (evict_client now c) k = Some e \<Longrightarrow> map_of c k = Some e"
  using assms drop_oldest_facts [OF assms] map_of_drop_expired [OF assms, of now k e]
  by (auto simp: evict_client_def Let_def distinct_drop_expired split: if_splits)

lemma delete_facts:
  assumes "distinct (map fst c)"
  shows "distinct (map fst (AList.delete k c))" "k \<notin> fst ` set (AList.delete k c)"
    "map_of (AList.delete k c) k' = Some e \<Longrightarrow> map_of c k' = Some e"
proof -
  show "distinct (map fst (AList.delete k c))" by (rule distinct_delete [OF assms])
  show "k \<notin> fst ` set (AList.delete k c)" by (auto simp: AList.delete_eq)
  assume "map_of (AList.delete k c) k' = Some e"
  then show "map_of c k' = Some e" by (simp add: delete_conv' split: if_splits)
qed

interpretation client_cache: bounded_cache store_client MAX_CACHED
proof
  fix c :: "'v cache" and t k v ttl k' e
  assume wf: "distinct (map fst c)"
  let ?w = "AList.delete k c"
  let ?r = "if length ?w \<ge> MAX_CACHED then evict_client t ?w else ?w"
  have eq: "store_client c t k v ttl = AList.update k (v, t + ttl) ?r"
    by (simp add: store_client_def Let_def)
  have w: "distinct (map fst ?w)" using wf by (simp add: distinct_delete)
  have r: "distinct (map fst ?r)" using evict_client_facts (1) [OF w] w by simp
  show "distinct (map fst (store_client c t k v ttl))"
    unfolding eq by (rule distinct_update [OF r])
  show "map_of (store_client c t k v ttl) k = Some (v, t + ttl)"
    unfolding eq by (simp add: update_conv')
  have sub: "map_of ?r k' = Some e \<Longrightarrow> map_of c k' = Some e"
    using evict_client_facts (3) [OF w, of t k' e] delete_facts (3) [OF wf, of k k' e] by (simp split: if_splits)
  show "map_of (store_client c t k v ttl) k' = Some e \<Longrightarrow> k' \<noteq> k \<Longrightarrow> map_of c k' = Some e"
    unfolding eq using sub by (simp add: update_conv')
  assume "length c \<le> MAX_CACHED"
  moreover have "length ?w \<le> length c" by (rule length_delete_le)
  ultimately have "length ?r < MAX_CACHED"
    using evict_client_facts (2) [OF w, of t] by (cases "?w = []") (auto simp: MAX_CACHED_def)
  then show "length (store_client c t k v ttl) \<le> MAX_CACHED"
    unfolding eq using length_update_le [of k "(v, t + ttl)" ?r] by linarith
qed

text \<open>A sequence of lookups, newest first, against a loader whose answers may change with the time.\<close>

definition miss_ttl :: "int \<Rightarrow> client option \<Rightarrow> int" where
  "miss_ttl ttl value = (if value = None then min ttl MISS_TTL_SECONDS else ttl)"

fun lookups :: "(int \<Rightarrow> string \<Rightarrow> (string, client option) result) \<Rightarrow> int \<Rightarrow> (int \<times> string) list \<Rightarrow> client option cache" where
  "lookups L ttl [] = []"
| "lookups L ttl ((t, clientId) # earlier) = snd (withCache (L t) ttl (lookups L ttl earlier) t clientId)"

lemma lookups_history:
  assumes "0 < ttl"
  shows "\<exists>h. lookups L ttl ops = client_cache.build h \<and>
     (\<forall>(t, k, v, l)\<in>set h. (t, k) \<in> set ops \<and> L t k = Inr v \<and> l = miss_ttl ttl v)"
proof (induction ops)
  case Nil
  have "lookups L ttl [] = client_cache.build []" by simp
  then show ?case by (intro exI [of _ "[]"]) simp
next
  case (Cons op ops)
  obtain t clientId where op: "op = (t, clientId)" by (cases op)
  from Cons obtain h where h: "lookups L ttl ops = client_cache.build h"
    "\<forall>(t, k, v, l)\<in>set h. (t, k) \<in> set ops \<and> L t k = Inr v \<and> l = miss_ttl ttl v" by blast
  show ?case
  proof (cases "cache_get (lookups L ttl ops) t clientId = None \<and> (\<exists>v. L t clientId = Inr v)")
    case True
    then obtain v where v: "cache_get (lookups L ttl ops) t clientId = None" "L t clientId = Inr v" by blast
    let ?h = "(t, clientId, v, miss_ttl ttl v) # h"
    have "lookups L ttl (op # ops) = client_cache.build ?h"
      using v assms h (1) by (simp add: op withCache_def Let_def miss_ttl_def)
    moreover have "\<forall>(t, k, v, l)\<in>set ?h. (t, k) \<in> set (op # ops) \<and> L t k = Inr v \<and> l = miss_ttl ttl v"
      using h (2) v by (auto simp: op)
    ultimately show ?thesis by blast
  next
    case False
    then have "lookups L ttl (op # ops) = client_cache.build h"
      using assms h (1) by (auto simp: op withCache_def split: option.splits sum.splits)
    moreover have "\<forall>(t, k, v, l)\<in>set h. (t, k) \<in> set (op # ops) \<and> L t k = Inr v \<and> l = miss_ttl ttl v"
      using h (2) by auto
    ultimately show ?thesis by blast
  qed
qed

lemma latest_in: "client_cache.latest k h = Some (t, v, l) \<Longrightarrow> (t, k, v, l) \<in> set h"
  by (induction k h rule: client_cache.latest.induct) (auto split: if_splits)

lemma cached_answer:
  assumes "0 < ttl" "withCache (L now) ttl (lookups L ttl ops) now clientId = (Inr v, c)"
  shows "L now clientId = Inr v \<or>
     (\<exists>t. (t, clientId) \<in> set ops \<and> L t clientId = Inr v \<and> now < t + miss_ttl ttl v)"
proof (cases "cache_get (lookups L ttl ops) now clientId")
  case None
  with assms show ?thesis by (auto simp: withCache_def Let_def split: sum.splits)
next
  case (Some w)
  with assms have w: "w = v" by (simp add: withCache_def)
  obtain h where h: "lookups L ttl ops = client_cache.build h"
    "\<forall>(t, k, v, l)\<in>set h. (t, k) \<in> set ops \<and> L t k = Inr v \<and> l = miss_ttl ttl v"
    using lookups_history [OF assms (1)] by blast
  have "\<forall>(t, k, v, l)\<in>set h. 0 < l"
    using h (2) assms (1) by (fastforce simp: miss_ttl_def MISS_TTL_SECONDS_def)
  from client_cache.hit_is_latest [OF this] Some h (1) w obtain t l
    where "client_cache.latest clientId h = Some (t, v, l)" "now < t + l" by metis
  with h (2) latest_in show ?thesis by fastforce
qed

section \<open>Properties\<close>

text \<open>The read-through cache of client records is bounded and never stale. Whatever sequence of lookups
  came before, an answer is what the store says now, or what it said at an earlier lookup of the same
  identifier less than the configured lifetime ago, ten seconds for a missing client; and the cache holds at
  most five hundred entries, however many identifiers a caller invents.\<close>

lemma client_cache_fresh:
  assumes "0 < ttl" and "withCache (L now) ttl (lookups L ttl ops) now clientId = (Inr v, entries)"
  shows "(L now clientId = Inr v \<or>
      (\<exists>t. (t, clientId) \<in> set ops \<and> L t clientId = Inr v \<and>
           now < t + (if v = None then min ttl MISS_TTL_SECONDS else ttl))) \<and>
    length (lookups L ttl ops) \<le> 500"
  using cached_answer [OF assms] lookups_history [OF assms (1), of L ops] client_cache.build_size
  by (auto simp: miss_ttl_def MAX_CACHED_def)

end
