(* ===== verification/Clients.thy ===== *)
theory Clients
  imports Client_Store Ip
begin

text \<open>
  Working out who is asking, \<^verbatim>\<open>src/clients/index.js\<close>: the redirect URI check, client ID metadata documents with
  their public-network restriction and their cache, and the order in which the sources of a client are
  consulted.
\<close>

section \<open>One client shape\<close>

definition normalise :: "client \<Rightarrow> client" where
  "normalise raw = raw\<lparr>cl_clientName := (if cl_clientName raw = [] then cl_clientId raw else cl_clientName raw),
     cl_tokenEndpointAuthMethod := (if cl_tokenEndpointAuthMethod raw = [] then ''none'' else cl_tokenEndpointAuthMethod raw),
     cl_scopes := (if cl_scopes raw = Some [] then None else cl_scopes raw)\<rparr>"

lemma normalise_fields:
  "cl_source (normalise r) = cl_source r" "cl_clientId (normalise r) = cl_clientId r" "cl_clientSecret (normalise r) = cl_clientSecret r"
  "cl_clientSecretDigest (normalise r) = cl_clientSecretDigest r" "cl_requirePkce (normalise r) = cl_requirePkce r"
  "cl_redirectUris (normalise r) = cl_redirectUris r" "cl_jwksUri (normalise r) = cl_jwksUri r"
  "cl_tokenEndpointAuthMethod (normalise r) =
     (if cl_tokenEndpointAuthMethod r = [] then ''none'' else cl_tokenEndpointAuthMethod r)"
  by (simp_all add: normalise_def)

definition isConfidential :: "client \<Rightarrow> bool" where
  "isConfidential client \<longleftrightarrow> cl_tokenEndpointAuthMethod client \<noteq> ''none''"

section \<open>Redirect URIs\<close>

definition loopback :: "string \<Rightarrow> bool" where
  "loopback h \<longleftrightarrow> h = ''127.0.0.1'' \<or> h = ''[::1]'' \<or> h = ''localhost''"

definition uri_matches :: "url \<Rightarrow> url \<Rightarrow> bool" where
  "uri_matches have want \<longleftrightarrow>
     u_href have = u_href want \<or>
     (loopback (u_hostname have) \<and> loopback (u_hostname want) \<and> u_protocol have = u_protocol want \<and>
      u_hostname have = u_hostname want \<and> u_pathname have = u_pathname want \<and> u_search have = u_search want)"

definition redirectUriAllowed :: "url_parser \<Rightarrow> string list \<Rightarrow> string \<Rightarrow> string list \<Rightarrow> bool" where
  "redirectUriAllowed parse_url redirectUris candidate schemes =
     (case parse_url candidate of None \<Rightarrow> False
      | Some want \<Rightarrow>
          (let scheme = to_lower (butlast (u_protocol want))
           in if ''*'' \<notin> set schemes \<and> scheme \<notin> set schemes then False
              else list_ex (\<lambda>registered. case parse_url registered of None \<Rightarrow> False | Some have \<Rightarrow> uri_matches have want)
                     redirectUris))"

definition postLogoutRedirectAllowed :: "url_parser \<Rightarrow> client option \<Rightarrow> string \<Rightarrow> string list \<Rightarrow> bool" where
  "postLogoutRedirectAllowed parse_url client candidate schemes =
     (case client of None \<Rightarrow> False
      | Some cl \<Rightarrow> cl_postLogoutRedirectUris cl \<noteq> [] \<and>
                  redirectUriAllowed parse_url (cl_postLogoutRedirectUris cl) candidate schemes)"

section \<open>Client ID metadata documents\<close>

definition MAX_CIMD_CACHED :: nat where "MAX_CIMD_CACHED = 500"

definition rememberCimd :: "'v cache \<Rightarrow> int \<Rightarrow> string \<Rightarrow> 'v \<Rightarrow> int \<Rightarrow> 'v cache" where
  "rememberCimd c now clientId client ttlSeconds =
     (if ttlSeconds \<le> 0 then c
      else (let live = drop_expired now c;
                room = (if length live \<ge> MAX_CIMD_CACHED then drop_oldest live else live)
            in AList.update clientId (client, now + ttlSeconds) room))"

text \<open>\<open>entry.toLowerCase().replace(/^\*?\./, '')\<close>.\<close>

definition bare_domain :: "string \<Rightarrow> string" where
  "bare_domain entry =
     (let d = to_lower entry
      in if starts_with d ''*.'' then drop 2 d else if starts_with d ''.'' then drop 1 d else d)"

definition cimdDomainAllowed :: "cimd_config \<Rightarrow> url \<Rightarrow> bool" where
  "cimdDomainAllowed cimd url \<longleftrightarrow>
     cm_allowedDomains cimd = [] \<or>
     (let host = to_lower (u_hostname url)
      in list_ex (\<lambda>entry. let d = bare_domain entry in host = d \<or> (cm_allowSubdomains cimd \<and> ends_with host (''.'' @ d)))
           (cm_allowedDomains cimd))"

definition MAX_DNS_RESPONSE_BYTES :: int where "MAX_DNS_RESPONSE_BYTES = 64 * 1024"

definition dns_answers :: "json \<Rightarrow> int \<Rightarrow> (string, string list) result" where
  "dns_answers body recordType =
     (if body = JNull then Inl ''TypeError''
      else (case jget body ''Answer'' of
              Some (JArr answers) \<Rightarrow>
                if JNull \<in> set answers then Inl ''TypeError''
                else Inr (List.map_filter (\<lambda>a. if jget a ''type'' = Some (JNum recordType) then as_str (jget a ''data'') else None) answers)
            | _ \<Rightarrow> Inr []))"

definition dns_query :: "web \<Rightarrow> config \<Rightarrow> string \<Rightarrow> string \<Rightarrow> int \<Rightarrow> (string, string list) result" where
  "dns_query w c hostname type recordType =
     (case wb_set w (dn_resolverUrl (c_dns c)) [(''name'', hostname), (''type'', type)] of None \<Rightarrow> Inl ''Invalid URL''
      | Some url \<Rightarrow>
          rbind (fetchWithTimeout (wb_fetch w)
            \<lparr>hc_url = url, hc_method = ''GET'', hc_headers = [(''accept'', ''application/dns-json'')], hc_body = None\<rparr>) (\<lambda>res.
          if \<not> res_ok res then Inl (''DNS resolver returned HTTP '' @ show_int (ft_status res))
          else rbind (readJsonLimited (wb_json w) res MAX_DNS_RESPONSE_BYTES) (\<lambda>body. dns_answers body recordType)))"

definition settled :: "('e, 'a list) result \<Rightarrow> 'a list" where
  "settled r = (case r of Inl _ \<Rightarrow> [] | Inr xs \<Rightarrow> xs)"

definition resolveAddresses :: "web \<Rightarrow> config \<Rightarrow> string \<Rightarrow> (string, string list) result" where
  "resolveAddresses w c hostname =
     (case wb_resolver w of
        Some resolve \<Rightarrow> Inr (coalesce (resolve hostname ''A'') [] @ coalesce (resolve hostname ''AAAA'') [])
      | None \<Rightarrow>
          (case (dns_query w c hostname ''A'' 1, dns_query w c hostname ''AAAA'' 28) of
             (Inl e, Inl _) \<Rightarrow> Inl e
           | (a, aaaa) \<Rightarrow> Inr (settled a @ settled aaaa)))"

text \<open>\<open>replace(/^\[|\]$/g, '')\<close>.\<close>

definition strip_brackets :: "string \<Rightarrow> string" where
  "strip_brackets s =
     (let s' = (if starts_with s ''['' then drop 1 s else s) in if ends_with s' '']'' then butlast s' else s')"

definition not_public :: failure where
  "not_public = oauthError ''invalid_client'' ''Client metadata must be served from a public network address''"

definition assertPublicCimdTarget :: "web \<Rightarrow> config \<Rightarrow> url \<Rightarrow> (failure, unit) result" where
  "assertPublicCimdTarget w c url =
     (let hostname = to_lower (strip_brackets (u_hostname url))
      in if c_devMode c \<and> (hostname = ''localhost'' \<or> isLoopbackIp hostname) then Inr ()
         else if hostname = ''localhost'' \<or> ends_with hostname ''.localhost'' then Inl not_public
         else rbind (if isIpAddress hostname then Inr [hostname]
                     else rescue (\<lambda>_. Inl (oauthError ''invalid_client'' ''Could not resolve the client metadata host''))
                            (resolveAddresses w c hostname)) (\<lambda>addresses.
              if addresses = [] then Inl (oauthError ''invalid_client'' ''Could not resolve the client metadata host'')
              else ok_or (\<not> list_ex (\<lambda>a. \<not> isPublicIp (strip_brackets a)) addresses) not_public))"

definition cimdJwksUri :: "url_parser \<Rightarrow> json option \<Rightarrow> url \<Rightarrow> (failure, string option) result" where
  "cimdJwksUri parse_url value documentUrl =
     (case value of None \<Rightarrow> Inr None
      | Some (JStr s) \<Rightarrow>
          (case parse_url s of None \<Rightarrow> Inl (oauthError ''invalid_client'' ''Client metadata jwks_uri must be a URL'')
           | Some url \<Rightarrow>
               if u_username url \<noteq> [] \<or> u_password url \<noteq> [] \<or> u_origin url \<noteq> u_origin documentUrl
               then Inl (oauthError ''invalid_client'' ''Client metadata jwks_uri must share the document origin'')
               else Inr (Some (u_href url)))
      | Some _ \<Rightarrow> Inl (oauthError ''invalid_client'' ''Client metadata jwks_uri must be a URL''))"

text \<open>What the document must be before any request leaves.\<close>

definition cimd_target_ok :: "web \<Rightarrow> config \<Rightarrow> url \<Rightarrow> (failure, unit) result" where
  "cimd_target_ok w c url =
     rbind (ok_or (u_username url = [] \<and> u_password url = [])
       (oauthError ''invalid_client'' ''A client ID metadata document URL must not contain a username or password'')) (\<lambda>_.
     rbind (ok_or (u_hash url = [])
       (oauthError ''invalid_client'' ''A client ID metadata document URL must not have a fragment'')) (\<lambda>_.
     rbind (ok_or (cimdDomainAllowed (cc_cimd (c_clients c)) url)
       (oauthError ''invalid_client'' (''This deployment does not accept client metadata from '' @ u_hostname url))) (\<lambda>_.
     assertPublicCimdTarget w c url)))"

definition cimd_raw :: "string \<Rightarrow> json \<Rightarrow> string list \<Rightarrow> string option \<Rightarrow> client" where
  "cimd_raw clientId doc redirectUris jwksUri =
     \<lparr>cl_source = ''cimd'', cl_clientId = clientId, cl_clientName = or_str (str_of (jget doc ''client_name'')) [],
       cl_clientSecret = None, cl_clientSecretDigest = None, cl_redirectUris = redirectUris,
       cl_postLogoutRedirectUris = js_elements (jget doc ''post_logout_redirect_uris''),
       cl_jwks = jget doc ''jwks'', cl_jwksUri = jwksUri,
       cl_tokenEndpointAuthMethod = (if truthy (jor (jget doc ''jwks'') (jget doc ''jwks_uri'')) then ''private_key_jwt'' else ''none''),
       cl_scopes = (case jget doc ''scope'' of Some (JStr s) \<Rightarrow> Some (words s) | _ \<Rightarrow> None), cl_acrValues = [],
       cl_idTokenSignedResponseAlg = as_str (jget doc ''id_token_signed_response_alg''),
       cl_sessionScope = None, cl_logoutConfirm = None, cl_subjectType = None, cl_sectorIdentifier = None,
       cl_sanitisePlusEmails = None, cl_requirePkce = True,
       cl_logoUri = as_str (jget doc ''logo_uri''), cl_policyUri = as_str (jget doc ''policy_uri''),
       cl_tosUri = as_str (jget doc ''tos_uri'')\<rparr>"

definition cimd_client :: "web \<Rightarrow> string \<Rightarrow> url \<Rightarrow> json \<Rightarrow> (failure, client) result" where
  "cimd_client w clientId url doc =
     (let redirectUris = (case jget doc ''redirect_uris'' of Some (JArr xs) \<Rightarrow> map js_text xs | _ \<Rightarrow> [])
      in if doc = JNull then Inl (Unexpected ''TypeError'')
         else if list_ex (\<lambda>uri. wb_parse w uri = None) redirectUris
         then Inl (oauthError ''invalid_client'' ''Client metadata contains a malformed redirect URI'')
         else if redirectUris = []
         then Inl (oauthError ''invalid_client'' ''Client metadata document declares no redirect_uris'')
         else rbind (cimdJwksUri (wb_parse w) (jget doc ''jwks_uri'') url) (\<lambda>jwksUri.
           Inr (normalise (cimd_raw clientId doc redirectUris jwksUri))))"

definition fetch_cimd :: "web \<Rightarrow> config \<Rightarrow> string \<Rightarrow> url \<Rightarrow> (failure, client) result" where
  "fetch_cimd w c clientId url =
     (case fetchWithTimeout (wb_fetch w) (get_json clientId) of Inl e \<Rightarrow> Inl (Unexpected e)
      | Inr res \<Rightarrow>
          if \<not> res_ok res
          then Inl (oauthError ''invalid_client'' (''Could not read client metadata (HTTP '' @ show_int (ft_status res) @ '')''))
          else (case response_text res (cm_maxDocumentBytes (cc_cimd (c_clients c))) of
                  Inl _ \<Rightarrow> Inl (oauthError ''invalid_client'' ''Client metadata document is larger than this deployment accepts'')
                | Inr body \<Rightarrow>
                    (case wb_json w body of
                       None \<Rightarrow> Inl (oauthError ''invalid_client'' ''Client metadata document is not valid JSON'')
                     | Some doc \<Rightarrow> cimd_client w clientId url doc)))"

text \<open>The last component of the result is the list of document requests that left; address lookups go to the
  operator's resolver and are not in it.\<close>

definition resolveCimd ::
  "web \<Rightarrow> config \<Rightarrow> client cache \<Rightarrow> int \<Rightarrow> string \<Rightarrow> (failure, client option) result \<times> client cache \<times> http_call list" where
  "resolveCimd w c cimdCache now clientId =
     (let cimd = cc_cimd (c_clients c) in
      if \<not> cm_enabled cimd then (Inr None, cimdCache, [])
      else (case wb_parse w clientId of None \<Rightarrow> (Inr None, cimdCache, [])
      | Some url \<Rightarrow>
          if u_protocol url \<noteq> ''https:'' \<and> \<not> (c_devMode c \<and> u_protocol url = ''http:'') then (Inr None, cimdCache, [])
          else (case cimd_target_ok w c url of Inl e \<Rightarrow> (Inl e, cimdCache, [])
          | Inr _ \<Rightarrow>
              (case cache_get cimdCache now clientId of Some client \<Rightarrow> (Inr (Some client), cimdCache, [])
               | None \<Rightarrow>
                   (let kept = AList.delete clientId cimdCache
                    in case fetch_cimd w c clientId url of
                         Inl e \<Rightarrow> (Inl e, kept, [get_json clientId])
                       | Inr client \<Rightarrow>
                           (Inr (Some client), rememberCimd kept now clientId client (cm_cacheTtlSeconds cimd), [get_json clientId]))))))"

section \<open>Resolution\<close>

record clients_state =
  cs_cimd :: "client cache"
  cs_store :: "client option cache"

text \<open>The store is \<open>None\<close> when no backend is configured, otherwise its loader.\<close>

definition resolveClient ::
  "web \<Rightarrow> (string \<Rightarrow> (string, client option) result) option \<Rightarrow> config \<Rightarrow> clients_state \<Rightarrow> int \<Rightarrow> string \<Rightarrow>
     (failure, client option) result \<times> clients_state \<times> http_call list" where
  "resolveClient w store c st now clientId =
     (if clientId = [] then (Inr None, st, [])
      else (case find (\<lambda>cl. cl_clientId cl = clientId) (cc_static (c_clients c)) of
              Some stat \<Rightarrow> (Inr (Some (normalise stat)), st, [])
            | None \<Rightarrow>
                (case (if store \<noteq> None \<and> cc_opaqueEnabled (c_clients c)
                       then clientStore_get (the store) c (cs_store st) now clientId else (None, cs_store st)) of
                   (Some rec, entries) \<Rightarrow> (Inr (Some (normalise rec)), st\<lparr>cs_store := entries\<rparr>, [])
                 | (None, entries) \<Rightarrow>
                     if starts_with clientId ''https://'' \<or> starts_with clientId ''http://''
                     then (case resolveCimd w c (cs_cimd st) now clientId of
                             (r, cache, calls) \<Rightarrow> (r, st\<lparr>cs_store := entries, cs_cimd := cache\<rparr>, calls))
                     else (Inr None, st\<lparr>cs_store := entries\<rparr>, []))))"

section \<open>Capabilities\<close>

record capabilities =
  cap_static :: nat
  cap_cimd :: bool
  cap_opaque :: bool
  cap_store :: string
  cap_dynamic :: bool
  cap_authMethods :: "string list"

definition ALL_METHODS :: "string list" where
  "ALL_METHODS = [''none'', ''client_secret_basic'', ''client_secret_post'', ''private_key_jwt'']"

definition clientCapabilities :: "config \<Rightarrow> capabilities" where
  "clientCapabilities c =
     (let cc = c_clients c; dynamic = (cm_enabled (cc_cimd cc) \<or> cc_storeBackend cc \<noteq> ''none'');
          used = map (\<lambda>cl. if cl_tokenEndpointAuthMethod cl = [] then ''none'' else cl_tokenEndpointAuthMethod cl) (cc_static cc) @
                 (if list_ex (\<lambda>cl. truthy (cl_jwks cl) \<or> str_truthy (cl_jwksUri cl)) (cc_static cc) then [''private_key_jwt''] else []);
          narrowed = filter (\<lambda>m. m \<in> set used) ALL_METHODS
      in \<lparr>cap_static = length (cc_static cc), cap_cimd = cm_enabled (cc_cimd cc), cap_opaque = cc_opaqueEnabled cc,
          cap_store = cc_storeBackend cc, cap_dynamic = dynamic,
          cap_authMethods = (if dynamic \<or> narrowed = [] then ALL_METHODS else narrowed)\<rparr>)"

section \<open>The document cache\<close>

interpretation cimd_cache: bounded_cache rememberCimd MAX_CIMD_CACHED
proof
  fix c :: "'v cache" and t k v ttl k' e
  assume wf: "distinct (map fst c)"
  let ?l = "drop_expired t c"
  let ?r = "if length ?l \<ge> MAX_CIMD_CACHED then drop_oldest ?l else ?l"
  have eq: "rememberCimd c t k v ttl = (if ttl \<le> 0 then c else AList.update k (v, t + ttl) ?r)"
    by (simp add: rememberCimd_def Let_def)
  have l: "distinct (map fst ?l)" by (rule distinct_drop_expired [OF wf])
  have r: "distinct (map fst ?r)" using drop_oldest_facts (1) [OF l] l by simp
  show "distinct (map fst (rememberCimd c t k v ttl))"
    unfolding eq using distinct_update [OF r] wf by simp
  show "0 < ttl \<Longrightarrow> map_of (rememberCimd c t k v ttl) k = Some (v, t + ttl)"
    unfolding eq by (simp add: update_conv')
  have sub: "map_of ?r k' = Some e \<Longrightarrow> map_of c k' = Some e"
    using drop_oldest_facts (3) [OF l, of k' e] map_of_drop_expired [OF wf, of t k' e] by (simp split: if_splits)
  show "map_of (rememberCimd c t k v ttl) k' = Some e \<Longrightarrow> k' \<noteq> k \<Longrightarrow> map_of c k' = Some e"
    unfolding eq using sub by (simp add: update_conv' split: if_splits)
  assume s: "length c \<le> MAX_CIMD_CACHED"
  moreover have "length ?l \<le> length c" by (rule length_drop_expired)
  ultimately have "length ?r < MAX_CIMD_CACHED"
    using drop_oldest_facts (2) [OF l] by (auto simp: MAX_CIMD_CACHED_def)
  then show "length (rememberCimd c t k v ttl) \<le> MAX_CIMD_CACHED"
    unfolding eq using s length_update_le [of k "(v, t + ttl)" ?r] by (simp split: if_splits)
qed

section \<open>Facts\<close>

text \<open>The components of a URL are functions of its serialisation.\<close>

definition href_determines :: "url_parser \<Rightarrow> bool" where
  "href_determines p \<longleftrightarrow> (\<forall>a b u v. p a = Some u \<and> p b = Some v \<and> u_href u = u_href v \<longrightarrow> u = v)"

definition scheme_permitted :: "url \<Rightarrow> string list \<Rightarrow> bool" where
  "scheme_permitted u schemes \<longleftrightarrow> ''*'' \<in> set schemes \<or> to_lower (butlast (u_protocol u)) \<in> set schemes"

lemma redirectUriAllowed_iff:
  "redirectUriAllowed p uris cand schemes \<longleftrightarrow>
     (\<exists>want. p cand = Some want \<and> scheme_permitted want schemes \<and>
        (\<exists>r\<in>set uris. \<exists>have. p r = Some have \<and> uri_matches have want))"
  unfolding redirectUriAllowed_def scheme_permitted_def
  by (auto simp: list_ex_iff Let_def split: option.splits)

text \<open>The addresses the check of a target is about.\<close>

definition target_public :: "web \<Rightarrow> config \<Rightarrow> url \<Rightarrow> bool" where
  "target_public w c url \<longleftrightarrow>
     (let hostname = to_lower (strip_brackets (u_hostname url))
      in c_devMode c \<and> (hostname = ''localhost'' \<or> isLoopbackIp hostname) \<or>
         (\<exists>addresses. (if isIpAddress hostname then addresses = [hostname] else resolveAddresses w c hostname = Inr addresses) \<and>
            addresses \<noteq> [] \<and> (\<forall>a\<in>set addresses. isPublicIp (strip_brackets a))))"

lemma assertPublicCimdTarget_ok: "assertPublicCimdTarget w c url = Inr u \<Longrightarrow> target_public w c url"
  unfolding assertPublicCimdTarget_def target_public_def
  by (auto simp: Let_def list_ex_iff rescue_def split: if_splits sum.splits)

definition may_fetch :: "web \<Rightarrow> config \<Rightarrow> string \<Rightarrow> bool" where
  "may_fetch w c clientId \<longleftrightarrow>
     cm_enabled (cc_cimd (c_clients c)) \<and>
     (\<exists>url. wb_parse w clientId = Some url \<and> (u_protocol url = ''https:'' \<or> c_devMode c \<and> u_protocol url = ''http:'') \<and>
        u_username url = [] \<and> u_password url = [] \<and> u_hash url = [] \<and>
        cimdDomainAllowed (cc_cimd (c_clients c)) url \<and> target_public w c url)"

lemma cimd_target_ok_Inr:
  "cimd_target_ok w c url = Inr u \<Longrightarrow>
     u_username url = [] \<and> u_password url = [] \<and> u_hash url = [] \<and> cimdDomainAllowed (cc_cimd (c_clients c)) url \<and>
     target_public w c url"
  by (auto simp: cimd_target_ok_def dest: assertPublicCimdTarget_ok)

lemma resolveCimd_calls:
  assumes "resolveCimd w c cache now clientId = (r, cache', calls)" "calls \<noteq> []"
  shows "calls = [get_json clientId] \<and> may_fetch w c clientId"
  using assms unfolding resolveCimd_def may_fetch_def Let_def
  by (force split: if_splits option.splits sum.splits dest: cimd_target_ok_Inr)

lemma resolveClient_calls:
  assumes "resolveClient w store c st now clientId = (r, st', calls)" "calls \<noteq> []"
  shows "calls = [get_json clientId] \<and> may_fetch w c clientId \<and>
     clientId \<notin> cl_clientId ` set (cc_static (c_clients c)) \<and>
     (starts_with clientId ''https://'' \<or> starts_with clientId ''http://'')"
proof -
  from assms have none: "find (\<lambda>cl. cl_clientId cl = clientId) (cc_static (c_clients c)) = None"
    by (auto simp: resolveClient_def split: if_splits option.splits)
  then have "clientId \<notin> cl_clientId ` set (cc_static (c_clients c))" by (auto simp: find_None_iff)
  moreover from assms none have "\<exists>r cache'. resolveCimd w c (cs_cimd st) now clientId = (r, cache', calls)"
    and "starts_with clientId ''https://'' \<or> starts_with clientId ''http://''"
    by (auto simp: resolveClient_def split: if_splits option.splits prod.splits)
  ultimately show ?thesis using resolveCimd_calls assms (2) by blast
qed

text \<open>What a metadata document can make of a client.\<close>

definition cimd_wf :: "web \<Rightarrow> string \<Rightarrow> client \<Rightarrow> bool" where
  "cimd_wf w clientId client \<longleftrightarrow>
     cl_source client = ''cimd'' \<and> cl_clientId client = clientId \<and> cl_clientSecret client = None \<and>
     cl_clientSecretDigest client = None \<and> cl_requirePkce client \<and> cl_redirectUris client \<noteq> [] \<and>
     (\<forall>u\<in>set (cl_redirectUris client). wb_parse w u \<noteq> None) \<and>
     cl_tokenEndpointAuthMethod client \<in> {''none'', ''private_key_jwt''} \<and>
     (\<forall>j. cl_jwksUri client = Some j \<longrightarrow>
        (\<exists>s u d. wb_parse w s = Some u \<and> u_href u = j \<and> wb_parse w clientId = Some d \<and> u_origin u = u_origin d))"

lemma cimdJwksUri_origin:
  "cimdJwksUri p v d = Inr (Some j) \<Longrightarrow> \<exists>s u. p s = Some u \<and> u_href u = j \<and> u_origin u = u_origin d"
  by (auto simp: cimdJwksUri_def split: option.splits json.splits if_splits)

lemma cimd_client_wf:
  assumes "cimd_client w clientId url doc = Inr client" "wb_parse w clientId = Some url"
  shows "cimd_wf w clientId client"
proof -
  define uris where "uris = (case jget doc ''redirect_uris'' of Some (JArr xs) \<Rightarrow> map js_text xs | _ \<Rightarrow> [])"
  from assms(1) have ok: "\<not> list_ex (\<lambda>u. wb_parse w u = None) uris" "uris \<noteq> []"
    by (auto simp: cimd_client_def uris_def [symmetric] Let_def split: if_splits)
  from assms(1) ok obtain jwksUri where j: "cimdJwksUri (wb_parse w) (jget doc ''jwks_uri'') url = Inr jwksUri"
    "client = normalise (cimd_raw clientId doc uris jwksUri)"
    by (auto simp: cimd_client_def uris_def [symmetric] Let_def split: if_splits)
  have "cl_tokenEndpointAuthMethod (cimd_raw clientId doc uris jwksUri) \<in> {''none'', ''private_key_jwt''}"
    by (simp add: cimd_raw_def)
  with j ok assms(2) cimdJwksUri_origin [of "wb_parse w" "jget doc ''jwks_uri''" url] show ?thesis
    by (auto simp: cimd_wf_def list_ex_iff normalise_fields) (auto simp: cimd_raw_def)
qed

lemma fetch_cimd_wf:
  "fetch_cimd w c clientId url = Inr client \<Longrightarrow> wb_parse w clientId = Some url \<Longrightarrow> cimd_wf w clientId client"
  unfolding fetch_cimd_def by (auto split: sum.splits if_splits option.splits intro: cimd_client_wf)

definition cimd_cache_wf :: "web \<Rightarrow> client cache \<Rightarrow> bool" where
  "cimd_cache_wf w c \<longleftrightarrow> distinct (map fst c) \<and> length c \<le> MAX_CIMD_CACHED \<and> (\<forall>k client e. map_of c k = Some (client, e) \<longrightarrow> cimd_wf w k client)"

lemma rememberCimd_wf:
  assumes "cimd_cache_wf w c" "cimd_wf w k client"
  shows "cimd_cache_wf w (rememberCimd c t k client ttl)"
proof (cases "0 < ttl")
  case True
  have wf: "distinct (map fst c)" "length c \<le> MAX_CIMD_CACHED" using assms by (simp_all add: cimd_cache_wf_def)
  have "cimd_wf w k' client'" if "map_of (rememberCimd c t k client ttl) k' = Some (client', e)" for k' client' e
  proof (cases "k' = k")
    case True
    with that cimd_cache.put_same [OF \<open>0 < ttl\<close> wf(1)] assms(2) show ?thesis by simp
  next
    case False
    from cimd_cache.put_other [OF this wf(1) that] assms(1) show ?thesis by (auto simp: cimd_cache_wf_def)
  qed
  with cimd_cache.put_wf [OF wf(1)] cimd_cache.put_size [OF wf(2,1)] show ?thesis
    unfolding cimd_cache_wf_def by blast
qed (use assms in \<open>simp add: rememberCimd_def\<close>)

lemma delete_cimd_wf: "cimd_cache_wf w c \<Longrightarrow> cimd_cache_wf w (AList.delete k c)"
  unfolding cimd_cache_wf_def
  using delete_facts [of c k] length_delete_le [of k c] by (metis order_trans)

lemma resolveCimd_wf:
  assumes "resolveCimd w c cache now clientId = (r, cache', calls)" "cimd_cache_wf w cache"
  shows "cimd_cache_wf w cache' \<and> (\<forall>client. r = Inr (Some client) \<longrightarrow> cimd_wf w clientId client)"
proof -
  have hit: "cache_get cache now clientId = Some client \<Longrightarrow> cimd_wf w clientId client" for client
    using assms(2) unfolding cimd_cache_wf_def cache_get_def by (simp split: option.splits prod.splits if_splits) blast
  show ?thesis
    using assms hit unfolding resolveCimd_def Let_def
    by (auto split: if_splits option.splits sum.splits
        intro: rememberCimd_wf delete_cimd_wf fetch_cimd_wf)
qed

section \<open>A concrete web\<close>

text \<open>A parser for a handful of URLs, a fetch that serves one document and a resolver, for the witnesses.\<close>

definition sample_url :: "string \<Rightarrow> string \<Rightarrow> string \<Rightarrow> string \<Rightarrow> url" where
  "sample_url href proto host path =
     \<lparr>u_href = href, u_protocol = proto, u_hostname = host, u_pathname = path, u_search = [], u_hash = [],
      u_username = [], u_password = [], u_origin = proto @ ''//'' @ host\<rparr>"

definition sample_parse :: url_parser where
  "sample_parse s =
     (if s = ''https://app.example/cb'' then Some (sample_url s ''https:'' ''app.example'' ''/cb'')
      else if s = ''https://app.example/client.json'' then Some (sample_url s ''https:'' ''app.example'' ''/client.json'')
      else if s = ''http://127.0.0.1:8788/cb'' then Some (sample_url s ''http:'' ''127.0.0.1'' ''/cb'')
      else if s = ''http://127.0.0.1:9999/cb'' then Some (sample_url s ''http:'' ''127.0.0.1'' ''/cb'')
      else None)"

definition sample_web :: web where
  "sample_web = \<lparr>wb_parse = sample_parse, wb_target = (\<lambda>_. None), wb_set = (\<lambda>_ _. None),
     wb_fetch = (\<lambda>_. Inr \<lparr>ft_status = 200, ft_opaque = False, ft_headers = [], ft_chunks = Some []\<rparr>),
     wb_json = (\<lambda>_. Some (JObj [(''redirect_uris'', JArr [JStr ''https://app.example/cb''])])),
     wb_resolver = Some (\<lambda>host type. if type = ''A'' then Some [''93.184.216.34''] else None)\<rparr>"

definition cimd_sample_config :: config where
  "cimd_sample_config = sample_config\<lparr>c_clients := (c_clients sample_config)\<lparr>cc_cimd := (cc_cimd (c_clients sample_config))\<lparr>cm_enabled := True\<rparr>\<rparr>\<rparr>"

lemma sample_parse_href: "sample_parse a = Some u \<Longrightarrow> u_href u = a"
  by (auto simp: sample_parse_def sample_url_def split: if_splits)

lemma sample_parse_lawful: "href_determines sample_parse"
proof -
  have "u = v" if "sample_parse a = Some u" "sample_parse b = Some v" "u_href u = u_href v" for a b u v
  proof -
    have "a = b" using that sample_parse_href by metis
    with that show "u = v" by simp
  qed
  then show ?thesis unfolding href_determines_def by blast
qed

section \<open>Properties\<close>

text \<open>The comment on the check calls the loopback port its only concession; user information and a fragment are not compared
  there either.\<close>

lemma loopback_ignores_fragment:
  assumes "parse registered = Some have" "loopback (u_hostname have)" "scheme_permitted have schemes"
    and "parse candidate = Some (have\<lparr>u_href := h, u_hash := f, u_username := n, u_password := p\<rparr>)" "registered \<in> set uris"
  shows "redirectUriAllowed parse uris candidate schemes"
proof -
  have "uri_matches have (have\<lparr>u_href := h, u_hash := f, u_username := n, u_password := p\<rparr>)"
    using assms(2) by (simp add: uri_matches_def)
  moreover have "scheme_permitted (have\<lparr>u_href := h, u_hash := f, u_username := n, u_password := p\<rparr>) schemes"
    using assms(3) by (simp add: scheme_permitted_def)
  ultimately show ?thesis using assms(1,4,5) by (auto simp: redirectUriAllowed_iff)
qed

text \<open>C5: a redirect URI is accepted only next to a registered one. It is accepted exactly when it parses, its scheme is permitted,
  and some registered URI either is the same URL or, on one of the loopback hosts, has the same scheme, host, path and query;
  there, and only there, the port, user information and a fragment are not compared.\<close>

theorem redirect_never_open:
  assumes "href_determines parse"
  shows "redirectUriAllowed parse uris candidate schemes \<longleftrightarrow>
    (\<exists>want registered had. parse candidate = Some want \<and> (''*'' \<in> set schemes \<or> to_lower (butlast (u_protocol want)) \<in> set schemes) \<and>
       registered \<in> set uris \<and> parse registered = Some had \<and>
       (want = had \<or>
        u_hostname want \<in> {''127.0.0.1'', ''[::1]'', ''localhost''} \<and> u_protocol want = u_protocol had \<and> u_hostname want = u_hostname had \<and>
        u_pathname want = u_pathname had \<and> u_search want = u_search had))"
proof -
  have "uri_matches had want \<longleftrightarrow> want = had \<or>
        u_hostname want \<in> {''127.0.0.1'', ''[::1]'', ''localhost''} \<and> u_protocol want = u_protocol had \<and> u_hostname want = u_hostname had \<and>
        u_pathname want = u_pathname had \<and> u_search want = u_search had"
    if "parse candidate = Some want" "parse registered = Some had" for want registered had
    using assms that unfolding href_determines_def uri_matches_def loopback_def by auto
  then show ?thesis unfolding redirectUriAllowed_iff scheme_permitted_def by blast
qed

theorem redirect_never_open_witness:
  "redirectUriAllowed sample_parse [''https://app.example/cb'', ''http://127.0.0.1:8788/cb''] ''http://127.0.0.1:9999/cb'' [''*''] \<and>
   \<not> redirectUriAllowed sample_parse [''https://app.example/cb''] ''https://app.example/client.json'' [''*''] \<and>
   redirectUriAllowed sample_parse [''https://app.example/cb''] ''https://app.example/cb'' [''https'']"
proof -
  have "\<exists>u. sample_parse ''https://app.example/cb'' = Some u \<and> to_lower (butlast (u_protocol u)) \<in> set [''https'']"
    by (simp add: sample_parse_def sample_url_def)
  with redirect_never_open [OF sample_parse_lawful, of "[''https://app.example/cb'']" "''https://app.example/cb''" "[''https'']"]
  have "redirectUriAllowed sample_parse [''https://app.example/cb''] ''https://app.example/cb'' [''https'']" by fastforce
  moreover have "redirectUriAllowed sample_parse [''https://app.example/cb'', ''http://127.0.0.1:8788/cb''] ''http://127.0.0.1:9999/cb'' [''*'']"
    "\<not> redirectUriAllowed sample_parse [''https://app.example/cb''] ''https://app.example/client.json'' [''*'']"
    by code_simp+
  ultimately show ?thesis by blast
qed

text \<open>C17: a client identifier never makes the gateway fetch metadata from its own network. Resolving a client makes at
  most one request for a metadata document, to the identifier itself, and only when metadata documents are switched on, the
  identifier is not a configured client, parses as https (in development mode also http), carries no credentials and no
  fragment, is in an allowed domain, and every address of its host is public (in development mode also the
  loopback). The lookups of the resolver and of a configured client store, which go to addresses of the configuration, are not
  among these requests.\<close>

theorem client_lookup_stays_public:
  assumes "resolveClient w store c st now clientId = (r, st', calls)" and "calls \<noteq> []"
  shows "calls = [get_json clientId] \<and> clientId \<notin> cl_clientId ` set (cc_static (c_clients c)) \<and>
    cm_enabled (cc_cimd (c_clients c)) \<and>
    (\<exists>url. wb_parse w clientId = Some url \<and> (u_protocol url = ''https:'' \<or> c_devMode c \<and> u_protocol url = ''http:'') \<and>
       u_username url = [] \<and> u_password url = [] \<and> u_hash url = [] \<and> cimdDomainAllowed (cc_cimd (c_clients c)) url \<and>
       target_public w c url)"
  using resolveClient_calls [OF assms] unfolding may_fetch_def by blast

theorem client_lookup_stays_public_witness:
  "fst (resolveClient sample_web None cimd_sample_config \<lparr>cs_cimd = [], cs_store = []\<rparr> 0 ''https://app.example/client.json'') \<noteq> Inr None \<and>
   target_public sample_web cimd_sample_config (sample_url ''https://app.example/client.json'' ''https:'' ''app.example'' ''/client.json'')"
proof -
  let ?r = "resolveClient sample_web None cimd_sample_config \<lparr>cs_cimd = [], cs_store = []\<rparr> 0 ''https://app.example/client.json''"
  have run: "fst ?r \<noteq> Inr None" "snd (snd ?r) \<noteq> []" by code_simp+
  obtain r st calls where eq: "?r = (r, st, calls)" by (cases ?r)
  with run have "calls \<noteq> []" by simp
  from client_lookup_stays_public [OF eq this] have "target_public sample_web cimd_sample_config (the (sample_parse ''https://app.example/client.json''))"
    by (auto simp: sample_web_def)
  with run show ?thesis by (simp add: sample_parse_def)
qed

text \<open>A client that describes itself gets no more than a public or key-based client may have. Whatever
  document is served, a client that comes out of it, or out of the cache of earlier ones, has that
  identifier, parseable redirect URIs and at least one, mandatory PKCE, no shared secret, and keys only from
  its own origin; and the cache keeps holding only such clients, five hundred at most.\<close>

lemma cimd_clients_well_formed:
  assumes "resolveCimd w c cache now clientId = (r, cache', calls)" and "cimd_cache_wf w cache"
  shows "cimd_cache_wf w cache' \<and> (\<forall>client. r = Inr (Some client) \<longrightarrow> cimd_wf w clientId client)"
  by (rule resolveCimd_wf [OF assms])

end
