(* ===== verification/Numbers.thy ===== *)
theory Numbers
  imports Prelude
begin

text \<open>
  \<open>Number(s)\<close> of a string, where the sources go on to ask \<open>Number.isInteger\<close>: the integer it denotes, or
  \<open>None\<close> when it denotes no integer. White space around is ignored, the empty text is zero, hexadecimal, octal and
  binary prefixes are read, and a fraction or an exponent counts when the exact value is an integer (the
  rounding of a literal to a double is not modelled). A value of \<open>2 ^ 1024\<close> or more is \<open>Infinity\<close>, not an
  integer.
\<close>

definition digits_of :: "string \<Rightarrow> string \<Rightarrow> nat option" where
  "digits_of alphabet s =
     (if s = [] \<or> list_ex (\<lambda>c. lower_char c \<notin> set alphabet) s then None
      else Some (foldl (\<lambda>n c. n * length alphabet + coalesce (index_of (lower_char c) alphabet) 0) 0 s))"

definition radix_integer :: "string \<Rightarrow> nat option" where
  "radix_integer s =
     (let p = to_lower (take 2 s)
      in if p = ''0x'' then digits_of ''0123456789abcdef'' (drop 2 s)
         else if p = ''0o'' then digits_of ''01234567'' (drop 2 s)
         else if p = ''0b'' then digits_of ''01'' (drop 2 s)
         else None)"

definition split_sign :: "string \<Rightarrow> int \<times> string" where
  "split_sign s =
     (case s of c # cs \<Rightarrow> if c = CHR ''-'' then (- 1, cs) else if c = CHR ''+'' then (1, cs) else (1, s) | [] \<Rightarrow> (1, s))"

definition exponent_of :: "string \<Rightarrow> int option" where
  "exponent_of s =
     (case split_sign s of (sign, ds) \<Rightarrow> if ds \<noteq> [] \<and> list_all is_digit ds then Some (sign * int (read_nat ds)) else None)"

definition scale_ten :: "nat \<Rightarrow> int \<Rightarrow> nat option" where
  "scale_ten m e =
     (if e \<ge> 0 then Some (m * 10 ^ nat e)
      else if m mod 10 ^ nat (- e) = 0 then Some (m div 10 ^ nat (- e)) else None)"

definition decimal_integer :: "string \<Rightarrow> int option" where
  "decimal_integer s =
     (let (sign, body) = split_sign s;
          mantissa = takeWhile (\<lambda>c. c \<noteq> CHR ''e'' \<and> c \<noteq> CHR ''E'') body;
          tail = drop (length mantissa) body;
          whole = takeWhile (\<lambda>c. c \<noteq> CHR ''.'') mantissa;
          frac = drop (length whole + 1) mantissa;
          e = (case tail of [] \<Rightarrow> Some 0 | _ # ds \<Rightarrow> exponent_of ds)
      in if whole @ frac = [] \<or> \<not> list_all is_digit (whole @ frac) then None
         else (case e of None \<Rightarrow> None
               | Some x \<Rightarrow> map_option (\<lambda>n. sign * int n) (scale_ten (read_nat (whole @ frac)) (x - int (length frac)))))"

definition INFINITY_BOUND :: int where
  "INFINITY_BOUND = (2 ^ 32) ^ 32"

definition js_integer :: "string \<Rightarrow> int option" where
  "js_integer s =
     (let t = trim s
      in if t = [] then Some 0
         else (case radix_integer t of
                 Some n \<Rightarrow> if int n < INFINITY_BOUND then Some (int n) else None
               | None \<Rightarrow> (case decimal_integer t of
                   Some n \<Rightarrow> if \<bar>n\<bar> < INFINITY_BOUND then Some n else None | None \<Rightarrow> None)))"

lemma js_integer_examples:
  "js_integer ''42'' = Some 42" "js_integer '' -7 '' = Some (- 7)" "js_integer ''1e3'' = Some 1000" "js_integer ''5.0'' = Some 5"
  "js_integer ''2.5'' = None" "js_integer ''0x1F'' = Some 31" "js_integer ''12a'' = None" "js_integer ''.'' = None" "js_integer [] = Some 0"
  by code_simp+

text \<open>Decimal text is read back as the number it shows.\<close>

lemma trim_digits: "list_all is_digit s \<Longrightarrow> trim s = s"
proof -
  assume d: "list_all is_digit s"
  have sp: "is_digit c \<Longrightarrow> \<not> is_space c" for c by (auto simp: is_digit_def is_space_def)
  have keep: "dropWhile is_space x = x" if "list_all is_digit x" for x
    using that sp by (cases x) auto
  show ?thesis using d keep [of s] keep [of "rev s"] by (simp add: trim_def)
qed

lemma takeWhile_digits:
  "list_all is_digit s \<Longrightarrow> \<not> is_digit d \<Longrightarrow> \<not> is_digit d' \<Longrightarrow> takeWhile (\<lambda>c. c \<noteq> d \<and> c \<noteq> d') s = s"
  by (induction s) auto

lemma decimal_integer_digits: "list_all is_digit s \<Longrightarrow> s \<noteq> [] \<Longrightarrow> decimal_integer s = Some (int (read_nat s))"
proof -
  assume d: "list_all is_digit s" "s \<noteq> []"
  have chars: "\<not> is_digit (CHR ''-'')" "\<not> is_digit (CHR ''+'')" "\<not> is_digit (CHR ''e'')" "\<not> is_digit (CHR ''E'')" "\<not> is_digit (CHR ''.'')"
    by code_simp+
  have sign: "split_sign s = (1, s)" using d chars by (cases s) (auto simp: split_sign_def)
  have m: "takeWhile (\<lambda>c. c \<noteq> CHR ''e'' \<and> c \<noteq> CHR ''E'') s = s" "takeWhile (\<lambda>c. c \<noteq> CHR ''.'') s = s"
    using takeWhile_digits [OF d(1) chars(3,4)] takeWhile_digits [OF d(1) chars(5) chars(5)] by simp_all
  show ?thesis
    unfolding decimal_integer_def sign prod.case Let_def m using d by (simp add: scale_ten_def)
qed

end
