(* ===== verification/Request.thy ===== *)
theory Request
  imports Clients Numbers Transaction Auth_Code
begin

text \<open>
  Parsing and validating an authorisation request, and building the redirect back,
  \<^verbatim>\<open>src/oauth/request.js\<close>. Looking a client up is a parameter here; the endpoints pass
  \<^const>\<open>resolveClient\<close>. The order of the checks is the order of the code: every error before the redirect URI is
  validated is an \<open>UnredirectableError\<close>, or not redirectable.
\<close>

definition RESPONSE_TYPES :: "string list" where "RESPONSE_TYPES = [''code'']"
definition RESPONSE_MODES :: "string list" where "RESPONSE_MODES = [''query'', ''form_post'']"
definition PROMPTS :: "string list" where "PROMPTS = [''none'', ''login'', ''consent'', ''select_account'']"
definition SUPPORTED_SCOPES :: "string list" where "SUPPORTED_SCOPES = [''openid'', ''email'', ''profile'', ''offline_access'']"

section \<open>Stage one: who is asking, and where may we answer\<close>

fun as_unredirectable :: "failure \<Rightarrow> failure" where
  "as_unredirectable (OAuthError e) = unredirectableError (oe_code e) (oe_description e) (oe_status e)"
| "as_unredirectable (UnredirectableError e) = unredirectableError (oe_code e) (oe_description e) (oe_status e)"
| "as_unredirectable (UserFacingError title detail status) =
     unredirectableError ''invalid_client'' (''The client could not be identified: '' @ title @ '': '' @ detail) 400"
| "as_unredirectable (Unexpected m) = unredirectableError ''invalid_client'' (''The client could not be identified: '' @ m) 400"

definition identify ::
  "url_parser \<Rightarrow> (string \<Rightarrow> (failure, client option) result) \<Rightarrow> config \<Rightarrow> params \<Rightarrow> (failure, string \<times> client \<times> string) result" where
  "identify parse_url resolve c params =
     rbind (single params ''client_id'') (\<lambda>clientId.
     case clientId of
       None \<Rightarrow> Inl (unredirectableError ''invalid_request'' ''The client_id parameter is missing.'' 400)
     | Some cid \<Rightarrow>
         rbind (rescue (\<lambda>e. Inl (as_unredirectable e)) (resolve cid)) (\<lambda>client.
         case client of
           None \<Rightarrow> Inl (unredirectableError ''invalid_client'' ''No client is registered with that client_id here.'' 401)
         | Some cl \<Rightarrow>
             rbind (single params ''redirect_uri'') (\<lambda>redirectUri.
             case redirectUri of
               None \<Rightarrow> Inl (unredirectableError ''invalid_request'' ''The redirect_uri parameter is missing.'' 400)
             | Some uri \<Rightarrow>
                 if \<not> redirectUriAllowed parse_url (cl_redirectUris cl) uri (cc_redirectUriSchemes (c_clients c))
                 then Inl (unredirectableError ''invalid_request''
                   ''That redirect_uri is not permitted. It must use an allowed scheme and match one of the registered values exactly.'' 400)
                 else Inr (cid, cl, uri))))"

section \<open>Stage two: everything else\<close>

definition response_type_of :: "params \<Rightarrow> (failure, string) result" where
  "response_type_of params =
     rbind (single params ''response_type'') (\<lambda>t.
     if \<not> str_truthy t then Inl (redirectableError ''invalid_request'' ''The response_type parameter is missing.'')
     else if the t \<notin> set RESPONSE_TYPES
     then Inl (redirectableError ''unsupported_response_type''
       ''Only the authorization code flow is supported here, so response_type must be \"code\".'')
     else Inr (the t))"

definition response_mode_of :: "params \<Rightarrow> (failure, string) result" where
  "response_mode_of params =
     rbind (single params ''response_mode'') (\<lambda>m.
     let mode = coalesce m ''query''
     in if mode \<notin> set RESPONSE_MODES then Inl (redirectableError ''invalid_request'' ''response_mode must be \"query\" or \"form_post\".'')
        else Inr mode)"

definition scope_of :: "client \<Rightarrow> params \<Rightarrow> (failure, string list) result" where
  "scope_of client params =
     rbind (single params ''scope'') (\<lambda>s.
     let scope = words (coalesce s []); unknown = filter (\<lambda>x. x \<notin> set SUPPORTED_SCOPES) scope;
         notPermitted = (case cl_scopes client of None \<Rightarrow> [] | Some allowed \<Rightarrow> filter (\<lambda>x. x \<notin> set allowed) scope)
     in if ''openid'' \<notin> set scope
        then Inl (redirectableError ''invalid_scope'' ''The scope must include \"openid\". This service issues identity tokens only.'')
        else if unknown \<noteq> [] then Inl (redirectableError ''invalid_scope'' (''Unsupported scope: '' @ join '', '' unknown @ ''.''))
        else if notPermitted \<noteq> []
        then Inl (redirectableError ''invalid_scope'' (''This client may not request: '' @ join '', '' notPermitted @ ''.''))
        else Inr scope)"

text \<open>The challenge and its method; a client that is exempt from PKCE may send neither.\<close>

definition challenge_of :: "client \<Rightarrow> params \<Rightarrow> (failure, (string \<times> string) option) result" where
  "challenge_of client params =
     rbind (single params ''code_challenge'') (\<lambda>challenge.
     rbind (single params ''code_challenge_method'') (\<lambda>m.
     let method = (case m of Some x \<Rightarrow> Some x | None \<Rightarrow> if challenge \<noteq> None then Some ''S256'' else None)
     in if cl_requirePkce client \<and> challenge = None
        then Inl (redirectableError ''invalid_request''
          ''A code_challenge is required. This service implements OAuth 2.1, where PKCE is mandatory.'')
        else (case challenge of None \<Rightarrow> Inr None
              | Some ch \<Rightarrow>
                  if method \<noteq> Some ''S256'' then Inl (redirectableError ''invalid_request'' ''code_challenge_method must be \"S256\".'')
                  else if \<not> pkce_text ch
                  then Inl (redirectableError ''invalid_request'' ''The code_challenge is not a valid base64url S256 digest.'')
                  else Inr (Some (ch, ''S256'')))))"

definition prompt_of :: "params \<Rightarrow> (failure, string list) result" where
  "prompt_of params =
     rbind (single params ''prompt'') (\<lambda>raw.
     let prompt = (case raw of None \<Rightarrow> [''consent''] | Some p \<Rightarrow> words p)
     in case find (\<lambda>p. p \<notin> set PROMPTS) prompt of
          Some p \<Rightarrow> Inl (redirectableError ''invalid_request'' (''Unsupported prompt value: '' @ p @ ''.''))
        | None \<Rightarrow>
            if ''none'' \<in> set prompt \<and> length prompt > 1
            then Inl (redirectableError ''invalid_request'' ''prompt=none cannot be combined with other prompt values.'')
            else Inr prompt)"

definition max_age_of :: "params \<Rightarrow> (failure, int option) result" where
  "max_age_of params =
     rbind (single params ''max_age'') (\<lambda>raw.
     case raw of None \<Rightarrow> Inr None
     | Some text \<Rightarrow>
         (case js_integer text of
            Some n \<Rightarrow> if n < 0 then Inl (redirectableError ''invalid_request'' ''max_age must be a non-negative integer.'') else Inr (Some n)
          | None \<Rightarrow> Inl (redirectableError ''invalid_request'' ''max_age must be a non-negative integer.'')))"

definition required_acr :: "config \<Rightarrow> client \<Rightarrow> string list \<Rightarrow> string list" where
  "required_acr c client asked =
     fold (\<lambda>a required. if a \<in> set required then required else required @ [a]) (cl_acrValues client)
       (if asked \<noteq> [] then asked else c_acrDefaultRequired c)"

definition id_token_alg_of :: "client \<Rightarrow> params \<Rightarrow> (failure, string option) result" where
  "id_token_alg_of client params =
     rbind (single params ''id_token_signed_response_alg'') (\<lambda>requested.
     if str_truthy (cl_idTokenSignedResponseAlg client) \<and> str_truthy requested \<and> requested \<noteq> cl_idTokenSignedResponseAlg client
     then Inl (redirectableError ''invalid_request'' ''The requested ID token signing algorithm does not match this client registration.'')
     else Inr (case cl_idTokenSignedResponseAlg client of Some a \<Rightarrow> Some a | None \<Rightarrow> requested))"

definition parseAuthorizationRequest ::
  "url_parser \<Rightarrow> (string \<Rightarrow> (failure, client option) result) \<Rightarrow> config \<Rightarrow> params \<Rightarrow> (failure, client \<times> auth_request) result" where
  "parseAuthorizationRequest parse_url resolve c params =
     rbind (identify parse_url resolve c params) (\<lambda>(clientId, client, redirectUri).
     rbind (single params ''state'') (\<lambda>state.
     rbind (response_type_of params) (\<lambda>responseType.
     rbind (response_mode_of params) (\<lambda>responseMode.
     rbind (scope_of client params) (\<lambda>scope.
     rbind (challenge_of client params) (\<lambda>challenge.
     rbind (single params ''nonce'') (\<lambda>nonce.
     rbind (prompt_of params) (\<lambda>prompt.
     rbind (max_age_of params) (\<lambda>maxAge.
     rbind (single params ''acr_values'') (\<lambda>acr.
     rbind (id_token_alg_of client params) (\<lambda>idTokenAlg.
     rbind (single params ''login_hint'') (\<lambda>hint.
     rbind (single params ''ui_locales'') (\<lambda>_.
       Inr (client, \<lparr>ar_clientId = clientId, ar_redirectUri = redirectUri, ar_state = state, ar_nonce = nonce, ar_scope = scope,
         ar_responseType = responseType, ar_responseMode = responseMode, ar_codeChallenge = map_option fst challenge,
         ar_codeChallengeMethod = map_option snd challenge, ar_acrValues = required_acr c client (words (coalesce acr [])),
         ar_prompt = prompt, ar_maxAge = maxAge, ar_loginHint = (if hint = None then None else normaliseEmail hint),
         ar_idTokenAlg = idTokenAlg, ar_resource = filter (\<lambda>r. r \<noteq> []) (getAll params ''resource'')\<rparr>))))))))))))))"

section \<open>The redirect back\<close>

text \<open>\<open>set_params\<close> is \<open>searchParams.set\<close> in order on the parsed redirect URI; it was validated before, so the
  \<open>None\<close> of a URL that does not parse does not occur.\<close>

definition successRedirect :: "(string \<Rightarrow> params \<Rightarrow> string option) \<Rightarrow> string \<Rightarrow> string \<Rightarrow> string option \<Rightarrow> string \<Rightarrow> string option" where
  "successRedirect set_params redirectUri code state issuer =
     set_params redirectUri ([(''code'', code)] @ (case state of None \<Rightarrow> [] | Some s \<Rightarrow> [(''state'', s)]) @ [(''iss'', issuer)])"

definition errorRedirect :: "(string \<Rightarrow> params \<Rightarrow> string option) \<Rightarrow> string \<Rightarrow> oauth_error \<Rightarrow> string option \<Rightarrow> string \<Rightarrow> string option" where
  "errorRedirect set_params redirectUri e state issuer =
     set_params redirectUri
       ([(''error'', oe_code e)] @ (if oe_description e \<noteq> [] then [(''error_description'', oe_description e)] else []) @
        (if str_truthy (oe_uri e) then [(''error_uri'', the (oe_uri e))] else []) @
        (case state of None \<Rightarrow> [] | Some s \<Rightarrow> [(''state'', s)]) @ [(''iss'', issuer)])"

section \<open>Facts\<close>

fun redirectable :: "failure \<Rightarrow> bool" where
  "redirectable (OAuthError e) = oe_redirectable e"
| "redirectable (UnredirectableError e) = oe_redirectable e"
| "redirectable _ = False"

lemma redirectable_simps [simp]:
  "\<not> redirectable (unredirectableError a b n)" "\<not> redirectable (oauthError a b)" "redirectable (redirectableError a b)"
  by (simp_all add: unredirectableError_def oauthError_def redirectableError_def)

lemma as_unredirectable_not [simp]: "\<not> redirectable (as_unredirectable e)"
  by (cases e) simp_all

lemma single_error: "single ps n = Inl e \<Longrightarrow> \<not> redirectable e"
  by (auto simp: single_def oauthError_def split: list.splits)

lemma single_nonempty: "single ps n = Inr (Some v) \<Longrightarrow> v \<noteq> []"
  by (auto simp: single_def split: list.splits if_splits)

lemma rbind_redirectable:
  assumes "\<And>e. r = Inl e \<Longrightarrow> \<not> redirectable e" "\<And>x e. r = Inr x \<Longrightarrow> f x = Inl e \<Longrightarrow> \<not> redirectable e"
  shows "rbind r f = Inl e \<Longrightarrow> \<not> redirectable e"
  using assms by (cases r) auto

lemma identify_error: "identify p resolve c params = Inl e \<Longrightarrow> \<not> redirectable e"
  unfolding identify_def
  by (erule rbind_redirectable [rotated 2], erule single_error)
    (auto simp: rescue_def single_error rbind_Inl_iff split: option.split_asm sum.split_asm if_split_asm,
      metis redirectable_simps(1))

lemma identify_ok:
  "identify p resolve c params = Inr (cid, cl, uri) \<Longrightarrow>
     single params ''client_id'' = Inr (Some cid) \<and> resolve cid = Inr (Some cl) \<and> single params ''redirect_uri'' = Inr (Some uri) \<and>
     redirectUriAllowed p (cl_redirectUris cl) uri (cc_redirectUriSchemes (c_clients c))"
  by (auto simp: identify_def rescue_def split: option.splits if_splits sum.splits)

lemma fold_add_missing:
  "set (fold (\<lambda>a required. if a \<in> set required then required else required @ [a]) xs init) = set xs \<union> set init"
  by (induction xs arbitrary: init) auto

lemma required_acr_set:
  "set (required_acr c cl asked) = set (cl_acrValues cl) \<union> set (if asked \<noteq> [] then asked else c_acrDefaultRequired c)"
  by (simp add: required_acr_def fold_add_missing)

text \<open>What a validated request satisfies.\<close>

definition request_wf :: "url_parser \<Rightarrow> config \<Rightarrow> client \<Rightarrow> auth_request \<Rightarrow> bool" where
  "request_wf p c client req \<longleftrightarrow>
     redirectUriAllowed p (cl_redirectUris client) (ar_redirectUri req) (cc_redirectUriSchemes (c_clients c)) \<and>
     ar_responseType req = ''code'' \<and> ar_responseMode req \<in> {''query'', ''form_post''} \<and>
     ''openid'' \<in> set (ar_scope req) \<and> set (ar_scope req) \<subseteq> set SUPPORTED_SCOPES \<and>
     (\<forall>allowed. cl_scopes client = Some allowed \<longrightarrow> set (ar_scope req) \<subseteq> set allowed) \<and>
     (case ar_codeChallenge req of
        None \<Rightarrow> \<not> cl_requirePkce client \<and> ar_codeChallengeMethod req = None
      | Some ch \<Rightarrow> pkce_text ch \<and> ar_codeChallengeMethod req = Some ''S256'') \<and>
     set (ar_prompt req) \<subseteq> set PROMPTS \<and> (''none'' \<in> set (ar_prompt req) \<longrightarrow> ar_prompt req = [''none'']) \<and>
     (\<forall>n. ar_maxAge req = Some n \<longrightarrow> 0 \<le> n) \<and>
     set (cl_acrValues client) \<subseteq> set (ar_acrValues req) \<and>
     (\<forall>a. cl_idTokenSignedResponseAlg client = Some a \<longrightarrow> ar_idTokenAlg req = Some a)"

lemma response_type_ok: "response_type_of params = Inr t \<Longrightarrow> t = ''code''"
  by (auto simp: response_type_of_def RESPONSE_TYPES_def split: if_splits)

lemma response_mode_ok: "response_mode_of params = Inr m \<Longrightarrow> m \<in> {''query'', ''form_post''}"
  by (auto simp: response_mode_of_def RESPONSE_MODES_def Let_def split: if_splits)

lemma scope_ok:
  "scope_of client params = Inr scope \<Longrightarrow>
     ''openid'' \<in> set scope \<and> set scope \<subseteq> set SUPPORTED_SCOPES \<and>
     (\<forall>allowed. cl_scopes client = Some allowed \<longrightarrow> set scope \<subseteq> set allowed)"
  by (auto simp: scope_of_def Let_def filter_empty_conv split: if_splits option.splits)

lemma challenge_ok:
  "challenge_of client params = Inr ch \<Longrightarrow>
     (case ch of None \<Rightarrow> \<not> cl_requirePkce client | Some (x, m) \<Rightarrow> pkce_text x \<and> m = ''S256'')"
  by (auto simp: challenge_of_def Let_def split: if_splits option.splits)

lemma prompt_ok:
  assumes "prompt_of params = Inr prompt"
  shows "set prompt \<subseteq> set PROMPTS \<and> (''none'' \<in> set prompt \<longrightarrow> prompt = [''none''])"
proof -
  from assms have "find (\<lambda>p. p \<notin> set PROMPTS) prompt = None" and l: "\<not> (''none'' \<in> set prompt \<and> length prompt > 1)"
    by (auto simp: prompt_of_def Let_def split: if_splits option.split_asm)
  then have "set prompt \<subseteq> set PROMPTS" by (auto simp: find_None_iff)
  moreover have "''none'' \<in> set prompt \<Longrightarrow> prompt = [''none'']"
    using l by (cases prompt; cases "tl prompt") auto
  ultimately show ?thesis by blast
qed

lemma max_age_ok: "max_age_of params = Inr (Some n) \<Longrightarrow> 0 \<le> n"
  by (cases "single params ''max_age''") (auto simp: max_age_of_def split: option.split_asm if_split_asm)

lemma id_token_alg_ok:
  "id_token_alg_of client params = Inr alg \<Longrightarrow> cl_idTokenSignedResponseAlg client = Some a \<Longrightarrow> alg = Some a"
  by (auto simp: id_token_alg_of_def split: if_splits)

lemma parse_ok:
  assumes "parseAuthorizationRequest p resolve c params = Inr (client, req)"
  shows "resolve (ar_clientId req) = Inr (Some client) \<and> request_wf p c client req"
proof -
  from assms obtain cid uri state rt rm scope ch nonce prompt maxAge acr alg hint u where *:
    "identify p resolve c params = Inr (cid, client, uri)" "response_type_of params = Inr rt" "response_mode_of params = Inr rm"
    "scope_of client params = Inr scope" "challenge_of client params = Inr ch" "prompt_of params = Inr prompt"
    "max_age_of params = Inr maxAge" "id_token_alg_of client params = Inr alg"
    and req: "req = \<lparr>ar_clientId = cid, ar_redirectUri = uri, ar_state = state, ar_nonce = nonce, ar_scope = scope,
         ar_responseType = rt, ar_responseMode = rm, ar_codeChallenge = map_option fst ch,
         ar_codeChallengeMethod = map_option snd ch, ar_acrValues = required_acr c client (words (coalesce acr [])),
         ar_prompt = prompt, ar_maxAge = maxAge, ar_loginHint = (if hint = None then None else normaliseEmail hint),
         ar_idTokenAlg = alg, ar_resource = filter (\<lambda>r. r \<noteq> []) (getAll params ''resource'')\<rparr>"
    by (auto simp: parseAuthorizationRequest_def)
  note facts = identify_ok [OF *(1)] response_type_ok [OF *(2)] response_mode_ok [OF *(3)] scope_ok [OF *(4)]
    challenge_ok [OF *(5)] prompt_ok [OF *(6)] max_age_ok id_token_alg_ok [OF *(8)] *(7)
  show ?thesis
    using facts unfolding req request_wf_def by (cases ch) (auto simp: required_acr_set)
qed

lemma parse_error:
  assumes "parseAuthorizationRequest p resolve c params = Inl e" "redirectable e"
  shows "\<exists>cid cl uri. identify p resolve c params = Inr (cid, cl, uri)"
  using assms identify_error [of p resolve c params] unfolding parseAuthorizationRequest_def
  by (cases "identify p resolve c params") auto

section \<open>Properties\<close>

text \<open>C31: an error is reported to the relying party only after its address is proven. When parsing fails with an
  error that may be redirected, the client identifier named a registered client and the redirect URI of the
  request passed the exact match against that client's registrations.\<close>

theorem errors_redirect_only_to_registered:
  assumes "parseAuthorizationRequest parse resolve c params = Inl e" and "redirectable e"
  shows "\<exists>cid client uri. single params ''client_id'' = Inr (Some cid) \<and> resolve cid = Inr (Some client) \<and>
    single params ''redirect_uri'' = Inr (Some uri) \<and>
    redirectUriAllowed parse (cl_redirectUris client) uri (cc_redirectUriSchemes (c_clients c))"
  using parse_error [OF assms] identify_ok by blast

definition sample_params :: params where
  "sample_params = [(''client_id'', ''app''), (''redirect_uri'', ''https://app.example/cb''), (''response_type'', ''code''),
     (''scope'', ''openid email''), (''code_challenge'', replicate 43 (CHR ''a'')), (''state'', ''xyz'')]"

definition sample_resolve :: "string \<Rightarrow> (failure, client option) result" where
  "sample_resolve cid = Inr (if cid = ''app'' then Some sample_client else None)"

theorem errors_redirect_only_to_registered_witness:
  "redirectable (projl (parseAuthorizationRequest sample_parse sample_resolve sample_config (sample_params @ [(''prompt'', ''maybe'')]))) \<and>
   redirectUriAllowed sample_parse (cl_redirectUris sample_client) ''https://app.example/cb'' (cc_redirectUriSchemes (c_clients sample_config))"
proof -
  let ?ps = "sample_params @ [(''prompt'', ''maybe'')]"
  let ?r = "parseAuthorizationRequest sample_parse sample_resolve sample_config ?ps"
  have r: "?r = Inl (redirectableError ''invalid_request'' ''Unsupported prompt value: maybe.'')" by code_simp
  have e: "redirectable (redirectableError ''invalid_request'' ''Unsupported prompt value: maybe.'')" by simp
  have ids: "single ?ps ''client_id'' = Inr (Some ''app'')" "single ?ps ''redirect_uri'' = Inr (Some ''https://app.example/cb'')"
    "sample_resolve ''app'' = Inr (Some sample_client)"
    by code_simp+
  from errors_redirect_only_to_registered [OF r e] ids show ?thesis by (auto simp: r)
qed

text \<open>C32: a request that is accepted is one the protocol allows. The client is the registered one, the redirect URI
  matches, the response type is \<open>code\<close>, the scope has \<open>openid\<close> and stays within what the gateway and the client
  support, PKCE with S256 and a well-formed challenge is present unless the client is exempt, \<open>prompt=none\<close>
  stands alone, the maximum age is not negative, the client's authentication floor is part of the demand, and a
  registered signing algorithm is not replaced.\<close>

theorem accepted_request_well_formed:
  assumes "parseAuthorizationRequest parse resolve c params = Inr (client, req)"
  shows "resolve (ar_clientId req) = Inr (Some client) \<and> request_wf parse c client req"
  by (rule parse_ok [OF assms])

theorem accepted_request_well_formed_witness:
  "\<exists>req. parseAuthorizationRequest sample_parse sample_resolve sample_config sample_params = Inr (sample_client, req) \<and>
     request_wf sample_parse sample_config sample_client req"
proof -
  have "is_ok (parseAuthorizationRequest sample_parse sample_resolve sample_config sample_params)" by code_simp
  then obtain cl req where r: "parseAuthorizationRequest sample_parse sample_resolve sample_config sample_params = Inr (cl, req)"
    by (auto simp: is_ok_def split: sum.split_asm)
  have "ar_clientId (snd (projr (parseAuthorizationRequest sample_parse sample_resolve sample_config sample_params))) = ''app''"
    by code_simp
  then have "ar_clientId req = ''app''" by (simp add: r)
  with accepted_request_well_formed [OF r] r show ?thesis by (auto simp: sample_resolve_def)
qed

end
