(* ===== verification/Respond.thy ===== *)
theory Respond
  imports Request
begin

text \<open>
  Turning a decision into a response, \<^verbatim>\<open>src/endpoints/respond.js\<close>, with the content security policies of
  \<^verbatim>\<open>src/ui/csp.js\<close>. A screen is kept as the value its template is given, with its legal links and the client's logo (\<^verbatim>\<open>src/ui/pages.js\<close>); the HTML of the
  self-submitting form is written out, because it is where a code leaves the gateway.
\<close>

section \<open>Screens and answers\<close>

record page_error =
  pe_title :: string
  pe_detail :: string

record legal_links =
  lg_terms :: "string option"
  lg_privacy :: "string option"

record identity_card =
  ic_email :: "string option"
  ic_name :: "string option"
  ic_picture :: "string option"

datatype page =
    EmailPage string "string option" bool "page_error option" bool bool
  | OtpPage string "string option" "page_error option" "string option" bool
  | LocalPasswordPage string "string option" "page_error option" "(string \<times> string) list"
  | LocalMfaPage string "string option" "page_error option" "nat list"
  | ContinuePage string json "identity_card option" "page_error option"
  | ChooserPage string "string option" "(string \<times> string) list" "string option" "page_error option" bool
  | SignedOutPage "string option" "string option"
  | ConfirmLogoutPage string "string option" "identity_card option" "string option" "string option" bool
  | ErrorPage string string

datatype content =
    NoContent
  | PageContent page legal_links "string option"
  | FormPost string params
  | OtherContent body

record answer =
  an_status :: int
  an_headers :: headers
  an_content :: content

definition of_response :: "response \<Rightarrow> answer" where
  "of_response r = \<lparr>an_status = rs_status r, an_headers = rs_headers r,
     an_content = (if rs_body r = NoBody then NoContent else OtherContent (rs_body r))\<rparr>"

definition html_answer :: "content \<Rightarrow> int \<Rightarrow> headers \<Rightarrow> answer" where
  "html_answer content status hs =
     \<lparr>an_status = status, an_headers = rs_headers (html_response [] status hs), an_content = content\<rparr>"

definition redirect_answer :: "string \<Rightarrow> answer" where
  "redirect_answer location = of_response (redirect location [])"

definition answer_cookie :: "answer \<Rightarrow> string \<Rightarrow> answer" where
  "answer_cookie a cookie = a\<lparr>an_headers := an_headers a @ [(''set-cookie'', cookie)]\<rparr>"

text \<open>Where an answer sends the browser: the location of a redirect, or the target of a form.\<close>

definition sends_to :: "answer \<Rightarrow> string option" where
  "sends_to a = (case an_content a of FormPost uri _ \<Rightarrow> Some uri | _ \<Rightarrow> map_of (an_headers a) ''location'')"

section \<open>Content security policies\<close>

definition originOf :: "url_parser \<Rightarrow> string option \<Rightarrow> string option" where
  "originOf parse_url value =
     (if \<not> str_truthy value then None
      else (case parse_url (the value) of None \<Rightarrow> None
            | Some url \<Rightarrow> if u_protocol url \<noteq> ''https:'' \<and> u_protocol url \<noteq> ''http:'' then None else Some (u_origin url)))"

definition opt_list :: "'a option \<Rightarrow> 'a list" where
  "opt_list v = (case v of None \<Rightarrow> [] | Some x \<Rightarrow> [x])"

definition quoted :: "string \<Rightarrow> string" where
  "quoted s = [CHR 0x27] @ s @ [CHR 0x27]"

definition contentSecurityPolicy :: "url_parser \<Rightarrow> config \<Rightarrow> string option \<Rightarrow> string" where
  "contentSecurityPolicy parse_url c clientLogoUri =
     (let remote = originOf parse_url (ui_customCssRemoteUrl (c_ui c));
          style = [quoted ''self''] @ opt_list remote;
          font = [quoted ''self''] @ opt_list remote;
          img = [quoted ''self'', ''data:''] @ opt_list remote;
          logo = originOf parse_url (ui_logoUrl (c_ui c));
          img = (if str_truthy logo \<and> logo \<noteq> remote then img @ [the logo] else img);
          clientLogo = originOf parse_url clientLogoUri;
          img = (if str_truthy clientLogo \<and> the clientLogo \<notin> set img then img @ [the clientLogo] else img);
          img = (if pr_showPicture (c_profile c) then img @ [''https:''] else img)
      in join ''; ''
           [''default-src '' @ quoted ''none'', ''base-uri '' @ quoted ''none'', ''script-src '' @ quoted ''self'',
            ''style-src '' @ join '' '' style, ''img-src '' @ join '' '' img, ''font-src '' @ join '' '' font,
            ''connect-src '' @ quoted ''none'', ''frame-ancestors '' @ quoted ''none''])"

definition formPostPolicy :: "url_parser \<Rightarrow> string \<Rightarrow> string" where
  "formPostPolicy parse_url redirectUri =
     join ''; ''
       [''default-src '' @ quoted ''none'', ''base-uri '' @ quoted ''none'', ''script-src '' @ quoted ''self'',
        ''form-action '' @ or_str (originOf parse_url (Some redirectUri)) (quoted ''none''),
        ''frame-ancestors '' @ quoted ''none'']"

section \<open>The self-submitting form\<close>

definition hidden_input :: "string \<times> string \<Rightarrow> string" where
  "hidden_input = (\<lambda>(k, v). ''<input type=\"hidden\" name=\"'' @ escapeHtml (Some k) @ ''\" value=\"'' @ escapeHtml (Some v) @ ''\">'')"

definition nl :: string where "nl = [CHR 10]"

definition form_post_html :: "string \<Rightarrow> string \<Rightarrow> string \<Rightarrow> params \<Rightarrow> string" where
  "form_post_html locale js redirectUri items =
     ''<!DOCTYPE html>'' @ nl @
     ''<html lang=\"'' @ escapeHtml (Some (if locale = [] then ''en-GB'' else locale)) @ ''\">'' @ nl @
     ''  <head>'' @ nl @
     ''    <meta charset=\"utf-8\">'' @ nl @
     ''    <meta name=\"viewport\" content=\"width=device-width, initial-scale=1\">'' @ nl @
     ''    <meta name=\"robots\" content=\"noindex, nofollow\">'' @ nl @
     ''    <title>Completing sign-in</title>'' @ nl @
     ''    <script src=\"'' @ escapeHtml (Some js) @ ''\"></script>'' @ nl @
     ''  </head>'' @ nl @
     ''  <body>'' @ nl @
     ''    <noscript><p>Select continue to finish signing in.</p></noscript>'' @ nl @
     ''    <form method=\"post\" action=\"'' @ escapeHtml (Some redirectUri) @ ''\" data-autosubmit>'' @ nl @
     ''        '' @ join (nl @ ''        '') (map hidden_input items) @ nl @
     ''      <noscript><button type=\"submit\">Continue</button></noscript>'' @ nl @
     ''    </form>'' @ nl @
     ''  </body>'' @ nl @
     ''</html>'' @ nl"

text \<open>\<open>undefined\<close> fields are left out.\<close>

definition formPostResponse :: "url_parser \<Rightarrow> string \<Rightarrow> (string \<times> string option) list \<Rightarrow> answer" where
  "formPostResponse parse_url redirectUri items =
     html_answer (FormPost redirectUri (List.map_filter (\<lambda>(k, v). map_option (Pair k) v) items)) 200
       [(''content-security-policy'', formPostPolicy parse_url redirectUri)]"

section \<open>Answers of the authorisation endpoint\<close>

definition tx_str :: "json \<Rightarrow> string \<Rightarrow> string option" where
  "tx_str tx k = as_str (jget tx k)"

definition located :: "string option \<Rightarrow> (failure, answer) result" where
  "located url = (case url of None \<Rightarrow> Inl (Unexpected ''Invalid URL'') | Some u \<Rightarrow> Inr (redirect_answer u))"

definition authorizationResponse :: "web \<Rightarrow> config \<Rightarrow> json \<Rightarrow> string \<Rightarrow> (failure, answer) result" where
  "authorizationResponse w c tx code =
     (let redirectUri = coalesce (tx_str tx ''redirect_uri'') []
      in if tx_str tx ''response_mode'' = Some ''form_post''
         then Inr (formPostResponse (wb_parse w) redirectUri
           [(''code'', Some code), (''state'', tx_str tx ''state''), (''iss'', Some (c_issuer c))])
         else located (successRedirect (wb_set w) redirectUri code (tx_str tx ''state'') (c_issuer c)))"

definition titleFor :: "failure \<Rightarrow> string" where
  "titleFor error =
     (let code = (case error of OAuthError e \<Rightarrow> oe_code e | UnredirectableError e \<Rightarrow> oe_code e | _ \<Rightarrow> [])
      in if code = ''invalid_client'' then ''This application is not recognised''
         else if code = ''invalid_request'' then ''That sign-in request is not valid''
         else if code = ''access_denied'' then ''Sign-in was not completed''
         else if code = ''login_required'' \<or> code = ''interaction_required'' then ''Sign-in is needed''
         else if code = ''unmet_authentication_requirements'' then ''A stronger sign-in is required''
         else if code = ''server_error'' then ''Something went wrong''
         else ''Sign-in could not continue'')"

definition no_legal :: legal_links where
  "no_legal = \<lparr>lg_terms = None, lg_privacy = None\<rparr>"

definition error_page :: "failure \<Rightarrow> answer" where
  "error_page error =
     (let detail = (case error of OAuthError e \<Rightarrow> oe_description e | UnredirectableError e \<Rightarrow> oe_description e
                    | _ \<Rightarrow> ''Something went wrong while signing you in.'');
          status = (case error of OAuthError e \<Rightarrow> oe_status e | UnredirectableError e \<Rightarrow> oe_status e
                    | UserFacingError _ _ s \<Rightarrow> s | Unexpected _ \<Rightarrow> 400)
      in html_answer (PageContent (ErrorPage (titleFor error) detail) no_legal None) status [])"

record targets =
  tg_redirectUri :: "string option"
  tg_state :: "string option"
  tg_responseMode :: "string option"

definition no_targets :: targets where
  "no_targets = \<lparr>tg_redirectUri = None, tg_state = None, tg_responseMode = None\<rparr>"

definition redirectTargets :: "json \<Rightarrow> targets" where
  "redirectTargets tx = \<lparr>tg_redirectUri = tx_str tx ''redirect_uri'', tg_state = tx_str tx ''state'',
     tg_responseMode = tx_str tx ''response_mode''\<rparr>"

definition failureResponse :: "web \<Rightarrow> config \<Rightarrow> failure \<Rightarrow> targets \<Rightarrow> (failure, answer) result" where
  "failureResponse w c error t =
     (case error of
        OAuthError e \<Rightarrow>
          if str_truthy (tg_redirectUri t) \<and> oe_redirectable e
          then (if tg_responseMode t = Some ''form_post''
                then Inr (formPostResponse (wb_parse w) (the (tg_redirectUri t))
                  [(''error'', Some (oe_code e)), (''error_description'', Some (oe_description e)), (''state'', tg_state t),
                   (''iss'', Some (c_issuer c))])
                else located (errorRedirect (wb_set w) (the (tg_redirectUri t)) e (tg_state t) (c_issuer c)))
          else Inr (error_page error)
      | _ \<Rightarrow> Inr (error_page error))"

definition startAgainResponse :: "string option \<Rightarrow> answer" where
  "startAgainResponse detail =
     html_answer (PageContent (ErrorPage ''Start signing in again''
       (or_str detail ''This sign-in attempt has expired or was already finished. Nothing is wrong with your account.'')) no_legal None) 400 []"

definition legalFor :: "url_parser \<Rightarrow> config \<Rightarrow> json \<Rightarrow> legal_links" where
  "legalFor parse_url c source =
     (let safe = (\<lambda>v. safeHttpUrl parse_url v (c_devMode c));
          pick = (\<lambda>own fallback. case own of Some u \<Rightarrow> (if u = [] then fallback else own) | None \<Rightarrow> fallback)
      in \<lparr>lg_terms = pick (safe (as_str (jor (jget source ''tosUri'') (jget source ''tos_uri'')))) (safe (ui_termsUrl (c_ui c))),
          lg_privacy = pick (safe (as_str (jor (jget source ''policyUri'') (jget source ''policy_uri'')))) (safe (ui_privacyUrl (c_ui c)))\<rparr>)"

section \<open>Facts\<close>

text \<open>\<open>searchParams.set\<close> only changes the query: the address stays where it was.\<close>

definition keeps_address :: "web \<Rightarrow> bool" where
  "keeps_address w \<longleftrightarrow>
     (\<forall>s ps t u. wb_set w s ps = Some t \<and> wb_parse w s = Some u \<longrightarrow>
        (\<exists>v. wb_parse w t = Some v \<and> u_origin v = u_origin u \<and> u_protocol v = u_protocol u \<and> u_hostname v = u_hostname u \<and>
             u_pathname v = u_pathname u))"

definition same_place :: "web \<Rightarrow> string \<Rightarrow> string \<Rightarrow> bool" where
  "same_place w s t \<longleftrightarrow>
     s = t \<or> (\<exists>u v. wb_parse w s = Some u \<and> wb_parse w t = Some v \<and> u_origin v = u_origin u \<and>
              u_protocol v = u_protocol u \<and> u_hostname v = u_hostname u \<and> u_pathname v = u_pathname u)"

lemma sends_to_page [simp]: "sends_to (html_answer (PageContent p l logo) n []) = None"
  by (simp add: sends_to_def html_answer_def html_response_def spread_def NO_STORE_def SECURITY_HEADERS_def)

lemma sends_to_form [simp]: "sends_to (formPostResponse p uri items) = Some uri"
  by (simp add: sends_to_def formPostResponse_def html_answer_def)

lemma sends_to_redirect [simp]: "sends_to (redirect_answer u) = Some u"
  by (simp add: sends_to_def redirect_answer_def of_response_def redirect_def spread_def NO_STORE_def SECURITY_HEADERS_def)

lemma sends_to_cookie [simp]: "sends_to (answer_cookie a x) = sends_to a"
  by (simp add: sends_to_def answer_cookie_def map_add_def split: content.splits option.splits)

lemma sends_to_error [simp]: "sends_to (error_page e) = None" "sends_to (startAgainResponse d) = None"
  by (simp_all add: error_page_def startAgainResponse_def Let_def)

lemma located_sends:
  assumes "keeps_address w" "located (wb_set w uri ps) = Inr a" "wb_parse w uri \<noteq> None"
  shows "\<exists>t. sends_to a = Some t \<and> same_place w uri t"
proof -
  from assms(2) obtain t where t: "wb_set w uri ps = Some t" "a = redirect_answer t"
    by (auto simp: located_def split: option.splits)
  with assms(1,3) show ?thesis by (force simp: keeps_address_def same_place_def)
qed

lemma failureResponse_sends:
  assumes "keeps_address w" "failureResponse w c e t = Inr a" "sends_to a = Some place"
    and "\<And>uri. tg_redirectUri t = Some uri \<Longrightarrow> redirectable e \<Longrightarrow> wb_parse w uri \<noteq> None"
  shows "redirectable e \<and> (\<exists>uri. tg_redirectUri t = Some uri \<and> same_place w uri place)"
proof (cases e)
  case (OAuthError o1)
  then have "str_truthy (tg_redirectUri t)" "oe_redirectable o1" and
    "(tg_responseMode t = Some ''form_post'' \<and> place = the (tg_redirectUri t)) \<or>
     located (errorRedirect (wb_set w) (the (tg_redirectUri t)) o1 (tg_state t) (c_issuer c)) = Inr a"
    using assms(2,3) by (auto simp: failureResponse_def split: if_splits)
  moreover from this obtain uri where "tg_redirectUri t = Some uri" by (auto simp: str_truthy_def)
  ultimately show ?thesis
    using assms(3) assms(4) [of uri] located_sends [OF assms(1), of uri _ a] OAuthError
    unfolding errorRedirect_def by (fastforce simp: same_place_def)
qed (use assms in \<open>auto simp: failureResponse_def\<close>)

lemma authorizationResponse_sends:
  assumes "keeps_address w" "authorizationResponse w c tx code = Inr a" "tx_str tx ''redirect_uri'' = Some uri"
    "wb_parse w uri \<noteq> None"
  shows "\<exists>place. sends_to a = Some place \<and> same_place w uri place"
  using assms located_sends [OF assms(1), of uri _ a]
  by (auto simp: authorizationResponse_def successRedirect_def Let_def coalesce_def same_place_def split: if_splits)

text \<open>A value in the form cannot leave its attribute.\<close>

lemma escapeHtml_quote_free: "CHR 0x22 \<notin> set (escapeHtml (Some v))" "CHR ''<'' \<notin> set (escapeHtml (Some v))"
  using entity_safe by (fastforce simp: escapeHtml_single_pass)+

end
