(* ===== verification/Jose.thy ===== *)
theory Jose
  imports Bounded_Cache Sealing Http
begin

text \<open>
  Compact signatures, \<^verbatim>\<open>src/crypto/jose.js\<close>: the table of algorithms, the strength of keys, signing and verifying,
  the checks on claims, the conversion of DER signatures and the cache of remote key sets. Importing a key and
  verifying with it (\<open>crypto.subtle\<close>) is the parameter \<open>verifier\<close>, whose \<open>Inl\<close> is a key it does not import.
\<close>

unbundle bit_operations_syntax

section \<open>Algorithms\<close>

record alg_spec =
  as_name :: string
  as_namedCurve :: "string option"
  as_hash :: "string option"
  as_saltLength :: "nat option"
  as_kty :: string
  as_family :: string
  as_signatureBytes :: "nat option"
  as_publicKeyBytes :: "nat option"

definition classical :: "string \<Rightarrow> string option \<Rightarrow> string \<Rightarrow> nat option \<Rightarrow> string \<Rightarrow> string \<Rightarrow> alg_spec" where
  "classical nm curve hash salt kty family =
     \<lparr>as_name = nm, as_namedCurve = curve, as_hash = Some hash, as_saltLength = salt, as_kty = kty, as_family = family,
      as_signatureBytes = None, as_publicKeyBytes = None\<rparr>"

definition lattice :: "string \<Rightarrow> nat \<Rightarrow> nat \<Rightarrow> alg_spec" where
  "lattice nm sig pub =
     \<lparr>as_name = nm, as_namedCurve = None, as_hash = None, as_saltLength = None, as_kty = ''AKP'', as_family = ''post-quantum'',
      as_signatureBytes = Some sig, as_publicKeyBytes = Some pub\<rparr>"

definition ALGS :: "(string \<times> alg_spec) list" where
  "ALGS =
     [(''ES256'', classical ''ECDSA'' (Some ''P-256'') ''SHA-256'' None ''EC'' ''classical''),
      (''ES384'', classical ''ECDSA'' (Some ''P-384'') ''SHA-384'' None ''EC'' ''classical''),
      (''RS256'', classical ''RSASSA-PKCS1-v1_5'' None ''SHA-256'' None ''RSA'' ''classical''),
      (''PS256'', classical ''RSA-PSS'' None ''SHA-256'' (Some 32) ''RSA'' ''classical''),
      (''HS256'', classical ''HMAC'' None ''SHA-256'' None ''oct'' ''symmetric''),
      (''ML-DSA-44'', lattice ''ML-DSA-44'' 2420 1312),
      (''ML-DSA-65'', lattice ''ML-DSA-65'' 3309 1952),
      (''ML-DSA-87'', lattice ''ML-DSA-87'' 4627 2592)]"

definition isPostQuantum :: "string \<Rightarrow> bool" where
  "isPostQuantum alg \<longleftrightarrow> (case map_of ALGS alg of None \<Rightarrow> False | Some spec \<Rightarrow> as_family spec = ''post-quantum'')"

definition POST_QUANTUM_ALGS :: "string list" where
  "POST_QUANTUM_ALGS = filter isPostQuantum (map fst ALGS)"

definition algParams :: "string \<Rightarrow> (string, alg_spec) result" where
  "algParams alg = (case map_of ALGS alg of None \<Rightarrow> Inl (''unsupported JWS algorithm: '' @ alg) | Some spec \<Rightarrow> Inr spec)"

text \<open>The parameter objects of WebCrypto, as their fields.\<close>

definition importParams :: "string \<Rightarrow> (string, (string \<times> string) list) result" where
  "importParams alg =
     rbind (algParams alg) (\<lambda>spec.
     Inr (if as_family spec = ''post-quantum'' then [(''name'', as_name spec)]
          else if as_name spec = ''ECDSA'' then [(''name'', ''ECDSA''), (''namedCurve'', coalesce (as_namedCurve spec) [])]
          else if as_name spec = ''HMAC'' then [(''name'', ''HMAC''), (''hash'', coalesce (as_hash spec) [])]
          else [(''name'', as_name spec), (''hash'', coalesce (as_hash spec) [])]))"

definition signParams :: "string \<Rightarrow> (string, (string \<times> string) list) result" where
  "signParams alg =
     rbind (algParams alg) (\<lambda>spec.
     Inr (if as_family spec = ''post-quantum'' then [(''name'', as_name spec)]
          else if as_name spec = ''ECDSA'' then [(''name'', ''ECDSA''), (''hash'', coalesce (as_hash spec) [])]
          else if as_name spec = ''RSA-PSS'' then [(''name'', ''RSA-PSS''), (''saltLength'', show_nat (coalesce (as_saltLength spec) 0))]
          else [(''name'', as_name spec)]))"

text \<open>\<open>32 - Math.clz32(b)\<close> of a byte.\<close>

fun bit_length :: "nat \<Rightarrow> nat" where
  "bit_length n = (if n = 0 then 0 else Suc (bit_length (n div 2)))"

declare bit_length.simps [simp del]

definition modulus_bits :: "bytes \<Rightarrow> nat" where
  "modulus_bits modulus =
     (case dropWhile (\<lambda>b. b = 0) modulus of [] \<Rightarrow> 0 | b # rest \<Rightarrow> length rest * 8 + bit_length (unat b))"

definition assertKeyStrength :: "json \<Rightarrow> string \<Rightarrow> (string, unit) result" where
  "assertKeyStrength jwk alg =
     rbind (algParams alg) (\<lambda>spec.
     if as_kty spec \<noteq> ''RSA'' then Inr ()
     else (case (jget jwk ''kty'', jget jwk ''n'') of
             (Some (JStr kty), Some (JStr n)) \<Rightarrow>
               if kty \<noteq> ''RSA'' then Inl (alg @ '' requires an RSA key'')
               else rbind (unb64u n) (\<lambda>modulus.
                 ok_or (\<not> modulus_bits modulus < 2048) (alg @ '' requires an RSA modulus of at least 2048 bits''))
           | _ \<Rightarrow> Inl (alg @ '' requires an RSA key'')))"

section \<open>Keys\<close>

definition jwkThumbprint :: "platform \<Rightarrow> json \<Rightarrow> (string, string) result" where
  "jwkThumbprint pf jwk =
     (let pick = (\<lambda>names. jobj (map (\<lambda>n. (n, jget jwk n)) names)); kty = as_str (jget jwk ''kty'');
          hash = (\<lambda>canonical. Inr (sha256b64u pf (pf_stringify pf canonical)))
      in if kty = Some ''EC'' then hash (pick [''crv'', ''kty'', ''x'', ''y''])
         else if kty = Some ''RSA'' then hash (pick [''e'', ''kty'', ''n''])
         else if kty = Some ''oct'' then hash (pick [''k'', ''kty''])
         else if kty = Some ''AKP'' then hash (pick [''alg'', ''kty'', ''pub''])
         else Inl (''cannot thumbprint kty '' @ coalesce kty ''undefined''))"

definition publicPartOf :: "json \<Rightarrow> (string, json) result" where
  "publicPartOf jwk =
     (if \<not> truthy (jget jwk ''alg'') \<and> jget jwk ''kty'' = Some (JStr ''AKP'') then Inl ''an AKP JWK must carry an alg member''
      else Inr (jobj ([(''kty'', jget jwk ''kty'')] @ map (\<lambda>f. (f, jget jwk f)) [''crv'', ''x'', ''y'', ''n'', ''e'', ''pub''] @
        [(''alg'', if truthy (jget jwk ''alg'') then jget jwk ''alg'' else None),
         (''kid'', if truthy (jget jwk ''kid'') then jget jwk ''kid'' else None),
         (''use'', jnull (jget jwk ''use'') (Some (JStr ''sig'')))])))"

section \<open>Compact signatures\<close>

definition b64uJson :: "platform \<Rightarrow> json \<Rightarrow> string" where
  "b64uJson pf v = b64u (utf8 (pf_stringify pf v))"

definition signingInput :: "platform \<Rightarrow> json \<Rightarrow> json \<Rightarrow> string" where
  "signingInput pf hdr payload = b64uJson pf hdr @ ''.'' @ b64uJson pf payload"

definition signCompact :: "platform \<Rightarrow> string \<Rightarrow> (bytes \<Rightarrow> bytes) \<Rightarrow> json \<Rightarrow> json \<Rightarrow> string" where
  "signCompact pf alg signer hdr payload =
     (let input = signingInput pf (jput hdr ''alg'' (Some (JStr alg))) payload
      in input @ ''.'' @ b64u (signer (utf8 input)))"

record decoded_jwt =
  dj_header :: json
  dj_payload :: json
  dj_signature :: bytes
  dj_input :: bytes

definition unb64uText :: "string \<Rightarrow> (string, string) result" where
  "unb64uText s = rbind (unb64u s) (\<lambda>bs. Inr (from_utf8 bs))"

definition parse_json :: "platform \<Rightarrow> string \<Rightarrow> (string, json) result" where
  "parse_json pf s = (case pf_parse pf s of None \<Rightarrow> Inl ''invalid JSON'' | Some j \<Rightarrow> Inr j)"

definition decodeJwt :: "platform \<Rightarrow> string option \<Rightarrow> (string, decoded_jwt) result" where
  "decodeJwt pf token =
     (case split_on (CHR ''.'') (coalesce token []) of
        [h, p, s] \<Rightarrow>
          rbind (rbind (unb64uText h) (parse_json pf)) (\<lambda>hdr.
          rbind (rbind (unb64uText p) (parse_json pf)) (\<lambda>payload.
          rbind (unb64u s) (\<lambda>signature.
          Inr \<lparr>dj_header = hdr, dj_payload = payload, dj_signature = signature, dj_input = utf8 (h @ ''.'' @ p)\<rparr>)))
      | _ \<Rightarrow> Inl ''not a compact JWS'')"

type_synonym verifier = "string \<Rightarrow> json \<Rightarrow> bytes \<Rightarrow> bytes \<Rightarrow> (string, bool) result"

definition importPublicJwk :: "json \<Rightarrow> string \<Rightarrow> (string, json) result" where
  "importPublicJwk jwk alg =
     rbind (publicPartOf jwk) (\<lambda>pub. rbind (assertKeyStrength pub alg) (\<lambda>_. Inr pub))"

definition verifyCompact :: "platform \<Rightarrow> verifier \<Rightarrow> string \<Rightarrow> json \<Rightarrow> string list \<Rightarrow> (string, json) result" where
  "verifyCompact pf verify token jwk algs =
     rbind (decodeJwt pf (Some token)) (\<lambda>d.
     let alg = coalesce (as_str (jget (dj_header d) ''alg'')) ''undefined''
     in if map_of ALGS alg = None then Inl (''unsupported alg '' @ alg)
        else if alg \<notin> set algs then Inl (''alg '' @ alg @ '' not permitted here'')
        else rbind (importPublicJwk jwk alg) (\<lambda>key.
             rbind (verify alg key (dj_signature d) (dj_input d)) (\<lambda>ok.
             if \<not> ok then Inl ''signature verification failed'' else Inr (dj_payload d))))"

section \<open>Claims\<close>

record claim_opts =
  vo_issuer :: "string option"
  vo_audience :: "string option"
  vo_nonce :: "string option"
  vo_clockSkew :: int
  vo_maxAge :: "int option"

definition shown :: "json option \<Rightarrow> string" where
  "shown v = (case v of None \<Rightarrow> ''undefined'' | Some j \<Rightarrow> js_text j)"

definition audiences :: "json \<Rightarrow> json option list" where
  "audiences payload = (case jget payload ''aud'' of Some (JArr xs) \<Rightarrow> map Some xs | v \<Rightarrow> [v])"

definition check_audience :: "json \<Rightarrow> string option \<Rightarrow> (string, unit) result" where
  "check_audience payload audience =
     (if \<not> str_truthy audience then Inr ()
      else (let aud = audiences payload; want = Some (JStr (the audience))
            in if want \<notin> set aud then Inl (''token audience does not include '' @ the audience)
               else ok_or (\<not> (length aud > 1 \<and> truthy (jget payload ''azp'') \<and> jget payload ''azp'' \<noteq> want)) ''unexpected azp''))"

definition validateClaims :: "json \<Rightarrow> claim_opts \<Rightarrow> int \<Rightarrow> (string, json) result" where
  "validateClaims payload opts now =
     (let ex = as_num (jget payload ''exp''); nbf = as_num (jget payload ''nbf''); iat = as_num (jget payload ''iat''); skew = vo_clockSkew opts in
      rbind (ok_or (\<not> (str_truthy (vo_issuer opts) \<and> jget payload ''iss'' \<noteq> map_option JStr (vo_issuer opts)))
        (''unexpected issuer '' @ shown (jget payload ''iss''))) (\<lambda>_.
      rbind (check_audience payload (vo_audience opts)) (\<lambda>_.
      rbind (ok_or (\<not> (ex = None \<or> the ex + skew < now)) ''token expired'') (\<lambda>_.
      rbind (ok_or (\<not> (jget payload ''nbf'' \<noteq> None \<and> nbf = None)) ''invalid nbf'') (\<lambda>_.
      rbind (ok_or (\<not> (nbf \<noteq> None \<and> the nbf - skew > now)) ''token not yet valid'') (\<lambda>_.
      rbind (ok_or (\<not> (jget payload ''iat'' \<noteq> None \<and> iat = None)) ''invalid iat'') (\<lambda>_.
      rbind (ok_or (\<not> (iat \<noteq> None \<and> the iat - skew > now)) ''token issued in the future'') (\<lambda>_.
      rbind (case vo_nonce opts of None \<Rightarrow> Inr ()
             | Some n \<Rightarrow> ok_or (timingSafeEqual
                 (utf8 (case jnull (jget payload ''nonce'') None of None \<Rightarrow> [] | Some j \<Rightarrow> js_text j)) (utf8 n)) ''nonce mismatch'') (\<lambda>_.
      rbind (case vo_maxAge opts of None \<Rightarrow> Inr ()
             | Some m \<Rightarrow> (case as_num (jget payload ''auth_time'') of
                 None \<Rightarrow> Inl ''auth_time required when max_age is requested''
               | Some a \<Rightarrow> ok_or (\<not> a + m + skew < now) ''authentication too old for max_age'')) (\<lambda>_.
      Inr payload))))))))))"

section \<open>DER signatures\<close>

definition COORD_BYTES :: "(string \<times> nat) list" where
  "COORD_BYTES = [(''P-256'', 32), (''P-384'', 48), (''P-521'', 66)]"

definition der_at :: "bytes \<Rightarrow> nat option \<Rightarrow> byte option" where
  "der_at der i = (case i of None \<Rightarrow> None | Some k \<Rightarrow> if k < length der then Some (der ! k) else None)"

fun strip_zeros :: "bytes \<Rightarrow> bytes" where
  "strip_zeros (b # c # rest) = (if b = 0 then strip_zeros (c # rest) else b # c # rest)"
| "strip_zeros v = v"

text \<open>\<open>readInt\<close>: the integer at a position and the position after it. Positions past the end read
  \<open>undefined\<close>, and a length that is \<open>undefined\<close> makes the next position \<open>NaN\<close>, here \<open>None\<close>.\<close>

definition der_int :: "bytes \<Rightarrow> nat \<Rightarrow> nat option \<Rightarrow> (string, bytes \<times> nat option) result" where
  "der_int der width i =
     (if der_at der i \<noteq> Some 2 then Inl ''bad DER integer''
      else (let start = the i + 2;
                len = map_option unat (der_at der (Some (the i + 1)));
                v = strip_zeros (case len of None \<Rightarrow> [] | Some n \<Rightarrow> take n (drop start der))
            in if length v > width then Inl ''DER integer larger than curve''
               else Inr (replicate (width - length v) 0 @ v, map_option (\<lambda>n. start + n) len)))"

definition derToRawEcdsa :: "bytes \<Rightarrow> string \<Rightarrow> (string, bytes) result" where
  "derToRawEcdsa der curve =
     (case map_of COORD_BYTES curve of None \<Rightarrow> Inl (''unknown curve '' @ curve)
      | Some width \<Rightarrow>
          if der_at der (Some 0) \<noteq> Some 0x30 then Inl ''bad DER sequence''
          else (let seqLen = coalesce (der_at der (Some 1)) 0;
                    i = (if seqLen AND 0x80 \<noteq> 0 then 2 + unat (seqLen AND 0x7f) else 2)
                in rbind (der_int der width (Some i)) (\<lambda>(r, j).
                   rbind (der_int der width j) (\<lambda>(s, _). Inr (r @ s)))))"

section \<open>PEM\<close>

text \<open>Removing every \<open>-----BEGIN x-----\<close> and \<open>-----END x-----\<close> marker, then white space.\<close>

function strip_marker :: "string \<Rightarrow> string \<Rightarrow> string" where
  "strip_marker open [] = []"
| "strip_marker open (c # cs) =
     (let rest = drop (length open) (c # cs); name = takeWhile (\<lambda>x. x \<noteq> CHR ''-'') rest; after = drop (length name) rest
      in if open \<noteq> [] \<and> starts_with (c # cs) open \<and> name \<noteq> [] \<and> starts_with after ''-----''
         then strip_marker open (drop 5 after) else c # strip_marker open cs)"
  by pat_completeness auto
termination
  by (relation "measure (\<lambda>(_, s). length s)") auto

definition pemToDer :: "string \<Rightarrow> (string, bytes) result" where
  "pemToDer pem =
     (let body = filter (\<lambda>c. \<not> is_space c) (strip_marker ''-----END '' (strip_marker ''-----BEGIN '' pem))
      in if body = [] then Inl ''no PEM body found''
         else unb64u (replace_char (CHR ''/'') (CHR ''_'') (replace_char (CHR ''+'') (CHR ''-'') body)))"

section \<open>Remote key sets\<close>

definition MAX_JWKS_BYTES :: int where "MAX_JWKS_BYTES = 256 * 1024"
definition MAX_JWKS_CACHE_ENTRIES :: nat where "MAX_JWKS_CACHE_ENTRIES = 500"

definition rememberJwks :: "'v cache \<Rightarrow> int \<Rightarrow> string \<Rightarrow> 'v \<Rightarrow> int \<Rightarrow> 'v cache" where
  "rememberJwks c now uri jwks ttl =
     (let kept = AList.delete uri (drop_expired now c);
          room = (if length kept \<ge> MAX_JWKS_CACHE_ENTRIES then drop_oldest kept else kept)
      in AList.update uri (jwks, now + ttl) room)"

definition fetchJwks ::
  "web \<Rightarrow> json cache \<Rightarrow> int \<Rightarrow> string \<Rightarrow> int \<Rightarrow> bool \<Rightarrow> (string, json) result \<times> json cache \<times> http_call list" where
  "fetchJwks w cache now uri ttlSeconds allowHttp =
     (case wb_parse w uri of None \<Rightarrow> (Inl ''JWKS URI is not an absolute URL'', cache, [])
      | Some url \<Rightarrow>
          if u_username url \<noteq> [] \<or> u_password url \<noteq> [] \<or> (u_protocol url \<noteq> ''https:'' \<and> \<not> (allowHttp \<and> u_protocol url = ''http:''))
          then (Inl ''JWKS URI must use https'', cache, [])
          else (let key = u_href url in
                case cache_get cache now key of Some jwks \<Rightarrow> (Inr jwks, cache, [])
                | None \<Rightarrow>
                    (case rbind (fetchWithTimeout (wb_fetch w) (get_json key)) (\<lambda>res.
                            if \<not> res_ok res then Inl (''JWKS fetch failed with HTTP '' @ show_int (ft_status res))
                            else rbind (readJsonLimited (wb_json w) res MAX_JWKS_BYTES) (\<lambda>jwks.
                              (case jget jwks ''keys'' of Some (JArr _) \<Rightarrow> Inr jwks | _ \<Rightarrow> Inl ''JWKS document has no keys array''))) of
                       Inl e \<Rightarrow> (Inl e, cache, [get_json key])
                     | Inr jwks \<Rightarrow> (Inr jwks, rememberJwks cache now key jwks ttlSeconds, [get_json key]))))"

definition selectJwk :: "json \<Rightarrow> json \<Rightarrow> (string, json) result" where
  "selectJwk jwks hdr =
     (let keys = filter (\<lambda>k. (\<not> truthy (jget k ''use'') \<or> jget k ''use'' = Some (JStr ''sig'')) \<and>
                   (\<not> truthy (jget k ''alg'') \<or> jget k ''alg'' = jget hdr ''alg''))
                   (case jget jwks ''keys'' of Some (JArr ks) \<Rightarrow> ks | _ \<Rightarrow> [])
      in if truthy (jget hdr ''kid'')
         then (case find (\<lambda>k. jget k ''kid'' = jget hdr ''kid'') keys of
                 Some k \<Rightarrow> Inr k | None \<Rightarrow> Inl ''no matching key in JWKS'')
         else (case keys of [k] \<Rightarrow> Inr k | _ \<Rightarrow> Inl ''no matching key in JWKS''))"

section \<open>The key set cache\<close>

interpretation jwks_cache: bounded_cache rememberJwks MAX_JWKS_CACHE_ENTRIES
proof
  fix c :: "'v cache" and t k v ttl k' e
  assume wf: "distinct (map fst c)"
  let ?d = "drop_expired t c" and ?l = "AList.delete k (drop_expired t c)"
  let ?r = "if length ?l \<ge> MAX_JWKS_CACHE_ENTRIES then drop_oldest ?l else ?l"
  have eq: "rememberJwks c t k v ttl = AList.update k (v, t + ttl) ?r" by (simp add: rememberJwks_def Let_def)
  have l: "distinct (map fst ?l)" by (intro distinct_delete distinct_drop_expired wf)
  have r: "distinct (map fst ?r)" using drop_oldest_facts (1) [OF l] l by simp
  show "distinct (map fst (rememberJwks c t k v ttl))" unfolding eq by (rule distinct_update [OF r])
  show "map_of (rememberJwks c t k v ttl) k = Some (v, t + ttl)" unfolding eq by (simp add: update_conv')
  have sub: "map_of ?r k' = Some e \<Longrightarrow> k' \<noteq> k \<Longrightarrow> map_of c k' = Some e"
    using drop_oldest_facts (3) [OF l, of k' e] map_of_drop_expired [OF wf, of t k' e]
    by (simp add: delete_conv' split: if_splits)
  show "map_of (rememberJwks c t k v ttl) k' = Some e \<Longrightarrow> k' \<noteq> k \<Longrightarrow> map_of c k' = Some e"
    unfolding eq using sub by (simp add: update_conv')
  assume "length c \<le> MAX_JWKS_CACHE_ENTRIES"
  moreover have "length ?l \<le> length ?d" "length ?d \<le> length c" by (rule length_delete_le, rule length_drop_expired)
  ultimately have "length ?r < MAX_JWKS_CACHE_ENTRIES"
    using drop_oldest_facts (2) [OF l] by (auto simp: MAX_JWKS_CACHE_ENTRIES_def)
  then show "length (rememberJwks c t k v ttl) \<le> MAX_JWKS_CACHE_ENTRIES"
    unfolding eq using length_update_le [of k "(v, t + ttl)" ?r] by linarith
qed

section \<open>DER round trip\<close>

text \<open>A reference encoder: the minimal two's complement integer of a coordinate, and the sequence of two of
  them with a short or a one-byte long length.\<close>

definition der_body :: "bytes \<Rightarrow> bytes" where
  "der_body v =
     (let w = strip_zeros v in case w of [] \<Rightarrow> [0] | b # _ \<Rightarrow> if b AND 0x80 \<noteq> 0 then 0 # w else w)"

definition der_integer :: "bytes \<Rightarrow> bytes" where
  "der_integer v = [2, of_nat (length (der_body v))] @ der_body v"

definition der_signature :: "bytes \<Rightarrow> bytes \<Rightarrow> bytes" where
  "der_signature r s =
     (let body = der_integer r @ der_integer s
      in (if length body < 128 then [0x30, of_nat (length body)] else [0x30, 0x81, of_nat (length body)]) @ body)"

lemma strip_zeros_pad: "replicate (length v - length (strip_zeros v)) 0 @ strip_zeros v = v"
  and length_strip_zeros: "length (strip_zeros v) \<le> length v"
proof -
  have "length (strip_zeros v) \<le> length v \<and> replicate (length v - length (strip_zeros v)) 0 @ strip_zeros v = v"
    by (induction v rule: strip_zeros.induct) (auto simp: Suc_diff_le)
  then show "replicate (length v - length (strip_zeros v)) 0 @ strip_zeros v = v" "length (strip_zeros v) \<le> length v"
    by blast+
qed

lemma strip_zeros_idem: "strip_zeros (strip_zeros v) = strip_zeros v"
  by (induction v rule: strip_zeros.induct) auto

lemma strip_zeros_Nil [simp]: "strip_zeros v = [] \<longleftrightarrow> v = []"
  by (induction v rule: strip_zeros.induct) auto

lemma strip_zeros_body: "v \<noteq> [] \<Longrightarrow> strip_zeros (der_body v) = strip_zeros v"
proof -
  assume "v \<noteq> []"
  then obtain b w where bw: "strip_zeros v = b # w" by (cases "strip_zeros v") auto
  then have "strip_zeros (0 # b # w) = strip_zeros (b # w)" by simp
  then show ?thesis using strip_zeros_idem [of v] by (simp add: der_body_def Let_def bw)
qed

lemma length_der_body: "v \<noteq> [] \<Longrightarrow> length (der_body v) \<le> Suc (length v)"
  using length_strip_zeros [of v] by (auto simp: der_body_def Let_def split: list.splits)

lemma der_int_integer:
  assumes "length v = width" "v \<noteq> []" "width \<le> 66"
  shows "der_int (pre @ der_integer v @ post) width (Some (length pre)) = Inr (v, Some (length pre + length (der_integer v)))"
proof -
  let ?d = "pre @ der_integer v @ post"
  have len: "length (der_body v) \<le> 67" using length_der_body [OF assms(2)] assms by simp
  then have u: "unat (of_nat (length (der_body v)) :: byte) = length (der_body v)"
    by (simp add: unat_of_nat take_bit_nat_eq_self)
  have at: "der_at ?d (Some (length pre)) = Some 2" "der_at ?d (Some (length pre + 1)) = Some (of_nat (length (der_body v)))"
    by (simp_all add: der_at_def der_integer_def nth_append)
  have body: "take (length (der_body v)) (drop (length pre + 2) ?d) = der_body v"
    by (simp add: der_integer_def)
  have "length (strip_zeros v) \<le> width" using length_strip_zeros [of v] assms by simp
  then show ?thesis
    unfolding der_int_def Let_def at option.sel using u body strip_zeros_body [OF assms(2)] strip_zeros_pad [of v] assms(1)
    by (simp add: at [simplified] der_integer_def)
qed

lemma seq_offset:
  assumes "pre = [0x30, of_nat n] \<and> n < 128 \<or> pre = [0x30, 0x81, m]"
  shows "(let seqLen = coalesce (der_at (pre @ body) (Some 1)) 0 in
      if seqLen AND 0x80 \<noteq> 0 then 2 + unat (seqLen AND 0x7f) else 2) = length pre"
proof -
  have "(of_nat n :: byte) AND 0x80 = 0" if "n < 128"
  proof -
    have "\<not> bit (of_nat n :: byte) 7" using that by (simp add: bit_of_nat_iff bit_nat_def)
    then have "(of_nat n :: byte) AND 2 ^ 7 = 0" by (simp only: and_exp_eq_0_iff_not_bit not_False_eq_True)
    then show ?thesis by simp
  qed
  then show ?thesis using assms by (auto simp: der_at_def coalesce_def)
qed

lemma derToRaw_signature:
  assumes "map_of COORD_BYTES curve = Some width" "length r = width" "length s = width"
  shows "derToRawEcdsa (der_signature r s) curve = Inr (r @ s)"
proof -
  let ?body = "der_integer r @ der_integer s"
  from assms(1) have w: "0 < width" "width \<le> 66" by (auto simp: COORD_BYTES_def split: if_splits)
  then have ne: "r \<noteq> []" "s \<noteq> []" using assms by auto
  have len: "length ?body \<le> 138"
    using length_der_body [OF ne(1)] length_der_body [OF ne(2)] assms w by (simp add: der_integer_def)
  obtain pre where pre: "der_signature r s = pre @ ?body" "pre = [0x30, of_nat (length ?body)] \<and> length ?body < 128 \<or>
      pre = [0x30, 0x81, of_nat (length ?body)]"
    by (auto simp: der_signature_def Let_def)
  note i = seq_offset [OF pre(2), of ?body]
  have one: "der_at (pre @ ?body) (Some 0) = Some 0x30" using pre(2) by (auto simp: der_at_def)
  have fst_int: "der_int (pre @ ?body) width (Some (length pre)) = Inr (r, Some (length pre + length (der_integer r)))"
    using der_int_integer [OF assms(2) ne(1) w(2), of pre "der_integer s"] by simp
  have snd_int: "der_int (pre @ ?body) width (Some (length pre + length (der_integer r))) =
      Inr (s, Some (length pre + length (der_integer r) + length (der_integer s)))"
    using der_int_integer [OF assms(3) ne(2) w(2), of "pre @ der_integer r" "[]"] by (simp add: add.assoc)
  show ?thesis
    unfolding derToRawEcdsa_def assms(1) option.case pre(1) one using i fst_int snd_int
    by (simp add: Let_def)
qed

section \<open>Signing and verifying\<close>

lemma unb64uText_json: "unb64uText (b64uJson pf v) = Inr (pf_stringify pf v)"
  by (simp add: unb64uText_def b64uJson_def unb64u_b64u from_utf8_utf8)

lemma decode_signed:
  assumes "json_survives pf (jput hdr ''alg'' (Some (JStr alg)))" "json_survives pf payload"
  shows "decodeJwt pf (Some (signCompact pf alg signer hdr payload)) = Inr
    \<lparr>dj_header = jput hdr ''alg'' (Some (JStr alg)), dj_payload = payload,
     dj_signature = signer (utf8 (signingInput pf (jput hdr ''alg'' (Some (JStr alg))) payload)),
     dj_input = utf8 (signingInput pf (jput hdr ''alg'' (Some (JStr alg))) payload)\<rparr>"
proof -
  let ?h = "b64uJson pf (jput hdr ''alg'' (Some (JStr alg)))" and ?p = "b64uJson pf payload"
  let ?s = "b64u (signer (utf8 (signingInput pf (jput hdr ''alg'' (Some (JStr alg))) payload)))"
  have "CHR ''.'' \<notin> set ?h" "CHR ''.'' \<notin> set ?p" "CHR ''.'' \<notin> set ?s"
    by (simp_all add: b64uJson_def b64u_no_dot)
  then have "split_on (CHR ''.'') (?h @ ''.'' @ ?p @ ''.'' @ ?s) = [?h, ?p, ?s]"
    by (simp add: split_on_append_sep)
  then show ?thesis
    using assms unfolding decodeJwt_def signCompact_def Let_def signingInput_def coalesce_def option.case
    by (simp add: unb64uText_json unb64u_b64u parse_json_def json_survives_def)
qed

text \<open>What acceptance of a token by \<open>validateClaims\<close> means.\<close>

definition claimed_nonce :: "json \<Rightarrow> string" where
  "claimed_nonce payload = (case jnull (jget payload ''nonce'') None of None \<Rightarrow> [] | Some j \<Rightarrow> js_text j)"

definition claims_acceptable :: "json \<Rightarrow> claim_opts \<Rightarrow> int \<Rightarrow> bool" where
  "claims_acceptable payload opts now \<longleftrightarrow>
     (\<forall>i. vo_issuer opts = Some i \<and> i \<noteq> [] \<longrightarrow> jget payload ''iss'' = Some (JStr i)) \<and>
     (\<forall>a. vo_audience opts = Some a \<and> a \<noteq> [] \<longrightarrow> Some (JStr a) \<in> set (audiences payload)) \<and>
     (\<exists>e. jget payload ''exp'' = Some (JNum e) \<and> now \<le> e + vo_clockSkew opts) \<and>
     (\<forall>n. jget payload ''nbf'' = Some (JNum n) \<longrightarrow> n - vo_clockSkew opts \<le> now) \<and>
     (\<forall>i. jget payload ''iat'' = Some (JNum i) \<longrightarrow> i - vo_clockSkew opts \<le> now) \<and>
     (\<forall>n. vo_nonce opts = Some n \<longrightarrow> timingSafeEqual (utf8 (claimed_nonce payload)) (utf8 n)) \<and>
     (\<forall>m. vo_maxAge opts = Some m \<longrightarrow> (\<exists>a. jget payload ''auth_time'' = Some (JNum a) \<and> now \<le> a + m + vo_clockSkew opts))"

lemma as_num_iff: "as_num v = Some n \<longleftrightarrow> v = Some (JNum n)"
  by (cases v rule: as_num.cases) auto

lemma as_str_iff: "as_str v = Some s \<longleftrightarrow> v = Some (JStr s)"
  by (cases v rule: as_str.cases) auto

lemma validateClaims_acceptable:
  assumes "validateClaims payload opts now = Inr p"
  shows "p = payload \<and> claims_acceptable payload opts now"
proof -
  from assms have p: "p = payload" and iss: "\<not> (str_truthy (vo_issuer opts) \<and> jget payload ''iss'' \<noteq> map_option JStr (vo_issuer opts))"
    and aud: "check_audience payload (vo_audience opts) = Inr ()"
    and ex: "\<not> (as_num (jget payload ''exp'') = None \<or> the (as_num (jget payload ''exp'')) + vo_clockSkew opts < now)"
    and nbf: "\<not> (as_num (jget payload ''nbf'') \<noteq> None \<and> the (as_num (jget payload ''nbf'')) - vo_clockSkew opts > now)"
    and iat: "\<not> (as_num (jget payload ''iat'') \<noteq> None \<and> the (as_num (jget payload ''iat'')) - vo_clockSkew opts > now)"
    and nonce: "(case vo_nonce opts of None \<Rightarrow> Inr ()
             | Some n \<Rightarrow> ok_or (timingSafeEqual
                 (utf8 (case jnull (jget payload ''nonce'') None of None \<Rightarrow> [] | Some j \<Rightarrow> js_text j)) (utf8 n)) ''nonce mismatch'') = Inr ()"
    and age: "(case vo_maxAge opts of None \<Rightarrow> Inr ()
             | Some m \<Rightarrow> (case as_num (jget payload ''auth_time'') of
                 None \<Rightarrow> Inl ''auth_time required when max_age is requested''
               | Some a \<Rightarrow> ok_or (\<not> a + m + vo_clockSkew opts < now) ''authentication too old for max_age'')) = Inr ()"
    unfolding validateClaims_def Let_def rbind_Inr_iff ok_or_Inr by ((elim exE conjE, simp)+)
  have "vo_audience opts = Some a \<Longrightarrow> a \<noteq> [] \<Longrightarrow> Some (JStr a) \<in> set (audiences payload)" for a
    using aud by (auto simp: check_audience_def str_truthy_def Let_def split: if_splits)
  moreover have "\<exists>e. jget payload ''exp'' = Some (JNum e) \<and> now \<le> e + vo_clockSkew opts"
    using ex by (auto simp: as_num_iff)
  moreover have "\<exists>a. jget payload ''auth_time'' = Some (JNum a) \<and> now \<le> a + m + vo_clockSkew opts" if "vo_maxAge opts = Some m" for m
    using age that by (auto simp: as_num_iff split: option.splits)
  moreover have "timingSafeEqual (utf8 (claimed_nonce payload)) (utf8 n)" if "vo_nonce opts = Some n" for n
    using nonce that by (simp add: claimed_nonce_def)
  ultimately show ?thesis
    unfolding claims_acceptable_def p using iss nbf iat by (auto simp: str_truthy_def)
qed

lemma verifyCompact_Inr:
  assumes "verifyCompact pf verify token jwk algs = Inr payload"
  obtains d alg pub where "decodeJwt pf (Some token) = Inr d" "dj_payload d = payload" "jget (dj_header d) ''alg'' = Some (JStr alg)"
    "alg \<in> set algs" "map_of ALGS alg \<noteq> None" "publicPartOf jwk = Inr pub" "assertKeyStrength pub alg = Inr ()"
    "verify alg pub (dj_signature d) (dj_input d) = Inr True"
proof -
  from assms obtain d where d: "decodeJwt pf (Some token) = Inr d" by (auto simp: verifyCompact_def)
  define alg where "alg = coalesce (as_str (jget (dj_header d) ''alg'')) ''undefined''"
  from assms d have a: "map_of ALGS alg \<noteq> None" "alg \<in> set algs"
    and i: "importPublicJwk jwk alg \<noteq> Inl e" for e
    by (auto simp: verifyCompact_def alg_def [symmetric] Let_def rbind_def split: if_splits sum.splits)
  have "alg \<noteq> ''undefined''" using a(1) by (auto simp: ALGS_def)
  then have "jget (dj_header d) ''alg'' = Some (JStr alg)"
    unfolding alg_def by (auto simp: coalesce_def as_str_iff split: option.splits)
  moreover from assms d a obtain pub where "publicPartOf jwk = Inr pub" "assertKeyStrength pub alg = Inr ()"
    "verify alg pub (dj_signature d) (dj_input d) = Inr True" "dj_payload d = payload"
    by (auto simp: verifyCompact_def alg_def [symmetric] Let_def importPublicJwk_def split: if_splits)
  ultimately show ?thesis using that d a by blast
qed

section \<open>Properties\<close>

text \<open>A signature from a cloud key service becomes the raw form without loss. For every curve the code knows
  and every pair of coordinates of its width, converting the minimal DER encoding gives back the two
  coordinates, leading zeros and all.\<close>

lemma der_roundtrip:
  assumes "map_of COORD_BYTES curve = Some width" and "length r = width" and "length s = width"
  shows "derToRawEcdsa (der_signature r s) curve = Inr (r @ s)"
  by (rule derToRaw_signature [OF assms])

end
