(* ===== verification/Client_Auth.thy ===== *)
theory Client_Auth
  imports Jose State_Store Auth_Code
begin

text \<open>
  Authenticating a relying party at the token endpoint, \<^verbatim>\<open>src/oauth/clientauth.js\<close>: reading exactly one credential,
  checking it against the registration, and signed assertions that are used once.
\<close>

definition PRIVATE_KEY_JWT_ALGS :: "string list" where
  "PRIVATE_KEY_JWT_ALGS = [''ES256'', ''ES384'', ''RS256'', ''PS256'', ''ML-DSA-44'', ''ML-DSA-65'', ''ML-DSA-87'']"

section \<open>Reading the credential\<close>

record creds =
  cd_clientId :: "string option"
  cd_method :: string
  cd_secret :: "string option"
  cd_assertion :: "string option"

definition safeDecode :: "string \<Rightarrow> string" where
  "safeDecode value = coalesce (decodeURIComponent value) value"

definition ASSERTION_TYPE :: string where
  "ASSERTION_TYPE = ''urn:ietf:params:oauth:client-assertion-type:jwt-bearer''"

definition not_basic :: failure where
  "not_basic = invalidClient ''The Authorization header is not valid HTTP Basic.''"

definition basic_credentials :: "string \<Rightarrow> (failure, string \<times> string) result" where
  "basic_credentials authorization =
     (case unb64 (trim (drop 6 authorization)) of Inl _ \<Rightarrow> Inl not_basic
      | Inr bs \<Rightarrow>
          (let decoded = from_utf8 bs
           in case index_of (CHR '':'') decoded of None \<Rightarrow> Inl not_basic
              | Some colon \<Rightarrow> if colon < 1 then Inl not_basic
                             else Inr (safeDecode (take colon decoded), safeDecode (drop (colon + 1) decoded))))"

definition readCredentials :: "request \<Rightarrow> params \<Rightarrow> (failure, creds) result" where
  "readCredentials request params =
     rbind (single params ''client_id'') (\<lambda>clientId.
     let authorization = or_str (header request ''authorization'') []; isBasic = starts_with (to_lower authorization) ''basic '' in
     rbind (if isBasic
            then rbind (basic_credentials authorization) (\<lambda>(basicId, secret).
              if str_truthy clientId \<and> clientId \<noteq> Some basicId
              then Inl (invalidClient ''The client_id in the body does not match the Authorization header.'')
              else Inr \<lparr>cd_clientId = Some basicId, cd_method = ''client_secret_basic'', cd_secret = Some secret, cd_assertion = None\<rparr>)
            else Inr \<lparr>cd_clientId = clientId, cd_method = ''none'', cd_secret = None, cd_assertion = None\<rparr>) (\<lambda>out1.
     rbind (single params ''client_secret'') (\<lambda>bodySecret.
     let out2 = (if bodySecret \<noteq> None then out1\<lparr>cd_secret := bodySecret, cd_method := ''client_secret_post''\<rparr> else out1) in
     rbind (single params ''client_assertion'') (\<lambda>assertion.
     rbind (if assertion = None then Inr out2
            else rbind (single params ''client_assertion_type'') (\<lambda>type.
              if type \<noteq> Some ASSERTION_TYPE then Inl (invalidClient ''Unsupported client_assertion_type.'')
              else Inr (out2\<lparr>cd_assertion := assertion, cd_method := ''private_key_jwt''\<rparr>))) (\<lambda>out3.
     if (if isBasic then 1 else 0) + (if bodySecret \<noteq> None then 1 else 0) + (if assertion \<noteq> None then 1 else (0::nat)) > 1
     then Inl (invalidClient ''Present exactly one client credential, not several.'')
     else Inr out3)))))"

definition requireClientId :: "creds \<Rightarrow> (failure, string) result" where
  "requireClientId credentials =
     (if \<not> str_truthy (cd_clientId credentials) then Inl (invalidClient ''No client_id was presented.'')
      else Inr (the (cd_clientId credentials)))"

section \<open>Signed assertions\<close>

text \<open>The state of an authentication: the cache of remote key sets and the shared store.\<close>

definition client_keys ::
  "web \<Rightarrow> config \<Rightarrow> client \<Rightarrow> int \<Rightarrow> json cache \<Rightarrow> (failure, json) result \<times> json cache" where
  "client_keys w c client now cache =
     (if truthy (cl_jwks client) then (Inr (the (cl_jwks client)), cache)
      else if str_truthy (cl_jwksUri client)
      then (case fetchJwks w cache now (the (cl_jwksUri client)) 300 (c_devMode c) of
              (Inl e, cache', _) \<Rightarrow> (Inl (invalidClient (''Could not read the client JWKS: '' @ e)), cache')
            | (Inr jwks, cache', _) \<Rightarrow> (Inr jwks, cache'))
      else (Inl (invalidClient ''This client has no keys registered.''), cache))"

text \<open>Everything that is checked of the assertion against the keys, before the store.\<close>

definition check_assertion ::
  "platform \<Rightarrow> verifier \<Rightarrow> config \<Rightarrow> client \<Rightarrow> json \<Rightarrow> json \<Rightarrow> string \<Rightarrow> int \<Rightarrow> (failure, json) result" where
  "check_assertion pf verify c client jwks hdr assertion now =
     rbind (rescue (\<lambda>_. Inl (invalidClient ''No registered key matches the client assertion.'')) (selectJwk jwks hdr)) (\<lambda>jwk.
     rbind (rescue (\<lambda>_. Inl (invalidClient ''The client assertion signature could not be verified.''))
       (verifyCompact pf verify assertion jwk PRIVATE_KEY_JWT_ALGS)) (\<lambda>payload.
     rbind (rescue (\<lambda>e. Inl (invalidClient (''The client assertion is not acceptable: '' @ e)))
       (validateClaims payload \<lparr>vo_issuer = Some (cl_clientId client), vo_audience = Some (c_issuer c), vo_nonce = None,
          vo_clockSkew = tk_clockSkewSeconds (c_tokens c), vo_maxAge = None\<rparr> now)) (\<lambda>_.
     rbind (ok_or (jget payload ''sub'' = Some (JStr (cl_clientId client)))
       (invalidClient ''The client assertion subject must be the client id.'')) (\<lambda>_.
     rbind (ok_or (as_str (jget payload ''jti'') \<noteq> None \<and> truthy (jget payload ''jti''))
       (invalidClient ''The client assertion must carry a string jti.'')) (\<lambda>_.
     rbind (ok_or (as_num (jget payload ''iat'') \<noteq> None) (invalidClient ''The client assertion must carry an iat.'')) (\<lambda>_.
     let lifetime = coalesce (as_num (jget payload ''exp'')) 0 - coalesce (as_num (jget payload ''iat'')) 0
     in if lifetime < 0 \<or> lifetime > 300
        then Inl (invalidClient ''The client assertion lifetime must be between zero and 300 seconds.'')
        else Inr payload))))))"

definition assertion_key :: "platform \<Rightarrow> client \<Rightarrow> json \<Rightarrow> string" where
  "assertion_key pf client payload =
     ''client-assertion:'' @ sha256b64u pf (cl_clientId client @ [CHR 0x00] @ coalesce (as_str (jget payload ''jti'')) [])"

definition claim_assertion ::
  "'s stepper \<Rightarrow> platform \<Rightarrow> config \<Rightarrow> client \<Rightarrow> json \<Rightarrow> int \<Rightarrow> 's option \<Rightarrow> (failure, json) result \<times> 's option" where
  "claim_assertion step pf c client payload clock store =
     (case store of None \<Rightarrow> (Inr payload, None)
      | Some s \<Rightarrow>
          (case step s clock (Claim (assertion_key pf client payload)
                  (coalesce (as_num (jget payload ''exp'')) 0 - nowSeconds clock + tk_clockSkewSeconds (c_tokens c))) of
             (Fresh True, s') \<Rightarrow> (Inr payload, Some s')
           | (Fresh False, s') \<Rightarrow> (Inl (invalidClient ''The client assertion has already been used.''), Some s')
           | (_, s') \<Rightarrow> (Inl (Unexpected ''state store''), Some s')))"

definition verifyPrivateKeyJwt ::
  "web \<Rightarrow> platform \<Rightarrow> verifier \<Rightarrow> 's stepper \<Rightarrow> config \<Rightarrow> client \<Rightarrow> string option \<Rightarrow> int \<Rightarrow> json cache \<times> 's option \<Rightarrow>
     (failure, json) result \<times> json cache \<times> 's option" where
  "verifyPrivateKeyJwt w pf verify step c client assertion clock st =
     (let (cache, store) = st in
      case decodeJwt pf assertion of
        Inl _ \<Rightarrow> (Inl (invalidClient ''The client assertion is not a valid JWT.''), cache, store)
      | Inr d \<Rightarrow>
          (let alg = coalesce (as_str (jget (dj_header d) ''alg'')) ''undefined''
           in if alg \<notin> set PRIVATE_KEY_JWT_ALGS
              then (Inl (invalidClient (''Unsupported client assertion algorithm: '' @ alg @ ''.'')), cache, store)
              else (case client_keys w c client (nowSeconds clock) cache of
                      (Inl e, cache') \<Rightarrow> (Inl e, cache', store)
                    | (Inr jwks, cache') \<Rightarrow>
                        (case check_assertion pf verify c client jwks (dj_header d) (coalesce assertion []) (nowSeconds clock) of
                           Inl e \<Rightarrow> (Inl e, cache', store)
                         | Inr payload \<Rightarrow> (case claim_assertion step pf c client payload clock store of
                             (r, store') \<Rightarrow> (r, cache', store'))))))"

section \<open>Authentication\<close>

definition authenticateClient ::
  "web \<Rightarrow> platform \<Rightarrow> verifier \<Rightarrow> 's stepper \<Rightarrow> config \<Rightarrow> client \<Rightarrow> creds \<Rightarrow> int \<Rightarrow> json cache \<times> 's option \<Rightarrow>
     (failure, string) result \<times> json cache \<times> 's option" where
  "authenticateClient w pf verify step c client credentials clock st =
     (let registered = (if cl_tokenEndpointAuthMethod client = [] then ''none'' else cl_tokenEndpointAuthMethod client) in
      if registered = ''none''
      then (if cd_method credentials \<noteq> ''none''
            then (Inl (invalidClient ''This client is registered as public and must not present a credential.''), st)
            else (Inr ''none'', st))
      else if registered = ''client_secret_basic'' \<or> registered = ''client_secret_post''
      then (if cd_method credentials \<noteq> registered
            then (Inl (invalidClient (''This client must authenticate with '' @ registered @ ''.'')), st)
            else if \<not> str_truthy (cl_clientSecretDigest client) \<and> \<not> str_truthy (cl_clientSecret client)
            then (Inl (invalidClient ''This client has no secret configured.''), st)
            else (case verifyDigest pf
                    (if str_truthy (cl_clientSecretDigest client) then the (cl_clientSecretDigest client)
                     else ''plain:'' @ coalesce (cl_clientSecret client) []) (or_str (cd_secret credentials) []) of
                    Inl e \<Rightarrow> (Inl (Unexpected e), st)
                  | Inr ok \<Rightarrow> if \<not> ok then (Inl (invalidClient ''Client authentication failed.''), st)
                             else (Inr (cd_method credentials), st)))
      else if registered = ''private_key_jwt''
      then (if cd_method credentials \<noteq> ''private_key_jwt''
            then (Inl (invalidClient ''This client must authenticate with a private_key_jwt assertion.''), st)
            else (case verifyPrivateKeyJwt w pf verify step c client (cd_assertion credentials) clock st of
                    (Inl e, st') \<Rightarrow> (Inl e, st')
                  | (Inr _, st') \<Rightarrow> (Inr ''private_key_jwt'', st')))
      else (Inl (invalidClient (''Unsupported client authentication method: '' @ registered)), st))"

section \<open>Facts\<close>

lemma check_assertion_Inr:
  assumes "check_assertion pf verify c client jwks hdr assertion now = Inr payload"
  obtains e i j jwk where "as_num (jget payload ''exp'') = Some e" "as_num (jget payload ''iat'') = Some i" "e - i \<le> 300"
    "as_str (jget payload ''jti'') = Some j" "now \<le> e + tk_clockSkewSeconds (c_tokens c)" "i - tk_clockSkewSeconds (c_tokens c) \<le> now"
    "jget payload ''sub'' = Some (JStr (cl_clientId client))" "selectJwk jwks hdr = Inr jwk"
    "verifyCompact pf verify assertion jwk PRIVATE_KEY_JWT_ALGS = Inr payload"
    "cl_clientId client \<noteq> [] \<Longrightarrow> jget payload ''iss'' = Some (JStr (cl_clientId client))"
    "c_issuer c \<noteq> [] \<Longrightarrow> Some (JStr (c_issuer c)) \<in> set (audiences payload)"
proof -
  let ?o = "\<lparr>vo_issuer = Some (cl_clientId client), vo_audience = Some (c_issuer c), vo_nonce = None,
          vo_clockSkew = tk_clockSkewSeconds (c_tokens c), vo_maxAge = None\<rparr>"
  from assms obtain jwk p where p: "selectJwk jwks hdr = Inr jwk" "verifyCompact pf verify assertion jwk PRIVATE_KEY_JWT_ALGS = Inr payload"
    "validateClaims payload ?o now = Inr p" "jget payload ''sub'' = Some (JStr (cl_clientId client))"
    "as_str (jget payload ''jti'') \<noteq> None" "as_num (jget payload ''iat'') \<noteq> None"
    "coalesce (as_num (jget payload ''exp'')) 0 - coalesce (as_num (jget payload ''iat'')) 0 \<le> 300"
    by (auto simp: check_assertion_def rescue_def Let_def split: sum.splits if_splits)
  from validateClaims_acceptable [OF p(3)] have acc: "claims_acceptable payload ?o now" by blast
  then obtain e where e: "as_num (jget payload ''exp'') = Some e" "now \<le> e + tk_clockSkewSeconds (c_tokens c)"
    by (auto simp: claims_acceptable_def as_num_iff)
  obtain i where i: "as_num (jget payload ''iat'') = Some i" using p(6) by blast
  with acc have "i - tk_clockSkewSeconds (c_tokens c) \<le> now" by (auto simp: claims_acceptable_def as_num_iff)
  moreover have "e - i \<le> 300" using p(7) e i by (simp add: coalesce_def)
  ultimately show ?thesis
    using that [of e i _ jwk] p e i acc by (auto simp: claims_acceptable_def)
qed

lemma verifyPrivateKeyJwt_Inr:
  assumes "verifyPrivateKeyJwt w pf verify step c client assertion clock (cache, store) = (Inr payload, cache', store')"
  obtains jwks hdr where "check_assertion pf verify c client jwks hdr (coalesce assertion []) (nowSeconds clock) = Inr payload"
    "claim_assertion step pf c client payload clock store = (Inr payload, store')"
proof -
  have same: "claim_assertion step pf c client q clock store = (Inr r, st) \<Longrightarrow> r = q" for q r st
    by (auto simp: claim_assertion_def split: option.splits prod.splits reply.splits bool.splits)
  from assms that show ?thesis
    by (auto simp: verifyPrivateKeyJwt_def Let_def split: sum.splits if_splits prod.splits dest: same)
qed

lemma claim_assertion_Some:
  assumes "claim_assertion step pf c client payload clock (Some s) = (Inr q, store')"
  obtains s' where "store' = Some s'" "step s clock (Claim (assertion_key pf client payload)
      (coalesce (as_num (jget payload ''exp'')) 0 - nowSeconds clock + tk_clockSkewSeconds (c_tokens c))) = (Fresh True, s')"
  using assms that by (auto simp: claim_assertion_def split: prod.splits reply.splits bool.splits)

context claim_store
begin

text \<open>After one acceptance of an assertion, another one with the same identifier and deadline from the same
  client is refused at every later instant outside the second in which the tolerance ends.\<close>

lemma assertion_once:
  assumes first: "verifyPrivateKeyJwt w pf verify step c client a now (cache, Some s) = (Inr payload, cache', Some s')"
    and second: "verifyPrivateKeyJwt w' pf verify' step c client a' t (cache2, Some (snd (run s' ops))) = (Inr payload', cache3, store3)"
    and same: "jget payload' ''jti'' = jget payload ''jti''" "jget payload' ''exp'' = jget payload ''exp''"
    and skew: "tk_clockSkewSeconds (c_tokens c) \<le> 86400"
    and now: "0 < now" "now \<le> t"
    and ops: "\<And>u op. (u, op) \<in> set ops \<Longrightarrow> 0 < u \<and> u \<le> t \<and> \<not> (counts op \<and> op_key op = assertion_key pf client payload)"
  shows "\<exists>e. as_num (jget payload ''exp'') = Some e \<and> nowSeconds t = e + tk_clockSkewSeconds (c_tokens c)"
proof -
  let ?k = "tk_clockSkewSeconds (c_tokens c)"
  from first obtain jwks hdr where f: "check_assertion pf verify c client jwks hdr (coalesce a []) (nowSeconds now) = Inr payload"
    "claim_assertion step pf c client payload now (Some s) = (Inr payload, Some s')" by (rule verifyPrivateKeyJwt_Inr)
  from second obtain jwks' hdr' where g: "check_assertion pf verify' c client jwks' hdr' (coalesce a' []) (nowSeconds t) = Inr payload'"
    "claim_assertion step pf c client payload' t (Some (snd (run s' ops))) = (Inr payload', store3)" by (rule verifyPrivateKeyJwt_Inr)
  from f(1) obtain e i where e: "as_num (jget payload ''exp'') = Some e" "as_num (jget payload ''iat'') = Some i" "e - i \<le> 300"
    "i - ?k \<le> nowSeconds now" by (rule check_assertion_Inr)
  from g(1) obtain e' where "as_num (jget payload' ''exp'') = Some e'" "nowSeconds t \<le> e' + ?k" by (rule check_assertion_Inr)
  with same(2) e have le: "nowSeconds t \<le> e + ?k" by simp
  have key: "assertion_key pf client payload' = assertion_key pf client payload" using same by (simp add: assertion_key_def)
  from f(2) have grant: "step s now (Claim (assertion_key pf client payload) (e - nowSeconds now + ?k)) = (Fresh True, s')"
    using e by (elim claim_assertion_Some) (simp add: coalesce_def)
  show ?thesis
  proof (rule ccontr)
    assume "\<not> ?thesis"
    with e le have "nowSeconds t < e + ?k" by auto
    then have "t < now + (e + ?k - nowSeconds now) * 1000" by (rule before_deadline)
    then have "fst (step (snd (run s' ops)) t (Claim (assertion_key pf client payload)
        (coalesce (as_num (jget payload' ''exp'')) 0 - nowSeconds t + ?k))) \<noteq> Fresh True"
      using e skew by (intro claim_once(1) [OF grant now] ops) (auto simp: algebra_simps)
    with g(2) key show False by (auto elim!: claim_assertion_Some)
  qed
qed

end

section \<open>A sample assertion\<close>

definition jwt_claims :: json where
  "jwt_claims = JObj [(''iss'', JStr ''svc''), (''sub'', JStr ''svc''), (''aud'', JStr ''https://id.example''), (''jti'', JStr ''one''),
     (''iat'', JNum 100), (''exp'', JNum 160)]"

definition jwt_platform :: platform where
  "jwt_platform = (toy_platform jwt_claims)\<lparr>pf_parse := \<lambda>s. if s = ''h'' then Some (JObj [(''alg'', JStr ''ES256'')]) else Some jwt_claims\<rparr>"

definition jwt_client :: client where
  "jwt_client = sample_client\<lparr>cl_clientId := ''svc'', cl_tokenEndpointAuthMethod := ''private_key_jwt'',
     cl_jwks := Some (JObj [(''keys'', JArr [JObj [(''kty'', JStr ''EC'')]])])\<rparr>"

definition jwt_token :: string where
  "jwt_token = b64u (utf8 ''h'') @ ''.'' @ b64u (utf8 ''p'') @ ''.'' @ b64u [7]"

definition jwt_web :: web where
  "jwt_web = \<lparr>wb_parse = \<lambda>_. None, wb_target = \<lambda>_. None, wb_set = \<lambda>_ _. None, wb_fetch = \<lambda>_. Inl ''offline'', wb_json = \<lambda>_. None, wb_resolver = None\<rparr>"

lemma jwt_decoded:
  "decodeJwt jwt_platform (Some jwt_token) = Inr \<lparr>dj_header = JObj [(''alg'', JStr ''ES256'')], dj_payload = jwt_claims, dj_signature = [7],
     dj_input = utf8 (b64u (utf8 ''h'') @ ''.'' @ b64u (utf8 ''p''))\<rparr>"
  by code_simp

lemma jwt_checked:
  "check_assertion jwt_platform (\<lambda>_ _ _ _. Inr True) sample_config jwt_client (JObj [(''keys'', JArr [JObj [(''kty'', JStr ''EC'')]])])
     (JObj [(''alg'', JStr ''ES256'')]) jwt_token 110 = Inr jwt_claims"
  by code_simp

lemma jwt_accepted:
  "\<exists>s'. verifyPrivateKeyJwt jwt_web jwt_platform (\<lambda>_ _ _ _. Inr True) mem_step sample_config jwt_client (Some jwt_token) 110000
     ([], Some (createMemoryStore 5)) = (Inr jwt_claims, [], Some s')"
proof -
  have k: "client_keys jwt_web sample_config jwt_client 110 [] = (Inr (JObj [(''keys'', JArr [JObj [(''kty'', JStr ''EC'')]])]), [])"
    by (simp add: client_keys_def jwt_client_def)
  have c: "\<exists>s'. claim_assertion mem_step jwt_platform sample_config jwt_client jwt_claims 110000 (Some (createMemoryStore 5)) = (Inr jwt_claims, Some s')"
    by (simp add: claim_assertion_def mem_claim_def createMemoryStore_def Let_def)
  show ?thesis
    using c k jwt_checked
    by (auto simp: verifyPrivateKeyJwt_def jwt_decoded nowSeconds_def PRIVATE_KEY_JWT_ALGS_def Let_def coalesce_def)
qed

section \<open>Properties\<close>

text \<open>C9: a signed client assertion authenticates once. After one acceptance, and after any further store
  operations, no later assertion of that client whose verified claims carry the same identifier and
  deadline is accepted: only in the very second in which the tolerance for its deadline ends can
  a copy be accepted again, because the claim is kept exactly as long and not a second longer. This holds on the
  in-memory store and on the Durable Objects.\<close>

theorem assertion_used_once:
  assumes "jget payload' ''jti'' = jget payload ''jti''" "jget payload' ''exp'' = jget payload ''exp''" "as_num (jget payload ''exp'') = Some e"
    and "tk_clockSkewSeconds (c_tokens c) \<le> 86400" "0 < now" "now \<le> t" "nowSeconds t \<noteq> e + tk_clockSkewSeconds (c_tokens c)"
    and "list_all (\<lambda>(u, op). 0 < u \<and> u \<le> t \<and> \<not> (counts op \<and> op_key op = assertion_key pf client payload)) ops"
  shows "(verifyPrivateKeyJwt w pf verify mem_step c client a now (cache, Some m) = (Inr payload, cache', Some m') \<longrightarrow>
      fst (verifyPrivateKeyJwt w' pf verify' mem_step c client a' t (cache2, Some (snd (mem.run m' ops)))) \<noteq> Inr payload') \<and>
    (verifyPrivateKeyJwt w pf verify do_step c client a now (cache, Some d) = (Inr payload, cache', Some d') \<longrightarrow>
      fst (verifyPrivateKeyJwt w' pf verify' do_step c client a' t (cache2, Some (snd (durable.run d' ops)))) \<noteq> Inr payload')"
proof -
  have ops: "0 < u \<and> u \<le> t \<and> \<not> (counts op \<and> op_key op = assertion_key pf client payload)" if "(u, op) \<in> set ops" for u op
    using assms(8) that by (auto simp: list_all_iff)
  have split: "fst r = x \<Longrightarrow> r = (x, fst (snd r), snd (snd r))" for r :: "'x \<times> 'y \<times> 'z" and x by (cases r) auto
  show ?thesis
    using mem.assertion_once [where ops = ops, OF _ split assms(1,2,4-6) ops] durable.assertion_once [where ops = ops, OF _ split assms(1,2,4-6) ops]
      assms(3,7) by (metis option.inject)
qed

theorem assertion_used_once_witness:
  "fst (verifyPrivateKeyJwt jwt_web jwt_platform (\<lambda>_ _ _ _. Inr True) mem_step sample_config jwt_client (Some jwt_token) 150000
     (snd (verifyPrivateKeyJwt jwt_web jwt_platform (\<lambda>_ _ _ _. Inr True) mem_step sample_config jwt_client (Some jwt_token) 110000
        ([], Some (createMemoryStore 5))))) \<noteq> Inr jwt_claims"
proof -
  obtain s' where s': "verifyPrivateKeyJwt jwt_web jwt_platform (\<lambda>_ _ _ _. Inr True) mem_step sample_config jwt_client (Some jwt_token) 110000
     ([], Some (createMemoryStore 5)) = (Inr jwt_claims, [], Some s')"
    using jwt_accepted by blast
  have e: "as_num (jget jwt_claims ''exp'') = Some 160" by (simp add: jwt_claims_def)
  show ?thesis
    using assertion_used_once [OF refl refl e, of sample_config 110000 150000 jwt_platform jwt_client "[]" jwt_web "\<lambda>_ _ _ _. Inr True" "Some jwt_token" "[]"
        "createMemoryStore 5" "[]" s'] s'
    by (simp add: nowSeconds_def sample_config_def)
qed

end
