(* ===== verification/Keys.thy ===== *)
theory Keys
  imports Jose
begin

text \<open>
  Signing keys: the in-process signer (\<^verbatim>\<open>src/keys/local.js\<close>), the choice of a backend (\<^verbatim>\<open>src/keys/index.js\<close>), the set of
  signers of a deployment (\<^verbatim>\<open>src/keys/registry.js\<close>) and which algorithms the runtime offers
  (\<^verbatim>\<open>src/crypto/capabilities.js\<close>). What WebCrypto does with a key is a parameter, \<open>key_ops\<close>, as are the two remote backends.
\<close>

section \<open>Signers\<close>

record signer =
  sn_backend :: string
  sn_alg :: string
  sn_kid :: "string option"
  sn_keyId :: "(string, string option) result option"
  sn_sign :: "bytes \<Rightarrow> (string, bytes) result"
  sn_keys :: "(string, json list) result"
  sn_ephemeral :: bool

record key_ops =
  ko_pem :: "string \<Rightarrow> string \<Rightarrow> (string, json) result"
  ko_generate :: "string \<Rightarrow> (string, json) result"
  ko_import :: "json \<Rightarrow> string \<Rightarrow> (string, unit) result"
  ko_sign :: "string \<Rightarrow> json \<Rightarrow> bytes \<Rightarrow> (string, bytes) result"
  ko_remote :: "string \<Rightarrow> config \<Rightarrow> (string, signer) result"

definition generateParams :: "string \<Rightarrow> (string, (string \<times> string) list) result" where
  "generateParams alg =
     (case map_of ALGS alg of None \<Rightarrow> Inl (''unsupported signing algorithm: '' @ alg)
      | Some spec \<Rightarrow>
          if as_family spec = ''post-quantum'' then Inr [(''name'', as_name spec)]
          else if as_name spec = ''ECDSA'' then Inr [(''name'', ''ECDSA''), (''namedCurve'', coalesce (as_namedCurve spec) [])]
          else if as_name spec = ''HMAC'' then Inl ''HS256 cannot sign id_tokens for public clients''
          else Inr [(''name'', as_name spec), (''hash'', coalesce (as_hash spec) []), (''modulusLength'', ''2048'')])"

text \<open>The key a local signer starts from, and whether it was generated here.\<close>

definition local_jwk :: "key_ops \<Rightarrow> string \<Rightarrow> json option \<Rightarrow> string option \<Rightarrow> (string, json \<times> bool) result" where
  "local_jwk ops alg privateJwk privatePem =
     (if truthy privateJwk then Inr (the privateJwk, False)
      else if str_truthy privatePem then rbind (ko_pem ops (the privatePem) alg) (\<lambda>jwk. Inr (jwk, False))
      else rescue (\<lambda>e. Inl (''this runtime cannot generate a '' @ alg @ '' key: '' @ e))
             (rbind (generateParams alg) (\<lambda>_. rbind (ko_generate ops alg) (\<lambda>jwk. Inr (jput jwk ''alg'' (Some (JStr alg)), True)))))"

definition createLocalSigner ::
  "platform \<Rightarrow> key_ops \<Rightarrow> string \<Rightarrow> json option \<Rightarrow> string option \<Rightarrow> json list \<Rightarrow> (string, signer) result" where
  "createLocalSigner pf ops alg privateJwk privatePem extraPublicJwks =
     rbind (local_jwk ops alg privateJwk privatePem) (\<lambda>(jwk0, ephemeral).
     let jwk = (if truthy (jget jwk0 ''alg'') then jwk0 else jput jwk0 ''alg'' (Some (JStr alg))) in
     rbind (ko_import ops jwk alg) (\<lambda>_.
     rbind (case as_str (jget jwk ''kid'') of Some k \<Rightarrow> (if k = [] then jwkThumbprint pf jwk else Inr k) | None \<Rightarrow> jwkThumbprint pf jwk) (\<lambda>kid.
     rbind (publicPartOf (jputs jwk [(''alg'', Some (JStr alg)), (''kid'', Some (JStr kid))])) (\<lambda>publicJwk.
     rbind (signParams alg) (\<lambda>_.
     Inr \<lparr>sn_backend = ''local'', sn_alg = alg, sn_kid = Some kid, sn_keyId = None, sn_sign = ko_sign ops alg jwk,
          sn_keys = Inr (publicJwk # extraPublicJwks), sn_ephemeral = ephemeral\<rparr>)))))"

definition createSigner :: "platform \<Rightarrow> key_ops \<Rightarrow> config \<Rightarrow> (string, signer) result" where
  "createSigner pf ops c =
     (let signing = c_signing c in
      if sg_backend signing = ''local''
      then createLocalSigner pf ops (sg_alg signing) (sg_privateJwk signing) (sg_privatePem signing) (sg_extraPublicJwks signing)
      else if sg_backend signing = ''cloudflare-hsm'' \<or> sg_backend signing = ''aws-kms'' then ko_remote ops (sg_backend signing) c
      else Inl (''unknown signing backend: '' @ sg_backend signing))"

definition signerKid :: "platform \<Rightarrow> signer \<Rightarrow> (string, string option) result" where
  "signerKid pf s =
     (if str_truthy (sn_kid s) then Inr (sn_kid s)
      else (case sn_keyId s of Some r \<Rightarrow> r
            | None \<Rightarrow> rbind (sn_keys s) (\<lambda>keys.
                (case keys of [] \<Rightarrow> Inr None
                 | k # _ \<Rightarrow> (case as_str (jget k ''kid'') of
                     Some kid \<Rightarrow> (if kid = [] then rbind (jwkThumbprint pf k) (Inr \<circ> Some) else Inr (Some kid))
                   | None \<Rightarrow> rbind (jwkThumbprint pf k) (Inr \<circ> Some))))))"

section \<open>The set of signers\<close>

record signer_set =
  st_primary :: signer
  st_primaryAlg :: string
  st_skipped :: "(string \<times> string) list"
  st_signers :: "(string \<times> signer) list"

definition supportsAlg :: "(string \<Rightarrow> bool) \<Rightarrow> string \<Rightarrow> bool" where
  "supportsAlg generates alg =
     (case map_of ALGS alg of None \<Rightarrow> False
      | Some spec \<Rightarrow> if as_family spec = ''symmetric'' then True else generates alg)"

definition cryptoReport :: "(string \<Rightarrow> bool) \<Rightarrow> string list \<Rightarrow> string list \<times> string list \<times> bool" where
  "cryptoReport generates candidates =
     (let supported = filter (supportsAlg generates) candidates
      in (supported, filter (\<lambda>a. \<not> supportsAlg generates a) candidates, list_ex isPostQuantum supported))"

definition config_for :: "config \<Rightarrow> string \<Rightarrow> config" where
  "config_for c alg =
     (let (jwk, pem, kms) = coalesce (map_of (sg_keysByAlg (c_signing c)) alg) (None, None, None)
      in c\<lparr>c_signing := (c_signing c)\<lparr>sg_alg := alg, sg_privateJwk := jwk, sg_privatePem := pem, sg_kmsKeyId := kms\<rparr>\<rparr>)"

fun init_signers ::
  "platform \<Rightarrow> key_ops \<Rightarrow> (string \<Rightarrow> bool) \<Rightarrow> config \<Rightarrow> string list \<Rightarrow> (string \<times> signer) list \<Rightarrow> (string \<times> string) list \<Rightarrow> string list \<Rightarrow>
     (string, (string \<times> signer) list \<times> (string \<times> string) list) result" where
  "init_signers pf ops gen c seen sigs skipped [] = Inr (sigs, skipped)"
| "init_signers pf ops gen c seen sigs skipped (alg # rest) =
     (if alg \<in> set seen then init_signers pf ops gen c seen sigs skipped rest
      else if sg_backend (c_signing c) = ''local'' \<and> \<not> supportsAlg gen alg
      then init_signers pf ops gen c (alg # seen) sigs (skipped @ [(alg, ''not supported by this runtime'')]) rest
      else (case createSigner pf ops (config_for c alg) of
              Inr s \<Rightarrow> init_signers pf ops gen c (alg # seen) (AList.update alg s sigs) skipped rest
            | Inl e \<Rightarrow> if alg = sg_alg (c_signing c) then Inl e
                      else init_signers pf ops gen c (alg # seen) sigs (skipped @ [(alg, e)]) rest))"

definition createSignerSet :: "platform \<Rightarrow> key_ops \<Rightarrow> (string \<Rightarrow> bool) \<Rightarrow> config \<Rightarrow> (string, signer_set) result" where
  "createSignerSet pf ops gen c =
     (let wanted = sg_alg (c_signing c) # sg_additionalAlgs (c_signing c) in
      rbind (init_signers pf ops gen c [] [] [] wanted) (\<lambda>(sigs, skipped).
      (case sigs of [] \<Rightarrow> Inl (''no usable signing key: could not initialise '' @ join '', '' wanted)
       | (a0, s0) # _ \<Rightarrow>
           (case map_of sigs (sg_alg (c_signing c)) of
              Some s \<Rightarrow> Inr \<lparr>st_primary = s, st_primaryAlg = sg_alg (c_signing c), st_skipped = skipped, st_signers = sigs\<rparr>
            | None \<Rightarrow> Inr \<lparr>st_primary = s0, st_primaryAlg = a0, st_skipped = skipped, st_signers = sigs\<rparr>))))"

definition algs :: "signer_set \<Rightarrow> string list" where
  "algs st = map fst (st_signers st)"

definition postQuantumAlgs :: "signer_set \<Rightarrow> string list" where
  "postQuantumAlgs st = filter isPostQuantum (algs st)"

definition select :: "signer_set \<Rightarrow> string option \<Rightarrow> (string, signer) result" where
  "select st alg =
     (if \<not> str_truthy alg then Inr (st_primary st)
      else (case map_of (st_signers st) (the alg) of Some s \<Rightarrow> Inr s
            | None \<Rightarrow> Inl (''id_token signing algorithm '' @ the alg @ '' is not available here; this deployment offers '' @ join '', '' (algs st))))"

text \<open>The identity of a key in a key set: its \<open>kid\<close>, or its text.\<close>

definition key_id :: "platform \<Rightarrow> json \<Rightarrow> json" where
  "key_id pf key = (if truthy (jget key ''kid'') then the (jget key ''kid'') else JStr (pf_stringify pf key))"

fun merge_keys :: "platform \<Rightarrow> json list \<Rightarrow> json list \<Rightarrow> json list \<Rightarrow> json list" where
  "merge_keys pf seen out [] = out"
| "merge_keys pf seen out (k # ks) =
     (if key_id pf k \<in> set seen then merge_keys pf seen out ks
      else merge_keys pf (key_id pf k # seen) (out @ [k]) ks)"

fun signer_keys :: "signer list \<Rightarrow> (string, json list) result" where
  "signer_keys [] = Inr []"
| "signer_keys (s # rest) = rbind (sn_keys s) (\<lambda>ks. rbind (signer_keys rest) (\<lambda>more. Inr (ks @ more)))"

definition ordered :: "signer_set \<Rightarrow> signer list" where
  "ordered st = st_primary st # map snd (filter (\<lambda>(a, _). a \<noteq> st_primaryAlg st) (st_signers st))"

definition set_jwks :: "platform \<Rightarrow> signer_set \<Rightarrow> (string, json list) result" where
  "set_jwks pf st = rbind (signer_keys (ordered st)) (\<lambda>keys. Inr (merge_keys pf [] [] keys))"

definition set_describe :: "signer_set \<Rightarrow> json" where
  "set_describe st = jobj
     [(''primary'', Some (jobj [(''alg'', Some (JStr (st_primaryAlg st))), (''backend'', Some (JStr (sn_backend (st_primary st)))),
         (''ephemeral'', Some (JBool (sn_ephemeral (st_primary st))))])),
      (''algorithms'', Some (JArr (map (\<lambda>a. jobj [(''alg'', Some (JStr a)),
         (''family'', map_option (JStr \<circ> as_family) (map_of ALGS a))]) (algs st)))),
      (''post_quantum_signatures'', Some (JBool (postQuantumAlgs st \<noteq> []))),
      (''skipped'', Some (JArr (map (\<lambda>(a, r). jobj [(''alg'', Some (JStr a)), (''reason'', Some (JStr r))]) (st_skipped st))))]"

section \<open>Facts\<close>

lemma createSigner_alg:
  assumes "createSigner pf ops c = Inr s" "sg_backend (c_signing c) = ''local''"
  shows "sn_alg s = sg_alg (c_signing c)" "sn_backend s = ''local''"
  using assms by (auto simp: createSigner_def createLocalSigner_def Let_def split: prod.splits)

text \<open>Every signer of the list was built for the algorithm it is listed under, which the runtime supports.\<close>

definition signers_ok :: "(string \<Rightarrow> bool) \<Rightarrow> (string \<times> signer) list \<Rightarrow> bool" where
  "signers_ok gen sigs \<longleftrightarrow> (\<forall>a s. map_of sigs a = Some s \<longrightarrow> sn_alg s = a \<and> supportsAlg gen a)"

lemma signers_ok_update:
  "signers_ok gen sigs \<Longrightarrow> sn_alg s = alg \<Longrightarrow> supportsAlg gen alg \<Longrightarrow> signers_ok gen (AList.update alg s sigs)"
  by (auto simp: signers_ok_def update_conv')

lemma config_for_simps [simp]:
  "sg_backend (c_signing (config_for c alg)) = sg_backend (c_signing c)" "sg_alg (c_signing (config_for c alg)) = alg"
  by (simp_all add: config_for_def Let_def split: prod.splits)

lemma init_signers_local:
  assumes "init_signers pf ops gen c seen sigs skipped wanted = Inr (sigs', skipped')" "sg_backend (c_signing c) = ''local''"
    and "signers_ok gen sigs"
  shows "signers_ok gen sigs'"
  using assms
proof (induction wanted arbitrary: seen sigs skipped)
  case (Cons alg rest)
  consider "alg \<in> set seen" | "alg \<notin> set seen" "\<not> supportsAlg gen alg"
    | e where "alg \<notin> set seen" "supportsAlg gen alg" "createSigner pf ops (config_for c alg) = Inl e"
    | s where "alg \<notin> set seen" "supportsAlg gen alg" "createSigner pf ops (config_for c alg) = Inr s"
    by (cases "createSigner pf ops (config_for c alg)") auto
  then show ?case
  proof cases
    case 4
    with createSigner_alg(1) [OF 4(3)] Cons.prems(2) have "sn_alg s = alg" by simp
    with 4 Cons.prems show ?thesis by (auto intro: Cons.IH signers_ok_update)
  qed (use Cons in \<open>auto split: if_splits\<close>)
qed simp

lemma createSignerSet_Inr:
  assumes "createSignerSet pf ops gen c = Inr st"
  obtains skipped a where "init_signers pf ops gen c [] [] [] (sg_alg (c_signing c) # sg_additionalAlgs (c_signing c)) = Inr (st_signers st, skipped)"
    "map_of (st_signers st) a = Some (st_primary st)" "a = st_primaryAlg st"
proof (cases "init_signers pf ops gen c [] [] [] (sg_alg (c_signing c) # sg_additionalAlgs (c_signing c))")
  case (Inr r)
  obtain sigs skipped where r: "r = (sigs, skipped)" by (cases r)
  have "st_signers st = sigs \<and> map_of sigs (st_primaryAlg st) = Some (st_primary st)"
    using assms unfolding createSignerSet_def Let_def Inr r by (cases sigs; cases st) (auto split: option.splits if_splits)
  with Inr r that show ?thesis by auto
qed (use assms in \<open>auto simp: createSignerSet_def Let_def\<close>)

lemma select_alg:
  assumes "createSignerSet pf ops gen c = Inr st" "sg_backend (c_signing c) = ''local''" "select st alg = Inr s"
  shows "supportsAlg gen (sn_alg s) \<and> (str_truthy alg \<longrightarrow> alg = Some (sn_alg s))"
proof -
  from assms(1) obtain skipped a where
    i: "init_signers pf ops gen c [] [] [] (sg_alg (c_signing c) # sg_additionalAlgs (c_signing c)) = Inr (st_signers st, skipped)"
    and p: "map_of (st_signers st) a = Some (st_primary st)" by (rule createSignerSet_Inr)
  have "signers_ok gen (st_signers st)" using init_signers_local [OF i assms(2)] by (simp add: signers_ok_def)
  with p assms(3) show ?thesis by (auto simp: select_def str_truthy_def signers_ok_def split: if_splits option.splits)
qed

lemma merge_keys_inv:
  assumes "distinct (map (key_id pf) out)" "set seen = key_id pf ` set out"
  shows "distinct (map (key_id pf) (merge_keys pf seen out ks)) \<and>
    key_id pf ` set (merge_keys pf seen out ks) = key_id pf ` set out \<union> key_id pf ` set ks \<and>
    set (merge_keys pf seen out ks) \<subseteq> set out \<union> set ks \<and> prefix out (merge_keys pf seen out ks)"
  using assms
proof (induction pf seen out ks rule: merge_keys.induct)
  case (2 pf seen out k ks)
  show ?case
  proof (cases "key_id pf k \<in> set seen")
    case True
    with "2.IH"(1) "2.prems" show ?thesis by auto
  next
    case False
    with "2.IH"(2) "2.prems" show ?thesis by (auto simp: prefix_def)
  qed
qed simp

lemma set_jwks_facts:
  assumes "set_jwks pf st = Inr keys" "sn_keys (st_primary st) = Inr (k # own)"
  shows "distinct (map (key_id pf) keys)" "hd keys = k" "keys \<noteq> []"
    "\<And>s ks j. s \<in> set (ordered st) \<Longrightarrow> sn_keys s = Inr ks \<Longrightarrow> j \<in> set ks \<Longrightarrow> key_id pf j \<in> key_id pf ` set keys"
proof -
  from assms(1) obtain all where all: "signer_keys (ordered st) = Inr all" "keys = merge_keys pf [] [] all"
    by (auto simp: set_jwks_def)
  have sub: "signer_keys sigs = Inr xs \<Longrightarrow> s \<in> set sigs \<Longrightarrow> sn_keys s = Inr ks \<Longrightarrow> set ks \<subseteq> set xs" for sigs xs s ks
    by (induction sigs arbitrary: xs) fastforce+
  note m = merge_keys_inv [of pf "[]" "[]" all, simplified]
  show "distinct (map (key_id pf) keys)" using m all by simp
  show "key_id pf j \<in> key_id pf ` set keys" if "s \<in> set (ordered st)" "sn_keys s = Inr ks" "j \<in> set ks" for s ks j
    using m all sub [OF all(1) that(1,2)] that(3) by auto
  obtain rest where "all = k # rest" using all(1) assms(2) by (auto simp: ordered_def)
  then have "prefix [k] keys" using merge_keys_inv [of pf "[k]" "[key_id pf k]" rest] all(2) by simp
  then show "hd keys = k" "keys \<noteq> []" by (auto simp: prefix_def)
qed

end
