(* ===== verification/Peers.thy ===== *)
theory Peers
  imports Keys
begin

text \<open>
  Peer deployments of one issuer, \<^verbatim>\<open>src/keys/peers.js\<close>: fetching and cleaning a peer's keys, the cache with its two
  lifetimes and the pause after a failure, and merging. The cache backend is an interface, which the in-memory one meets here and
  the two shared ones in \<open>Peer_Caches\<close>. Requests are taken one after the other (the map of fetches in flight only shares their results).
\<close>

definition PEER_FETCH_PARAM :: string where "PEER_FETCH_PARAM = ''sag_peer_fetch''"

definition peerFetchUrl :: "web \<Rightarrow> string \<Rightarrow> string option" where
  "peerFetchUrl w url = wb_set w url [(PEER_FETCH_PARAM, ''1'')]"

definition isPeerFetch :: "params \<Rightarrow> bool" where
  "isPeerFetch query \<longleftrightarrow> map_of query PEER_FETCH_PARAM = Some ''1''"

definition usable_key :: "json \<Rightarrow> bool" where
  "usable_key key \<longleftrightarrow> is_obj key \<and> as_str (jget key ''kty'') \<noteq> None \<and> jget key ''d'' = None \<and> jget key ''k'' = None"

definition peer_keys :: "json \<Rightarrow> (string, json list) result" where
  "peer_keys doc =
     (case jget doc ''keys'' of
        Some (JArr ks) \<Rightarrow>
          (let keys = filter usable_key ks
           in if keys = [] then Inl ''response carried no usable public key'' else Inr keys)
      | _ \<Rightarrow> Inl ''response has no \"keys\" array'')"

definition fetchPeerJwks :: "web \<Rightarrow> peer_config \<Rightarrow> string \<Rightarrow> (string, json list) result" where
  "fetchPeerJwks w pc url =
     (case peerFetchUrl w url of None \<Rightarrow> Inl ''Invalid URL''
      | Some target \<Rightarrow>
          rbind (fetchWithTimeout (wb_fetch w) (get_json target)) (\<lambda>res.
          if \<not> res_ok res then Inl (''HTTP '' @ show_int (ft_status res))
          else rbind (response_text res (pj_maxDocumentBytes pc)) (\<lambda>raw.
            (case wb_json w raw of None \<Rightarrow> Inl ''response is not valid JSON'' | Some doc \<Rightarrow> peer_keys doc))))"

section \<open>The cache\<close>

record peer_entry =
  pn_keys :: "json list"
  pn_fetchedAt :: int

record 'c cache_ops =
  pc_get :: "'c \<Rightarrow> int \<Rightarrow> string \<Rightarrow> (string, peer_entry option) result"
  pc_put :: "'c \<Rightarrow> int \<Rightarrow> string \<Rightarrow> peer_entry \<Rightarrow> (string, unit) result \<times> 'c"

definition createMemoryCache :: "(string \<times> peer_entry) list cache_ops" where
  "createMemoryCache = \<lparr>pc_get = \<lambda>entries now url. Inr (map_of entries url), pc_put = \<lambda>entries now url e. (Inr (), AList.update url e entries)\<rparr>"

record 'c peer_state =
  ps_cache :: 'c
  ps_retryAfter :: "(string \<times> int) list"

section \<open>Resolving\<close>

definition graceKeys :: "peer_config \<Rightarrow> peer_entry option \<Rightarrow> int \<Rightarrow> json list" where
  "graceKeys pc cached now =
     (case cached of None \<Rightarrow> [] | Some e \<Rightarrow> if now - pn_fetchedAt e < pj_staleTtlSeconds pc then pn_keys e else [])"

text \<open>A failed read of the cache is logged and counts as a miss.\<close>

definition cached_entry :: "'c cache_ops \<Rightarrow> 'c \<Rightarrow> int \<Rightarrow> string \<Rightarrow> peer_entry option" where
  "cached_entry ops c now url = (case pc_get ops c now url of Inl _ \<Rightarrow> None | Inr e \<Rightarrow> e)"

definition resolveKeys :: "'c cache_ops \<Rightarrow> web \<Rightarrow> peer_config \<Rightarrow> string \<Rightarrow> int \<Rightarrow> 'c peer_state \<Rightarrow> json list \<times> 'c peer_state" where
  "resolveKeys ops w pc url now st =
     (let cached = cached_entry ops (ps_cache st) now url in
      if (case cached of None \<Rightarrow> False | Some e \<Rightarrow> now - pn_fetchedAt e < pj_cacheTtlSeconds pc) then (pn_keys (the cached), st)
      else if now < coalesce (map_of (ps_retryAfter st) url) 0 then (graceKeys pc cached now, st)
      else (case fetchPeerJwks w pc url of
              Inr keys \<Rightarrow> (keys, \<lparr>ps_cache = snd (pc_put ops (ps_cache st) now url \<lparr>pn_keys = keys, pn_fetchedAt = now\<rparr>),
                                 ps_retryAfter = AList.delete url (ps_retryAfter st)\<rparr>)
            | Inl _ \<Rightarrow> (graceKeys pc cached now,
                st\<lparr>ps_retryAfter := (if pj_retryAfterSeconds pc > 0 then AList.update url (now + pj_retryAfterSeconds pc) (ps_retryAfter st)
                                    else ps_retryAfter st)\<rparr>)))"

fun resolve_all ::
  "'c cache_ops \<Rightarrow> web \<Rightarrow> peer_config \<Rightarrow> int \<Rightarrow> string list \<Rightarrow> 'c peer_state \<Rightarrow> json list list \<times> 'c peer_state" where
  "resolve_all ops w pc now [] st = ([], st)"
| "resolve_all ops w pc now (url # rest) st =
     (let (ks, st1) = resolveKeys ops w pc url now st; (more, st2) = resolve_all ops w pc now rest st1 in (ks # more, st2))"

definition collect :: "'c cache_ops \<Rightarrow> web \<Rightarrow> peer_config \<Rightarrow> int \<Rightarrow> 'c peer_state \<Rightarrow> (json list \<times> bool) \<times> 'c peer_state" where
  "collect ops w pc now st =
     (let (perPeer, st') = resolve_all ops w pc now (pj_urls pc) st in ((concat perPeer, list_ex (\<lambda>ks. ks = []) perPeer), st'))"

definition peer_describe :: "'c cache_ops \<Rightarrow> peer_config \<Rightarrow> int \<Rightarrow> 'c peer_state \<Rightarrow> json" where
  "peer_describe ops pc now st =
     JArr (map (\<lambda>url. case cached_entry ops (ps_cache st) now url of
         None \<Rightarrow> JObj [(''url'', JStr url), (''key_count'', JNum 0), (''last_fetched_seconds_ago'', JNull), (''within_cache_ttl'', JBool False),
                  (''within_grace_period'', JBool False)]
       | Some e \<Rightarrow> (let age = now - pn_fetchedAt e
                   in JObj [(''url'', JStr url), (''key_count'', JNum (int (length (pn_keys e)))), (''last_fetched_seconds_ago'', JNum age),
                       (''within_cache_ttl'', JBool (age < pj_cacheTtlSeconds pc)), (''within_grace_period'', JBool (age < pj_staleTtlSeconds pc))]))
       (pj_urls pc))"

definition mergeJwks :: "platform \<Rightarrow> json list \<Rightarrow> json list \<Rightarrow> json list" where
  "mergeJwks pf localKeys peerKeys = merge_keys pf (map (key_id pf) localKeys) localKeys peerKeys"

section \<open>What a cache promises\<close>

text \<open>\<open>held\<close> shows what the cache holds for an address. A read that succeeds returns that, or nothing; after a write to one
  address, what is held for any is that entry or what was there before.\<close>

locale peer_cache =
  fixes ops :: "'c cache_ops" and held :: "'c \<Rightarrow> string \<Rightarrow> peer_entry option"
  assumes get_held: "pc_get ops c now url = Inr (Some e) \<Longrightarrow> held c url = Some e"
    and put_held: "held (snd (pc_put ops c now url e)) url' = Some e' \<Longrightarrow> url' = url \<and> e' = e \<or> held c url' = Some e'"
begin

lemma cached_held: "cached_entry ops c now url = Some e \<Longrightarrow> held c url = Some e"
  by (auto simp: cached_entry_def get_held split: sum.splits)

text \<open>A request in a history: its instant and how the network behaves then.\<close>

fun served :: "peer_config \<Rightarrow> string \<Rightarrow> (int \<times> web) list \<Rightarrow> 'c peer_state \<Rightarrow> 'c peer_state" where
  "served pc url [] st = st"
| "served pc url ((now, w) # rest) st = served pc url rest (snd (resolveKeys ops w pc url now st))"

definition clean :: "'c peer_state \<Rightarrow> bool" where
  "clean st \<longleftrightarrow> (\<forall>url e. held (ps_cache st) url = Some e \<longrightarrow> pn_keys e \<noteq> [] \<and> list_all usable_key (pn_keys e))"

lemma fetched_clean:
  assumes "fetchPeerJwks w pc url = Inr ks"
  shows "ks \<noteq> [] \<and> list_all usable_key ks"
proof -
  from assms obtain doc where "peer_keys doc = Inr ks"
    by (auto simp: fetchPeerJwks_def split: option.splits if_splits)
  then show ?thesis by (auto simp: peer_keys_def Let_def list_all_iff split: option.splits json.splits if_splits)
qed

lemma resolve_clean:
  assumes "clean st"
  shows "list_all usable_key (fst (resolveKeys ops w pc url now st)) \<and> clean (snd (resolveKeys ops w pc url now st))"
proof -
  have grace: "list_all usable_key (graceKeys pc (cached_entry ops (ps_cache st) now url) now)"
    using assms by (auto simp: graceKeys_def clean_def split: option.splits dest!: cached_held)
  show ?thesis
  proof (cases "fetchPeerJwks w pc url")
    case (Inl e)
    with assms grace show ?thesis by (auto simp: resolveKeys_def Let_def clean_def split: option.splits dest: cached_held)
  next
    case (Inr ks)
    have "clean \<lparr>ps_cache = snd (pc_put ops (ps_cache st) now url \<lparr>pn_keys = ks, pn_fetchedAt = now\<rparr>), ps_retryAfter = r\<rparr>" for r
      using assms fetched_clean [OF Inr] by (auto simp: clean_def dest!: put_held)
    with Inr assms grace fetched_clean [OF Inr] show ?thesis
      by (auto simp: resolveKeys_def Let_def clean_def split: option.splits dest: cached_held)
  qed
qed

lemma resolve_all_clean:
  "clean st \<Longrightarrow> list_all (list_all usable_key) (fst (resolve_all ops w pc now urls st)) \<and> clean (snd (resolve_all ops w pc now urls st))"
proof (induction urls arbitrary: st)
  case (Cons url urls)
  obtain ks st1 where r: "resolveKeys ops w pc url now st = (ks, st1)" by force
  obtain more st2 where m: "resolve_all ops w pc now urls st1 = (more, st2)" by force
  show ?case
    using resolve_clean [OF Cons.prems, of w pc url now] Cons.IH [of st1] r m by simp
qed simp

lemma served_clean: "clean st \<Longrightarrow> clean (served pc url hist st)"
  by (induction hist arbitrary: st) (auto simp: resolve_clean)

text \<open>Nothing older than \<open>t\<close> but the keys \<open>K\<close>, and no pause that ends after \<open>r\<close>.\<close>

definition settled :: "string \<Rightarrow> int \<Rightarrow> json list \<Rightarrow> int \<Rightarrow> 'c peer_state \<Rightarrow> bool" where
  "settled url t K r st \<longleftrightarrow>
     (\<forall>e. held (ps_cache st) url = Some e \<longrightarrow> pn_fetchedAt e \<le> t \<or> pn_keys e = K) \<and>
     (\<forall>a. map_of (ps_retryAfter st) url = Some a \<longrightarrow> a \<le> r)"

lemma settled_before:
  assumes "settled url t K (t + pj_retryAfterSeconds pc) st" "now \<le> t"
  shows "settled url t K (t + pj_retryAfterSeconds pc) (snd (resolveKeys ops w pc url now st))"
  using assms
  by (auto simp: resolveKeys_def Let_def settled_def delete_conv' update_conv' split: option.splits sum.splits dest!: put_held)

lemma settled_after:
  assumes "settled url t K r st" "fetchPeerJwks w pc url = Inr K"
  shows "settled url t K r (snd (resolveKeys ops w pc url now st))"
  using assms by (auto simp: resolveKeys_def Let_def settled_def delete_conv' split: option.splits dest!: put_held)

lemma served_append: "served pc url (xs @ ys) st = served pc url ys (served pc url xs st)"
  by (induction xs arbitrary: st) auto

lemma settled_past:
  assumes "settled url t K (t + pj_retryAfterSeconds pc) st" "\<And>u w. (u, w) \<in> set hist \<Longrightarrow> u \<le> t"
  shows "settled url t K (t + pj_retryAfterSeconds pc) (served pc url hist st)"
  using assms
proof (induction hist arbitrary: st)
  case (Cons x hist)
  obtain u w where x: "x = (u, w)" by (cases x)
  from Cons.prems x have "settled url t K (t + pj_retryAfterSeconds pc) (snd (resolveKeys ops w pc url u st))"
    by (intro settled_before) auto
  from Cons.IH [OF this] Cons.prems(2) x show ?case by auto
qed simp

lemma settled_up:
  assumes "settled url t K r st" "\<And>u w. (u, w) \<in> set hist \<Longrightarrow> fetchPeerJwks w pc url = Inr K"
  shows "settled url t K r (served pc url hist st)"
  using assms
proof (induction hist arbitrary: st)
  case (Cons x hist)
  obtain u w where x: "x = (u, w)" by (cases x)
  from Cons.prems x have "settled url t K r (snd (resolveKeys ops w pc url u st))" by (intro settled_after) auto
  from Cons.IH [OF this] Cons.prems(2) x show ?case by auto
qed simp

lemma recovers:
  assumes st: "held (ps_cache st) url = None" "ps_retryAfter st = []"
    and past: "\<And>u w. (u, w) \<in> set past \<Longrightarrow> u \<le> t"
    and up: "\<And>u w. (u, w) \<in> set up \<Longrightarrow> fetchPeerJwks w pc url = Inr K" "fetchPeerJwks w pc url = Inr K"
    and now: "t + pj_retryAfterSeconds pc \<le> now" "t + pj_cacheTtlSeconds pc \<le> now" "0 \<le> now"
  shows "fst (resolveKeys ops w pc url now (served pc url (past @ up) st)) = K"
proof -
  let ?r = "t + pj_retryAfterSeconds pc"
  have "settled url t K ?r (served pc url (past @ up) st)"
    unfolding served_append using st by (intro settled_past settled_up past up(1)) (auto simp: settled_def)
  with now up(2) show ?thesis
    by (fastforce simp: resolveKeys_def Let_def settled_def coalesce_def split: option.splits dest: cached_held)
qed

end

interpretation memory_peers: peer_cache createMemoryCache map_of
  by unfold_locales (auto simp: createMemoryCache_def update_conv' split: if_splits)

definition no_peers :: "(string \<times> peer_entry) list peer_state" where
  "no_peers = \<lparr>ps_cache = [], ps_retryAfter = []\<rparr>"

lemma mergeJwks_facts:
  assumes "distinct (map (key_id pf) localKeys)"
  shows "prefix localKeys (mergeJwks pf localKeys peerKeys)" "distinct (map (key_id pf) (mergeJwks pf localKeys peerKeys))"
    "key_id pf ` set (mergeJwks pf localKeys peerKeys) = key_id pf ` set localKeys \<union> key_id pf ` set peerKeys"
    "set (mergeJwks pf localKeys peerKeys) \<subseteq> set localKeys \<union> set peerKeys"
  using merge_keys_inv [OF assms, of "map (key_id pf) localKeys" peerKeys] by (simp_all add: mergeJwks_def)

section \<open>Properties\<close>

text \<open>C33: a peer that comes back is published again. Whatever happened until the instant \<open>t\<close>, once the peer answers every
  fetch with the keys \<open>K\<close>, a request that comes later than the retry pause and the cache lifetime after
  \<open>t\<close> is answered with \<open>K\<close>: neither an old entry nor the pause after a failure can hold it back.\<close>

theorem peer_keys_recover:
  assumes "list_all (\<lambda>(u, v). u \<le> t) past" "list_all (\<lambda>(u, v). fetchPeerJwks v pc url = Inr K) up" "fetchPeerJwks w pc url = Inr K"
    and "t + pj_retryAfterSeconds pc \<le> now" "t + pj_cacheTtlSeconds pc \<le> now" "0 \<le> now"
  shows "fst (resolveKeys createMemoryCache w pc url now (memory_peers.served pc url (past @ up) no_peers)) = K"
proof (rule memory_peers.recovers)
  show "map_of (ps_cache no_peers) url = None"
    by (simp add: no_peers_def)
qed (use assms in \<open>auto simp: list_all_iff no_peers_def\<close>)

definition peer_up :: web where
  "peer_up = \<lparr>wb_parse = \<lambda>_. None, wb_target = \<lambda>_. None, wb_set = \<lambda>u ps. Some u,
     wb_fetch = \<lambda>_. Inr \<lparr>ft_status = 200, ft_opaque = False, ft_headers = [], ft_chunks = Some [[123, 125]]\<rparr>,
     wb_json = \<lambda>_. Some (JObj [(''keys'', JArr [JObj [(''kty'', JStr ''EC''), (''d'', JStr ''secret'')], JObj [(''kty'', JStr ''EC''), (''kid'', JStr ''a'')]])]),
     wb_resolver = None\<rparr>"

definition peer_down :: web where
  "peer_down = peer_up\<lparr>wb_fetch := \<lambda>_. Inl ''unreachable''\<rparr>"

theorem peer_keys_recover_witness:
  "fst (resolveKeys createMemoryCache peer_up (c_peerJwks sample_config) ''https://b.example/jwks'' 400
     (memory_peers.served (c_peerJwks sample_config) ''https://b.example/jwks'' [(10, peer_down), (50, peer_up)] no_peers))
   = [JObj [(''kty'', JStr ''EC''), (''kid'', JStr ''a'')]]"
proof -
  have up: "fetchPeerJwks peer_up (c_peerJwks sample_config) ''https://b.example/jwks'' = Inr [JObj [(''kty'', JStr ''EC''), (''kid'', JStr ''a'')]]"
    by code_simp
  have "c_peerJwks sample_config = c_peerJwks sample_config" "pj_retryAfterSeconds (c_peerJwks sample_config) = 30"
    "pj_cacheTtlSeconds (c_peerJwks sample_config) = 300" by (simp_all add: sample_config_def)
  then show ?thesis
    using peer_keys_recover [of 20 "[(10, peer_down)]" "c_peerJwks sample_config" "''https://b.example/jwks''" _ "[(50, peer_up)]" peer_up 400] up
    by simp
qed

text \<open>The members the code looks for are \<^verbatim>\<open>d\<close> and \<^verbatim>\<open>k\<close>; the secret of an \<^verbatim>\<open>AKP\<close> key is its \<^verbatim>\<open>priv\<close>, and such a key of a peer
  is taken as it is.\<close>

definition akp_secret :: json where
  "akp_secret = JObj [(''kty'', JStr ''AKP''), (''alg'', JStr ''ML-DSA-44''), (''pub'', JStr ''AA''), (''priv'', JStr ''AB'')]"

lemma akp_secret_taken:
  "fetchPeerJwks (peer_up\<lparr>wb_json := \<lambda>_. Some (JObj [(''keys'', JArr [akp_secret])])\<rparr>) (c_peerJwks sample_config) ''https://b.example/jwks'' = Inr [akp_secret]"
  by code_simp

end
