(* ===== verification/Profile.thy ===== *)
theory Profile
  imports Respond "HOL-Library.Word"
begin

text \<open>
  Profile claims, \<^verbatim>\<open>src/profile.js\<close>: the allow list that bounds what an upstream can put into a token, the guess of a
  name from an address, the drawn avatar, and what leaves in a token. \<open>assetVersion\<close> of \<^verbatim>\<open>src/ui/css.js\<close> is a 32-bit
  hash and is kept at its width.
\<close>

unbundle bit_operations_syntax

definition PROFILE_CLAIMS :: "string list" where
  "PROFILE_CLAIMS = [''name'', ''given_name'', ''family_name'', ''middle_name'', ''nickname'', ''preferred_username'', ''picture'',
     ''locale'', ''zoneinfo'']"

definition permitted :: "config \<Rightarrow> string \<Rightarrow> bool" where
  "permitted c claim \<longleftrightarrow> claim \<in> set (pr_claims (c_profile c)) \<and> \<not> (claim = ''picture'' \<and> \<not> pr_showPicture (c_profile c))"

definition reachableProfileClaims :: "config \<Rightarrow> string list" where
  "reachableProfileClaims c =
     (let relayed = c_upstreams c \<noteq> [] \<or> (li_backend (c_localIdentities c) \<noteq> [] \<and> li_backend (c_localIdentities c) \<noteq> ''none'');
          all = (if relayed then filter (permitted c) PROFILE_CLAIMS else []);
          guess = otp_enabled (c_otp c) \<and> pr_nameFromEmail (c_profile c) = ''infer'' \<and> permitted c ''name'';
          drawn = otp_enabled (c_otp c) \<and> pr_avatarFallback (c_profile c) = ''initials'' \<and> permitted c ''picture'';
          reachable = all @ (if guess then [''name'', ''urn:sag:name_inferred''] else []) @ (if drawn then [''picture''] else [])
      in filter (\<lambda>claim. claim \<in> set reachable) PROFILE_CLAIMS @
         (if ''urn:sag:name_inferred'' \<in> set reachable then [''urn:sag:name_inferred''] else []))"

section \<open>Relaying\<close>

definition https_text :: "string \<Rightarrow> bool" where
  "https_text value \<longleftrightarrow> starts_with (to_lower value) ''https://''"

definition relayed_value :: "json \<Rightarrow> string \<Rightarrow> string option" where
  "relayed_value given claim =
     (case jget given claim of
        Some (JStr value) \<Rightarrow>
          if value = [] then None
          else if claim = ''picture'' \<and> \<not> https_text value then None
          else if length value > 512 then (if claim = ''picture'' then None else Some (take 512 value))
          else Some value
      | _ \<Rightarrow> None)"

definition relayedClaims :: "config \<Rightarrow> json option \<Rightarrow> json option \<Rightarrow> json option" where
  "relayedClaims c given upstreamAcr =
     (let held = map (\<lambda>claim. (claim, map_option JStr (relayed_value (coalesce given (JObj [])) claim))) (filter (permitted c) PROFILE_CLAIMS);
          out = held @ [(''upstream_acr'', if truthy upstreamAcr then Some (JStr (take 128 (js_text (the upstreamAcr)))) else None)]
      in if list_ex (\<lambda>(_, v). v \<noteq> None) out then Some (jobj out) else None)"

section \<open>Guessing a name\<close>

definition is_hex_digit :: "char \<Rightarrow> bool" where
  "is_hex_digit ch \<longleftrightarrow> is_digit ch \<or> lower_char ch \<in> set ''abcdef''"

text \<open>\<open>/^[0-9]+$|^[0-9a-f]{12,}$|^[0-9a-f]{8}-[0-9a-f]{4}-/i\<close>.\<close>

definition opaque_local :: "string \<Rightarrow> bool" where
  "opaque_local s \<longleftrightarrow>
     (s \<noteq> [] \<and> list_all is_digit s) \<or>
     (12 \<le> length s \<and> list_all is_hex_digit s) \<or>
     (14 \<le> length s \<and> list_all is_hex_digit (take 8 s) \<and> s ! 8 = CHR ''-'' \<and> list_all is_hex_digit (take 4 (drop 9 s)) \<and> s ! 13 = CHR ''-'')"

definition ROLES :: "string list" where
  "ROLES = [''admin'', ''administrator'', ''info'', ''contact'', ''support'', ''help'', ''hello'', ''hi'',
     ''sales'', ''billing'', ''accounts'', ''noreply'', ''no-reply'', ''donotreply'', ''postmaster'',
     ''webmaster'', ''abuse'', ''security'', ''privacy'', ''legal'', ''hr'', ''jobs'', ''careers'',
     ''team'', ''office'', ''enquiries'', ''inquiries'', ''mail'', ''email'', ''test'', ''root'']"

definition is_letter :: "char \<Rightarrow> bool" where
  "is_letter ch \<longleftrightarrow> is_upper ch \<or> is_lower ch"

definition capitalised :: "string \<Rightarrow> string" where
  "capitalised word = (case word of [] \<Rightarrow> [] | [ch] \<Rightarrow> [upper_char ch, CHR ''.''] | ch # rest \<Rightarrow> upper_char ch # to_lower rest)"

definition single_initial :: "string \<Rightarrow> bool" where
  "single_initial name \<longleftrightarrow> (case name of [a, b] \<Rightarrow> is_upper a \<and> b = CHR ''.'' | _ \<Rightarrow> False)"

text \<open>\<open>replace\<close> of a run of separators by one space, then \<open>split\<close> on runs of white space.\<close>

definition nameFromEmail :: "string option \<Rightarrow> string option" where
  "nameFromEmail email =
     (let local = hd (split_on (CHR ''@'') (or_str email [])); base = trim (hd (split_on (CHR ''+'') local))
      in if local = [] then None
         else if length base < 2 \<or> length base > 40 then None
         else if opaque_local base then None
         else if to_lower base \<in> set ROLES then None
         else if list_ex is_digit base then None
         else (let ws = words (map (\<lambda>ch. if ch \<in> set ''._-'' then CHR '' '' else ch) base)
               in if ws = [] \<or> length ws > 4 then None
                  else if \<not> list_all (list_all is_letter) ws then None
                  else (let name = join '' '' (map capitalised ws)
                        in if single_initial name then None else Some name)))"

section \<open>Avatars\<close>

text \<open>\<open>replace(/@.*$/, '')\<close>: from the first at sign that no line break follows.\<close>

fun strip_at :: "string \<Rightarrow> string" where
  "strip_at [] = []"
| "strip_at (ch # cs) = (if ch = CHR ''@'' \<and> CHR 10 \<notin> set cs \<and> CHR 13 \<notin> set cs then [] else ch # strip_at cs)"

definition initialsFor :: "string option \<Rightarrow> string option \<Rightarrow> string" where
  "initialsFor name email =
     (let source = or_str name (or_str (nameFromEmail email) (or_str email []));
          ws = filter (list_ex is_letter) (Prelude.fields (\<lambda>ch. is_space ch \<or> ch \<in> set ''._-'') (strip_at source))
      in (case ws of [] \<Rightarrow> ''?''
          | [w] \<Rightarrow> to_upper (take 2 w)
          | w # _ \<Rightarrow> to_upper [hd w, hd (last ws)]))"

text \<open>FNV-1a over the characters, in 32-bit arithmetic: \<open>Math.imul\<close> followed by \<open>>>> 0\<close>.\<close>

definition fnv_step :: "32 word \<Rightarrow> char \<Rightarrow> 32 word" where
  "fnv_step hash ch = (hash XOR word_of_nat (of_char ch)) * 0x01000193"

definition fnv :: "string \<Rightarrow> 32 word" where
  "fnv source = foldl fnv_step 0x811c9dc5 source"

text \<open>\<open>toString(36)\<close> and \<open>parseInt(s, 36)\<close>.\<close>

definition DIGITS36 :: string where
  "DIGITS36 = ''0123456789abcdefghijklmnopqrstuvwxyz''"

fun show36 :: "nat \<Rightarrow> string" where
  "show36 n = (if n < 36 then [DIGITS36 ! n] else show36 (n div 36) @ [DIGITS36 ! (n mod 36)])"

declare show36.simps [simp del]

definition read36 :: "string \<Rightarrow> nat" where
  "read36 s = foldl (\<lambda>n ch. 36 * n + coalesce (index_of ch DIGITS36) 0) 0 s"

definition assetVersion :: "string \<Rightarrow> string" where
  "assetVersion source = pad_start 7 (CHR ''0'') (show36 (unat (fnv source)))"

definition AVATAR_COLOURS :: "string list" where
  "AVATAR_COLOURS = [''#1f4b99'', ''#7a2e6d'', ''#0f5c46'', ''#8a3d10'', ''#403a8c'', ''#8a1538'', ''#155e75'', ''#4a5320'']"

definition initialsAvatar :: "string option \<Rightarrow> string option \<Rightarrow> string" where
  "initialsAvatar name email =
     (let initials = initialsFor name email;
          index = read36 (assetVersion (or_str email [])) mod length AVATAR_COLOURS;
          svg = ''<svg xmlns=\"http://www.w3.org/2000/svg\" viewBox=\"0 0 96 96\" role=\"img\">'' @
            ''<rect width=\"96\" height=\"96\" rx=\"48\" fill=\"'' @ AVATAR_COLOURS ! index @ ''\"/>'' @
            ''<text x=\"48\" y=\"48\" fill=\"#fff\" font-family=\"system-ui,sans-serif\" font-size=\"38\" font-weight=\"600\" '' @
            ''text-anchor=\"middle\" dominant-baseline=\"central\">'' @
            filter (\<lambda>ch. ch \<notin> set ''<>&\"'' \<and> ch \<noteq> CHR 0x27) initials @ ''</text></svg>''
      in ''data:image/svg+xml,'' @ encodeURIComponent svg)"

section \<open>What leaves\<close>

definition inferredClaims :: "config \<Rightarrow> string option \<Rightarrow> json option" where
  "inferredClaims c email =
     (let name = (if pr_nameFromEmail (c_profile c) = ''infer'' then nameFromEmail email else None);
          guessed = str_truthy name \<and> permitted c ''name'';
          drawn = pr_avatarFallback (c_profile c) = ''initials'' \<and> permitted c ''picture'' \<and> str_truthy name
      in if \<not> guessed \<and> \<not> drawn then None
         else Some (jobj [(''name'', if guessed then map_option JStr name else None),
                (''name_inferred'', if guessed then Some (JBool True) else None),
                (''picture'', if drawn then Some (JStr (initialsAvatar name email)) else None)]))"

definition outboundClaims :: "config \<Rightarrow> json option \<Rightarrow> (string \<times> json) list" where
  "outboundClaims c held =
     (let h = coalesce held (JObj []);
          out = List.map_filter (\<lambda>claim. map_option (Pair claim) (jget h claim)) (filter (permitted c) PROFILE_CLAIMS)
      in if truthy (jget h ''name_inferred'') \<and> map_of out ''name'' \<noteq> None
         then out @ [(''urn:sag:name_inferred'', JBool True)] else out)"

definition displayIdentity :: "config \<Rightarrow> json option \<Rightarrow> identity_card" where
  "displayIdentity c session =
     (let ses = coalesce session (JObj []); held = coalesce (jor (jget ses ''claims'') (Some (JObj []))) (JObj []) in
      if \<not> pr_showOnScreen (c_profile c) then \<lparr>ic_email = as_str (jget ses ''email''), ic_name = None, ic_picture = None\<rparr>
      else \<lparr>ic_email = as_str (jget ses ''email''), ic_name = as_str (jget held ''name''),
            ic_picture = (if pr_showPicture (c_profile c) then as_str (jget held ''picture'') else None)\<rparr>)"

section \<open>Facts\<close>

lemma jget_jobj_map_of: "jget (jobj fs) k = (case map_of (filter (\<lambda>(_, v). v \<noteq> None) fs) k of Some v \<Rightarrow> v | None \<Rightarrow> None)"
  by (induction fs) (auto simp: jobj.simps)

lemma jget_relayed:
  assumes "relayedClaims c given acr = Some r" "k \<noteq> ''upstream_acr''"
  shows "jget r k = (if k \<in> set PROFILE_CLAIMS \<and> permitted c k then map_option JStr (relayed_value (coalesce given (JObj [])) k) else None)"
proof -
  have "jget (jobj (map (\<lambda>x. (x, f x)) xs @ [(''upstream_acr'', v)])) k = (if k \<in> set xs then f k else None)"
    for f :: "string \<Rightarrow> json option" and xs v
    using assms(2) by (induction xs) auto
  with assms(1) show ?thesis by (auto simp: relayedClaims_def Let_def split: if_splits)
qed

lemma relayed_value_bounds:
  assumes "relayed_value given k = Some v"
  shows "v \<noteq> []" "length v \<le> 512" "k = ''picture'' \<Longrightarrow> https_text v \<and> jget given k = Some (JStr v)"
    "\<exists>full. jget given k = Some (JStr full) \<and> v = take 512 full"
  using assms by (auto simp: relayed_value_def split: option.splits json.splits if_splits)

lemma map_of_keys:
  "map_of (List.map_filter (\<lambda>x. map_option (Pair x) (f x)) xs) k = (if k \<in> set xs then f k else None)"
  by (induction xs) (auto simp: map_filter_simps split: option.splits)

lemma outboundClaims_lookup:
  "map_of (outboundClaims c held) k =
     (if k \<in> set PROFILE_CLAIMS then (if permitted c k then jget (coalesce held (JObj [])) k else None)
      else if k = ''urn:sag:name_inferred'' \<and> truthy (jget (coalesce held (JObj [])) ''name_inferred'') \<and> permitted c ''name'' \<and>
              jget (coalesce held (JObj [])) ''name'' \<noteq> None
      then Some (JBool True) else None)"
proof -
  have n: "''name'' \<in> set PROFILE_CLAIMS" "''urn:sag:name_inferred'' \<notin> set PROFILE_CLAIMS" by (simp_all add: PROFILE_CLAIMS_def)
  show ?thesis
    using n by (auto simp: outboundClaims_def Let_def map_of_keys map_add_def split: option.splits)
qed

lemma foldl_read36: "foldl (\<lambda>n ch. 36 * n + coalesce (index_of ch DIGITS36) 0) a (replicate k (CHR ''0'')) = a * 36 ^ k"
  by (induction k arbitrary: a) (simp_all add: DIGITS36_def coalesce_def)

lemma digit36: "d < 36 \<Longrightarrow> coalesce (index_of (DIGITS36 ! d) DIGITS36) 0 = d"
proof -
  assume "d < 36"
  moreover have "distinct DIGITS36" "length DIGITS36 = 36" by (simp_all add: DIGITS36_def)
  ultimately show ?thesis by (simp add: index_of_nth coalesce_def)
qed

lemma read_show36: "read36 (show36 n) = n"
proof (induction n rule: show36.induct)
  case (1 n)
  show ?case
  proof (cases "n < 36")
    case True
    then show ?thesis by (subst show36.simps) (simp add: read36_def digit36)
  next
    case False
    with 1 show ?thesis by (subst show36.simps) (simp add: read36_def digit36)
  qed
qed

text \<open>The index of the avatar's colour is the hash itself, so the text form loses nothing.\<close>

lemma read_assetVersion: "read36 (assetVersion s) = unat (fnv s)"
proof -
  have "read36 (replicate k (CHR ''0'') @ t) = read36 t" for k t
    using foldl_read36 [of 0 k] by (simp add: read36_def)
  then show ?thesis by (simp add: assetVersion_def pad_start_def read_show36)
qed

end
