(* ===== verification/Tokens.thy ===== *)
theory Tokens
  imports Profile Keys Client_Auth
begin

text \<open>
  Tokens: minting and reading them (\<^verbatim>\<open>src/oauth/tokens.js\<close>), the token endpoint (\<^verbatim>\<open>src/endpoints/token.js\<close>) and the
  userinfo endpoint (\<^verbatim>\<open>src/endpoints/userinfo.js\<close>). The endpoints compose client resolution, client authentication, code redemption,
  the local identity check and the signer set.
\<close>

definition ACCESS_PURPOSE :: string where "ACCESS_PURPOSE = ''access''"

section \<open>Minting\<close>

text \<open>\<open>value?.includes(text)\<close>, on an array and on a string.\<close>

fun js_includes :: "json option \<Rightarrow> string \<Rightarrow> bool" where
  "js_includes (Some (JArr xs)) t \<longleftrightarrow> JStr t \<in> set xs"
| "js_includes (Some (JStr s)) t \<longleftrightarrow> sublist t s"
| "js_includes _ t \<longleftrightarrow> False"

definition leftHalfHash :: "platform \<Rightarrow> string \<Rightarrow> string" where
  "leftHalfHash pf value = (let digest = sha256 pf value in b64u (take (length digest div 2) digest))"

definition assign :: "json \<Rightarrow> (string \<times> json) list \<Rightarrow> json" where
  "assign target source = jputs target (map (\<lambda>(k, v). (k, Some v)) source)"

definition idTokenClaims :: "platform \<Rightarrow> config \<Rightarrow> json \<Rightarrow> string \<Rightarrow> string option \<Rightarrow> json option \<Rightarrow> int \<Rightarrow> json" where
  "idTokenClaims pf c grant audience accessToken nonce now =
     (let base = jobj
        [(''iss'', Some (JStr (c_issuer c))), (''sub'', jget grant ''sub''), (''aud'', Some (JStr audience)),
         (''iat'', Some (JNum now)), (''exp'', Some (JNum (now + tk_idTokenTtlSeconds (c_tokens c)))),
         (''auth_time'', jget grant ''auth_time''), (''acr'', jget grant ''acr''), (''amr'', jget grant ''amr''), (''sid'', jget grant ''sid'')];
          out1 = (if nonce \<noteq> None then jput base ''nonce'' nonce else base);
          out2 = (if js_includes (jget grant ''scope'') ''email''
                  then (let e = jput out1 ''email'' (jget grant ''email'')
                        in if jget grant ''email_verified'' = Some (JBool True) then jput e ''email_verified'' (Some (JBool True)) else e)
                  else out1);
          out3 = (if js_includes (jget grant ''scope'') ''profile'' \<and> truthy (jget grant ''claims'')
                  then assign out2 (outboundClaims c (jget grant ''claims'')) else out2)
      in if str_truthy accessToken then jput out3 ''at_hash'' (Some (JStr (leftHalfHash pf (the accessToken)))) else out3)"

definition signIdToken :: "platform \<Rightarrow> signer_set \<Rightarrow> json \<Rightarrow> string option \<Rightarrow> (failure, string) result" where
  "signIdToken pf st given requestedAlg =
     rbind (rescue (\<lambda>e. Inl (oauthError ''invalid_request'' e)) (select st requestedAlg)) (\<lambda>s.
     rbind (rescue (\<lambda>e. Inl (Unexpected e)) (signerKid pf s)) (\<lambda>kid.
     let hdr = jobj [(''typ'', Some (JStr ''JWT'')), (''kid'', map_option JStr kid)];
         input = signingInput pf (jput hdr ''alg'' (Some (JStr (sn_alg s)))) given
     in rbind (rescue (\<lambda>e. Inl (Unexpected e)) (sn_sign s (utf8 input))) (\<lambda>signature.
        Inr (signCompact pf (sn_alg s) (\<lambda>_. signature) hdr given))))"

definition access_payload :: "config \<Rightarrow> json \<Rightarrow> string \<Rightarrow> int \<Rightarrow> json" where
  "access_payload c grant jti now = jobj
     [(''v'', Some (JNum 1)), (''jti'', Some (JStr jti)), (''sub'', jget grant ''sub''), (''client_id'', jget grant ''client_id''),
      (''scope'', jget grant ''scope''), (''email'', jget grant ''email''),
      (''email_verified'', Some (JBool (jget grant ''email_verified'' = Some (JBool True)))), (''acr'', jget grant ''acr''),
      (''amr'', jget grant ''amr''), (''auth_time'', jget grant ''auth_time''), (''sid'', jget grant ''sid''), (''claims'', jget grant ''claims''),
      (''local_identity_id'', jget grant ''local_identity_id''), (''local_security_version'', jget grant ''local_security_version''),
      (''iat'', Some (JNum now)), (''exp'', Some (JNum (now + tk_accessTokenTtlSeconds (c_tokens c))))]"

definition issueAccessToken :: "platform \<Rightarrow> bytes \<Rightarrow> config \<Rightarrow> json \<Rightarrow> string \<Rightarrow> int \<Rightarrow> string" where
  "issueAccessToken pf iv c grant jti now = seal pf iv (current_secret c) ACCESS_PURPOSE (access_payload c grant jti now) None"

definition readAccessToken :: "platform \<Rightarrow> config \<Rightarrow> string \<Rightarrow> int \<Rightarrow> json option" where
  "readAccessToken pf c token now =
     (case unseal pf (c_secrets c) ACCESS_PURPOSE token now None of Inl _ \<Rightarrow> None | Inr grant \<Rightarrow> Some (legacy_verified grant))"

definition tokenResponse :: "string \<Rightarrow> string \<Rightarrow> int \<Rightarrow> string list \<Rightarrow> json" where
  "tokenResponse accessToken idToken expiresIn scope = jobj
     [(''access_token'', Some (JStr accessToken)), (''token_type'', Some (JStr ''Bearer'')), (''expires_in'', Some (JNum expiresIn)),
      (''id_token'', Some (JStr idToken)), (''scope'', Some (JStr (join '' '' scope)))]"

section \<open>The token endpoint\<close>

text \<open>What the handler reads of its context. \<open>te_validate\<close> is \<open>validateSession\<close> of the local identity store, when
  there is one; the identifier and the vector of the access token are drawn at random.\<close>

record 's token_env =
  te_pf :: platform
  te_web :: web
  te_verify :: verifier
  te_step :: "'s stepper"
  te_config :: config
  te_params :: "string \<Rightarrow> params"
  te_resolve :: "string \<Rightarrow> (failure, client option) result"
  te_validate :: "(json \<Rightarrow> (failure, bool) result) option"
  te_signers :: signer_set
  te_jti :: string
  te_iv :: bytes

definition unsupported_grant :: "string option \<Rightarrow> failure" where
  "unsupported_grant grantType = oauthError ''unsupported_grant_type''
     (if grantType = Some ''refresh_token''
      then ''Refresh tokens are not issued here. Re-run the authorization code flow; an existing session will usually answer it without any interaction.''
      else ''Only the authorization_code grant is supported.'')"

text \<open>The part before any state changes: the grant type, the credential and the client it names.\<close>

definition token_client :: "'s token_env \<Rightarrow> request \<Rightarrow> (failure, params \<times> creds \<times> string \<times> client) result" where
  "token_client env r =
     rbind (readForm (te_params env) r) (\<lambda>params.
     rbind (single params ''grant_type'') (\<lambda>grantType.
     if grantType \<noteq> Some ''authorization_code'' then Inl (unsupported_grant grantType)
     else rbind (readCredentials r params) (\<lambda>credentials.
       rbind (requireClientId credentials) (\<lambda>clientId.
       rbind (te_resolve env clientId) (\<lambda>found.
       (case found of None \<Rightarrow> Inl (invalidClient ''No client is registered with that client_id here.'')
        | Some client \<Rightarrow> Inr (params, credentials, clientId, client)))))))"

definition code_args :: "params \<Rightarrow> (failure, string \<times> string option \<times> string option) result" where
  "code_args params =
     rbind (single params ''code'') (\<lambda>code.
     if \<not> str_truthy code then Inl (invalidGrant ''The code parameter is missing.'')
     else rbind (single params ''redirect_uri'') (\<lambda>redirectUri.
          rbind (single params ''code_verifier'') (\<lambda>codeVerifier. Inr (the code, redirectUri, codeVerifier))))"

definition local_active :: "'s token_env \<Rightarrow> json \<Rightarrow> (failure, unit) result" where
  "local_active env grant =
     (if \<not> truthy (jget grant ''local_identity_id'') then Inr ()
      else (let gone = Inl (invalidGrant ''The local identity for this authorization code is no longer active.'')
            in case te_validate env of None \<Rightarrow> gone
               | Some validate \<Rightarrow>
                   rbind (validate (jobj [(''email'', jget grant ''email''), (''localIdentityId'', jget grant ''local_identity_id''),
                     (''localIdentityKey'', jget grant ''local_identity_key''), (''localSecurityVersion'', jget grant ''local_security_version'')]))
                   (\<lambda>current. if current then Inr () else gone)))"

text \<open>\<open>grant.scope || ['openid']\<close>, joined.\<close>

definition granted_scope :: "json \<Rightarrow> string list" where
  "granted_scope grant = (if truthy (jget grant ''scope'') then js_elements (jget grant ''scope'') else [''openid''])"

definition mint_tokens :: "'s token_env \<Rightarrow> string \<Rightarrow> json \<Rightarrow> int \<Rightarrow> (failure, response) result" where
  "mint_tokens env clientId grant now =
     (let c = te_config env; pf = te_pf env; accessToken = issueAccessToken pf (te_iv env) c grant (te_jti env) now;
          given = idTokenClaims pf c grant clientId (Some accessToken) (jget grant ''nonce'') now in
      rbind (signIdToken pf (te_signers env) given (as_str (jget grant ''id_token_alg''))) (\<lambda>idToken.
      Inr (json_response (tokenResponse accessToken idToken (tk_accessTokenTtlSeconds (c_tokens c)) (granted_scope grant)) 200 [])))"

definition handleToken ::
  "'s token_env \<Rightarrow> request \<Rightarrow> int \<Rightarrow> json cache \<times> 's option \<Rightarrow> (failure, response) result \<times> json cache \<times> 's option" where
  "handleToken env r clock st =
     (case token_client env r of Inl e \<Rightarrow> (Inl e, st)
      | Inr (params, credentials, clientId, client) \<Rightarrow>
          (case authenticateClient (te_web env) (te_pf env) (te_verify env) (te_step env) (te_config env) client credentials clock st of
             (Inl e, st1) \<Rightarrow> (Inl e, st1)
           | (Inr _, cache, store) \<Rightarrow>
               (case code_args params of Inl e \<Rightarrow> (Inl e, cache, store)
                | Inr (code, redirectUri, codeVerifier) \<Rightarrow>
                    (case redeemCode (te_pf env) (te_step env) (te_config env) code clientId redirectUri codeVerifier clock store of
                       (Inl e, store') \<Rightarrow> (Inl e, cache, store')
                     | (Inr grant, store') \<Rightarrow>
                         (case local_active env grant of Inl e \<Rightarrow> (Inl e, cache, store')
                          | Inr _ \<Rightarrow> (mint_tokens env clientId grant (nowSeconds clock), cache, store'))))))"

section \<open>The userinfo endpoint\<close>

definition unauthorised :: "config \<Rightarrow> string option \<Rightarrow> string \<Rightarrow> response" where
  "unauthorised c error description =
     (let challenge = join '', '' ([''Bearer realm=\"userinfo\"''] @
            (if str_truthy error then [''error=\"'' @ the error @ ''\"''] else []) @
            (if description \<noteq> [] then [''error_description=\"'' @ filter (\<lambda>ch. ch \<noteq> CHR 0x22) description @ ''\"''] else []) @
            [''resource_metadata=\"'' @ c_issuer c @ ''/.well-known/oauth-protected-resource'' @ ''\"''])
      in json_response (JObj [(''error'', JStr (or_str error ''invalid_token'')), (''error_description'', JStr description)])
           (if error = Some ''invalid_request'' then 400 else 401) [(''www-authenticate'', challenge)])"

definition presentedToken :: "(string \<Rightarrow> params) \<Rightarrow> request \<Rightarrow> (failure, string option) result" where
  "presentedToken parse_params r =
     (let hdr = or_str (header r ''authorization'') []
      in if starts_with (to_lower hdr) ''bearer '' then Inr (Some (trim (drop 7 hdr)))
         else if rq_method r = ''POST'' \<and> sublist ''application/x-www-form-urlencoded'' (to_lower (or_str (header r ''content-type'') []))
         then rbind (readForm parse_params r) (\<lambda>ps. single ps ''access_token'')
         else Inr None)"

definition userinfo_claims :: "config \<Rightarrow> json \<Rightarrow> json" where
  "userinfo_claims c grant =
     (let base = jobj [(''sub'', jget grant ''sub'')]; scope = jor (jget grant ''scope'') (Some (JArr []));
          out1 = (if js_includes scope ''email''
                  then (let e = jput base ''email'' (jget grant ''email'')
                        in if jget grant ''email_verified'' = Some (JBool True) then jput e ''email_verified'' (Some (JBool True)) else e)
                  else base);
          out2 = (if js_includes scope ''profile'' \<and> truthy (jget grant ''claims'')
                  then assign out1 (outboundClaims c (jget grant ''claims'')) else out1)
      in jputs out2 [(''acr'', jget grant ''acr''), (''amr'', jget grant ''amr''), (''auth_time'', jget grant ''auth_time'')])"

definition handleUserinfo :: "platform \<Rightarrow> (string \<Rightarrow> params) \<Rightarrow> config \<Rightarrow> request \<Rightarrow> int \<Rightarrow> (failure, response) result" where
  "handleUserinfo pf parse_params c r now =
     rbind (presentedToken parse_params r) (\<lambda>token.
     if \<not> str_truthy token then Inr (unauthorised c None ''Present an access token in the Authorization header.'')
     else (case readAccessToken pf c (the token) now of
             None \<Rightarrow> Inr (unauthorised c (Some ''invalid_token'') ''The access token is invalid or has expired.'')
           | Some grant \<Rightarrow> Inr (json_response (userinfo_claims c grant) 200 [])))"

section \<open>Facts\<close>

lemma is_obj_assign [simp]: "is_obj (assign t s) \<longleftrightarrow> is_obj t"
  by (simp add: assign_def)

text \<open>The names the protocol gives meaning to; no profile claim is among them.\<close>

definition protocol_claims :: "string list" where
  "protocol_claims = [''iss'', ''sub'', ''aud'', ''exp'', ''iat'', ''auth_time'', ''nonce'', ''acr'', ''amr'', ''sid'', ''email'', ''email_verified'', ''at_hash'']"

lemma outbound_keys: "k \<in> set protocol_claims \<Longrightarrow> k \<notin> fst ` set (outboundClaims c held)"
proof
  assume k: "k \<in> set protocol_claims" and "k \<in> fst ` set (outboundClaims c held)"
  then have "map_of (outboundClaims c held) k \<noteq> None" by (simp add: map_of_eq_None_iff)
  moreover have "k \<notin> set PROFILE_CLAIMS" "k \<noteq> ''urn:sag:name_inferred''"
    using k by (auto simp: protocol_claims_def PROFILE_CLAIMS_def)
  ultimately show False by (simp add: outboundClaims_lookup)
qed

lemma assign_protocol:
  "is_obj t \<Longrightarrow> k \<in> set protocol_claims \<Longrightarrow> jget (assign t (outboundClaims c held)) k = jget t k"
  unfolding assign_def using outbound_keys [of k c held]
  by (subst jget_jputs_other) (auto simp: image_iff)

lemma handleToken_Inr:
  assumes "handleToken env r clock (cache, store) = (Inr response, cache', store')"
  obtains params credentials clientId client how store1 code uri verifier grant where
    "token_client env r = Inr (params, credentials, clientId, client)"
    "authenticateClient (te_web env) (te_pf env) (te_verify env) (te_step env) (te_config env) client credentials clock (cache, store)
       = (Inr how, cache', store1)"
    "code_args params = Inr (code, uri, verifier)"
    "redeemCode (te_pf env) (te_step env) (te_config env) code clientId uri verifier clock store1 = (Inr grant, store')"
    "local_active env grant = Inr ()" "mint_tokens env clientId grant (nowSeconds clock) = Inr response"
proof -
  from assms obtain params credentials clientId client where
    tc: "token_client env r = Inr (params, credentials, clientId, client)"
    by (auto simp: handleToken_def split: sum.splits)
  obtain res cache1 store1 where
    au: "authenticateClient (te_web env) (te_pf env) (te_verify env) (te_step env) (te_config env) client credentials clock (cache, store) = (res, cache1, store1)"
    by (metis surj_pair)
  from assms tc au obtain how where how: "res = Inr how" by (auto simp: handleToken_def split: sum.splits)
  from assms tc au how obtain code uri verifier where ca: "code_args params = Inr (code, uri, verifier)"
    by (auto simp: handleToken_def split: sum.splits)
  obtain res2 store2 where rd: "redeemCode (te_pf env) (te_step env) (te_config env) code clientId uri verifier clock store1 = (res2, store2)"
    by (metis surj_pair)
  from assms tc au how ca rd obtain grant where "res2 = Inr grant" "store2 = store'" "cache1 = cache'" "local_active env grant = Inr ()"
    "mint_tokens env clientId grant (nowSeconds clock) = Inr response"
    by (auto simp: handleToken_def split: sum.splits)
  with tc au how ca rd that show ?thesis by blast
qed

text \<open>A token that the signer \<open>s\<close> made of the claims: its header names the algorithm and the key, and its last part is what the signer
  answered for the first two.\<close>

definition signed_by :: "platform \<Rightarrow> signer \<Rightarrow> json \<Rightarrow> string \<Rightarrow> bool" where
  "signed_by pf s given token \<longleftrightarrow>
     (\<exists>hdr kid signature. jget hdr ''alg'' = Some (JStr (sn_alg s)) \<and> signerKid pf s = Inr kid \<and> jget hdr ''kid'' = map_option JStr kid \<and>
        sn_sign s (utf8 (b64uJson pf hdr @ ''.'' @ b64uJson pf given)) = Inr signature \<and>
        token = b64uJson pf hdr @ ''.'' @ b64uJson pf given @ ''.'' @ b64u signature)"

lemma rescue_Inr: "rescue (\<lambda>e. Inl (f e)) r = Inr x \<Longrightarrow> r = Inr x"
  by (cases r) (simp_all add: rescue_def)

lemma signIdToken_Inr:
  assumes "signIdToken pf st given alg = Inr token"
  shows "\<exists>s. select st alg = Inr s \<and> signed_by pf s given token"
proof -
  from assms obtain s kid signature where r: "rescue (\<lambda>e. Inl (oauthError ''invalid_request'' e)) (select st alg) = Inr s"
      "rescue (\<lambda>e. Inl (Unexpected e)) (signerKid pf s) = Inr kid"
    and sg: "rescue (\<lambda>e. Inl (Unexpected e)) (sn_sign s (utf8 (signingInput pf
        (jput (jobj [(''typ'', Some (JStr ''JWT'')), (''kid'', map_option JStr kid)]) ''alg'' (Some (JStr (sn_alg s)))) given))) = Inr signature"
    and token: "token = signCompact pf (sn_alg s) (\<lambda>_. signature) (jobj [(''typ'', Some (JStr ''JWT'')), (''kid'', map_option JStr kid)]) given"
    unfolding signIdToken_def Let_def by (auto simp: rbind_Inr_iff)
  have "signed_by pf s given token"
    unfolding signed_by_def
    by (intro exI [of _ "jput (jobj [(''typ'', Some (JStr ''JWT'')), (''kid'', map_option JStr kid)]) ''alg'' (Some (JStr (sn_alg s)))"]
        exI [of _ kid] exI [of _ signature])
      (use rescue_Inr [OF r(2)] rescue_Inr [OF sg] token in \<open>simp add: signCompact_def signingInput_def jget_jput jget_jput_other\<close>)
  with rescue_Inr [OF r(1)] show ?thesis by blast
qed

lemma mint_tokens_Inr:
  assumes "mint_tokens env clientId grant now = Inr response"
  shows "\<exists>s token. select (te_signers env) (as_str (jget grant ''id_token_alg'')) = Inr s \<and>
    signed_by (te_pf env) s (idTokenClaims (te_pf env) (te_config env) grant clientId
          (Some (issueAccessToken (te_pf env) (te_iv env) (te_config env) grant (te_jti env) now)) (jget grant ''nonce'') now) token \<and>
    rs_body response = JsonBody (tokenResponse (issueAccessToken (te_pf env) (te_iv env) (te_config env) grant (te_jti env) now)
      token (tk_accessTokenTtlSeconds (c_tokens (te_config env))) (granted_scope grant))"
  using assms by (auto simp: mint_tokens_def Let_def json_response_def dest!: signIdToken_Inr)

lemma local_active_Inr:
  assumes "local_active env grant = Inr ()" "truthy (jget grant ''local_identity_id'')"
  shows "\<exists>validate ses. te_validate env = Some validate \<and> validate ses = Inr True \<and>
    jget ses ''localIdentityId'' = jget grant ''local_identity_id'' \<and> jget ses ''localSecurityVersion'' = jget grant ''local_security_version''"
proof (cases "te_validate env")
  case (Some validate)
  let ?ses = "jobj [(''email'', jget grant ''email''), (''localIdentityId'', jget grant ''local_identity_id''),
     (''localIdentityKey'', jget grant ''local_identity_key''), (''localSecurityVersion'', jget grant ''local_security_version'')]"
  have "validate ?ses = Inr True" using assms Some by (auto simp: local_active_def Let_def split: if_splits)
  then show ?thesis using Some by (intro exI [of _ validate] exI [of _ ?ses]) simp
qed (use assms in \<open>simp add: local_active_def Let_def\<close>)

lemma idTokenClaims_protocol:
  "jget (idTokenClaims pf c grant audience at nonce now) ''iss'' = Some (JStr (c_issuer c))"
  "jget (idTokenClaims pf c grant audience at nonce now) ''aud'' = Some (JStr audience)"
  "jget (idTokenClaims pf c grant audience at nonce now) ''sub'' = jget grant ''sub''"
  "jget (idTokenClaims pf c grant audience at nonce now) ''exp'' = Some (JNum (now + tk_idTokenTtlSeconds (c_tokens c)))"
  "jget (idTokenClaims pf c grant audience at nonce now) ''acr'' = jget grant ''acr''"
  "jget (idTokenClaims pf c grant audience at nonce now) ''auth_time'' = jget grant ''auth_time''"
  "jget (idTokenClaims pf c grant audience at nonce now) ''nonce'' = nonce"
  "jget (idTokenClaims pf c grant audience at nonce now) ''iat'' = Some (JNum now)"
  "jget (idTokenClaims pf c grant audience at nonce now) ''amr'' = jget grant ''amr''"
  "jget (idTokenClaims pf c grant audience at nonce now) ''sid'' = jget grant ''sid''"
  "jget (idTokenClaims pf c grant audience at nonce now) ''email_verified'' =
     (if js_includes (jget grant ''scope'') ''email'' \<and> jget grant ''email_verified'' = Some (JBool True) then Some (JBool True) else None)"
  "jget (idTokenClaims pf c grant audience at nonce now) ''email'' =
     (if js_includes (jget grant ''scope'') ''email'' then jget grant ''email'' else None)"
  by (simp_all add: idTokenClaims_def Let_def assign_protocol protocol_claims_def)

lemma legacy_verified_evidence:
  "jget (legacy_verified p) ''email_verified'' = Some (JBool True) \<longleftrightarrow>
     is_obj p \<and> jget p ''email_verified'' = None \<and> \<not> truthy (jget p ''local_identity_id'') \<or> jget p ''email_verified'' = Some (JBool True)"
  by (cases p) (auto simp: legacy_verified_def update_conv')

section \<open>One answer per code\<close>

lemma unseal_same:
  assumes "unseal pf secrets purpose token now m = Inr p" "unseal pf secrets purpose token now' m' = Inr p'"
  shows "p = p'"
proof -
  have age: "check_age q n l = Inr q' \<Longrightarrow> q' = q" for q n l q' by (auto simp: check_age_def split: if_splits)
  have "try_secrets pf purpose iv aad ct now m ss = Inr p \<Longrightarrow> try_secrets pf purpose iv aad ct now' m' ss = Inr p' \<Longrightarrow> p = p'" for iv aad ct ss
    by (induction ss) (auto split: option.splits dest!: age)
  with assms show ?thesis by (auto simp: unseal_def split: list.splits if_splits sum.splits)
qed

text \<open>The same deployment on another state store.\<close>

definition on_store :: "'t stepper \<Rightarrow> 's token_env \<Rightarrow> 't token_env" where
  "on_store step env = \<lparr>te_pf = te_pf env, te_web = te_web env, te_verify = te_verify env, te_step = step, te_config = te_config env,
     te_params = te_params env, te_resolve = te_resolve env, te_validate = te_validate env, te_signers = te_signers env,
     te_jti = te_jti env, te_iv = te_iv env\<rparr>"

definition request_code :: "'s token_env \<Rightarrow> request \<Rightarrow> string option" where
  "request_code env r =
     (case token_client env r of Inl _ \<Rightarrow> None
      | Inr (params, _) \<Rightarrow> (case code_args params of Inl _ \<Rightarrow> None | Inr (code, _) \<Rightarrow> Some code))"

lemma on_store_simps [simp]:
  "te_pf (on_store step env) = te_pf env" "te_config (on_store step env) = te_config env" "te_step (on_store step env) = step"
  "request_code (on_store step env) r = request_code env r"
  by (simp_all add: on_store_def request_code_def token_client_def cong: if_cong)

context claim_store
begin

lemma run_append: "snd (run s (xs @ ys)) = snd (run (snd (run s xs)) ys)"
  by (induction xs arbitrary: s) (auto simp: split_beta Let_def)

lemma authenticateClient_store:
  assumes "authenticateClient w pf v step c client cr clock (cache, Some s) = (Inr how, cache', store')"
  shows "\<exists>ops. store' = Some (snd (run s ops)) \<and> (\<forall>u op. (u, op) \<in> set ops \<longrightarrow> u = clock \<and> \<not> counts op)"
proof (cases "store' = Some s")
  case True
  then have "store' = Some (snd (run s []))" by simp
  then show ?thesis by (metis empty_iff empty_set)
next
  case False
  with assms obtain p where "verifyPrivateKeyJwt w pf v step c client (cd_assertion cr) clock (cache, Some s) = (Inr p, cache', store')"
    by (auto simp: authenticateClient_def Let_def split: if_splits sum.splits prod.splits)
  then have "claim_assertion step pf c client p clock (Some s) = (Inr p, store')" by (rule verifyPrivateKeyJwt_Inr)
  then obtain s' key ttl where "store' = Some s'" "step s clock (Claim key ttl) = (Fresh True, s')" by (rule claim_assertion_Some)
  then have "store' = Some (snd (run s [(clock, Claim key ttl)]))" by simp
  then show ?thesis by (intro exI [of _ "[(clock, Claim key ttl)]"]) simp
qed

lemma handleToken_redeems:
  assumes "handleToken env r clock (cache, Some s) = (Inr response, st')" "te_step env = step" "request_code env r = Some code"
  obtains ops clientId uri verifier grant store' where
    "\<forall>u op. (u, op) \<in> set ops \<longrightarrow> u = clock \<and> \<not> counts op"
    "redeemCode (te_pf env) step (te_config env) code clientId uri verifier clock (Some (snd (run s ops))) = (Inr grant, store')"
    "snd st' = store'"
proof -
  obtain cache' store' where st': "st' = (cache', store')" by (cases st')
  from assms(1) [unfolded st'] show ?thesis
  proof (rule handleToken_Inr)
    fix params credentials clientId client how store1 code' uri verifier grant
    assume tc: "token_client env r = Inr (params, credentials, clientId, client)" and ca: "code_args params = Inr (code', uri, verifier)"
      and au: "authenticateClient (te_web env) (te_pf env) (te_verify env) (te_step env) (te_config env) client credentials clock (cache, Some s)
        = (Inr how, cache', store1)"
      and rd: "redeemCode (te_pf env) (te_step env) (te_config env) code' clientId uri verifier clock store1 = (Inr grant, store')"
    from authenticateClient_store [OF au [unfolded assms(2)]] obtain ops where
      ops: "store1 = Some (snd (run s ops))" "\<forall>u op. (u, op) \<in> set ops \<longrightarrow> u = clock \<and> \<not> counts op" by blast
    have "code' = code" using assms(3) tc ca by (simp add: request_code_def)
    then show thesis using rd ops assms(2) st' by (intro that [of ops clientId uri verifier grant store']) auto
  qed
qed

lemma tokens_once:
  assumes first: "handleToken env r now (cache, Some s) = (Inr response, cache', Some s')"
    and steps: "te_step env = step" "te_step env' = step"
    and same: "te_pf env' = te_pf env" "te_config env' = te_config env"
    and code: "request_code env r = Some code" "request_code env' r' = Some code"
    and opens: "unseal (te_pf env) (c_secrets (te_config env)) CODE_PURPOSE code (nowSeconds now) None = Inr p"
    and e: "as_num (jget p ''exp'') = Some e" "e - nowSeconds now \<le> 366 * 86400 - 60"
    and now: "0 < now" "now \<le> t"
    and ops: "\<And>u op. (u, op) \<in> set ops \<Longrightarrow> 0 < u \<and> u \<le> t \<and> \<not> (counts op \<and> op_key op = code_key p)"
  shows "fst (handleToken env' r' t (cache2, Some (snd (run s' ops)))) \<noteq> Inr response'"
proof
  let ?pf = "te_pf env" and ?c = "te_config env"
  from first steps(1) code(1) obtain ops1 clientId uri verifier grant where
    "redeemCode ?pf step ?c code clientId uri verifier now (Some (snd (run s ops1))) = (Inr grant, Some s')"
    by (elim handleToken_redeems) auto
  note r1 = this
  then obtain p1 where p1: "unseal ?pf (c_secrets ?c) CODE_PURPOSE code (nowSeconds now) None = Inr p1" "grant = legacy_verified p1"
    by (elim redeemCode_Inr)
  with opens have pp: "grant = legacy_verified p" by simp
  assume "fst (handleToken env' r' t (cache2, Some (snd (run s' ops)))) = Inr response'"
  then obtain st2 where "handleToken env' r' t (cache2, Some (snd (run s' ops))) = (Inr response', st2)" by (metis prod.collapse)
  then obtain ops2 client2 uri2 verifier2 grant2 store2 where o2: "\<forall>u op. (u, op) \<in> set ops2 \<longrightarrow> u = t \<and> \<not> counts op"
    and r2: "redeemCode ?pf step ?c code client2 uri2 verifier2 t (Some (snd (run (snd (run s' ops)) ops2))) = (Inr grant2, store2)"
    using steps(2) code(2) same handleToken_redeems [where env = env' and r = r'] by metis
  have "fst (redeemCode ?pf step ?c code client2 uri2 verifier2 t (Some (snd (run s' (ops @ ops2))))) \<noteq> Inr grant2"
  proof (rule code_once [OF r1])
    show "as_num (jget grant ''exp'') = Some e" using e(1) pp by (simp add: legacy_verified_field)
    show "0 < u \<and> u \<le> t \<and> \<not> (counts op \<and> op_key op = code_key grant)" if "(u, op) \<in> set (ops @ ops2)" for u op
      using that ops [of u op] o2 now pp by (auto simp: code_key_def legacy_verified_field)
    show "jget q ''jti'' = jget grant ''jti'' \<and> jget q ''exp'' = jget grant ''exp''"
      if "unseal ?pf (c_secrets ?c) CODE_PURPOSE code (nowSeconds t) None = Inr q" for q
      using unseal_same [OF opens that] pp by (simp add: legacy_verified_field)
  qed (use e now in auto)
  with r2 show False by (simp add: run_append)
qed

end

section \<open>A sample deployment\<close>

definition sample_signer :: signer where
  "sample_signer = \<lparr>sn_backend = ''local'', sn_alg = ''ES256'', sn_kid = Some ''k1'', sn_keyId = None, sn_sign = \<lambda>_. Inr [1, 2], sn_keys = Inr [],
     sn_ephemeral = False\<rparr>"

definition sample_form :: params where
  "sample_form = [(''grant_type'', ''authorization_code''), (''client_id'', ''app''), (''code'', sample_code),
     (''redirect_uri'', ''https://app.example/cb''), (''code_verifier'', sample_verifier)]"

definition sample_env :: "mem_store token_env" where
  "sample_env = \<lparr>te_pf = code_platform sample_payload, te_web = jwt_web, te_verify = \<lambda>_ _ _ _. Inr True, te_step = mem_step,
     te_config = sample_config, te_params = \<lambda>_. sample_form, te_resolve = sample_resolve, te_validate = None,
     te_signers = \<lparr>st_primary = sample_signer, st_primaryAlg = ''ES256'', st_skipped = [], st_signers = [(''ES256'', sample_signer)]\<rparr>,
     te_jti = ''at1'', te_iv = [9]\<rparr>"

definition form_request :: request where
  "form_request = \<lparr>rq_method = ''POST'', rq_headers = [(''content-type'', ''application/x-www-form-urlencoded'')], rq_chunks = Some []\<rparr>"

lemma sample_env_simps:
  "te_pf sample_env = code_platform sample_payload" "te_step sample_env = mem_step" "te_config sample_env = sample_config"
  by (simp_all add: sample_env_def)

lemma sample_env_resolve: "te_resolve sample_env = sample_resolve"
  by (simp add: sample_env_def)

lemma sample_code_nonempty: "sample_code \<noteq> []"
  by (simp add: sample_code_def issueCode_def seal_def Let_def coalesce_def CODE_PURPOSE_def)

lemma sample_form_simps:
  "single sample_form ''grant_type'' = Inr (Some ''authorization_code'')" "single sample_form ''client_id'' = Inr (Some ''app'')"
  "single sample_form ''code'' = Inr (Some sample_code)" "single sample_form ''redirect_uri'' = Inr (Some ''https://app.example/cb'')"
  "single sample_form ''code_verifier'' = Inr (Some sample_verifier)" "single sample_form ''client_secret'' = Inr None"
  "single sample_form ''client_assertion'' = Inr None"
  using sample_code_nonempty by (simp_all add: single_def getAll_def sample_form_def sample_verifier_def)

lemma sample_token_client:
  "token_client sample_env form_request =
     Inr (sample_form, \<lparr>cd_clientId = Some ''app'', cd_method = ''none'', cd_secret = None, cd_assertion = None\<rparr>, ''app'', sample_client)"
proof -
  have f: "readForm (te_params sample_env) form_request = Inr sample_form"
    by (simp add: readForm_def sample_env_def form_request_def header_def or_str_def readTextLimited_def declared_too_large_def
        MAX_FORM_BODY_BYTES_def Let_def) code_simp?
  show ?thesis
    unfolding token_client_def f
    by (simp add: sample_form_simps readCredentials_def form_request_def header_def or_str_def starts_with_def requireClientId_def str_truthy_def
        sample_env_def sample_resolve_def)
qed

lemma sample_code_args: "code_args sample_form = Inr (sample_code, Some ''https://app.example/cb'', Some sample_verifier)"
  using sample_code_nonempty by (simp add: code_args_def sample_form_simps str_truthy_def)

lemma sample_presented: "request_code sample_env form_request = Some sample_code"
  by (simp add: request_code_def sample_token_client sample_code_args)

lemma sample_answered:
  "\<exists>response cache' s'. handleToken sample_env form_request 110000 ([], Some (createMemoryStore 5)) = (Inr response, cache', Some s')"
proof -
  obtain st where st: "redeemCode (code_platform sample_payload) mem_step sample_config sample_code ''app'' (Some ''https://app.example/cb'')
     (Some sample_verifier) 110000 (Some (createMemoryStore 5)) = (Inr sample_payload, st)"
    using sample_redemption by (metis prod.collapse)
  then have "claim_code mem_step sample_payload 110000 (Some (createMemoryStore 5)) = (Inr sample_payload, st)" by (rule redeemCode_Inr)
  then obtain s' where s': "st = Some s'" by (rule claim_code_Some)
  have l: "local_active sample_env sample_payload = Inr ()"
    by (simp add: local_active_def sample_payload_def code_payload_def sample_session_def newSession_def sample_args_def)
  have "\<exists>response. mint_tokens sample_env ''app'' sample_payload 110 = Inr response"
    by (simp add: mint_tokens_def Let_def signIdToken_def select_def signerKid_def sample_env_def sample_signer_def str_truthy_def
        sample_payload_def code_payload_def sample_tx_def)
  moreover have "authenticateClient (te_web sample_env) (te_pf sample_env) (te_verify sample_env) (te_step sample_env) (te_config sample_env) sample_client
      \<lparr>cd_clientId = Some ''app'', cd_method = ''none'', cd_secret = None, cd_assertion = None\<rparr> 110000 ([], Some (createMemoryStore 5))
      = (Inr ''none'', [], Some (createMemoryStore 5))"
    by (simp add: authenticateClient_def sample_client_def)
  ultimately show ?thesis
    using st s' l by (auto simp: handleToken_def sample_token_client sample_code_args sample_env_simps nowSeconds_def)
qed

section \<open>Properties\<close>

text \<open>C3: the token endpoint answers an authorisation code at most once. After one successful answer to a
  request that presented a code, and after any further store operations, every later request that presents the
  same code is refused, whatever client it authenticates as, and whatever redirect URI and verifier it
  sends. This holds with the in-memory store and with the Durable Objects.\<close>

theorem token_endpoint_once:
  assumes "te_pf env' = te_pf env" "te_config env' = te_config env"
    and "request_code env r = Some code" "request_code env' r' = Some code"
    and "unseal (te_pf env) (c_secrets (te_config env)) CODE_PURPOSE code (nowSeconds now) None = Inr p"
    and "as_num (jget p ''exp'') = Some e" "e - nowSeconds now \<le> 366 * 86400 - 60" "0 < now" "now \<le> t"
    and "list_all (\<lambda>(u, op). 0 < u \<and> u \<le> t \<and> \<not> (counts op \<and> op_key op = code_key p)) ops"
  shows "(handleToken (on_store mem_step env) r now (cache, Some m) = (Inr response, cache', Some m') \<longrightarrow>
      fst (handleToken (on_store mem_step env') r' t (cache2, Some (snd (mem.run m' ops)))) \<noteq> Inr response') \<and>
    (handleToken (on_store do_step env) r now (cache, Some d) = (Inr response, cache', Some d') \<longrightarrow>
      fst (handleToken (on_store do_step env') r' t (cache2, Some (snd (durable.run d' ops)))) \<noteq> Inr response')"
proof -
  have ops: "0 < u \<and> u \<le> t \<and> \<not> (counts op \<and> op_key op = code_key p)" if "(u, op) \<in> set ops" for u op
    using assms(10) that by (auto simp: list_all_iff)
  note facts = assms(1-9)
  show ?thesis
  proof (intro conjI impI)
    assume "handleToken (on_store mem_step env) r now (cache, Some m) = (Inr response, cache', Some m')"
    then show "fst (handleToken (on_store mem_step env') r' t (cache2, Some (snd (mem.run m' ops)))) \<noteq> Inr response'"
      by (rule mem.tokens_once [where p = p]) (use facts ops in auto)
  next
    assume "handleToken (on_store do_step env) r now (cache, Some d) = (Inr response, cache', Some d')"
    then show "fst (handleToken (on_store do_step env') r' t (cache2, Some (snd (durable.run d' ops)))) \<noteq> Inr response'"
      by (rule durable.tokens_once [where p = p]) (use facts ops in auto)
  qed
qed

theorem token_endpoint_once_witness:
  "fst (handleToken sample_env form_request 120000 ([], snd (snd (handleToken sample_env form_request 110000 ([], Some (createMemoryStore 5))))))
   \<noteq> Inr (text_response ''ok'' 200 [])"
proof -
  obtain response cache' s' where h: "handleToken sample_env form_request 110000 ([], Some (createMemoryStore 5)) = (Inr response, cache', Some s')"
    using sample_answered by blast
  have o: "unseal (te_pf sample_env) (c_secrets (te_config sample_env)) CODE_PURPOSE sample_code (nowSeconds 110000) None = Inr sample_payload"
    using opens_issued [OF sample_code_facts(1) sample_code_facts(2) [of sample_payload, unfolded sample_payload_def] sample_config_secret,
        of "[1, 2, 3]" "nowSeconds 110000", folded sample_payload_def]
    by (simp add: sample_env_def sample_code_def sample_payload_def nowSeconds_def sample_config_def)
  have e: "as_num (jget sample_payload ''exp'') = Some 160"
    by (simp add: sample_payload_def code_payload_def sample_config_def)
  have same: "on_store mem_step sample_env = sample_env" by (simp add: on_store_def sample_env_def)
  show ?thesis
    using token_endpoint_once [OF refl refl sample_presented sample_presented o e, of 120000 "[]" "[]" "createMemoryStore 5" response cache' s' "[]"
        "text_response ''ok'' 200 []"] h
    by (simp add: nowSeconds_def same)
qed

text \<open>C4: what a token says is what was granted. Whenever the token endpoint answers, the presented code opened to
  a grant of the very client that was resolved and authenticated; the id token names the key and carries the signature of the signer
  selected for the algorithm the grant asks for, is addressed to that client, is limited to its lifetime, and carries the subject,
  nonce, context, methods, session and time of authentication of the grant, which no profile claim can override; the address is the
  grant's, told only when its scope holds \<^verbatim>\<open>email\<close>, and called verified exactly on the evidence of the grant; and
  a grant of a local account was checked against the account's current record.\<close>

theorem id_token_bound:
  assumes "handleToken env r clock (cache, store) = (Inr response, cache', store')"
  shows "\<exists>clientId client code p given s token at.
    te_resolve env clientId = Inr (Some client) \<and> request_code env r = Some code \<and>
    unseal (te_pf env) (c_secrets (te_config env)) CODE_PURPOSE code (nowSeconds clock) None = Inr p \<and>
    jget p ''client_id'' = Some (JStr clientId) \<and>
    jget given ''iss'' = Some (JStr (c_issuer (te_config env))) \<and> jget given ''aud'' = Some (JStr clientId) \<and>
    jget given ''iat'' = Some (JNum (nowSeconds clock)) \<and>
    jget given ''exp'' = Some (JNum (nowSeconds clock + tk_idTokenTtlSeconds (c_tokens (te_config env)))) \<and>
    (\<forall>k. k \<in> {''sub'', ''nonce'', ''acr'', ''amr'', ''sid'', ''auth_time''} \<longrightarrow> jget given k = jget p k) \<and>
    jget given ''email'' = (if js_includes (jget p ''scope'') ''email'' then jget p ''email'' else None) \<and>
    jget given ''email_verified'' =
      (if js_includes (jget p ''scope'') ''email'' \<and> (jget p ''email_verified'' = Some (JBool True) \<or>
          jget p ''email_verified'' = None \<and> \<not> truthy (jget p ''local_identity_id'')) then Some (JBool True) else None) \<and>
    (truthy (jget p ''local_identity_id'') \<longrightarrow> (\<exists>validate ses. te_validate env = Some validate \<and> validate ses = Inr True \<and>
       jget ses ''localIdentityId'' = jget p ''local_identity_id'' \<and> jget ses ''localSecurityVersion'' = jget p ''local_security_version'')) \<and>
    select (te_signers env) (as_str (jget p ''id_token_alg'')) = Inr s \<and> signed_by (te_pf env) s given token \<and>
    rs_body response = JsonBody (tokenResponse at token (tk_accessTokenTtlSeconds (c_tokens (te_config env))) (granted_scope p))"
proof -
  from assms obtain params credentials clientId client how store1 code uri verifier grant where
    tc: "token_client env r = Inr (params, credentials, clientId, client)" and ca: "code_args params = Inr (code, uri, verifier)"
    and rd: "redeemCode (te_pf env) (te_step env) (te_config env) code clientId uri verifier clock store1 = (Inr grant, store')"
    and la: "local_active env grant = Inr ()" and mint: "mint_tokens env clientId grant (nowSeconds clock) = Inr response"
    by (rule handleToken_Inr)
  from rd obtain p where p: "unseal (te_pf env) (c_secrets (te_config env)) CODE_PURPOSE code (nowSeconds clock) None = Inr p"
    "grant = legacy_verified p" "jget grant ''client_id'' = Some (JStr clientId)" by (rule redeemCode_Inr)
  have f: "jget grant k = jget p k" if "k \<noteq> ''email_verified''" for k using that p(2) by (simp add: legacy_verified_field)
  define at where "at = issueAccessToken (te_pf env) (te_iv env) (te_config env) grant (te_jti env) (nowSeconds clock)"
  define given where "given = idTokenClaims (te_pf env) (te_config env) grant clientId (Some at) (jget grant ''nonce'') (nowSeconds clock)"
  from mint obtain s token where s: "select (te_signers env) (as_str (jget grant ''id_token_alg'')) = Inr s"
    "signed_by (te_pf env) s given token"
    "rs_body response = JsonBody (tokenResponse at token (tk_accessTokenTtlSeconds (c_tokens (te_config env))) (granted_scope grant))"
    using mint_tokens_Inr [OF mint] unfolding at_def given_def by blast
  have ev: "jget given ''email_verified'' =
      (if js_includes (jget p ''scope'') ''email'' \<and> (jget p ''email_verified'' = Some (JBool True) \<or>
          jget p ''email_verified'' = None \<and> \<not> truthy (jget p ''local_identity_id'')) then Some (JBool True) else None)"
  proof -
    have "jget p ''client_id'' = Some (JStr clientId)" using p(3) f by simp
    then have "is_obj p" using is_obj_jget [of p "''client_id''"] by simp
    then have "jget grant ''email_verified'' = Some (JBool True) \<longleftrightarrow> jget p ''email_verified'' = Some (JBool True) \<or>
          jget p ''email_verified'' = None \<and> \<not> truthy (jget p ''local_identity_id'')"
      using legacy_verified_evidence [of p] p(2) by auto
    with f [of "''scope''"] show ?thesis unfolding given_def idTokenClaims_protocol by simp
  qed
  have lo: "\<exists>validate ses. te_validate env = Some validate \<and> validate ses = Inr True \<and>
       jget ses ''localIdentityId'' = jget p ''local_identity_id'' \<and> jget ses ''localSecurityVersion'' = jget p ''local_security_version''"
    if "truthy (jget p ''local_identity_id'')"
    using local_active_Inr [OF la] that f by simp
  have res: "te_resolve env clientId = Inr (Some client)"
    using tc by (auto simp: token_client_def split: if_splits option.splits)
  have pc: "request_code env r = Some code" using tc ca by (simp add: request_code_def)
  have cl: "jget p ''client_id'' = Some (JStr clientId)" using p(3) f by simp
  have gs: "granted_scope grant = granted_scope p" using f by (simp add: granted_scope_def)
  have id: "jget given ''iss'' = Some (JStr (c_issuer (te_config env)))" "jget given ''aud'' = Some (JStr clientId)"
    "jget given ''iat'' = Some (JNum (nowSeconds clock))"
    "jget given ''exp'' = Some (JNum (nowSeconds clock + tk_idTokenTtlSeconds (c_tokens (te_config env))))"
    "\<forall>k. k \<in> {''sub'', ''nonce'', ''acr'', ''amr'', ''sid'', ''auth_time''} \<longrightarrow> jget given k = jget p k"
    "jget given ''email'' = (if js_includes (jget p ''scope'') ''email'' then jget p ''email'' else None)"
    using f by (auto simp: given_def idTokenClaims_protocol)
  have sel: "select (te_signers env) (as_str (jget p ''id_token_alg'')) = Inr s" using s(1) f by simp
  show ?thesis
    by (intro exI [of _ clientId] exI [of _ client] exI [of _ code] exI [of _ p] exI [of _ given] exI [of _ s] exI [of _ token]
        exI [of _ at] conjI) (rule res pc p(1) cl id ev sel s(2) s(3) [unfolded gs] | (rule impI, erule lo) | assumption)+
qed

theorem id_token_bound_witness:
  "\<exists>client p. sample_resolve ''app'' = Inr (Some client) \<and>
     unseal (code_platform sample_payload) (c_secrets sample_config) CODE_PURPOSE sample_code 110 None = Inr p \<and>
     jget p ''client_id'' = Some (JStr ''app'')"
proof -
  obtain response cache' s' where h: "handleToken sample_env form_request 110000 ([], Some (createMemoryStore 5)) = (Inr response, cache', Some s')"
    using sample_answered by blast
  have resolve: "sample_resolve cid = Inr (Some client) \<Longrightarrow> cid = ''app''" for cid client
    by (auto simp: sample_resolve_def split: if_splits)
  show ?thesis
    using id_token_bound [OF h] resolve
    by (auto simp: sample_presented sample_env_simps nowSeconds_def sample_env_resolve)
qed

end
