(* ===== verification/Discovery.thy ===== *)
theory Discovery
  imports Peers Tokens Acr
begin

text \<open>
  Discovery documents and key publication (\<^verbatim>\<open>src/endpoints/discovery.js\<close>) and the health report
  (\<^verbatim>\<open>src/endpoints/health.js\<close>). Every document is a function of the configuration, the signer set and the peers.
\<close>

definition CORE_CLAIMS :: "string list" where
  "CORE_CLAIMS = [''iss'', ''sub'', ''aud'', ''exp'', ''iat'', ''auth_time'', ''nonce'', ''acr'', ''amr'', ''sid'']"

definition local_on :: "config \<Rightarrow> bool" where
  "local_on c \<longleftrightarrow> li_backend (c_localIdentities c) \<noteq> [] \<and> li_backend (c_localIdentities c) \<noteq> ''none''"

definition acrValuesFor :: "config \<Rightarrow> string list" where
  "acrValuesFor c =
     (let values = (if otp_enabled (c_otp c) then [ACR_OTP] else []) @
            (if local_on c then [ACR_LOCAL_PASSWORD, ACR_LOCAL_MFA] else []) @
            (if c_upstreams c \<noteq> [] then [ACR_FEDERATED, ACR_FEDERATED_MFA] else [])
      in if ACR_LOCAL_MFA \<in> set values \<or> ACR_FEDERATED_MFA \<in> set values then values @ [ACR_MFA] else values)"

definition subjectTypesFor :: "config \<Rightarrow> string list" where
  "subjectTypesFor c =
     js_uniq ([c_subjectType c] @ List.map_filter (\<lambda>cl. if str_truthy (cl_subjectType cl) then cl_subjectType cl else None) (cc_static (c_clients c)) @
       (if cc_storeBackend (c_clients c) \<noteq> ''none'' \<or> cm_enabled (cc_cimd (c_clients c)) then [''pairwise'', ''public''] else []))"

definition promptValuesFor :: "config \<Rightarrow> string list" where
  "promptValuesFor c = [''none'', ''login'', ''select_account''] @ (if ss_promptConsentMode (c_session c) \<noteq> ''off'' then [''consent''] else [])"

definition scopesFor :: "string list \<Rightarrow> string list" where
  "scopesFor profileClaims = [''openid'', ''email''] @ (if profileClaims \<noteq> [] then [''profile''] else [])"

section \<open>Documents\<close>

definition commonMetadata :: "config \<Rightarrow> signer_set \<Rightarrow> (string \<times> json option) list" where
  "commonMetadata c st =
     (let capab = clientCapabilities c; at = (\<lambda>p. Some (JStr (c_issuer c @ p))) in
      [(''issuer'', Some (JStr (c_issuer c))),
       (''authorization_endpoint'', at ''/authorize''),
       (''token_endpoint'', at ''/token''),
       (''jwks_uri'', at ''/.well-known/jwks.json''),
       (''scopes_supported'', Some (jstrs (scopesFor (reachableProfileClaims c)))),
       (''response_types_supported'', Some (jstrs [''code''])),
       (''response_modes_supported'', Some (jstrs [''query'', ''form_post''])),
       (''grant_types_supported'', Some (jstrs [''authorization_code''])),
       (''id_token_signing_alg_values_supported'', Some (jstrs (algs st))),
       (''token_endpoint_auth_methods_supported'', Some (jstrs (cap_authMethods capab))),
       (''code_challenge_methods_supported'', Some (jstrs [''S256''])),
       (''acr_values_supported'', Some (jstrs (acrValuesFor c))),
       (''ui_locales_supported'', Some (jstrs [ui_locale (c_ui c)])),
       (''authorization_response_iss_parameter_supported'', Some (JBool True)),
       (''token_endpoint_auth_signing_alg_values_supported'',
          if ''private_key_jwt'' \<in> set (cap_authMethods capab) then Some (jstrs PRIVATE_KEY_JWT_ALGS) else None),
       (''op_tos_uri'', if str_truthy (ui_termsUrl (c_ui c)) then map_option JStr (ui_termsUrl (c_ui c)) else None),
       (''op_policy_uri'', if str_truthy (ui_privacyUrl (c_ui c)) then map_option JStr (ui_privacyUrl (c_ui c)) else None),
       (''urn:sag:require_pkce'', Some (JBool True)),
       (''urn:sag:post_quantum_signing_supported'', Some (JBool (postQuantumAlgs st \<noteq> []))),
       (''urn:sag:post_quantum_algs'', Some (jstrs (postQuantumAlgs st))),
       (''urn:sag:client_registration'', Some (JObj [(''cimd'', JBool (cap_cimd capab)), (''static'', JBool (cap_static capab > 0)),
          (''store'', JStr (cap_store capab))]))])"

definition openidConfiguration :: "config \<Rightarrow> signer_set \<Rightarrow> json" where
  "openidConfiguration c st =
     (let profileClaims = reachableProfileClaims c; at = (\<lambda>p. Some (JStr (c_issuer c @ p))) in
      jobj (commonMetadata c st @
       [(''userinfo_endpoint'', at ''/userinfo''),
        (''end_session_endpoint'', at ''/logout''),
        (''subject_types_supported'', Some (jstrs (subjectTypesFor c))),
        (''claims_supported'', Some (jstrs (CORE_CLAIMS @ [''email'', ''email_verified''] @ profileClaims))),
        (''claim_types_supported'', Some (jstrs [''normal''])),
        (''claims_parameter_supported'', Some (JBool False)),
        (''request_parameter_supported'', Some (JBool False)),
        (''request_uri_parameter_supported'', Some (JBool False)),
        (''prompt_values_supported'', Some (jstrs (promptValuesFor c))),
        (''display_values_supported'', Some (jstrs [''page''])),
        (''frontchannel_logout_supported'', Some (JBool False)),
        (''backchannel_logout_supported'', Some (JBool False))]))"

definition authorizationServerMetadata :: "config \<Rightarrow> signer_set \<Rightarrow> json" where
  "authorizationServerMetadata c st = jobj (commonMetadata c st @
     [(''require_pushed_authorization_requests'', Some (JBool False)),
      (''urn:sag:protected_resources'', Some (jstrs [c_issuer c @ ''/userinfo'']))])"

definition protectedResourceMetadata :: "config \<Rightarrow> json" where
  "protectedResourceMetadata c = JObj
     [(''resource'', JStr (c_issuer c @ ''/userinfo'')), (''authorization_servers'', jstrs [c_issuer c]),
      (''scopes_supported'', jstrs (scopesFor (reachableProfileClaims c))), (''bearer_methods_supported'', jstrs [''header'', ''body'']),
      (''resource_signing_alg_values_supported'', JArr [])]"

definition handleDiscovery :: "config \<Rightarrow> signer_set \<Rightarrow> response" where
  "handleDiscovery c st = cachedJson (openidConfiguration c st) 300 []"

definition handleAuthorizationServerMetadata :: "config \<Rightarrow> signer_set \<Rightarrow> response" where
  "handleAuthorizationServerMetadata c st = cachedJson (authorizationServerMetadata c st) 300 []"

definition handleProtectedResourceMetadata :: "config \<Rightarrow> response" where
  "handleProtectedResourceMetadata c = cachedJson (protectedResourceMetadata c) 300 []"

section \<open>Keys\<close>

definition JWKS_MAX_AGE :: int where "JWKS_MAX_AGE = 300"

definition degradedJwksMaxAge :: "config \<Rightarrow> int" where
  "degradedJwksMaxAge c = min JWKS_MAX_AGE (max 10 (pj_retryAfterSeconds (c_peerJwks c)))"

definition keys_document :: "json list \<Rightarrow> json" where
  "keys_document ks = JObj [(''keys'', JArr ks)]"

text \<open>\<open>createPeerJwks\<close> returns nothing when no peer is configured.\<close>

definition handleJwks ::
  "platform \<Rightarrow> 'c cache_ops \<Rightarrow> web \<Rightarrow> config \<Rightarrow> signer_set \<Rightarrow> params \<Rightarrow> int \<Rightarrow> 'c peer_state \<Rightarrow> (string, response) result \<times> 'c peer_state" where
  "handleJwks pf ops w c st query now ps =
     (case set_jwks pf st of Inl e \<Rightarrow> (Inl e, ps)
      | Inr own \<Rightarrow>
          if isPeerFetch query then (Inr (json_response (keys_document own) 200 []), ps)
          else if pj_urls (c_peerJwks c) = [] then (Inr (cachedJson (keys_document own) (nat JWKS_MAX_AGE) []), ps)
          else (let ((peerKeys, incomplete), ps') = collect ops w (c_peerJwks c) now ps
                in (Inr (cachedJson (keys_document (mergeJwks pf own peerKeys))
                          (nat (if incomplete then degradedJwksMaxAge c else JWKS_MAX_AGE)) []), ps')))"

section \<open>Health\<close>

definition VERSION :: string where "VERSION = ''0.3.1''"

definition provider_counts :: "config \<Rightarrow> (string \<times> json) list" where
  "provider_counts c =
     (let names = sort (js_uniq (map up_provider (c_upstreams c)))
      in map (\<lambda>p. (p, JNum (int (length (filter (\<lambda>u. up_provider u = p) (c_upstreams c)))))) names)"

definition health_warnings :: "config \<Rightarrow> signer_set \<Rightarrow> string list" where
  "health_warnings c st =
     (if sn_ephemeral (st_primary st) then [''The signing key is ephemeral and will change when this instance restarts.''] else []) @
     (if c_devMode c then [''Running in development mode.''] else []) @ c_warnings c"

definition handleHealth :: "'c cache_ops \<Rightarrow> (string \<Rightarrow> bool) \<Rightarrow> config \<Rightarrow> signer_set \<Rightarrow> int \<Rightarrow> 'c peer_state \<Rightarrow> response" where
  "handleHealth ops generates c st now ps =
     (let (supported, unsupported, pq) = cryptoReport generates [''ES256'', ''ML-DSA-44'', ''ML-DSA-65'', ''ML-DSA-87''] in
      json_response (jobj
        [(''status'', Some (JStr ''ok'')), (''version'', Some (JStr VERSION)), (''issuer'', Some (JStr (c_issuer c))),
         (''signing'', Some (set_describe st)),
         (''warnings'', Some (jstrs (health_warnings c st))),
         (''routes'', Some (JObj [(''upstreams'', JObj (provider_counts c)),
            (''otp'', if otp_enabled (c_otp c) then JStr (em_provider (c_email c)) else JBool False),
            (''local'', JBool (li_backend (c_localIdentities c) \<noteq> ''none''))])),
         (''clients'', Some (JObj [(''static'', JNum (int (length (cc_static (c_clients c))))), (''cimd'', JBool (cm_enabled (cc_cimd (c_clients c)))),
            (''store'', JStr (cc_storeBackend (c_clients c)))])),
         (''peer_jwks'', Some (if pj_urls (c_peerJwks c) = [] then JBool False
            else JObj [(''backend'', JStr (pj_cacheBackend (c_peerJwks c))), (''peers'', peer_describe ops (c_peerJwks c) now ps)])),
         (''crypto'', if c_devMode c then Some (JObj [(''supported'', jstrs supported), (''unsupported'', jstrs unsupported),
            (''postQuantumSignatures'', JBool pq)]) else None)]) 200 [])"

section \<open>Facts\<close>

text \<open>The contexts the configured routes can establish.\<close>

definition contexts :: "config \<Rightarrow> string set" where
  "contexts c = (if otp_enabled (c_otp c) then {ctx_acr acrForOtp} else {}) \<union>
     (if local_on c then {ctx_acr (acrForLocal None), ctx_acr (acrForLocal (Some ''totp''))} else {}) \<union>
     (if c_upstreams c \<noteq> [] then {ACR_FEDERATED, ACR_FEDERATED_MFA} else {})"

lemma acrValuesFor_reachable: "want \<in> set (acrValuesFor c) \<Longrightarrow> \<exists>held\<in>contexts c. satisfies held [want]"
  by (auto simp: acrValuesFor_def contexts_def Let_def satisfies_iff meets_def acrForOtp_def acrForLocal_def str_truthy_def split: if_splits)

lemma algs_selectable: "alg \<in> set (algs st) \<Longrightarrow> alg \<noteq> [] \<Longrightarrow> \<exists>s. select st (Some alg) = Inr s \<and> map_of (st_signers st) alg = Some s"
  by (auto simp: algs_def select_def str_truthy_def weak_map_of_SomeI split: option.splits)

lemma jget_commonMetadata:
  "jget (openidConfiguration c st) ''id_token_signing_alg_values_supported'' = Some (jstrs (algs st))"
  "jget (openidConfiguration c st) ''acr_values_supported'' = Some (jstrs (acrValuesFor c))"
  "jget (openidConfiguration c st) ''claims_supported'' = Some (jstrs (CORE_CLAIMS @ [''email'', ''email_verified''] @ reachableProfileClaims c))"
  "jget (openidConfiguration c st) ''issuer'' = Some (JStr (c_issuer c))"
  by (simp_all add: openidConfiguration_def commonMetadata_def Let_def)

lemma reachable_permitted: "k \<in> set (reachableProfileClaims c) \<Longrightarrow> k = ''urn:sag:name_inferred'' \<or> (k \<in> set PROFILE_CLAIMS \<and> permitted c k)"
  by (auto simp: reachableProfileClaims_def Let_def split: if_splits)

text \<open>What is published: this instance's own keys first and unchanged, every identity once, and nothing of a peer that is not
  a bare public key.\<close>

fun jwks_requests ::
  "platform \<Rightarrow> 'c cache_ops \<Rightarrow> config \<Rightarrow> signer_set \<Rightarrow> (int \<times> web \<times> params) list \<Rightarrow> 'c peer_state \<Rightarrow> 'c peer_state" where
  "jwks_requests pf ops c st [] ps = ps"
| "jwks_requests pf ops c st ((now, w, query) # rest) ps = jwks_requests pf ops c st rest (snd (handleJwks pf ops w c st query now ps))"

context peer_cache
begin

lemma handleJwks_keys:
  assumes "handleJwks pf ops w c st query now ps = (Inr r, ps')" "clean ps" "set_jwks pf st = Inr own"
    and "distinct (map (key_id pf) own)"
  shows "clean ps'" "\<exists>ks. rs_body r = JsonBody (keys_document ks) \<and> prefix own ks \<and> distinct (map (key_id pf) ks) \<and>
    (\<forall>k\<in>set ks. k \<in> set own \<or> usable_key k)"
proof -
  obtain lists st' where rs: "resolve_all ops w (c_peerJwks c) now (pj_urls (c_peerJwks c)) ps = (lists, st')" by force
  note cl = resolve_all_clean [OF assms(2), of w "c_peerJwks c" now "pj_urls (c_peerJwks c)", unfolded rs, simplified]
  note m = mergeJwks_facts [OF assms(4), of "concat lists"]
  have col: "collect ops w (c_peerJwks c) now ps = ((concat lists, list_ex (\<lambda>ks. ks = []) lists), st')"
    by (simp add: collect_def rs)
  show "clean ps'"
    using assms(1-3) cl by (auto simp: handleJwks_def col split: if_splits)
  have "\<forall>k\<in>set (mergeJwks pf own (concat lists)). k \<in> set own \<or> usable_key k"
    using m(4) cl by (auto simp: list_all_iff)
  then show "\<exists>ks. rs_body r = JsonBody (keys_document ks) \<and> prefix own ks \<and> distinct (map (key_id pf) ks) \<and>
    (\<forall>k\<in>set ks. k \<in> set own \<or> usable_key k)"
    using assms(1,3,4) m by (auto simp: handleJwks_def col json_response_def cachedJson_def split: if_splits)
qed

lemma handleJwks_clean:
  assumes "clean ps"
  shows "clean (snd (handleJwks pf ops w c st query now ps))"
  using resolve_all_clean [OF assms] assms
  by (auto simp: handleJwks_def collect_def Let_def split: sum.splits prod.splits) (metis snd_conv)+

lemma jwks_requests_clean: "clean ps \<Longrightarrow> clean (jwks_requests pf ops c st hist ps)"
  by (induction hist arbitrary: ps) (auto simp: handleJwks_clean)

end

section \<open>Properties\<close>

text \<open>The discovery document promises only what this instance can do. Every authentication context it advertises is met by a
  context that some configured route establishes, every signing algorithm it lists selects a signer, and every profile claim it lists may
  leave this deployment.\<close>

lemma discovery_promises:
  shows "(\<forall>want\<in>set (as_strs (jget (openidConfiguration c st) ''acr_values_supported'')). \<exists>held\<in>contexts c. satisfies held [want]) \<and>
    (\<forall>alg\<in>set (as_strs (jget (openidConfiguration c st) ''id_token_signing_alg_values_supported'')).
       alg = [] \<or> (\<exists>s. select st (Some alg) = Inr s)) \<and>
    (\<forall>k\<in>set (as_strs (jget (openidConfiguration c st) ''claims_supported'')).
       k \<in> set (CORE_CLAIMS @ [''email'', ''email_verified'', ''urn:sag:name_inferred'']) \<or> permitted c k)"
  using acrValuesFor_reachable algs_selectable reachable_permitted
  by (auto simp: jget_commonMetadata) blast+

text \<open>C16: the published key set. Whatever cache keeps what the peers answered, if it returns only what was written to it, then after any
  history of requests from an empty cache, whatever the peers answered, the document lists this instance's own keys first and
  unchanged, no two keys with one identity, and of the peers only objects with a key type and without the members \<^verbatim>\<open>d\<close> and
  \<^verbatim>\<open>k\<close>, which hold the private part of an elliptic-curve or RSA key and the value of a symmetric one. (The
  secret of an \<^verbatim>\<open>AKP\<close> key, \<^verbatim>\<open>priv\<close>, is not among them: \<open>Peers.akp_secret_taken\<close>.)\<close>

theorem published_keys_sound:
  assumes "peer_cache ops held" "\<And>url. held (ps_cache ps) url = None"
    and "set_jwks pf st = Inr own" "handleJwks pf ops w c st query now (jwks_requests pf ops c st hist ps) = (Inr r, ps')"
  shows "\<exists>ks. rs_body r = JsonBody (keys_document ks) \<and> prefix own ks \<and> distinct (map (key_id pf) ks) \<and>
    (\<forall>k\<in>set ks. k \<in> set own \<or> (jget k ''kty'' \<noteq> None \<and> jget k ''d'' = None \<and> jget k ''k'' = None))"
proof -
  have "peer_cache.clean held ps" using assms(2) by (simp add: peer_cache.clean_def [OF assms(1)])
  then have "peer_cache.clean held (jwks_requests pf ops c st hist ps)" by (rule peer_cache.jwks_requests_clean [OF assms(1)])
  moreover from assms(3) obtain all where "own = merge_keys pf [] [] all" by (auto simp: set_jwks_def)
  then have "distinct (map (key_id pf) own)" using merge_keys_inv [of pf "[]" "[]" all] by simp
  ultimately obtain ks where ks: "rs_body r = JsonBody (keys_document ks)" "prefix own ks" "distinct (map (key_id pf) ks)"
    "\<forall>k\<in>set ks. k \<in> set own \<or> usable_key k"
    using peer_cache.handleJwks_keys(2) [OF assms(1,4) _ assms(3)] by blast
  moreover have "usable_key k \<Longrightarrow> jget k ''kty'' \<noteq> None \<and> jget k ''d'' = None \<and> jget k ''k'' = None" for k
    by (auto simp: usable_key_def as_str_iff)
  ultimately show ?thesis by blast
qed

definition meshed_config :: config where
  "meshed_config = sample_config\<lparr>c_peerJwks := (c_peerJwks sample_config)\<lparr>pj_urls := [''https://b.example/jwks'']\<rparr>\<rparr>"

definition keyed_signers :: signer_set where
  "keyed_signers = \<lparr>st_primary = sample_signer\<lparr>sn_keys := Inr [JObj [(''kty'', JStr ''EC''), (''kid'', JStr ''own'')]]\<rparr>,
     st_primaryAlg = ''ES256'', st_skipped = [], st_signers = []\<rparr>"

theorem published_keys_sound_witness:
  "\<exists>ks. prefix [JObj [(''kty'', JStr ''EC''), (''kid'', JStr ''own'')]] ks \<and> distinct (map (key_id (toy_platform JNull)) ks)"
proof -
  have own: "set_jwks (toy_platform JNull) keyed_signers = Inr [JObj [(''kty'', JStr ''EC''), (''kid'', JStr ''own'')]]" by code_simp
  have "\<exists>r ps'. handleJwks (toy_platform JNull) createMemoryCache peer_up meshed_config keyed_signers [] 400
     (jwks_requests (toy_platform JNull) createMemoryCache meshed_config keyed_signers [(10, peer_down, [])] no_peers) = (Inr r, ps')"
    unfolding handleJwks_def own by (simp add: isPeerFetch_def split: prod.splits)
  moreover have "map_of (ps_cache no_peers) url = None" for url by (simp add: no_peers_def)
  ultimately show ?thesis using published_keys_sound [OF memory_peers.peer_cache_axioms _ own] by blast
qed

end
