(* ===== verification/Identity_Files.thy ===== *)
theory Identity_Files
  imports Sealing Settings "HOL-Library.List_Lexorder" "HOL-Library.Char_ord"
begin

text \<open>
  The file binding of local identities, \<^verbatim>\<open>adapters/node/local-identities.js\<close>: the canonical verifier text of Argon2id, the bounded
  semaphore that admits password operations, and records in a private directory that are replaced by revision. The
  directory is a value: what \<open>lstat\<close> and a read would report, with the text of a file kept as its length in bytes and what
  \<open>JSON.parse\<close> makes of it. Argon2id itself and the length of the serialised document are parameters.
\<close>

section \<open>Verifiers\<close>

definition MAX_PHC_LENGTH :: nat where "MAX_PHC_LENGTH = 512"
definition MAX_PASSWORD_BYTES :: nat where "MAX_PASSWORD_BYTES = 64 * 1024"

text \<open>\<open>ARGON2_LIMITS\<close>: name, least and greatest value.\<close>

definition ARGON2_LIMITS :: "(string \<times> nat \<times> nat) list" where
  "ARGON2_LIMITS = [(''memory'', 8 * 1024, 64 * 1024), (''passes'', 1, 10), (''parallelism'', 1, 4), (''tagLength'', 16, 64), (''saltLength'', 16, 64)]"

definition boundedInteger :: "nat \<Rightarrow> string \<Rightarrow> string \<Rightarrow> (string, nat) result" where
  "boundedInteger value name limit =
     (let (lo, hi) = coalesce (map_of ARGON2_LIMITS limit) (0, 0)
      in if value < lo \<or> value > hi
         then Inl (name @ '' must be a whole number from '' @ show_nat lo @ '' to '' @ show_nat hi) else Inr value)"

definition unpaddedBase64 :: "bytes \<Rightarrow> string" where
  "unpaddedBase64 bs = strip_trailing (CHR ''='') (b64 bs)"

definition is_b64_char :: "char \<Rightarrow> bool" where
  "is_b64_char ch \<longleftrightarrow> is_alnum ch \<or> ch = CHR ''+'' \<or> ch = CHR ''/''"

definition decodePhcBase64 :: "string \<Rightarrow> string \<Rightarrow> (string, bytes) result" where
  "decodePhcBase64 value name =
     (if value = [] \<or> \<not> list_all is_b64_char value then Inl (''Argon2id PHC '' @ name @ '' is not unpadded base64'')
      else (case unb64 value of
              Inl _ \<Rightarrow> Inl (''Argon2id PHC '' @ name @ '' is not canonical base64'')
            | Inr bs \<Rightarrow> if bs = [] \<or> unpaddedBase64 bs \<noteq> value then Inl (''Argon2id PHC '' @ name @ '' is not canonical base64'') else Inr bs))"

record phc =
  ph_memory :: nat
  ph_passes :: nat
  ph_parallelism :: nat
  ph_salt :: bytes
  ph_tag :: bytes

text \<open>\<open>([1-9][0-9]*)\<close> after a fixed prefix.\<close>

definition phc_number :: "string \<Rightarrow> string \<Rightarrow> nat option" where
  "phc_number pre s =
     (if starts_with s pre then (let d = drop (length pre) s
        in if d \<noteq> [] \<and> hd d \<noteq> CHR ''0'' \<and> list_all is_digit d then Some (read_nat d) else None) else None)"

definition phc_parts :: "string \<Rightarrow> (nat \<times> nat \<times> nat \<times> string \<times> string) option" where
  "phc_parts text =
     (case split_on (CHR ''$'') text of
        [e, a, v, params, salt, tag] \<Rightarrow>
          if e = [] \<and> a = ''argon2id'' \<and> v = ''v=19'' \<and> salt \<noteq> [] \<and> tag \<noteq> [] \<and> list_all is_b64_char salt \<and> list_all is_b64_char tag
          then (case split_on (CHR '','') params of
                  [m, t, p] \<Rightarrow> (case (phc_number ''m='' m, phc_number ''t='' t, phc_number ''p='' p) of
                    (Some m', Some t', Some p') \<Rightarrow> Some (m', t', p', salt, tag) | _ \<Rightarrow> None)
                | _ \<Rightarrow> None)
          else None
      | _ \<Rightarrow> None)"

definition parseArgon2idPhc :: "string \<Rightarrow> (string, phc) result" where
  "parseArgon2idPhc text =
     (if text = [] \<or> length text > MAX_PHC_LENGTH then Inl ''Argon2id verifier is not a bounded PHC string''
      else (case phc_parts text of None \<Rightarrow> Inl ''Argon2id verifier is not in canonical PHC format''
            | Some (m, t, p, saltText, tagText) \<Rightarrow>
                rbind (boundedInteger m ''Argon2 memory'' ''memory'') (\<lambda>memory.
                rbind (boundedInteger t ''Argon2 passes'' ''passes'') (\<lambda>passes.
                rbind (boundedInteger p ''Argon2 parallelism'' ''parallelism'') (\<lambda>parallelism.
                rbind (decodePhcBase64 saltText ''salt'') (\<lambda>salt.
                rbind (decodePhcBase64 tagText ''tag'') (\<lambda>tag.
                rbind (boundedInteger (length salt) ''Argon2 salt length'' ''saltLength'') (\<lambda>_.
                rbind (boundedInteger (length tag) ''Argon2 tag length'' ''tagLength'') (\<lambda>_.
                Inr \<lparr>ph_memory = memory, ph_passes = passes, ph_parallelism = parallelism, ph_salt = salt, ph_tag = tag\<rparr>)))))))))"

definition phc_text :: "phc \<Rightarrow> string" where
  "phc_text h = ''$argon2id$v=19$m='' @ show_nat (ph_memory h) @ '',t='' @ show_nat (ph_passes h) @ '',p='' @ show_nat (ph_parallelism h) @
     ''$'' @ unpaddedBase64 (ph_salt h) @ ''$'' @ unpaddedBase64 (ph_tag h)"

text \<open>\<open>crypto.argon2\<close>: memory, passes, parallelism, salt, tag length and password.\<close>

type_synonym argon = "nat \<Rightarrow> nat \<Rightarrow> nat \<Rightarrow> bytes \<Rightarrow> nat \<Rightarrow> bytes \<Rightarrow> (string, bytes) result"

definition passwordBytes :: "string \<Rightarrow> (string, bytes) result" where
  "passwordBytes password =
     (if length (utf8 password) > MAX_PASSWORD_BYTES then Inl (''password must be at most '' @ show_nat MAX_PASSWORD_BYTES @ '' bytes'')
      else Inr (utf8 password))"

definition argon2id_hash :: "argon \<Rightarrow> bytes \<Rightarrow> string \<Rightarrow> (string, string) result" where
  "argon2id_hash argon salt password =
     rbind (passwordBytes password) (\<lambda>message.
     if length salt \<noteq> 16 then Inl ''secure random-byte generation returned the wrong number of bytes''
     else rbind (argon (64 * 1024) 3 1 salt 32 message) (\<lambda>tag.
       if length tag \<noteq> 32 then Inl ''crypto.argon2 returned an unexpected tag length''
       else Inr (phc_text \<lparr>ph_memory = 64 * 1024, ph_passes = 3, ph_parallelism = 1, ph_salt = salt, ph_tag = tag\<rparr>)))"

definition argon2id_verify :: "argon \<Rightarrow> string \<Rightarrow> string \<Rightarrow> (string, bool) result" where
  "argon2id_verify argon text password =
     rbind (parseArgon2idPhc text) (\<lambda>h.
     rbind (passwordBytes password) (\<lambda>message.
     rbind (argon (ph_memory h) (ph_passes h) (ph_parallelism h) (ph_salt h) (length (ph_tag h)) message) (\<lambda>actual.
     Inr (length actual = length (ph_tag h) \<and> actual = ph_tag h))))"

section \<open>The semaphore\<close>

record semaphore =
  sm_limit :: nat
  sm_maxQueue :: nat
  sm_active :: nat
  sm_queue :: "nat list"

text \<open>\<open>acquire\<close> by a caller: a permit at once, a place in the queue, or a refusal. \<open>release\<close> hands the permit to the
  first waiter.\<close>

datatype admission = Admitted | Queued | Busy

definition acquire :: "nat \<Rightarrow> semaphore \<Rightarrow> admission \<times> semaphore" where
  "acquire caller s =
     (if sm_active s < sm_limit s then (Admitted, s\<lparr>sm_active := sm_active s + 1\<rparr>)
      else if length (sm_queue s) \<ge> sm_maxQueue s then (Busy, s)
      else (Queued, s\<lparr>sm_queue := sm_queue s @ [caller]\<rparr>))"

definition release :: "semaphore \<Rightarrow> nat option \<times> semaphore" where
  "release s =
     (case sm_queue s of w # rest \<Rightarrow> (Some w, s\<lparr>sm_queue := rest\<rparr>)
      | [] \<Rightarrow> (None, s\<lparr>sm_active := sm_active s - 1\<rparr>))"

text \<open>The running callers are tracked beside the state: a caller runs when it is admitted or woken, and releases when it
  is done.\<close>

inductive sem_reach :: "nat \<Rightarrow> nat \<Rightarrow> semaphore \<Rightarrow> nat list \<Rightarrow> bool" for limit maxQueue where
  start: "sem_reach limit maxQueue \<lparr>sm_limit = limit, sm_maxQueue = maxQueue, sm_active = 0, sm_queue = []\<rparr> []"
| admitted: "sem_reach limit maxQueue s running \<Longrightarrow> acquire caller s = (Admitted, s') \<Longrightarrow> sem_reach limit maxQueue s' (caller # running)"
| waiting: "sem_reach limit maxQueue s running \<Longrightarrow> acquire caller s = (Queued, s') \<Longrightarrow> sem_reach limit maxQueue s' running"
| done_wake: "sem_reach limit maxQueue s running \<Longrightarrow> caller \<in> set running \<Longrightarrow> release s = (Some w, s') \<Longrightarrow>
    sem_reach limit maxQueue s' (w # remove1 caller running)"
| done_idle: "sem_reach limit maxQueue s running \<Longrightarrow> caller \<in> set running \<Longrightarrow> release s = (None, s') \<Longrightarrow>
    sem_reach limit maxQueue s' (remove1 caller running)"

inductive_cases sem_reachE: "sem_reach limit maxQueue s running"

section \<open>Records\<close>

definition MAX_RECORD_BYTES :: nat where "MAX_RECORD_BYTES = 64 * 1024"
definition MAX_SAFE_INTEGER :: int where "MAX_SAFE_INTEGER = 9007199254740991"

definition record_key :: "string \<Rightarrow> bool" where
  "record_key key \<longleftrightarrow> length key = 64 \<and> list_all (\<lambda>ch. ch \<in> set HEX_DIGITS) key"

definition checkedKey :: "string \<Rightarrow> (string, string) result" where
  "checkedKey key = (if record_key key then Inr key else Inl ''local identity keys must be 64 lower-case hexadecimal characters'')"

definition checkedRevision :: "json option \<Rightarrow> string \<Rightarrow> bool \<Rightarrow> (string, int) result" where
  "checkedRevision value name allowZero =
     (let minimum = (if allowZero then 0 else 1 :: int)
      in case as_num value of
           Some n \<Rightarrow> if n > MAX_SAFE_INTEGER \<or> n < minimum then Inl (name @ '' must be a safe integer of at least '' @ show_int minimum) else Inr n
         | None \<Rightarrow> Inl (name @ '' must be a safe integer of at least '' @ show_int minimum))"

record stored_file =
  sf_symlink :: bool
  sf_regular :: bool
  sf_private :: bool
  sf_bytes :: nat
  sf_doc :: "json option"

datatype directory = Missing | Unsafe string | Dir "(string \<times> stored_file) list"

text \<open>What a record file says: the checks of \<open>readRecord\<close> once the file is found.\<close>

definition file_document :: "stored_file \<Rightarrow> (string, json) result" where
  "file_document f =
     rbind (ok_or (\<not> sf_symlink f) ''must not be a symbolic link'') (\<lambda>_.
     rbind (ok_or (sf_regular f) ''is not a regular file'') (\<lambda>_.
     rbind (ok_or (sf_private f) ''must not be accessible by group or other users; use mode 0600'') (\<lambda>_.
     rbind (ok_or (sf_bytes f \<le> MAX_RECORD_BYTES) (''local identity record exceeds '' @ show_nat MAX_RECORD_BYTES @ '' bytes'')) (\<lambda>_.
     rbind (case sf_doc f of None \<Rightarrow> Inl ''is not valid JSON'' | Some doc \<Rightarrow> Inr doc) (\<lambda>doc.
     rbind (ok_or (is_obj doc) ''must contain a JSON object'') (\<lambda>_.
     rbind (checkedRevision (jget doc ''revision'') ''record revision'' False) (\<lambda>_. Inr doc)))))))"

definition readRecord :: "directory \<Rightarrow> string \<Rightarrow> (string, json option) result" where
  "readRecord dir key =
     rbind (checkedKey key) (\<lambda>_.
     (case dir of Missing \<Rightarrow> Inr None
      | Unsafe e \<Rightarrow> Inl e
      | Dir entries \<Rightarrow> (case map_of entries key of None \<Rightarrow> Inr None | Some f \<Rightarrow> rbind (file_document f) (Inr \<circ> Some))))"

definition checkedDocument :: "(json \<Rightarrow> nat) \<Rightarrow> json \<Rightarrow> int \<Rightarrow> (string, nat) result" where
  "checkedDocument bytes_of doc expectedRevision =
     rbind (ok_or (is_obj doc) ''a local identity record must be a JSON object'') (\<lambda>_.
     rbind (checkedRevision (jget doc ''revision'') ''record revision'' False) (\<lambda>r.
     rbind (ok_or (r = expectedRevision + 1) ''replacement record revision must be the expected revision plus one'') (\<lambda>_.
     if bytes_of doc > MAX_RECORD_BYTES then Inl (''local identity record exceeds '' @ show_nat MAX_RECORD_BYTES @ '' bytes'')
     else Inr (bytes_of doc))))"

definition writeAtomic :: "directory \<Rightarrow> string \<Rightarrow> nat \<Rightarrow> json \<Rightarrow> (string, directory) result" where
  "writeAtomic dir key n doc =
     (let f = \<lparr>sf_symlink = False, sf_regular = True, sf_private = True, sf_bytes = n, sf_doc = Some doc\<rparr>
      in case dir of Missing \<Rightarrow> Inr (Dir [(key, f)]) | Unsafe e \<Rightarrow> Inl e | Dir entries \<Rightarrow> Inr (Dir (AList.update key f entries)))"

definition current_revision :: "json option \<Rightarrow> int" where
  "current_revision current = coalesce (Option.bind current (\<lambda>d. as_num (jget d ''revision''))) 0"

text \<open>\<open>replace\<close> under the lock of its key, within one process. A write can fail before the final rename or link installs the new
  text, which leaves the record as it was, or after it, when the directory is flushed.\<close>

datatype io_fault = Before_Install string | After_Install string

definition replace_record ::
  "(json \<Rightarrow> nat) \<Rightarrow> io_fault option \<Rightarrow> string \<Rightarrow> int \<Rightarrow> json \<Rightarrow> directory \<Rightarrow> (string, bool) result \<times> directory" where
  "replace_record bytes_of io key expectedRevision doc dir =
     (case rbind (checkedKey key) (\<lambda>_. rbind (checkedRevision (Some (JNum expectedRevision)) ''expected revision'' True) (\<lambda>_.
             rbind (checkedDocument bytes_of doc expectedRevision) (\<lambda>n. rbind (readRecord dir key) (\<lambda>current. Inr (n, current))))) of
        Inl e \<Rightarrow> (Inl e, dir)
      | Inr (n, current) \<Rightarrow>
          if current_revision current \<noteq> expectedRevision then (Inr False, dir)
          else (case writeAtomic dir key n doc of Inl e \<Rightarrow> (Inl e, dir)
                | Inr dir' \<Rightarrow> (case io of None \<Rightarrow> (Inr True, dir') | Some (Before_Install e) \<Rightarrow> (Inl e, dir)
                    | Some (After_Install e) \<Rightarrow> (Inl e, dir'))))"

definition list_records :: "directory \<Rightarrow> (string, string list) result" where
  "list_records dir =
     (case dir of Missing \<Rightarrow> Inr [] | Unsafe e \<Rightarrow> Inl e
      | Dir entries \<Rightarrow> Inr (sort (map (\<lambda>(k, _). k @ ''.json'') (filter (\<lambda>(k, _). record_key k) entries))))"

section \<open>Replacing by revision\<close>

text \<open>What the core relies on: a replacement that reports success was made against exactly the expected revision, is what
  the next read returns, and carries the next revision; one that reports a failure may still have done so; a refusal and
  any other key leave the records as they were.\<close>

locale revision_store =
  fixes get :: "'d \<Rightarrow> string \<Rightarrow> (string, json option) result"
    and replace :: "'io \<Rightarrow> string \<Rightarrow> int \<Rightarrow> json \<Rightarrow> 'd \<Rightarrow> (string, bool) result \<times> 'd"
  assumes replaced: "replace io k r doc d = (Inr True, d') \<Longrightarrow>
      (\<exists>cur. get d k = Inr cur \<and> current_revision cur = r) \<and> get d' k = Inr (Some doc) \<and> as_num (jget doc ''revision'') = Some (r + 1)"
    and failed: "replace io k r doc d = (Inl e, d') \<Longrightarrow> get d' k = get d k \<or>
      (\<exists>cur. get d k = Inr cur \<and> current_revision cur = r) \<and> get d' k = Inr (Some doc) \<and> as_num (jget doc ''revision'') = Some (r + 1)"
    and kept: "replace io k r doc d = (x, d') \<Longrightarrow> x = Inr False \<or> k' \<noteq> k \<Longrightarrow> get d' k' = get d k'"
begin

definition revision :: "'d \<Rightarrow> string \<Rightarrow> int option" where
  "revision d k = (case get d k of Inl _ \<Rightarrow> None | Inr cur \<Rightarrow> Some (current_revision cur))"

fun updates :: "'d \<Rightarrow> ('io \<times> string \<times> int \<times> json) list \<Rightarrow> (string, bool) result list \<times> 'd" where
  "updates d [] = ([], d)"
| "updates d ((io, k, r, doc) # rest) = (let (x, d1) = replace io k r doc d; (xs, d2) = updates d1 rest in (x # xs, d2))"

lemma replace_revision:
  assumes "replace io k r doc d = (x, d')" "revision d k' = Some n"
  shows "\<exists>m\<ge>n. revision d' k' = Some m" "x = Inr True \<Longrightarrow> k' = k \<Longrightarrow> r = n"
proof -
  have new: "revision d' k = Some (r + 1) \<and> revision d k = Some r"
    if "(\<exists>cur. get d k = Inr cur \<and> current_revision cur = r) \<and> get d' k = Inr (Some doc) \<and> as_num (jget doc ''revision'') = Some (r + 1)"
    using that by (auto simp: revision_def current_revision_def coalesce_def)
  have same: "revision d' k' = Some n" if "get d' k' = get d k'" using that assms(2) by (simp add: revision_def)
  show "x = Inr True \<Longrightarrow> k' = k \<Longrightarrow> r = n" using new [OF replaced [of io k r doc d d']] assms by simp
  consider "x = Inr False \<or> k' \<noteq> k" | "x = Inr True" "k' = k" | e where "x = Inl e" "k' = k" by (cases x) auto
  then show "\<exists>m\<ge>n. revision d' k' = Some m"
  proof cases
    case 1
    show ?thesis using same [OF kept [OF assms(1) 1]] by auto
  next
    case 2
    with new [OF replaced [of io k r doc d d']] assms show ?thesis by auto
  next
    case 3
    with failed [of io k r doc d e d'] assms new same show ?thesis by auto
  qed
qed

lemma updates_revision:
  "revision d k = Some n \<Longrightarrow> \<exists>m\<ge>n. revision (snd (updates d us)) k = Some m"
proof (induction us arbitrary: d n)
  case (Cons u us)
  obtain io k1 r doc where u: "u = (io, k1, r, doc)" by (cases u)
  obtain x d1 where x: "replace io k1 r doc d = (x, d1)" by force
  from replace_revision(1) [OF x Cons.prems] obtain m where m: "n \<le> m" "revision d1 k = Some m" by blast
  from Cons.IH [OF m(2)] m(1) show ?case by (auto simp: u x split_beta Let_def intro: order_trans)
qed auto

text \<open>Of all replacements made against one revision of a record, whoever makes them and in whatever order, at most one succeeds.\<close>

lemma one_winner:
  assumes "replace io k r doc d = (Inr True, d')"
  shows "fst (replace io' k r doc' (snd (updates d' us))) \<noteq> Inr True"
proof
  assume win: "fst (replace io' k r doc' (snd (updates d' us))) = Inr True"
  from replaced [OF assms] have "revision d' k = Some (r + 1)" by (auto simp: revision_def current_revision_def coalesce_def)
  from updates_revision [OF this, of us] obtain m where m: "revision (snd (updates d' us)) k = Some m" "r + 1 \<le> m" by auto
  obtain d2 where "replace io' k r doc' (snd (updates d' us)) = (Inr True, d2)" using win by (metis prod.collapse)
  from replace_revision(2) [OF this m(1)] m(2) show False by simp
qed

end

section \<open>Facts\<close>

lemma checkedDocument_Inr:
  assumes "checkedDocument bytes_of doc r = Inr n"
  shows "is_obj doc" "as_num (jget doc ''revision'') = Some (r + 1)" "1 \<le> r + 1" "r + 1 \<le> MAX_SAFE_INTEGER" "n \<le> MAX_RECORD_BYTES"
proof -
  from assms obtain v where v: "is_obj doc" "checkedRevision (jget doc ''revision'') ''record revision'' False = Inr v" "v = r + 1"
    "n \<le> MAX_RECORD_BYTES" by (auto simp: checkedDocument_def split: if_splits)
  from v(2) have "as_num (jget doc ''revision'') = Some v" "1 \<le> v" "v \<le> MAX_SAFE_INTEGER"
    by (auto simp: checkedRevision_def split: option.splits if_splits)
  with v show "is_obj doc" "as_num (jget doc ''revision'') = Some (r + 1)" "1 \<le> r + 1" "r + 1 \<le> MAX_SAFE_INTEGER" "n \<le> MAX_RECORD_BYTES"
    by auto
qed

text \<open>When the new text is installed, whether or not success is reported.\<close>

lemma replace_record_changes:
  assumes "replace_record bytes_of io key r doc dir = (x, dir')" "x = Inr True \<or> dir' \<noteq> dir"
  obtains n cur where "checkedKey key = Inr key" "checkedDocument bytes_of doc r = Inr n" "readRecord dir key = Inr cur"
    "current_revision cur = r" "writeAtomic dir key n doc = Inr dir'"
proof -
  from assms obtain k n cur where "checkedKey key = Inr k" "checkedDocument bytes_of doc r = Inr n" "readRecord dir key = Inr cur"
    "current_revision cur = r" "writeAtomic dir key n doc = Inr dir'"
    by (auto simp: replace_record_def split: sum.splits option.splits if_splits io_fault.splits)
  moreover from this have "k = key" by (auto simp: checkedKey_def split: if_splits)
  ultimately show ?thesis using that by blast
qed

lemma readRecord_written:
  assumes "writeAtomic dir key n doc = Inr dir'" "is_obj doc" "checkedKey key = Inr key" "n \<le> MAX_RECORD_BYTES"
    and "as_num (jget doc ''revision'') = Some v" "1 \<le> v" "v \<le> MAX_SAFE_INTEGER"
  shows "readRecord dir' key = Inr (Some doc)" "k' \<noteq> key \<Longrightarrow> readRecord dir' k' = readRecord dir k'"
proof -
  have doc: "file_document \<lparr>sf_symlink = False, sf_regular = True, sf_private = True, sf_bytes = n, sf_doc = Some doc\<rparr> = Inr doc"
    using assms by (auto simp: file_document_def checkedRevision_def Let_def)
  show "readRecord dir' key = Inr (Some doc)"
    using assms(1,3) doc by (cases dir) (auto simp: writeAtomic_def readRecord_def update_conv' Let_def)
  show "k' \<noteq> key \<Longrightarrow> readRecord dir' k' = readRecord dir k'"
    using assms(1) by (cases dir; cases "checkedKey k'") (auto simp: writeAtomic_def readRecord_def update_conv' Let_def)
qed

lemma replace_record_installed:
  assumes "replace_record bytes_of io k r doc d = (x, d')" "x = Inr True \<or> d' \<noteq> d"
  shows "(\<exists>cur. readRecord d k = Inr cur \<and> current_revision cur = r) \<and> readRecord d' k = Inr (Some doc) \<and> as_num (jget doc ''revision'') = Some (r + 1)"
    "k' \<noteq> k \<Longrightarrow> readRecord d' k' = readRecord d k'"
proof -
  from assms obtain n cur where w: "checkedKey k = Inr k" "checkedDocument bytes_of doc r = Inr n" "readRecord d k = Inr cur"
    "current_revision cur = r" "writeAtomic d k n doc = Inr d'" by (rule replace_record_changes)
  note c = checkedDocument_Inr [OF w(2)]
  note wr = readRecord_written [OF w(5) c(1) w(1) c(5,2,3,4)]
  from w c wr(1) show "(\<exists>cur. readRecord d k = Inr cur \<and> current_revision cur = r) \<and> readRecord d' k = Inr (Some doc) \<and> as_num (jget doc ''revision'') = Some (r + 1)"
    by simp
  show "k' \<noteq> k \<Longrightarrow> readRecord d' k' = readRecord d k'" by (rule wr(2))
qed

lemma replace_record_refused: "replace_record bytes_of io k r doc d = (Inr False, d') \<Longrightarrow> d' = d"
  by (auto simp: replace_record_def split: sum.splits option.splits if_splits io_fault.splits)

interpretation files: revision_store readRecord "replace_record bytes_of"
proof
  fix io k r doc d d'
  assume "replace_record bytes_of io k r doc d = (Inr True, d')"
  then show "(\<exists>cur. readRecord d k = Inr cur \<and> current_revision cur = r) \<and> readRecord d' k = Inr (Some doc) \<and> as_num (jget doc ''revision'') = Some (r + 1)"
    by (rule replace_record_installed) simp
next
  fix io k r doc d e d'
  assume h: "replace_record bytes_of io k r doc d = (Inl e, d')"
  show "readRecord d' k = readRecord d k \<or> (\<exists>cur. readRecord d k = Inr cur \<and> current_revision cur = r) \<and>
      readRecord d' k = Inr (Some doc) \<and> as_num (jget doc ''revision'') = Some (r + 1)"
    by (cases "d' = d") (use replace_record_installed(1) [OF h] in auto)
next
  fix io k r doc d x d' k'
  assume h: "replace_record bytes_of io k r doc d = (x, d')" and other: "x = Inr False \<or> k' \<noteq> k"
  show "readRecord d' k' = readRecord d k'"
    by (cases "d' = d") (use replace_record_installed(2) [OF h] replace_record_refused h other in auto)
qed

text \<open>The abstract store: a map from keys to documents with compare-and-set on the revision.\<close>

definition records_view :: "directory \<Rightarrow> string \<rightharpoonup> json" where
  "records_view dir key = (case readRecord dir key of Inl _ \<Rightarrow> None | Inr doc \<Rightarrow> doc)"

definition compare_and_set :: "string \<Rightarrow> int \<Rightarrow> json \<Rightarrow> (string \<rightharpoonup> json) \<Rightarrow> bool \<times> (string \<rightharpoonup> json)" where
  "compare_and_set key expected doc m = (if current_revision (m key) = expected then (True, m(key \<mapsto> doc)) else (False, m))"

lemma replace_record_refines:
  assumes "checkedKey key = Inr key" "0 \<le> r" "checkedDocument bytes_of doc r = Inr n" "readRecord dir key = Inr cur"
  shows "\<exists>b dir'. replace_record bytes_of None key r doc dir = (Inr b, dir') \<and> compare_and_set key r doc (records_view dir) = (b, records_view dir')"
proof -
  note c = checkedDocument_Inr [OF assms(3)]
  have r: "checkedRevision (Some (JNum r)) ''expected revision'' True = Inr r" using assms(2) c(4) by (simp add: checkedRevision_def Let_def)
  have v: "records_view dir key = cur" by (simp add: records_view_def assms(4))
  show ?thesis
  proof (cases "current_revision cur = r")
    case True
    from assms(1,4) obtain dir' where w: "writeAtomic dir key n doc = Inr dir'" by (cases dir) (auto simp: readRecord_def writeAtomic_def)
    note wr = readRecord_written [OF w c(1) assms(1) c(5,2,3,4)]
    have "records_view dir' = (records_view dir)(key \<mapsto> doc)" using wr by (auto simp: records_view_def fun_eq_iff)
    with True v w r assms have "replace_record bytes_of None key r doc dir = (Inr True, dir') \<and>
        compare_and_set key r doc (records_view dir) = (True, records_view dir')" by (simp add: replace_record_def compare_and_set_def)
    then show ?thesis by blast
  next
    case False
    with v r assms have "replace_record bytes_of None key r doc dir = (Inr False, dir) \<and>
        compare_and_set key r doc (records_view dir) = (False, records_view dir)" by (simp add: replace_record_def compare_and_set_def)
    then show ?thesis by blast
  qed
qed

lemma sem_invariant:
  assumes "sem_reach limit maxQueue s running"
  shows "sm_limit s = limit \<and> sm_maxQueue s = maxQueue \<and> sm_active s = length running \<and> length running \<le> limit \<and>
    length (sm_queue s) \<le> maxQueue \<and> (sm_queue s \<noteq> [] \<longrightarrow> length running = limit)"
  using assms
proof (induction rule: sem_reach.induct)
  case (done_wake s running caller w s')
  then have "running \<noteq> []" by auto
  with done_wake show ?case by (auto simp: release_def length_remove1 Suc_le_eq split: list.splits)
next
  case (done_idle s running caller s')
  then have "running \<noteq> []" by auto
  with done_idle show ?case by (auto simp: release_def length_remove1 split: list.splits)
qed (auto simp: acquire_def split: if_splits)

section \<open>Verifier texts\<close>

lemma unpaddedBase64_chunks: "unpaddedBase64 bs = b64_chunks bs"
  using unb64u_normalised(2) [of "b64_chunks bs", OF b64_chunks_alpha]
  by (simp add: unpaddedBase64_def b64_eq strip_trailing_replicate)

lemma unpaddedBase64_text:
  "list_all is_b64_char (unpaddedBase64 bs)" "unpaddedBase64 bs = [] \<longleftrightarrow> bs = []" "unb64 (unpaddedBase64 bs) = Inr bs"
  "length (unpaddedBase64 bs) \<le> 2 * length bs + 2"
proof -
  have n: "list_all (\<lambda>c. is_alnum c \<or> c = CHR ''+'' \<or> c = CHR ''/'') (b64_chunks bs)" "CHR ''='' \<notin> set (b64_chunks bs)"
    by (rule unb64u_normalised, erule b64_chunks_alpha)+
  show "list_all is_b64_char (unpaddedBase64 bs)" using n(1) by (simp add: unpaddedBase64_chunks is_b64_char_def list_all_iff)
  show "unpaddedBase64 bs = [] \<longleftrightarrow> bs = []" unfolding unpaddedBase64_chunks by (induction bs rule: b64_chunks.induct) simp_all
  show "unb64 (unpaddedBase64 bs) = Inr bs"
    using n by (simp add: unpaddedBase64_chunks unb64_def unb64u_def url_safe_inverse b64_chunks_alpha strip_trailing_id unb64_loop_b64_chunks)
  show "length (unpaddedBase64 bs) \<le> 2 * length bs + 2"
    unfolding unpaddedBase64_chunks by (induction bs rule: b64_chunks.induct) simp_all
qed

lemma decodePhc_unpadded: "bs \<noteq> [] \<Longrightarrow> decodePhcBase64 (unpaddedBase64 bs) name = Inr bs"
  by (simp add: decodePhcBase64_def unpaddedBase64_text)

lemma show_nat_hd: "0 < n \<Longrightarrow> hd (show_nat n) \<noteq> CHR ''0''"
proof (induction n rule: show_nat.induct)
  case (1 n)
  show ?case
  proof (cases "n < 10")
    case True
    with 1 have "n \<in> {1, 2, 3, 4, 5, 6, 7, 8, 9}" by auto
    then show ?thesis by (subst show_nat.simps) (auto simp: digit_char_def)
  next
    case False
    then have "0 < n div 10" by (simp add: div_greater_zero_iff)
    with 1 False show ?thesis by (subst show_nat.simps) simp
  qed
qed

lemma phc_number_show: "0 < n \<Longrightarrow> phc_number pre (pre @ show_nat n) = Some n"
  using show_nat_hd [of n] show_nat_digits [of _ n] by (simp add: phc_number_def starts_with_def list_all_iff)

lemma separators_free:
  assumes "list_all is_b64_char t"
  shows "CHR ''$'' \<notin> set t"
  using assms by (auto simp: list_all_iff is_b64_char_def is_alnum_def is_upper_def is_lower_def is_digit_def)

lemma show_nat_free: "CHR ''$'' \<notin> set (show_nat n)" "CHR '','' \<notin> set (show_nat n)"
  by (auto simp: is_digit_def dest!: show_nat_digits)

lemma phc_parts_text:
  assumes "0 < ph_memory h" "0 < ph_passes h" "0 < ph_parallelism h" "ph_salt h \<noteq> []" "ph_tag h \<noteq> []"
  shows "phc_parts (phc_text h) =
    Some (ph_memory h, ph_passes h, ph_parallelism h, unpaddedBase64 (ph_salt h), unpaddedBase64 (ph_tag h))"
proof -
  define nums where "nums = [''m='' @ show_nat (ph_memory h), ''t='' @ show_nat (ph_passes h), ''p='' @ show_nat (ph_parallelism h)]"
  define J where "J = join '','' nums"
  define parts where "parts = [[], ''argon2id'', ''v=19'', J, unpaddedBase64 (ph_salt h), unpaddedBase64 (ph_tag h)]"
  have whole: "phc_text h = join ''$'' parts" by (simp add: phc_text_def parts_def nums_def J_def)
  have n: "split_on (CHR '','') J = nums"
    unfolding J_def by (rule split_on_join) (auto simp: nums_def show_nat_free)
  have J: "CHR ''$'' \<notin> set J" by (simp add: J_def nums_def show_nat_free)
  have P: "split_on (CHR ''$'') (join ''$'' parts) = parts"
    by (rule split_on_join) (use J separators_free [OF unpaddedBase64_text(1)] in \<open>auto simp: parts_def\<close>)
  have num: "phc_number ''m='' (''m='' @ show_nat (ph_memory h)) = Some (ph_memory h)"
    "phc_number ''t='' (''t='' @ show_nat (ph_passes h)) = Some (ph_passes h)"
    "phc_number ''p='' (''p='' @ show_nat (ph_parallelism h)) = Some (ph_parallelism h)"
    by (rule phc_number_show, fact)+
  show ?thesis
    unfolding phc_parts_def whole P using assms(4,5) num
    by (simp add: parts_def n nums_def unpaddedBase64_text)
qed

text \<open>Parameters within the limits of the adapter.\<close>

definition phc_ok :: "phc \<Rightarrow> bool" where
  "phc_ok h \<longleftrightarrow> 8 * 1024 \<le> ph_memory h \<and> ph_memory h \<le> 64 * 1024 \<and> 1 \<le> ph_passes h \<and> ph_passes h \<le> 10 \<and>
     1 \<le> ph_parallelism h \<and> ph_parallelism h \<le> 4 \<and> 16 \<le> length (ph_salt h) \<and> length (ph_salt h) \<le> 64 \<and>
     16 \<le> length (ph_tag h) \<and> length (ph_tag h) \<le> 64"

lemma length_phc_text: "phc_ok h \<Longrightarrow> length (phc_text h) \<le> MAX_PHC_LENGTH"
  using unpaddedBase64_text(4) [of "ph_salt h"] unpaddedBase64_text(4) [of "ph_tag h"]
    length_show_nat [of "ph_memory h" 5] length_show_nat [of "ph_passes h" 2] length_show_nat [of "ph_parallelism h" 1]
  by (simp add: phc_text_def phc_ok_def MAX_PHC_LENGTH_def)

lemma parse_phc_text:
  assumes "phc_ok h"
  shows "parseArgon2idPhc (phc_text h) = Inr h"
proof -
  have ne: "ph_salt h \<noteq> []" "ph_tag h \<noteq> []" "0 < ph_memory h" "0 < ph_passes h" "0 < ph_parallelism h"
    using assms by (auto simp: phc_ok_def)
  have "phc_text h \<noteq> []" by (simp add: phc_text_def)
  with assms ne length_phc_text [OF assms] show ?thesis
    by (simp add: parseArgon2idPhc_def phc_parts_text decodePhc_unpadded boundedInteger_def ARGON2_LIMITS_def coalesce_def phc_ok_def)
qed

section \<open>Waiting\<close>

fun releases :: "nat \<Rightarrow> semaphore \<Rightarrow> nat option list \<times> semaphore" where
  "releases 0 s = ([], s)"
| "releases (Suc n) s = (let (w, s1) = release s; (ws, s2) = releases n s1 in (w # ws, s2))"

text \<open>A waiter is woken by the release that follows one for each waiter before it, whoever queues behind it.\<close>

lemma releases_wake: "i < length (sm_queue s) \<Longrightarrow> fst (releases (Suc i) s) ! i = Some (sm_queue s ! i)"
proof (induction i arbitrary: s)
  case 0
  then show ?case by (cases "sm_queue s") (auto simp: release_def split_beta Let_def)
next
  case (Suc i)
  then obtain w rest where q: "sm_queue s = w # rest" by (cases "sm_queue s") auto
  have "fst (releases (Suc i) (s\<lparr>sm_queue := rest\<rparr>)) ! i = Some (rest ! i)" using Suc.IH [of "s\<lparr>sm_queue := rest\<rparr>"] Suc.prems q by simp
  then show ?case by (simp add: release_def q split_beta Let_def)
qed

section \<open>Properties\<close>

text \<open>C34: password work is bounded. In every state the semaphore of the Argon2 operations can reach, at most \<open>limit\<close> callers run, at most
  \<open>maxQueue\<close> wait, nobody waits while a permit is free, and the waiter at position \<open>i\<close> runs
  at the latest when \<open>i + 1\<close> running callers have finished.\<close>

theorem argon2_admission:
  assumes "sem_reach limit maxQueue s running"
  shows "length running \<le> limit \<and> length (sm_queue s) \<le> maxQueue \<and> (sm_queue s = [] \<or> length running = limit) \<and>
    (\<forall>i<length (sm_queue s). fst (releases (Suc i) s) ! i = Some (sm_queue s ! i))"
  using sem_invariant [OF assms] releases_wake by auto

definition busy_semaphore :: semaphore where
  "busy_semaphore = \<lparr>sm_limit = 1, sm_maxQueue = 2, sm_active = 1, sm_queue = [7]\<rparr>"

theorem argon2_admission_witness:
  "fst (releases 1 busy_semaphore) ! 0 = Some 7 \<and> length (sm_queue busy_semaphore) \<le> 2"
proof -
  have "sem_reach 1 2 \<lparr>sm_limit = 1, sm_maxQueue = 2, sm_active = 1, sm_queue = []\<rparr> [5]"
    by (rule sem_reach.admitted [OF sem_reach.start]) (simp add: acquire_def)
  then have "sem_reach 1 2 busy_semaphore [5]"
    by (rule sem_reach.waiting [where caller = 7]) (simp add: acquire_def busy_semaphore_def)
  from argon2_admission [OF this] show ?thesis by (auto simp: busy_semaphore_def)
qed

text \<open>A verifier is read back as it was written: for all parameters within the adapter's limits, parsing the canonical text
  gives the same memory, passes, parallelism, salt and tag.\<close>

lemma phc_roundtrip:
  assumes "phc_ok h"
  shows "parseArgon2idPhc (phc_text h) = Inr h"
  using assms by (rule parse_phc_text)

text \<open>C18: the files implement a map of documents with compare-and-set on the revision. For a valid key, revision and document and
  a readable record, and when the write itself does not fail, \<open>replace\<close> answers what the abstract operation answers and leaves
  the files in a state that reads as the map it leaves.\<close>

theorem files_refine_compare_and_set:
  assumes "checkedKey key = Inr key" "0 \<le> r" "checkedDocument bytes_of doc r = Inr n" "readRecord dir key = Inr cur"
  shows "\<exists>b dir'. replace_record bytes_of None key r doc dir = (Inr b, dir') \<and> compare_and_set key r doc (records_view dir) = (b, records_view dir')"
  using assms by (rule replace_record_refines)

theorem files_refine_compare_and_set_witness:
  "\<exists>b dir'. replace_record (\<lambda>_. 20) None (replicate 64 (CHR ''a'')) 0 (JObj [(''revision'', JNum 1)]) (Dir []) = (Inr b, dir') \<and>
    compare_and_set (replicate 64 (CHR ''a'')) 0 (JObj [(''revision'', JNum 1)]) (records_view (Dir [])) = (b, records_view dir')"
proof (rule files_refine_compare_and_set [where n = 20 and cur = None])
  show k: "checkedKey (replicate 64 (CHR ''a'')) = Inr (replicate 64 (CHR ''a''))"
    by (simp add: checkedKey_def record_key_def HEX_DIGITS_def list_all_iff)
  show "readRecord (Dir []) (replicate 64 (CHR ''a'')) = Inr None" by (simp add: readRecord_def k)
  show "checkedDocument (\<lambda>_. 20) (JObj [(''revision'', JNum 1)]) 0 = Inr 20"
    by (simp add: checkedDocument_def checkedRevision_def MAX_SAFE_INTEGER_def MAX_RECORD_BYTES_def ok_or_def)
qed simp

end
