(* ===== verification/Local_Identity.thy ===== *)
theory Local_Identity
  imports Identity_Files Totp Identity Profile
begin

text \<open>
  Operator-provisioned local identities, \<^verbatim>\<open>src/local-identities/index.js\<close>: validation of a stored document, the password
  and second-factor checks, spending a factor by replacing the record at the revision that was read, revalidation of
  sessions and refresh credentials sealed to their link. The adapter's binding is a record of functions; the file adapter of
  \<^verbatim>\<open>Identity_Files\<close> is the instance. Numbers in a document are whole.
\<close>

section \<open>Documents\<close>

definition RECORD_VERSION :: int where "RECORD_VERSION = 1"
definition MAX_TOTP :: nat where "MAX_TOTP = 5"
definition MAX_BACKUP_CODES :: nat where "MAX_BACKUP_CODES = 20"
definition MAX_UPSTREAMS :: nat where "MAX_UPSTREAMS = 20"

definition SAFE_UPSTREAM :: "string \<Rightarrow> bool" where
  "SAFE_UPSTREAM s \<longleftrightarrow> 1 \<le> length s \<and> length s \<le> 256 \<and> list_all (\<lambda>ch. is_alnum ch \<or> ch \<in> set ''._~:/-'') s"

definition RECORD_FIELDS :: "string list" where
  "RECORD_FIELDS = [''v'', ''id'', ''revision'', ''security_version'', ''disabled'', ''mfa_required'', ''password'', ''claims'', ''totp'',
     ''backup_codes'', ''upstreams'']"

definition TOTP_FIELDS :: "string list" where
  "TOTP_FIELDS = [''id'', ''label'', ''secret'', ''algorithm'', ''digits'', ''period'', ''last_used_step'']"

definition BACKUP_FIELDS :: "string list" where "BACKUP_FIELDS = [''id'', ''hash'']"

definition UPSTREAM_FIELDS :: "string list" where
  "UPSTREAM_FIELDS = [''id'', ''upstream'', ''issuer'', ''subject'', ''refresh_token'']"

fun hasOnlyFields :: "json \<Rightarrow> string list \<Rightarrow> bool" where
  "hasOnlyFields (JObj fs) permitted_fields = list_all (\<lambda>(k, _). k \<in> set permitted_fields) fs"
| "hasOnlyFields _ _ = True"

definition approvedArgon2id :: "json option \<Rightarrow> string option" where
  "approvedArgon2id v =
     (case v of Some (JStr s) \<Rightarrow> if length s \<le> 512 \<and> starts_with s ''$argon2id$v=19$m=65536,t=3,p=1$'' then Some s else None | _ \<Rightarrow> None)"

definition DUMMY_PASSWORD_HASH :: string where
  "DUMMY_PASSWORD_HASH = ''$argon2id$v=19$m=65536,t=3,p=1$c2FnLWxvY2FsLWR1bW15MQ$KffQgtYBtmwZAFnvnsXZ7vL8/HU8Mz58bkyIR3r/krU''"

definition REFRESH_PURPOSE :: "string \<Rightarrow> string \<Rightarrow> string" where
  "REFRESH_PURPOSE identityId linkId = ''local-identity-refresh/'' @ identityId @ ''/'' @ linkId"

definition safe_integer :: "json option \<Rightarrow> int \<Rightarrow> int \<Rightarrow> int option" where
  "safe_integer v lo hi = (case as_num v of Some n \<Rightarrow> if lo \<le> n \<and> n \<le> hi \<and> n \<le> MAX_SAFE_INTEGER then Some n else None | None \<Rightarrow> None)"

record totp_cred =
  tc_id :: string
  tc_label :: "string option"
  tc_secret :: string
  tc_algorithm :: string
  tc_digits :: int
  tc_period :: int
  tc_last_used_step :: "int option"

record backup_code =
  bk_id :: string
  bk_hash :: string

record link =
  ln_id :: string
  ln_upstream :: string
  ln_issuer :: string
  ln_subject :: string
  ln_refresh_token :: "string option"

record local_record =
  lr_id :: string
  lr_revision :: int
  lr_security_version :: int
  lr_disabled :: bool
  lr_mfa_required :: bool
  lr_password :: string
  lr_totp :: "totp_cred list"
  lr_backup_codes :: "backup_code list"
  lr_upstreams :: "link list"
  lr_claims :: "json option"
  lr_key :: string

section \<open>Routing and keys\<close>

definition local_domain :: "string \<Rightarrow> string \<Rightarrow> bool" where
  "local_domain domain entry =
     (let wanted = to_lower entry
      in if wanted = ''*'' then True
         else if starts_with wanted ''*.'' then domain = drop 2 wanted \<or> ends_with domain (''.'' @ drop 2 wanted)
         else domain = wanted)"

definition localIdentityAllowed :: "config \<Rightarrow> string option \<Rightarrow> bool" where
  "localIdentityAllowed c email =
     (if li_backend (c_localIdentities c) = ''none'' then False
      else (case domainOf email of None \<Rightarrow> False
            | Some domain \<Rightarrow> domain \<noteq> [] \<and> list_ex (local_domain domain) (li_domains (c_localIdentities c))))"

definition localIdentityKey :: "platform \<Rightarrow> config \<Rightarrow> string option \<Rightarrow> (string, string) result" where
  "localIdentityKey pf c email =
     (case normaliseEmail email of None \<Rightarrow> Inl ''a canonical email address is required''
      | Some canonical \<Rightarrow>
          if \<not> str_truthy (c_subjectSalt c) then Inl ''local identity lookup requires SUBJECT_SALT''
          else Inr (toHex (hmac pf (derive pf (the (c_subjectSalt c)) ''local-identity-index'' 32) canonical)))"

section \<open>Validation\<close>

text \<open>An optional member of one type: absent, or present with that type.\<close>

definition opt_member :: "(json option \<Rightarrow> 'a option) \<Rightarrow> json \<Rightarrow> string \<Rightarrow> bool" where
  "opt_member read j k \<longleftrightarrow> jget j k = None \<or> read (jget j k) \<noteq> None"

definition safe_id_of :: "json \<Rightarrow> string option" where
  "safe_id_of v = (case as_str (jget v ''id'') of Some i \<Rightarrow> if identity_id_ok i then Some i else None | None \<Rightarrow> None)"

definition guard :: "bool \<Rightarrow> 'a option \<Rightarrow> 'a option" where
  "guard b x = (if b then x else None)"

definition normaliseTotp :: "json \<Rightarrow> totp_cred option" where
  "normaliseTotp v =
     guard (is_obj v) (Option.bind (safe_id_of v) (\<lambda>ident.
     guard (hasOnlyFields v TOTP_FIELDS \<and> opt_member as_str v ''algorithm'' \<and> opt_member as_num v ''digits'' \<and>
            opt_member as_num v ''period'' \<and> opt_member as_str v ''label'')
     (let algorithm = filter (\<lambda>ch. ch \<noteq> CHR ''-'') (to_upper (coalesce (as_str (jget v ''algorithm'')) ''SHA1''));
          digits = coalesce (as_num (jget v ''digits'')) 6;
          period = coalesce (as_num (jget v ''period'')) 30
      in guard (algorithm \<in> set [''SHA1'', ''SHA256'', ''SHA512''] \<and> digits \<in> set [6, 8] \<and> 15 \<le> period \<and> period \<le> 120)
         (Option.bind (as_str (jget v ''secret'')) (\<lambda>raw.
          guard (length raw \<le> 256)
          (case decodeBase32 raw of Inl _ \<Rightarrow> None
           | Inr key \<Rightarrow>
               guard (jget v ''last_used_step'' = None \<or> safe_integer (jget v ''last_used_step'') 0 MAX_SAFE_INTEGER \<noteq> None)
               (Some \<lparr>tc_id = ident, tc_label = map_option (take 128) (as_str (jget v ''label'')), tc_secret = encodeBase32 key,
                  tc_algorithm = algorithm, tc_digits = digits, tc_period = period,
                  tc_last_used_step = as_num (jget v ''last_used_step'')\<rparr>)))))))"

definition normaliseBackup :: "json \<Rightarrow> backup_code option" where
  "normaliseBackup v =
     guard (is_obj v) (Option.bind (safe_id_of v) (\<lambda>ident.
     guard (hasOnlyFields v BACKUP_FIELDS) (Option.bind (approvedArgon2id (jget v ''hash'')) (\<lambda>h.
     Some \<lparr>bk_id = to_upper ident, bk_hash = h\<rparr>))))"

definition plain_text :: "string \<Rightarrow> bool" where
  "plain_text s \<longleftrightarrow> s = trim s \<and> list_all (\<lambda>ch. \<not> (of_char ch < (32::nat) \<or> of_char ch = (127::nat))) s"

definition issuer_shape :: "url_parser \<Rightarrow> string \<Rightarrow> bool" where
  "issuer_shape parse_url issuer \<longleftrightarrow> 1 \<le> length issuer \<and> length issuer \<le> 2048 \<and> plain_text issuer \<and>
     (case parse_url issuer of None \<Rightarrow> False
      | Some u \<Rightarrow> (u_protocol u = ''https:'' \<or> u_protocol u = ''http:'') \<and>
          u_username u = [] \<and> u_password u = [] \<and> u_search u = [] \<and> u_hash u = [])"

definition normaliseLocalUpstreamLink :: "url_parser \<Rightarrow> json \<Rightarrow> nat \<Rightarrow> link option" where
  "normaliseLocalUpstreamLink parse_url v index =
     guard (is_obj v \<and> hasOnlyFields v UPSTREAM_FIELDS \<and> opt_member as_str v ''id'' \<and> opt_member as_str v ''refresh_token'')
     (Option.bind (as_str (jget v ''upstream'')) (\<lambda>upstream.
      Option.bind (as_str (jget v ''issuer'')) (\<lambda>issuer.
      Option.bind (as_str (jget v ''subject'')) (\<lambda>subject.
      guard (SAFE_UPSTREAM upstream \<and> 1 \<le> length subject \<and> length subject \<le> 512 \<and> issuer_shape parse_url issuer \<and>
             (case as_str (jget v ''refresh_token'') of None \<Rightarrow> True | Some t \<Rightarrow> length t \<le> 32768))
      (let ident = coalesce (as_str (jget v ''id'')) (''upstream-'' @ show_nat (index + 1))
       in guard (identity_id_ok ident)
          (Some \<lparr>ln_id = ident, ln_upstream = upstream, ln_issuer = issuer, ln_subject = subject,
             ln_refresh_token = as_str (jget v ''refresh_token'')\<rparr>))))))"

definition bounded_array :: "json \<Rightarrow> string \<Rightarrow> nat \<Rightarrow> json list option" where
  "bounded_array doc k most =
     (case jget doc k of None \<Rightarrow> Some [] | Some (JArr xs) \<Rightarrow> guard (length xs \<le> most) (Some xs) | Some _ \<Rightarrow> None)"

fun claims_ok :: "json option \<Rightarrow> bool" where
  "claims_ok None = True"
| "claims_ok (Some (JObj entries)) =
     list_all (\<lambda>(claim, v). claim \<in> set PROFILE_CLAIMS \<and>
       (case v of JStr s \<Rightarrow> 1 \<le> length s \<and> length s \<le> 512 \<and> \<not> (claim = ''picture'' \<and> \<not> https_text s) | _ \<Rightarrow> False)) entries"
| "claims_ok (Some _) = False"

text \<open>The checks on the three lists, once every element is valid.\<close>

definition lists_ok :: "totp_cred list \<Rightarrow> backup_code list \<Rightarrow> link list \<Rightarrow> bool" where
  "lists_ok totp backup upstreams \<longleftrightarrow>
     distinct (map tc_id totp) \<and> distinct (map tc_secret totp) \<and> distinct (map bk_id backup) \<and> distinct (map ln_id upstreams)"

definition parse_factors :: "url_parser \<Rightarrow> json \<Rightarrow> (totp_cred list \<times> backup_code list \<times> link list) option" where
  "parse_factors parse_url doc =
     Option.bind (bounded_array doc ''totp'' MAX_TOTP) (\<lambda>rawTotp.
     Option.bind (bounded_array doc ''backup_codes'' MAX_BACKUP_CODES) (\<lambda>rawBackup.
     Option.bind (bounded_array doc ''upstreams'' MAX_UPSTREAMS) (\<lambda>rawUpstreams.
     Option.bind (those (map normaliseTotp rawTotp)) (\<lambda>totp.
     Option.bind (those (map normaliseBackup rawBackup)) (\<lambda>backup.
     Option.bind (those (map (\<lambda>(v, i). normaliseLocalUpstreamLink parse_url v i) (zip rawUpstreams [0..<length rawUpstreams]))) (\<lambda>upstreams.
     guard (lists_ok totp backup upstreams \<and> \<not> (jget doc ''mfa_required'' = Some (JBool False) \<and> (totp \<noteq> [] \<or> backup \<noteq> [])))
       (Some (totp, backup, upstreams))))))))"

definition parseLocalIdentityRecord :: "url_parser \<Rightarrow> json \<Rightarrow> string \<Rightarrow> local_record option" where
  "parseLocalIdentityRecord parse_url doc key =
     guard (is_obj doc \<and> jget doc ''v'' = Some (JNum RECORD_VERSION) \<and> hasOnlyFields doc RECORD_FIELDS)
     (Option.bind (safe_id_of doc) (\<lambda>ident.
      Option.bind (safe_integer (jget doc ''revision'') 1 MAX_SAFE_INTEGER) (\<lambda>revision.
      Option.bind (safe_integer (jget doc ''security_version'') 1 MAX_SAFE_INTEGER) (\<lambda>securityVersion.
      Option.bind (approvedArgon2id (jget doc ''password'')) (\<lambda>password.
      guard (opt_member as_bool doc ''disabled'' \<and> opt_member as_bool doc ''mfa_required'')
      (Option.bind (parse_factors parse_url doc) (\<lambda>(totp, backup, upstreams).
      guard (claims_ok (jget doc ''claims''))
      (Some \<lparr>lr_id = ident, lr_revision = revision, lr_security_version = securityVersion,
         lr_disabled = (as_bool (jget doc ''disabled'') = Some True),
         lr_mfa_required = (as_bool (jget doc ''mfa_required'') = Some True \<or> totp \<noteq> [] \<or> backup \<noteq> []),
         lr_password = password, lr_totp = totp, lr_backup_codes = backup, lr_upstreams = upstreams,
         lr_claims = jget doc ''claims'', lr_key = key\<rparr>))))))))"

definition totp_json :: "totp_cred \<Rightarrow> json" where
  "totp_json t = jobj [(''id'', Some (JStr (tc_id t))), (''label'', map_option JStr (tc_label t)), (''secret'', Some (JStr (tc_secret t))),
     (''algorithm'', Some (JStr (tc_algorithm t))), (''digits'', Some (JNum (tc_digits t))), (''period'', Some (JNum (tc_period t))),
     (''last_used_step'', map_option JNum (tc_last_used_step t))]"

definition backup_json :: "backup_code \<Rightarrow> json" where
  "backup_json b = jobj [(''id'', Some (JStr (bk_id b))), (''hash'', Some (JStr (bk_hash b)))]"

definition link_json :: "link \<Rightarrow> json" where
  "link_json l = jobj [(''id'', Some (JStr (ln_id l))), (''upstream'', Some (JStr (ln_upstream l))), (''issuer'', Some (JStr (ln_issuer l))),
     (''subject'', Some (JStr (ln_subject l))), (''refresh_token'', map_option JStr (ln_refresh_token l))]"

definition storedRecord :: "local_record \<Rightarrow> json" where
  "storedRecord r = jobj
     [(''v'', Some (JNum RECORD_VERSION)), (''id'', Some (JStr (lr_id r))), (''revision'', Some (JNum (lr_revision r))),
      (''security_version'', Some (JNum (lr_security_version r))),
      (''disabled'', if lr_disabled r then Some (JBool True) else None),
      (''mfa_required'', if lr_mfa_required r then Some (JBool True) else None),
      (''password'', Some (JStr (lr_password r))), (''claims'', lr_claims r),
      (''totp'', Some (JArr (map totp_json (lr_totp r)))), (''backup_codes'', Some (JArr (map backup_json (lr_backup_codes r)))),
      (''upstreams'', Some (JArr (map link_json (lr_upstreams r))))]"

section \<open>The service\<close>

text \<open>The binding: \<open>get\<close>, \<open>replace\<close>, \<open>verifyArgon2id\<close> and \<open>list\<close>.\<close>

record 'd binding =
  bd_get :: "'d \<Rightarrow> string \<Rightarrow> (string, json option) result"
  bd_replace :: "string \<Rightarrow> int \<Rightarrow> json \<Rightarrow> 'd \<Rightarrow> (string, bool) result \<times> 'd"
  bd_verify :: "string \<Rightarrow> string \<Rightarrow> (string, bool) result"
  bd_list :: "'d \<Rightarrow> (string, string list) result"

text \<open>\<open>createFileLocalIdentityStore\<close>, with the failure of the write in progress.\<close>

definition file_binding :: "argon \<Rightarrow> (json \<Rightarrow> nat) \<Rightarrow> io_fault option \<Rightarrow> directory binding" where
  "file_binding argon bytes_of io =
     \<lparr>bd_get = readRecord, bd_replace = replace_record bytes_of io, bd_verify = argon2id_verify argon, bd_list = list_records\<rparr>"

record found =
  fd_key :: string
  fd_record :: "local_record option"
  fd_malformed :: bool
  fd_error :: "string option"

definition read_doc :: "url_parser \<Rightarrow> json option \<Rightarrow> string \<Rightarrow> local_record option" where
  "read_doc parse_url doc key = Option.bind doc (\<lambda>d. parseLocalIdentityRecord parse_url d key)"

definition find_identity :: "platform \<Rightarrow> url_parser \<Rightarrow> config \<Rightarrow> 'd binding \<Rightarrow> 'd \<Rightarrow> string option \<Rightarrow> (string, found) result" where
  "find_identity pf parse_url c B d email =
     rbind (localIdentityKey pf c email) (\<lambda>key.
     (case bd_get B d key of
        Inl e \<Rightarrow> Inr \<lparr>fd_key = key, fd_record = None, fd_malformed = True, fd_error = Some e\<rparr>
      | Inr doc \<Rightarrow> Inr \<lparr>fd_key = key, fd_record = read_doc parse_url doc key,
          fd_malformed = (truthy doc \<and> read_doc parse_url doc key = None), fd_error = None\<rparr>))"

definition verifyPassword :: "config \<Rightarrow> 'd binding \<Rightarrow> found \<Rightarrow> string option \<Rightarrow> (string, bool) result" where
  "verifyPassword c B fd password =
     (let value = coalesce password [];
          withinLimit = int (length (utf8 value)) \<le> li_maxPasswordBytes (c_localIdentities c);
          usable = (case fd_record fd of None \<Rightarrow> None | Some r \<Rightarrow> if withinLimit \<and> \<not> lr_disabled r then Some r else None);
          hash = (case usable of Some r \<Rightarrow> lr_password r | None \<Rightarrow> DUMMY_PASSWORD_HASH);
          attempt = (if withinLimit then value else ''password-too-long'')
      in rbind (rescue (\<lambda>_. bd_verify B DUMMY_PASSWORD_HASH attempt) (bd_verify B hash attempt)) (\<lambda>ok.
         Inr (ok \<and> usable \<noteq> None)))"

definition replace_local :: "'d binding \<Rightarrow> local_record \<Rightarrow> (local_record \<Rightarrow> local_record) \<Rightarrow> 'd \<Rightarrow> (string, local_record option) result \<times> 'd" where
  "replace_local B r mutate d =
     (let next = (mutate r)\<lparr>lr_revision := lr_revision r + 1\<rparr>;
          (written, d') = bd_replace B (lr_key r) (lr_revision r) (storedRecord next) d
      in (rbind written (\<lambda>w. Inr (if w then Some (next\<lparr>lr_key := lr_key r\<rparr>) else None)), d'))"

text \<open>\<open>backupSelector\<close>: the identifier before the first hyphen, and the whole code.\<close>

definition backupSelector :: "string option \<Rightarrow> (string \<times> string) option" where
  "backupSelector code =
     (let normalised = filter (\<lambda>ch. \<not> is_space ch) (to_upper (coalesce code [])); ident = hd (split_on (CHR ''-'') normalised)
      in if identity_id_ok ident then Some (ident, normalised) else None)"

definition presented_backup :: "local_record \<Rightarrow> string option \<Rightarrow> (backup_code \<times> string) option" where
  "presented_backup r code =
     Option.bind (backupSelector code) (\<lambda>(ident, whole).
     map_option (\<lambda>b. (b, whole)) (find (\<lambda>b. bk_id b = ident) (lr_backup_codes r)))"

definition cred_args :: "config \<Rightarrow> totp_cred \<Rightarrow> totp_args" where
  "cred_args c t = \<lparr>ta_secret = tc_secret t, ta_algorithm = tc_algorithm t, ta_digits = tc_digits t, ta_period = tc_period t,
     ta_skew = li_totpSkew (c_localIdentities c), ta_lastUsedStep = tc_last_used_step t\<rparr>"

text \<open>The loop over the credentials: the first that accepts the code, with the step it accepts.\<close>

fun first_totp :: "platform \<Rightarrow> config \<Rightarrow> string option \<Rightarrow> int \<Rightarrow> totp_cred list \<Rightarrow> (string, (totp_cred \<times> int) option) result" where
  "first_totp pf c code now [] = Inr None"
| "first_totp pf c code now (t # ts) =
     (case verifyTotp (pf_hmac pf) (cred_args c t) code now of Inl e \<Rightarrow> Inl e
      | Inr None \<Rightarrow> first_totp pf c code now ts
      | Inr (Some step) \<Rightarrow> Inr (Some (t, step)))"

text \<open>\<open>held.last_used_step = step\<close> on the first credential with the identifier.\<close>

fun mark_step :: "string \<Rightarrow> int \<Rightarrow> totp_cred list \<Rightarrow> totp_cred list" where
  "mark_step ident step [] = []"
| "mark_step ident step (t # ts) = (if tc_id t = ident then t\<lparr>tc_last_used_step := Some step\<rparr> # ts else t # mark_step ident step ts)"

definition drop_backup :: "string \<Rightarrow> local_record \<Rightarrow> local_record" where
  "drop_backup ident r = r\<lparr>lr_backup_codes := filter (\<lambda>b. bk_id b \<noteq> ident) (lr_backup_codes r)\<rparr>"

definition spend_totp :: "string \<Rightarrow> int \<Rightarrow> local_record \<Rightarrow> local_record" where
  "spend_totp ident step r = r\<lparr>lr_totp := mark_step ident step (lr_totp r)\<rparr>"

datatype factor = Recovery | Totp_Factor

definition spend :: "'d binding \<Rightarrow> bool \<Rightarrow> factor \<Rightarrow> local_record \<Rightarrow> (local_record \<Rightarrow> local_record) \<Rightarrow> 'd \<Rightarrow>
    (string, (factor \<times> local_record) option) result \<times> 'd" where
  "spend B consume via r mutate d =
     (if \<not> consume then (Inr (Some (via, r)), d)
      else (let (res, d') = replace_local B r mutate d in (rbind res (\<lambda>u. Inr (map_option (Pair via) u)), d')))"

definition verifySecondFactor :: "platform \<Rightarrow> config \<Rightarrow> 'd binding \<Rightarrow> local_record \<Rightarrow> string option \<Rightarrow> int \<Rightarrow> bool \<Rightarrow> 'd \<Rightarrow>
    (string, (factor \<times> local_record) option) result \<times> 'd" where
  "verifySecondFactor pf c B r code now consume d =
     (case presented_backup r code of
        Some (b, whole) \<Rightarrow>
          if rescue (\<lambda>_. Inr False) (bd_verify B (bk_hash b) whole) \<noteq> (Inr True :: (string, bool) result) then (Inr None, d)
          else spend B consume Recovery r (drop_backup (bk_id b)) d
      | None \<Rightarrow>
          (case first_totp pf c code now (lr_totp r) of Inl e \<Rightarrow> (Inl e, d)
           | Inr None \<Rightarrow> (Inr None, d)
           | Inr (Some (t, step)) \<Rightarrow> spend B consume Totp_Factor r (spend_totp (tc_id t) step) d))"

text \<open>\<open>/^[0-9a-f]{64}$/\<close> on the session's key, else the address is looked up.\<close>

definition validateSession :: "platform \<Rightarrow> url_parser \<Rightarrow> config \<Rightarrow> 'd binding \<Rightarrow> 'd \<Rightarrow> json option \<Rightarrow> (string, bool) result" where
  "validateSession pf parse_url c B d session =
     (if \<not> truthy (Option.bind session (\<lambda>s. jget s ''localIdentityId'')) then Inr True
      else (let ses = the session;
                key = coalesce (as_str (jget ses ''localIdentityKey'')) [];
                current = (if record_key key then rbind (bd_get B d key) (\<lambda>doc. Inr (read_doc parse_url doc key))
                           else rbind (find_identity pf parse_url c B d (as_str (jget ses ''email''))) (\<lambda>f. Inr (fd_record f)))
            in rbind current (\<lambda>rec. Inr (case rec of None \<Rightarrow> False
                 | Some r \<Rightarrow> \<not> lr_disabled r \<and> jget ses ''localIdentityId'' = Some (JStr (lr_id r)) \<and>
                     jget ses ''localSecurityVersion'' = Some (JNum (lr_security_version r))))))"

definition linked :: "platform \<Rightarrow> url_parser \<Rightarrow> config \<Rightarrow> 'd binding \<Rightarrow> 'd \<Rightarrow> string option \<Rightarrow> string \<Rightarrow> string \<Rightarrow> string \<Rightarrow>
    (string, (found \<times> link) option) result" where
  "linked pf parse_url c B d email upstream issuer subject =
     rbind (find_identity pf parse_url c B d email) (\<lambda>f.
     (case fd_error f of Some e \<Rightarrow> Inl e
      | None \<Rightarrow> (case fd_record f of None \<Rightarrow> Inr None
        | Some r \<Rightarrow> if lr_disabled r then Inr None
            else Inr (map_option (Pair f) (find (\<lambda>l. ln_upstream l = upstream \<and> ln_issuer l = issuer \<and> ln_subject l = subject) (lr_upstreams r))))))"

section \<open>Refresh credentials\<close>

definition refresh_payload :: "string \<Rightarrow> link \<Rightarrow> string \<Rightarrow> json" where
  "refresh_payload identityId l token = jobj
     [(''v'', Some (JNum 1)), (''identity_id'', Some (JStr identityId)), (''link_id'', Some (JStr (ln_id l))),
      (''upstream'', Some (JStr (ln_upstream l))), (''issuer'', Some (JStr (ln_issuer l))), (''subject'', Some (JStr (ln_subject l))),
      (''token'', Some (JStr token))]"

definition sealUpstreamRefreshToken :: "platform \<Rightarrow> bytes \<Rightarrow> config \<Rightarrow> string \<Rightarrow> link \<Rightarrow> string \<Rightarrow> string" where
  "sealUpstreamRefreshToken pf iv c identityId l token =
     seal pf iv (current_secret c) (REFRESH_PURPOSE identityId (ln_id l)) (refresh_payload identityId l token) None"

definition bound_token :: "local_record \<Rightarrow> link \<Rightarrow> json \<Rightarrow> string option" where
  "bound_token r l payload =
     (if jget payload ''v'' = Some (JNum 1) \<and> jget payload ''identity_id'' = Some (JStr (lr_id r)) \<and>
         jget payload ''link_id'' = Some (JStr (ln_id l)) \<and> jget payload ''upstream'' = Some (JStr (ln_upstream l)) \<and>
         jget payload ''issuer'' = Some (JStr (ln_issuer l)) \<and> jget payload ''subject'' = Some (JStr (ln_subject l))
      then as_str (jget payload ''token'') else None)"

text \<open>Opening reports whether the current secret was enough.\<close>

definition openRefreshToken :: "platform \<Rightarrow> config \<Rightarrow> int \<Rightarrow> local_record \<Rightarrow> link \<Rightarrow> string \<Rightarrow> (seal_error, string \<times> bool) result" where
  "openRefreshToken pf c now r l sealed =
     (let purpose = REFRESH_PURPOSE (lr_id r) (ln_id l)
      in rbind (case unseal pf [current_secret c] purpose sealed now None of
                  Inr payload \<Rightarrow> Inr (payload, True)
                | Inl _ \<Rightarrow> rbind (unseal pf (c_secrets c) purpose sealed now None) (\<lambda>payload. Inr (payload, False)))
         (\<lambda>(payload, current). case bound_token r l payload of
            Some token \<Rightarrow> Inr (token, current)
          | None \<Rightarrow> Inl (SealError ''refresh token is bound to a different identity or upstream link'')))"

definition seal_message :: "seal_error \<Rightarrow> string" where
  "seal_message e = (case e of SealError m \<Rightarrow> m | TypeError \<Rightarrow> ''TypeError'')"

fun set_refresh :: "string \<Rightarrow> string \<Rightarrow> link list \<Rightarrow> link list" where
  "set_refresh ident sealed [] = []"
| "set_refresh ident sealed (l # ls) = (if ln_id l = ident then l\<lparr>ln_refresh_token := Some sealed\<rparr> # ls else l # set_refresh ident sealed ls)"

definition storeRefreshToken :: "platform \<Rightarrow> bytes \<Rightarrow> config \<Rightarrow> 'd binding \<Rightarrow> local_record \<Rightarrow> link \<Rightarrow> string option \<Rightarrow> 'd \<Rightarrow>
    (string, local_record option) result \<times> 'd" where
  "storeRefreshToken pf iv c B r l token d =
     (if \<not> str_truthy token then (Inr (Some r), d)
      else if length (the token) > 16384 then (Inl ''upstream refresh credential is too large to retain'', d)
      else replace_local B r
             (\<lambda>next. next\<lparr>lr_upstreams := set_refresh (ln_id l) (sealUpstreamRefreshToken pf iv c (lr_id r) l (the token)) (lr_upstreams next)\<rparr>) d)"

text \<open>The links of a record after rekeying, and whether any was opened by an older secret. Each sealing draws its own
  initialisation vector.\<close>

fun rekey_links :: "platform \<Rightarrow> config \<Rightarrow> int \<Rightarrow> local_record \<Rightarrow> bytes list \<Rightarrow> link list \<Rightarrow> (string, link list \<times> bool) result" where
  "rekey_links pf c now r ivs [] = Inr ([], False)"
| "rekey_links pf c now r ivs (l # ls) =
     rbind (if \<not> str_truthy (ln_refresh_token l) then Inr (l, False)
            else (case openRefreshToken pf c now r l (the (ln_refresh_token l)) of Inl e \<Rightarrow> Inl (seal_message e)
                  | Inr (token, current) \<Rightarrow>
                      Inr (if current then (l, False)
                           else (l\<lparr>ln_refresh_token := Some (sealUpstreamRefreshToken pf (hd ivs) c (lr_id r) l token)\<rparr>, True))))
       (\<lambda>(l', ch). rbind (rekey_links pf c now r (tl ivs) ls) (\<lambda>(ls', chs). Inr (l' # ls', ch \<or> chs)))"

definition rekeyRecord :: "platform \<Rightarrow> bytes list \<Rightarrow> config \<Rightarrow> 'd binding \<Rightarrow> int \<Rightarrow> local_record \<Rightarrow> 'd \<Rightarrow>
    (string, local_record \<times> bool) result \<times> 'd" where
  "rekeyRecord pf ivs c B now r d =
     (case rekey_links pf c now r ivs (lr_upstreams r) of Inl e \<Rightarrow> (Inl e, d)
      | Inr (upstreams, changed) \<Rightarrow>
          if \<not> changed then (Inr (r, False), d)
          else (case replace_local B r (\<lambda>next. next\<lparr>lr_upstreams := upstreams\<rparr>) d of
                  (Inl e, d') \<Rightarrow> (Inl e, d')
                | (Inr None, d') \<Rightarrow> (Inl ''local identity changed while it was being rekeyed'', d')
                | (Inr (Some updated), d') \<Rightarrow> (Inr (updated, True), d')))"

definition without_json :: "string \<Rightarrow> string" where
  "without_json name = (if ends_with name ''.json'' then take (length name - 5) name else name)"

fun rekey_each :: "platform \<Rightarrow> bytes list \<Rightarrow> url_parser \<Rightarrow> config \<Rightarrow> 'd binding \<Rightarrow> int \<Rightarrow> string list \<Rightarrow> nat \<Rightarrow> nat \<Rightarrow> 'd \<Rightarrow>
    (string, nat \<times> nat) result \<times> 'd" where
  "rekey_each pf ivs parse_url c B now [] changed unchanged d = (Inr (changed, unchanged), d)"
| "rekey_each pf ivs parse_url c B now (name # names) changed unchanged d =
     (case rbind (bd_get B d (without_json name)) (\<lambda>doc. Inr (read_doc parse_url doc (without_json name))) of
        Inl e \<Rightarrow> (Inl e, d)
      | Inr None \<Rightarrow> (Inl (''local identity record '' @ name @ '' is malformed''), d)
      | Inr (Some r) \<Rightarrow>
          (case rekeyRecord pf ivs c B now r d of (Inl e, d') \<Rightarrow> (Inl e, d')
           | (Inr (_, ch), d') \<Rightarrow> rekey_each pf (drop (length (lr_upstreams r)) ivs) parse_url c B now names
               (if ch then changed + 1 else changed) (if ch then unchanged else unchanged + 1) d'))"

definition rekeyAll :: "platform \<Rightarrow> bytes list \<Rightarrow> url_parser \<Rightarrow> config \<Rightarrow> 'd binding \<Rightarrow> int \<Rightarrow> 'd \<Rightarrow> (string, nat \<times> nat) result \<times> 'd" where
  "rekeyAll pf ivs parse_url c B now d =
     (case bd_list B d of Inl e \<Rightarrow> (Inl e, d) | Inr names \<Rightarrow> rekey_each pf ivs parse_url c B now names 0 0 d)"

definition profileClaims :: "config \<Rightarrow> local_record option \<Rightarrow> json option" where
  "profileClaims c r = relayedClaims c (Option.bind r lr_claims) None"

definition requiresSecondFactor :: "local_record option \<Rightarrow> bool" where
  "requiresSecondFactor r = (case r of None \<Rightarrow> False | Some x \<Rightarrow> lr_mfa_required x)"

section \<open>Well-formed records\<close>

definition totp_wf :: "totp_cred \<Rightarrow> bool" where
  "totp_wf t \<longleftrightarrow> identity_id_ok (tc_id t) \<and> (\<forall>s. tc_label t = Some s \<longrightarrow> length s \<le> 128) \<and>
     (\<exists>key. decodeBase32 (tc_secret t) = Inr key \<and> encodeBase32 key = tc_secret t) \<and> length (tc_secret t) \<le> 256 \<and>
     tc_algorithm t \<in> {''SHA1'', ''SHA256'', ''SHA512''} \<and> tc_digits t \<in> {6, 8} \<and> 15 \<le> tc_period t \<and> tc_period t \<le> 120 \<and>
     (\<forall>n. tc_last_used_step t = Some n \<longrightarrow> 0 \<le> n \<and> n \<le> MAX_SAFE_INTEGER)"

definition backup_wf :: "backup_code \<Rightarrow> bool" where
  "backup_wf b \<longleftrightarrow> identity_id_ok (bk_id b) \<and> to_upper (bk_id b) = bk_id b \<and> approvedArgon2id (Some (JStr (bk_hash b))) = Some (bk_hash b)"

definition link_wf :: "url_parser \<Rightarrow> link \<Rightarrow> bool" where
  "link_wf parse_url l \<longleftrightarrow> identity_id_ok (ln_id l) \<and> SAFE_UPSTREAM (ln_upstream l) \<and> issuer_shape parse_url (ln_issuer l) \<and>
     1 \<le> length (ln_subject l) \<and> length (ln_subject l) \<le> 512 \<and> (\<forall>t. ln_refresh_token l = Some t \<longrightarrow> length t \<le> 32768)"

definition record_wf :: "url_parser \<Rightarrow> local_record \<Rightarrow> bool" where
  "record_wf parse_url r \<longleftrightarrow>
     identity_id_ok (lr_id r) \<and> 1 \<le> lr_revision r \<and> lr_revision r \<le> MAX_SAFE_INTEGER \<and>
     1 \<le> lr_security_version r \<and> lr_security_version r \<le> MAX_SAFE_INTEGER \<and>
     approvedArgon2id (Some (JStr (lr_password r))) = Some (lr_password r) \<and>
     list_all totp_wf (lr_totp r) \<and> length (lr_totp r) \<le> MAX_TOTP \<and>
     list_all backup_wf (lr_backup_codes r) \<and> length (lr_backup_codes r) \<le> MAX_BACKUP_CODES \<and>
     list_all (link_wf parse_url) (lr_upstreams r) \<and> length (lr_upstreams r) \<le> MAX_UPSTREAMS \<and>
     lists_ok (lr_totp r) (lr_backup_codes r) (lr_upstreams r) \<and>
     (lr_totp r \<noteq> [] \<or> lr_backup_codes r \<noteq> [] \<longrightarrow> lr_mfa_required r) \<and> claims_ok (lr_claims r)"

lemma guard_Some [simp]: "guard b x = Some y \<longleftrightarrow> b \<and> x = Some y"
  by (simp add: guard_def)

lemma guard_True [simp]: "guard True x = x"
  by (simp add: guard_def)

lemma hasOnlyFields_jobj: "list_all (\<lambda>(k, _). k \<in> set F) fs \<Longrightarrow> hasOnlyFields (jobj fs) F"
  by (auto simp: jobj.simps list_all_iff)

lemma those_map_Some: "list_all (\<lambda>x. f (g x) = Some x) xs \<Longrightarrow> those (map f (map g xs)) = Some xs"
  by (induction xs) auto

lemma those_Some: "those xs = Some ys \<longleftrightarrow> xs = map Some ys"
  by (induction xs arbitrary: ys) (auto split: option.splits)

lemma those_all: "those (map f xs) = Some ys \<Longrightarrow> (\<And>x y. f x = Some y \<Longrightarrow> P y) \<Longrightarrow> list_all P ys \<and> length ys = length xs"
  by (induction xs arbitrary: ys) (auto split: option.splits)

lemma upper_char_facts: "upper_char (upper_char c) = upper_char c \<and> (is_alnum c \<longrightarrow> is_alnum (upper_char c))"
proof -
  have "upper_char (upper_char c) = upper_char c \<and> (is_alnum c \<longrightarrow> is_alnum (upper_char c))" if "c = Char b0 b1 b2 b3 b4 b5 b6 b7"
    for b0 b1 b2 b3 b4 b5 b6 b7
    unfolding that by (cases b0; cases b1; cases b2; cases b3; cases b4; cases b5; cases b6; cases b7)
      (simp_all add: is_upper_def is_lower_def is_alnum_def is_digit_def)
  then show ?thesis by (cases c) blast
qed

lemma to_upper_idem [simp]: "to_upper (to_upper s) = to_upper s"
  by (simp add: to_upper_def upper_char_facts)

lemma length_base32_in: "bits < 8 \<Longrightarrow> 8 * length (base32_in acc bits cs) \<le> bits + 5 * length cs"
proof (induction cs arbitrary: acc bits)
  case (Cons ch cs)
  define acc' where "acc' = push_bit 5 acc OR js_index ch BASE32"
  show ?case
  proof (cases "8 \<le> bits + 5")
    case True
    have "8 * length (base32_in acc' (bits + 5 - 8) cs) \<le> bits + 5 - 8 + 5 * length cs" using Cons.prems by (intro Cons.IH) linarith
    with True show ?thesis by (simp add: Let_def acc'_def [symmetric])
  next
    case False
    with Cons.IH [of "bits + 5" acc'] show ?thesis by (simp add: Let_def acc'_def [symmetric])
  qed
qed simp

lemma base32_emit_length: "base32_emit acc bits = (out, rest) \<Longrightarrow> 5 * length out + rest = bits \<and> rest < 5"
proof (induction acc bits arbitrary: out rest rule: base32_emit.induct)
  case (1 acc bits)
  show ?case
  proof (cases "5 \<le> bits")
    case True
    obtain o' r' where e: "base32_emit acc (bits - 5) = (o', r')" by force
    with 1(1) [OF True refl this] 1(2) True show ?thesis by (subst (asm) base32_emit.simps) auto
  next
    case False
    with 1(2) show ?thesis by (subst (asm) base32_emit.simps) auto
  qed
qed

lemma length_base32_out: "bits < 5 \<Longrightarrow> 5 * length (base32_out acc bits bs) \<le> bits + 8 * length bs + 4"
proof (induction bs arbitrary: acc bits)
  case (Cons b bs)
  obtain out rest where e: "base32_emit (push_bit 8 acc OR u32 b) (bits + 8) = (out, rest)" by force
  from base32_emit_length [OF this] Cons.IH [of rest "push_bit 8 acc OR u32 b"] show ?case by (simp add: Let_def e)
qed simp

lemma length_strip_trailing: "length (strip_trailing ch s) \<le> length s"
  using length_dropWhile_le [of _ "rev s"] by (simp add: strip_trailing_def)

lemma length_normal_secret:
  assumes "decodeBase32 s = Inr key"
  shows "length (encodeBase32 key) \<le> length s"
proof -
  define u where "u = filter (\<lambda>c. c \<noteq> CHR ''-'') (filter (\<lambda>c. c \<noteq> CHR '' '') (to_upper s))"
  have key: "key = base32_in 0 0 (strip_trailing (CHR ''='') u)"
    using assms unfolding decodeBase32_def u_def [symmetric] Let_def by (simp split: if_splits)
  have "length u \<le> length (to_upper s)" unfolding u_def by (rule order_trans [OF length_filter_le length_filter_le])
  then have "length (strip_trailing (CHR ''='') u) \<le> length s" using length_strip_trailing [of "CHR ''=''" u] by simp
  moreover have "8 * length key \<le> 5 * length (strip_trailing (CHR ''='') u)" unfolding key using length_base32_in [of 0 0] by simp
  moreover have "5 * length (encodeBase32 key) \<le> 8 * length key + 4" using length_base32_out [of 0 0 key] by (simp add: encodeBase32_def)
  ultimately show ?thesis by linarith
qed

lemma identity_id_ok_upper: "identity_id_ok i \<Longrightarrow> identity_id_ok (to_upper i)"
proof -
  have "is_alnum ch \<or> ch = CHR ''_'' \<or> ch = CHR ''-'' \<Longrightarrow> is_alnum (upper_char ch) \<or> upper_char ch = CHR ''_'' \<or> upper_char ch = CHR ''-''" for ch
    using upper_char_facts [of ch] by (elim disjE) (simp_all add: is_lower_def)
  then show "identity_id_ok i \<Longrightarrow> identity_id_ok (to_upper i)" by (auto simp: identity_id_ok_def to_upper_def list_all_iff)
qed

lemma safe_integer_Some: "safe_integer v lo hi = Some n \<longleftrightarrow> as_num v = Some n \<and> lo \<le> n \<and> n \<le> hi \<and> n \<le> MAX_SAFE_INTEGER"
  by (auto simp: safe_integer_def split: option.splits)

lemma safe_id_of_Some: "safe_id_of v = Some i \<longleftrightarrow> as_str (jget v ''id'') = Some i \<and> identity_id_ok i"
  by (auto simp: safe_id_of_def split: option.splits)

lemma normaliseTotp_Some:
  assumes "normaliseTotp v = Some t"
  obtains raw key where "identity_id_ok (tc_id t)" "tc_label t = map_option (take 128) (as_str (jget v ''label''))"
    "length raw \<le> 256" "decodeBase32 raw = Inr key" "tc_secret t = encodeBase32 key" "tc_algorithm t \<in> {''SHA1'', ''SHA256'', ''SHA512''}"
    "tc_digits t \<in> {6, 8}" "15 \<le> tc_period t" "tc_period t \<le> 120" "tc_last_used_step t = as_num (jget v ''last_used_step'')"
    "jget v ''last_used_step'' = None \<or> safe_integer (jget v ''last_used_step'') 0 MAX_SAFE_INTEGER \<noteq> None"
proof -
  from assms obtain ident where i: "safe_id_of v = Some ident"
    by (auto simp: normaliseTotp_def bind_eq_Some_conv)
  from assms i obtain raw where r: "as_str (jget v ''secret'') = Some raw" "length raw \<le> 256"
    by (auto simp: normaliseTotp_def Let_def bind_eq_Some_conv)
  from assms i r obtain key where "decodeBase32 raw = Inr key"
    by (cases "decodeBase32 raw") (auto simp: normaliseTotp_def Let_def)
  with assms i r show thesis by (intro that) (auto simp: normaliseTotp_def Let_def safe_id_of_Some)
qed

lemma normaliseTotp_wf: "normaliseTotp v = Some t \<Longrightarrow> totp_wf t"
proof (erule normaliseTotp_Some)
  fix raw key
  assume a: "identity_id_ok (tc_id t)" "tc_label t = map_option (take 128) (as_str (jget v ''label''))"
    "length raw \<le> 256" "decodeBase32 raw = Inr key" "tc_secret t = encodeBase32 key" "tc_algorithm t \<in> {''SHA1'', ''SHA256'', ''SHA512''}"
    "tc_digits t \<in> {6, 8}" "15 \<le> tc_period t" "tc_period t \<le> 120" "tc_last_used_step t = as_num (jget v ''last_used_step'')"
    "jget v ''last_used_step'' = None \<or> safe_integer (jget v ''last_used_step'') 0 MAX_SAFE_INTEGER \<noteq> None"
  from a(10,11) have "\<forall>n. tc_last_used_step t = Some n \<longrightarrow> 0 \<le> n \<and> n \<le> MAX_SAFE_INTEGER" by (auto simp: safe_integer_Some)
  moreover have "length (tc_secret t) \<le> 256" using length_normal_secret [OF a(4)] a(3,5) by simp
  ultimately show ?thesis using a(1,2,5,6-9) decodeBase32_normal_form [OF a(4)] by (auto simp: totp_wf_def)
qed

lemma normaliseBackup_wf: "normaliseBackup v = Some b \<Longrightarrow> backup_wf b"
  by (auto simp: normaliseBackup_def backup_wf_def bind_eq_Some_conv safe_id_of_def approvedArgon2id_def identity_id_ok_upper
      split: option.splits if_splits json.splits)

lemma normaliseLink_wf: "normaliseLocalUpstreamLink parse_url v i = Some l \<Longrightarrow> link_wf parse_url l"
  by (auto simp: normaliseLocalUpstreamLink_def link_wf_def bind_eq_Some_conv Let_def split: option.splits)

lemma totp_json_get:
  "jget (totp_json t) ''id'' = Some (JStr (tc_id t))" "jget (totp_json t) ''label'' = map_option JStr (tc_label t)"
  "jget (totp_json t) ''secret'' = Some (JStr (tc_secret t))" "jget (totp_json t) ''algorithm'' = Some (JStr (tc_algorithm t))"
  "jget (totp_json t) ''digits'' = Some (JNum (tc_digits t))" "jget (totp_json t) ''period'' = Some (JNum (tc_period t))"
  "jget (totp_json t) ''last_used_step'' = map_option JNum (tc_last_used_step t)"
  "is_obj (totp_json t)" "hasOnlyFields (totp_json t) TOTP_FIELDS"
  by (simp_all add: totp_json_def hasOnlyFields_jobj TOTP_FIELDS_def)

lemma as_optional [simp]: "as_str (map_option JStr x) = x" "as_num (map_option JNum y) = y"
  by (cases x; simp) (cases y; simp)

lemma totp_json_back:
  assumes "totp_wf t"
  shows "normaliseTotp (totp_json t) = Some t"
proof -
  note wf = assms [unfolded totp_wf_def]
  from wf obtain key where key: "decodeBase32 (tc_secret t) = Inr key" "encodeBase32 key = tc_secret t" by blast
  have alg: "filter (\<lambda>ch. ch \<noteq> CHR ''-'') (to_upper (tc_algorithm t)) = tc_algorithm t"
    using wf by (auto simp: is_lower_def)
  have label: "map_option (take 128) (tc_label t) = tc_label t" using wf by (cases "tc_label t") auto
  have last: "tc_last_used_step t = None \<or> safe_integer (map_option JNum (tc_last_used_step t)) 0 MAX_SAFE_INTEGER \<noteq> None"
    using wf by (cases "tc_last_used_step t") (auto simp: safe_integer_def)
  have mem: "opt_member as_str (totp_json t) ''label''" by (cases "tc_label t") (simp_all add: opt_member_def totp_json_get)
  show ?thesis
    unfolding normaliseTotp_def using wf mem key alg label last
    by (simp add: totp_json_get safe_id_of_def opt_member_def coalesce_def Let_def)
qed

lemma backup_json_back: "backup_wf b \<Longrightarrow> normaliseBackup (backup_json b) = Some b"
  by (simp add: backup_wf_def normaliseBackup_def backup_json_def safe_id_of_def hasOnlyFields_jobj BACKUP_FIELDS_def)

lemma link_json_back: "link_wf parse_url l \<Longrightarrow> normaliseLocalUpstreamLink parse_url (link_json l) i = Some l"
  by (cases "ln_refresh_token l")
    (simp_all add: link_wf_def normaliseLocalUpstreamLink_def link_json_def opt_member_def hasOnlyFields_jobj UPSTREAM_FIELDS_def coalesce_def)

lemma bounded_array_Some: "bounded_array doc k most = Some xs \<Longrightarrow> length xs \<le> most"
  by (auto simp: bounded_array_def split: option.splits json.splits)

lemma parse_factors_wf:
  assumes "parse_factors parse_url doc = Some (totp, backup, upstreams)"
  shows "list_all totp_wf totp \<and> length totp \<le> MAX_TOTP" "list_all backup_wf backup \<and> length backup \<le> MAX_BACKUP_CODES"
    "list_all (link_wf parse_url) upstreams \<and> length upstreams \<le> MAX_UPSTREAMS" "lists_ok totp backup upstreams"
proof -
  from assms obtain rt rb ru where raw: "bounded_array doc ''totp'' MAX_TOTP = Some rt" "bounded_array doc ''backup_codes'' MAX_BACKUP_CODES = Some rb"
    "bounded_array doc ''upstreams'' MAX_UPSTREAMS = Some ru"
    and those: "those (map normaliseTotp rt) = Some totp" "those (map normaliseBackup rb) = Some backup"
      "those (map (\<lambda>(v, i). normaliseLocalUpstreamLink parse_url v i) (zip ru [0..<length ru])) = Some upstreams"
    and ok: "lists_ok totp backup upstreams"
    by (auto simp: parse_factors_def bind_eq_Some_conv)
  show "list_all totp_wf totp \<and> length totp \<le> MAX_TOTP"
    using those_all [OF those(1), of totp_wf] normaliseTotp_wf bounded_array_Some [OF raw(1)] by auto
  show "list_all backup_wf backup \<and> length backup \<le> MAX_BACKUP_CODES"
    using those_all [OF those(2), of backup_wf] normaliseBackup_wf bounded_array_Some [OF raw(2)] by auto
  show "list_all (link_wf parse_url) upstreams \<and> length upstreams \<le> MAX_UPSTREAMS"
    using those_all [OF those(3), of "link_wf parse_url"] normaliseLink_wf bounded_array_Some [OF raw(3)] by auto
  show "lists_ok totp backup upstreams" by (rule ok)
qed

lemma parse_wf:
  assumes "parseLocalIdentityRecord parse_url doc key = Some r"
  shows "record_wf parse_url r" "lr_key r = key"
proof -
  from assms obtain totp backup upstreams where f: "parse_factors parse_url doc = Some (totp, backup, upstreams)"
    by (auto simp: parseLocalIdentityRecord_def bind_eq_Some_conv)
  note wf = parse_factors_wf [OF f]
  have arg: "approvedArgon2id v = Some p \<Longrightarrow> approvedArgon2id (Some (JStr p)) = Some p" for v p
    by (auto simp: approvedArgon2id_def split: option.splits json.splits if_splits)
  from assms f wf arg show "record_wf parse_url r"
    by (auto simp: parseLocalIdentityRecord_def record_wf_def bind_eq_Some_conv safe_id_of_Some safe_integer_Some)
  from assms f show "lr_key r = key" by (auto simp: parseLocalIdentityRecord_def bind_eq_Some_conv)
qed

lemma stored_get:
  "jget (storedRecord r) ''v'' = Some (JNum RECORD_VERSION)" "jget (storedRecord r) ''id'' = Some (JStr (lr_id r))"
  "jget (storedRecord r) ''revision'' = Some (JNum (lr_revision r))" "jget (storedRecord r) ''security_version'' = Some (JNum (lr_security_version r))"
  "jget (storedRecord r) ''disabled'' = (if lr_disabled r then Some (JBool True) else None)"
  "jget (storedRecord r) ''mfa_required'' = (if lr_mfa_required r then Some (JBool True) else None)"
  "jget (storedRecord r) ''password'' = Some (JStr (lr_password r))" "jget (storedRecord r) ''claims'' = lr_claims r"
  "jget (storedRecord r) ''totp'' = Some (JArr (map totp_json (lr_totp r)))"
  "jget (storedRecord r) ''backup_codes'' = Some (JArr (map backup_json (lr_backup_codes r)))"
  "jget (storedRecord r) ''upstreams'' = Some (JArr (map link_json (lr_upstreams r)))"
  "is_obj (storedRecord r)" "hasOnlyFields (storedRecord r) RECORD_FIELDS"
  by (simp_all add: storedRecord_def hasOnlyFields_jobj RECORD_FIELDS_def)

lemma those_zip_links:
  "list_all (link_wf parse_url) ls \<Longrightarrow> length is = length ls \<Longrightarrow>
   those (map (\<lambda>(v, i). normaliseLocalUpstreamLink parse_url v i) (zip (map link_json ls) is)) = Some ls"
  by (induction ls arbitrary: "is") (auto simp: link_json_back length_Suc_conv)

lemma stored_factors:
  assumes "record_wf parse_url r"
  shows "parse_factors parse_url (storedRecord r) = Some (lr_totp r, lr_backup_codes r, lr_upstreams r)"
proof -
  note wf = assms [unfolded record_wf_def]
  have "those (map normaliseTotp (map totp_json (lr_totp r))) = Some (lr_totp r)"
    by (rule those_map_Some) (use wf in \<open>auto simp: list_all_iff totp_json_back\<close>)
  moreover have "those (map normaliseBackup (map backup_json (lr_backup_codes r))) = Some (lr_backup_codes r)"
    by (rule those_map_Some) (use wf in \<open>auto simp: list_all_iff backup_json_back\<close>)
  ultimately show ?thesis
    unfolding parse_factors_def using wf those_zip_links [of parse_url "lr_upstreams r" "[0..<length (lr_upstreams r)]"]
    by (simp add: bounded_array_def stored_get)
qed

lemma stored_back:
  assumes "record_wf parse_url r"
  shows "parseLocalIdentityRecord parse_url (storedRecord r) (lr_key r) = Some r"
proof -
  note wf = assms [unfolded record_wf_def]
  have "safe_id_of (storedRecord r) = Some (lr_id r)" using wf by (simp add: safe_id_of_def stored_get)
  moreover have "opt_member as_bool (storedRecord r) ''disabled''" "opt_member as_bool (storedRecord r) ''mfa_required''"
    by (auto simp: opt_member_def stored_get)
  moreover have "safe_integer (jget (storedRecord r) ''revision'') 1 MAX_SAFE_INTEGER = Some (lr_revision r)"
    "safe_integer (jget (storedRecord r) ''security_version'') 1 MAX_SAFE_INTEGER = Some (lr_security_version r)"
    using wf by (simp_all add: safe_integer_Some stored_get)
  moreover have "approvedArgon2id (jget (storedRecord r) ''password'') = Some (lr_password r)" using wf by (simp add: stored_get)
  moreover have "lr_mfa_required r \<longleftrightarrow> lr_mfa_required r \<or> lr_totp r \<noteq> [] \<or> lr_backup_codes r \<noteq> []" using wf by auto
  ultimately show ?thesis
    unfolding parseLocalIdentityRecord_def using wf stored_factors [OF assms]
    by (auto simp: stored_get(1,5,6,8,12,13) intro!: local_record.equality)
qed

text \<open>Spending a factor and the next revision keep a record well formed.\<close>

lemma mark_step_facts:
  "map tc_id (mark_step i s ts) = map tc_id ts" "map tc_secret (mark_step i s ts) = map tc_secret ts"
  "length (mark_step i s ts) = length ts" "mark_step i s ts = [] \<longleftrightarrow> ts = []"
  "list_all totp_wf ts \<Longrightarrow> 0 \<le> s \<Longrightarrow> s \<le> MAX_SAFE_INTEGER \<Longrightarrow> list_all totp_wf (mark_step i s ts)"
  "i \<in> tc_id ` set ts \<Longrightarrow> \<exists>t\<in>set (mark_step i s ts). tc_id t = i \<and> tc_last_used_step t = Some s"
  by (induction ts) (auto simp: totp_wf_def)

lemma distinct_filter_map: "distinct (map f xs) \<Longrightarrow> distinct (map f (filter P xs))"
  by (induction xs) auto

lemma drop_backup_wf: "record_wf parse_url r \<Longrightarrow> record_wf parse_url (drop_backup i r)"
  by (auto simp: record_wf_def drop_backup_def lists_ok_def list_all_iff distinct_filter_map
      intro: order_trans [OF length_filter_le])

lemma spend_totp_wf: "record_wf parse_url r \<Longrightarrow> 0 \<le> s \<Longrightarrow> s \<le> MAX_SAFE_INTEGER \<Longrightarrow> record_wf parse_url (spend_totp i s r)"
  by (auto simp: record_wf_def spend_totp_def lists_ok_def mark_step_facts)

lemma revision_wf:
  "record_wf parse_url r \<Longrightarrow> 1 \<le> n \<Longrightarrow> n \<le> MAX_SAFE_INTEGER \<Longrightarrow> record_wf parse_url (r\<lparr>lr_revision := n, lr_key := k\<rparr>)"
  by (simp add: record_wf_def)

section \<open>Spending\<close>

lemma replace_local_Some:
  assumes "replace_local B r mutate d = (Inr (Some u), d')"
  shows "u = (mutate r)\<lparr>lr_revision := lr_revision r + 1, lr_key := lr_key r\<rparr>"
    "bd_replace B (lr_key r) (lr_revision r) (storedRecord u) d = (Inr True, d')"
proof -
  define w where "w = (mutate r)\<lparr>lr_revision := lr_revision r + 1\<rparr>"
  obtain x d1 where x: "bd_replace B (lr_key r) (lr_revision r) (storedRecord w) d = (x, d1)" by force
  from assms x have u: "x = Inr True" "d1 = d'" "u = w\<lparr>lr_key := lr_key r\<rparr>"
    by (auto simp: replace_local_def Let_def w_def [symmetric] split: if_splits)
  then show "u = (mutate r)\<lparr>lr_revision := lr_revision r + 1, lr_key := lr_key r\<rparr>" by (simp add: w_def)
  have "storedRecord u = storedRecord w" by (simp add: u(3) storedRecord_def)
  with x u show "bd_replace B (lr_key r) (lr_revision r) (storedRecord u) d = (Inr True, d')" by simp
qed

lemma second_factor_success:
  assumes "verifySecondFactor pf c B r code now True d = (Inr (Some (via, r')), d')"
  obtains (backup) b whole where "presented_backup r code = Some (b, whole)" "bd_verify B (bk_hash b) whole = Inr True" "via = Recovery"
      "replace_local B r (drop_backup (bk_id b)) d = (Inr (Some r'), d')"
  | (totp) t step where "presented_backup r code = None" "first_totp pf c code now (lr_totp r) = Inr (Some (t, step))" "via = Totp_Factor"
      "replace_local B r (spend_totp (tc_id t) step) d = (Inr (Some r'), d')"
proof -
  have spent: "replace_local B r m d = (Inr (Some r'), d') \<and> via = w" if "spend B True w r m d = (Inr (Some (via, r')), d')" for w m
    using that by (cases "replace_local B r m d") (auto simp: spend_def)
  show thesis
  proof (cases "presented_backup r code")
    case None
    with assms obtain t step where "first_totp pf c code now (lr_totp r) = Inr (Some (t, step))"
      "spend B True Totp_Factor r (spend_totp (tc_id t) step) d = (Inr (Some (via, r')), d')"
      by (auto simp: verifySecondFactor_def split: sum.splits option.splits)
    with None spent show thesis by (intro totp) auto
  next
    case (Some bw)
    obtain b whole where "bw = (b, whole)" by force
    with Some assms spent show thesis
      by (intro backup) (auto simp: verifySecondFactor_def rescue_def split: if_splits sum.splits)
  qed
qed

lemma first_totp_Some:
  "first_totp pf c code now ts = Inr (Some (t, step)) \<Longrightarrow> t \<in> set ts \<and> verifyTotp (pf_hmac pf) (cred_args c t) code now = Inr (Some step)"
  by (induction ts) (auto split: sum.splits option.splits)

lemma accepted_step:
  assumes "verifyTotp hm (cred_args c t) code now = Inr (Some s)"
  shows "0 \<le> s" "s \<le> MAX_SAFE_INTEGER" "\<forall>l. tc_last_used_step t = Some l \<longrightarrow> l < s"
    "totpForStep hm (tc_secret t) s (tc_algorithm t) (tc_digits t) = Inr (presented_code code)"
  using verifyTotp_accepts [OF assms]
  by (auto simp: cred_args_def totpForStep_def MAX_SAFE_INTEGER_def split: if_splits)

lemma file_binding_simps [simp]:
  "bd_get (file_binding argon bytes_of io) = readRecord" "bd_replace (file_binding argon bytes_of io) = replace_record bytes_of io"
  "bd_verify (file_binding argon bytes_of io) = argon2id_verify argon" "bd_list (file_binding argon bytes_of io) = list_records"
  by (simp_all add: file_binding_def)

text \<open>A replacement through the files installs the record, which reads back as it was written, and no other replacement of the
  revision it was made against can succeed afterwards.\<close>

lemma replaced_record:
  assumes "replace_local (file_binding argon bytes_of io) r mutate d = (Inr (Some u), d')" "record_wf parse_url (mutate r)"
  shows "readRecord d' (lr_key r) = Inr (Some (storedRecord u))" "read_doc parse_url (Some (storedRecord u)) (lr_key r) = Some u"
    "record_wf parse_url u"
proof -
  note u = replace_local_Some [OF assms(1), simplified]
  from u(2) obtain n where "checkedDocument bytes_of (storedRecord u) (lr_revision r) = Inr n" by (rule replace_record_changes) simp_all
  note c = checkedDocument_Inr [OF this]
  have "record_wf parse_url ((mutate r)\<lparr>lr_revision := lr_revision r + 1, lr_key := lr_key r\<rparr>)"
    using c(3,4) by (intro revision_wf assms(2))
  then show wf: "record_wf parse_url u" by (simp add: u(1))
  show "readRecord d' (lr_key r) = Inr (Some (storedRecord u))" using files.replaced [OF u(2)] by simp
  have "lr_key u = lr_key r" by (simp add: u(1))
  then show "read_doc parse_url (Some (storedRecord u)) (lr_key r) = Some u" using stored_back [OF wf] by (simp add: read_doc_def)
qed

lemma stale_replacement:
  assumes "replace_local (file_binding argon bytes_of io) r mutate d = (Inr (Some u), d')"
    and "lr_key r2 = lr_key r" "lr_revision r2 = lr_revision r"
  shows "fst (replace_local (file_binding argon2 bytes_of io2) r2 mutate2 (snd (files.updates bytes_of d' us))) \<noteq> Inr (Some v)"
proof
  let ?d = "snd (files.updates bytes_of d' us)"
  assume "fst (replace_local (file_binding argon2 bytes_of io2) r2 mutate2 ?d) = Inr (Some v)"
  then obtain d2 where "replace_local (file_binding argon2 bytes_of io2) r2 mutate2 ?d = (Inr (Some v), d2)" by (metis prod.collapse)
  from replace_local_Some(2) [OF this, simplified] assms(2,3)
  have "fst (replace_record bytes_of io2 (lr_key r) (lr_revision r) (storedRecord v) ?d) = Inr True" by simp
  with files.one_winner [OF replace_local_Some(2) [OF assms(1), simplified]] show False by blast
qed

lemma stale_second_factor:
  assumes "replace_local (file_binding argon bytes_of io) r mutate d = (Inr (Some u), d')"
    and "lr_key r2 = lr_key r" "lr_revision r2 = lr_revision r"
  shows "fst (verifySecondFactor pf c (file_binding argon2 bytes_of io2) r2 code2 now2 True (snd (files.updates bytes_of d' us))) \<noteq> Inr (Some x)"
proof
  let ?d = "snd (files.updates bytes_of d' us)"
  assume "fst (verifySecondFactor pf c (file_binding argon2 bytes_of io2) r2 code2 now2 True ?d) = Inr (Some x)"
  then obtain d2 via v where "verifySecondFactor pf c (file_binding argon2 bytes_of io2) r2 code2 now2 True ?d = (Inr (Some (via, v)), d2)"
    by (metis prod.collapse)
  then show False
    by (rule second_factor_success) (use stale_replacement [OF assms] in \<open>metis fst_conv\<close>)+
qed

lemma dropped_backup_gone: "presented_backup r code = Some (b, whole) \<Longrightarrow> b \<in> set (lr_backup_codes r) \<and> presented_backup (drop_backup (bk_id b) r) code = None"
  by (auto simp: presented_backup_def drop_backup_def bind_eq_Some_conv find_Some_iff find_None_iff split: option.splits)

section \<open>Properties\<close>

definition sample_key :: string where "sample_key = replicate 64 (CHR ''0'')"

definition sample_argon :: argon where "sample_argon m t p salt n password = Inr (replicate n 7)"

definition sample_phc :: phc where
  "sample_phc = \<lparr>ph_memory = 65536, ph_passes = 3, ph_parallelism = 1, ph_salt = replicate 16 1, ph_tag = replicate 32 7\<rparr>"

definition sample_local :: local_record where
  "sample_local = \<lparr>lr_id = ''u1'', lr_revision = 4, lr_security_version = 1, lr_disabled = False, lr_mfa_required = True,
     lr_password = phc_text sample_phc,
     lr_totp = [\<lparr>tc_id = ''t1'', tc_label = None, tc_secret = encodeBase32 (replicate 10 1), tc_algorithm = ''SHA1'', tc_digits = 6,
        tc_period = 30, tc_last_used_step = Some 2\<rparr>],
     lr_backup_codes = [\<lparr>bk_id = ''AB'', bk_hash = phc_text sample_phc\<rparr>, \<lparr>bk_id = ''CD'', bk_hash = phc_text sample_phc\<rparr>],
     lr_upstreams = [], lr_claims = None, lr_key = sample_key\<rparr>"

definition sample_dir :: directory where
  "sample_dir = Dir [(sample_key, \<lparr>sf_symlink = False, sf_regular = True, sf_private = True, sf_bytes = 100,
     sf_doc = Some (storedRecord sample_local)\<rparr>)]"

lemma sample_phc_ok: "phc_ok sample_phc" "argon2id_verify sample_argon (phc_text sample_phc) ''AB-1234'' = Inr True"
proof -
  show ok: "phc_ok sample_phc" by (simp add: phc_ok_def sample_phc_def)
  show "argon2id_verify sample_argon (phc_text sample_phc) ''AB-1234'' = Inr True"
    unfolding argon2id_verify_def parse_phc_text [OF ok]
    by (simp add: passwordBytes_def MAX_PASSWORD_BYTES_def utf8_def sample_argon_def sample_phc_def)
qed

lemma sample_numbers: "show_nat 65536 = ''65536''" "show_nat 3 = ''3''" "show_nat 1 = ''1''"
  by code_simp+

lemma sample_approved: "approvedArgon2id (Some (JStr (phc_text sample_phc))) = Some (phc_text sample_phc)"
proof -
  have "phc_text sample_phc = ''$argon2id$v=19$m=65536,t=3,p=1$'' @ unpaddedBase64 (replicate 16 1) @ ''$'' @ unpaddedBase64 (replicate 32 7)"
    by (simp add: phc_text_def sample_phc_def sample_numbers del: One_nat_def replicate.simps)
  then have "starts_with (phc_text sample_phc) ''$argon2id$v=19$m=65536,t=3,p=1$''" by (simp add: starts_with_def)
  moreover have "length (phc_text sample_phc) \<le> 512" using length_phc_text [OF sample_phc_ok(1)] by (simp add: MAX_PHC_LENGTH_def)
  ultimately show ?thesis by (simp add: approvedArgon2id_def)
qed

lemma sample_local_wf: "record_wf (\<lambda>_. None) sample_local"
proof -
  have "decodeBase32 (encodeBase32 (replicate 10 1)) = Inr (replicate 10 1)" by (rule decodeBase32_encodeBase32) simp
  moreover have "length (encodeBase32 (replicate 10 1)) \<le> 256" using length_base32_out [of 0 0 "replicate 10 1"] by (simp add: encodeBase32_def)
  ultimately show ?thesis using sample_approved
    by (simp add: record_wf_def sample_local_def totp_wf_def backup_wf_def identity_id_ok_def lists_ok_def MAX_SAFE_INTEGER_def
        MAX_TOTP_def MAX_BACKUP_CODES_def MAX_UPSTREAMS_def is_alnum_def is_upper_def is_lower_def is_digit_def)
qed

lemma sample_parse: "parseLocalIdentityRecord (\<lambda>_. None) (storedRecord sample_local) sample_key = Some sample_local"
proof -
  have "lr_key sample_local = sample_key" by (simp add: sample_local_def)
  with stored_back [OF sample_local_wf] show ?thesis by simp
qed

lemma sample_backup: "presented_backup sample_local (Some ''ab-1234'') = Some (\<lparr>bk_id = ''AB'', bk_hash = phc_text sample_phc\<rparr>, ''AB-1234'')"
  by (simp add: presented_backup_def backupSelector_def coalesce_def is_space_def is_lower_def identity_id_ok_def
      is_alnum_def is_upper_def is_digit_def sample_local_def)

lemma sample_replace:
  "lr_revision u = 5 \<Longrightarrow> replace_record (\<lambda>_. 100) None sample_key 4 (storedRecord u) sample_dir =
    (Inr True, Dir [(sample_key, \<lparr>sf_symlink = False, sf_regular = True, sf_private = True, sf_bytes = 100, sf_doc = Some (storedRecord u)\<rparr>)])"
proof -
  assume u: "lr_revision u = 5"
  have k: "checkedKey sample_key = Inr sample_key" by (simp add: checkedKey_def record_key_def sample_key_def HEX_DIGITS_def list_all_iff)
  moreover have "readRecord sample_dir sample_key = Inr (Some (storedRecord sample_local))"
    by (simp add: readRecord_def k sample_dir_def file_document_def MAX_RECORD_BYTES_def stored_get checkedRevision_def MAX_SAFE_INTEGER_def
        sample_local_def Let_def)
  moreover have "current_revision (Some (storedRecord sample_local)) = 4" by (simp add: current_revision_def stored_get coalesce_def sample_local_def)
  moreover have "writeAtomic sample_dir sample_key 100 (storedRecord u) =
      Inr (Dir [(sample_key, \<lparr>sf_symlink = False, sf_regular = True, sf_private = True, sf_bytes = 100, sf_doc = Some (storedRecord u)\<rparr>)])"
    by (simp add: writeAtomic_def sample_dir_def Let_def)
  ultimately show ?thesis
    using u by (simp add: replace_record_def checkedRevision_def checkedDocument_def ok_or_def stored_get MAX_SAFE_INTEGER_def MAX_RECORD_BYTES_def Let_def)
qed

lemma sample_spend:
  "\<exists>d'. verifySecondFactor (toy_platform JNull) sample_config (file_binding sample_argon (\<lambda>_. 100) None) sample_local (Some ''ab-1234'') 0 True sample_dir =
     (Inr (Some (Recovery, (drop_backup ''AB'' sample_local)\<lparr>lr_revision := 5\<rparr>)), d')"
proof -
  have "lr_revision sample_local = 4" "lr_key sample_local = sample_key" by (simp_all add: sample_local_def)
  then show ?thesis
    by (simp add: verifySecondFactor_def sample_backup sample_phc_ok(2) spend_def replace_local_def Let_def sample_replace)
       (simp add: drop_backup_def sample_local_def)
qed

text \<open>C7: spending a second factor. The updated record is what the file holds and reads back as, the code that was accepted is
  gone from it (a recovery code by its identifier, a time-based code by its step, which was later than every step used before),
  the account still demands a second factor, and no request that read the same revision can spend any factor afterwards,
  whatever it presents and whatever other replacements happen in between.\<close>

theorem second_factor_spent:
  assumes "verifySecondFactor pf c (file_binding argon bytes_of io) r code now True d = (Inr (Some (via, r')), d')"
    and "parseLocalIdentityRecord parse_url doc (lr_key r) = Some r"
  shows "readRecord d' (lr_key r) = Inr (Some (storedRecord r')) \<and>
    parseLocalIdentityRecord parse_url (storedRecord r') (lr_key r) = Some r' \<and> lr_mfa_required r' \<and>
    (case via of
       Recovery \<Rightarrow> \<exists>b whole. presented_backup r code = Some (b, whole) \<and> argon2id_verify argon (bk_hash b) whole = Inr True \<and>
         b \<in> set (lr_backup_codes r) \<and> presented_backup r' code = None
     | Totp_Factor \<Rightarrow> \<exists>t\<in>set (lr_totp r). \<exists>s. totpForStep (pf_hmac pf) (tc_secret t) s (tc_algorithm t) (tc_digits t) = Inr (presented_code code) \<and>
         (\<forall>l. tc_last_used_step t = Some l \<longrightarrow> l < s) \<and> (\<exists>t'\<in>set (lr_totp r'). tc_id t' = tc_id t \<and> tc_last_used_step t' = Some s)) \<and>
    (\<forall>r2 pf2 code2 now2 argon2 io2 us x. lr_key r2 = lr_key r \<and> lr_revision r2 = lr_revision r \<longrightarrow>
       fst (verifySecondFactor pf2 c (file_binding argon2 bytes_of io2) r2 code2 now2 True (snd (files.updates bytes_of d' us))) \<noteq> Inr (Some x))"
proof -
  note wf = parse_wf [OF assms(2)]
  from assms(1) show ?thesis
  proof (cases rule: second_factor_success)
    case (backup b whole)
    note u = replace_local_Some(1) [OF backup(4)]
    note w = replaced_record [OF backup(4) drop_backup_wf [OF wf(1)]]
    have "presented_backup r' code = presented_backup (drop_backup (bk_id b) r) code" by (simp add: u presented_backup_def)
    moreover from dropped_backup_gone [OF backup(1)] have "lr_mfa_required r" using wf(1) by (auto simp: record_wf_def)
    ultimately show ?thesis
      using w backup dropped_backup_gone [OF backup(1)] stale_second_factor [OF backup(4)]
      by (simp add: read_doc_def u drop_backup_def)
  next
    case (totp t step)
    note u = replace_local_Some(1) [OF totp(4)]
    from first_totp_Some [OF totp(2)] have t: "t \<in> set (lr_totp r)" "verifyTotp (pf_hmac pf) (cred_args c t) code now = Inr (Some step)" by auto
    note s = accepted_step [OF t(2)]
    note w = replaced_record [OF totp(4) spend_totp_wf [OF wf(1) s(1,2)]]
    have "lr_totp r' = mark_step (tc_id t) step (lr_totp r)" by (simp add: u spend_totp_def)
    with mark_step_facts(6) [of "tc_id t" "lr_totp r" step] t(1)
    have m: "\<exists>t'\<in>set (lr_totp r'). tc_id t' = tc_id t \<and> tc_last_used_step t' = Some step" by auto
    have "lr_mfa_required r" using wf(1) t(1) by (auto simp: record_wf_def)
    then have "lr_mfa_required r'" by (simp add: u spend_totp_def)
    moreover have "\<exists>t\<in>set (lr_totp r). \<exists>s. totpForStep (pf_hmac pf) (tc_secret t) s (tc_algorithm t) (tc_digits t) = Inr (presented_code code) \<and>
         (\<forall>l. tc_last_used_step t = Some l \<longrightarrow> l < s) \<and> (\<exists>t'\<in>set (lr_totp r'). tc_id t' = tc_id t \<and> tc_last_used_step t' = Some s)"
      using t(1) s(3,4) m by blast
    ultimately show ?thesis
      using w totp(3) stale_second_factor [OF totp(4)] by (simp add: read_doc_def)
  qed
qed

theorem second_factor_spent_witness:
  "\<exists>d'. readRecord d' sample_key = Inr (Some (storedRecord ((drop_backup ''AB'' sample_local)\<lparr>lr_revision := 5\<rparr>))) \<and>
    fst (verifySecondFactor (toy_platform JNull) sample_config (file_binding sample_argon (\<lambda>_. 100) None) sample_local (Some ''CD-99'') 5 True d') \<noteq>
      Inr (Some (Recovery, sample_local))"
proof -
  obtain d' where run: "verifySecondFactor (toy_platform JNull) sample_config (file_binding sample_argon (\<lambda>_. 100) None) sample_local (Some ''ab-1234'') 0 True sample_dir =
     (Inr (Some (Recovery, (drop_backup ''AB'' sample_local)\<lparr>lr_revision := 5\<rparr>)), d')" using sample_spend by blast
  have key: "lr_key sample_local = sample_key" by (simp add: sample_local_def)
  note all = second_factor_spent [OF run, unfolded key, OF sample_parse]
  from all have "fst (verifySecondFactor (toy_platform JNull) sample_config (file_binding sample_argon (\<lambda>_. 100) None) sample_local (Some ''CD-99'') 5 True
      (snd (files.updates (\<lambda>_. 100) d' []))) \<noteq> Inr (Some (Recovery, sample_local))" using key by blast
  with all show ?thesis by auto
qed

text \<open>A record that was read survives the rewriting of a state change: the stored form of a parsed record parses to it again,
  so an update never loses a claim, a factor or a link and never turns a readable record into a malformed one.\<close>

lemma local_record_roundtrip:
  assumes "parseLocalIdentityRecord parse_url doc key = Some r"
  shows "parseLocalIdentityRecord parse_url (storedRecord r) key = Some r"
  using stored_back [OF parse_wf(1) [OF assms]] parse_wf(2) [OF assms] by simp

end
