(* ===== verification/Mail_Hint.thy ===== *)
theory Mail_Hint
  imports Clients
begin

text \<open>
  Guessing the provider of a domain from its mail records, \<^verbatim>\<open>src/upstream/dns.js\<close>, with its bounded cache.
\<close>

section \<open>Fingerprints\<close>

record fingerprint =
  fp_provider :: string
  fp_mx :: "string list"
  fp_spf :: "string list"

definition FINGERPRINTS :: "fingerprint list" where
  "FINGERPRINTS =
     [\<lparr>fp_provider = ''microsoft'',
        fp_mx = [''mail.protection.outlook.com'', ''mail.eo.outlook.com'', ''olc.protection.outlook.com'', ''outlook.com''],
        fp_spf = [''spf.protection.outlook.com'', ''spf.messaging.microsoft.com'', ''spf.protection.office365.us'']\<rparr>,
      \<lparr>fp_provider = ''google'', fp_mx = [''aspmx.l.google.com'', ''googlemail.com'', ''aspmx.google.com'', ''smtp.google.com''],
        fp_spf = [''_spf.google.com'']\<rparr>,
      \<lparr>fp_provider = ''yahoo'', fp_mx = [''yahoodns.net'', ''yahoo.com''], fp_spf = [''spf.mail.yahoo.com'']\<rparr>,
      \<lparr>fp_provider = ''apple'', fp_mx = [''icloud.com'', ''mail.icloud.com''], fp_spf = [''spf.icloud.com'']\<rparr>,
      \<lparr>fp_provider = ''zoho'', fp_mx = [''zoho.com'', ''zoho.eu'', ''zohomail.com''], fp_spf = [''zoho.com'', ''zoho.eu'']\<rparr>,
      \<lparr>fp_provider = ''proton'', fp_mx = [''protonmail.ch'', ''proton.me''], fp_spf = [''_spf.protonmail.ch'']\<rparr>,
      \<lparr>fp_provider = ''fastmail'', fp_mx = [''messagingengine.com'', ''fastmail.com''], fp_spf = [''spf.messagingengine.com'']\<rparr>]"

definition MISS_TTL_SECONDS :: int where "MISS_TTL_SECONDS = 300"
definition MAX_CACHED :: nat where "MAX_CACHED = 500"

text \<open>What a lookup found: the provider and the record type it came from, or nothing.\<close>

type_synonym mail_hint = "(string \<times> string) option"

definition remember_hint :: "'v cache \<Rightarrow> int \<Rightarrow> string \<Rightarrow> 'v \<Rightarrow> int \<Rightarrow> 'v cache" where
  "remember_hint cache now domain found ttlSeconds =
     (let room = (if length cache \<ge> MAX_CACHED then drop_oldest cache else cache)
      in AList.update domain (found, now + ttlSeconds) room)"

section \<open>Records\<close>

definition dns_resolve :: "web \<Rightarrow> config \<Rightarrow> string \<Rightarrow> string \<Rightarrow> (string, string list) result" where
  "dns_resolve w c domain type =
     (case wb_resolver w of
        Some resolve \<Rightarrow> Inr (map to_lower (coalesce (resolve domain type) []))
      | None \<Rightarrow>
          if wb_set w (dn_resolverUrl (c_dns c)) [(''name'', domain), (''type'', type)] = None then Inl ''Invalid URL''
          else Inr (map to_lower (settled (dns_query w c domain type (if type = ''MX'' then 15 else 16)))))"

definition without_dot :: "string \<Rightarrow> string" where
  "without_dot s = (if ends_with s ''.'' then butlast s else s)"

definition mxHost :: "string \<Rightarrow> string" where
  "mxHost data = without_dot (case words data of [] \<Rightarrow> [] | ws \<Rightarrow> last ws)"

definition mail_label :: "string \<Rightarrow> bool" where
  "mail_label l \<longleftrightarrow> l \<noteq> [] \<and> length l \<le> 63 \<and> list_all (\<lambda>ch. is_lower ch \<or> is_digit ch \<or> ch = CHR ''-'') l \<and>
     \<not> starts_with l ''-'' \<and> \<not> ends_with l ''-''"

definition validMailDomain :: "string option \<Rightarrow> bool" where
  "validMailDomain domain =
     (case domain of None \<Rightarrow> False
      | Some d \<Rightarrow> d \<noteq> [] \<and> length d \<le> 253 \<and> length (split_on (CHR ''.'') d) \<ge> 2 \<and> list_all mail_label (split_on (CHR ''.'') d))"

definition microsoftConsumerMx :: "web \<Rightarrow> config \<Rightarrow> string option \<Rightarrow> (string, bool) result" where
  "microsoftConsumerMx w c domain =
     (if \<not> validMailDomain domain then Inr False
      else rbind (dns_resolve w c (the domain) ''MX'') (\<lambda>records.
        Inr (records \<noteq> [] \<and> list_all (\<lambda>r. ends_with (mxHost r) ''.olc.protection.outlook.com'') records)))"

definition mx_match :: "string \<Rightarrow> fingerprint \<Rightarrow> bool" where
  "mx_match host f \<longleftrightarrow> list_ex (\<lambda>s. host = s \<or> ends_with host (''.'' @ s)) (fp_mx f)"

fun matchMx :: "string list \<Rightarrow> string option" where
  "matchMx [] = None"
| "matchMx (r # records) =
     (case find (mx_match (mxHost r)) FINGERPRINTS of Some f \<Rightarrow> Some (fp_provider f) | None \<Rightarrow> matchMx records)"

text \<open>\<open>replace(/"\s*"/g, '')\<close> and then \<open>replaceAll('"', '')\<close>: a quote goes, and takes the white space up to the next quote
  with it when there is nothing else in between.\<close>

function unquote :: "string \<Rightarrow> string" where
  "unquote [] = []"
| "unquote (ch # cs) =
     (if ch = CHR 0x22
      then (case dropWhile is_space cs of q # r \<Rightarrow> if q = CHR 0x22 then unquote r else unquote cs | [] \<Rightarrow> unquote cs)
      else ch # unquote cs)"
  by pat_completeness auto
termination
proof (relation "measure length")
  fix ch q r and cs :: string
  assume "dropWhile is_space cs = q # r"
  then have "length (q # r) \<le> length cs" by (metis length_dropWhile_le)
  then show "(r, ch # cs) \<in> measure length" by simp
qed auto

definition contains :: "string \<Rightarrow> string \<Rightarrow> bool" where
  "contains s needle = list_ex (\<lambda>i. starts_with (drop i s) needle) [0..<length s + 1]"

definition matchSpf :: "string list \<Rightarrow> string option" where
  "matchSpf records =
     (let joined = join '' '' (map unquote records)
      in if \<not> contains joined ''v=spf1'' then None
         else map_option fp_provider (find (\<lambda>f. list_ex (contains joined) (fp_spf f)) FINGERPRINTS))"

section \<open>The lookup\<close>

definition mailProviderFor :: "web \<Rightarrow> config \<Rightarrow> int \<Rightarrow> string option \<Rightarrow> mail_hint cache \<Rightarrow> (string, mail_hint) result \<times> mail_hint cache" where
  "mailProviderFor w c now domain cache =
     (if \<not> str_truthy domain \<or> dn_hint (c_dns c) = ''off'' \<or> \<not> validMailDomain domain then (Inr None, cache)
      else (case cache_get cache now (the domain) of Some hit \<Rightarrow> (Inr hit, cache)
        | None \<Rightarrow>
            (let ttl = dn_cacheTtlSeconds (c_dns c); keep = (\<lambda>found ttl. (Inr found, remember_hint cache now (the domain) found ttl))
             in case dns_resolve w c (the domain) ''MX'' of Inl e \<Rightarrow> (Inl e, cache)
                | Inr mx \<Rightarrow>
                    (case matchMx mx of Some p \<Rightarrow> keep (Some (p, ''mx'')) ttl
                     | None \<Rightarrow> (case dns_resolve w c (the domain) ''TXT'' of Inl e \<Rightarrow> (Inl e, cache)
                       | Inr spf \<Rightarrow>
                           (case matchSpf spf of Some p \<Rightarrow> keep (Some (p, ''spf'')) ttl
                            | None \<Rightarrow> keep None (min ttl MISS_TTL_SECONDS)))))))"

record hint_result =
  hr_list :: "upstream list"
  hr_hinted :: "upstream option"
  hr_source :: "string option"
  hr_unmatched :: bool

definition fingerprint_of :: "upstream \<Rightarrow> string" where
  "fingerprint_of u = or_str (up_mailProvider u) (up_provider u)"

definition hintUpstreams :: "web \<Rightarrow> config \<Rightarrow> int \<Rightarrow> upstream list \<Rightarrow> string option \<Rightarrow> mail_hint cache \<Rightarrow>
    (string, hint_result) result \<times> mail_hint cache" where
  "hintUpstreams w c now upstreams domain cache =
     (let plain = \<lparr>hr_list = upstreams, hr_hinted = None, hr_source = None, hr_unmatched = False\<rparr>
      in if dn_hint (c_dns c) = ''off'' \<or> upstreams = [] then (Inr plain, cache)
         else (case mailProviderFor w c now domain cache of
             (Inl e, cache') \<Rightarrow> (Inl e, cache')
           | (Inr None, cache') \<Rightarrow> (Inr plain, cache')
           | (Inr (Some (provider, source)), cache') \<Rightarrow>
               (Inr (case find (\<lambda>u. fingerprint_of u = provider) upstreams of
                       None \<Rightarrow> plain\<lparr>hr_unmatched := True\<rparr>
                     | Some hinted \<Rightarrow> \<lparr>hr_list = hinted # remove1 hinted upstreams, hr_hinted = Some hinted, hr_source = Some source,
                         hr_unmatched = False\<rparr>), cache')))"

section \<open>The cache and the candidates\<close>

interpretation hint_cache: bounded_cache remember_hint MAX_CACHED
proof
  fix c :: "'v cache" and t k v ttl k' e
  assume wf: "distinct (map fst c)"
  let ?r = "if length c \<ge> MAX_CACHED then drop_oldest c else c"
  have eq: "remember_hint c t k v ttl = AList.update k (v, t + ttl) ?r" by (simp add: remember_hint_def Let_def)
  have r: "distinct (map fst ?r)" using drop_oldest_facts(1) [OF wf] wf by simp
  show "distinct (map fst (remember_hint c t k v ttl))" unfolding eq by (rule distinct_update [OF r])
  show "map_of (remember_hint c t k v ttl) k = Some (v, t + ttl)" unfolding eq by (simp add: update_conv')
  show "map_of (remember_hint c t k v ttl) k' = Some e \<Longrightarrow> k' \<noteq> k \<Longrightarrow> map_of c k' = Some e"
    unfolding eq using drop_oldest_facts(3) [OF wf, of k' e] by (simp add: update_conv' split: if_splits)
  assume "length c \<le> MAX_CACHED"
  then have "length ?r < MAX_CACHED" using drop_oldest_facts(2) [OF wf] by (auto simp: MAX_CACHED_def)
  then show "length (remember_hint c t k v ttl) \<le> MAX_CACHED"
    unfolding eq using length_update_le [of k "(v, t + ttl)" ?r] by linarith
qed

text \<open>A hint only reorders the candidates and never adds one.\<close>

lemma hintUpstreams_candidates:
  assumes "hintUpstreams w c now ups domain cache = (Inr h, cache')"
  shows "set (hr_list h) = set ups" "\<forall>u. hr_hinted h = Some u \<longrightarrow> u \<in> set ups"
proof -
  have "set (hr_list h) = set ups \<and> (\<forall>u. hr_hinted h = Some u \<longrightarrow> u \<in> set ups)"
  proof (cases "mailProviderFor w c now domain cache")
    case (Pair x cache1)
    show ?thesis
      using assms Pair by (auto simp: hintUpstreams_def Let_def find_Some_iff in_set_conv_nth [symmetric] split: if_splits sum.splits option.splits
          dest: set_remove1_subset [THEN subsetD] intro: in_set_remove1 [THEN iffD2])
  qed
  then show "set (hr_list h) = set ups" "\<forall>u. hr_hinted h = Some u \<longrightarrow> u \<in> set ups" by auto
qed

end
