(* ===== verification/Upstream.thy ===== *)
theory Upstream
  imports Mail_Hint Jose Client_Auth Transaction
begin

text \<open>
  Talking to an upstream provider, \<^verbatim>\<open>src/upstream/index.js\<close> and \<^verbatim>\<open>src/upstream/providers.js\<close>: metadata with its cache, the
  routing of an address, the outbound request and the exchange of its answer. Fetching, URL building and the signature
  primitive are parameters; the token's own checks are those of \<^verbatim>\<open>Jose\<close>.
\<close>

section \<open>Providers\<close>

definition MICROSOFT_CONSUMER_TENANT_ID :: string where
  "MICROSOFT_CONSUMER_TENANT_ID = ''9188040d-6c67-4c5b-b112-36a304b66dad''"

record provider =
  pv_label :: string
  pv_scopes :: "string list"
  pv_discoveryUrl :: "upstream \<Rightarrow> string option"
  pv_issuerTemplate :: bool
  pv_extra :: "upstream \<Rightarrow> (string \<times> string option) list"
  pv_verifyClaims :: "upstream \<Rightarrow> json \<Rightarrow> bool \<Rightarrow> (string, unit) result"

definition SCOPES :: "string list" where "SCOPES = [''openid'', ''email'', ''profile'']"

definition tenantFor :: "upstream \<Rightarrow> string" where
  "tenantFor u = (if up_isCommon u then ''common'' else up_domain u)"

definition emailDomainVerified :: "json \<Rightarrow> bool option" where
  "emailDomainVerified clm =
     (case jget clm ''xms_edov'' of
        Some (JBool b) \<Rightarrow> Some b
      | Some (JStr s) \<Rightarrow> if s = ''true'' \<or> s = ''1'' then Some True else if s = ''false'' \<or> s = ''0'' then Some False else None
      | Some (JNum n) \<Rightarrow> if n = 1 then Some True else if n = 0 then Some False else None
      | _ \<Rightarrow> None)"

text \<open>\<open>String(v || '')\<close>.\<close>

definition text_or :: "json option \<Rightarrow> string" where
  "text_or v = (if truthy v then js_text (the v) else [])"

definition tid_of :: "json \<Rightarrow> string" where
  "tid_of clm = to_lower (text_or (jget clm ''tid''))"

definition microsoft_verify :: "upstream \<Rightarrow> json \<Rightarrow> bool \<Rightarrow> (string, unit) result" where
  "microsoft_verify u clm consumerMx =
     (let tid = tid_of clm in
      if up_allowedTenants u \<noteq> [] \<and> tid \<notin> set (up_allowedTenants u) then Inl ''this Microsoft sign-in is from a tenant this upstream does not accept''
      else if up_isCommon u
      then (let verified = emailDomainVerified clm in
            if verified = Some False then Inl ''Microsoft reports that this address is not in a domain the tenant has verified''
            else if up_allowedTenants u = [] \<and> verified \<noteq> Some True \<and> \<not> (tid = MICROSOFT_CONSUMER_TENANT_ID \<and> consumerMx)
            then Inl ''this Microsoft upstream accepts any tenant, so it needs the xms_edov claim to trust an address''
            else Inr ())
      else if str_truthy (up_tenant u) \<and> tid \<noteq> [] \<and> the (up_tenant u) \<noteq> ''common'' \<and> the (up_tenant u) \<noteq> ''organizations'' \<and>
              tid \<noteq> to_lower (the (up_tenant u))
      then Inl ''this Microsoft sign-in is from a different tenant''
      else Inr ())"

definition microsoft :: provider where
  "microsoft = \<lparr>pv_label = ''Microsoft'', pv_scopes = SCOPES,
     pv_discoveryUrl = (\<lambda>u. Some (''https://login.microsoftonline.com/'' @ encodeURIComponent (or_str (up_tenant u) (tenantFor u)) @
       ''/v2.0/.well-known/openid-configuration'')),
     pv_issuerTemplate = True,
     pv_extra = (\<lambda>u. if up_isCommon u then [] else [(''domain_hint'', Some (up_domain u))]),
     pv_verifyClaims = microsoft_verify\<rparr>"

definition hosted_domain :: "upstream \<Rightarrow> string option" where
  "hosted_domain u = (if str_truthy (up_hd u) then up_hd u else if up_isCommon u then None else Some (up_domain u))"

definition google_verify :: "upstream \<Rightarrow> json \<Rightarrow> bool \<Rightarrow> (string, unit) result" where
  "google_verify u clm consumerMx =
     (if \<not> str_truthy (hosted_domain u) then Inr ()
      else ok_or (jget clm ''hd'' = map_option JStr (hosted_domain u)) ''this Google account is not in the expected hosted domain'')"

definition google :: provider where
  "google = \<lparr>pv_label = ''Google'', pv_scopes = SCOPES,
     pv_discoveryUrl = (\<lambda>u. Some ''https://accounts.google.com/.well-known/openid-configuration''), pv_issuerTemplate = False,
     pv_extra = (\<lambda>u. if str_truthy (hosted_domain u) then [(''hd'', hosted_domain u)] else []), pv_verifyClaims = google_verify\<rparr>"

definition oidc :: provider where
  "oidc = \<lparr>pv_label = ''Single sign-on'', pv_scopes = SCOPES,
     pv_discoveryUrl = (\<lambda>u. if str_truthy (up_issuer u)
        then Some (strip_trailing (CHR ''/'') (the (up_issuer u)) @ ''/.well-known/openid-configuration'') else None),
     pv_issuerTemplate = False, pv_extra = (\<lambda>u. []), pv_verifyClaims = (\<lambda>u clm consumerMx. Inr ())\<rparr>"

definition providerFor :: "string \<Rightarrow> provider" where
  "providerFor name = (if name = ''microsoft'' then microsoft else if name = ''google'' then google else oidc)"

definition labelFor :: "upstream \<Rightarrow> string" where
  "labelFor u = (if str_truthy (up_label u) then the (up_label u)
     else (let base = pv_label (providerFor (up_provider u)) in if up_isCommon u then base else base @ '' ('' @ up_domain u @ '')''))"

section \<open>Metadata\<close>

definition MAX_METADATA_CACHE_ENTRIES :: nat where "MAX_METADATA_CACHE_ENTRIES = 100"
definition MAX_DISCOVERY_BYTES :: int where "MAX_DISCOVERY_BYTES = 64 * 1024"
definition MAX_TOKEN_RESPONSE_BYTES :: int where "MAX_TOKEN_RESPONSE_BYTES = 64 * 1024"

definition checkedRemoteUrl :: "web \<Rightarrow> json option \<Rightarrow> string \<Rightarrow> bool \<Rightarrow> (string, string) result" where
  "checkedRemoteUrl w value label allowHttp =
     (case wb_parse w (shown value) of None \<Rightarrow> Inl (label @ '' is not an absolute URL'')
      | Some url \<Rightarrow>
          if u_username url \<noteq> [] \<or> u_password url \<noteq> [] \<or> (u_protocol url \<noteq> ''https:'' \<and> \<not> (allowHttp \<and> u_protocol url = ''http:''))
          then Inl (label @ '' must use https'') else Inr (u_href url))"

record metadata =
  md_issuer :: "json option"
  md_authorization_endpoint :: string
  md_token_endpoint :: string
  md_jwks_uri :: string

definition checkMetadata :: "web \<Rightarrow> upstream \<Rightarrow> json \<Rightarrow> bool \<Rightarrow> (string, metadata) result" where
  "checkMetadata w u m allowHttp =
     (let named = (\<lambda>field. checkedRemoteUrl w (jget m field) (''upstream '' @ up_id u @ '' '' @ field) allowHttp) in
      rbind (named ''issuer'') (\<lambda>_.
      rbind (named ''authorization_endpoint'') (\<lambda>a.
      rbind (named ''token_endpoint'') (\<lambda>t.
      rbind (named ''jwks_uri'') (\<lambda>j.
      Inr \<lparr>md_issuer = jget m ''issuer'', md_authorization_endpoint = a, md_token_endpoint = t, md_jwks_uri = j\<rparr>)))))"

definition rememberMetadata :: "'v cache \<Rightarrow> int \<Rightarrow> string \<Rightarrow> 'v \<Rightarrow> int \<Rightarrow> 'v cache" where
  "rememberMetadata cache now url m ttlSeconds =
     (let kept = AList.delete url (drop_expired now cache);
          room = (if length kept \<ge> MAX_METADATA_CACHE_ENTRIES then drop_oldest kept else kept)
      in AList.update url (m, now + ttlSeconds) room)"

definition explicit_metadata :: "upstream \<Rightarrow> json option" where
  "explicit_metadata u =
     (if str_truthy (up_authorizationEndpoint u) \<and> str_truthy (up_tokenEndpoint u) \<and> str_truthy (up_jwksUri u) \<and> str_truthy (up_issuer u) \<and>
         up_useDiscovery u \<noteq> Some True
      then Some (jobj [(''issuer'', map_option JStr (up_issuer u)), (''authorization_endpoint'', map_option JStr (up_authorizationEndpoint u)),
         (''token_endpoint'', map_option JStr (up_tokenEndpoint u)), (''jwks_uri'', map_option JStr (up_jwksUri u))])
      else None)"

text \<open>A discovery document with the operator's explicit values over it.\<close>

definition over :: "string option \<Rightarrow> json option \<Rightarrow> json option" where
  "over own found = (if str_truthy own then map_option JStr own else found)"

definition merged_metadata :: "upstream \<Rightarrow> json \<Rightarrow> (string, json) result" where
  "merged_metadata u m =
     (if m = JNull then Inl ''TypeError''
      else (case find (\<lambda>f. \<not> truthy (jget m f)) [''authorization_endpoint'', ''token_endpoint'', ''jwks_uri'', ''issuer''] of
              Some f \<Rightarrow> Inl (''upstream '' @ up_id u @ '' discovery document has no '' @ f)
            | None \<Rightarrow> Inr (jobj [(''issuer'', over (up_issuer u) (jget m ''issuer'')),
                (''authorization_endpoint'', over (up_authorizationEndpoint u) (jget m ''authorization_endpoint'')),
                (''token_endpoint'', over (up_tokenEndpoint u) (jget m ''token_endpoint'')), (''jwks_uri'', over (up_jwksUri u) (jget m ''jwks_uri''))])))"

definition discovered_metadata :: "web \<Rightarrow> upstream \<Rightarrow> string \<Rightarrow> bool \<Rightarrow> (string, metadata) result" where
  "discovered_metadata w u url allowHttp =
     rbind (fetchWithTimeout (wb_fetch w) (get_json url)) (\<lambda>res.
     if \<not> res_ok res then Inl (''upstream discovery for '' @ up_id u @ '' failed with HTTP '' @ show_int (ft_status res))
     else rbind (readJsonLimited (wb_json w) res MAX_DISCOVERY_BYTES) (\<lambda>m.
          rbind (merged_metadata u m) (\<lambda>doc. checkMetadata w u doc allowHttp)))"

definition upstreamMetadata :: "web \<Rightarrow> int \<Rightarrow> upstream \<Rightarrow> bool \<Rightarrow> metadata cache \<Rightarrow> (string, metadata) result \<times> metadata cache" where
  "upstreamMetadata w now u allowHttp cache =
     (case explicit_metadata u of Some m \<Rightarrow> (checkMetadata w u m allowHttp, cache)
      | None \<Rightarrow>
          (case pv_discoveryUrl (providerFor (up_provider u)) u of
             None \<Rightarrow> (Inl (''upstream '' @ up_id u @ '' needs either an ISSUER to discover from or all of its endpoints set explicitly''), cache)
           | Some at \<Rightarrow>
               (case checkedRemoteUrl w (Some (JStr at)) (''upstream '' @ up_id u @ '' discovery URL'') allowHttp of Inl e \<Rightarrow> (Inl e, cache)
                | Inr url \<Rightarrow>
                    (case cache_get cache now url of Some m \<Rightarrow> (Inr m, cache)
                     | None \<Rightarrow> (case discovered_metadata w u url allowHttp of Inl e \<Rightarrow> (Inl e, cache)
                       | Inr m \<Rightarrow> (Inr m, rememberMetadata cache now url m 3600))))))"

section \<open>Routing\<close>

definition upstreamsFor :: "config \<Rightarrow> string option \<Rightarrow> upstream list" where
  "upstreamsFor c email =
     (case domainOf email of None \<Rightarrow> []
      | Some domain \<Rightarrow>
          if domain = [] then []
          else (let own = filter (\<lambda>u. \<not> up_isCommon u) (c_upstreams c);
                    exact = filter (\<lambda>u. up_domain u = domain) own;
                    parent = filter (\<lambda>u. up_domain u \<noteq> domain \<and> ends_with domain (''.'' @ up_domain u)) own
                in if exact \<noteq> [] then exact else if parent \<noteq> [] then parent else filter up_isCommon (c_upstreams c)))"

section \<open>The outbound request\<close>

record upstream_state =
  us_metadata :: "metadata cache"
  us_jwks :: "json cache"
  us_hints :: "mail_hint cache"

definition has_prompt :: "json \<Rightarrow> string \<Rightarrow> bool" where
  "has_prompt tx p \<longleftrightarrow> p \<in> set (as_strs (jget tx ''prompt''))"

definition upstreamPrompt :: "upstream \<Rightarrow> json \<Rightarrow> string option" where
  "upstreamPrompt u tx =
     (if str_truthy (up_prompt u) then up_prompt u
      else find (has_prompt tx) [''none'', ''login'', ''select_account''])"

definition absolute :: "config \<Rightarrow> string \<Rightarrow> string" where
  "absolute c p = c_issuer c @ p"

text \<open>The verifier and the nonce are fresh random tokens.\<close>

definition upstream_leg :: "config \<Rightarrow> upstream \<Rightarrow> string \<Rightarrow> string \<Rightarrow> int \<Rightarrow> bool \<Rightarrow> json" where
  "upstream_leg c u verifier nonce now hinted = jobj
     [(''id'', Some (JStr (up_id u))), (''verifier'', Some (JStr verifier)), (''nonce'', Some (JStr nonce)),
      (''redirectUri'', Some (JStr (absolute c ''/callback''))), (''startedAt'', Some (JNum now)),
      (''hinted'', if hinted then Some (JBool True) else None)]"

definition outbound_params :: "platform \<Rightarrow> config \<Rightarrow> upstream \<Rightarrow> json \<Rightarrow> string \<Rightarrow> string \<Rightarrow> string \<Rightarrow> params" where
  "outbound_params pf c u tx verifier nonce state =
     (let provider = providerFor (up_provider u) in
      [(''response_type'', ''code''), (''client_id'', up_clientId u), (''redirect_uri'', absolute c ''/callback''),
       (''scope'', join '' '' (coalesce (up_scopes u) (pv_scopes provider))), (''state'', state), (''nonce'', nonce),
       (''code_challenge'', sha256b64u pf verifier), (''code_challenge_method'', ''S256''), (''response_mode'', ''query'')] @
      (case jget tx ''max_age'' of None \<Rightarrow> [] | Some m \<Rightarrow> [(''max_age'', js_text m)]) @
      (case up_acrValues u of Some (v # vs) \<Rightarrow> [(''acr_values'', join '' '' (v # vs))] | _ \<Rightarrow> []) @
      (case upstreamPrompt u tx of None \<Rightarrow> [] | Some p \<Rightarrow> [(''prompt'', p)]) @
      (if truthy (jget tx ''email'') then [(''login_hint'', text_or (jget tx ''email''))] else []) @
      List.map_filter (\<lambda>(k, v). map_option (Pair k) v) (pv_extra provider u))"

definition beginUpstream ::
  "platform \<Rightarrow> web \<Rightarrow> bytes \<Rightarrow> config \<Rightarrow> int \<Rightarrow> upstream \<Rightarrow> json \<Rightarrow> bool \<Rightarrow> string \<Rightarrow> string \<Rightarrow> upstream_state \<Rightarrow>
   (string, string \<times> json) result \<times> upstream_state" where
  "beginUpstream pf w iv c now u tx hinted verifier nonce st =
     (case upstreamMetadata w now u (c_devMode c) (us_metadata st) of
        (Inl e, cache) \<Rightarrow> (Inl e, st\<lparr>us_metadata := cache\<rparr>)
      | (Inr m, cache) \<Rightarrow>
          (let stateTx = jput tx ''upstream'' (Some (upstream_leg c u verifier nonce now hinted));
               state = sealUpstreamState pf iv c stateTx
           in (case wb_set w (md_authorization_endpoint m) (outbound_params pf c u tx verifier nonce state) of
                 None \<Rightarrow> Inl ''Invalid URL'' | Some url \<Rightarrow> Inr (url, stateTx), st\<lparr>us_metadata := cache\<rparr>)))"

section \<open>The answer\<close>

text \<open>\<open>URLSearchParams.toString\<close>: letters, digits and \<open>*-._\<close> stay, a space becomes a plus.\<close>

definition form_char :: "char \<Rightarrow> string" where
  "form_char ch = (if is_alnum ch \<or> ch \<in> set ''*-._'' then [ch] else if ch = CHR '' '' then ''+''
     else CHR ''%'' # to_upper (hex_byte (of_nat (of_char ch))))"

definition form_text :: "params \<Rightarrow> string" where
  "form_text ps = join ''&'' (map (\<lambda>(k, v). concat (map form_char k) @ ''='' @ concat (map form_char v)) ps)"

text \<open>\<open>s.replace(pattern, replacement)\<close> with a string pattern: the first occurrence, and the \<open>$\<close> patterns of the replacement.\<close>

fun expand :: "string \<Rightarrow> string \<Rightarrow> string \<Rightarrow> string \<Rightarrow> string" where
  "expand before hit after [] = []"
| "expand before hit after [ch] = [ch]"
| "expand before hit after (a # b # rest) =
     (if a = CHR ''$'' \<and> b = CHR ''$'' then CHR ''$'' # expand before hit after rest
      else if a = CHR ''$'' \<and> b = CHR ''&'' then hit @ expand before hit after rest
      else if a = CHR ''$'' \<and> b = CHR 0x60 then before @ expand before hit after rest
      else if a = CHR ''$'' \<and> b = CHR 0x27 then after @ expand before hit after rest
      else a # expand before hit after (b # rest))"

definition replace_first :: "string \<Rightarrow> string \<Rightarrow> string \<Rightarrow> string" where
  "replace_first s pat rep =
     (case find (\<lambda>i. starts_with (drop i s) pat) [0..<length s + 1] of None \<Rightarrow> s
      | Some i \<Rightarrow> (let before = take i s; after = drop (i + length pat) s in before @ expand before pat after rep @ after))"

definition UPSTREAM_ALGS :: "string list" where
  "UPSTREAM_ALGS = [''ES256'', ''ES384'', ''RS256'', ''PS256'', ''ML-DSA-44'', ''ML-DSA-65'', ''ML-DSA-87'']"

definition expectedIssuer :: "upstream \<Rightarrow> metadata \<Rightarrow> json \<Rightarrow> json option" where
  "expectedIssuer u m clm =
     (if pv_issuerTemplate (providerFor (up_provider u))
      then Some (JStr (replace_first (shown (md_issuer m)) ''{tenantid}'' (text_or (jget clm ''tid''))))
      else md_issuer m)"

text \<open>An issuer that is not a string equals no claim.\<close>

definition validate_issued :: "json \<Rightarrow> json option \<Rightarrow> claim_opts \<Rightarrow> int \<Rightarrow> (string, json) result" where
  "validate_issued clm issuer opts now =
     (case issuer of Some (JStr i) \<Rightarrow> validateClaims clm (opts\<lparr>vo_issuer := Some i\<rparr>) now
      | _ \<Rightarrow> Inl (''unexpected issuer '' @ shown (jget clm ''iss'')))"

definition verifyUpstreamIdToken ::
  "platform \<Rightarrow> verifier \<Rightarrow> web \<Rightarrow> int \<Rightarrow> upstream \<Rightarrow> metadata \<Rightarrow> string \<Rightarrow> string option \<Rightarrow> int \<Rightarrow> int option \<Rightarrow> bool \<Rightarrow> json cache \<Rightarrow>
   (string, json) result \<times> json cache" where
  "verifyUpstreamIdToken pf verify w now u m token nonce clockSkew maxAge allowHttp cache =
     (case decodeJwt pf (Some token) of Inl e \<Rightarrow> (Inl e, cache)
      | Inr d \<Rightarrow>
          (case fetchJwks w cache now (md_jwks_uri m) 300 allowHttp of (Inl e, cache', _) \<Rightarrow> (Inl e, cache')
           | (Inr jwks, cache', _) \<Rightarrow>
               (rbind (selectJwk jwks (dj_header d)) (\<lambda>jwk.
                rbind (verifyCompact pf verify token jwk UPSTREAM_ALGS) (\<lambda>clm.
                validate_issued clm (expectedIssuer u m clm)
                  \<lparr>vo_issuer = None, vo_audience = Some (up_clientId u), vo_nonce = nonce, vo_clockSkew = clockSkew, vo_maxAge = maxAge\<rparr> now)),
                cache')))"

definition leg_str :: "json \<Rightarrow> string \<Rightarrow> string option" where
  "leg_str stateTx k = as_str (Option.bind (jget stateTx ''upstream'') (\<lambda>l. jget l k))"

definition exchange_call :: "upstream \<Rightarrow> metadata \<Rightarrow> string \<Rightarrow> json \<Rightarrow> http_call" where
  "exchange_call u m code stateTx =
     \<lparr>hc_url = md_token_endpoint m, hc_method = ''POST'',
      hc_headers = [(''content-type'', ''application/x-www-form-urlencoded''), (''accept'', ''application/json'')],
      hc_body = Some (form_text ([(''grant_type'', ''authorization_code''), (''code'', code),
        (''redirect_uri'', coalesce (leg_str stateTx ''redirectUri'') ''undefined''), (''client_id'', up_clientId u),
        (''code_verifier'', coalesce (leg_str stateTx ''verifier'') ''undefined'')] @
        (if str_truthy (up_clientSecret u) then [(''client_secret'', the (up_clientSecret u))] else [])))\<rparr>"

definition token_payload :: "web \<Rightarrow> http_call \<Rightarrow> (string, json) result" where
  "token_payload w call =
     rbind (fetchWithTimeout (wb_fetch w) call) (\<lambda>res.
     (case rescue (\<lambda>_. Inr (JObj [])) (readJsonLimited (wb_json w) res MAX_TOKEN_RESPONSE_BYTES) of Inl e \<Rightarrow> Inl e
      | Inr payload \<Rightarrow>
          if payload = JNull then Inl ''TypeError''
          else if \<not> res_ok res
          then Inl (''upstream token exchange failed: '' @
            (if truthy (jget payload ''error_description'') then text_or (jget payload ''error_description'')
             else if truthy (jget payload ''error'') then text_or (jget payload ''error'') else ''HTTP '' @ show_int (ft_status res)))
          else if \<not> truthy (jget payload ''id_token'') then Inl ''upstream returned no id_token''
          else Inr payload))"

definition asserted_email :: "upstream \<Rightarrow> json \<Rightarrow> string option" where
  "asserted_email u clm =
     normaliseEmail (Some (text_or (if up_isCommon u then jget clm ''email''
       else if truthy (jget clm ''email'') then jget clm ''email''
       else if truthy (jget clm ''preferred_username'') then jget clm ''preferred_username'' else jget clm ''upn'')))"

definition in_domain :: "string option \<Rightarrow> string \<Rightarrow> bool" where
  "in_domain d base \<longleftrightarrow> (case d of None \<Rightarrow> False | Some x \<Rightarrow> x = base \<or> ends_with x (''.'' @ base))"

definition check_address :: "upstream \<Rightarrow> json \<Rightarrow> (string, string) result" where
  "check_address u clm =
     (case asserted_email u clm of None \<Rightarrow> Inl ''the upstream did not return an email address for this account''
      | Some email \<Rightarrow>
          if jget clm ''email_verified'' = Some (JBool False) then Inl ''the upstream reports this email address as unverified''
          else if \<not> up_isCommon u \<and> \<not> in_domain (domainOf (Some email)) (up_domain u)
          then Inl ''the upstream returned an address outside the domain it is configured for''
          else Inr email)"

definition consumer_mx :: "web \<Rightarrow> config \<Rightarrow> upstream \<Rightarrow> json \<Rightarrow> (string, bool) result" where
  "consumer_mx w c u clm =
     (if up_provider u = ''microsoft'' \<and> up_isCommon u \<and> up_allowedTenants u = [] \<and>
         (jget clm ''xms_edov'' = None \<or> jget clm ''xms_edov'' = Some JNull) \<and> tid_of clm = MICROSOFT_CONSUMER_TENANT_ID
      then microsoftConsumerMx w c (domainOf (Some (text_or (jget clm ''email'')))) else Inr False)"

record outcome =
  oc_email :: string
  oc_claims :: json
  oc_refreshToken :: "string option"

definition retained_refresh :: "json \<Rightarrow> string option" where
  "retained_refresh payload = (case jget payload ''refresh_token'' of Some (JStr t) \<Rightarrow> if length t \<le> 16384 then Some t else None | _ \<Rightarrow> None)"

definition completeUpstream ::
  "platform \<Rightarrow> verifier \<Rightarrow> web \<Rightarrow> config \<Rightarrow> int \<Rightarrow> upstream \<Rightarrow> string \<Rightarrow> json \<Rightarrow> upstream_state \<Rightarrow> (string, outcome) result \<times> upstream_state" where
  "completeUpstream pf verify w c now u code stateTx st =
     (case upstreamMetadata w now u (c_devMode c) (us_metadata st) of
        (Inl e, cache) \<Rightarrow> (Inl e, st\<lparr>us_metadata := cache\<rparr>)
      | (Inr m, cache) \<Rightarrow>
          (case token_payload w (exchange_call u m code stateTx) of Inl e \<Rightarrow> (Inl e, st\<lparr>us_metadata := cache\<rparr>)
           | Inr payload \<Rightarrow>
               (case verifyUpstreamIdToken pf verify w now u m (text_or (jget payload ''id_token'')) (leg_str stateTx ''nonce'')
                       (tk_clockSkewSeconds (c_tokens c)) (as_num (jget stateTx ''max_age'')) (c_devMode c) (us_jwks st) of
                  (Inl e, jcache) \<Rightarrow> (Inl e, st\<lparr>us_metadata := cache, us_jwks := jcache\<rparr>)
                | (Inr clm, jcache) \<Rightarrow>
                    (rbind (consumer_mx w c u clm) (\<lambda>mx.
                     rbind (pv_verifyClaims (providerFor (up_provider u)) u clm mx) (\<lambda>_.
                     rbind (check_address u clm) (\<lambda>email.
                     Inr \<lparr>oc_email = email, oc_claims = clm, oc_refreshToken = retained_refresh payload\<rparr>))),
                     st\<lparr>us_metadata := cache, us_jwks := jcache\<rparr>))))"

definition describeUpstream :: "upstream \<Rightarrow> json" where
  "describeUpstream u = jobj [(''id'', Some (JStr (up_id u))), (''provider'', Some (JStr (up_provider u))), (''domain'', Some (JStr (up_domain u))),
     (''label'', Some (JStr (labelFor u)))]"

section \<open>The metadata cache\<close>

interpretation metadata_cache: bounded_cache rememberMetadata MAX_METADATA_CACHE_ENTRIES
proof
  fix c :: "'v cache" and t k v ttl k' e
  assume wf: "distinct (map fst c)"
  let ?l = "AList.delete k (drop_expired t c)"
  let ?r = "if length ?l \<ge> MAX_METADATA_CACHE_ENTRIES then drop_oldest ?l else ?l"
  have eq: "rememberMetadata c t k v ttl = AList.update k (v, t + ttl) ?r" by (simp add: rememberMetadata_def Let_def)
  have l: "distinct (map fst ?l)" by (intro distinct_delete distinct_drop_expired wf)
  have r: "distinct (map fst ?r)" using drop_oldest_facts(1) [OF l] l by simp
  show "distinct (map fst (rememberMetadata c t k v ttl))" unfolding eq by (rule distinct_update [OF r])
  show "map_of (rememberMetadata c t k v ttl) k = Some (v, t + ttl)" unfolding eq by (simp add: update_conv')
  have sub: "map_of ?r k' = Some e \<Longrightarrow> k' \<noteq> k \<Longrightarrow> map_of c k' = Some e"
    using drop_oldest_facts(3) [OF l, of k' e] map_of_drop_expired [OF wf, of t k' e]
    by (simp add: delete_conv' split: if_splits)
  show "map_of (rememberMetadata c t k v ttl) k' = Some e \<Longrightarrow> k' \<noteq> k \<Longrightarrow> map_of c k' = Some e"
    unfolding eq using sub by (simp add: update_conv')
  assume "length c \<le> MAX_METADATA_CACHE_ENTRIES"
  moreover have "length ?l \<le> length (drop_expired t c)" "length (drop_expired t c) \<le> length c" by (rule length_delete_le, rule length_drop_expired)
  ultimately have "length ?r < MAX_METADATA_CACHE_ENTRIES"
    using drop_oldest_facts(2) [OF l] by (auto simp: MAX_METADATA_CACHE_ENTRIES_def)
  then show "length (rememberMetadata c t k v ttl) \<le> MAX_METADATA_CACHE_ENTRIES"
    unfolding eq using length_update_le [of k "(v, t + ttl)" ?r] by linarith
qed

section \<open>What an answer shows\<close>

lemma upstreamsFor_serves:
  assumes "u \<in> set (upstreamsFor c email)"
  shows "u \<in> set (c_upstreams c)" "up_isCommon u \<or> in_domain (domainOf email) (up_domain u)"
  using assms by (auto simp: upstreamsFor_def in_domain_def Let_def split: option.splits if_splits)

text \<open>A domain of its own keeps the common upstreams away.\<close>

lemma upstreamsFor_uniform: "(\<forall>u\<in>set (upstreamsFor c email). up_isCommon u) \<or> (\<forall>u\<in>set (upstreamsFor c email). \<not> up_isCommon u)"
  by (cases "domainOf email") (auto simp: upstreamsFor_def Let_def)

lemma selectJwk_in: "selectJwk jwks hdr = Inr k \<Longrightarrow> \<exists>ks. jget jwks ''keys'' = Some (JArr ks) \<and> k \<in> set ks"
  by (fastforce simp: selectJwk_def Let_def find_Some_iff split: if_splits option.splits list.splits json.splits
      dest: nth_mem filter_eq_ConsD)

lemma microsoft_verify_Inr:
  assumes "microsoft_verify u clm mx = Inr ()"
  shows "up_allowedTenants u \<noteq> [] \<Longrightarrow> tid_of clm \<in> set (up_allowedTenants u)"
    "up_isCommon u \<Longrightarrow> up_allowedTenants u = [] \<Longrightarrow> emailDomainVerified clm = Some True \<or> (tid_of clm = MICROSOFT_CONSUMER_TENANT_ID \<and> mx)"
    "up_isCommon u \<Longrightarrow> emailDomainVerified clm \<noteq> Some False"
  using assms by (auto simp: microsoft_verify_def Let_def split: if_splits)

lemma check_address_Inr:
  assumes "check_address u clm = Inr email"
  shows "asserted_email u clm = Some email" "jget clm ''email_verified'' \<noteq> Some (JBool False)"
    "up_isCommon u \<or> in_domain (domainOf (Some email)) (up_domain u)"
  using assms by (auto simp: check_address_def split: option.splits if_splits)

lemma validate_issued_Inr:
  assumes "validate_issued clm issuer opts now = Inr p"
  shows "p = clm" "\<exists>i. issuer = Some (JStr i) \<and> claims_acceptable clm (opts\<lparr>vo_issuer := Some i\<rparr>) now"
  using assms by (auto simp: validate_issued_def split: option.splits json.splits dest: validateClaims_acceptable)

lemma completeUpstream_Inr:
  assumes "completeUpstream pf verify w c now u code stateTx st = (Inr oc, st')"
  obtains m payload mx jcache where "fst (upstreamMetadata w now u (c_devMode c) (us_metadata st)) = Inr m"
    "token_payload w (exchange_call u m code stateTx) = Inr payload"
    "verifyUpstreamIdToken pf verify w now u m (text_or (jget payload ''id_token'')) (leg_str stateTx ''nonce'')
       (tk_clockSkewSeconds (c_tokens c)) (as_num (jget stateTx ''max_age'')) (c_devMode c) (us_jwks st) = (Inr (oc_claims oc), jcache)"
    "consumer_mx w c u (oc_claims oc) = Inr mx" "pv_verifyClaims (providerFor (up_provider u)) u (oc_claims oc) mx = Inr ()"
    "check_address u (oc_claims oc) = Inr (oc_email oc)"
proof -
  obtain r cache where m: "upstreamMetadata w now u (c_devMode c) (us_metadata st) = (r, cache)" by force
  obtain md where r: "r = Inr md" using assms by (cases r) (simp_all add: completeUpstream_def m)
  obtain payload where p: "token_payload w (exchange_call u md code stateTx) = Inr payload"
    using assms by (cases "token_payload w (exchange_call u md code stateTx)") (simp_all add: completeUpstream_def m r)
  obtain vr jc where v: "verifyUpstreamIdToken pf verify w now u md (text_or (jget payload ''id_token'')) (leg_str stateTx ''nonce'')
       (tk_clockSkewSeconds (c_tokens c)) (as_num (jget stateTx ''max_age'')) (c_devMode c) (us_jwks st) = (vr, jc)" by force
  obtain clm where vr: "vr = Inr clm" using assms by (cases vr) (simp_all add: completeUpstream_def m r p v)
  have whole: "rbind (consumer_mx w c u clm) (\<lambda>mx. rbind (pv_verifyClaims (providerFor (up_provider u)) u clm mx) (\<lambda>_.
      rbind (check_address u clm) (\<lambda>email. Inr \<lparr>oc_email = email, oc_claims = clm, oc_refreshToken = retained_refresh payload\<rparr>))) = Inr oc"
    using assms by (simp add: completeUpstream_def m r p v vr)
  then obtain mx email where f: "consumer_mx w c u clm = Inr mx" "pv_verifyClaims (providerFor (up_provider u)) u clm mx = Inr ()"
    "check_address u clm = Inr email" "oc = \<lparr>oc_email = email, oc_claims = clm, oc_refreshToken = retained_refresh payload\<rparr>"
    unfolding rbind_Inr_iff by fastforce
  show thesis by (rule that [of md payload jc mx]) (simp_all add: m r p v vr f)
qed

lemma verifyUpstreamIdToken_Inr:
  assumes "verifyUpstreamIdToken pf verify w now u m token nonce skew maxAge http cache = (Inr clm, cache')"
  obtains jwks jwk ks i where "fst (fetchJwks w cache now (md_jwks_uri m) 300 http) = Inr jwks" "jget jwks ''keys'' = Some (JArr ks)" "jwk \<in> set ks"
    "verifyCompact pf verify token jwk UPSTREAM_ALGS = Inr clm" "expectedIssuer u m clm = Some (JStr i)"
    "claims_acceptable clm \<lparr>vo_issuer = Some i, vo_audience = Some (up_clientId u), vo_nonce = nonce, vo_clockSkew = skew, vo_maxAge = maxAge\<rparr> now"
proof -
  obtain d where d: "decodeJwt pf (Some token) = Inr d"
    using assms by (cases "decodeJwt pf (Some token)") (auto simp: verifyUpstreamIdToken_def)
  obtain r jc calls where f: "fetchJwks w cache now (md_jwks_uri m) 300 http = (r, jc, calls)" by (cases "fetchJwks w cache now (md_jwks_uri m) 300 http") auto
  from assms d f obtain jwks where r: "r = Inr jwks" by (cases r) (auto simp: verifyUpstreamIdToken_def)
  from assms d f r obtain jwk payload where s: "selectJwk jwks (dj_header d) = Inr jwk" "verifyCompact pf verify token jwk UPSTREAM_ALGS = Inr payload"
    and vi: "validate_issued payload (expectedIssuer u m payload)
      \<lparr>vo_issuer = None, vo_audience = Some (up_clientId u), vo_nonce = nonce, vo_clockSkew = skew, vo_maxAge = maxAge\<rparr> now = Inr clm"
    by (auto simp: verifyUpstreamIdToken_def)
  from selectJwk_in [OF s(1)] validate_issued_Inr [OF vi] f r s(2) show thesis by (auto intro: that)
qed

text \<open>What the domain check compares: the part of the address between its first and its second \<^verbatim>\<open>@\<close>, which is the domain of an address
  that has one.\<close>

definition first_domain_in :: "string \<Rightarrow> string \<Rightarrow> bool" where
  "first_domain_in email base \<longleftrightarrow>
     (\<exists>loc d rest. email = loc @ ''@'' @ d @ rest \<and> CHR ''@'' \<notin> set loc \<and> CHR ''@'' \<notin> set d \<and> (rest = [] \<or> hd rest = CHR ''@'') \<and>
        (to_lower d = base \<or> ends_with (to_lower d) (''.'' @ base)))"

lemma in_domain_first: "in_domain (domainOf (Some email)) base \<Longrightarrow> first_domain_in email base"
proof -
  assume i: "in_domain (domainOf (Some email)) base"
  then obtain loc d ds where sp: "split_on (CHR ''@'') email = loc # d # ds" and b: "to_lower d = base \<or> ends_with (to_lower d) (''.'' @ base)"
    by (auto simp: in_domain_def domainOf_def coalesce_def split: list.splits)
  have "CHR ''@'' \<notin> set loc" "CHR ''@'' \<notin> set d" using split_on_parts [of _ "CHR ''@''" email] sp by auto
  moreover have "email = loc @ ''@'' @ d @ (if ds = [] then [] else ''@'' @ join ''@'' ds)"
    using join_split_on [of "CHR ''@''" email] sp by (cases ds) simp_all
  ultimately show ?thesis using b unfolding first_domain_in_def
    by (intro exI [of _ loc] exI [of _ d] exI [of _ "if ds = [] then [] else ''@'' @ join ''@'' ds"]) auto
qed

section \<open>Properties\<close>

text \<open>C6: an upstream vouches for an address only within its authority. When the answer of an upstream is accepted, the claims come
  from a token that verified, with a permitted algorithm, under a key of the key set its metadata names; they are meant for this
  client, unexpired, from the expected issuer and repeat the nonce of this attempt; the address is the one they assert and is not reported as
  unverified; unless the upstream is common, what follows its first \<^verbatim>\<open>@\<close>, up to a second one where the address has it, lies in the
  upstream's domain; a common Microsoft upstream had the
  tenant on its list, or Microsoft's word on the domain, or the consumer tenant together with consumer mail
  records; and a Google upstream with a hosted domain had exactly that domain.\<close>

theorem upstream_identity_bound:
  assumes "completeUpstream pf verify w c now u code stateTx st = (Inr oc, st')"
  shows "\<exists>m jwks ks jwk token i mx.
    fst (upstreamMetadata w now u (c_devMode c) (us_metadata st)) = Inr m \<and>
    fst (fetchJwks w (us_jwks st) now (md_jwks_uri m) 300 (c_devMode c)) = Inr jwks \<and> jget jwks ''keys'' = Some (JArr ks) \<and> jwk \<in> set ks \<and>
    verifyCompact pf verify token jwk UPSTREAM_ALGS = Inr (oc_claims oc) \<and> expectedIssuer u m (oc_claims oc) = Some (JStr i) \<and>
    claims_acceptable (oc_claims oc) \<lparr>vo_issuer = Some i, vo_audience = Some (up_clientId u), vo_nonce = leg_str stateTx ''nonce'',
      vo_clockSkew = tk_clockSkewSeconds (c_tokens c), vo_maxAge = as_num (jget stateTx ''max_age'')\<rparr> now \<and>
    (\<forall>n. leg_str stateTx ''nonce'' = Some n \<and> length n < 2 ^ 32 \<and> length (claimed_nonce (oc_claims oc)) < 2 ^ 32 \<longrightarrow>
       claimed_nonce (oc_claims oc) = n) \<and>
    asserted_email u (oc_claims oc) = Some (oc_email oc) \<and> jget (oc_claims oc) ''email_verified'' \<noteq> Some (JBool False) \<and>
    (up_isCommon u \<or> first_domain_in (oc_email oc) (up_domain u)) \<and>
    (up_provider u = ''microsoft'' \<longrightarrow>
      (up_allowedTenants u \<noteq> [] \<longrightarrow> tid_of (oc_claims oc) \<in> set (up_allowedTenants u)) \<and>
      (up_isCommon u \<and> up_allowedTenants u = [] \<longrightarrow> emailDomainVerified (oc_claims oc) = Some True \<or>
        (tid_of (oc_claims oc) = MICROSOFT_CONSUMER_TENANT_ID \<and> consumer_mx w c u (oc_claims oc) = Inr True))) \<and>
    (up_provider u = ''google'' \<and> str_truthy (hosted_domain u) \<longrightarrow> jget (oc_claims oc) ''hd'' = map_option JStr (hosted_domain u))"
proof -
  from assms obtain m payload mx jcache where a: "fst (upstreamMetadata w now u (c_devMode c) (us_metadata st)) = Inr m"
    "verifyUpstreamIdToken pf verify w now u m (text_or (jget payload ''id_token'')) (leg_str stateTx ''nonce'')
       (tk_clockSkewSeconds (c_tokens c)) (as_num (jget stateTx ''max_age'')) (c_devMode c) (us_jwks st) = (Inr (oc_claims oc), jcache)"
    and mx: "consumer_mx w c u (oc_claims oc) = Inr mx" "pv_verifyClaims (providerFor (up_provider u)) u (oc_claims oc) mx = Inr ()"
    and ca: "check_address u (oc_claims oc) = Inr (oc_email oc)"
    by (rule completeUpstream_Inr)
  have ms: "up_provider u = ''microsoft'' \<Longrightarrow> microsoft_verify u (oc_claims oc) mx = Inr ()"
    and go: "up_provider u = ''google'' \<Longrightarrow> google_verify u (oc_claims oc) mx = Inr ()"
    using mx(2) by (auto simp: providerFor_def microsoft_def google_def)
  have goog: "up_provider u = ''google'' \<and> str_truthy (hosted_domain u) \<longrightarrow> jget (oc_claims oc) ''hd'' = map_option JStr (hosted_domain u)"
    using go by (auto simp: google_verify_def)
  have micro: "up_provider u = ''microsoft'' \<longrightarrow>
      (up_allowedTenants u \<noteq> [] \<longrightarrow> tid_of (oc_claims oc) \<in> set (up_allowedTenants u)) \<and>
      (up_isCommon u \<and> up_allowedTenants u = [] \<longrightarrow> emailDomainVerified (oc_claims oc) = Some True \<or>
        (tid_of (oc_claims oc) = MICROSOFT_CONSUMER_TENANT_ID \<and> consumer_mx w c u (oc_claims oc) = Inr True))"
    using microsoft_verify_Inr [OF ms] mx(1) by auto
  note ad = check_address_Inr [OF ca]
  have dom: "up_isCommon u \<or> first_domain_in (oc_email oc) (up_domain u)" using ad(3) in_domain_first by blast
  from a(2) obtain jwks jwk ks i where t: "fst (fetchJwks w (us_jwks st) now (md_jwks_uri m) 300 (c_devMode c)) = Inr jwks"
    "jget jwks ''keys'' = Some (JArr ks)" "jwk \<in> set ks"
    "verifyCompact pf verify (text_or (jget payload ''id_token'')) jwk UPSTREAM_ALGS = Inr (oc_claims oc)" "expectedIssuer u m (oc_claims oc) = Some (JStr i)"
    "claims_acceptable (oc_claims oc) \<lparr>vo_issuer = Some i, vo_audience = Some (up_clientId u), vo_nonce = leg_str stateTx ''nonce'',
      vo_clockSkew = tk_clockSkewSeconds (c_tokens c), vo_maxAge = as_num (jget stateTx ''max_age'')\<rparr> now"
    by (rule verifyUpstreamIdToken_Inr)
  have nonce: "\<forall>n. leg_str stateTx ''nonce'' = Some n \<and> length n < 2 ^ 32 \<and> length (claimed_nonce (oc_claims oc)) < 2 ^ 32 \<longrightarrow>
       claimed_nonce (oc_claims oc) = n"
  proof (intro allI impI, elim conjE)
    fix n assume n: "leg_str stateTx ''nonce'' = Some n" "length n < 2 ^ 32" "length (claimed_nonce (oc_claims oc)) < 2 ^ 32"
    have "timingSafeEqual (utf8 (claimed_nonce (oc_claims oc))) (utf8 n)" using t(6) n(1) by (simp add: claims_acceptable_def)
    then show "claimed_nonce (oc_claims oc) = n" unfolding timingSafeEqual_str [OF n(3,2)] .
  qed
  show ?thesis using a(1) t nonce ad(1,2) dom micro goog by blast
qed

definition id_claims :: json where
  "id_claims = JObj [(''iss'', JStr ''https://idp.example''), (''aud'', JStr ''gw''), (''exp'', JNum 160), (''nonce'', JStr ''n1''),
     (''sub'', JStr ''42''), (''email'', JStr ''ann@corp.example'')]"

definition id_upstream :: upstream where
  "id_upstream = \<lparr>up_id = ''corp'', up_provider = ''oidc'', up_slug = ''corp'', up_domain = ''corp.example'', up_isCommon = False, up_clientId = ''gw'',
     up_clientSecret = None, up_tenant = None, up_scopes = None, up_issuer = Some ''https://idp.example'',
     up_authorizationEndpoint = Some ''https://idp.example/a'', up_tokenEndpoint = Some ''https://idp.example/t'',
     up_jwksUri = Some ''https://idp.example/k'', up_hd = None, up_label = None, up_prompt = None, up_acrValues = None, up_allowedTenants = [],
     up_useDiscovery = None, up_mailProvider = None\<rparr>"

text \<open>A provider that serves a token at one address and a key set at every other.\<close>

definition id_web :: web where
  "id_web = \<lparr>wb_parse = (\<lambda>s. Some (sample_url s ''https:'' ''idp.example'' ''/'')), wb_target = (\<lambda>_. None), wb_set = (\<lambda>_ _. None),
     wb_fetch = (\<lambda>call. Inr \<lparr>ft_status = 200, ft_opaque = False, ft_headers = [],
       ft_chunks = Some [utf8 (if hc_method call = ''POST'' then ''t'' else ''k'')]\<rparr>),
     wb_json = (\<lambda>s. Some (if s = ''t'' then JObj [(''id_token'', JStr jwt_token)] else JObj [(''keys'', JArr [JObj [(''kty'', JStr ''EC'')]])])),
     wb_resolver = None\<rparr>"

definition id_platform :: platform where
  "id_platform = (toy_platform id_claims)\<lparr>pf_parse := \<lambda>s. if s = ''h'' then Some (JObj [(''alg'', JStr ''ES256'')]) else Some id_claims\<rparr>"

definition id_state :: json where
  "id_state = JObj [(''upstream'', JObj [(''id'', JStr ''corp''), (''verifier'', JStr ''v''), (''nonce'', JStr ''n1''), (''redirectUri'', JStr ''https://id.example/callback'')])]"

definition no_upstreams_seen :: upstream_state where
  "no_upstreams_seen = \<lparr>us_metadata = [], us_jwks = [], us_hints = []\<rparr>"

lemma id_completes:
  "(case fst (completeUpstream id_platform (\<lambda>_ _ _ _. Inr True) id_web sample_config 110 id_upstream ''c'' id_state no_upstreams_seen) of
     Inr oc \<Rightarrow> oc_email oc = ''ann@corp.example'' \<and> oc_claims oc = id_claims | Inl _ \<Rightarrow> False)"
  by code_simp

theorem upstream_identity_bound_witness:
  "\<exists>oc. fst (completeUpstream id_platform (\<lambda>_ _ _ _. Inr True) id_web sample_config 110 id_upstream ''c'' id_state no_upstreams_seen) = Inr oc \<and>
     asserted_email id_upstream (oc_claims oc) = Some ''ann@corp.example'' \<and> claimed_nonce (oc_claims oc) = ''n1''"
proof -
  from id_completes obtain oc st' where run: "completeUpstream id_platform (\<lambda>_ _ _ _. Inr True) id_web sample_config 110 id_upstream ''c'' id_state no_upstreams_seen = (Inr oc, st')"
    and e: "oc_email oc = ''ann@corp.example''" "oc_claims oc = id_claims"
    by (cases "completeUpstream id_platform (\<lambda>_ _ _ _. Inr True) id_web sample_config 110 id_upstream ''c'' id_state no_upstreams_seen")
      (auto split: sum.splits)
  have "leg_str id_state ''nonce'' = Some ''n1''" "length (claimed_nonce id_claims) < 2 ^ 32" by code_simp+
  with upstream_identity_bound [OF run] e run show ?thesis by auto
qed

end
