(* ===== verification/Authorize.thy ===== *)
theory Authorize
  imports Upstream Local_Identity Limits Acr Auth_Code Respond
begin

text \<open>
  The interactive flow, \<^verbatim>\<open>src/endpoints/authorize.js\<close>. A handler is an action on the world the instance acts in: the state store,
  the local identities, the caches of the upstream client, and four logs of what it has let out: the mails handed to the
  sender, the transactions sealed for a browser and those sealed for an upstream, and the codes issued, each with the transaction
  and the session it was minted from. What an exception would be is the left
  value of an action. The clock of a request stands still, and what a request draws at random is part of its visit.
\<close>

section \<open>Actions\<close>

record mail =
  ml_to :: string
  ml_code :: string
  ml_ttlMinutes :: int
  ml_application :: "string option"

record ('s, 'd) world =
  wo_store :: "'s option"
  wo_dir :: 'd
  wo_upstream :: upstream_state
  wo_sent :: "mail list"
  wo_sealed :: "json list"
  wo_states :: "json list"
  wo_codes :: "(json \<times> json) list"

type_synonym ('s, 'd, 'a) act = "('s, 'd) world \<Rightarrow> (failure, 'a) result \<times> ('s, 'd) world"

definition ret :: "'a \<Rightarrow> ('s, 'd, 'a) act" where "ret x w = (Inr x, w)"
definition attempt :: "(failure, 'a) result \<Rightarrow> ('s, 'd, 'a) act" where "attempt r w = (r, w)"

definition andThen :: "('s, 'd, 'a) act \<Rightarrow> ('a \<Rightarrow> ('s, 'd, 'b) act) \<Rightarrow> ('s, 'd, 'b) act" where
  "andThen m f w = (case m w of (Inl e, w') \<Rightarrow> (Inl e, w') | (Inr x, w') \<Rightarrow> f x w')"

definition with_store :: "('s option \<Rightarrow> (failure, 'a) result \<times> 's option) \<Rightarrow> ('s, 'd, 'a) act" where
  "with_store f w = (let (r, s) = f (wo_store w) in (r, w\<lparr>wo_store := s\<rparr>))"

definition with_dir :: "('d \<Rightarrow> (failure, 'a) result \<times> 'd) \<Rightarrow> ('s, 'd, 'a) act" where
  "with_dir f w = (let (r, d) = f (wo_dir w) in (r, w\<lparr>wo_dir := d\<rparr>))"

text \<open>An error of another class is an \<open>Unexpected\<close> failure.\<close>

definition unexpected :: "(string, 'a) result \<Rightarrow> (failure, 'a) result" where
  "unexpected r = (case r of Inl e \<Rightarrow> Inl (Unexpected e) | Inr x \<Rightarrow> Inr x)"

section \<open>Deployment and visit\<close>

record ('s, 'd) deployment =
  dp_pf :: platform
  dp_web :: web
  dp_step :: "'s stepper"
  dp_config :: config
  dp_params :: "string \<Rightarrow> params"
  dp_resolve :: "string \<Rightarrow> (failure, client option) result"
  dp_binding :: "'d binding option"
  dp_verify :: verifier
  dp_send :: "mail \<Rightarrow> (string, string option) result"

record visit =
  vi_request :: request
  vi_query :: params
  vi_clock :: int
  vi_iv :: "string \<Rightarrow> bytes"
  vi_token :: "string \<Rightarrow> string"
  vi_code :: "bytes list"

abbreviation now_of :: "visit \<Rightarrow> int" where "now_of vi \<equiv> nowSeconds (vi_clock vi)"

definition tx_email :: "json \<Rightarrow> string option" where "tx_email tx = as_str (jget tx ''email'')"
definition tx_acrs :: "json \<Rightarrow> string list" where "tx_acrs tx = as_strs (jget tx ''acr_values'')"
definition tx_stage :: "json \<Rightarrow> string \<Rightarrow> bool" where "tx_stage tx s \<longleftrightarrow> jget tx ''stage'' = Some (JStr s)"

definition serverError :: "string \<Rightarrow> failure" where
  "serverError d = OAuthError \<lparr>oe_code = ''server_error'', oe_description = d, oe_status = 500, oe_redirectable = True, oe_uri = None\<rparr>"

definition fail :: "('s, 'd) deployment \<Rightarrow> failure \<Rightarrow> targets \<Rightarrow> ('s, 'd, answer) act" where
  "fail dp e t = attempt (failureResponse (dp_web dp) (dp_config dp) e t)"

definition start_again :: "string option \<Rightarrow> ('s, 'd, answer) act" where
  "start_again detail = ret (startAgainResponse detail)"

definition form_of :: "('s, 'd) deployment \<Rightarrow> visit \<Rightarrow> ('s, 'd, params) act" where
  "form_of dp vi = attempt (readForm (dp_params dp) (vi_request vi))"

definition seal_for_browser :: "('s, 'd) deployment \<Rightarrow> visit \<Rightarrow> json \<Rightarrow> ('s, 'd, string) act" where
  "seal_for_browser dp vi tx w =
     (Inr (sealTransaction (dp_pf dp) (vi_iv vi ''tx'') (dp_config dp) tx), w\<lparr>wo_sealed := tx # wo_sealed w\<rparr>)"

section \<open>Sessions\<close>

definition validSession :: "('s, 'd) deployment \<Rightarrow> json option \<Rightarrow> ('s, 'd, json option) act" where
  "validSession dp session =
     (if \<not> truthy (Option.bind session (\<lambda>s. jget s ''localIdentityId'')) then ret session
      else (case dp_binding dp of None \<Rightarrow> ret None
        | Some B \<Rightarrow> with_dir (\<lambda>d. (rbind (unexpected (validateSession (dp_pf dp) (wb_parse (dp_web dp)) (dp_config dp) B d session))
            (\<lambda>ok. Inr (if ok then session else None)), d))))"

definition held_session :: "('s, 'd) deployment \<Rightarrow> visit \<Rightarrow> client \<Rightarrow> ('s, 'd, json option) act" where
  "held_session dp vi cl = with_store (\<lambda>s. readSession (dp_pf dp) (dp_step dp) (dp_config dp) (vi_request vi)
     (sessionClientFor (dp_config dp) (Some cl)) (vi_clock vi) s)"

definition valid_held_session :: "('s, 'd) deployment \<Rightarrow> visit \<Rightarrow> client \<Rightarrow> ('s, 'd, json option) act" where
  "valid_held_session dp vi cl = andThen (held_session dp vi cl) (validSession dp)"

definition fresh_for :: "config \<Rightarrow> json \<Rightarrow> json \<Rightarrow> int \<Rightarrow> bool" where
  "fresh_for c tx session now = sessionIsFresh session (as_num (jget tx ''max_age'')) (tk_clockSkewSeconds (c_tokens c)) now"

definition session_acr :: "json \<Rightarrow> string" where "session_acr session = coalesce (as_str (jget session ''acr'')) []"

section \<open>Screens\<close>

definition screen :: "('s, 'd) deployment \<Rightarrow> json \<Rightarrow> page \<Rightarrow> page_error option \<Rightarrow> answer" where
  "screen dp tx p error = html_answer (PageContent p (legalFor (wb_parse (dp_web dp)) (dp_config dp) tx) (as_str (jget tx ''logo_uri''))) (if error = None then 200 else 400) []"

definition remembered :: "('s, 'd) deployment \<Rightarrow> visit \<Rightarrow> ('s, 'd, string option) act" where
  "remembered dp vi = attempt (readRememberedEmail (dp_pf dp) (dp_config dp) (vi_request vi) (now_of vi))"

definition remember_cookie :: "('s, 'd) deployment \<Rightarrow> visit \<Rightarrow> string \<Rightarrow> string" where
  "remember_cookie dp vi email = rememberMeCookie (dp_pf dp) (vi_iv vi ''remember'') (dp_config dp) email (now_of vi)"

definition renderEmail :: "('s, 'd) deployment \<Rightarrow> visit \<Rightarrow> json \<Rightarrow> string option \<Rightarrow> page_error option \<Rightarrow> bool \<Rightarrow> ('s, 'd, answer) act" where
  "renderEmail dp vi tx email error otpRecovery =
     andThen (remembered dp vi) (\<lambda>rememberedEmail.
     let rememberMe = (case jnull (jget tx ''remember_me'') None of None \<Rightarrow> str_truthy rememberedEmail | v \<Rightarrow> truthy v);
         displayed = (if email = None then rememberedEmail else email)
     in andThen (seal_for_browser dp vi (advance tx [(''stage'', Some (JStr STAGE_EMAIL))])) (\<lambda>sealed.
        let response = screen dp tx (EmailPage sealed displayed rememberMe error
              (otp_enabled (c_otp (dp_config dp)) \<and> \<not> requiresFederation (tx_acrs tx)) otpRecovery) error
        in ret (if str_truthy rememberedEmail \<and> jget tx ''remember_me'' \<noteq> Some (JBool False)
                then answer_cookie response (remember_cookie dp vi (the rememberedEmail)) else response)))"

definition renderOtp :: "('s, 'd) deployment \<Rightarrow> visit \<Rightarrow> json \<Rightarrow> page_error option \<Rightarrow> string option \<Rightarrow> bool \<Rightarrow> ('s, 'd, answer) act" where
  "renderOtp dp vi tx error devCode resent =
     andThen (seal_for_browser dp vi tx) (\<lambda>sealed. ret (screen dp tx (OtpPage sealed (tx_email tx) error devCode resent) error))"

definition renderLocalPassword :: "('s, 'd) deployment \<Rightarrow> visit \<Rightarrow> json \<Rightarrow> page_error option \<Rightarrow> ('s, 'd, answer) act" where
  "renderLocalPassword dp vi tx error =
     (let candidates = map (\<lambda>u. (up_id u, labelFor u)) (upstreamsFor (dp_config dp) (tx_email tx))
      in andThen (seal_for_browser dp vi (advance tx [(''stage'', Some (JStr STAGE_LOCAL_PASSWORD))])) (\<lambda>sealed.
         ret (screen dp tx (LocalPasswordPage sealed (tx_email tx) error candidates) error)))"

definition renderLocalMfa :: "('s, 'd) deployment \<Rightarrow> visit \<Rightarrow> json \<Rightarrow> page_error option \<Rightarrow> int list \<Rightarrow> ('s, 'd, answer) act" where
  "renderLocalMfa dp vi tx error totpDigits =
     andThen (seal_for_browser dp vi (advance tx [(''stage'', Some (JStr STAGE_LOCAL_MFA))])) (\<lambda>sealed.
     ret (screen dp tx (LocalMfaPage sealed (tx_email tx) error (map nat totpDigits)) error))"

definition renderContinue :: "('s, 'd) deployment \<Rightarrow> visit \<Rightarrow> json \<Rightarrow> json \<Rightarrow> page_error option \<Rightarrow> ('s, 'd, answer) act" where
  "renderContinue dp vi tx session error =
     andThen (seal_for_browser dp vi (advance tx [(''stage'', Some (JStr STAGE_CONTINUE))])) (\<lambda>sealed.
     ret (screen dp tx (ContinuePage sealed session (Some (displayIdentity (dp_config dp) (Some session))) error) error))"

definition renderChooser :: "('s, 'd) deployment \<Rightarrow> visit \<Rightarrow> json \<Rightarrow> upstream list \<Rightarrow> string option \<Rightarrow> page_error option \<Rightarrow> ('s, 'd, answer) act" where
  "renderChooser dp vi tx upstreams hinted error =
     andThen (seal_for_browser dp vi (advance tx [(''stage'', Some (JStr STAGE_CHOOSE))])) (\<lambda>sealed.
     ret (screen dp tx (ChooserPage sealed (tx_email tx) (map (\<lambda>u. (up_id u, ''Continue with '' @ labelFor u)) upstreams) hinted error
       (otpAllowed (dp_config dp) (tx_email tx))) error))"

section \<open>Completion\<close>

definition subject_of :: "('s, 'd) deployment \<Rightarrow> client \<Rightarrow> json \<Rightarrow> string \<Rightarrow> (failure, string) result" where
  "subject_of dp cl session email =
     unexpected (if truthy (jget session ''localIdentityId'')
       then subjectForLocalIdentity (dp_pf dp) (dp_config dp) (as_str (jget session ''localIdentityId'')) (Some cl)
       else subjectFor (dp_pf dp) (dp_config dp) email (Some cl))"

definition remember_after :: "('s, 'd) deployment \<Rightarrow> visit \<Rightarrow> json \<Rightarrow> string \<Rightarrow> answer \<Rightarrow> ('s, 'd, answer) act" where
  "remember_after dp vi tx email response =
     (if jget tx ''remember_me'' = Some (JBool True) then ret (answer_cookie response (remember_cookie dp vi email))
      else if jget tx ''remember_me'' = Some (JBool False)
      then ret (if hasRememberMeCookie (vi_request vi) then answer_cookie response clearRememberMeCookie else response)
      else andThen (remembered dp vi) (\<lambda>rememberedEmail.
           ret (if str_truthy rememberedEmail then answer_cookie response (remember_cookie dp vi email) else response)))"

definition log_code :: "json \<Rightarrow> json \<Rightarrow> ('s, 'd, unit) act" where
  "log_code tx session w = (Inr (), w\<lparr>wo_codes := (tx, session) # wo_codes w\<rparr>)"

definition complete :: "('s, 'd) deployment \<Rightarrow> visit \<Rightarrow> json \<Rightarrow> client \<Rightarrow> json \<Rightarrow> bool \<Rightarrow> ('s, 'd, answer) act" where
  "complete dp vi tx cl authenticated refreshCookie =
     (let session = (if refreshCookie then touch (dp_config dp) authenticated (now_of vi) else authenticated);
          address = coalesce (as_str (jget session ''email'')) [];
          email = identityEmail (dp_config dp) address (Some cl)
      in andThen (attempt (subject_of dp cl session email)) (\<lambda>sub.
         let code = issueCode (dp_pf dp) (vi_iv vi ''code'') (dp_config dp) tx session sub email (vi_token vi ''jti'') (now_of vi)
         in andThen (log_code tx session) (\<lambda>_. andThen (attempt (authorizationResponse (dp_web dp) (dp_config dp) tx code)) (\<lambda>response.
            remember_after dp vi tx address
              (if refreshCookie
               then answer_cookie response (sessionCookie (dp_pf dp) (vi_iv vi ''session'') (dp_config dp) session
                 (sessionClientFor (dp_config dp) (Some cl)) (now_of vi))
               else response)))))"

end
