(* ===== verification/Sign_In.thy ===== *)
theory Sign_In
  imports Authorize
begin

text \<open>
  The handlers of \<^verbatim>\<open>src/endpoints/authorize.js\<close>: the decision at the start, routing an address, mailed codes, local passwords and
  second factors, the existing session and the upstream round trip.
\<close>

section \<open>Starting\<close>

definition decide :: "('s, 'd) deployment \<Rightarrow> visit \<Rightarrow> json \<Rightarrow> client \<Rightarrow> json option \<Rightarrow> ('s, 'd, answer) act" where
  "decide dp vi tx cl session =
     (let c = dp_config dp; now = now_of vi;
          wantsSilent = has_prompt tx ''none'';
          forcesLogin = (has_prompt tx ''login'' \<or> has_prompt tx ''select_account'')
      in case session of
           None \<Rightarrow> if wantsSilent then fail dp (loginRequired ''There is no active session to answer this request from.'') (redirectTargets tx)
                   else renderEmail dp vi tx (if str_truthy (as_str (jget tx ''login_hint'')) then as_str (jget tx ''login_hint'') else None) None False
         | Some ses \<Rightarrow>
             if wantsSilent
             then (if \<not> fresh_for c tx ses now
                   then fail dp (loginRequired ''The existing session is too old for this request.'') (redirectTargets tx)
                   else if \<not> satisfies (session_acr ses) (tx_acrs tx)
                   then fail dp (unmetAcr ''The existing session does not meet the requested authentication context.'') (redirectTargets tx)
                   else if forcesLogin
                   then fail dp (interactionRequired ''prompt=none cannot be combined with a demand to re-authenticate.'') (redirectTargets tx)
                   else complete dp vi tx cl ses True)
             else if \<not> forcesLogin \<and> fresh_for c tx ses now \<and> satisfies (session_acr ses) (tx_acrs tx) \<and> has_prompt tx ''consent''
             then renderContinue dp vi (advance tx [(''stage'', Some (JStr STAGE_CONTINUE))]) ses None
             else renderEmail dp vi tx
               (if str_truthy (as_str (jget tx ''login_hint'')) then as_str (jget tx ''login_hint'')
                else if forcesLogin then None else as_str (jget ses ''email'')) None False)"

definition started_tx :: "('s, 'd) deployment \<Rightarrow> visit \<Rightarrow> client \<Rightarrow> auth_request \<Rightarrow> json" where
  "started_tx dp vi cl req =
     advance (newTransaction (dp_config dp) req (vi_token vi ''txid'') (now_of vi))
       [(''client_name'', Some (JStr (cl_clientName cl))), (''logo_uri'', map_option JStr (cl_logoUri cl)),
        (''tos_uri'', map_option JStr (cl_tosUri cl)), (''policy_uri'', map_option JStr (cl_policyUri cl))]"

definition request_targets :: "params \<Rightarrow> (failure, targets) result" where
  "request_targets ps =
     rbind (single ps ''redirect_uri'') (\<lambda>uri. rbind (single ps ''state'') (\<lambda>state. rbind (single ps ''response_mode'') (\<lambda>mode.
     Inr \<lparr>tg_redirectUri = uri, tg_state = state, tg_responseMode = mode\<rparr>)))"

definition handleAuthorize :: "('s, 'd) deployment \<Rightarrow> visit \<Rightarrow> ('s, 'd, answer) act" where
  "handleAuthorize dp vi =
     andThen (if rq_method (vi_request vi) = ''POST'' then form_of dp vi else ret (vi_query vi)) (\<lambda>ps.
     case parseAuthorizationRequest (wb_parse (dp_web dp)) (dp_resolve dp) (dp_config dp) ps of
       Inl (OAuthError e) \<Rightarrow> andThen (attempt (request_targets ps)) (\<lambda>t. fail dp (OAuthError e) t)
     | Inl e \<Rightarrow> fail dp e no_targets
     | Inr (cl, req) \<Rightarrow> andThen (valid_held_session dp vi cl) (decide dp vi (started_tx dp vi cl req) cl))"

section \<open>Reading a transaction back\<close>

datatype loaded = Stopped answer | Loaded json client params

definition loadTransaction :: "('s, 'd) deployment \<Rightarrow> visit \<Rightarrow> ('s, 'd, loaded) act" where
  "loadTransaction dp vi =
     andThen (form_of dp vi) (\<lambda>ps.
     andThen (attempt (single ps ''tx'')) (\<lambda>token.
     if \<not> str_truthy token then ret (Stopped (startAgainResponse None))
     else (case openTransaction (dp_pf dp) (dp_config dp) (the token) (now_of vi) of
             Inl (SealError _) \<Rightarrow> ret (Stopped (startAgainResponse None))
           | Inl TypeError \<Rightarrow> attempt (Inl (Unexpected ''TypeError''))
           | Inr tx \<Rightarrow>
               if expired tx (now_of vi)
               then ret (Stopped (startAgainResponse (Some
                 ''This sign-in attempt took too long and has expired. Go back to the application and try again.'')))
               else andThen (attempt (dp_resolve dp (coalesce (as_str (jget tx ''client_id'')) []))) (\<lambda>cl.
                 ret (case cl of None \<Rightarrow> Stopped (startAgainResponse (Some
                        ''The application that started this sign-in is no longer registered here.''))
                      | Some k \<Rightarrow> Loaded tx k ps)))))"

text \<open>\<open>if (loaded.fail) return loaded.fail\<close>.\<close>

definition loading :: "('s, 'd) deployment \<Rightarrow> visit \<Rightarrow> (json \<Rightarrow> client \<Rightarrow> params \<Rightarrow> ('s, 'd, answer) act) \<Rightarrow> ('s, 'd, answer) act" where
  "loading dp vi body =
     andThen (loadTransaction dp vi) (\<lambda>l. case l of Stopped a \<Rightarrow> ret a | Loaded tx cl ps \<Rightarrow> body tx cl ps)"

section \<open>Mailed codes\<close>

definition otp_resends :: "json \<Rightarrow> int" where
  "otp_resends tx = coalesce (as_num (Option.bind (jget tx ''otp'') (\<lambda>x. jget x ''resends''))) 0"

definition too_many_codes :: page_error where
  "too_many_codes = \<lparr>pe_title = ''Too many codes requested'', pe_detail = ''Go back to the application and start signing in again.''\<rparr>"

definition not_sent :: page_error where
  "not_sent = \<lparr>pe_title = ''We could not send your code'',
     pe_detail = ''Try requesting another code. If it keeps failing, contact whoever runs this service.''\<rparr>"

definition send_mail :: "('s, 'd) deployment \<Rightarrow> mail \<Rightarrow> ('s, 'd, (string, string option) result) act" where
  "send_mail dp m w = (Inr (dp_send dp m), w\<lparr>wo_sent := m # wo_sent w\<rparr>)"

definition sendOtp :: "('s, 'd) deployment \<Rightarrow> visit \<Rightarrow> json \<Rightarrow> bool \<Rightarrow> ('s, 'd, answer) act" where
  "sendOtp dp vi tx resend =
     (let c = dp_config dp; now = now_of vi;
          email = coalesce (tx_email tx) [];
          decoy = (\<not> otpAllowed c (tx_email tx));
          resends = (if resend then otp_resends tx + 1 else 0);
          expiresAt = now + otp_ttlSeconds (c_otp c)
      in if resends > otp_maxResends (c_otp c) then renderOtp dp vi tx (Some too_many_codes) None False
         else andThen (with_store (\<lambda>s. (case checkOtpSendAllowed (dp_pf dp) (dp_step dp) c email (vi_clock vi) s of (v, s') \<Rightarrow> (Inr v, s'))))
           (\<lambda>limit.
           if \<not> allowed limit
           then renderOtp dp vi (if truthy (jget tx ''otp'') then tx else withOtp tx None expiresAt resends now) None None resend
           else (case generateCode (nat (otp_codeLength (c_otp c))) (alphabetFor c) (vi_code vi) of
                   None \<Rightarrow> attempt (Inl (Unexpected ''random source''))
                 | Some code \<Rightarrow>
                     (let next = withOtp tx (Some (digestCode (dp_pf dp) c (coalesce (as_str (jget tx ''id'')) []) email (Some code)))
                            expiresAt resends now
                      in if decoy then renderOtp dp vi next None None resend
                         else andThen (send_mail dp \<lparr>ml_to = email, ml_code = code,
                                ml_ttlMinutes = (otp_ttlSeconds (c_otp c) + 30) div 60, ml_application = as_str (jget tx ''client_name'')\<rparr>)
                              (\<lambda>sent. case sent of Inl _ \<Rightarrow> renderOtp dp vi next (Some not_sent) None False
                                     | Inr devCode \<Rightarrow> renderOtp dp vi next None devCode resend)))))"

definition handleOtpRequest :: "('s, 'd) deployment \<Rightarrow> visit \<Rightarrow> ('s, 'd, answer) act" where
  "handleOtpRequest dp vi = loading dp vi (\<lambda>tx cl ps.
     if \<not> otpAllowed (dp_config dp) (tx_email tx) \<or> requiresFederation (tx_acrs tx)
     then start_again (Some ''Signing in with an email code is not available for this request.'')
     else sendOtp dp vi tx False)"

definition handleResend :: "('s, 'd) deployment \<Rightarrow> visit \<Rightarrow> ('s, 'd, answer) act" where
  "handleResend dp vi = loading dp vi (\<lambda>tx cl ps.
     if \<not> str_truthy (tx_email tx) \<or> \<not> tx_stage tx STAGE_OTP then start_again None else sendOtp dp vi tx True)"

definition code_refusal :: "config \<Rightarrow> json \<Rightarrow> string \<Rightarrow> page_error" where
  "code_refusal c attempted why =
     (if why = ''expired'' then \<lparr>pe_title = ''That code has expired'', pe_detail = ''Request another code and enter the new one.''\<rparr>
      else if why = ''too-many-attempts''
      then \<lparr>pe_title = ''Too many incorrect codes'', pe_detail = ''Request another code, or go back to the application and start again.''\<rparr>
      else (let left = otp_maxAttempts (c_otp c) - otp_attempts attempted
            in \<lparr>pe_title = ''That code is not right'',
                pe_detail = (if left > 0 then ''Check the code in the email and try again. '' @ show_int left @ '' attempt'' @
                  (if left = 1 then [] else ''s'') @ '' left.'' else ''Request another code.'')\<rparr>))"

definition session_args_for :: "string option \<Rightarrow> bool \<Rightarrow> auth_context \<Rightarrow> json option \<Rightarrow> session_args" where
  "session_args_for email verified how held =
     \<lparr>sa_email = email, sa_emailVerified = Some verified, sa_acr = ctx_acr how, sa_amr = ctx_amr how, sa_authTime = None, sa_upstream = None,
      sa_upstreamLabel = None, sa_claims = held, sa_localIdentityId = None, sa_localIdentityKey = None, sa_localSecurityVersion = None\<rparr>"

text \<open>A session of the same principal is re-authenticated, any other is replaced.\<close>

definition renewed :: "('s, 'd) deployment \<Rightarrow> visit \<Rightarrow> (json \<Rightarrow> bool) \<Rightarrow> json option \<Rightarrow> session_args \<Rightarrow> json" where
  "renewed dp vi same existing args =
     (case existing of Some ses \<Rightarrow>
        if same ses then reauthenticate (dp_config dp) ses args (now_of vi)
        else newSession (dp_config dp) args (vi_token vi ''sid'') (now_of vi)
      | None \<Rightarrow> newSession (dp_config dp) args (vi_token vi ''sid'') (now_of vi))"

definition handleOtpSubmit :: "('s, 'd) deployment \<Rightarrow> visit \<Rightarrow> ('s, 'd, answer) act" where
  "handleOtpSubmit dp vi = loading dp vi (\<lambda>tx cl ps.
     if \<not> tx_stage tx STAGE_OTP \<or> \<not> truthy (jget tx ''otp'') then start_again None
     else andThen (attempt (single ps ''code'')) (\<lambda>code.
       case verifyCode (dp_pf dp) (dp_config dp) tx code (now_of vi) of
         Inl why \<Rightarrow> renderOtp dp vi (withOtpAttempt tx) (Some (code_refusal (dp_config dp) (withOtpAttempt tx) why)) None False
       | Inr _ \<Rightarrow>
           andThen (held_session dp vi cl) (\<lambda>existing.
           let args = session_args_for (tx_email tx) True acrForOtp (inferredClaims (dp_config dp) (tx_email tx));
               same = (\<lambda>ses. \<not> truthy (jget ses ''localIdentityId'') \<and> jget ses ''email'' = jget tx ''email'')
           in complete dp vi tx cl (renewed dp vi same existing args) True)))"

section \<open>Routing\<close>

definition startUpstream :: "('s, 'd) deployment \<Rightarrow> visit \<Rightarrow> json \<Rightarrow> upstream \<Rightarrow> bool \<Rightarrow> ('s, 'd, answer) act" where
  "startUpstream dp vi tx u hinted w =
     (case beginUpstream (dp_pf dp) (dp_web dp) (vi_iv vi ''upstream'') (dp_config dp) (now_of vi) u tx hinted (vi_token vi ''verifier'')
             (vi_token vi ''nonce'') (wo_upstream w) of
        (Inr (url, stateTx), st) \<Rightarrow> ret (redirect_answer url) (w\<lparr>wo_upstream := st, wo_states := stateTx # wo_states w\<rparr>)
      | (Inl _, st) \<Rightarrow>
          (if otpAllowed (dp_config dp) (tx_email tx) \<and> \<not> requiresFederation (tx_acrs tx) then sendOtp dp vi tx False
           else fail dp (serverError ''The sign-in provider for your organisation could not be reached.'') (redirectTargets tx))
          (w\<lparr>wo_upstream := st\<rparr>))"

definition hinted_upstreams :: "('s, 'd) deployment \<Rightarrow> visit \<Rightarrow> upstream list \<Rightarrow> string option \<Rightarrow> ('s, 'd, hint_result) act" where
  "hinted_upstreams dp vi candidates domain w =
     (case hintUpstreams (dp_web dp) (dp_config dp) (now_of vi) candidates domain (us_hints (wo_upstream w)) of
        (r, hints) \<Rightarrow> (unexpected r, w\<lparr>wo_upstream := (wo_upstream w)\<lparr>us_hints := hints\<rparr>\<rparr>))"

text \<open>\<open>email.split('@')[1]\<close>.\<close>

definition raw_domain :: "string option \<Rightarrow> string option" where
  "raw_domain email = (case split_on (CHR ''@'') (coalesce email []) of _ # d # _ \<Rightarrow> Some d | _ \<Rightarrow> None)"

definition unknown_address :: "string option \<Rightarrow> page_error" where
  "unknown_address email = \<lparr>pe_title = ''We cannot sign you in with that address'',
     pe_detail = ''This service does not accept '' @ coalesce (raw_domain email) ''undefined'' @ '' addresses. Try the address you use at work.''\<rparr>"

definition route_common :: "('s, 'd) deployment \<Rightarrow> visit \<Rightarrow> json \<Rightarrow> upstream list \<Rightarrow> bool \<Rightarrow> ('s, 'd, answer) act" where
  "route_common dp vi tx candidates otpPossible =
     andThen (hinted_upstreams dp vi candidates (raw_domain (tx_email tx))) (\<lambda>h.
     case hr_hinted h of
       Some u \<Rightarrow> if dn_hint (c_dns (dp_config dp)) = ''select'' then startUpstream dp vi tx u True
                 else if otpPossible \<and> hr_unmatched h then sendOtp dp vi tx False
                 else renderChooser dp vi tx (hr_list h) (Some (up_id u)) None
     | None \<Rightarrow> if otpPossible \<and> (hr_unmatched h \<or> length candidates = 1) then sendOtp dp vi tx False
               else renderChooser dp vi tx (hr_list h) None None)"

definition route :: "('s, 'd) deployment \<Rightarrow> visit \<Rightarrow> json \<Rightarrow> ('s, 'd, answer) act" where
  "route dp vi tx =
     (let c = dp_config dp; email = tx_email tx; candidates = upstreamsFor c email;
          otpPossible = (otpAllowed c email \<and> \<not> requiresFederation (tx_acrs tx))
      in if localIdentityAllowed c email then renderLocalPassword dp vi tx None
         else (case candidates of
                 u # others \<Rightarrow>
                   if \<not> up_isCommon u
                   then (if others = [] then startUpstream dp vi tx u False else renderChooser dp vi tx candidates None None)
                   else if others = [] \<and> (dn_hint (c_dns c) = ''off'' \<or> (up_provider u = ''oidc'' \<and> \<not> str_truthy (up_mailProvider u)))
                   then startUpstream dp vi tx u False
                   else route_common dp vi tx candidates otpPossible
               | [] \<Rightarrow>
                   if otpPossible then sendOtp dp vi tx False
                   else if otpAllowed c email
                   then fail dp (unmetAcr ''No sign-in method available for this address can satisfy the requested authentication context.'')
                     (redirectTargets tx)
                   else if c_unknownAddress c = ''explain'' \<or> \<not> otp_enabled (c_otp c)
                   then renderEmail dp vi tx email (Some (unknown_address email)) False
                   else sendOtp dp vi tx False))"

definition bad_address :: page_error where
  "bad_address = \<lparr>pe_title = ''Check your email address'', pe_detail = ''Enter an address in the form name@example.com.''\<rparr>"

definition handleEmailSubmit :: "('s, 'd) deployment \<Rightarrow> visit \<Rightarrow> ('s, 'd, answer) act" where
  "handleEmailSubmit dp vi = loading dp vi (\<lambda>tx cl ps.
     andThen (attempt (single ps ''remember_me'')) (\<lambda>ticked.
     let next = advance tx [(''remember_me'', Some (JBool (ticked \<noteq> None)))]
     in andThen (attempt (single ps ''email'')) (\<lambda>given.
        let email = normaliseEmail given
        in if \<not> str_truthy email \<or> \<not> looksLikeEmail email
           then renderEmail dp vi next (Some (coalesce (map_of ps ''email'') [])) (Some bad_address) False
           else (let ready = advance next [(''email'', map_option JStr email)]
                 in andThen (attempt (single ps ''method'')) (\<lambda>how.
                    if how = Some ''otp'' \<and> otp_enabled (c_otp (dp_config dp)) \<and> \<not> requiresFederation (tx_acrs ready)
                    then sendOtp dp vi ready False else route dp vi ready)))))"

definition handleRestart :: "('s, 'd) deployment \<Rightarrow> visit \<Rightarrow> ('s, 'd, answer) act" where
  "handleRestart dp vi = loading dp vi (\<lambda>tx cl ps. renderEmail dp vi (withoutOtp tx) None None False)"

definition handleContinue :: "('s, 'd) deployment \<Rightarrow> visit \<Rightarrow> ('s, 'd, answer) act" where
  "handleContinue dp vi = loading dp vi (\<lambda>tx cl ps.
     andThen (valid_held_session dp vi cl) (\<lambda>session.
     case session of None \<Rightarrow> renderEmail dp vi tx None None False
     | Some ses \<Rightarrow>
         if \<not> fresh_for (dp_config dp) tx ses (now_of vi) \<or> \<not> satisfies (session_acr ses) (tx_acrs tx)
         then renderEmail dp vi tx (as_str (jget ses ''email'')) None False
         else complete dp vi tx cl ses True))"

definition handleChooseUpstream :: "('s, 'd) deployment \<Rightarrow> visit \<Rightarrow> ('s, 'd, answer) act" where
  "handleChooseUpstream dp vi = loading dp vi (\<lambda>tx cl ps.
     andThen (attempt (single ps ''upstream'')) (\<lambda>chosen.
     case find (\<lambda>u. Some (up_id u) = chosen) (upstreamsFor (dp_config dp) (tx_email tx)) of
       None \<Rightarrow> start_again None | Some u \<Rightarrow> startUpstream dp vi tx u False))"

section \<open>Local passwords\<close>

definition LOCAL_CREDENTIAL_ERROR :: page_error where
  "LOCAL_CREDENTIAL_ERROR = \<lparr>pe_title = ''We could not sign you in'', pe_detail = ''Check your details and try again.''\<rparr>"

definition local_limit :: "('s, 'd) deployment \<Rightarrow> visit \<Rightarrow> string \<Rightarrow> string \<Rightarrow> ('s, 'd, verdict) act" where
  "local_limit dp vi email factor = with_store (\<lambda>s.
     (case checkLocalAuthAllowed (dp_pf dp) (dp_step dp) (dp_config dp) email factor (header (vi_request vi) ''x-sag-client-ip'') (vi_clock vi) s of
        (v, s') \<Rightarrow> (Inr v, s')))"

definition look_up :: "('s, 'd) deployment \<Rightarrow> 'd binding \<Rightarrow> string option \<Rightarrow> ('s, 'd, found) act" where
  "look_up dp B email = with_dir (\<lambda>d. (unexpected (find_identity (dp_pf dp) (wb_parse (dp_web dp)) (dp_config dp) B d email), d))"

definition factor_name :: "factor \<Rightarrow> string" where
  "factor_name f = (case f of Recovery \<Rightarrow> ''recovery'' | Totp_Factor \<Rightarrow> ''totp'')"

definition local_args :: "('s, 'd) deployment \<Rightarrow> json \<Rightarrow> local_record \<Rightarrow> auth_context \<Rightarrow> session_args" where
  "local_args dp tx r how =
     (session_args_for (tx_email tx) False how (profileClaims (dp_config dp) (Some r)))
       \<lparr>sa_localIdentityId := Some (lr_id r), sa_localIdentityKey := Some (lr_key r), sa_localSecurityVersion := Some (lr_security_version r)\<rparr>"

definition completeLocalAuthentication :: "('s, 'd) deployment \<Rightarrow> visit \<Rightarrow> json \<Rightarrow> client \<Rightarrow> local_record \<Rightarrow> string option \<Rightarrow> ('s, 'd, answer) act" where
  "completeLocalAuthentication dp vi tx cl r secondFactor =
     andThen (valid_held_session dp vi cl) (\<lambda>existing.
     complete dp vi tx cl (renewed dp vi (\<lambda>ses. jget ses ''localIdentityId'' = Some (JStr (lr_id r))) existing
       (local_args dp tx r (acrForLocal secondFactor))) True)"

definition handleLocalPassword :: "('s, 'd) deployment \<Rightarrow> visit \<Rightarrow> ('s, 'd, answer) act" where
  "handleLocalPassword dp vi = loading dp vi (\<lambda>tx cl ps.
     case dp_binding dp of None \<Rightarrow> start_again None
     | Some B \<Rightarrow>
         if \<not> tx_stage tx STAGE_LOCAL_PASSWORD \<or> \<not> str_truthy (tx_email tx) \<or> \<not> localIdentityAllowed (dp_config dp) (tx_email tx)
         then start_again None
         else andThen (local_limit dp vi (the (tx_email tx)) ''password'') (\<lambda>limit.
              andThen (look_up dp B (tx_email tx)) (\<lambda>fd.
              andThen (attempt (single ps ''password'')) (\<lambda>password.
              andThen (attempt (unexpected (verifyPassword (dp_config dp) B fd password))) (\<lambda>verified.
              case fd_record fd of None \<Rightarrow> renderLocalPassword dp vi tx (Some LOCAL_CREDENTIAL_ERROR)
              | Some r \<Rightarrow>
                  let second = lr_mfa_required r in
                  if \<not> verified \<or> \<not> allowed limit \<or>
                     \<not> satisfies (ctx_acr (acrForLocal (if second then Some ''totp'' else None))) (tx_acrs tx)
                  then renderLocalPassword dp vi tx (Some LOCAL_CREDENTIAL_ERROR)
                  else if second
                  then renderLocalMfa dp vi (advance tx [(''local_identity'', Some (jobj [(''id'', Some (JStr (lr_id r))),
                         (''security_version'', Some (JNum (lr_security_version r)))]))]) None (map tc_digits (lr_totp r))
                  else completeLocalAuthentication dp vi tx cl r None)))))"

definition mfa_identity :: "json \<Rightarrow> string \<Rightarrow> json option" where
  "mfa_identity tx k = Option.bind (jget tx ''local_identity'') (\<lambda>i. jget i k)"

definition expected_record :: "json \<Rightarrow> found \<Rightarrow> local_record option" where
  "expected_record tx fd =
     (case fd_record fd of None \<Rightarrow> None
      | Some r \<Rightarrow> if \<not> lr_disabled r \<and> mfa_identity tx ''id'' = Some (JStr (lr_id r)) \<and>
                     mfa_identity tx ''security_version'' = Some (JNum (lr_security_version r)) then Some r else None)"

definition second_factor :: "('s, 'd) deployment \<Rightarrow> visit \<Rightarrow> 'd binding \<Rightarrow> local_record option \<Rightarrow> string option \<Rightarrow> bool \<Rightarrow>
    ('s, 'd, (factor \<times> local_record) option) act" where
  "second_factor dp vi B expected code consume =
     (case expected of None \<Rightarrow> ret None
      | Some r \<Rightarrow> with_dir (\<lambda>d. case verifySecondFactor (dp_pf dp) (dp_config dp) B r code (vi_clock vi) consume d of
          (x, d') \<Rightarrow> (unexpected x, d')))"

definition handleLocalMfa :: "('s, 'd) deployment \<Rightarrow> visit \<Rightarrow> ('s, 'd, answer) act" where
  "handleLocalMfa dp vi = loading dp vi (\<lambda>tx cl ps.
     case dp_binding dp of None \<Rightarrow> start_again None
     | Some B \<Rightarrow>
         if \<not> tx_stage tx STAGE_LOCAL_MFA \<or> \<not> str_truthy (tx_email tx) \<or> \<not> truthy (mfa_identity tx ''id'') \<or>
            \<not> localIdentityAllowed (dp_config dp) (tx_email tx)
         then start_again None
         else andThen (local_limit dp vi (the (tx_email tx)) ''mfa'') (\<lambda>limit.
              andThen (look_up dp B (tx_email tx)) (\<lambda>fd.
              let expected = expected_record tx fd in
              andThen (attempt (if expected = None then Inr None else single ps ''code'')) (\<lambda>code.
              andThen (second_factor dp vi B expected code (allowed limit)) (\<lambda>outcome.
              case outcome of
                None \<Rightarrow> renderLocalMfa dp vi tx (Some LOCAL_CREDENTIAL_ERROR) (case expected of None \<Rightarrow> [] | Some r \<Rightarrow> map tc_digits (lr_totp r))
              | Some (via, r) \<Rightarrow>
                  if \<not> allowed limit
                  then renderLocalMfa dp vi tx (Some LOCAL_CREDENTIAL_ERROR) (case expected of None \<Rightarrow> [] | Some r \<Rightarrow> map tc_digits (lr_totp r))
                  else completeLocalAuthentication dp vi tx cl r (Some (factor_name via)))))))"

section \<open>The upstream round trip\<close>

definition upstream_failed :: "string \<Rightarrow> page_error" where
  "upstream_failed detail = \<lparr>pe_title = ''That sign-in did not complete'', pe_detail = detail\<rparr>"

definition offerFallback :: "('s, 'd) deployment \<Rightarrow> visit \<Rightarrow> json \<Rightarrow> ('s, 'd, answer) act" where
  "offerFallback dp vi tx =
     (let c = dp_config dp; email = tx_email tx; candidates = upstreamsFor c email
      in if localIdentityAllowed c email
         then renderLocalPassword dp vi (withoutAttempt tx) (Some (upstream_failed ''Try again, choose another provider, or use your password.''))
         else if length candidates > 1
         then renderChooser dp vi (withoutAttempt tx) candidates None (Some (upstream_failed ''Try again, or choose a different way to sign in.''))
         else if otpAllowed c email \<and> \<not> requiresFederation (tx_acrs tx)
         then renderEmail dp vi (withoutOtp tx) email (Some (upstream_failed ''Try again, or continue with an email code instead.'')) True
         else fail dp (accessDenied ''Signing in with your organisation provider did not complete.'') (redirectTargets tx))"

definition leg :: "json \<Rightarrow> string \<Rightarrow> json option" where
  "leg tx k = Option.bind (jget tx ''upstream'') (\<lambda>l. jget l k)"

definition upstream_refused :: "('s, 'd) deployment \<Rightarrow> visit \<Rightarrow> json \<Rightarrow> string \<Rightarrow> ('s, 'd, answer) act" where
  "upstream_refused dp vi stateTx error =
     (if has_prompt stateTx ''none''
      then fail dp (loginRequired ''The sign-in provider could not authenticate you without interaction.'') (redirectTargets stateTx)
      else if error = ''access_denied'' \<and> \<not> truthy (leg stateTx ''hinted'')
      then fail dp (accessDenied ''You cancelled signing in, or the provider declined.'') (redirectTargets stateTx)
      else offerFallback dp vi stateTx)"

definition find_linked :: "('s, 'd) deployment \<Rightarrow> 'd binding \<Rightarrow> json \<Rightarrow> upstream \<Rightarrow> json \<Rightarrow> 'd \<Rightarrow> (failure, (found \<times> link) option) result" where
  "find_linked dp B stateTx u clm d =
     unexpected (linked (dp_pf dp) (wb_parse (dp_web dp)) (dp_config dp) B d (tx_email stateTx) (up_id u)
       (coalesce (as_str (jget clm ''iss'')) []) (coalesce (as_str (jget clm ''sub'')) []))"

definition keep_refresh :: "('s, 'd) deployment \<Rightarrow> visit \<Rightarrow> 'd binding \<Rightarrow> local_record \<Rightarrow> link \<Rightarrow> string option \<Rightarrow> 'd \<Rightarrow>
    (failure, local_record option) result \<times> 'd" where
  "keep_refresh dp vi B r l token d =
     (case storeRefreshToken (dp_pf dp) (vi_iv vi ''refresh'') (dp_config dp) B r l token d of (x, d') \<Rightarrow> (unexpected x, d'))"

text \<open>The record an exact link names, after its refresh credential is stored; a lost race is retried once on the newer record.\<close>

definition linked_record :: "('s, 'd) deployment \<Rightarrow> visit \<Rightarrow> 'd binding \<Rightarrow> json \<Rightarrow> upstream \<Rightarrow> outcome \<Rightarrow> 'd \<Rightarrow>
    (failure, local_record option) result \<times> 'd" where
  "linked_record dp vi B stateTx u oc d =
     (let lost = Inl (Unexpected ''could not persist the upstream refresh credential safely'') in
      case find_linked dp B stateTx u (oc_claims oc) d of Inl e \<Rightarrow> (Inl e, d)
      | Inr None \<Rightarrow> (Inr None, d)
      | Inr (Some (fd, l)) \<Rightarrow>
          if \<not> str_truthy (oc_refreshToken oc) then (Inr (fd_record fd), d)
          else (case keep_refresh dp vi B (the (fd_record fd)) l (oc_refreshToken oc) d of (Inl e, d') \<Rightarrow> (Inl e, d')
            | (Inr (Some r), d') \<Rightarrow> (Inr (Some r), d')
            | (Inr None, d') \<Rightarrow>
                (case find_linked dp B stateTx u (oc_claims oc) d' of Inl e \<Rightarrow> (Inl e, d')
                 | Inr None \<Rightarrow> (lost, d')
                 | Inr (Some (fd', l')) \<Rightarrow>
                     (case keep_refresh dp vi B (the (fd_record fd')) l' (oc_refreshToken oc) d' of (Inl e, d'') \<Rightarrow> (Inl e, d'')
                      | (Inr None, d'') \<Rightarrow> (lost, d'') | (Inr (Some r), d'') \<Rightarrow> (Inr (Some r), d'')))))"

definition converged :: "('s, 'd) deployment \<Rightarrow> visit \<Rightarrow> json \<Rightarrow> upstream \<Rightarrow> outcome \<Rightarrow> ('s, 'd, local_record option) act" where
  "converged dp vi stateTx u oc =
     (case dp_binding dp of None \<Rightarrow> ret None
      | Some B \<Rightarrow> if normaliseEmail (Some (oc_email oc)) = normaliseEmail (tx_email stateTx)
                  then with_dir (linked_record dp vi B stateTx u oc) else ret None)"

definition upstream_args :: "('s, 'd) deployment \<Rightarrow> json \<Rightarrow> upstream \<Rightarrow> outcome \<Rightarrow> local_record option \<Rightarrow> session_args" where
  "upstream_args dp stateTx u oc local =
     (let how = acrFromUpstream (oc_claims oc);
          args = (session_args_for (Some (oc_email oc)) True how
             (relayedClaims (dp_config dp) (Some (oc_claims oc)) (map_option JStr (ctx_upstreamAcr how))))
             \<lparr>sa_upstream := Some (up_id u), sa_upstreamLabel := Some (labelFor u)\<rparr>
      in case local of None \<Rightarrow> args
         | Some r \<Rightarrow> args\<lparr>sa_email := tx_email stateTx, sa_localIdentityId := Some (lr_id r), sa_localIdentityKey := Some (lr_key r),
             sa_localSecurityVersion := Some (lr_security_version r)\<rparr>)"

definition same_principal :: "session_args \<Rightarrow> outcome \<Rightarrow> json \<Rightarrow> bool" where
  "same_principal args oc ses =
     (if str_truthy (sa_localIdentityId args) then jget ses ''localIdentityId'' = map_option JStr (sa_localIdentityId args)
      else \<not> truthy (jget ses ''localIdentityId'') \<and> jget ses ''email'' = Some (JStr (oc_email oc)))"

definition exchange :: "('s, 'd) deployment \<Rightarrow> visit \<Rightarrow> upstream \<Rightarrow> string \<Rightarrow> json \<Rightarrow> ('s, 'd, outcome option) act" where
  "exchange dp vi u code stateTx w =
     (case completeUpstream (dp_pf dp) (dp_verify dp) (dp_web dp) (dp_config dp) (now_of vi) u code stateTx (wo_upstream w) of
        (Inl _, st) \<Rightarrow> (Inr None, w\<lparr>wo_upstream := st\<rparr>)
      | (Inr oc, st) \<Rightarrow> (Inr (Some oc), w\<lparr>wo_upstream := st\<rparr>))"

definition upstream_answered :: "('s, 'd) deployment \<Rightarrow> visit \<Rightarrow> json \<Rightarrow> client \<Rightarrow> upstream \<Rightarrow> outcome \<Rightarrow> ('s, 'd, answer) act" where
  "upstream_answered dp vi stateTx cl u oc =
     (if \<not> satisfies (ctx_acr (acrFromUpstream (oc_claims oc))) (tx_acrs stateTx)
      then fail dp (unmetAcr ''The sign-in provider did not report an authentication strong enough for this request.'') (redirectTargets stateTx)
      else andThen (converged dp vi stateTx u oc) (\<lambda>local.
           let args = upstream_args dp stateTx u oc local in
           andThen (valid_held_session dp vi cl) (\<lambda>existing.
           complete dp vi (jput stateTx ''upstream'' None) cl (renewed dp vi (same_principal args oc) existing args) True)))"

definition handleCallback :: "('s, 'd) deployment \<Rightarrow> visit \<Rightarrow> ('s, 'd, answer) act" where
  "handleCallback dp vi =
     (let ps = vi_query vi in
      andThen (attempt (single ps ''state'')) (\<lambda>token.
      if \<not> str_truthy token then start_again (Some ''This sign-in response is missing its state and cannot be matched to a request.'')
      else (case openUpstreamState (dp_pf dp) (dp_config dp) (the token) (now_of vi) of
        Inl (SealError _) \<Rightarrow> start_again (Some ''This sign-in response could not be matched to a request that started here.'')
      | Inl TypeError \<Rightarrow> attempt (Inl (Unexpected ''TypeError''))
      | Inr stateTx \<Rightarrow>
          if expired stateTx (now_of vi) then start_again (Some ''This sign-in attempt took too long and has expired.'')
          else andThen (attempt (dp_resolve dp (coalesce (as_str (jget stateTx ''client_id'')) []))) (\<lambda>found_client.
          case found_client of None \<Rightarrow> start_again (Some ''The application that started this sign-in is no longer registered here.'')
          | Some cl \<Rightarrow>
              andThen (attempt (single ps ''error'')) (\<lambda>error.
              if str_truthy error
              then andThen (attempt (single ps ''error_description'')) (\<lambda>_. upstream_refused dp vi stateTx (the error))
              else andThen (attempt (single ps ''code'')) (\<lambda>code.
                if \<not> str_truthy code then start_again (Some ''This sign-in response has no authorization code.'')
                else (case find (\<lambda>u. leg stateTx ''id'' = Some (JStr (up_id u))) (c_upstreams (dp_config dp)) of
                  None \<Rightarrow> start_again (Some ''The sign-in provider used for this attempt is no longer configured.'')
                | Some u \<Rightarrow>
                    andThen (exchange dp vi u (the code) stateTx) (\<lambda>outcome.
                    case outcome of None \<Rightarrow> offerFallback dp vi stateTx
                    | Some oc \<Rightarrow> upstream_answered dp vi stateTx cl u oc))))))))"

section \<open>The endpoints\<close>

datatype endpoint = Start | Email_Submit | Otp_Request | Resend | Otp_Submit | Local_Password | Local_Mfa | Restart | Continue | Choose | Callback

fun handle :: "endpoint \<Rightarrow> ('s, 'd) deployment \<Rightarrow> visit \<Rightarrow> ('s, 'd, answer) act" where
  "handle Start = handleAuthorize"
| "handle Email_Submit = handleEmailSubmit"
| "handle Otp_Request = handleOtpRequest"
| "handle Resend = handleResend"
| "handle Otp_Submit = handleOtpSubmit"
| "handle Local_Password = handleLocalPassword"
| "handle Local_Mfa = handleLocalMfa"
| "handle Restart = handleRestart"
| "handle Continue = handleContinue"
| "handle Choose = handleChooseUpstream"
| "handle Callback = handleCallback"

end
