(* ===== verification/Flow.thy ===== *)
theory Flow
  imports Sign_In
begin

text \<open>
  What holds of every sign-in, however the requests of any number of browsers interleave: the runs of the endpoints as an inductive
  predicate, the invariant of their logs, and where an answer can send a browser. The rules for actions compose like the
  code: an action is safe when it keeps the invariant and its result has the stated property.
\<close>

section \<open>The invariant\<close>

definition accepted_request :: "('s, 'd) deployment \<Rightarrow> client \<Rightarrow> auth_request \<Rightarrow> bool" where
  "accepted_request dp cl req \<longleftrightarrow> (\<exists>ps. parseAuthorizationRequest (wb_parse (dp_web dp)) (dp_resolve dp) (dp_config dp) ps = Inr (cl, req))"

text \<open>A transaction that still says what an accepted request asked for.\<close>

definition carries :: "('s, 'd) deployment \<Rightarrow> json \<Rightarrow> bool" where
  "carries dp tx \<longleftrightarrow> (\<exists>cl req i t. accepted_request dp cl req \<and> same_request (newTransaction (dp_config dp) req i t) tx)"

text \<open>A mailed code is only pending where it could answer the request, or where no mail is ever sent.\<close>

definition otp_sound :: "('s, 'd) deployment \<Rightarrow> json \<Rightarrow> bool" where
  "otp_sound dp tx \<longleftrightarrow>
     (tx_stage tx STAGE_OTP \<longrightarrow> \<not> requiresFederation (tx_acrs tx) \<or> \<not> otpAllowed (dp_config dp) (tx_email tx))"

text \<open>A second factor is only pending where both factors together would answer the request.\<close>

definition mfa_sound :: "json \<Rightarrow> bool" where
  "mfa_sound tx \<longleftrightarrow> (tx_stage tx STAGE_LOCAL_MFA \<longrightarrow> satisfies ACR_LOCAL_MFA (tx_acrs tx))"

definition code_sound :: "('s, 'd) deployment \<Rightarrow> json \<times> json \<Rightarrow> bool" where
  "code_sound dp = (\<lambda>(tx, session). carries dp tx \<and>
     (satisfies (session_acr session) (tx_acrs tx) \<or> session_acr session = ACR_OTP \<and> \<not> otpAllowed (dp_config dp) (tx_email tx)))"

definition flow_inv :: "('s, 'd) deployment \<Rightarrow> ('s, 'd) world \<Rightarrow> bool" where
  "flow_inv dp w \<longleftrightarrow>
     (\<forall>tx\<in>set (wo_sealed w). carries dp tx \<and> otp_sound dp tx \<and> mfa_sound tx) \<and> (\<forall>tx\<in>set (wo_states w). carries dp tx) \<and>
     (\<forall>m\<in>set (wo_sent w). otpAllowed (dp_config dp) (Some (ml_to m))) \<and> (\<forall>x\<in>set (wo_codes w). code_sound dp x)"

definition safe :: "('s, 'd) deployment \<Rightarrow> ('s, 'd, 'a) act \<Rightarrow> ('a \<Rightarrow> bool) \<Rightarrow> bool" where
  "safe dp m Q \<longleftrightarrow> (\<forall>w. flow_inv dp w \<longrightarrow> flow_inv dp (snd (m w)) \<and> (\<forall>x. fst (m w) = Inr x \<longrightarrow> Q x))"

section \<open>Where an answer goes\<close>

definition to_client :: "('s, 'd) deployment \<Rightarrow> string \<Rightarrow> bool" where
  "to_client dp place \<longleftrightarrow> (\<exists>cid cl uri. dp_resolve dp cid = Inr (Some cl) \<and>
     redirectUriAllowed (wb_parse (dp_web dp)) (cl_redirectUris cl) uri (cc_redirectUriSchemes (c_clients (dp_config dp))) \<and>
     same_place (dp_web dp) uri place)"

definition to_upstream :: "('s, 'd) deployment \<Rightarrow> string \<Rightarrow> bool" where
  "to_upstream dp place \<longleftrightarrow> (\<exists>u\<in>set (c_upstreams (dp_config dp)). \<exists>now cache m ps.
     fst (upstreamMetadata (dp_web dp) now u (c_devMode (dp_config dp)) cache) = Inr m \<and>
     wb_set (dp_web dp) (md_authorization_endpoint m) ps = Some place)"

definition answer_ok :: "('s, 'd) deployment \<Rightarrow> answer \<Rightarrow> bool" where
  "answer_ok dp a \<longleftrightarrow> (\<forall>place. sends_to a = Some place \<longrightarrow> to_client dp place \<or> to_upstream dp place)"

section \<open>Rules for actions\<close>

lemma safeI: "(\<And>w. flow_inv dp w \<Longrightarrow> flow_inv dp (snd (m w)) \<and> (\<forall>x. fst (m w) = Inr x \<longrightarrow> Q x)) \<Longrightarrow> safe dp m Q"
  by (simp add: safe_def)

lemma safe_ret: "Q x \<Longrightarrow> safe dp (ret x) Q"
  by (simp add: safe_def ret_def)

lemma safe_attempt: "(\<And>x. r = Inr x \<Longrightarrow> Q x) \<Longrightarrow> safe dp (attempt r) Q"
  by (simp add: safe_def attempt_def)

lemma safe_andThen:
  assumes "safe dp m P" "\<And>x. P x \<Longrightarrow> safe dp (f x) Q"
  shows "safe dp (andThen m f) Q"
proof (rule safeI)
  fix w assume w: "flow_inv dp w"
  obtain r w' where m: "m w = (r, w')" by force
  show "flow_inv dp (snd (andThen m f w)) \<and> (\<forall>x. fst (andThen m f w) = Inr x \<longrightarrow> Q x)"
  proof (cases r)
    case (Inl e)
    with assms(1) w m show ?thesis by (auto simp: safe_def andThen_def)
  next
    case (Inr x)
    with assms(1) w m have "P x" "flow_inv dp w'" by (auto simp: safe_def)
    with assms(2) [of x] Inr m show ?thesis by (auto simp: safe_def andThen_def)
  qed
qed

lemma flow_inv_frame [simp]:
  "flow_inv dp (w\<lparr>wo_store := s\<rparr>) = flow_inv dp w" "flow_inv dp (w\<lparr>wo_dir := d\<rparr>) = flow_inv dp w"
  "flow_inv dp (w\<lparr>wo_upstream := u\<rparr>) = flow_inv dp w"
  by (simp_all add: flow_inv_def)

lemma safe_with_store: "(\<And>s x s'. f s = (Inr x, s') \<Longrightarrow> Q x) \<Longrightarrow> safe dp (with_store f) Q"
  by (rule safeI) (auto simp: with_store_def split_beta prod_eq_iff)

lemma safe_with_dir: "(\<And>d x d'. f d = (Inr x, d') \<Longrightarrow> Q x) \<Longrightarrow> safe dp (with_dir f) Q"
  by (rule safeI) (auto simp: with_dir_def split_beta prod_eq_iff)

lemma safe_true:
  "safe dp (attempt r) (\<lambda>_. True)" "safe dp (with_store f) (\<lambda>_. True)" "safe dp (with_dir g) (\<lambda>_. True)"
  by (rule safe_attempt safe_with_store safe_with_dir, simp)+

lemma safe_seal: "carries dp tx \<Longrightarrow> otp_sound dp tx \<Longrightarrow> mfa_sound tx \<Longrightarrow> safe dp (seal_for_browser dp vi tx) (\<lambda>_. True)"
  by (simp add: safe_def seal_for_browser_def flow_inv_def)

lemma safe_mail: "otpAllowed (dp_config dp) (Some (ml_to m)) \<Longrightarrow> safe dp (send_mail dp m) (\<lambda>_. True)"
  by (simp add: safe_def send_mail_def flow_inv_def)

lemma safe_log: "code_sound dp (tx, ses) \<Longrightarrow> safe dp (log_code tx ses) (\<lambda>_. True)"
  by (simp add: safe_def log_code_def flow_inv_def)

text \<open>One rule per first action, so that a handler is taken apart by \<open>rule\<close> in the order of its code.\<close>

lemma safe_then:
  "(\<And>x. r = Inr x \<Longrightarrow> safe dp (f x) Q) \<Longrightarrow> safe dp (andThen (attempt r) f) Q"
  "(\<And>x. safe dp (f x) Q) \<Longrightarrow> safe dp (andThen (with_store g) f) Q"
  "(\<And>x. safe dp (f x) Q) \<Longrightarrow> safe dp (andThen (with_dir h) f) Q"
  "carries dp tx \<Longrightarrow> otp_sound dp tx \<Longrightarrow> mfa_sound tx \<Longrightarrow> (\<And>x. safe dp (f' x) Q) \<Longrightarrow> safe dp (andThen (seal_for_browser dp vi tx) f') Q"
  by (rule safe_andThen [OF safe_attempt [where Q = "\<lambda>x. r = Inr x"]] safe_andThen [OF safe_true(2)] safe_andThen [OF safe_true(3)]
      safe_andThen [OF safe_seal]; simp)+

section \<open>Steps of a transaction\<close>

lemma carries_same: "carries dp tx \<Longrightarrow> same_request tx tx' \<Longrightarrow> carries dp tx'"
  unfolding carries_def using same_request_trans by blast

lemma carries_obj: "carries dp tx \<Longrightarrow> is_obj tx"
  by (auto simp: carries_def same_request_def)

lemma carries_jputs: "carries dp tx \<Longrightarrow> set (map fst fs) \<inter> set identity_fields = {} \<Longrightarrow> carries dp (jputs tx fs)"
  using carries_same jputs_same carries_obj by blast

lemma carries_advance [intro]:
  assumes "carries dp tx"
  shows "carries dp (advance tx [(''stage'', x)])" "carries dp (advance tx [(''remember_me'', x)])" "carries dp (advance tx [(''email'', x)])"
    "carries dp (advance tx [(''local_identity'', x)])"
  unfolding advance_def by (rule carries_jputs [OF assms], simp add: identity_fields_def)+

lemma carries_steps [intro]:
  assumes "carries dp tx"
  shows "carries dp (withOtp tx d e r n)" "carries dp (withOtpAttempt tx)" "carries dp (withoutOtp tx)" "carries dp (withoutAttempt tx)"
  using carries_same [OF assms] step_same_request [OF carries_obj [OF assms]] by blast+

lemma carries_leg: "carries dp tx \<Longrightarrow> carries dp (jput tx ''upstream'' x)"
  by (rule carries_same) (auto simp: same_request_def identity_fields_def dest: carries_obj)

lemma stage_after:
  assumes "is_obj tx"
  shows "s \<noteq> STAGE_OTP \<Longrightarrow> otp_sound dp (advance tx [(''stage'', Some (JStr s))])"
    "s \<noteq> STAGE_LOCAL_MFA \<or> satisfies ACR_LOCAL_MFA (tx_acrs tx) \<Longrightarrow> mfa_sound (advance tx [(''stage'', Some (JStr s))])"
  using assms by (auto simp: otp_sound_def mfa_sound_def tx_stage_def tx_acrs_def advance_def)

lemma tx_after_otp:
  assumes "is_obj tx"
  shows "mfa_sound (withOtp tx d e r n)" "mfa_sound (withOtpAttempt tx) = mfa_sound tx" "tx_acrs (withOtp tx d e r n) = tx_acrs tx" "tx_email (withOtp tx d e r n) = tx_email tx"
    "tx_acrs (withOtpAttempt tx) = tx_acrs tx" "tx_email (withOtpAttempt tx) = tx_email tx" "tx_stage (withOtpAttempt tx) s = tx_stage tx s"
  using assms by (simp_all add: withOtp_def withOtpAttempt_def tx_acrs_def tx_email_def tx_stage_def mfa_sound_def) (simp add: stage_defs)

lemma carries_redirect:
  assumes "carries dp tx"
  obtains uri where "tx_str tx ''redirect_uri'' = Some uri" "wb_parse (dp_web dp) uri \<noteq> None"
    "\<forall>place. same_place (dp_web dp) uri place \<longrightarrow> to_client dp place"
proof -
  from assms obtain cl req i t ps where p: "parseAuthorizationRequest (wb_parse (dp_web dp)) (dp_resolve dp) (dp_config dp) ps = Inr (cl, req)"
    and s: "same_request (newTransaction (dp_config dp) req i t) tx" by (auto simp: carries_def accepted_request_def)
  note ok = parse_ok [OF p]
  have "tx_str tx ''redirect_uri'' = Some (ar_redirectUri req)"
    using s by (simp add: same_request_def identity_fields_def tx_str_def newTransaction_def)
  moreover have "wb_parse (dp_web dp) (ar_redirectUri req) \<noteq> None"
    using ok by (auto simp: request_wf_def redirectUriAllowed_iff)
  ultimately show thesis
    using ok by (intro that) (auto simp: to_client_def request_wf_def)
qed

section \<open>Screens and completion\<close>

lemma answer_ok_screen [simp]: "answer_ok dp (screen dp tx p e)" "answer_ok dp (startAgainResponse d)"
  by (simp_all add: answer_ok_def screen_def)

lemma answer_ok_cookie [simp]: "answer_ok dp (answer_cookie a x) = answer_ok dp a"
  by (simp add: answer_ok_def)

lemma safe_fail:
  assumes "keeps_address (dp_web dp)" "carries dp tx"
  shows "safe dp (fail dp e (redirectTargets tx)) (answer_ok dp)"
  unfolding fail_def
proof (rule safe_attempt)
  fix a assume a: "failureResponse (dp_web dp) (dp_config dp) e (redirectTargets tx) = Inr a"
  obtain uri where u: "tx_str tx ''redirect_uri'' = Some uri" "wb_parse (dp_web dp) uri \<noteq> None"
    "\<forall>place. same_place (dp_web dp) uri place \<longrightarrow> to_client dp place" by (rule carries_redirect [OF assms(2)])
  show "answer_ok dp a"
    unfolding answer_ok_def
  proof (intro allI impI disjI1)
    fix place assume "sends_to a = Some place"
    from failureResponse_sends [OF assms(1) a this] u show "to_client dp place" by (auto simp: redirectTargets_def)
  qed
qed

lemma safe_start_again: "safe dp (start_again d) (answer_ok dp)"
  unfolding start_again_def by (rule safe_ret) simp

lemma stage_other: "STAGE_EMAIL \<noteq> STAGE_OTP" "STAGE_CHOOSE \<noteq> STAGE_OTP" "STAGE_LOCAL_PASSWORD \<noteq> STAGE_OTP"
  "STAGE_LOCAL_MFA \<noteq> STAGE_OTP" "STAGE_CONTINUE \<noteq> STAGE_OTP"
  "STAGE_EMAIL \<noteq> STAGE_LOCAL_MFA" "STAGE_CHOOSE \<noteq> STAGE_LOCAL_MFA" "STAGE_LOCAL_PASSWORD \<noteq> STAGE_LOCAL_MFA"
  "STAGE_CONTINUE \<noteq> STAGE_LOCAL_MFA"
  by (simp_all add: stage_defs)

lemma safe_stage_then:
  assumes "carries dp tx" "s \<noteq> STAGE_OTP" "s \<noteq> STAGE_LOCAL_MFA \<or> satisfies ACR_LOCAL_MFA (tx_acrs tx)" "\<And>x. safe dp (f x) Q"
  shows "safe dp (andThen (seal_for_browser dp vi (advance tx [(''stage'', Some (JStr s))])) f) Q"
  by (rule safe_then(4)) (use assms in \<open>auto intro: stage_after carries_obj\<close>)

lemma safe_renderEmail: "carries dp tx \<Longrightarrow> safe dp (renderEmail dp vi tx email e b) (answer_ok dp)"
  unfolding renderEmail_def remembered_def Let_def
  by (rule safe_then(1), rule safe_stage_then, assumption, rule stage_other, simp add: stage_other, rule safe_ret) simp

lemma safe_renderOtp: "carries dp tx \<Longrightarrow> otp_sound dp tx \<Longrightarrow> mfa_sound tx \<Longrightarrow> safe dp (renderOtp dp vi tx e d b) (answer_ok dp)"
  unfolding renderOtp_def by (rule safe_then(4), assumption+, rule safe_ret) simp

lemma safe_renderLocalPassword: "carries dp tx \<Longrightarrow> safe dp (renderLocalPassword dp vi tx e) (answer_ok dp)"
  unfolding renderLocalPassword_def Let_def by (rule safe_stage_then, assumption, rule stage_other, simp add: stage_other, rule safe_ret) simp

lemma safe_renderLocalMfa: "carries dp tx \<Longrightarrow> satisfies ACR_LOCAL_MFA (tx_acrs tx) \<Longrightarrow> safe dp (renderLocalMfa dp vi tx e ds) (answer_ok dp)"
  unfolding renderLocalMfa_def by (rule safe_stage_then, assumption, rule stage_other, simp add: stage_other, rule safe_ret) simp

lemma safe_renderContinue: "carries dp tx \<Longrightarrow> safe dp (renderContinue dp vi tx ses e) (answer_ok dp)"
  unfolding renderContinue_def by (rule safe_stage_then, assumption, rule stage_other, simp add: stage_other, rule safe_ret) simp

lemma safe_renderChooser: "carries dp tx \<Longrightarrow> safe dp (renderChooser dp vi tx us h e) (answer_ok dp)"
  unfolding renderChooser_def by (rule safe_stage_then, assumption, rule stage_other, simp add: stage_other, rule safe_ret) simp

lemmas safe_screens = safe_fail safe_start_again safe_renderEmail safe_renderOtp safe_renderLocalPassword safe_renderLocalMfa
  safe_renderContinue safe_renderChooser

lemma session_acr_touch [simp]: "session_acr (touch c ses now) = session_acr ses"
  by (simp add: session_acr_def touch_def jget_jput_other)

lemma safe_complete:
  assumes "keeps_address (dp_web dp)" "code_sound dp (tx, ses)"
  shows "safe dp (complete dp vi tx cl ses b) (answer_ok dp)"
proof -
  have c: "carries dp tx" using assms(2) by (simp add: code_sound_def)
  obtain uri where u: "tx_str tx ''redirect_uri'' = Some uri" "wb_parse (dp_web dp) uri \<noteq> None"
    "\<forall>place. same_place (dp_web dp) uri place \<longrightarrow> to_client dp place" by (rule carries_redirect [OF c])
  have r: "answer_ok dp a" if "authorizationResponse (dp_web dp) (dp_config dp) tx code = Inr a" for a code
    using authorizationResponse_sends [OF assms(1) that u(1,2)] u(3) by (auto simp: answer_ok_def)
  have rem: "answer_ok dp a \<Longrightarrow> safe dp (remember_after dp vi tx e a) (answer_ok dp)" for e a
    unfolding remember_after_def remembered_def by (auto intro!: safe_then(1) safe_ret)
  have l: "safe dp (log_code tx (if b then touch (dp_config dp) ses (now_of vi) else ses)) (\<lambda>_. True)"
    by (rule safe_log) (use assms(2) in \<open>simp add: code_sound_def\<close>)
  show ?thesis
    unfolding complete_def Let_def
    by (rule safe_then(1), rule safe_andThen [OF l], rule safe_then(1), rule rem) (auto dest: r)
qed

section \<open>Handlers\<close>

lemma readSession_obj: "readSession pf step c r n clock s = (Inr (Some ses), s') \<Longrightarrow> is_obj ses"
proof -
  assume "readSession pf step c r n clock s = (Inr (Some ses), s')"
  then obtain j where "check_session step clock s j = (Inr (Some ses), s')"
    by (auto simp: readSession_def readSessionByName_def split: option.splits sum.splits if_splits seal_error.splits)
  then have j: "truthy (jget j ''email'')" "is_obj ses = is_obj j"
    by (auto simp: check_session_def Let_def split: if_splits option.splits prod.splits reply.splits bool.splits)
  from j(1) have "jget j ''email'' \<noteq> None" by (cases "jget j ''email''") simp_all
  with is_obj_jget j(2) show "is_obj ses" by blast
qed

lemma safe_held:
  "(\<And>s. \<forall>ses. s = Some ses \<longrightarrow> is_obj ses \<Longrightarrow> safe dp (f s) Q) \<Longrightarrow> safe dp (andThen (held_session dp vi cl) f) Q"
  unfolding held_session_def
  by (rule safe_andThen [OF safe_with_store [where Q = "\<lambda>s. \<forall>ses. s = Some ses \<longrightarrow> is_obj ses"]])
    (auto dest: readSession_obj)

lemma safe_valid:
  assumes "\<And>s. \<forall>ses. s = Some ses \<longrightarrow> is_obj ses \<Longrightarrow> safe dp (f s) Q"
  shows "safe dp (andThen (valid_held_session dp vi cl) f) Q"
proof (rule safe_andThen [where P = "\<lambda>s. \<forall>ses. s = Some ses \<longrightarrow> is_obj ses"])
  show "safe dp (valid_held_session dp vi cl) (\<lambda>s. \<forall>ses. s = Some ses \<longrightarrow> is_obj ses)"
    unfolding valid_held_session_def
  proof (rule safe_held)
    fix s assume s: "\<forall>ses. s = Some (ses :: json) \<longrightarrow> is_obj ses"
    from s show "safe dp (validSession dp s) (\<lambda>s. \<forall>ses. s = Some ses \<longrightarrow> is_obj ses)"
      unfolding validSession_def by (auto intro!: safe_ret safe_with_dir split: option.split if_splits)
  qed
qed (rule assms)

lemma renewed_acr:
  assumes "\<forall>ses. s = Some ses \<longrightarrow> is_obj ses"
  shows "session_acr (renewed dp vi same s args) = sa_acr args"
  using assms by (auto simp: renewed_def session_acr_def newSession_def reauthenticate_def coalesce_def split: option.split)

lemma safe_decide:
  assumes "keeps_address (dp_web dp)" "carries dp tx"
  shows "safe dp (decide dp vi tx cl s) (answer_ok dp)"
proof (cases s)
  case (Some ses)
  have "code_sound dp (tx, ses)" if "satisfies (session_acr ses) (tx_acrs tx)"
    using that assms by (simp add: code_sound_def)
  with assms Some show ?thesis
    by (auto simp: decide_def Let_def intro!: safe_screens safe_complete carries_advance)
qed (use assms in \<open>auto simp: decide_def Let_def intro!: safe_screens\<close>)

text \<open>A mailed code may be sent where it can answer the request, or where no mail goes out.\<close>

definition otp_fits :: "('s, 'd) deployment \<Rightarrow> json \<Rightarrow> bool" where
  "otp_fits dp tx \<longleftrightarrow> carries dp tx \<and> mfa_sound tx \<and> (\<not> requiresFederation (tx_acrs tx) \<or> \<not> otpAllowed (dp_config dp) (tx_email tx))"

lemma otp_fits_render: "otp_fits dp tx \<Longrightarrow> safe dp (renderOtp dp vi tx e d b) (answer_ok dp)"
  by (rule safe_renderOtp) (simp_all add: otp_fits_def otp_sound_def)

lemma otp_fits_withOtp: "otp_fits dp tx \<Longrightarrow> otp_fits dp (withOtp tx d e r n)"
  by (auto simp: otp_fits_def tx_after_otp dest: carries_obj)

lemma otpAllowed_given: "otpAllowed c email \<Longrightarrow> Some (coalesce email []) = email"
  by (cases email) (auto simp: otpAllowed_def domainOf_def str_truthy_def coalesce_def split: if_splits)

lemma safe_sendOtp:
  assumes "otp_fits dp tx"
  shows "safe dp (sendOtp dp vi tx b) (answer_ok dp)"
proof -
  note r = otp_fits_render [OF assms] otp_fits_render [OF otp_fits_withOtp [OF assms]]
  have m: "safe dp (andThen (send_mail dp m) f) (answer_ok dp)"
    if "otpAllowed (dp_config dp) (tx_email tx)" "ml_to m = coalesce (tx_email tx) []" "\<And>x. safe dp (f x) (answer_ok dp)" for m f
    by (rule safe_andThen [OF safe_mail]) (use that otpAllowed_given [OF that(1)] in simp_all)
  show ?thesis
    unfolding sendOtp_def Let_def
    by (auto intro!: r safe_then(2) m safe_attempt split: option.split sum.split)
qed

lemma safe_startUpstream:
  assumes "keeps_address (dp_web dp)" "carries dp tx" "mfa_sound tx" "u \<in> set (c_upstreams (dp_config dp))"
  shows "safe dp (startUpstream dp vi tx u h) (answer_ok dp)"
proof (rule safeI)
  fix w assume w: "flow_inv dp w"
  let ?b = "beginUpstream (dp_pf dp) (dp_web dp) (vi_iv vi ''upstream'') (dp_config dp) (now_of vi) u tx h (vi_token vi ''verifier'')
             (vi_token vi ''nonce'') (wo_upstream w)"
  obtain r st where b: "?b = (r, st)" by force
  show "flow_inv dp (snd (startUpstream dp vi tx u h w)) \<and> (\<forall>a. fst (startUpstream dp vi tx u h w) = Inr a \<longrightarrow> answer_ok dp a)"
  proof (cases r)
    case (Inl e)
    define m where "m = (if otpAllowed (dp_config dp) (tx_email tx) \<and> \<not> requiresFederation (tx_acrs tx) then sendOtp dp vi tx False
           else fail dp (serverError ''The sign-in provider for your organisation could not be reached.'') (redirectTargets tx))"
    have "safe dp m (answer_ok dp)"
      using assms by (auto intro!: safe_fail safe_sendOtp simp: otp_fits_def m_def)
    moreover have "startUpstream dp vi tx u h w = m (w\<lparr>wo_upstream := st\<rparr>)" by (simp add: startUpstream_def b Inl m_def)
    moreover have "flow_inv dp (w\<lparr>wo_upstream := st\<rparr>)" using w by simp
    ultimately show ?thesis unfolding safe_def by metis
  next
    case (Inr x)
    then obtain url stateTx where x: "r = Inr (url, stateTx)" by (cases x) auto
    obtain m c where m: "upstreamMetadata (dp_web dp) (now_of vi) u (c_devMode (dp_config dp)) (us_metadata (wo_upstream w)) = (Inr m, c)"
      and url: "wb_set (dp_web dp) (md_authorization_endpoint m) (outbound_params (dp_pf dp) (dp_config dp) u tx (vi_token vi ''verifier'')
          (vi_token vi ''nonce'') (sealUpstreamState (dp_pf dp) (vi_iv vi ''upstream'') (dp_config dp) stateTx)) = Some url"
      and tx: "stateTx = jput tx ''upstream'' (Some (upstream_leg (dp_config dp) u (vi_token vi ''verifier'') (vi_token vi ''nonce'') (now_of vi) h))"
      using b x by (auto simp: beginUpstream_def Let_def split: prod.splits sum.splits option.splits)
    have "to_upstream dp url"
      unfolding to_upstream_def by (rule bexI [OF _ assms(4)], intro exI conjI, subst m, rule fst_conv, rule url)
    moreover have "carries dp stateTx" unfolding tx by (rule carries_leg [OF assms(2)])
    ultimately show ?thesis
      using w b x by (simp add: startUpstream_def ret_def answer_ok_def flow_inv_def)
  qed
qed

lemma safe_hinted:
  assumes "\<And>h. set (hr_list h) = set us \<Longrightarrow> \<forall>u. hr_hinted h = Some u \<longrightarrow> u \<in> set us \<Longrightarrow> safe dp (f h) Q"
  shows "safe dp (andThen (hinted_upstreams dp vi us d) f) Q"
proof (rule safe_andThen [where P = "\<lambda>h. set (hr_list h) = set us \<and> (\<forall>u. hr_hinted h = Some u \<longrightarrow> u \<in> set us)"])
  show "safe dp (hinted_upstreams dp vi us d) (\<lambda>h. set (hr_list h) = set us \<and> (\<forall>u. hr_hinted h = Some u \<longrightarrow> u \<in> set us))"
    by (rule safeI) (auto simp: hinted_upstreams_def unexpected_def split: prod.splits sum.splits dest: hintUpstreams_candidates)
qed (use assms in blast)

lemma safe_route:
  assumes "keeps_address (dp_web dp)" "carries dp tx" "mfa_sound tx"
  shows "safe dp (route dp vi tx) (answer_ok dp)"
proof -
  let ?us = "upstreamsFor (dp_config dp) (tx_email tx)"
  have fits: "\<not> requiresFederation (tx_acrs tx) \<or> \<not> otpAllowed (dp_config dp) (tx_email tx) \<Longrightarrow> safe dp (sendOtp dp vi tx False) (answer_ok dp)"
    using assms by (auto intro!: safe_sendOtp simp: otp_fits_def)
  have up: "u \<in> set ?us \<Longrightarrow> safe dp (startUpstream dp vi tx u h) (answer_ok dp)" for u h
    by (rule safe_startUpstream [OF assms upstreamsFor_serves(1)])
  have common: "safe dp (route_common dp vi tx ?us (otpAllowed (dp_config dp) (tx_email tx) \<and> \<not> requiresFederation (tx_acrs tx))) (answer_ok dp)"
    unfolding route_common_def
    by (rule safe_hinted) (use assms fits up in \<open>auto intro!: safe_renderChooser split: option.split\<close>)
  show ?thesis
  proof (cases ?us)
    case Nil
    with assms fits show ?thesis by (auto simp: route_def Let_def intro!: safe_screens)
  next
    case (Cons u others)
    with assms fits common up [of u] show ?thesis by (auto simp: route_def Let_def intro!: safe_screens)
  qed
qed

lemma safe_offerFallback:
  assumes "keeps_address (dp_web dp)" "carries dp tx"
  shows "safe dp (offerFallback dp vi tx) (answer_ok dp)"
  using assms by (auto simp: offerFallback_def Let_def intro!: safe_screens)

text \<open>A visit is authentic when the tokens it brings are ones the instance sealed: nobody else holds the secret.\<close>

definition authentic :: "('s, 'd) deployment \<Rightarrow> visit \<Rightarrow> ('s, 'd) world \<Rightarrow> bool" where
  "authentic dp vi w \<longleftrightarrow>
     (\<forall>ps token tx. readForm (dp_params dp) (vi_request vi) = Inr ps \<and> single ps ''tx'' = Inr (Some token) \<and>
        openTransaction (dp_pf dp) (dp_config dp) token (now_of vi) = Inr tx \<longrightarrow> tx \<in> set (wo_sealed w)) \<and>
     (\<forall>token tx. single (vi_query vi) ''state'' = Inr (Some token) \<and>
        openUpstreamState (dp_pf dp) (dp_config dp) token (now_of vi) = Inr tx \<longrightarrow> tx \<in> set (wo_states w))"

definition keeps :: "('s, 'd) deployment \<Rightarrow> ('s, 'd, answer) act \<Rightarrow> ('s, 'd) world \<Rightarrow> bool" where
  "keeps dp m w \<longleftrightarrow> flow_inv dp (snd (m w)) \<and> (\<forall>a. fst (m w) = Inr a \<longrightarrow> answer_ok dp a)"

lemma safe_keeps: "safe dp m (answer_ok dp) \<Longrightarrow> flow_inv dp w \<Longrightarrow> keeps dp m w"
  by (simp add: safe_def keeps_def)

lemma loadTransaction_frame:
  assumes "loadTransaction dp vi w = (r, w')" "authentic dp vi w"
  shows "w' = w" "r = Inr (Stopped a) \<Longrightarrow> answer_ok dp a" "r = Inr (Loaded tx cl ps) \<Longrightarrow> tx \<in> set (wo_sealed w)"
proof -
  have "w' = w \<and> (\<forall>a. r = Inr (Stopped a) \<longrightarrow> answer_ok dp a) \<and> (\<forall>tx cl ps. r = Inr (Loaded tx cl ps) \<longrightarrow> tx \<in> set (wo_sealed w))"
  proof (cases "readForm (dp_params dp) (vi_request vi)")
    case (Inr ps)
    show ?thesis
    proof (cases "single ps ''tx''")
      case (Inr token)
      with \<open>readForm _ _ = Inr ps\<close> assms show ?thesis
        by (cases token)
          (auto simp: loadTransaction_def andThen_def form_of_def attempt_def ret_def authentic_def str_truthy_def
            split: if_splits sum.splits seal_error.splits option.splits)
    qed (use \<open>readForm _ _ = Inr ps\<close> assms(1) in \<open>auto simp: loadTransaction_def andThen_def form_of_def attempt_def\<close>)
  qed (use assms(1) in \<open>auto simp: loadTransaction_def andThen_def form_of_def attempt_def\<close>)
  then show "w' = w" "r = Inr (Stopped a) \<Longrightarrow> answer_ok dp a" "r = Inr (Loaded tx cl ps) \<Longrightarrow> tx \<in> set (wo_sealed w)" by auto
qed

lemma keeps_loading:
  assumes "\<And>tx cl ps. carries dp tx \<Longrightarrow> otp_sound dp tx \<Longrightarrow> mfa_sound tx \<Longrightarrow> safe dp (body tx cl ps) (answer_ok dp)"
    "flow_inv dp w" "authentic dp vi w"
  shows "keeps dp (loading dp vi body) w"
proof -
  obtain r w' where l: "loadTransaction dp vi w = (r, w')" by force
  note f = loadTransaction_frame [OF l assms(3)]
  show ?thesis
  proof (cases r)
    case (Inr x)
    show ?thesis
    proof (cases x)
      case (Loaded tx cl ps)
      with Inr f(3) assms(2) have "carries dp tx \<and> otp_sound dp tx \<and> mfa_sound tx" by (simp add: flow_inv_def)
      with assms(1,2) have "keeps dp (body tx cl ps) w" by (blast intro: safe_keeps)
      with l f(1) Inr Loaded show ?thesis by (simp add: keeps_def loading_def andThen_def)
    qed (use l f(1,2) Inr assms(2) in \<open>simp add: keeps_def loading_def andThen_def ret_def\<close>)
  qed (use l f(1) assms(2) in \<open>simp add: keeps_def loading_def andThen_def\<close>)
qed

text \<open>The handlers that load a transaction first.\<close>

lemma mfa_sound_steps:
  assumes "is_obj tx"
  shows "mfa_sound (advance tx [(''remember_me'', x)]) = mfa_sound tx" "mfa_sound (advance tx [(''email'', x)]) = mfa_sound tx"
    "tx_acrs (advance tx [(''email'', x)]) = tx_acrs tx" "tx_acrs (advance tx [(''remember_me'', x)]) = tx_acrs tx"
    "tx_acrs (advance tx [(''local_identity'', x)]) = tx_acrs tx"
  using assms by (simp_all add: mfa_sound_def tx_stage_def tx_acrs_def advance_def)

definition sound_visit :: "('s, 'd) deployment \<Rightarrow> visit \<Rightarrow> ('s, 'd) world \<Rightarrow> bool" where
  "sound_visit dp vi w \<longleftrightarrow> keeps_address (dp_web dp) \<and> flow_inv dp w \<and> authentic dp vi w"

lemma sound_loading:
  assumes "sound_visit dp vi w"
    "\<And>tx cl ps. keeps_address (dp_web dp) \<Longrightarrow> carries dp tx \<Longrightarrow> otp_sound dp tx \<Longrightarrow> mfa_sound tx \<Longrightarrow> safe dp (body tx cl ps) (answer_ok dp)"
  shows "keeps dp (loading dp vi body) w"
  using assms by (intro keeps_loading) (auto simp: sound_visit_def)

lemma find_in_set: "find P xs = Some x \<Longrightarrow> x \<in> set xs"
  by (auto simp: find_Some_iff)

lemma keeps_email: "sound_visit dp vi w \<Longrightarrow> keeps dp (handleEmailSubmit dp vi) w"
  unfolding handleEmailSubmit_def Let_def
proof (erule sound_loading, rule safe_then(1), rule safe_then(1), goal_cases)
  case (1 tx cl ps ticked given)
  let ?next = "advance tx [(''remember_me'', Some (JBool (ticked \<noteq> None)))]"
  let ?ready = "advance ?next [(''email'', map_option JStr (normaliseEmail given))]"
  have n: "carries dp ?next" "mfa_sound ?next" using 1 by (auto simp: mfa_sound_steps dest: carries_obj)
  then have "carries dp ?ready" "mfa_sound ?ready" by (auto simp: mfa_sound_steps dest: carries_obj)
  with n 1 show ?case
    by (auto intro!: safe_renderEmail safe_then(1) safe_sendOtp safe_route simp: otp_fits_def)
qed

lemma keeps_otp: "sound_visit dp vi w \<Longrightarrow> keeps dp (handleOtpRequest dp vi) w" "sound_visit dp vi w \<Longrightarrow> keeps dp (handleResend dp vi) w"
  unfolding handleOtpRequest_def handleResend_def
  by (erule sound_loading; auto intro!: safe_start_again safe_sendOtp simp: otp_fits_def otp_sound_def)+

lemma keeps_submit: "sound_visit dp vi w \<Longrightarrow> keeps dp (handleOtpSubmit dp vi) w"
  unfolding handleOtpSubmit_def Let_def
proof (erule sound_loading, goal_cases)
  case (1 tx cl ps)
  have r: "safe dp (renderOtp dp vi (withOtpAttempt tx) e d b) (answer_ok dp)" for e d b
    using 1 by (auto intro!: safe_renderOtp simp: otp_sound_def tx_after_otp [OF carries_obj [OF 1(2)]])
  have c: "code_sound dp (tx, renewed dp vi same s (session_args_for (tx_email tx) True acrForOtp h))"
    if "\<forall>ses. s = Some ses \<longrightarrow> is_obj ses" "tx_stage tx STAGE_OTP" for s same h
    using that 1 requiresFederation_iff [of "tx_acrs tx"]
    by (auto simp: code_sound_def renewed_acr session_args_for_def acrForOtp_def otp_sound_def)
  from 1 show ?case
    by (auto intro!: safe_start_again safe_then(1) safe_held safe_complete r c split: sum.split)
qed

lemma keeps_restart: "sound_visit dp vi w \<Longrightarrow> keeps dp (handleRestart dp vi) w"
  unfolding handleRestart_def by (erule sound_loading) (auto intro!: safe_renderEmail)

lemma keeps_continue: "sound_visit dp vi w \<Longrightarrow> keeps dp (handleContinue dp vi) w"
  unfolding handleContinue_def
  by (erule sound_loading, rule safe_valid)
    (auto intro!: safe_renderEmail safe_complete simp: code_sound_def split: option.split)

lemma keeps_choose: "sound_visit dp vi w \<Longrightarrow> keeps dp (handleChooseUpstream dp vi) w"
  unfolding handleChooseUpstream_def
  by (erule sound_loading, rule safe_then(1))
    (auto intro!: safe_start_again safe_startUpstream dest!: find_in_set upstreamsFor_serves(1) split: option.split)

lemma safe_local_complete:
  "keeps_address (dp_web dp) \<Longrightarrow> carries dp tx \<Longrightarrow> satisfies (ctx_acr (acrForLocal f)) (tx_acrs tx) \<Longrightarrow>
     safe dp (completeLocalAuthentication dp vi tx cl r f) (answer_ok dp)"
  unfolding completeLocalAuthentication_def
  by (rule safe_valid, rule safe_complete) (simp_all add: code_sound_def renewed_acr local_args_def session_args_for_def)

lemma keeps_password: "sound_visit dp vi w \<Longrightarrow> keeps dp (handleLocalPassword dp vi) w"
  unfolding handleLocalPassword_def local_limit_def look_up_def Let_def
proof (erule sound_loading, goal_cases)
  case (1 tx cl ps)
  note [simp] = mfa_sound_steps [OF carries_obj [OF 1(2)]]
  have "carries dp (advance tx [(''local_identity'', x)])" for x using 1 by blast
  moreover have "satisfies ACR_LOCAL_MFA acrs" if "satisfies (ctx_acr (acrForLocal (Some ''totp''))) acrs" for acrs
    using that by (simp add: acrForLocal_def str_truthy_def)
  ultimately show ?case
    using 1 by (auto intro!: safe_screens safe_then(1-3) safe_local_complete split: option.split simp del: jobj.simps)
qed

lemma keeps_mfa: "sound_visit dp vi w \<Longrightarrow> keeps dp (handleLocalMfa dp vi) w"
  unfolding handleLocalMfa_def local_limit_def look_up_def second_factor_def Let_def
proof (erule sound_loading, goal_cases)
  case (1 tx cl ps)
  show ?case
  proof (cases "tx_stage tx STAGE_LOCAL_MFA")
    case True
    with 1 have m: "satisfies ACR_LOCAL_MFA (tx_acrs tx)" by (simp add: mfa_sound_def)
    then have "satisfies (ctx_acr (acrForLocal (Some (factor_name via)))) (tx_acrs tx)" for via
      by (simp add: acrForLocal_def str_truthy_def factor_name_def split: factor.split)
    with 1 m show ?thesis
      by (auto intro!: safe_screens safe_then(1-3) safe_local_complete safe_andThen [OF safe_ret [where Q = "\<lambda>_. True"]] split: option.split)
  qed (use 1 in \<open>auto intro!: safe_start_again split: option.split\<close>)
qed

text \<open>Starting, and coming back from an upstream.\<close>

lemma carries_started: "parseAuthorizationRequest (wb_parse (dp_web dp)) (dp_resolve dp) (dp_config dp) ps = Inr (cl, req) \<Longrightarrow>
  carries dp (started_tx dp vi cl req)"
  unfolding started_tx_def advance_def
  by (rule carries_jputs) (auto simp: carries_def accepted_request_def same_request_def identity_fields_def)

lemma safe_refused:
  assumes "keeps_address (dp_web dp)"
    "parseAuthorizationRequest (wb_parse (dp_web dp)) (dp_resolve dp) (dp_config dp) ps = Inl e"
    "tg_redirectUri t \<noteq> None \<longrightarrow> single ps ''redirect_uri'' = Inr (tg_redirectUri t)"
  shows "safe dp (fail dp e t) (answer_ok dp)"
  unfolding fail_def
proof (rule safe_attempt)
  fix a assume a: "failureResponse (dp_web dp) (dp_config dp) e t = Inr a"
  have r: "wb_parse (dp_web dp) uri \<noteq> None \<and> (\<forall>place. same_place (dp_web dp) uri place \<longrightarrow> to_client dp place)"
    if "tg_redirectUri t = Some uri" "redirectable e" for uri
  proof -
    from parse_error [OF assms(2) that(2)] obtain cid cl u
      where "identify (wb_parse (dp_web dp)) (dp_resolve dp) (dp_config dp) ps = Inr (cid, cl, u)" by blast
    with identify_ok that(1) assms(3) have "dp_resolve dp cid = Inr (Some cl)"
      "redirectUriAllowed (wb_parse (dp_web dp)) (cl_redirectUris cl) uri (cc_redirectUriSchemes (c_clients (dp_config dp)))" by fastforce+
    moreover from this(2) have "wb_parse (dp_web dp) uri \<noteq> None" by (auto simp: redirectUriAllowed_iff)
    ultimately show ?thesis by (auto simp: to_client_def)
  qed
  show "answer_ok dp a"
    unfolding answer_ok_def
    using failureResponse_sends [OF assms(1) a] r by blast
qed

lemma keeps_start: "sound_visit dp vi w \<Longrightarrow> keeps dp (handleAuthorize dp vi) w"
proof (rule safe_keeps)
  assume v: "sound_visit dp vi w"
  then show "flow_inv dp w" by (simp add: sound_visit_def)
  have k: "keeps_address (dp_web dp)" using v by (simp add: sound_visit_def)
  show "safe dp (handleAuthorize dp vi) (answer_ok dp)"
    unfolding handleAuthorize_def
  proof (rule safe_andThen [where P = "\<lambda>_. True"], goal_cases)
    case 1
    show ?case by (simp add: form_of_def safe_true safe_ret)
  next
    case (2 ps)
    show ?case
    proof (cases "parseAuthorizationRequest (wb_parse (dp_web dp)) (dp_resolve dp) (dp_config dp) ps")
      case (Inl e)
      note f = safe_refused [OF k Inl]
      have "safe dp (andThen (attempt (request_targets ps)) (\<lambda>t. fail dp e t)) (answer_ok dp)"
        by (rule safe_then(1), rule f) (auto simp: request_targets_def)
      moreover have "safe dp (fail dp e no_targets) (answer_ok dp)" by (rule f) (simp add: no_targets_def)
      ultimately show ?thesis using Inl by (cases e) simp_all
    next
      case (Inr x)
      then obtain cl req where x: "parseAuthorizationRequest (wb_parse (dp_web dp)) (dp_resolve dp) (dp_config dp) ps = Inr (cl, req)"
        by (cases x) auto
      have "safe dp (andThen (valid_held_session dp vi cl) (decide dp vi (started_tx dp vi cl req) cl)) (answer_ok dp)"
        by (rule safe_valid, rule safe_decide [OF k carries_started [OF x]])
      with x show ?thesis by simp
    qed
  qed
qed

lemma safe_exchange: "safe dp (exchange dp vi u code tx) (\<lambda>_. True)"
  by (rule safeI) (auto simp: exchange_def split: prod.split sum.split)

lemma safe_converged: "safe dp (converged dp vi tx u oc) (\<lambda>_. True)"
  by (auto simp: converged_def intro!: safe_ret safe_true split: option.split)

lemma safe_upstream_answered:
  assumes "keeps_address (dp_web dp)" "carries dp tx"
  shows "safe dp (upstream_answered dp vi tx cl u oc) (answer_ok dp)"
proof -
  have acr: "sa_acr (upstream_args dp tx u oc l) = ctx_acr (acrFromUpstream (oc_claims oc))" for l
    by (simp add: upstream_args_def session_args_for_def Let_def split: option.split)
  have "code_sound dp (jput tx ''upstream'' None, renewed dp vi same s (upstream_args dp tx u oc l))"
    if "\<forall>ses. s = Some ses \<longrightarrow> is_obj ses" "satisfies (ctx_acr (acrFromUpstream (oc_claims oc))) (tx_acrs tx)" for s same l
    using that carries_leg [OF assms(2)] carries_obj [OF assms(2)] by (simp add: code_sound_def renewed_acr acr tx_acrs_def)
  then show ?thesis
    unfolding upstream_answered_def Let_def
    using assms by (auto intro!: safe_fail safe_valid safe_complete safe_andThen [OF safe_converged])
qed

lemma keeps_callback:
  assumes "sound_visit dp vi w"
  shows "keeps dp (handleCallback dp vi) w"
proof -
  have k: "keeps_address (dp_web dp)" and i: "flow_inv dp w" and
    a: "\<And>token tx. single (vi_query vi) ''state'' = Inr (Some token) \<Longrightarrow>
       openUpstreamState (dp_pf dp) (dp_config dp) token (now_of vi) = Inr tx \<Longrightarrow> carries dp tx"
    using assms by (auto simp: sound_visit_def authentic_def flow_inv_def)
  note s = safe_start_again [where dp = dp]
  show ?thesis
  proof (rule safe_keeps [OF _ i], unfold handleCallback_def Let_def, rule safe_then(1), goal_cases)
    case (1 token)
    have f: "safe dp (fail dp e (redirectTargets tx)) (answer_ok dp)" "safe dp (offerFallback dp vi tx) (answer_ok dp)"
      "safe dp (upstream_answered dp vi tx cl u oc) (answer_ok dp)"
      if "openUpstreamState (dp_pf dp) (dp_config dp) (the token) (now_of vi) = Inr tx" "str_truthy token" for tx e cl u oc
    proof -
      have "carries dp tx" using 1 a that by (cases token) (auto simp: str_truthy_def)
      with k show "safe dp (fail dp e (redirectTargets tx)) (answer_ok dp)" "safe dp (offerFallback dp vi tx) (answer_ok dp)"
        "safe dp (upstream_answered dp vi tx cl u oc) (answer_ok dp)"
        by (auto intro: safe_fail safe_offerFallback safe_upstream_answered)
    qed
    show ?case
      by (auto intro!: s f safe_then(1) safe_attempt safe_andThen [OF safe_exchange] simp: upstream_refused_def
          split: sum.split seal_error.split option.split)
  qed
qed

lemma keeps_handle: "sound_visit dp vi w \<Longrightarrow> keeps dp (handle ep dp vi) w"
  by (cases ep) (simp_all add: keeps_start keeps_email keeps_otp keeps_submit keeps_password keeps_mfa keeps_restart keeps_continue
      keeps_choose keeps_callback)

section \<open>Runs\<close>

text \<open>Any number of browsers visit in any order; in between, other endpoints and other instances change the shared state as
  they like.\<close>

inductive flow :: "('s, 'd) deployment \<Rightarrow> ('s, 'd) world \<Rightarrow> bool" for dp where
  start: "wo_sent w = [] \<Longrightarrow> wo_sealed w = [] \<Longrightarrow> wo_states w = [] \<Longrightarrow> wo_codes w = [] \<Longrightarrow> flow dp w"
| visit: "flow dp w \<Longrightarrow> authentic dp vi w \<Longrightarrow> flow dp (snd (handle ep dp vi w))"
| elsewhere: "flow dp w \<Longrightarrow> flow dp (w\<lparr>wo_store := s, wo_dir := d, wo_upstream := u\<rparr>)"

lemma flow_invariant: "flow dp w \<Longrightarrow> keeps_address (dp_web dp) \<Longrightarrow> flow_inv dp w"
proof (induction rule: flow.induct)
  case (visit w vi ep)
  then have "sound_visit dp vi w" by (simp add: sound_visit_def)
  then show ?case using keeps_handle by (auto simp: keeps_def)
qed (simp_all add: flow_inv_def)

section \<open>Every run\<close>

text \<open>A code is worth what was asked for. In every run, each authorisation code was minted from a transaction
  that still says exactly what an accepted request asked for, and from a session whose authentication context meets the
  request's demand; the one exception is an address this deployment never mails, for which the code screen is a decoy.\<close>

lemma every_code_answers_its_request:
  assumes "flow dp w" "keeps_address (dp_web dp)" "(tx, session) \<in> set (wo_codes w)"
  shows "(\<exists>client req i t. accepted_request dp client req \<and> same_request (newTransaction (dp_config dp) req i t) tx) \<and>
    (satisfies (session_acr session) (tx_acrs tx) \<or>
     session_acr session = ACR_OTP \<and> list_all (\<lambda>m. Some (ml_to m) \<noteq> tx_email tx) (wo_sent w))"
  using flow_invariant [OF assms(1,2)] assms(3)
  by (fastforce simp: flow_inv_def code_sound_def carries_def list_all_iff)

text \<open>The browser is never sent astray. In every run, whatever a visit asks, an answer that redirects or posts the
  browser somewhere sends it to a redirect URI registered by a client, up to the query, or to the authorisation
  endpoint of an upstream of the configuration.\<close>

lemma answers_stay_registered:
  assumes "flow dp w" "keeps_address (dp_web dp)" "authentic dp vi w"
    and "fst (handle ep dp vi w) = Inr a" "sends_to a = Some place"
  shows "to_client dp place \<or> to_upstream dp place"
  using keeps_handle [of dp vi w ep] flow_invariant [OF assms(1,2)] assms(2-5)
  by (simp add: keeps_def sound_visit_def answer_ok_def)

definition flow_platform :: platform where
  "flow_platform = (toy_platform sample_session)\<lparr>pf_decrypt := \<lambda>_ _ _ _. Some []\<rparr>"

definition flow_deployment :: "(mem_store, directory) deployment" where
  "flow_deployment = \<lparr>dp_pf = flow_platform, dp_web = sample_web\<lparr>wb_set := \<lambda>s _. Some s\<rparr>, dp_step = mem_step, dp_config = sample_config,
     dp_params = \<lambda>_. [], dp_resolve = sample_resolve, dp_binding = None, dp_verify = \<lambda>_ _ _ _. Inr True, dp_send = \<lambda>_. Inr None\<rparr>"

definition flow_visit :: visit where
  "flow_visit = \<lparr>vi_request = \<lparr>rq_method = ''GET'', rq_headers = [(''cookie'', ''__Host-sag_session=k1.session.AA.AA'')], rq_chunks = None\<rparr>,
     vi_query = sample_params @ [(''prompt'', ''none'')], vi_clock = 20000, vi_iv = \<lambda>_. [1], vi_token = \<lambda>_. ''t'', vi_code = []\<rparr>"

definition flow_world :: "(mem_store, directory) world" where
  "flow_world = \<lparr>wo_store = None, wo_dir = Missing, wo_upstream = no_upstreams_seen, wo_sent = [], wo_sealed = [], wo_states = [], wo_codes = []\<rparr>"

lemma flow_deployment_simps [simp]:
  "dp_pf flow_deployment = flow_platform" "dp_config flow_deployment = sample_config" "dp_resolve flow_deployment = sample_resolve"
  "dp_web flow_deployment = sample_web\<lparr>wb_set := \<lambda>s _. Some s\<rparr>" "dp_binding flow_deployment = None" "dp_step flow_deployment = mem_step"
  by (simp_all add: flow_deployment_def)

lemma flow_parsed:
  obtains req where
    "parseAuthorizationRequest (wb_parse (dp_web flow_deployment)) (dp_resolve flow_deployment) (dp_config flow_deployment) (vi_query flow_visit)
       = Inr (sample_client, req)"
    "ar_prompt req = [''none'']" "ar_acrValues req = []" "ar_maxAge req = None" "ar_redirectUri req = ''https://app.example/cb''"
    "ar_responseMode req = ''query''"
proof -
  let ?r = "parseAuthorizationRequest sample_parse sample_resolve sample_config (sample_params @ [(''prompt'', ''none'')])"
  have "is_ok ?r" by code_simp
  then obtain cl req where r: "?r = Inr (cl, req)" by (auto simp: is_ok_def split: sum.split_asm)
  have "(\<lambda>q. (ar_clientId q, ar_prompt q, ar_acrValues q, ar_maxAge q, ar_redirectUri q, ar_responseMode q)) (snd (projr ?r)) =
      (''app'', [''none''], [], None, ''https://app.example/cb'', ''query'')" by code_simp
  then have req: "ar_clientId req = ''app''" "ar_prompt req = [''none'']" "ar_acrValues req = []" "ar_maxAge req = None"
    "ar_redirectUri req = ''https://app.example/cb''" "ar_responseMode req = ''query''" by (simp_all add: r)
  from parse_ok [OF r] req(1) have "cl = sample_client" by (simp add: sample_resolve_def)
  with r req that show thesis by (simp add: sample_web_def flow_visit_def)
qed

lemma sample_session_exp: "jget sample_session ''exp'' = Some (JNum 43210)"
  by (simp add: sample_session_def newSession_def) (simp add: sample_config_def)

lemma sample_session_local: "jget sample_session ''localIdentityId'' = None" "jget sample_session ''email'' = Some (JStr ''jo@corp.example'')"
  by (simp_all add: sample_session_def newSession_def) (simp_all add: sample_args_def)

lemma sessionClientFor_sample: "sessionClientFor sample_config (Some sample_client) = None"
  by (simp add: sessionClientFor_def or_str_def sample_client_def sample_config_def)

lemma flow_visit_get: "rq_method (vi_request flow_visit) = ''GET''" "vi_clock flow_visit = 20000"
  by (simp_all add: flow_visit_def)

lemma flow_cookie: "parseCookies (vi_request flow_visit) = [(''__Host-sag_session'', ''k1.session.AA.AA'')]"
  by code_simp

lemma flow_unseals: "unseal flow_platform (c_secrets sample_config) SESSION_PURPOSE ''k1.session.AA.AA'' 20 None = Inr sample_session"
proof -
  have t: "split_on (CHR ''.'') ''k1.session.AA.AA'' = [''k1'', ''session'', ''AA'', ''AA'']" "unb64u ''AA'' = Inr [0]" by code_simp+
  have s: "c_secrets sample_config = [''0123456789abcdef0123456789abcdef'']" by (simp add: sample_config_def)
  have j: "sample_session \<noteq> JNull" using sample_session_fields(1) by force
  show ?thesis
    unfolding s by (simp add: unseal_def t SESSION_PURPOSE_def flow_platform_def toy_platform_def check_age_def j sample_session_exp)
qed

lemma flow_cookie_name: "cookieNameFor flow_platform sample_config None = ''__Host-sag_session''"
  by (simp add: cookieNameFor_def str_truthy_def) (simp add: sample_config_def)

lemma flow_session:
  "readSession flow_platform mem_step sample_config (vi_request flow_visit) None 20000 None = (Inr (Some sample_session), None)"
proof -
  have k: "check_session mem_step 20000 None sample_session = (Inr (Some sample_session), None)"
    by (simp add: check_session_def nowSeconds_def sample_session_fields) (simp add: sample_session_def newSession_def sample_args_def)
  show ?thesis
    by (simp add: readSession_def readSessionByName_def flow_cookie_name flow_cookie flow_unseals k nowSeconds_def)
qed

lemma flow_sample:
  obtains a tx ses where "fst (handle Start flow_deployment flow_visit flow_world) = Inr a" "sends_to a = Some ''https://app.example/cb''"
    "wo_codes (snd (handle Start flow_deployment flow_visit flow_world)) = [(tx, ses)]" "tx_acrs tx = []"
proof -
  obtain req where req: "parseAuthorizationRequest (wb_parse (dp_web flow_deployment)) (dp_resolve flow_deployment)
      (dp_config flow_deployment) (vi_query flow_visit) = Inr (sample_client, req)"
    "ar_prompt req = [''none'']" "ar_acrValues req = []" "ar_maxAge req = None" "ar_redirectUri req = ''https://app.example/cb''"
    "ar_responseMode req = ''query''" by (rule flow_parsed)
  define tx where "tx = started_tx flow_deployment flow_visit sample_client req"
  have g: "jget tx k = jget (newTransaction sample_config req (vi_token flow_visit ''txid'') (now_of flow_visit)) k"
    if "k \<in> set identity_fields" for k
    using that unfolding tx_def started_tx_def advance_def
    by (subst jget_jputs_other) (auto simp: identity_fields_def)
  have tx: "jget tx ''prompt'' = Some (jstrs [''none''])" "jget tx ''acr_values'' = Some (jstrs [])" "jget tx ''max_age'' = None"
    "jget tx ''redirect_uri'' = Some (JStr ''https://app.example/cb'')" "jget tx ''response_mode'' = Some (JStr ''query'')"
    "jget tx ''remember_me'' = None"
    using req by (simp_all add: g identity_fields_def newTransaction_def) (simp add: tx_def started_tx_def advance_def newTransaction_def)
  have p: "has_prompt tx x \<longleftrightarrow> x = ''none''" for x
    by (simp add: has_prompt_def tx(1) jstrs_def map_filter_simps)
  have a: "tx_acrs tx = []" by (simp add: tx_acrs_def tx(2) jstrs_def map_filter_simps)
  have f: "fresh_for sample_config tx sample_session (now_of flow_visit)"
    by (simp add: fresh_for_def tx(3) sessionIsFresh_def sample_session_fields sample_session_exp nowSeconds_def flow_visit_def sample_config_def)
  have held: "valid_held_session flow_deployment flow_visit sample_client flow_world = (Inr (Some sample_session), flow_world)"
    using flow_session
    by (simp add: valid_held_session_def held_session_def andThen_def with_store_def sessionClientFor_sample validSession_def
        sample_session_local ret_def flow_world_def flow_visit_get)
  have started: "handle Start flow_deployment flow_visit flow_world =
      decide flow_deployment flow_visit tx sample_client (Some sample_session) flow_world"
    by (simp add: handleAuthorize_def flow_visit_get andThen_def ret_def req(1) [simplified] held tx_def)
  have decided: "decide flow_deployment flow_visit tx sample_client (Some sample_session) =
      complete flow_deployment flow_visit tx sample_client sample_session True"
    by (simp add: decide_def Let_def p f a satisfies_def)
  let ?s = "touch sample_config sample_session (now_of flow_visit)"
  have salt: "str_truthy (c_subjectSalt sample_config)" by (simp add: sample_config_def str_truthy_def)
  obtain sub where sub: "subject_of flow_deployment sample_client ?s (identityEmail sample_config (coalesce (as_str (jget ?s ''email'')) [])
      (Some sample_client)) = Inr sub"
    by (simp add: subject_of_def touch_def jget_jput_other sample_session_local subjectFor_def subjectForPrincipal_def unexpected_def salt Let_def)
  have loc: "authorizationResponse (sample_web\<lparr>wb_set := \<lambda>s _. Some s\<rparr>) sample_config tx code = Inr (redirect_answer ''https://app.example/cb'')" for code
    by (simp add: authorizationResponse_def tx_str_def tx(4,5) coalesce_def located_def successRedirect_def)
  have cookies: "parseCookies (vi_request flow_visit) = [(''__Host-sag_session'', ''k1.session.AA.AA'')]" by code_simp
  have rem: "readRememberedEmail pf c (vi_request flow_visit) n = Inr None" for pf c n
    by (simp add: readRememberedEmail_def cookies REMEMBER_ME_COOKIE_def)
  obtain cookie where fin: "complete flow_deployment flow_visit tx sample_client sample_session True flow_world =
      (Inr (answer_cookie (redirect_answer ''https://app.example/cb'') cookie), flow_world\<lparr>wo_codes := [(tx, ?s)]\<rparr>)"
    by (simp add: complete_def Let_def andThen_def attempt_def sub loc log_code_def remember_after_def tx(6) remembered_def rem ret_def
        str_truthy_def) (simp add: flow_world_def)
  let ?w = "handle Start flow_deployment flow_visit flow_world"
  have "fst ?w = Inr (answer_cookie (redirect_answer ''https://app.example/cb'') cookie)" "wo_codes (snd ?w) = [(tx, ?s)]"
    unfolding started decided fin by simp_all
  then show thesis by (intro that [OF _ _ _ a]) (assumption | simp)+
qed

lemma flow_sample_run:
  "keeps_address (dp_web flow_deployment)" "authentic flow_deployment flow_visit flow_world" "flow flow_deployment flow_world"
  "flow flow_deployment (snd (handle Start flow_deployment flow_visit flow_world))"
proof -
  show "keeps_address (dp_web flow_deployment)" by (auto simp: keeps_address_def)
  have "split_on (CHR ''.'') ''xyz'' = [''xyz'']" by code_simp
  then have "openUpstreamState flow_platform sample_config ''xyz'' n = Inl (SealError ''malformed token'')" for n
    by (simp add: openUpstreamState_def unseal_def)
  moreover have "single (vi_query flow_visit) ''state'' = Inr (Some ''xyz'')" by code_simp
  moreover have "readForm (dp_params flow_deployment) (vi_request flow_visit) =
      Inl (oauthError ''invalid_request'' ''Request body must be application/x-www-form-urlencoded'')"
    by code_simp
  ultimately show a: "authentic flow_deployment flow_visit flow_world" by (simp add: authentic_def)
  show f: "flow flow_deployment flow_world" by (rule flow.start) (simp_all add: flow_world_def)
  show "flow flow_deployment (snd (handle Start flow_deployment flow_visit flow_world))" by (rule flow.visit [OF f a])
qed

end
