(* ===== verification/Logout.thy ===== *)
theory Logout
  imports Flow
begin

text \<open>
  Signing out, \<^verbatim>\<open>src/endpoints/logout.js\<close>: the request and its validated return address, the sealed confirmation, and ending
  the sessions whose cookies the answer clears.
\<close>

definition LOGOUT_PURPOSE :: string where "LOGOUT_PURPOSE = ''logout''"

section \<open>The request\<close>

definition clientFromHint :: "platform \<Rightarrow> string option \<Rightarrow> string option" where
  "clientFromHint pf hint =
     (if \<not> str_truthy hint then None
      else (case decodeJwt pf hint of Inl _ \<Rightarrow> None
        | Inr d \<Rightarrow> as_str (case jget (dj_payload d) ''aud'' of Some (JArr []) \<Rightarrow> None | Some (JArr (x # _)) \<Rightarrow> Some x | aud \<Rightarrow> aud)))"

record logout_request =
  lq_clientId :: "string option"
  lq_client :: "client option"
  lq_returnTo :: "string option"
  lq_state :: "string option"

definition resolved :: "('s, 'd) deployment \<Rightarrow> string option \<Rightarrow> (failure, client option) result" where
  "resolved dp clientId = (if str_truthy clientId then dp_resolve dp (the clientId) else Inr None)"

definition parseLogout :: "('s, 'd) deployment \<Rightarrow> params \<Rightarrow> (failure, logout_request) result" where
  "parseLogout dp ps =
     rbind (single ps ''id_token_hint'') (\<lambda>hint. rbind (single ps ''client_id'') (\<lambda>named.
     let clientId = (case named of None \<Rightarrow> clientFromHint (dp_pf dp) hint | _ \<Rightarrow> named) in
     rbind (resolved dp clientId) (\<lambda>client. rbind (single ps ''post_logout_redirect_uri'') (\<lambda>requested.
     let returnTo = (if str_truthy requested \<and> postLogoutRedirectAllowed (wb_parse (dp_web dp)) client (the requested)
           (cc_redirectUriSchemes (c_clients (dp_config dp))) then requested else None) in
     rbind (single ps ''state'') (\<lambda>state.
     Inr \<lparr>lq_clientId = clientId, lq_client = client, lq_returnTo = returnTo, lq_state = state\<rparr>)))))"

text \<open>What the confirmation page carries back.\<close>

definition logout_payload :: "('s, 'd) deployment \<Rightarrow> logout_request \<Rightarrow> int \<Rightarrow> json" where
  "logout_payload dp lq now = jobj
     [(''v'', Some (JNum 1)), (''client_id'', map_option JStr (lq_clientId lq)),
      (''scoped'', map_option JStr (sessionClientFor (dp_config dp) (lq_client lq))),
      (''returnTo'', map_option JStr (lq_returnTo lq)), (''state'', map_option JStr (lq_state lq)),
      (''global'', Some (JBool (lq_clientId lq = None \<and> ss_scope (c_session (dp_config dp)) = ''shared''))),
      (''iat'', Some (JNum now)), (''exp'', Some (JNum (now + 600)))]"

section \<open>Ending sessions\<close>

record logout_opts =
  lo_returnTo :: "string option"
  lo_state :: "string option"
  lo_clientName :: "string option"
  lo_scoped :: "string option"
  lo_clearAll :: bool
  lo_legal :: legal_links

definition legal_source :: "client option \<Rightarrow> json" where
  "legal_source client = (case client of None \<Rightarrow> JObj []
     | Some cl \<Rightarrow> jobj [(''tosUri'', map_option JStr (cl_tosUri cl)), (''policyUri'', map_option JStr (cl_policyUri cl))])"

definition client_legal :: "('s, 'd) deployment \<Rightarrow> client option \<Rightarrow> legal_links" where
  "client_legal dp client = legalFor (wb_parse (dp_web dp)) (dp_config dp) (legal_source client)"

text \<open>Each session is revoked before its cookie is cleared, and a failed claim fails the request.\<close>

fun end_sessions :: "('s, 'd) deployment \<Rightarrow> visit \<Rightarrow> string list \<Rightarrow> ('s, 'd, string list) act" where
  "end_sessions dp vi [] = ret []"
| "end_sessions dp vi (name # names) =
     andThen (with_store (readSessionByName (dp_pf dp) (dp_step dp) (dp_config dp) (vi_request vi) name (vi_clock vi))) (\<lambda>session.
     andThen (with_store (revokeSession (dp_step dp) session (vi_clock vi))) (\<lambda>_.
     andThen (end_sessions dp vi names) (\<lambda>cookies. ret (clearCookieByName (dp_config dp) name # cookies))))"

definition ended_names :: "('s, 'd) deployment \<Rightarrow> visit \<Rightarrow> logout_opts \<Rightarrow> string list" where
  "ended_names dp vi opts = (if lo_clearAll opts then allSessionCookieNames (dp_config dp) (vi_request vi)
     else [cookieNameFor (dp_pf dp) (dp_config dp) (lo_scoped opts)])"

definition farewell :: "('s, 'd) deployment \<Rightarrow> logout_opts \<Rightarrow> (failure, answer) result" where
  "farewell dp opts =
     (if str_truthy (lo_returnTo opts)
      then located (wb_set (dp_web dp) (the (lo_returnTo opts)) (case lo_state opts of None \<Rightarrow> [] | Some s \<Rightarrow> [(''state'', s)]))
      else Inr (html_answer (PageContent (SignedOutPage None (lo_clientName opts)) (lo_legal opts) None) 200 []))"

definition finish_logout :: "('s, 'd) deployment \<Rightarrow> visit \<Rightarrow> logout_opts \<Rightarrow> ('s, 'd, answer) act" where
  "finish_logout dp vi opts =
     andThen (end_sessions dp vi (ended_names dp vi opts)) (\<lambda>cookies.
     andThen (attempt (farewell dp opts)) (\<lambda>response.
     ret (fold (\<lambda>c a. answer_cookie a c)
       (if cookies = [] then [clearSessionCookie (dp_pf dp) (dp_config dp) (lo_scoped opts)] else cookies) response)))"

section \<open>The handler\<close>

definition performLogout :: "('s, 'd) deployment \<Rightarrow> visit \<Rightarrow> string \<Rightarrow> ('s, 'd, answer) act" where
  "performLogout dp vi token =
     (case unseal (dp_pf dp) (c_secrets (dp_config dp)) LOGOUT_PURPOSE token (now_of vi) None of
        Inl _ \<Rightarrow> ret (html_answer (PageContent (SignedOutPage None None) no_legal None) 200 [])
      | Inr payload \<Rightarrow>
          andThen (attempt (resolved dp (as_str (jget payload ''client_id'')))) (\<lambda>client.
          finish_logout dp vi \<lparr>lo_returnTo = as_str (jget payload ''returnTo''), lo_state = as_str (jget payload ''state''),
            lo_clientName = map_option cl_clientName client, lo_scoped = as_str (jget payload ''scoped''),
            lo_clearAll = truthy (jget payload ''global''), lo_legal = client_legal dp client\<rparr>))"

definition needs_confirmation :: "config \<Rightarrow> client option \<Rightarrow> bool \<Rightarrow> bool" where
  "needs_confirmation c client affectsOthers =
     (let mode = or_str (Option.bind client cl_logoutConfirm) (ss_logoutConfirm (c_session c))
      in if mode = ''always'' then True else if mode = ''never'' then False else affectsOthers)"

definition requested_logout :: "('s, 'd) deployment \<Rightarrow> visit \<Rightarrow> logout_request \<Rightarrow> ('s, 'd, answer) act" where
  "requested_logout dp vi lq =
     (let c = dp_config dp; client = lq_client lq; scoped = sessionClientFor c client;
          opts = \<lparr>lo_returnTo = lq_returnTo lq, lo_state = lq_state lq, lo_clientName = map_option cl_clientName client, lo_scoped = scoped,
            lo_clearAll = False, lo_legal = client_legal dp client\<rparr>
      in andThen (with_store (readSession (dp_pf dp) (dp_step dp) c (vi_request vi) scoped (vi_clock vi))) (\<lambda>session.
         case session of None \<Rightarrow> finish_logout dp vi opts
         | Some ses \<Rightarrow>
             (let affectsOthers = (or_str (Option.bind client cl_sessionScope) (ss_scope (c_session c)) = ''shared'');
                  token = seal (dp_pf dp) (vi_iv vi ''logout'') (current_secret c) LOGOUT_PURPOSE (logout_payload dp lq (now_of vi)) None
              in if needs_confirmation c client affectsOthers
                 then ret (html_answer (PageContent (ConfirmLogoutPage token (as_str (jget ses ''email'')) (Some (displayIdentity c (Some ses)))
                   (map_option cl_clientName client) (lq_returnTo lq) affectsOthers) (client_legal dp client) None) 200 [])
                 else finish_logout dp vi opts)))"

definition logout_params :: "('s, 'd) deployment \<Rightarrow> visit \<Rightarrow> (failure, params) result" where
  "logout_params dp vi = (if rq_method (vi_request vi) = ''POST'' then readForm (dp_params dp) (vi_request vi) else Inr (vi_query vi))"

definition handleLogout :: "('s, 'd) deployment \<Rightarrow> visit \<Rightarrow> ('s, 'd, answer) act" where
  "handleLogout dp vi =
     andThen (attempt (logout_params dp vi)) (\<lambda>ps.
     andThen (attempt (single ps ''lt'')) (\<lambda>token.
     if str_truthy token then performLogout dp vi (the token)
     else andThen (attempt (parseLogout dp ps)) (requested_logout dp vi)))"

text \<open>The session a cookie holds, before the store is asked.\<close>

definition cookie_session :: "platform \<Rightarrow> config \<Rightarrow> request \<Rightarrow> string \<Rightarrow> int \<Rightarrow> json \<Rightarrow> bool" where
  "cookie_session pf c r name clock ses \<longleftrightarrow>
     (\<exists>raw. map_of (parseCookies r) name = Some raw \<and> unseal pf (c_secrets c) SESSION_PURPOSE raw (nowSeconds clock) None = Inr ses)"

text \<open>A completed logout over a cookie whose session was still readable; copies of one session carry one cap.\<close>

definition signed_out :: "('s, 'd) deployment \<Rightarrow> visit \<Rightarrow> logout_opts \<Rightarrow> ('s, 'd) world \<Rightarrow> string \<Rightarrow> int \<Rightarrow> 's \<Rightarrow> bool" where
  "signed_out dp vi opts w sid a s' \<longleftrightarrow>
     (\<exists>ans w' s name ses s1. finish_logout dp vi opts w = (Inr ans, w') \<and> wo_store w = Some s \<and> wo_store w' = Some s' \<and>
        name \<in> set (ended_names dp vi opts) \<and>
        readSessionByName (dp_pf dp) (dp_step dp) (dp_config dp) (vi_request vi) name (vi_clock vi) (Some s) = (Inr (Some ses), s1) \<and>
        jget ses ''sid'' = Some (JStr sid)) \<and>
     (\<forall>n j. cookie_session (dp_pf dp) (dp_config dp) (vi_request vi) n (vi_clock vi) j \<and> jget j ''sid'' = Some (JStr sid) \<longrightarrow>
        jget j ''abs'' = Some (JNum a))"

section \<open>What the store has to promise\<close>

text \<open>Beyond the contract of claims: what was just seen unclaimed can be claimed, and only a claim on a key changes that.\<close>

locale revoking_store = claim_store step held
  for step :: "'s \<Rightarrow> int \<Rightarrow> store_op \<Rightarrow> reply \<times> 's" and held +
  fixes sound :: "'s \<Rightarrow> bool"
  assumes sound_step: "sound s \<Longrightarrow> sound (snd (step s now op))"
    and unseen_fresh: "step s now (Has cid) = (Claimed False, s') \<Longrightarrow> fst (step s' now (Claim cid ttl)) \<noteq> Fresh False"
    and unseen_kept: "sound s \<Longrightarrow> fst (step s now (Has cid)) = Claimed False \<Longrightarrow> \<not> counts op \<Longrightarrow> \<not> (claims_op op \<and> op_key op = cid) \<Longrightarrow>
      step s now op = (r, s') \<Longrightarrow> fst (step s' now (Has cid)) = Claimed False"
begin

lemma read_store:
  assumes "readSessionByName pf step c r name clock (Some s) = (x, s')"
  shows "s' = Some s \<or> (\<exists>k. s' = Some (snd (step s clock (Has k))))"
  using assms
  by (auto simp: readSessionByName_def check_session_def Let_def split: option.splits if_splits sum.splits seal_error.splits
      prod.splits reply.splits bool.splits) (metis snd_conv)+

lemma read_frame:
  assumes "readSessionByName pf step c r name clock (Some s) = (Inr (Some ses), s1)" "jget ses ''sid'' = Some (JStr sid)" "sid \<noteq> []"
  shows "step s clock (Has (revocationKey sid)) = (Claimed False, the s1)" "s1 \<noteq> None"
    "fst (step s2 clock (Has (revocationKey sid))) = Claimed False \<Longrightarrow>
       readSessionByName pf step c r name clock (Some s2) = (Inr (Some ses), Some (snd (step s2 clock (Has (revocationKey sid)))))"
proof -
  from assms(1) obtain raw j where raw: "map_of (parseCookies r) name = Some raw"
    "unseal pf (c_secrets c) SESSION_PURPOSE raw (nowSeconds clock) None = Inr j" "check_session step clock (Some s) j = (Inr (Some ses), s1)"
    by (rule readSessionByName_Some)
  note ok = check_session_Some [OF raw(3)]
  have sid: "or_str (as_str (jget j ''sid'')) [] = sid" using ok assms(2,3) is_obj_jget [of j "''email''"]
    by (cases "jget j ''email''") (auto simp: or_str_def)
  from raw(3) sid show "step s clock (Has (revocationKey sid)) = (Claimed False, the s1)" "s1 \<noteq> None"
    by (auto simp: check_session_def Let_def split: if_splits prod.splits reply.splits bool.splits)
  have ne: "raw \<noteq> []" using assms(1) raw(1) by (auto simp: readSessionByName_def)
  assume "fst (step s2 clock (Has (revocationKey sid))) = Claimed False"
  then obtain s3 where "step s2 clock (Has (revocationKey sid)) = (Claimed False, s3)" by (metis prod.collapse)
  with raw(3) sid have "check_session step clock (Some s2) j = (Inr (Some ses), Some s3)"
    by (auto simp: check_session_def Let_def split: if_splits prod.splits reply.splits bool.splits)
  with raw ne \<open>step s2 _ _ = _\<close> show "readSessionByName pf step c r name clock (Some s2) =
      (Inr (Some ses), Some (snd (step s2 clock (Has (revocationKey sid)))))"
    by (simp add: readSessionByName_def)
qed

lemma revoke_store:
  assumes "revokeSession step ses clock (Some s) = (Inr (), s')"
  shows "s' = Some s \<or> (\<exists>j sid a b. ses = Some j \<and> jget j ''sid'' = Some (JStr sid) \<and> jget j ''abs'' = Some (JNum a) \<and>
    step s clock (Claim (revocationKey sid) (a - nowSeconds clock)) = (Fresh b, the s') \<and> s' \<noteq> None)"
proof (cases ses)
  case (Some j)
  show ?thesis
  proof (cases "as_str (jget j ''sid'')")
    case (Some sid)
    show ?thesis
    proof (cases "as_num (jget j ''abs'')")
      case (Some a)
      with \<open>as_str _ = Some sid\<close> \<open>ses = Some j\<close> assms show ?thesis
        by (auto simp: revokeSession_def Let_def as_str_iff as_num_iff split: if_splits prod.splits reply.splits)
    qed (use assms \<open>ses = Some j\<close> Some in \<open>simp add: revokeSession_def\<close>)
  qed (use assms Some in \<open>simp add: revokeSession_def\<close>)
qed (use assms in \<open>simp add: revokeSession_def\<close>)

lemma revokes_fresh:
  assumes "readSessionByName pf step c r name clock (Some s) = (Inr (Some ses), s1)"
    "revokeSession step (Some ses) clock s1 = (Inr (), s2)"
    "jget ses ''sid'' = Some (JStr sid)" "sid \<noteq> []" "jget ses ''abs'' = Some (JNum a)" "nowSeconds clock < a"
    "0 < clock" "clock \<le> t" "nowSeconds t < a" "a - nowSeconds clock \<le> 366 * 86400"
  shows "\<exists>s3. s2 = Some s3 \<and> held s3 t (revocationKey sid)"
proof -
  note f = read_frame [OF assms(1,3,4)]
  from f(2) obtain s' where s': "s1 = Some s'" by auto
  from assms(2-6) s' obtain b s3 where c: "step s' clock (Claim (revocationKey sid) (a - nowSeconds clock)) = (Fresh b, s3)" "s2 = Some s3"
    by (auto simp: revokeSession_def split: prod.splits reply.splits)
  with unseen_fresh [of s clock "revocationKey sid" s' "a - nowSeconds clock"] f(1) s' have "b" by auto
  with c held_after [of s' clock "revocationKey sid" "a - nowSeconds clock" s3 t] assms(7-10) before_deadline [OF assms(9), of clock]
  show ?thesis by simp
qed

lemma step_held: "held s t cid \<Longrightarrow> 0 < clock \<Longrightarrow> clock \<le> t \<Longrightarrow> \<not> counts op \<Longrightarrow> held (snd (step s clock op)) t cid"
  by (metis held_kept prod.collapse)

lemma revoke_held:
  assumes "revokeSession step ses clock (Some s) = (Inr (), s2)" "held s t cid" "0 < clock" "clock \<le> t"
  obtains s3 where "s2 = Some s3" "held s3 t cid"
  using revoke_store [OF assms(1)]
proof (elim disjE exE conjE)
  fix j sid a b assume "step s clock (Claim (revocationKey sid) (a - nowSeconds clock)) = (Fresh b, the s2)" "s2 \<noteq> None"
  with step_held [OF assms(2-4), of "Claim (revocationKey sid) (a - nowSeconds clock)"] that show thesis by (cases s2) auto
qed (use assms(2) that in blast)

lemma read_unseen:
  assumes "readSessionByName pf step c r name clock (Some s) = (x, s1)" "sound s" "fst (step s clock (Has cid)) = Claimed False"
  obtains s2 where "s1 = Some s2" "sound s2" "fst (step s2 clock (Has cid)) = Claimed False"
  using read_store [OF assms(1)]
proof (elim disjE exE)
  fix k assume s1: "s1 = Some (snd (step s clock (Has k)))"
  have "fst (step (snd (step s clock (Has k))) clock (Has cid)) = Claimed False"
    by (rule unseen_kept [OF assms(2,3), of "Has k"]) (simp_all add: prod_eq_iff)
  with s1 that sound_step [OF assms(2)] show thesis by blast
qed (use assms(2,3) that in blast)

lemma revoke_unseen:
  assumes "revokeSession step found clock (Some s) = (Inr (), s2)" "sound s" "fst (step s clock (Has (revocationKey sid))) = Claimed False"
    "\<not> (\<exists>j. found = Some j \<and> jget j ''sid'' = Some (JStr sid))"
  obtains s3 where "s2 = Some s3" "sound s3" "fst (step s3 clock (Has (revocationKey sid))) = Claimed False"
  using revoke_store [OF assms(1)]
proof (elim disjE exE conjE)
  fix j sid' a b assume j: "found = Some j" "jget j ''sid'' = Some (JStr sid')" "s2 \<noteq> None"
    "step s clock (Claim (revocationKey sid') (a - nowSeconds clock)) = (Fresh b, the s2)"
  with assms(4) have "revocationKey sid' \<noteq> revocationKey sid" by (auto simp: revocationKey_def)
  with unseen_kept [OF assms(2,3) _ _ j(4)] sound_step [OF assms(2), of clock "Claim (revocationKey sid') (a - nowSeconds clock)"] j(3,4) that
  show thesis by auto
qed (use assms(2,3) that in blast)

lemma end_sessions_Cons:
  assumes "end_sessions dp vi (n # names) w = (Inr cs, w')" "dp_step dp = step" "wo_store w = Some s"
  obtains found s1 s2 cs' where
    "readSessionByName (dp_pf dp) step (dp_config dp) (vi_request vi) n (vi_clock vi) (Some s) = (Inr found, s1)"
    "revokeSession step found (vi_clock vi) s1 = (Inr (), s2)" "end_sessions dp vi names (w\<lparr>wo_store := s2\<rparr>) = (Inr cs', w')"
proof -
  obtain x s1 where r: "readSessionByName (dp_pf dp) step (dp_config dp) (vi_request vi) n (vi_clock vi) (Some s) = (x, s1)" by force
  show thesis
  proof (cases x)
    case (Inr found)
    obtain y s2 where v: "revokeSession step found (vi_clock vi) s1 = (y, s2)" by force
    obtain z w2 where e: "end_sessions dp vi names (w\<lparr>wo_store := s2\<rparr>) = (z, w2)" by force
    show thesis
      using assms r v e Inr by (cases y; cases z) (auto simp: andThen_def with_store_def ret_def intro: that)
  qed (use assms r in \<open>simp add: andThen_def with_store_def\<close>)
qed

lemma end_sessions_held:
  assumes "dp_step dp = step" "0 < vi_clock vi" "vi_clock vi \<le> t"
  shows "end_sessions dp vi names w = (Inr cs, w') \<Longrightarrow> wo_store w = Some s \<Longrightarrow> held s t cid \<Longrightarrow> \<exists>s'. wo_store w' = Some s' \<and> held s' t cid"
proof (induction names arbitrary: w s cs)
  case (Cons name names)
  from Cons.prems(1) assms(1) Cons.prems(2) obtain ses s1 s2 cs' where
    r: "readSessionByName (dp_pf dp) step (dp_config dp) (vi_request vi) name (vi_clock vi) (Some s) = (Inr ses, s1)"
    and x: "revokeSession step ses (vi_clock vi) s1 = (Inr (), s2)" "end_sessions dp vi names (w\<lparr>wo_store := s2\<rparr>) = (Inr cs', w')"
    by (rule end_sessions_Cons)
  from read_store [OF r] step_held [OF Cons.prems(3) assms(2,3)] Cons.prems(3) obtain s1' where h: "s1 = Some s1'" "held s1' t cid" by auto
  obtain s2' where "s2 = Some s2'" "held s2' t cid"
    using revoke_held [OF x(1) [unfolded h(1)] h(2) assms(2,3)] .
  with Cons.IH [OF x(2)] show ?case by simp
qed (simp add: ret_def)

text \<open>Every session in the cleared cookies is revoked, even when several cookies hold the same one.\<close>

lemma end_sessions_revokes:
  assumes "dp_step dp = step" "0 < vi_clock vi" "vi_clock vi \<le> t" "sid \<noteq> []" "now_of vi < a" "nowSeconds t < a"
    "a - now_of vi \<le> 366 * 86400"
    and one: "\<And>n j. cookie_session (dp_pf dp) (dp_config dp) (vi_request vi) n (vi_clock vi) j \<Longrightarrow> jget j ''sid'' = Some (JStr sid) \<Longrightarrow>
      jget j ''abs'' = Some (JNum a)"
  shows "end_sessions dp vi names w = (Inr cs, w') \<Longrightarrow> wo_store w = Some s \<Longrightarrow> sound s \<Longrightarrow> name \<in> set names \<Longrightarrow>
    readSessionByName (dp_pf dp) step (dp_config dp) (vi_request vi) name (vi_clock vi) (Some s) = (Inr (Some ses), s0) \<Longrightarrow>
    jget ses ''sid'' = Some (JStr sid) \<Longrightarrow> \<exists>s'. wo_store w' = Some s' \<and> held s' t (revocationKey sid)"
proof (induction names arbitrary: w s cs s0)
  case (Cons n names)
  let ?read = "readSessionByName (dp_pf dp) step (dp_config dp) (vi_request vi)"
  from Cons.prems(1) assms(1) Cons.prems(2) obtain found s1 s2 cs' where r: "?read n (vi_clock vi) (Some s) = (Inr found, s1)"
    and x: "revokeSession step found (vi_clock vi) s1 = (Inr (), s2)" "end_sessions dp vi names (w\<lparr>wo_store := s2\<rparr>) = (Inr cs', w')"
    by (rule end_sessions_Cons)
  have cap: "jget j ''abs'' = Some (JNum a)"
    if "?read n' (vi_clock vi) (Some s') = (Inr (Some j), s'')" "jget j ''sid'' = Some (JStr sid)" for n' s' j s''
    using that(1)
  proof (rule readSessionByName_Some)
    fix raw j0 assume "map_of (parseCookies (vi_request vi)) n' = Some raw"
      "unseal (dp_pf dp) (c_secrets (dp_config dp)) SESSION_PURPOSE raw (now_of vi) None = Inr j0"
      and c: "check_session step (vi_clock vi) (Some s') j0 = (Inr (Some j), s'')"
    then have "cookie_session (dp_pf dp) (dp_config dp) (vi_request vi) n' (vi_clock vi) j0" by (auto simp: cookie_session_def)
    moreover have "jget j k = jget j0 k" if "k \<noteq> ''emailVerified''" for k
      using check_session_Some [OF c] that by (auto simp: jget_jput_other)
    ultimately show ?thesis using one [of n' j0] that(2) by simp
  qed
  show ?case
  proof (cases "\<exists>j. found = Some j \<and> jget j ''sid'' = Some (JStr sid)")
    case True
    then obtain j where j: "found = Some j" "jget j ''sid'' = Some (JStr sid)" by blast
    note rj = r [unfolded j(1)]
    from revokes_fresh [OF rj x(1) [unfolded j(1)] j(2) assms(4) cap [OF rj j(2)] assms(5,2,3,6,7)]
    obtain s3 where "s2 = Some s3" "held s3 t (revocationKey sid)" by blast
    with end_sessions_held [OF assms(1-3) x(2)] show ?thesis by simp
  next
    case False
    then have "n \<noteq> name" using r Cons.prems(5,6) by auto
    then have m: "name \<in> set names" using Cons.prems(4) by simp
    note u = read_frame [OF Cons.prems(5,6) assms(4)]
    have "fst (step s (vi_clock vi) (Has (revocationKey sid))) = Claimed False" using u(1) by simp
    from r Cons.prems(3) this obtain s1' where s1': "s1 = Some s1'" "sound s1'" "fst (step s1' (vi_clock vi) (Has (revocationKey sid))) = Claimed False"
      by (rule read_unseen)
    from x(1) [unfolded s1'(1)] s1'(2,3) False obtain s2' where
      s2': "s2 = Some s2'" "sound s2'" "fst (step s2' (vi_clock vi) (Has (revocationKey sid))) = Claimed False" by (rule revoke_unseen)
    show ?thesis
      by (rule Cons.IH [OF x(2) _ s2'(2) m u(3) [OF s2'(3)] Cons.prems(6)]) (simp add: s2'(1))
  qed
qed simp

lemma signed_out_unreadable:
  assumes "dp_step dp = step" "sound (the (wo_store w))" "signed_out dp vi opts w sid a s'"
    "0 < vi_clock vi" "vi_clock vi \<le> t" "now_of vi < a" "nowSeconds t \<noteq> a" "a - now_of vi \<le> 366 * 86400" "sid \<noteq> []"
    "jget copy ''sid'' = Some (JStr sid)" "jget copy ''abs'' = Some (JNum a)"
    "\<And>u op. (u, op) \<in> set ops \<Longrightarrow> 0 < u \<and> u \<le> t \<and> \<not> (counts op \<and> op_key op = revocationKey sid)"
  shows "fst (check_session step t (Some (snd (run s' ops))) copy) \<noteq> Inr (Some x)"
proof (cases "a < nowSeconds t")
  case True
  then show ?thesis using assms(11) by (simp add: check_session_def)
next
  case False
  with assms(7) have t: "nowSeconds t < a" by simp
  from assms(3) obtain ans w' s name ses s1 where
    f: "finish_logout dp vi opts w = (Inr ans, w')" "wo_store w = Some s" "wo_store w' = Some s'" "name \<in> set (ended_names dp vi opts)"
      "readSessionByName (dp_pf dp) step (dp_config dp) (vi_request vi) name (vi_clock vi) (Some s) = (Inr (Some ses), s1)"
      "jget ses ''sid'' = Some (JStr sid)"
    and one: "\<And>n j. cookie_session (dp_pf dp) (dp_config dp) (vi_request vi) n (vi_clock vi) j \<Longrightarrow> jget j ''sid'' = Some (JStr sid) \<Longrightarrow>
      jget j ''abs'' = Some (JNum a)"
    unfolding signed_out_def assms(1) by blast
  obtain r w1 where e: "end_sessions dp vi (ended_names dp vi opts) w = (r, w1)" by force
  with f(1) obtain cs where "r = Inr cs" "w1 = w'"
    by (cases r; cases "farewell dp opts") (auto simp: finish_logout_def andThen_def attempt_def ret_def)
  with e have e': "end_sessions dp vi (ended_names dp vi opts) w = (Inr cs, w')" by simp
  have "sound s" using assms(2) f(2) by simp
  from end_sessions_revokes [OF assms(1,4,5,9,6) t assms(8) one e' f(2) this f(4,5,6)] f(3)
  have "held s' t (revocationKey sid)" by simp
  then have "held (snd (run s' ops)) t (revocationKey sid)" by (rule run_held) (rule assms(12))
  from held_seen [OF this] assms(4,5)
  have h: "fst (step (snd (run s' ops)) t (Has (revocationKey sid))) \<noteq> Claimed False" by simp
  have sid: "or_str (as_str (jget copy ''sid'')) [] = sid" using assms(9,10) by (simp add: or_str_def)
  obtain q s2 where st: "step (snd (run s' ops)) t (Has (revocationKey sid)) = (q, s2)" by force
  with h show ?thesis by (cases q) (simp_all add: check_session_def sid Let_def split: bool.splits)
qed

end

lemma map_of_sweep_cases: "distinct (map fst m) \<Longrightarrow> map_of (sweep e m now) k = None \<or> map_of (sweep e m now) k = map_of m k"
  by (induction m) (auto simp: sweep_def map_of_eq_None_iff image_iff)

interpretation memory: revoking_store mem_step mem_held mem_wf
proof unfold_locales
  fix s now op
  show "mem_wf s \<Longrightarrow> mem_wf (snd (mem_step s now op))" by (rule mem_step_wf)
next
  fix s now cid s' ttl
  assume "mem_step s now (Has cid) = (Claimed False, s')"
  then show "fst (mem_step s' now (Claim cid ttl)) \<noteq> Fresh False"
    by (auto simp: mem_has_def mem_claim_def Let_def delete_conv' split: option.splits if_splits)
next
  fix s now cid op r s'
  assume a: "mem_wf s" "fst (mem_step s now (Has cid)) = Claimed False" "\<not> counts op" "\<not> (claims_op op \<and> op_key op = cid)" "mem_step s now op = (r, s')"
  have seen: "fst (mem_step u now (Has cid)) = Claimed False \<longleftrightarrow> (case map_of (claims u) cid of None \<Rightarrow> True | Some e \<Rightarrow> e < nowSeconds now)" for u
    by (auto simp: mem_has_def split: option.splits)
  have "map_of (claims s') cid = None \<or> map_of (claims s') cid = map_of (claims s) cid"
    using a map_of_sweep_cases [of "claims s" "\<lambda>e. e" "nowSeconds now" cid]
    by (cases op) (auto simp: mem_wf_def mem_claim_def mem_has_def Let_def update_conv' delete_conv' split: if_splits option.splits)
  with a(2) show "fst (mem_step s' now (Has cid)) = Claimed False" unfolding seen by (auto split: option.splits)
qed

interpretation durable_objects: revoking_store do_step do_held "\<lambda>_. True"
proof unfold_locales
  fix s now cid s' ttl
  assume "do_step s now (Has cid) = (Claimed False, s')"
  then show "fst (do_step s' now (Claim cid ttl)) \<noteq> Fresh False"
    by (auto simp: do_has_alt do_claim_alt split: if_splits)
next
  fix s now cid op r s'
  assume "fst (do_step s now (Has cid)) = Claimed False" "\<not> counts op" "\<not> (claims_op op \<and> op_key op = cid)" "do_step s now op = (r, s')"
  then show "fst (do_step s' now (Has cid)) = Claimed False"
    by (cases op) (auto simp: do_has_alt do_claim_alt StateGuard_alarm_def empty_obj_def split: if_splits option.splits)
qed

section \<open>Where signing out sends the browser\<close>

definition to_logged_out :: "('s, 'd) deployment \<Rightarrow> string \<Rightarrow> bool" where
  "to_logged_out dp place \<longleftrightarrow> (\<exists>cid cl uri. dp_resolve dp cid = Inr (Some cl) \<and>
     redirectUriAllowed (wb_parse (dp_web dp)) (cl_postLogoutRedirectUris cl) uri (cc_redirectUriSchemes (c_clients (dp_config dp))) \<and>
     same_place (dp_web dp) uri place)"

lemma parseLogout_returnTo:
  assumes "parseLogout dp ps = Inr lq" "lq_returnTo lq = Some uri"
  shows "wb_parse (dp_web dp) uri \<noteq> None" "same_place (dp_web dp) uri place \<Longrightarrow> to_logged_out dp place"
proof -
  from assms obtain client clientId where c: "resolved dp clientId = Inr client"
    "postLogoutRedirectAllowed (wb_parse (dp_web dp)) client uri (cc_redirectUriSchemes (c_clients (dp_config dp)))"
    by (auto simp: parseLogout_def Let_def split: if_splits option.splits)
  then obtain cl cid where "dp_resolve dp cid = Inr (Some cl)"
    "redirectUriAllowed (wb_parse (dp_web dp)) (cl_postLogoutRedirectUris cl) uri (cc_redirectUriSchemes (c_clients (dp_config dp)))"
    by (auto simp: postLogoutRedirectAllowed_def resolved_def split: option.splits if_splits)
  then show "same_place (dp_web dp) uri place \<Longrightarrow> to_logged_out dp place" "wb_parse (dp_web dp) uri \<noteq> None"
    unfolding to_logged_out_def by (blast, auto simp: redirectUriAllowed_iff)
qed

lemma fold_cookies [simp]: "sends_to (fold (\<lambda>c a. answer_cookie a c) cs a) = sends_to a"
  by (induction cs arbitrary: a) simp_all

lemma finish_logout_sends:
  assumes "fst (finish_logout dp vi opts w) = Inr a" "sends_to a = Some place" "keeps_address (dp_web dp)"
    "\<And>uri. lo_returnTo opts = Some uri \<Longrightarrow> wb_parse (dp_web dp) uri \<noteq> None"
  obtains uri where "lo_returnTo opts = Some uri" "same_place (dp_web dp) uri place"
proof -
  obtain r w1 where e: "end_sessions dp vi (ended_names dp vi opts) w = (r, w1)" by force
  from assms(1) e obtain f where f: "farewell dp opts = Inr f" "sends_to f = sends_to a"
    by (cases r; cases "farewell dp opts") (auto simp: finish_logout_def andThen_def attempt_def ret_def)
  with assms(2) obtain uri where u: "lo_returnTo opts = Some uri" and
    "located (wb_set (dp_web dp) uri (case lo_state opts of None \<Rightarrow> [] | Some s \<Rightarrow> [(''state'', s)])) = Inr f"
    by (auto simp: farewell_def str_truthy_def split: if_splits)
  with located_sends [OF assms(3)] assms(4) f(2) assms(2) that show thesis by fastforce
qed

text \<open>A confirmation is one the instance sealed itself.\<close>

definition confirmed_here :: "('s, 'd) deployment \<Rightarrow> visit \<Rightarrow> bool" where
  "confirmed_here dp vi \<longleftrightarrow>
     (\<forall>ps token payload. logout_params dp vi = Inr ps \<and> single ps ''lt'' = Inr (Some token) \<and>
        unseal (dp_pf dp) (c_secrets (dp_config dp)) LOGOUT_PURPOSE token (now_of vi) None = Inr payload \<longrightarrow>
        (\<exists>ps0 lq t. parseLogout dp ps0 = Inr lq \<and> payload = logout_payload dp lq t))"

lemma performLogout_sends:
  assumes "fst (performLogout dp vi token w) = Inr a" "sends_to a = Some place" "keeps_address (dp_web dp)"
    "\<And>payload. unseal (dp_pf dp) (c_secrets (dp_config dp)) LOGOUT_PURPOSE token (now_of vi) None = Inr payload \<Longrightarrow>
       \<exists>ps0 lq t. parseLogout dp ps0 = Inr lq \<and> payload = logout_payload dp lq t"
  shows "to_logged_out dp place"
proof (cases "unseal (dp_pf dp) (c_secrets (dp_config dp)) LOGOUT_PURPOSE token (now_of vi) None")
  case (Inr payload)
  with assms(4) obtain ps0 lq t where lq: "parseLogout dp ps0 = Inr lq" "payload = logout_payload dp lq t" by blast
  have ret: "as_str (jget payload ''returnTo'') = lq_returnTo lq"
    unfolding lq(2) by (cases "lq_returnTo lq") (simp_all add: logout_payload_def)
  from assms(1) Inr obtain client where
    "fst (finish_logout dp vi \<lparr>lo_returnTo = lq_returnTo lq, lo_state = as_str (jget payload ''state''),
            lo_clientName = map_option cl_clientName client, lo_scoped = as_str (jget payload ''scoped''),
            lo_clearAll = truthy (jget payload ''global''), lo_legal = client_legal dp client\<rparr> w) = Inr a"
    by (cases "resolved dp (as_str (jget payload ''client_id''))") (auto simp: performLogout_def andThen_def attempt_def ret)
  from this assms(2,3) show ?thesis
    by (rule finish_logout_sends) (use parseLogout_returnTo [OF lq(1)] in auto)
qed (use assms(1,2) in \<open>auto simp: performLogout_def ret_def\<close>)

lemma requested_logout_sends:
  assumes "fst (requested_logout dp vi lq w) = Inr a" "sends_to a = Some place" "keeps_address (dp_web dp)" "parseLogout dp ps = Inr lq"
  shows "to_logged_out dp place"
proof -
  obtain r s' where r: "readSession (dp_pf dp) (dp_step dp) (dp_config dp) (vi_request vi) (sessionClientFor (dp_config dp) (lq_client lq))
      (vi_clock vi) (wo_store w) = (r, s')" by force
  let ?opts = "\<lparr>lo_returnTo = lq_returnTo lq, lo_state = lq_state lq, lo_clientName = map_option cl_clientName (lq_client lq),
     lo_scoped = sessionClientFor (dp_config dp) (lq_client lq), lo_clearAll = False, lo_legal = client_legal dp (lq_client lq)\<rparr>"
  have "fst (finish_logout dp vi ?opts (w\<lparr>wo_store := s'\<rparr>)) = Inr a"
  proof (cases r)
    case (Inr ses)
    with assms(1,2) r show ?thesis
      by (cases ses) (auto simp: requested_logout_def Let_def andThen_def with_store_def ret_def split: if_splits)
  qed (use assms(1) r in \<open>simp add: requested_logout_def Let_def andThen_def with_store_def\<close>)
  from this assms(2,3) show ?thesis
    by (rule finish_logout_sends) (use parseLogout_returnTo [OF assms(4)] in auto)
qed

section \<open>Properties\<close>

text \<open>Signing out is no open redirector. An answer of the sign-out endpoint sends the browser on only to a post-logout
  address some registered client declared, up to the query, whether the request asks for it directly or a confirmation
  page carries it back.\<close>

lemma logout_returns_registered:
  assumes "keeps_address (dp_web dp)" "confirmed_here dp vi" "fst (handleLogout dp vi w) = Inr a" "sends_to a = Some place"
  shows "to_logged_out dp place"
proof (cases "logout_params dp vi")
  case (Inr ps)
  show ?thesis
  proof (cases "single ps ''lt''")
    case (Inr token)
    note here = \<open>logout_params dp vi = Inr ps\<close> Inr
    show ?thesis
    proof (cases "str_truthy token")
      case True
      then obtain tk where "token = Some tk" by (auto simp: str_truthy_def)
      with here True assms show ?thesis
        by (intro performLogout_sends [of dp vi tk w a])
          (auto simp: handleLogout_def andThen_def attempt_def confirmed_here_def)
    next
      case False
      with here assms(3) obtain lq where "parseLogout dp ps = Inr lq" "fst (requested_logout dp vi lq w) = Inr a"
        by (cases "parseLogout dp ps") (auto simp: handleLogout_def andThen_def attempt_def)
      with assms(1,4) show ?thesis by (blast intro: requested_logout_sends)
    qed
  qed (use assms(3) Inr in \<open>simp add: handleLogout_def andThen_def attempt_def\<close>)
qed (use assms(3) in \<open>simp add: handleLogout_def andThen_def attempt_def\<close>)

text \<open>C11: signing out is final. When the sign-out of a browser has answered, no copy of a session it ended is read again,
  whatever operations the store sees afterwards, up to the session's cap and after it, on the in-memory store and on
  the Durable Objects. (In the one second in which the clock equals the cap the record may already have lapsed.)\<close>

theorem logout_is_final:
  assumes "0 < vi_clock vi" "vi_clock vi \<le> t" "now_of vi < a" "nowSeconds t \<noteq> a" "a - now_of vi \<le> 366 * 86400" "sid \<noteq> []"
    and "jget copy ''sid'' = Some (JStr sid)" "jget copy ''abs'' = Some (JNum a)"
    and "list_all (\<lambda>(u, op). 0 < u \<and> u \<le> t \<and> \<not> (counts op \<and> op_key op = revocationKey sid)) ops"
  shows "(dp_step dp = mem_step \<and> mem_wf (the (wo_store w)) \<and> signed_out dp vi opts w sid a m \<longrightarrow>
      fst (check_session mem_step t (Some (snd (mem.run m ops))) copy) \<noteq> Inr (Some x)) \<and>
    (dp_step dp' = do_step \<and> signed_out dp' vi opts w' sid a d \<longrightarrow>
      fst (check_session do_step t (Some (snd (durable.run d ops))) copy) \<noteq> Inr (Some x))"
proof -
  have ops: "0 < u \<and> u \<le> t \<and> \<not> (counts op \<and> op_key op = revocationKey sid)" if "(u, op) \<in> set ops" for u op
    using assms(9) that by (auto simp: list_all_iff)
  show ?thesis
    using memory.signed_out_unreadable [OF _ _ _ assms(1-8) ops] durable_objects.signed_out_unreadable [OF _ _ _ assms(1-8) ops]
    by (intro conjI impI) (elim conjE, blast)+
qed

definition flow_leave :: logout_opts where
  "flow_leave = \<lparr>lo_returnTo = None, lo_state = None, lo_clientName = None, lo_scoped = None, lo_clearAll = False, lo_legal = no_legal\<rparr>"

definition revoked_store :: mem_store where
  "revoked_store = snd (mem_step (createMemoryStore 5) 20000 (Claim ''session-revoked:s1'' 604790))"

lemma flow_signed_out: "signed_out flow_deployment flow_visit flow_leave (flow_world\<lparr>wo_store := Some (createMemoryStore 5)\<rparr>) ''s1'' 604810 revoked_store"
proof -
  let ?s = "createMemoryStore 5"
  have has: "mem_step ?s 20000 (Has ''session-revoked:s1'') = (Claimed False, ?s)" by code_simp
  have claim: "fst (mem_step ?s 20000 (Claim ''session-revoked:s1'' 604790)) = Fresh True" by code_simp
  obtain v where verified: "jget sample_session ''emailVerified'' = Some v"
    by (simp add: sample_session_def newSession_def sample_args_def)
  have check: "check_session mem_step 20000 (Some ?s) sample_session = (Inr (Some sample_session), Some ?s)"
    using has verified by (simp add: check_session_def nowSeconds_def sample_session_fields sample_session_local revocationKey_def or_str_def)
  have read: "readSessionByName flow_platform mem_step sample_config (vi_request flow_visit) ''__Host-sag_session'' 20000 (Some ?s) =
    (Inr (Some sample_session), Some ?s)"
    by (simp add: readSessionByName_def flow_cookie flow_unseals nowSeconds_def check)
  have revoke: "revokeSession mem_step (Some sample_session) 20000 (Some ?s) = (Inr (), Some revoked_store)"
    using claim by (cases "mem_step ?s 20000 (Claim ''session-revoked:s1'' 604790)")
      (simp add: revokeSession_def sample_session_fields nowSeconds_def revocationKey_def revoked_store_def)
  have names: "ended_names flow_deployment flow_visit flow_leave = [''__Host-sag_session'']"
    by (simp add: ended_names_def flow_leave_def flow_cookie_name)
  have bye: "\<exists>a. farewell flow_deployment flow_leave = Inr a" by (simp add: farewell_def flow_leave_def str_truthy_def)
  then have "\<exists>ans w'. finish_logout flow_deployment flow_visit flow_leave (flow_world\<lparr>wo_store := Some ?s\<rparr>) = (Inr ans, w') \<and>
      wo_store w' = Some revoked_store"
    by (auto simp: finish_logout_def names andThen_def with_store_def flow_visit_get read revoke ret_def attempt_def)
  then show ?thesis
    using read names flow_unseals
    by (auto simp: signed_out_def flow_visit_get cookie_session_def flow_cookie nowSeconds_def sample_session_fields split: if_splits)
qed

theorem logout_is_final_witness:
  "\<forall>x. fst (check_session mem_step 30000 (Some (snd (mem.run revoked_store [(25000, Increment ''otp'' 60 True)]))) sample_session) \<noteq> Inr (Some x)"
proof
  fix x
  let ?w = "flow_world\<lparr>wo_store := Some (createMemoryStore 5)\<rparr>" and ?ops = "[(25000, Increment ''otp'' 60 True)]"
  have wf: "mem_wf (createMemoryStore 5)" by (simp add: mem_wf_def createMemoryStore_def)
  have all: "(dp_step flow_deployment = mem_step \<and> mem_wf (the (wo_store ?w)) \<and> signed_out flow_deployment flow_visit flow_leave ?w ''s1'' 604810 revoked_store \<longrightarrow>
      fst (check_session mem_step 30000 (Some (snd (mem.run revoked_store ?ops))) sample_session) \<noteq> Inr (Some x)) \<and>
    (dp_step dp' = do_step \<and> signed_out dp' flow_visit flow_leave w' ''s1'' 604810 d \<longrightarrow>
      fst (check_session do_step 30000 (Some (snd (durable.run d ?ops))) sample_session) \<noteq> Inr (Some x))" for dp' w' d
    by (intro logout_is_final) (simp_all add: flow_visit_get nowSeconds_def revocationKey_def sample_session_fields)
  show "fst (check_session mem_step 30000 (Some (snd (mem.run revoked_store ?ops))) sample_session) \<noteq> Inr (Some x)"
    by (rule all [THEN conjunct1, THEN mp]) (simp add: wf flow_signed_out)
qed

end
