(* ===== verification/Router.thy ===== *)
theory Router
  imports Logout Tokens Discovery
begin

text \<open>
  Routing, \<^verbatim>\<open>src/router.js\<close>, with the paths of the request context (\<^verbatim>\<open>src/context.js\<close>). One request is taken to its
  handler and every outcome, a thrown error included, becomes an answer. The text of the stylesheet and of the script
  (\<^verbatim>\<open>src/ui/css.js\<close>, \<^verbatim>\<open>src/ui/js.js\<close>) is part of the site.
\<close>

section \<open>The table\<close>

datatype handler =
    Openid_Configuration | Server_Metadata | Resource_Metadata | Jwks | Interactive endpoint | Token | Userinfo | Logging_Out | Health
  | Stylesheet | Custom_Stylesheet | Script

record route_entry =
  ro_path :: string
  ro_methods :: "string list"
  ro_handler :: handler
  ro_cors :: bool

definition entry :: "string \<Rightarrow> string list \<Rightarrow> handler \<Rightarrow> route_entry" where
  "entry p ms h = \<lparr>ro_path = p, ro_methods = ms, ro_handler = h, ro_cors = False\<rparr>"

definition ROUTES :: "route_entry list" where
  "ROUTES =
     [entry ''/.well-known/openid-configuration'' [''GET''] Openid_Configuration,
      entry ''/.well-known/oauth-authorization-server'' [''GET''] Server_Metadata,
      entry ''/.well-known/oauth-protected-resource'' [''GET''] Resource_Metadata,
      entry ''/.well-known/jwks.json'' [''GET''] Jwks,
      entry ''/jwks.json'' [''GET''] Jwks,
      entry ''/authorize'' [''GET'', ''POST''] (Interactive Start),
      entry ''/authorize/email'' [''POST''] (Interactive Email_Submit),
      entry ''/authorize/otp'' [''POST''] (Interactive Otp_Submit),
      entry ''/authorize/local-password'' [''POST''] (Interactive Local_Password),
      entry ''/authorize/local-mfa'' [''POST''] (Interactive Local_Mfa),
      entry ''/authorize/otp-request'' [''POST''] (Interactive Otp_Request),
      entry ''/authorize/resend'' [''POST''] (Interactive Resend),
      entry ''/authorize/restart'' [''POST''] (Interactive Restart),
      entry ''/authorize/continue'' [''POST''] (Interactive Continue),
      entry ''/authorize/upstream'' [''POST''] (Interactive Choose),
      entry ''/callback'' [''GET''] (Interactive Callback),
      (entry ''/token'' [''POST''] Token)\<lparr>ro_cors := True\<rparr>,
      (entry ''/userinfo'' [''GET'', ''POST''] Userinfo)\<lparr>ro_cors := True\<rparr>,
      entry ''/logout'' [''GET'', ''POST''] Logging_Out,
      entry ''/healthz'' [''GET''] Health,
      entry ''/static/sag.css'' [''GET''] Stylesheet,
      entry ''/static/custom.css'' [''GET''] Custom_Stylesheet,
      entry ''/static/sag.js'' [''GET''] Script]"

section \<open>A site and its state\<close>

record ('s, 'd, 'c) site =
  si_dp :: "('s, 'd) deployment"
  si_signers :: signer_set
  si_ops :: "'c cache_ops"
  si_generates :: "string \<Rightarrow> bool"
  si_css :: string
  si_js :: string

record ('s, 'd, 'c) site_state =
  ss_world :: "('s, 'd) world"
  ss_jwks :: "json cache"
  ss_peers :: "'c peer_state"
  ss_configured :: bool

abbreviation site_config :: "('s, 'd, 'c) site \<Rightarrow> config" where "site_config si \<equiv> dp_config (si_dp si)"

section \<open>Static assets\<close>

definition staticAsset :: "params \<Rightarrow> string \<Rightarrow> string \<Rightarrow> string \<Rightarrow> response" where
  "staticAsset query b contentType version =
     \<lparr>rs_status = 200,
      rs_headers = spread [(''content-type'', contentType),
        (''cache-control'', if map_of query ''v'' = Some version then ''public, max-age=31536000, immutable'' else ''public, max-age=300'')]
        SECURITY_HEADERS,
      rs_body = TextBody b\<rparr>"

definition CSS_TYPE :: string where "CSS_TYPE = ''text/css; charset=utf-8''"

definition handleStylesheet :: "('s, 'd, 'c) site \<Rightarrow> params \<Rightarrow> response" where
  "handleStylesheet si query = staticAsset query (si_css si) CSS_TYPE (assetVersion (si_css si))"

definition handleCustomStylesheet :: "('s, 'd, 'c) site \<Rightarrow> params \<Rightarrow> response" where
  "handleCustomStylesheet si query =
     (let snippet = ui_customCssSnippet (c_ui (site_config si))
      in if \<not> str_truthy snippet then text_response ''Not found'' 404 []
         else staticAsset query (the snippet) CSS_TYPE (assetVersion (the snippet)))"

definition handleScript :: "('s, 'd, 'c) site \<Rightarrow> params \<Rightarrow> response" where
  "handleScript si query = staticAsset query (si_js si) ''text/javascript; charset=utf-8'' (assetVersion (si_js si))"

section \<open>Dispatch\<close>

definition token_env_of :: "('s, 'd, 'c) site \<Rightarrow> visit \<Rightarrow> 'd \<Rightarrow> 's token_env" where
  "token_env_of si vi d =
     (let dp = si_dp si in
      \<lparr>te_pf = dp_pf dp, te_web = dp_web dp, te_verify = dp_verify dp, te_step = dp_step dp, te_config = dp_config dp,
       te_params = dp_params dp, te_resolve = dp_resolve dp,
       te_validate = map_option (\<lambda>B session.
         unexpected (validateSession (dp_pf dp) (wb_parse (dp_web dp)) (dp_config dp) B d (Some session))) (dp_binding dp),
       te_signers = si_signers si, te_jti = vi_token vi ''jti'', te_iv = vi_iv vi ''access''\<rparr>)"

definition in_world :: "('s, 'd, answer) act \<Rightarrow> ('s, 'd, 'c) site_state \<Rightarrow> (failure, answer) result \<times> ('s, 'd, 'c) site_state" where
  "in_world m st = (case m (ss_world st) of (r, w) \<Rightarrow> (r, st\<lparr>ss_world := w\<rparr>))"

fun dispatch :: "handler \<Rightarrow> ('s, 'd, 'c) site \<Rightarrow> visit \<Rightarrow> ('s, 'd, 'c) site_state \<Rightarrow> (failure, answer) result \<times> ('s, 'd, 'c) site_state" where
  "dispatch Openid_Configuration si vi st = (Inr (of_response (handleDiscovery (site_config si) (si_signers si))), st)"
| "dispatch Server_Metadata si vi st = (Inr (of_response (handleAuthorizationServerMetadata (site_config si) (si_signers si))), st)"
| "dispatch Resource_Metadata si vi st = (Inr (of_response (handleProtectedResourceMetadata (site_config si))), st)"
| "dispatch Jwks si vi st =
     (case handleJwks (dp_pf (si_dp si)) (si_ops si) (dp_web (si_dp si)) (site_config si) (si_signers si) (vi_query vi) (now_of vi) (ss_peers st) of
        (r, ps) \<Rightarrow> (rbind (unexpected r) (\<lambda>x. Inr (of_response x)), st\<lparr>ss_peers := ps\<rparr>))"
| "dispatch (Interactive ep) si vi st = in_world (handle ep (si_dp si) vi) st"
| "dispatch Token si vi st =
     (case handleToken (token_env_of si vi (wo_dir (ss_world st))) (vi_request vi) (vi_clock vi) (ss_jwks st, wo_store (ss_world st)) of
        (r, jwks, store) \<Rightarrow>
          (rbind r (\<lambda>x. Inr (of_response x)), st\<lparr>ss_jwks := jwks, ss_world := (ss_world st)\<lparr>wo_store := store\<rparr>\<rparr>))"
| "dispatch Userinfo si vi st =
     (rbind (handleUserinfo (dp_pf (si_dp si)) (dp_params (si_dp si)) (site_config si) (vi_request vi) (now_of vi))
        (\<lambda>x. Inr (of_response x)), st)"
| "dispatch Logging_Out si vi st = in_world (handleLogout (si_dp si) vi) st"
| "dispatch Health si vi st =
     (Inr (of_response (handleHealth (si_ops si) (si_generates si) (site_config si) (si_signers si) (now_of vi) (ss_peers st))), st)"
| "dispatch Stylesheet si vi st = (Inr (of_response (handleStylesheet si (vi_query vi))), st)"
| "dispatch Custom_Stylesheet si vi st = (Inr (of_response (handleCustomStylesheet si (vi_query vi))), st)"
| "dispatch Script si vi st = (Inr (of_response (handleScript si (vi_query vi))), st)"

section \<open>Paths\<close>

definition context_path :: "config \<Rightarrow> string \<Rightarrow> string" where
  "context_path c pathname =
     (if starts_with pathname (c_basePath c) then or_str (Some (drop (length (c_basePath c)) pathname)) ''/'' else pathname)"

definition wellKnownPath :: "config \<Rightarrow> string \<Rightarrow> string" where
  "wellKnownPath c path =
     (if c_basePath c = [] \<or> \<not> starts_with path ''/.well-known/'' then path
      else (case find (\<lambda>stem. path = stem @ c_basePath c)
              [''/.well-known/oauth-authorization-server'', ''/.well-known/oauth-protected-resource''] of
              Some stem \<Rightarrow> stem | None \<Rightarrow> path))"

definition isApiPath :: "string \<Rightarrow> bool" where
  "isApiPath path \<longleftrightarrow> path = ''/token'' \<or> path = ''/userinfo'' \<or> starts_with path ''/.well-known''"

section \<open>Finishing\<close>

text \<open>The policy of the context; a page that shows a client's logo has replaced it.\<close>

definition page_policy :: "('s, 'd, 'c) site \<Rightarrow> answer \<Rightarrow> string" where
  "page_policy si a =
     contentSecurityPolicy (wb_parse (dp_web (si_dp si))) (site_config si)
       (case an_content a of PageContent _ _ logo \<Rightarrow> safeHttpUrl (wb_parse (dp_web (si_dp si))) logo (c_devMode (site_config si)) | _ \<Rightarrow> None)"

definition withPolicy :: "('s, 'd, 'c) site \<Rightarrow> answer \<Rightarrow> answer" where
  "withPolicy si a =
     (if map_of (an_headers a) ''content-security-policy'' \<noteq> None then a
      else if \<not> starts_with (coalesce (map_of (an_headers a) ''content-type'') []) ''text/html'' then a
      else a\<lparr>an_headers := AList.update ''content-security-policy'' (page_policy si a) (an_headers a)\<rparr>)"

definition answer_cors :: "config \<Rightarrow> request \<Rightarrow> answer \<Rightarrow> answer" where
  "answer_cors c r a = a\<lparr>an_headers := rs_headers (withCors c r \<lparr>rs_status = an_status a, rs_headers = an_headers a, rs_body = NoBody\<rparr>)\<rparr>"

definition finish :: "('s, 'd, 'c) site \<Rightarrow> visit \<Rightarrow> route_entry \<Rightarrow> answer \<Rightarrow> answer" where
  "finish si vi e a = (if ro_cors e then answer_cors (site_config si) (vi_request vi) (withPolicy si a) else withPolicy si a)"

definition handleFailure :: "string \<Rightarrow> failure \<Rightarrow> answer" where
  "handleFailure path err =
     (case err of
        OAuthError e \<Rightarrow>
          if isApiPath path
          then of_response (json_response (oauth_toJSON e) (oe_status e)
            (if oe_code e = ''invalid_client'' then [(''www-authenticate'', ''Basic realm=\"token\"'')] else []))
          else error_page err
      | UnredirectableError e \<Rightarrow>
          if isApiPath path
          then of_response (json_response (oauth_toJSON e) (oe_status e)
            (if oe_code e = ''invalid_client'' then [(''www-authenticate'', ''Basic realm=\"token\"'')] else []))
          else error_page err
      | UserFacingError title detail status \<Rightarrow>
          error_page (OAuthError \<lparr>oe_code = ''invalid_request'', oe_description = detail, oe_status = status, oe_redirectable = False, oe_uri = None\<rparr>)
      | Unexpected _ \<Rightarrow>
          if isApiPath path
          then of_response (json_response (JObj [(''error'', JStr ''server_error''), (''error_description'', JStr ''An unexpected error occurred.'')]) 500 [])
          else error_page (OAuthError \<lparr>oe_code = ''server_error'', oe_description = ''Something went wrong while signing you in.'',
            oe_status = 500, oe_redirectable = False, oe_uri = None\<rparr>))"

definition plain :: "string \<Rightarrow> int \<Rightarrow> answer" where
  "plain t status = of_response (text_response t status [])"

definition routed :: "('s, 'd, 'c) site \<Rightarrow> visit \<Rightarrow> string \<Rightarrow> ('s, 'd, 'c) site_state \<Rightarrow> answer \<times> ('s, 'd, 'c) site_state" where
  "routed si vi path st =
     (let c = site_config si; rq = vi_request vi; m = rq_method rq in
      case find (\<lambda>e. ro_path e = wellKnownPath c path) ROUTES of
        None \<Rightarrow>
          (if path = ''/'' \<or> path = [] then plain ''This is a sign-in service. Start from the application you want to use.'' 404
           else plain ''Not found'' 404, st)
      | Some e \<Rightarrow>
          if m = ''OPTIONS'' \<and> ro_cors e then (of_response (corsPreflight c rq), st)
          else if m \<notin> set (ro_methods e) then (of_response (methodNotAllowed (ro_methods e)), st)
          else (case dispatch (ro_handler e) si vi st of
                  (Inr a, st') \<Rightarrow> (finish si vi e a, st')
                | (Inl err, st') \<Rightarrow> (finish si vi e (handleFailure path err), st')))"

text \<open>The context keeps its configuration between requests and checks it only when it loads it.\<close>

definition handleRequest :: "('s, 'd, 'c) site \<Rightarrow> visit \<Rightarrow> string \<Rightarrow> ('s, 'd, 'c) site_state \<Rightarrow> answer \<times> ('s, 'd, 'c) site_state" where
  "handleRequest si vi pathname st =
     (if pathname = ''/alive''
      then (if rq_method (vi_request vi) = ''GET'' then plain ''ok'' 200 else of_response (methodNotAllowed [''GET'']), st)
      else if \<not> ss_configured st \<and> c_problems (site_config si) \<noteq> []
      then (plain ''This service is not configured correctly. Check the server log.'' 500, st\<lparr>ss_configured := True\<rparr>)
      else routed si vi (context_path (site_config si) pathname) (st\<lparr>ss_configured := True\<rparr>))"

section \<open>Facts\<close>

definition is_html :: "answer \<Rightarrow> bool" where
  "is_html a \<longleftrightarrow> starts_with (coalesce (map_of (an_headers a) ''content-type'') []) ''text/html''"

definition has_policy :: "answer \<Rightarrow> bool" where
  "has_policy a \<longleftrightarrow> map_of (an_headers a) ''content-security-policy'' \<noteq> None"

lemma withPolicy_has: "is_html (withPolicy si a) \<Longrightarrow> has_policy (withPolicy si a)"
  by (cases "has_policy a"; cases "is_html a") (auto simp: withPolicy_def is_html_def has_policy_def update_conv')

lemma answer_cors_keeps: "is_html (answer_cors c r a) = is_html a" "has_policy a \<Longrightarrow> has_policy (answer_cors c r a)"
  by (auto simp: answer_cors_def withCors_def is_html_def has_policy_def update_conv' map_add_def split: option.splits)

lemma finish_has: "is_html (finish si vi e a) \<Longrightarrow> has_policy (finish si vi e a)"
  unfolding finish_def using withPolicy_has answer_cors_keeps by (metis (full_types))

lemma spread_other: "k \<notin> fst ` set extra \<Longrightarrow> map_of (spread base extra) k = map_of base k"
  unfolding spread_def by (induction extra arbitrary: base) (auto simp: update_conv')

lemmas response_headers = text_response_def methodNotAllowed_def corsPreflight_def json_response_def cachedJson_def staticAsset_def
  NO_STORE_def SECURITY_HEADERS_def

lemma plain_not_html [simp]: "\<not> is_html (plain t n)" "\<not> is_html (of_response (methodNotAllowed ms))" "\<not> is_html (of_response (corsPreflight c r))"
  by (auto simp: is_html_def plain_def of_response_def response_headers spread_def coalesce_def starts_with_def Let_def split: option.splits)

section \<open>Answers that send the browser on\<close>

lemma sends_finish [simp]: "sends_to (finish si vi e a) = sends_to a"
  by (auto simp: finish_def answer_cors_def withPolicy_def withCors_def sends_to_def update_conv' map_add_def split: option.splits content.splits)

lemma sends_of_response [simp]: "sends_to (of_response r) = map_of (rs_headers r) ''location''"
  by (simp add: sends_to_def of_response_def)

lemma json_stays [simp]: "''location'' \<notin> fst ` set hs \<Longrightarrow> map_of (rs_headers (json_response j n hs)) ''location'' = None"
  "''location'' \<notin> fst ` set hs \<Longrightarrow> map_of (rs_headers (cachedJson j t hs)) ''location'' = None"
  by (simp_all add: json_response_def cachedJson_def spread_other NO_STORE_def SECURITY_HEADERS_def)

lemma plain_stays [simp]: "sends_to (plain t n) = None" "map_of (rs_headers (text_response t n [])) ''location'' = None"
  "map_of (rs_headers (methodNotAllowed ms)) ''location'' = None" "map_of (rs_headers (corsPreflight c r)) ''location'' = None"
  "map_of (rs_headers (staticAsset q b ty v)) ''location'' = None"
  by (auto simp: plain_def response_headers spread_def Let_def split: option.splits)

lemma handleFailure_stays [simp]: "sends_to (handleFailure path err) = None"
  by (auto simp: handleFailure_def error_page_def Let_def html_answer_def sends_to_def of_response_def json_response_def
      html_response_def NO_STORE_def SECURITY_HEADERS_def spread_def split: failure.splits)

lemma token_stays:
  assumes "fst (handleToken env r clock st) = Inr x"
  shows "map_of (rs_headers x) ''location'' = None"
  using assms by (auto simp: handleToken_def mint_tokens_def Let_def split: sum.splits prod.splits)

lemma userinfo_stays:
  assumes "handleUserinfo pf params c r now = Inr x"
  shows "map_of (rs_headers x) ''location'' = None"
  using assms by (auto simp: handleUserinfo_def unauthorised_def Let_def split: if_splits option.splits)

lemma jwks_stays:
  assumes "fst (handleJwks pf ops w c ss query now ps) = Inr x"
  shows "map_of (rs_headers x) ''location'' = None"
  using assms by (auto simp: handleJwks_def Let_def split: if_splits sum.splits prod.splits)

lemma dispatch_stays:
  assumes "fst (dispatch h si vi st) = Inr a" "\<And>ep. h \<noteq> Interactive ep" "h \<noteq> Logging_Out"
  shows "sends_to a = None"
proof (cases h)
  case Jwks
  obtain r ps where r: "handleJwks (dp_pf (si_dp si)) (si_ops si) (dp_web (si_dp si)) (site_config si) (si_signers si) (vi_query vi) (now_of vi)
      (ss_peers st) = (r, ps)" by force
  with jwks_stays [of "dp_pf (si_dp si)" "si_ops si" "dp_web (si_dp si)" "site_config si" "si_signers si" "vi_query vi" "now_of vi" "ss_peers st"]
    Jwks assms(1) show ?thesis by (cases r) (auto simp: unexpected_def)
next
  case Token
  obtain r j store where r: "handleToken (token_env_of si vi (wo_dir (ss_world st))) (vi_request vi) (vi_clock vi)
      (ss_jwks st, wo_store (ss_world st)) = (r, j, store)" by (metis surj_pair)
  with token_stays [of "token_env_of si vi (wo_dir (ss_world st))" "vi_request vi" "vi_clock vi" "(ss_jwks st, wo_store (ss_world st))"]
    Token assms(1) show ?thesis by (cases r) auto
next
  case Userinfo
  with assms(1) userinfo_stays show ?thesis by fastforce
qed (use assms in \<open>auto simp: handleDiscovery_def handleAuthorizationServerMetadata_def handleProtectedResourceMetadata_def handleHealth_def
  Let_def handleStylesheet_def handleCustomStylesheet_def handleScript_def split: prod.splits if_splits\<close>)

section \<open>Signing out touches only the store\<close>

definition store_only :: "('s, 'd, 'a) act \<Rightarrow> bool" where
  "store_only m \<longleftrightarrow> (\<forall>w s. (snd (m w))\<lparr>wo_store := s\<rparr> = w\<lparr>wo_store := s\<rparr>)"

lemma store_only_basic [intro]:
  "store_only (ret x)" "store_only (attempt r)" "store_only (with_store f)"
  by (auto simp: store_only_def ret_def attempt_def with_store_def Let_def split: prod.splits)

lemma store_only_andThen [intro]:
  assumes "store_only m" "\<And>x. store_only (k x)"
  shows "store_only (andThen m k)"
  unfolding store_only_def
proof (intro allI)
  fix w s
  obtain r w' where r: "m w = (r, w')" by force
  with assms(1) have "w'\<lparr>wo_store := s\<rparr> = w\<lparr>wo_store := s\<rparr>" unfolding store_only_def by (metis snd_conv)
  with r assms(2) show "(snd (andThen m k w))\<lparr>wo_store := s\<rparr> = w\<lparr>wo_store := s\<rparr>"
    by (cases r) (simp_all add: andThen_def store_only_def)
qed

lemma store_only_end_sessions [intro]: "store_only (end_sessions dp vi names)"
  by (induction names) auto

lemma store_only_finish [intro]: "store_only (finish_logout dp vi opts)"
  unfolding finish_logout_def by auto

lemma store_only_requested [intro]: "store_only (requested_logout dp vi lq)"
  unfolding requested_logout_def Let_def by (intro store_only_andThen) (auto split: option.split)

lemma store_only_logout: "store_only (handleLogout dp vi)"
  unfolding handleLogout_def
proof (intro store_only_andThen store_only_basic)
  show "store_only (if str_truthy token then performLogout dp vi (the token) else andThen (attempt (parseLogout dp ps)) (requested_logout dp vi))" for token ps
    by (auto simp: performLogout_def split: sum.split)
qed

section \<open>One request\<close>

definition routed_to :: "('s, 'd, 'c) site \<Rightarrow> visit \<Rightarrow> string \<Rightarrow> route_entry \<Rightarrow> bool" where
  "routed_to si vi pathname e \<longleftrightarrow> e \<in> set ROUTES \<and> ro_path e = wellKnownPath (site_config si) (context_path (site_config si) pathname) \<and>
     rq_method (vi_request vi) \<in> set (ro_methods e)"

lemma handleRequest_cases:
  obtains (inert) a where "fst (handleRequest si vi p st) = a" "\<not> is_html a" "sends_to a = None" "ss_world (snd (handleRequest si vi p st)) = ss_world st"
  | (served) e r st' where "routed_to si vi p e" "dispatch (ro_handler e) si vi (st\<lparr>ss_configured := True\<rparr>) = (r, st')"
      "snd (handleRequest si vi p st) = st'"
      "fst (handleRequest si vi p st) = finish si vi e (case r of Inr a \<Rightarrow> a | Inl err \<Rightarrow> handleFailure (context_path (site_config si) p) err)"
proof (cases "p = ''/alive'' \<or> \<not> ss_configured st \<and> c_problems (site_config si) \<noteq> []")
  case True
  then show thesis by (intro inert) (auto simp: handleRequest_def split: if_splits)
next
  case False
  let ?path = "context_path (site_config si) p" and ?st = "st\<lparr>ss_configured := True\<rparr>"
  have h: "handleRequest si vi p st = routed si vi ?path ?st" using False by (auto simp: handleRequest_def)
  show thesis
  proof (cases "find (\<lambda>e. ro_path e = wellKnownPath (site_config si) ?path) ROUTES")
    case None
    then show thesis by (intro inert) (auto simp: h routed_def Let_def split: if_splits)
  next
    case (Some e)
    then have e: "e \<in> set ROUTES" "ro_path e = wellKnownPath (site_config si) ?path" by (auto simp: find_Some_iff)
    show thesis
    proof (cases "rq_method (vi_request vi) = ''OPTIONS'' \<and> ro_cors e \<or> rq_method (vi_request vi) \<notin> set (ro_methods e)")
      case True
      then show thesis by (intro inert) (auto simp: h routed_def Let_def Some split: if_splits)
    next
      case False
      obtain r st' where d: "dispatch (ro_handler e) si vi ?st = (r, st')" by force
      with e False show thesis
        by (intro served [of e r st']) (auto simp: h routed_def Let_def Some routed_to_def split: sum.split)
    qed
  qed
qed

lemma dispatch_world:
  assumes "dispatch h si vi st = (r, st')"
  obtains (visited) ep where "h = Interactive ep" "ss_world st' = snd (handle ep (si_dp si) vi (ss_world st))"
      "fst (handle ep (si_dp si) vi (ss_world st)) = r"
  | (stored) s where "ss_world st' = (ss_world st)\<lparr>wo_store := s\<rparr>" "h = Logging_Out \<Longrightarrow> fst (handleLogout (si_dp si) vi (ss_world st)) = r"
      "\<And>ep. h \<noteq> Interactive ep"
proof (cases "\<exists>ep. h = Interactive ep")
  case True
  with assms that(1) show thesis by (auto simp: in_world_def split: prod.splits)
next
  case False
  have "\<exists>s. ss_world st' = (ss_world st)\<lparr>wo_store := s\<rparr>"
  proof (cases h)
    case Logging_Out
    obtain r1 w1 where h1: "handleLogout (si_dp si) vi (ss_world st) = (r1, w1)" by force
    with store_only_logout [of "si_dp si" vi] have "w1\<lparr>wo_store := wo_store w1\<rparr> = (ss_world st)\<lparr>wo_store := wo_store w1\<rparr>"
      unfolding store_only_def by (metis snd_conv)
    with h1 assms Logging_Out show ?thesis by (auto simp: in_world_def)
  qed (use False assms in \<open>auto split: prod.splits intro: exI [of _ "wo_store (ss_world st)"]\<close>)
  then obtain s where s: "ss_world st' = (ss_world st)\<lparr>wo_store := s\<rparr>" by blast
  from s show thesis by (rule stored) (use False assms in \<open>auto simp: in_world_def split: prod.splits\<close>)
qed

section \<open>Runs of the server\<close>

text \<open>What a browser presents as sealed here was sealed here: the transactions, the states and the codes of the flow, and
  the confirmation of a sign-out.\<close>

inductive serving :: "('s, 'd, 'c) site \<Rightarrow> ('s, 'd, 'c) site_state \<Rightarrow> bool" for si where
  boot: "wo_sent (ss_world st) = [] \<Longrightarrow> wo_sealed (ss_world st) = [] \<Longrightarrow> wo_states (ss_world st) = [] \<Longrightarrow> wo_codes (ss_world st) = [] \<Longrightarrow>
    serving si st"
| request: "serving si st \<Longrightarrow> authentic (si_dp si) vi (ss_world st) \<Longrightarrow> serving si (snd (handleRequest si vi p st))"

lemma flow_stored: "flow dp w \<Longrightarrow> flow dp (w\<lparr>wo_store := s\<rparr>)"
  using flow.elsewhere [where w = w and s = s and d = "wo_dir w" and u = "wo_upstream w"] by simp

lemma serving_flow: "serving si st \<Longrightarrow> flow (si_dp si) (ss_world st)"
proof (induction rule: serving.induct)
  case (request st vi p)
  show ?case
  proof (cases rule: handleRequest_cases [of si vi p st])
    case (served e r st')
    from served(2) show ?thesis
      by (rule dispatch_world) (use request served(3) flow.visit flow_stored in auto)
  qed (use request in simp)
qed (simp add: flow.start)

section \<open>Properties\<close>

text \<open>C1: a code is worth what was asked for. However the server is used, each authorisation code was minted from a
  transaction that still says exactly what an accepted request asked for, and from a session whose authentication context
  meets the request's demand; the one exception is an address this deployment never mails, for which the code screen is a
  decoy.\<close>

theorem server_codes_sound:
  assumes "serving si st" "keeps_address (dp_web (si_dp si))" "(tx, session) \<in> set (wo_codes (ss_world st))"
  shows "(\<exists>client req i t. accepted_request (si_dp si) client req \<and> same_request (newTransaction (site_config si) req i t) tx) \<and>
    (satisfies (session_acr session) (tx_acrs tx) \<or>
     session_acr session = ACR_OTP \<and> list_all (\<lambda>m. Some (ml_to m) \<noteq> tx_email tx) (wo_sent (ss_world st)))"
  using every_code_answers_its_request [OF serving_flow [OF assms(1)] assms(2,3)] .


text \<open>The one answer to an unexpected failure.\<close>

definition server_error_answer :: "string \<Rightarrow> answer" where
  "server_error_answer path =
     (if isApiPath path
      then of_response (json_response (JObj [(''error'', JStr ''server_error''), (''error_description'', JStr ''An unexpected error occurred.'')]) 500 [])
      else error_page (OAuthError \<lparr>oe_code = ''server_error'', oe_description = ''Something went wrong while signing you in.'',
        oe_status = 500, oe_redirectable = False, oe_uri = None\<rparr>))"

lemma find_distinct: "distinct (map f xs) \<Longrightarrow> x \<in> set xs \<Longrightarrow> find (\<lambda>y. f y = f x) xs = Some x"
  by (induction xs) auto

lemma find_route: "e \<in> set ROUTES \<Longrightarrow> find (\<lambda>x. ro_path x = ro_path e) ROUTES = Some e"
  by (rule find_distinct) (simp_all add: ROUTES_def entry_def)

lemma no_options_route: "e \<in> set ROUTES \<Longrightarrow> ''OPTIONS'' \<notin> set (ro_methods e)"
proof -
  have "list_all (\<lambda>e. ''OPTIONS'' \<notin> set (ro_methods e)) ROUTES" by (simp add: ROUTES_def entry_def)
  then show "e \<in> set ROUTES \<Longrightarrow> ?thesis" by (simp add: list_all_iff)
qed

lemma routed_dispatch:
  assumes "routed_to si vi p e" "p \<noteq> ''/alive''" "ss_configured st \<or> c_problems (site_config si) = []"
    and "dispatch (ro_handler e) si vi (st\<lparr>ss_configured := True\<rparr>) = (Inl err, st')"
  shows "handleRequest si vi p st = (finish si vi e (handleFailure (context_path (site_config si) p) err), st')"
proof -
  let ?path = "context_path (site_config si) p"
  from assms(1) have e: "e \<in> set ROUTES" "ro_path e = wellKnownPath (site_config si) ?path" "rq_method (vi_request vi) \<in> set (ro_methods e)"
    by (simp_all add: routed_to_def)
  then have "rq_method (vi_request vi) \<noteq> ''OPTIONS''" using no_options_route by metis
  then show ?thesis
    using assms(2-4) e find_route [OF e(1)] by (auto simp: handleRequest_def routed_def)
qed

text \<open>C14: every page the server answers with, an error page included, carries a content security policy; a request changes
  the state of the flow only through an entry of the routing table that names its method; and where the handler of a route ends in
  an unexpected failure, the whole answer of the server is one fixed answer for the path, whatever the message of the failure. (A failure to
  identify a client is not unexpected: \<^verbatim>\<open>oauth/request.js\<close> turns it, with its message, into a refusal.)\<close>

theorem router_contract:
  "(is_html (fst (handleRequest si vi p st)) \<longrightarrow> has_policy (fst (handleRequest si vi p st))) \<and>
   (ss_world (snd (handleRequest si vi p st)) \<noteq> ss_world st \<longrightarrow> (\<exists>e. routed_to si vi p e)) \<and>
   (\<forall>e m st'. routed_to si vi p e \<and> p \<noteq> ''/alive'' \<and> (ss_configured st \<or> c_problems (site_config si) = []) \<and>
      dispatch (ro_handler e) si vi (st\<lparr>ss_configured := True\<rparr>) = (Inl (Unexpected m), st') \<longrightarrow>
      handleRequest si vi p st = (finish si vi e (server_error_answer (context_path (site_config si) p)), st'))"
proof (intro conjI allI impI)
  show "is_html (fst (handleRequest si vi p st)) \<Longrightarrow> has_policy (fst (handleRequest si vi p st))"
    by (cases rule: handleRequest_cases [of si vi p st]) (simp_all add: finish_has)
  show "ss_world (snd (handleRequest si vi p st)) \<noteq> ss_world st \<Longrightarrow> \<exists>e. routed_to si vi p e"
    by (cases rule: handleRequest_cases [of si vi p st]; simp; blast?)
next
  fix e m st'
  assume "routed_to si vi p e \<and> p \<noteq> ''/alive'' \<and> (ss_configured st \<or> c_problems (site_config si) = []) \<and>
    dispatch (ro_handler e) si vi (st\<lparr>ss_configured := True\<rparr>) = (Inl (Unexpected m), st')"
  then show "handleRequest si vi p st = (finish si vi e (server_error_answer (context_path (site_config si) p)), st')"
    using routed_dispatch [of si vi p e st "Unexpected m" st'] by (simp add: handleFailure_def server_error_answer_def)
qed

text \<open>The context stores the configuration before it checks it, so an unusable configuration is refused on the first
  request and served on every later one.\<close>

lemma unusable_configuration_served:
  assumes "c_problems (site_config si) \<noteq> []" "\<not> ss_configured st" "p \<noteq> ''/alive''" "p' \<noteq> ''/alive''"
  shows "an_status (fst (handleRequest si vi p st)) = 500"
    "handleRequest si vi' p' (snd (handleRequest si vi p st)) = routed si vi' (context_path (site_config si) p') (st\<lparr>ss_configured := True\<rparr>)"
  using assms by (simp_all add: handleRequest_def plain_def of_response_def text_response_def)

section \<open>A concrete site\<close>

definition sample_site :: "(mem_store, directory, (string \<times> peer_entry) list) site" where
  "sample_site = \<lparr>si_dp = flow_deployment, si_signers = te_signers sample_env, si_ops = createMemoryCache, si_generates = \<lambda>_. True,
     si_css = ''body{}'', si_js = ''0''\<rparr>"

definition sample_state :: "(mem_store, directory, (string \<times> peer_entry) list) site_state" where
  "sample_state = \<lparr>ss_world = flow_world, ss_jwks = [], ss_peers = no_peers, ss_configured = False\<rparr>"

lemma sample_site_simps [simp]: "si_dp sample_site = flow_deployment" "ss_world sample_state = flow_world"
  by (simp_all add: sample_site_def sample_state_def)

lemma sample_boot: "serving sample_site sample_state"
  by (rule serving.boot) (simp_all add: flow_world_def)

lemma sample_paths: "c_problems sample_config = []" "context_path sample_config ''/authorize'' = ''/authorize''"
  "context_path sample_config ''/logout'' = ''/logout''" "context_path sample_config ''/jwks.json'' = ''/jwks.json''" "wellKnownPath sample_config p = p"
  by (simp_all add: context_path_def wellKnownPath_def or_str_def starts_with_def) (simp_all add: sample_config_def)

lemma sample_routes: "find (\<lambda>e. ro_path e = ''/authorize'') ROUTES = Some (entry ''/authorize'' [''GET'', ''POST''] (Interactive Start))"
  "find (\<lambda>e. ro_path e = ''/logout'') ROUTES = Some (entry ''/logout'' [''GET'', ''POST''] Logging_Out)"
  by (simp_all add: ROUTES_def entry_def)

lemma sample_start:
  assumes "handle Start flow_deployment flow_visit flow_world = (Inr a, w)"
  shows "sends_to (fst (handleRequest sample_site flow_visit ''/authorize'' sample_state)) = sends_to a"
    "ss_world (snd (handleRequest sample_site flow_visit ''/authorize'' sample_state)) = w"
  using assms by (simp_all add: handleRequest_def sample_paths routed_def sample_routes entry_def in_world_def flow_visit_get)

theorem server_codes_sound_witness:
  "\<exists>st tx session. serving sample_site st \<and> (tx, session) \<in> set (wo_codes (ss_world st)) \<and>
     (\<exists>client req i t. accepted_request flow_deployment client req \<and> same_request (newTransaction sample_config req i t) tx)"
proof -
  let ?st = "snd (handleRequest sample_site flow_visit ''/authorize'' sample_state)"
  obtain a tx ses where a: "fst (handle Start flow_deployment flow_visit flow_world) = Inr a"
    and tx: "(tx, ses) \<in> set (wo_codes (snd (handle Start flow_deployment flow_visit flow_world)))"
    by (rule flow_sample) auto
  obtain w where w: "handle Start flow_deployment flow_visit flow_world = (Inr a, w)" using a by (metis prod.collapse)
  have s: "serving sample_site ?st" using serving.request [OF sample_boot] flow_sample_run(2) by simp
  from tx have c: "(tx, ses) \<in> set (wo_codes (ss_world ?st))" unfolding sample_start(2) [OF w] w by simp
  have "\<exists>client req i t. accepted_request flow_deployment client req \<and> same_request (newTransaction sample_config req i t) tx"
    using server_codes_sound [OF s _ c] flow_sample_run(1) by simp
  with s c show ?thesis by blast
qed


text \<open>A site whose signing key cannot be read.\<close>

definition keyless_site :: "(mem_store, directory, (string \<times> peer_entry) list) site" where
  "keyless_site = sample_site\<lparr>si_signers := (te_signers sample_env)\<lparr>st_primary :=
     (st_primary (te_signers sample_env))\<lparr>sn_keys := Inl ''cannot reach the key at 10.0.0.7''\<rparr>\<rparr>\<rparr>"

theorem router_contract_witness:
  "(\<exists>a. fst (handleRequest sample_site (flow_visit\<lparr>vi_query := [(''lt'', ''a''), (''lt'', ''b'')]\<rparr>) ''/logout'' sample_state) = a \<and> is_html a \<and> has_policy a) \<and>
   fst (handleRequest keyless_site flow_visit ''/jwks.json'' sample_state) =
     finish keyless_site flow_visit (entry ''/jwks.json'' [''GET''] Jwks) (server_error_answer ''/jwks.json'')"
proof
  let ?vi = "flow_visit\<lparr>vi_query := [(''lt'', ''a''), (''lt'', ''b'')]\<rparr>"
  have get: "rq_method (vi_request flow_visit) = ''GET''" by (rule flow_visit_get)
  have "\<exists>e. handleLogout flow_deployment ?vi w = (Inl (OAuthError e), w)" for w
    by (simp add: handleLogout_def andThen_def attempt_def logout_params_def get single_def getAll_def invalidRequest_def oauthError_def)
  then obtain e where e: "handleLogout flow_deployment ?vi flow_world = (Inl (OAuthError e), flow_world)" by blast
  have "is_html (fst (handleRequest sample_site ?vi ''/logout'' sample_state))"
    by (simp add: handleRequest_def sample_paths routed_def sample_routes entry_def in_world_def get e finish_def handleFailure_def
      isApiPath_def starts_with_def) (simp add: withPolicy_def is_html_def error_page_def html_answer_def html_response_def Let_def
      spread_def NO_STORE_def SECURITY_HEADERS_def starts_with_def coalesce_def of_response_def)
  with router_contract [of sample_site ?vi "''/logout''" sample_state]
  show "\<exists>a. fst (handleRequest sample_site ?vi ''/logout'' sample_state) = a \<and> is_html a \<and> has_policy a" by blast
next
  let ?e = "entry ''/jwks.json'' [''GET''] Jwks"
  have keys: "set_jwks pf (si_signers keyless_site) = Inl ''cannot reach the key at 10.0.0.7''" for pf
    by (simp add: keyless_site_def set_jwks_def rbind_def ordered_def)
  then have "dispatch (ro_handler ?e) keyless_site flow_visit (sample_state\<lparr>ss_configured := True\<rparr>) =
      (Inl (Unexpected ''cannot reach the key at 10.0.0.7''), sample_state\<lparr>ss_configured := True\<rparr>)"
    by (simp add: entry_def handleJwks_def unexpected_def rbind_def sample_state_def)
  moreover have "routed_to keyless_site flow_visit ''/jwks.json'' ?e" "context_path (site_config keyless_site) ''/jwks.json'' = ''/jwks.json''"
    "c_problems (site_config keyless_site) = []"
    using sample_paths flow_visit_get
    by (simp_all add: routed_to_def keyless_site_def ROUTES_def entry_def sample_site_def)
  ultimately show "fst (handleRequest keyless_site flow_visit ''/jwks.json'' sample_state) =
      finish keyless_site flow_visit ?e (server_error_answer ''/jwks.json'')"
    using router_contract [of keyless_site flow_visit "''/jwks.json''" sample_state] by simp
qed

end
