(* ===== verification/Environment.thy ===== *)
theory Environment
  imports Jose Acr Profile Numbers
begin

text \<open>
  Reading the environment, the first half of \<^verbatim>\<open>src/config.js\<close>: the readers of single variables, the messages that loading
  can report, the issuer, the signing keys, the upstream providers, the relying parties, the peers and the browser
  origins. The environment is the list of its string-valued variables in the order of \<open>Object.keys\<close>. The URL parser, the
  JSON parser (with the message of its error) and the collation of \<open>localeCompare\<close> are parameters.
\<close>

type_synonym env = "(string \<times> string) list"

record reader =
  rd_url :: url_parser
  rd_json :: "string \<Rightarrow> (string, json) result"
  rd_before :: "string \<Rightarrow> string \<Rightarrow> bool"

datatype load_error = ConfigError string | InvalidUrl string

section \<open>Development hosts\<close>

definition DEV_HOSTNAMES :: "string list" where
  "DEV_HOSTNAMES = [''localhost'', ''127.0.0.1'', ''::1'', ''0.0.0.0'', ''host.docker.internal'']"

definition DEV_SUFFIXES :: "string list" where
  "DEV_SUFFIXES = [''.localhost'', ''.local'', ''.linux.test'']"

definition isDevHostname :: "string \<Rightarrow> bool" where
  "isDevHostname hostname \<longleftrightarrow> hostname \<in> set DEV_HOSTNAMES \<or> list_ex (ends_with hostname) DEV_SUFFIXES"

section \<open>Primitive readers\<close>

definition env_str :: "env \<Rightarrow> string \<Rightarrow> string option" where
  "env_str env key = (case map_of env key of None \<Rightarrow> None | Some v \<Rightarrow> if trim v = [] then None else Some (trim v))"

definition env_or :: "env \<Rightarrow> string \<Rightarrow> string option \<Rightarrow> string option" where
  "env_or env key fallback = (case env_str env key of None \<Rightarrow> fallback | v \<Rightarrow> v)"

definition env_text :: "env \<Rightarrow> string \<Rightarrow> string \<Rightarrow> string" where
  "env_text env key fallback = coalesce (env_str env key) fallback"

definition YES_WORDS :: "string list" where "YES_WORDS = [''1'', ''true'', ''yes'', ''on'', ''enabled'']"
definition NO_WORDS :: "string list" where "NO_WORDS = [''0'', ''false'', ''no'', ''off'', ''disabled'']"

definition in_quotes :: "string \<Rightarrow> string" where "in_quotes v = CHR 0x22 # v @ [CHR 0x22]"

definition env_bool :: "env \<Rightarrow> string \<Rightarrow> bool \<Rightarrow> (load_error, bool) result" where
  "env_bool env key fallback =
     (case env_str env key of None \<Rightarrow> Inr fallback
      | Some v \<Rightarrow>
          if to_lower v \<in> set YES_WORDS then Inr True
          else if to_lower v \<in> set NO_WORDS then Inr False
          else Inl (ConfigError (key @ '' must be a boolean, got '' @ in_quotes v)))"

definition env_int :: "env \<Rightarrow> string \<Rightarrow> int \<Rightarrow> int option \<Rightarrow> int option \<Rightarrow> (load_error, int) result" where
  "env_int env key fallback lo hi =
     (case env_str env key of None \<Rightarrow> Inr fallback
      | Some v \<Rightarrow>
          (case js_integer v of None \<Rightarrow> Inl (ConfigError (key @ '' must be a whole number, got '' @ in_quotes v))
           | Some n \<Rightarrow>
               if lo \<noteq> None \<and> n < the lo then Inl (ConfigError (key @ '' must be at least '' @ show_int (the lo)))
               else if hi \<noteq> None \<and> n > the hi then Inl (ConfigError (key @ '' must be at most '' @ show_int (the hi)))
               else Inr n))"

definition env_range :: "env \<Rightarrow> string \<Rightarrow> int \<Rightarrow> int \<Rightarrow> int \<Rightarrow> (load_error, int) result" where
  "env_range env key fallback lo hi = env_int env key fallback (Some lo) (Some hi)"

definition list_sep :: "char \<Rightarrow> bool" where "list_sep c \<longleftrightarrow> c = CHR '','' \<or> is_space c"

definition env_list :: "env \<Rightarrow> string \<Rightarrow> string list \<Rightarrow> string list" where
  "env_list env key fallback = (case env_str env key of None \<Rightarrow> fallback | Some v \<Rightarrow> Prelude.fields list_sep v)"

definition jsonValue :: "reader \<Rightarrow> env \<Rightarrow> string \<Rightarrow> json option \<Rightarrow> (load_error, json option) result" where
  "jsonValue rd env key fallback =
     (case env_str env key of None \<Rightarrow> Inr fallback
      | Some v \<Rightarrow> (case rd_json rd v of Inr j \<Rightarrow> Inr (Some j)
                  | Inl cause \<Rightarrow> Inl (ConfigError (key @ '' must be valid JSON: '' @ cause))))"

definition oneOf :: "env \<Rightarrow> string \<Rightarrow> string list \<Rightarrow> string \<Rightarrow> (load_error, string) result" where
  "oneOf env key choices fallback =
     (let v = env_text env key fallback
      in if v \<in> set choices then Inr v
         else Inl (ConfigError (key @ '' must be one of '' @ join '', '' choices @ '', got '' @ in_quotes v)))"

text \<open>\<open>value.replace(/:$/, '')\<close>, the scheme syntax, and the first value that fails a test.\<close>

definition chop :: "char \<Rightarrow> string \<Rightarrow> string" where
  "chop c s = (if s \<noteq> [] \<and> last s = c then butlast s else s)"

definition uri_scheme :: "string \<Rightarrow> bool" where
  "uri_scheme s \<longleftrightarrow> (case s of [] \<Rightarrow> False
     | c # cs \<Rightarrow> is_lower c \<and> list_all (\<lambda>x. is_lower x \<or> is_digit x \<or> x \<in> set ''+.-'') cs)"

definition schemes :: "env \<Rightarrow> string \<Rightarrow> (load_error, string list) result" where
  "schemes env key =
     (let values = map (\<lambda>v. chop (CHR '':'') (to_lower v)) (env_list env key [''*''])
      in case find (\<lambda>v. v \<noteq> ''*'' \<and> \<not> uri_scheme v) values of
           Some v \<Rightarrow> Inl (ConfigError (key @ '' contains an invalid URI scheme: '' @ in_quotes v))
         | None \<Rightarrow> Inr (js_uniq values))"

definition domain_label :: "string \<Rightarrow> bool" where
  "domain_label l \<longleftrightarrow> l \<noteq> [] \<and> length l \<le> 63 \<and> list_all (\<lambda>c. is_lower c \<or> is_digit c \<or> c = CHR ''-'') l \<and>
     hd l \<noteq> CHR ''-'' \<and> last l \<noteq> CHR ''-''"

definition identity_domain :: "string \<Rightarrow> bool" where
  "identity_domain value \<longleftrightarrow> value = ''*'' \<or>
     (let d = (if starts_with value ''*.'' then drop 2 value else value); labels = split_on (CHR ''.'') d
      in d \<noteq> [] \<and> length d \<le> 253 \<and> 2 \<le> length labels \<and> list_all domain_label labels)"

definition identityDomains :: "env \<Rightarrow> string \<Rightarrow> (load_error, string list) result" where
  "identityDomains env key =
     (let values = map to_lower (env_list env key [])
      in case find (\<lambda>v. \<not> identity_domain v) values of
           Some v \<Rightarrow> Inl (ConfigError (key @ '' contains an invalid domain: '' @ in_quotes v @ ''. Use example.com, *.example.com, or *.''))
         | None \<Rightarrow> Inr (js_uniq values))"

definition aliased :: "env \<Rightarrow> string list \<Rightarrow> string" where
  "aliased env names = (case find (\<lambda>n. env_str env n \<noteq> None) names of Some n \<Rightarrow> n | None \<Rightarrow> hd names)"

definition is_web :: "url \<Rightarrow> bool" where
  "is_web u \<longleftrightarrow> u_protocol u = ''https:'' \<or> u_protocol u = ''http:''"

definition base_address :: "url \<Rightarrow> string" where
  "base_address u = strip_trailing (CHR ''/'') (u_origin u @ u_pathname u)"

definition awsEndpoint :: "reader \<Rightarrow> env \<Rightarrow> string \<Rightarrow> (load_error, string option) result" where
  "awsEndpoint rd env service =
     (let key = aliased env [''AWS_ENDPOINT_URL_'' @ service, ''AWS_ENDPOINT_URL''] in
      case env_str env key of None \<Rightarrow> Inr None
      | Some raw \<Rightarrow>
          (case rd_url rd raw of None \<Rightarrow> Inl (ConfigError (key @ '' must be an absolute URL, got '' @ in_quotes raw))
           | Some u \<Rightarrow> if is_web u then Inr (Some (base_address u))
               else Inl (ConfigError (key @ '' must be an http or https URL, got '' @ in_quotes raw))))"

definition SEALED_MARKERS :: "string list" where
  "SEALED_MARKERS = [''aws:kms:'', ''aws:secretsmanager:'', ''aws:ssm:'']"

definition assertNothingSealed :: "env \<Rightarrow> (load_error, unit) result" where
  "assertNothingSealed env =
     (case find (\<lambda>(key, value). list_ex (starts_with value) SEALED_MARKERS) env of
        None \<Rightarrow> Inr ()
      | Some (key, value) \<Rightarrow> Inl (ConfigError (key @ '' is still sealed. Configuration must be built from an environment already unsealed ''
          @ ''by unsealEnv() (src/keys/sealedEnv.js), not passed to loadConfig directly.'')))"

definition algEnvSuffix :: "string \<Rightarrow> string" where
  "algEnvSuffix alg = map (\<lambda>c. if c = CHR ''-'' then CHR ''_'' else c) (to_upper alg)"

section \<open>Issuer\<close>

definition resolveIssuer :: "reader \<Rightarrow> env \<Rightarrow> string option \<Rightarrow> (load_error, string \<times> bool) result" where
  "resolveIssuer rd env requestUrl =
     (case env_str env ''SAG_ISSUER'' of
        Some explicit \<Rightarrow>
          (case rd_url rd explicit of
             None \<Rightarrow> Inl (ConfigError (''SAG_ISSUER must be an absolute URL, got '' @ in_quotes explicit))
           | Some u \<Rightarrow>
               if \<not> is_web u then Inl (ConfigError (''SAG_ISSUER must be an http or https URL, got '' @ in_quotes explicit))
               else if u_hostname u = [] then Inl (ConfigError (''SAG_ISSUER must name a host, got '' @ in_quotes explicit))
               else if u_username u \<noteq> [] \<or> u_password u \<noteq> []
               then Inl (ConfigError ''SAG_ISSUER must not contain a username or password'')
               else if u_search u \<noteq> [] \<or> u_hash u \<noteq> []
               then Inl (ConfigError ''SAG_ISSUER must not contain a query or fragment'')
               else Inr (base_address u, False))
      | None \<Rightarrow>
          (if \<not> str_truthy requestUrl
           then Inl (ConfigError ''SAG_ISSUER is not set and no request URL is available to derive it from'')
           else (case rd_url rd (the requestUrl) of
                   None \<Rightarrow> Inl (InvalidUrl (the requestUrl))
                 | Some u \<Rightarrow> if is_web u then Inr (u_origin u, True)
                     else Inl (ConfigError ''The request URL used to derive SAG_ISSUER must be http or https''))))"

section \<open>What loading reports\<close>

text \<open>One constructor per message that is pushed to \<open>problems\<close> (which stop the deployment), to \<open>warnings\<close> (which
  anybody can read at \<open>/healthz\<close>) and to \<open>internalWarnings\<close> (which only the operator sees), with its text.\<close>

datatype problem =
    Http_Issuer | Issuer_Derived | Secret_Missing | Secret_Short | Previous_Without_Current | Previous_Short | No_Signing_Key
  | No_Hsm_Secret | No_Kms_Key | No_Kms_Region | Console_Email | Nobody_Can_Sign_In | Local_Without_Domains
  | Local_Without_Store | Local_Without_Salt | No_Salt | Short_Salt_Local | Plain_Http_Endpoint string string
  | Session_Cap_Short | Css_Not_Https

datatype warning =
    Dev_Secret | Dev_Client | Dev_Salt

datatype remark =
    Upstream_Unknown_Field string string | Upstream_Name string string | Upstream_No_Client_Id string
  | Upstream_No_Domain string string | Upstream_Empty_Client_Id string | Upstream_Bad_Domain string string
  | Client_Auth_Method string string | Client_Bool string string string | Client_Logout_Confirm string string
  | Client_Session_Scope string string | Client_No_Id string | Client_No_Redirect_Uris string | Client_Bad_Jwks string string
  | Peer_Not_Url string | Peer_Not_Https string | Peer_Own_Origin string | Cors_Not_Url string | Cors_Not_Https string
  | Cors_Not_Origin string string | Code_Length string int | Tenants_Ignored string | Any_Tenant string string string
  | Peers_In_Memory | Store_In_Memory bool | No_State_Store bool | Short_Salt

primrec problem_text :: "problem \<Rightarrow> string" where
  "problem_text Http_Issuer = ''SAG_ISSUER uses http. Cookies and tokens must only travel over TLS outside local development.''"
| "problem_text Issuer_Derived = ''SAG_ISSUER is required outside local development; it must not be derived from an untrusted request host.''"
| "problem_text Secret_Missing = ''SAG_SECRET is required. Generate one with: openssl rand -base64 48''"
| "problem_text Secret_Short = ''SAG_SECRET must be at least 32 characters of high-entropy material.''"
| "problem_text Previous_Without_Current = ''SAG_SECRET_PREVIOUS cannot be used without SAG_SECRET.''"
| "problem_text Previous_Short = ''SAG_SECRET_PREVIOUS must be at least 32 characters of high-entropy material.''"
| "problem_text No_Signing_Key = ''No signing key is configured. Set SIGNING_PRIVATE_JWK (or SIGNING_PRIVATE_KEY_PEM), or switch SIGNING_BACKEND to cloudflare-hsm or aws-kms. An ephemeral key would invalidate every token whenever the instance restarts.''"
| "problem_text No_Hsm_Secret = ''SIGNING_BACKEND is cloudflare-hsm but HSM_SHARED_SECRET is not set.''"
| "problem_text No_Kms_Key = ''SIGNING_BACKEND is aws-kms but SIGNING_KMS_KEY_ID is not set.''"
| "problem_text No_Kms_Region = ''SIGNING_BACKEND is aws-kms but neither SIGNING_KMS_REGION nor AWS_REGION is set.''"
| "problem_text Console_Email = ''EMAIL_PROVIDER is '' @ in_quotes ''console'' @ '', which only prints codes to the log. Configure a real sender or set OTP_ENABLED=false.''"
| "problem_text Nobody_Can_Sign_In = ''No upstream providers or local identities are configured and OTP_ENABLED is false, so nobody could ever sign in.''"
| "problem_text Local_Without_Domains = ''LOCAL_IDENTITIES_BACKEND is file but LOCAL_IDENTITY_DOMAINS is empty. Name the domains that should always show local sign-in, or use * deliberately.''"
| "problem_text Local_Without_Store = ''Local password authentication requires an atomic STATE_STORE_BACKEND for attempt limits. Configure memory for one process, or a shared backend.''"
| "problem_text Local_Without_Salt = ''SUBJECT_SALT must be set explicitly when local identities are enabled, because it keys their privacy-preserving filenames and must never rotate.''"
| "problem_text No_Salt = ''SUBJECT_SALT is not set. Generate one with '' @ in_quotes ''openssl rand -base64 32'' @ '' and never change it, because rotating it orphans every account at every relying party.''"
| "problem_text Short_Salt_Local = ''SUBJECT_SALT is shorter than 16 characters. Keep the existing value to preserve current subject identifiers, but use at least 16 random characters for a new deployment. Local identity filenames require an unguessable keyed digest, so this backend cannot use the weak value.''"
| "problem_text (Plain_Http_Endpoint service endpoint) = ''The '' @ service @ '' endpoint override is a plain http URL ('' @ endpoint @ ''). Calls to it must travel over TLS outside local development.''"
| "problem_text Session_Cap_Short = ''SESSION_MAX_LIFETIME must not be shorter than SESSION_TTL.''"
| "problem_text Css_Not_Https = ''CUSTOM_CSS_REMOTE_URL must be an https URL.''"

primrec warning_text :: "warning \<Rightarrow> string" where
  "warning_text Dev_Secret = ''SAG_SECRET is not set; using the well-known development secret. Never do this outside local development.''"
| "warning_text Dev_Client = ''No relying parties are configured; the development client '' @ in_quotes ''sag-dev-client'' @ '' is available on loopback only.''"
| "warning_text Dev_Salt = ''SUBJECT_SALT is not set; using the development salt, so every `sub` this instance issues is guessable.''"

primrec remark_text :: "remark \<Rightarrow> string" where
  "remark_text (Upstream_Unknown_Field key rest) = ''Ignoring '' @ key @ '': '' @ in_quotes rest @ '' does not end in a known upstream field.''"
| "remark_text (Upstream_Name key field) = ''Ignoring '' @ key @ '': expected UPSTREAM_<PROVIDER>_<SLUG>_'' @ field @ ''.''"
| "remark_text (Upstream_No_Client_Id uid) = ''Upstream '' @ uid @ '' has no CLIENT_ID and was ignored.''"
| "remark_text (Upstream_No_Domain uid raw) = ''Upstream '' @ uid @ '' CLIENT_ID must be prefixed with the domain it serves, for example '' @ in_quotes (''example.com:'' @ take 8 raw @ ''...'') @ ''.''"
| "remark_text (Upstream_Empty_Client_Id uid) = ''Upstream '' @ uid @ '' has an empty client id after the domain prefix.''"
| "remark_text (Upstream_Bad_Domain uid d) = ''Upstream '' @ uid @ '' has an invalid domain prefix '' @ in_quotes d @ ''.''"
| "remark_text (Client_Auth_Method slug v) = ''Client '' @ slug @ '' has AUTH_METHOD='' @ in_quotes v @ '', which is not one of none, client_secret_basic, client_secret_post, private_key_jwt.''"
| "remark_text (Client_Bool slug field v) = ''CLIENT_'' @ slug @ ''_'' @ field @ '' must be a boolean, got '' @ in_quotes v @ ''.''"
| "remark_text (Client_Logout_Confirm slug v) = ''CLIENT_'' @ slug @ ''_LOGOUT_CONFIRM must be auto, always or never, got '' @ in_quotes v @ ''; ignoring it and using the instance default.''"
| "remark_text (Client_Session_Scope slug v) = ''CLIENT_'' @ slug @ ''_SESSION_SCOPE must be shared or rp, got '' @ in_quotes v @ ''; the client was ignored.''"
| "remark_text (Client_No_Id slug) = ''Static client '' @ slug @ '' has no CLIENT_'' @ slug @ ''_ID and was ignored.''"
| "remark_text (Client_No_Redirect_Uris slug) = ''Static client '' @ slug @ '' has no CLIENT_'' @ slug @ ''_REDIRECT_URIS and was ignored.''"
| "remark_text (Client_Bad_Jwks slug cause) = ''Static client '' @ slug @ '' has invalid JSON in CLIENT_'' @ slug @ ''_JWKS: '' @ cause"
| "remark_text (Peer_Not_Url raw) = ''Ignoring PEER_JWKS_URLS entry '' @ in_quotes raw @ '': not an absolute URL.''"
| "remark_text (Peer_Not_Https raw) = ''Ignoring PEER_JWKS_URLS entry '' @ in_quotes raw @ '': must be an https URL outside development.''"
| "remark_text (Peer_Own_Origin raw) = ''Ignoring PEER_JWKS_URLS entry '' @ in_quotes raw @ '': it is on this instance'' @ [CHR 0x27] @ ''s own issuer origin, so it would fetch whichever instance answers there, including this one. Name each peer by its own per-instance hostname.''"
| "remark_text (Cors_Not_Url raw) = ''Ignoring CORS_ALLOWED_ORIGINS entry '' @ in_quotes raw @ '': not an absolute URL.''"
| "remark_text (Cors_Not_Https raw) = ''Ignoring CORS_ALLOWED_ORIGINS entry '' @ in_quotes raw @ '': must be an https origin outside development.''"
| "remark_text (Cors_Not_Origin raw origin) = ''Ignoring CORS_ALLOWED_ORIGINS entry '' @ in_quotes raw @ '': an origin has no path, query or fragment; use '' @ in_quotes origin @ ''.''"
| "remark_text (Code_Length key n) = key @ '' is '' @ show_int n @ '', which is below the minimum of 9, so 9 is being used. See docs/limitations.md.''"
| "remark_text (Tenants_Ignored uid) = ''Upstream '' @ uid @ '' sets ALLOWED_TENANTS, but only a Microsoft token carries the tid it is checked against, so nothing is bounded by it here.''"
| "remark_text (Any_Tenant uid provider slug) = ''Upstream '' @ uid @ '' accepts any Microsoft Entra tenant, and nothing bounds the addresses it may assert. Set UPSTREAM_'' @ to_upper provider @ ''_'' @ to_upper slug @ ''_ALLOWED_TENANTS, or add the xms_edov optional claim to the app registration; without one of the two, Entra sign-ins through this upstream are refused. Personal Microsoft accounts with consumer MX are exempt. See docs/adr/0026-microsoft-consumer-accounts-use-consumer-mx.md.''"
| "remark_text Peers_In_Memory = ''PEER_JWKS_CACHE_BACKEND is '' @ in_quotes ''memory'' @ '', so a peer'' @ [CHR 0x27] @ ''s keys are remembered only for as long as this isolate or container lives. Every cold start refetches every peer on the first /jwks.json, and one that fails then publishes a key set missing that peer - which is what PEER_JWKS_STALE_TTL exists to prevent. Set cf-kv on Cloudflare or dynamodb on AWS. See docs/multi-region.md.''"
| "remark_text (Store_In_Memory locals) = ''The state store backend is '' @ in_quotes ''memory'' @ '', which only prevents code and client assertion reuse within a single instance, records session revocations within that instance, and counts OTP sends'' @ (if locals then '' and local authentication attempts'' else []) @ '' per instance. Use cf-durable-object or dynamodb if more than one instance can serve a request.''"
| "remark_text (No_State_Store otp) = ''No state store is configured, so authorisation codes are single-use by convention only, private_key_jwt assertions can be replayed within their 300 second maximum lifetime, copied sessions cannot be revoked by logout'' @ (if otp then '' and OTP send limits are not enforced'' else []) @ ''. Set STATE_STORE_BACKEND, or put a platform rate limiting rule in front of this deployment. See docs/state-and-limits.md.''"
| "remark_text Short_Salt = ''SUBJECT_SALT is shorter than 16 characters. Keep the existing value to preserve current subject identifiers, but use at least 16 random characters for a new deployment.''"

text \<open>\<open>if (b) problems.push(i)\<close>.\<close>

definition raise_when :: "bool \<Rightarrow> 'i \<Rightarrow> 'i list" where
  "raise_when b i = (if b then [i] else [])"

lemma raise_when_iff [simp]: "raise_when b i = [] \<longleftrightarrow> \<not> b" "j \<in> set (raise_when b i) \<longleftrightarrow> b \<and> j = i"
  by (auto simp: raise_when_def)

definition codeLength :: "env \<Rightarrow> (load_error, int \<times> remark list) result" where
  "codeLength env =
     (let key = aliased env [''OTP_CODE_LENGTH'', ''OTP_DIGITS'']
      in rbind (env_range env key 9 1 12) (\<lambda>requested.
           if requested \<ge> 9 then Inr (requested, []) else Inr (9, [Code_Length key requested])))"

section \<open>Signing\<close>

definition asymmetric :: "string \<Rightarrow> bool" where
  "asymmetric alg \<longleftrightarrow> (case map_of ALGS alg of None \<Rightarrow> False | Some spec \<Rightarrow> as_family spec \<noteq> ''symmetric'')"

type_synonym key_source = "json option \<times> string option \<times> string option"

fun read_keys :: "reader \<Rightarrow> env \<Rightarrow> string list \<Rightarrow> (string \<times> key_source) list \<Rightarrow> (load_error, (string \<times> key_source) list) result" where
  "read_keys rd env [] keys = Inr keys"
| "read_keys rd env (a # algs) keys =
     rbind (jsonValue rd env (''SIGNING_PRIVATE_JWK_'' @ algEnvSuffix a) None) (\<lambda>jwk.
       read_keys rd env algs (AList.update a
         (jwk, env_str env (''SIGNING_PRIVATE_KEY_PEM_'' @ algEnvSuffix a), env_str env (''SIGNING_KMS_KEY_ID_'' @ algEnvSuffix a)) keys))"

text \<open>The unsuffixed variables complete the primary algorithm's entry; \<open>SIGNING_PRIVATE_JWK\<close> is parsed only when needed.\<close>

definition primary_key :: "reader \<Rightarrow> env \<Rightarrow> key_source \<Rightarrow> (load_error, key_source) result" where
  "primary_key rd env ks =
     (case ks of (jwk, pem, kms) \<Rightarrow>
        rbind (if jwk = None \<or> jwk = Some JNull then jsonValue rd env ''SIGNING_PRIVATE_JWK'' None else Inr jwk) (\<lambda>j.
        Inr (j, if pem = None then env_str env ''SIGNING_PRIVATE_KEY_PEM'' else pem,
             if kms = None then env_str env ''SIGNING_KMS_KEY_ID'' else kms)))"

definition signing_problems :: "signing_config \<Rightarrow> bool \<Rightarrow> problem list" where
  "signing_problems s devMode =
     raise_when (sg_backend s = ''local'' \<and> \<not> truthy (sg_privateJwk s) \<and> \<not> str_truthy (sg_privatePem s) \<and> \<not> devMode) No_Signing_Key @
     raise_when (sg_backend s = ''cloudflare-hsm'' \<and> \<not> str_truthy (sg_hsmSharedSecret s)) No_Hsm_Secret @
     raise_when (sg_backend s = ''aws-kms'' \<and> \<not> str_truthy (sg_kmsKeyId s)) No_Kms_Key @
     raise_when (sg_backend s = ''aws-kms'' \<and> \<not> str_truthy (sg_kmsRegion s)) No_Kms_Region"

definition readSigning :: "reader \<Rightarrow> env \<Rightarrow> (load_error, signing_config) result" where
  "readSigning rd env =
     rbind (oneOf env ''SIGNING_BACKEND'' [''local'', ''cloudflare-hsm'', ''aws-kms''] ''local'') (\<lambda>backend.
     let alg = env_text env ''SIGNING_ALG'' ''ES256'';
         additional = filter (\<lambda>a. a \<noteq> alg) (env_list env ''SIGNING_ADDITIONAL_ALGS'' []);
         pqKey = aliased env [''REQUIRE_POST_QUANTUM_SIGNING'', ''SIGNING_REQUIRE_POST_QUANTUM''] in
     rbind (ok_or (asymmetric alg) (ConfigError (''SIGNING_ALG must be an asymmetric JWS algorithm, got '' @ in_quotes alg))) (\<lambda>_.
     rbind (case find (\<lambda>a. \<not> asymmetric a) additional of None \<Rightarrow> Inr ()
            | Some a \<Rightarrow> Inl (ConfigError (''SIGNING_ADDITIONAL_ALGS contains an unusable algorithm: '' @ in_quotes a))) (\<lambda>_.
     rbind (read_keys rd env (alg # additional) []) (\<lambda>keys.
     rbind (primary_key rd env (the (map_of keys alg))) (\<lambda>key.
     rbind (env_bool env pqKey False) (\<lambda>requirePostQuantum.
     rbind (ok_or (requirePostQuantum \<longrightarrow> list_ex isPostQuantum (alg # additional))
       (ConfigError (pqKey @ '' is set but neither SIGNING_ALG nor SIGNING_ADDITIONAL_ALGS names a post-quantum algorithm''))) (\<lambda>_.
     rbind (jsonValue rd env ''SIGNING_PUBLIC_JWKS_EXTRA'' (Some (JArr []))) (\<lambda>extra.
     rbind (awsEndpoint rd env ''KMS'') (\<lambda>kmsEndpoint.
     case extra of
       Some (JArr jwks) \<Rightarrow>
         Inr \<lparr>sg_backend = backend, sg_alg = alg, sg_additionalAlgs = additional, sg_keysByAlg = AList.update alg key keys,
                sg_requirePostQuantum = requirePostQuantum, sg_privateJwk = fst key, sg_privatePem = fst (snd key),
                sg_extraPublicJwks = jwks, sg_hsmBindingName = env_text env ''HSM_BINDING'' ''HSM'', sg_hsmBinding = env_str env ''HSM_URL'',
                sg_hsmSharedSecret = env_str env ''HSM_SHARED_SECRET'', sg_kmsKeyId = snd (snd key),
                sg_kmsRegion = env_or env ''SIGNING_KMS_REGION'' (env_str env ''AWS_REGION''), sg_kmsEndpoint = kmsEndpoint\<rparr>
     | _ \<Rightarrow> Inl (ConfigError ''SIGNING_PUBLIC_JWKS_EXTRA must be a JSON array of public JWKs''))))))))))"

section \<open>Upstream identity providers\<close>

definition UPSTREAM_FIELDS :: "string list" where
  "UPSTREAM_FIELDS = [''CLIENT_ID'', ''CLIENT_SECRET'', ''TENANT'', ''SCOPES'', ''ISSUER'', ''AUTHORIZATION_ENDPOINT'', ''TOKEN_ENDPOINT'',
     ''JWKS_URI'', ''HD'', ''LABEL'', ''PROMPT'', ''ACR_VALUES'', ''ALLOWED_TENANTS'', ''ENABLED'', ''DISCOVERY'', ''MAIL_PROVIDER'']"

text \<open>The longest field a variable's name ends in, and a group of fields read from the variables of one record. A blank
  variable sets its field to \<open>undefined\<close>.\<close>

definition field_of :: "string list \<Rightarrow> string \<Rightarrow> string option" where
  "field_of names rest =
     (case sort_key (\<lambda>f. - int (length f)) (filter (\<lambda>f. rest = f \<or> ends_with rest (CHR ''_'' # f)) names) of
        [] \<Rightarrow> None | f # _ \<Rightarrow> Some f)"

type_synonym group = "(string \<times> string option) list"

definition group_field :: "group \<Rightarrow> string \<Rightarrow> string option" where
  "group_field g f = Option.bind (map_of g f) (\<lambda>v. v)"

record upstream_group =
  ug_provider :: string
  ug_slug :: string
  ug_fields :: group

definition group_upstream ::
  "env \<Rightarrow> string \<Rightarrow> (string \<times> upstream_group) list \<times> remark list \<Rightarrow> (string \<times> upstream_group) list \<times> remark list" where
  "group_upstream env key acc =
     (case acc of (grouped, remarks) \<Rightarrow>
      if \<not> starts_with key ''UPSTREAM_'' then acc
      else (let rest = drop (length ''UPSTREAM_'') key in
        case field_of UPSTREAM_FIELDS rest of None \<Rightarrow> (grouped, remarks @ [Upstream_Unknown_Field key rest])
        | Some field \<Rightarrow>
            (let front = chop (CHR ''_'') (take (length rest - length field) rest) in
             case index_of (CHR ''_'') front of
               Some (Suc i) \<Rightarrow>
                 (let provider = to_lower (take (Suc i) front); slug = drop (Suc (Suc i)) front;
                      uid = provider @ ''/'' @ to_lower slug;
                      g = coalesce (map_of grouped uid) \<lparr>ug_provider = provider, ug_slug = slug, ug_fields = []\<rparr>
                  in (AList.update uid (g\<lparr>ug_fields := AList.update field (env_str env key) (ug_fields g)\<rparr>) grouped, remarks))
             | _ \<Rightarrow> (grouped, remarks @ [Upstream_Name key field]))))"

definition OFF_WORDS :: "string list" where "OFF_WORDS = [''0'', ''false'', ''no'', ''off'']"

definition switched_off :: "string option \<Rightarrow> bool" where
  "switched_off v \<longleftrightarrow> (case v of None \<Rightarrow> False | Some w \<Rightarrow> to_lower w \<in> set OFF_WORDS)"

definition listed :: "string option \<Rightarrow> string list" where
  "listed v = Prelude.fields list_sep (coalesce v [])"

text \<open>\<open>/^[a-z0-9.-]+\.[a-z]{2,}$/\<close>: the last dot parts a name from a top-level domain of letters.\<close>

definition upstream_domain :: "string \<Rightarrow> bool" where
  "upstream_domain d \<longleftrightarrow>
     (case last_index_of (CHR ''.'') d of
        Some (Suc i) \<Rightarrow> list_all (\<lambda>c. is_lower c \<or> is_digit c \<or> c = CHR ''.'' \<or> c = CHR ''-'') (take (Suc i) d) \<and>
          2 \<le> length (drop (Suc (Suc i)) d) \<and> list_all is_lower (drop (Suc (Suc i)) d)
      | _ \<Rightarrow> False)"

definition upstream_client :: "string \<Rightarrow> string \<Rightarrow> string \<Rightarrow> (remark, string \<times> string) result" where
  "upstream_client uid slug raw =
     rbind (case index_of (CHR '':'') raw of
              Some (Suc i) \<Rightarrow> Inr (to_lower (take (Suc i) raw), drop (Suc (Suc i)) raw)
            | _ \<Rightarrow> if to_upper slug = ''COMMON'' then Inr (''common'', raw) else Inl (Upstream_No_Domain uid raw)) (\<lambda>(d, clientId).
     rbind (ok_or (clientId \<noteq> []) (Upstream_Empty_Client_Id uid)) (\<lambda>_.
     rbind (ok_or (d = ''common'' \<or> upstream_domain d) (Upstream_Bad_Domain uid d)) (\<lambda>_.
     Inr (d, clientId))))"

definition upstream_record :: "string \<Rightarrow> upstream_group \<Rightarrow> string \<Rightarrow> string \<Rightarrow> upstream" where
  "upstream_record uid g d clientId =
     (let f = group_field (ug_fields g); some_list = (\<lambda>k. if f k = None then None else Some (listed (f k))) in
      \<lparr>up_id = uid, up_provider = ug_provider g, up_slug = to_lower (ug_slug g), up_domain = d, up_isCommon = (d = ''common''),
       up_clientId = clientId, up_clientSecret = f ''CLIENT_SECRET'', up_tenant = f ''TENANT'', up_scopes = some_list ''SCOPES'',
       up_issuer = f ''ISSUER'', up_authorizationEndpoint = f ''AUTHORIZATION_ENDPOINT'', up_tokenEndpoint = f ''TOKEN_ENDPOINT'',
       up_jwksUri = f ''JWKS_URI'', up_hd = f ''HD'', up_label = f ''LABEL'', up_prompt = f ''PROMPT'', up_acrValues = some_list ''ACR_VALUES'',
       up_allowedTenants = map to_lower (listed (f ''ALLOWED_TENANTS'')),
       up_useDiscovery = map_option (\<lambda>v. to_lower v \<notin> set OFF_WORDS) (f ''DISCOVERY''),
       up_mailProvider = map_option to_lower (f ''MAIL_PROVIDER'')\<rparr>)"

definition upstream_of :: "string \<times> upstream_group \<Rightarrow> (remark, upstream option) result" where
  "upstream_of entry =
     (case entry of (uid, g) \<Rightarrow>
        if switched_off (group_field (ug_fields g) ''ENABLED'') then Inr None
        else (case group_field (ug_fields g) ''CLIENT_ID'' of None \<Rightarrow> Inl (Upstream_No_Client_Id uid)
              | Some raw \<Rightarrow> rbind (upstream_client uid (ug_slug g) raw) (\<lambda>(d, clientId). Inr (Some (upstream_record uid g d clientId)))))"

text \<open>The stable sort of \<open>Array.prototype.sort\<close>, and the order of the records.\<close>

fun insert_by :: "('a \<Rightarrow> 'a \<Rightarrow> bool) \<Rightarrow> 'a \<Rightarrow> 'a list \<Rightarrow> 'a list" where
  "insert_by before x [] = [x]"
| "insert_by before x (y # ys) = (if before y x then y # insert_by before x ys else x # y # ys)"

definition sort_by :: "('a \<Rightarrow> 'a \<Rightarrow> bool) \<Rightarrow> 'a list \<Rightarrow> 'a list" where
  "sort_by before xs = foldr (insert_by before) xs []"

definition upstream_before :: "reader \<Rightarrow> upstream \<Rightarrow> upstream \<Rightarrow> bool" where
  "upstream_before rd a b \<longleftrightarrow> (if up_isCommon a = up_isCommon b then rd_before rd (up_id a) (up_id b) else up_isCommon b)"

definition oks :: "('e, 'a option) result list \<Rightarrow> 'a list" where
  "oks rs = List.map_filter (\<lambda>r. case r of Inr x \<Rightarrow> x | Inl _ \<Rightarrow> None) rs"

definition errs :: "('e, 'a) result list \<Rightarrow> 'e list" where
  "errs rs = List.map_filter (\<lambda>r. case r of Inl e \<Rightarrow> Some e | Inr _ \<Rightarrow> None) rs"

definition readUpstreams :: "reader \<Rightarrow> env \<Rightarrow> upstream list \<times> remark list" where
  "readUpstreams rd env =
     (case fold (group_upstream env) (map fst env) ([], []) of (grouped, remarks) \<Rightarrow>
        let rs = map upstream_of grouped
        in (sort_by (upstream_before rd) (oks rs), remarks @ errs rs))"

section \<open>Statically configured relying parties\<close>

definition CLIENT_FIELDS :: "string list" where
  "CLIENT_FIELDS = [''ID'', ''SECRET'', ''REDIRECT_URIS'', ''POST_LOGOUT_REDIRECT_URIS'', ''NAME'', ''LOGO_URI'', ''JWKS'', ''JWKS_URI'', ''AUTH_METHOD'',
     ''SCOPES'', ''ACR_VALUES'', ''ID_TOKEN_SIGNED_RESPONSE_ALG'', ''SESSION_SCOPE'', ''REQUIRE_PKCE'', ''LOGOUT_CONFIRM'', ''TOS_URI'', ''POLICY_URI'',
     ''SANITISE_PLUS_EMAILS'']"

definition CLIENT_AUTH_METHODS :: "string list" where
  "CLIENT_AUTH_METHODS = [''none'', ''client_secret_basic'', ''client_secret_post'', ''private_key_jwt'']"

definition authMethodValue :: "string \<Rightarrow> string option \<Rightarrow> string \<Rightarrow> (remark, string) result" where
  "authMethodValue slug value defaultMethod =
     (case value of None \<Rightarrow> Inr defaultMethod
      | Some v \<Rightarrow> if to_lower v \<in> set CLIENT_AUTH_METHODS then Inr (to_lower v) else Inl (Client_Auth_Method slug v))"

definition clientBool :: "string \<Rightarrow> string \<Rightarrow> string option \<Rightarrow> bool option \<times> remark list" where
  "clientBool slug field value =
     (case value of None \<Rightarrow> (None, [])
      | Some v \<Rightarrow> if to_lower v \<in> set YES_WORDS then (Some True, []) else if to_lower v \<in> set NO_WORDS then (Some False, [])
                 else (None, [Client_Bool slug field v]))"

definition logoutConfirmValue :: "string \<Rightarrow> string option \<Rightarrow> string option \<times> remark list" where
  "logoutConfirmValue slug value =
     (case value of None \<Rightarrow> (None, [])
      | Some v \<Rightarrow> if to_lower v \<in> set [''auto'', ''always'', ''never''] then (Some (to_lower v), []) else (None, [Client_Logout_Confirm slug v]))"

definition sessionScopeValue :: "string \<Rightarrow> string option \<Rightarrow> (remark, string option) result" where
  "sessionScopeValue slug value =
     (case value of None \<Rightarrow> Inr None
      | Some v \<Rightarrow> if to_lower v = ''shared'' \<or> to_lower v = ''rp'' then Inr (Some (to_lower v)) else Inl (Client_Session_Scope slug v))"

definition group_client :: "env \<Rightarrow> string \<Rightarrow> (string \<times> group) list \<Rightarrow> (string \<times> group) list" where
  "group_client env key grouped =
     (if \<not> starts_with key ''CLIENT_'' then grouped
      else (let rest = drop (length ''CLIENT_'') key in
        case field_of CLIENT_FIELDS rest of None \<Rightarrow> grouped
        | Some field \<Rightarrow>
            (let slug = chop (CHR ''_'') (take (length rest - length field) rest) in
             if slug = [] then grouped
             else AList.update slug (AList.update field (env_str env key) (coalesce (map_of grouped slug) [])) grouped)))"

definition client_jwks :: "reader \<Rightarrow> string \<Rightarrow> string option \<Rightarrow> json option \<times> remark list" where
  "client_jwks rd slug value =
     (case value of None \<Rightarrow> (None, [])
      | Some v \<Rightarrow> (case rd_json rd v of Inr j \<Rightarrow> (Some j, []) | Inl cause \<Rightarrow> (None, [Client_Bad_Jwks slug cause])))"

definition defaultAuthMethod :: "json option \<Rightarrow> group \<Rightarrow> string" where
  "defaultAuthMethod jwks g =
     (if truthy jwks \<or> group_field g ''JWKS_URI'' \<noteq> None then ''private_key_jwt''
      else if group_field g ''SECRET'' \<noteq> None then ''client_secret_basic'' else ''none'')"

definition static_client :: "reader \<Rightarrow> string \<times> group \<Rightarrow> client list \<times> remark list" where
  "static_client rd entry =
     (case entry of (slug, g) \<Rightarrow>
      let f = group_field g; redirectUris = listed (f ''REDIRECT_URIS'') in
      case f ''ID'' of None \<Rightarrow> ([], [Client_No_Id slug])
      | Some clientId \<Rightarrow>
          if redirectUris = [] then ([], [Client_No_Redirect_Uris slug])
          else (case client_jwks rd slug (f ''JWKS'') of (jwks, bad) \<Rightarrow>
            (case authMethodValue slug (f ''AUTH_METHOD'') (defaultAuthMethod jwks g) of Inl i \<Rightarrow> ([], bad @ [i])
             | Inr authMethod \<Rightarrow>
                 (case sessionScopeValue slug (f ''SESSION_SCOPE'') of Inl i \<Rightarrow> ([], bad @ [i])
                  | Inr sessionScope \<Rightarrow>
                      (case (logoutConfirmValue slug (f ''LOGOUT_CONFIRM''), clientBool slug ''SANITISE_PLUS_EMAILS'' (f ''SANITISE_PLUS_EMAILS'')) of
                         ((confirm, i1), (plus_emails, i2)) \<Rightarrow>
                           ([\<lparr>cl_source = ''static'', cl_clientId = clientId, cl_clientName = coalesce (f ''NAME'') slug,
                              cl_clientSecret = f ''SECRET'', cl_clientSecretDigest = None, cl_redirectUris = redirectUris,
                              cl_postLogoutRedirectUris = listed (f ''POST_LOGOUT_REDIRECT_URIS''), cl_jwks = jwks, cl_jwksUri = f ''JWKS_URI'',
                              cl_tokenEndpointAuthMethod = authMethod, cl_scopes = Some (listed (f ''SCOPES'')),
                              cl_acrValues = listed (f ''ACR_VALUES''), cl_idTokenSignedResponseAlg = f ''ID_TOKEN_SIGNED_RESPONSE_ALG'',
                              cl_sessionScope = sessionScope, cl_logoutConfirm = confirm, cl_subjectType = None, cl_sectorIdentifier = None,
                              cl_sanitisePlusEmails = plus_emails, cl_requirePkce = \<not> switched_off (f ''REQUIRE_PKCE''),
                              cl_logoUri = f ''LOGO_URI'', cl_policyUri = f ''POLICY_URI'', cl_tosUri = f ''TOS_URI''\<rparr>], bad @ i1 @ i2))))))"

definition readStaticClients :: "reader \<Rightarrow> env \<Rightarrow> client list \<times> remark list" where
  "readStaticClients rd env =
     (let rs = map (static_client rd) (fold (group_client env) (map fst env) [])
      in (concat (map fst rs), concat (map snd rs)))"

definition dev_client :: client where
  "dev_client =
     \<lparr>cl_source = ''dev-default'', cl_clientId = ''sag-dev-client'', cl_clientName = ''SAG development client'', cl_clientSecret = None,
      cl_clientSecretDigest = None,
      cl_redirectUris = [''http://127.0.0.1:8788/callback'', ''http://localhost:8788/callback'', ''http://127.0.0.1:8788/''],
      cl_postLogoutRedirectUris = [''http://127.0.0.1:8788/'', ''http://localhost:8788/''], cl_jwks = None, cl_jwksUri = None,
      cl_tokenEndpointAuthMethod = ''none'', cl_scopes = Some [], cl_acrValues = [], cl_idTokenSignedResponseAlg = None, cl_sessionScope = None,
      cl_logoutConfirm = None, cl_subjectType = None, cl_sectorIdentifier = None, cl_sanitisePlusEmails = None, cl_requirePkce = True,
      cl_logoUri = None, cl_policyUri = None, cl_tosUri = None\<rparr>"

section \<open>Peers and browser origins\<close>

definition secure_enough :: "bool \<Rightarrow> url \<Rightarrow> bool" where
  "secure_enough devMode u \<longleftrightarrow> u_protocol u = ''https:'' \<or> u_protocol u = ''http:'' \<and> devMode"

definition peer_url :: "reader \<Rightarrow> bool \<Rightarrow> string \<Rightarrow> string \<Rightarrow> (remark, string option) result" where
  "peer_url rd devMode origin raw =
     (case rd_url rd raw of None \<Rightarrow> Inl (Peer_Not_Url raw)
      | Some u \<Rightarrow> if \<not> secure_enough devMode u then Inl (Peer_Not_Https raw)
                 else if u_origin u = origin then Inl (Peer_Own_Origin raw)
                 else Inr (Some (u_href u)))"

definition readPeerJwksUrls :: "reader \<Rightarrow> env \<Rightarrow> bool \<Rightarrow> string \<Rightarrow> string list \<times> remark list" where
  "readPeerJwksUrls rd env devMode origin =
     (let rs = map (peer_url rd devMode origin) (env_list env ''PEER_JWKS_URLS'' []) in (oks rs, errs rs))"

definition corsOriginsFromClients :: "reader \<Rightarrow> client list \<Rightarrow> bool \<Rightarrow> string list" where
  "corsOriginsFromClients rd clients devMode =
     js_uniq (concat (map (\<lambda>uri. case rd_url rd uri of None \<Rightarrow> [] | Some u \<Rightarrow> if secure_enough devMode u then [u_origin u] else [])
       (concat (map cl_redirectUris clients))))"

definition cors_origin :: "reader \<Rightarrow> bool \<Rightarrow> string \<Rightarrow> (remark, string option) result" where
  "cors_origin rd devMode raw =
     (if raw = ''*'' then Inr (Some ''*'')
      else (case rd_url rd raw of None \<Rightarrow> Inl (Cors_Not_Url raw)
            | Some u \<Rightarrow> if \<not> secure_enough devMode u then Inl (Cors_Not_Https raw)
                       else if u_origin u \<noteq> raw then Inl (Cors_Not_Origin raw (u_origin u))
                       else Inr (Some (u_origin u))))"

definition readCorsOrigins :: "reader \<Rightarrow> env \<Rightarrow> bool \<Rightarrow> client list \<Rightarrow> (load_error, string list \<times> remark list) result" where
  "readCorsOrigins rd env devMode clients =
     rbind (env_bool env ''CORS_ENABLED'' True) (\<lambda>enabled.
     if \<not> enabled then Inr ([], [])
     else (let named = env_list env ''CORS_ALLOWED_ORIGINS'' []; rs = map (cors_origin rd devMode) named
           in if named = [] then Inr ([''*''], [])
              else Inr (js_uniq (corsOriginsFromClients rd clients devMode @ oks rs), errs rs)))"

section \<open>The upstream records\<close>

definition commons_last :: "upstream list \<Rightarrow> bool" where
  "commons_last us \<longleftrightarrow> sorted_wrt (\<lambda>a b. up_isCommon a \<longrightarrow> up_isCommon b) us"

lemma set_insert_by [simp]: "set (insert_by before x ys) = insert x (set ys)"
  by (induction ys) auto

lemma set_sort_by [simp]: "set (sort_by before xs) = set xs"
  unfolding sort_by_def by (induction xs) auto

lemma commons_last_insert: "commons_last ys \<Longrightarrow> commons_last (insert_by (upstream_before rd) x ys)"
  unfolding commons_last_def by (induction ys) (auto simp: upstream_before_def split: if_splits)

lemma commons_last_sort: "commons_last (sort_by (upstream_before rd) xs)"
proof (induction xs)
  case (Cons x xs)
  then show ?case by (simp add: sort_by_def commons_last_insert)
qed (simp add: sort_by_def commons_last_def)

definition upstream_sound :: "upstream \<Rightarrow> bool" where
  "upstream_sound u \<longleftrightarrow> up_clientId u \<noteq> [] \<and> (up_isCommon u \<longleftrightarrow> up_domain u = ''common'') \<and>
     (up_domain u = ''common'' \<or> upstream_domain (up_domain u))"

lemma rbindE:
  assumes "rbind r f = Inr y"
  obtains x where "r = Inr x" "f x = Inr y"
  using assms by auto

lemma upstream_client_sound: "upstream_client uid slug raw = Inr p \<Longrightarrow> snd p \<noteq> [] \<and> (fst p = ''common'' \<or> upstream_domain (fst p))"
  unfolding upstream_client_def case_prod_unfold by (elim rbindE) (simp, blast?)

lemma upstream_of_sound:
  assumes "upstream_of entry = Inr (Some u)"
  shows "upstream_sound u"
proof -
  obtain uid g where e: "entry = (uid, g)" by force
  with assms obtain raw p where p: "upstream_client uid (ug_slug g) raw = Inr p" "u = upstream_record uid g (fst p) (snd p)"
    unfolding upstream_of_def case_prod_unfold by (auto split: if_split_asm option.split_asm)
  from upstream_client_sound [OF p(1)] show ?thesis by (simp add: p(2) upstream_record_def upstream_sound_def Let_def)
qed

text \<open>C36: whatever the environment says and whatever the collation of the platform, the upstream providers come out with a
  client id and either the catch-all domain or a well-formed one, and every provider of a domain comes before every
  catch-all one, so an address is first offered the provider of its own domain.\<close>

theorem upstreams_sound: "list_all upstream_sound (fst (readUpstreams rd env)) \<and> commons_last (fst (readUpstreams rd env))"
proof -
  obtain grouped remarks where g: "fold (group_upstream env) (map fst env) ([], []) = (grouped, remarks)" by force
  have "upstream_sound u" if "u \<in> set (oks (map upstream_of grouped))" for u
    using that upstream_of_sound by (auto simp: oks_def List.map_filter_def split: sum.splits)
  then show ?thesis by (auto simp: readUpstreams_def g Let_def list_all_iff commons_last_sort)
qed

end
