(* ===== verification/Configuration.thy ===== *)
theory Configuration
  imports Environment
begin

text \<open>
  The resolved configuration, the second half of \<^verbatim>\<open>src/config.js\<close>: its sections, \<open>loadConfig\<close> and \<open>assertUsable\<close>, and what a
  configuration without problems guarantees.
\<close>

section \<open>Sections\<close>

definition DEV_SECRET :: string where "DEV_SECRET = ''sag-development-only-secret-do-not-use-in-production''"

definition secrets_of :: "env \<Rightarrow> bool \<Rightarrow> string list" where
  "secrets_of env devMode =
     (case env_str env ''SAG_SECRET'' of Some s \<Rightarrow> [s] | None \<Rightarrow> if devMode then [DEV_SECRET] else []) @
     (case env_str env ''SAG_SECRET_PREVIOUS'' of
        Some s \<Rightarrow> if env_str env ''SAG_SECRET'' \<noteq> None \<or> devMode then [s] else [] | None \<Rightarrow> [])"

definition secret_problems :: "env \<Rightarrow> bool \<Rightarrow> problem list" where
  "secret_problems env devMode =
     (case env_str env ''SAG_SECRET'' of None \<Rightarrow> raise_when (\<not> devMode) Secret_Missing
      | Some s \<Rightarrow> raise_when (length s < 32 \<and> \<not> devMode) Secret_Short) @
     (case env_str env ''SAG_SECRET_PREVIOUS'' of None \<Rightarrow> []
      | Some s \<Rightarrow> raise_when (env_str env ''SAG_SECRET'' = None \<and> \<not> devMode) Previous_Without_Current @
                 raise_when (length s < 32 \<and> \<not> devMode) Previous_Short)"

definition readStateStore :: "reader \<Rightarrow> env \<Rightarrow> (load_error, state_config) result" where
  "readStateStore rd env =
     rbind (oneOf env (aliased env [''STATE_STORE_BACKEND'', ''REPLAY_STORE_BACKEND'']) [''none'', ''memory'', ''cf-durable-object'', ''dynamodb''] ''none'') (\<lambda>backend.
     rbind (awsEndpoint rd env ''DYNAMODB'') (\<lambda>endpoint.
     rbind (env_range env ''STATE_STORE_MAX_ENTRIES'' 10000 100 5000000) (\<lambda>maxEntries.
     rbind (env_bool env ''REQUIRE_STATE_STORE'' False) (\<lambda>required.
     if required \<and> backend = ''none''
     then Inl (ConfigError (''REQUIRE_STATE_STORE is set but STATE_STORE_BACKEND is '' @ in_quotes ''none'' @ '' (or unset). Configure a backend, or unset REQUIRE_STATE_STORE.''))
     else Inr
       \<lparr>st_backend = backend,
        st_doBindingName = env_text env (aliased env [''STATE_STORE_DO_BINDING'', ''REPLAY_STORE_DO_BINDING''])
          (if env_str env ''STATE_STORE_BACKEND'' = None \<and> env_str env ''REPLAY_STORE_BACKEND'' \<noteq> None then ''SAG_REPLAY'' else ''SAG_STATE''),
        st_table = env_str env (aliased env [''STATE_STORE_TABLE'', ''REPLAY_STORE_TABLE'']),
        st_region = env_or env (aliased env [''STATE_STORE_REGION'', ''REPLAY_STORE_REGION'']) (env_str env ''AWS_REGION''),
        st_endpoint = endpoint, st_maxEntries = maxEntries, st_required = required\<rparr>))))"

definition readPeerJwks :: "reader \<Rightarrow> env \<Rightarrow> bool \<Rightarrow> string \<Rightarrow> int \<Rightarrow> (load_error, peer_config \<times> remark list) result" where
  "readPeerJwks rd env devMode origin maxLifetime =
     (case readPeerJwksUrls rd env devMode origin of (urls, remarks) \<Rightarrow>
     rbind (env_range env ''PEER_JWKS_CACHE_TTL'' 300 0 86400) (\<lambda>cacheTtl.
     rbind (env_range env ''PEER_JWKS_STALE_TTL'' (2 * maxLifetime) 0 (40 * 365 * 86400)) (\<lambda>staleTtl.
     rbind (env_range env ''PEER_JWKS_RETRY_AFTER'' 30 0 3600) (\<lambda>retryAfter.
     rbind (env_range env ''PEER_JWKS_TIMEOUT_MS'' 4000 100 20000) (\<lambda>timeout.
     rbind (env_int env ''PEER_JWKS_MAX_BYTES'' (64 * 1024) (Some 1024) None) (\<lambda>maxBytes.
     rbind (oneOf env ''PEER_JWKS_CACHE_BACKEND'' [''memory'', ''cf-kv'', ''dynamodb''] ''memory'') (\<lambda>backend.
     rbind (awsEndpoint rd env ''DYNAMODB'') (\<lambda>endpoint.
     rbind (env_bool env ''REQUIRE_PEER_JWKS_CACHE'' False) (\<lambda>requireCache.
     if requireCache \<and> urls = []
     then Inl (ConfigError ''REQUIRE_PEER_JWKS_CACHE is set but PEER_JWKS_URLS names no usable peer, so there is nothing to cache. Configure the peers, or unset REQUIRE_PEER_JWKS_CACHE.'')
     else if requireCache \<and> backend = ''memory''
     then Inl (ConfigError (''REQUIRE_PEER_JWKS_CACHE is set but PEER_JWKS_CACHE_BACKEND is '' @ in_quotes ''memory'' @ '' (or unset), which does not survive an isolate or container recycling. Set cf-kv or dynamodb, or unset REQUIRE_PEER_JWKS_CACHE.''))
     else Inr
       (\<lparr>pj_urls = urls, pj_cacheTtlSeconds = cacheTtl, pj_staleTtlSeconds = staleTtl, pj_retryAfterSeconds = retryAfter, pj_timeoutMs = timeout,
         pj_maxDocumentBytes = maxBytes, pj_cacheBackend = backend,
         pj_cacheKvBindingName = env_text env ''PEER_JWKS_CACHE_KV_BINDING'' ''SAG_PEER_JWKS'',
         pj_cacheTable = env_str env ''PEER_JWKS_CACHE_TABLE'',
         pj_cacheRegion = env_or env ''PEER_JWKS_CACHE_REGION'' (env_str env ''AWS_REGION''),
         pj_cacheEndpoint = endpoint, pj_requireCache = requireCache\<rparr>, remarks))))))))))"

definition readSession_config :: "env \<Rightarrow> bool \<Rightarrow> int \<Rightarrow> (load_error, session_config) result" where
  "readSession_config env devMode maxLifetime =
     (let name = env_text env ''SESSION_COOKIE_NAME'' ''sag_session'' in
     rbind (oneOf env ''SESSION_SCOPE'' [''shared'', ''rp''] ''shared'') (\<lambda>scope.
     rbind (env_range env ''SESSION_TTL'' (12 * 3600) 60 (90 * 86400)) (\<lambda>idle.
     rbind (oneOf env ''PROMPT_CONSENT_MODE'' [''continue'', ''off''] ''continue'') (\<lambda>consent.
     rbind (oneOf env ''LOGOUT_CONFIRM'' [''auto'', ''always'', ''never''] ''auto'') (\<lambda>confirm.
     Inr \<lparr>ss_scope = scope, ss_cookieName = (if devMode \<or> starts_with name ''__Host-'' then name else ''__Host-'' @ name),
          ss_idleTtlSeconds = idle, ss_maxLifetimeSeconds = maxLifetime, ss_promptConsentMode = consent, ss_logoutConfirm = confirm\<rparr>)))))"

definition readTokens :: "env \<Rightarrow> (load_error, tokens_config) result" where
  "readTokens env =
     rbind (env_range env ''CODE_TTL'' 60 10 600) (\<lambda>code.
     rbind (env_range env ''TRANSACTION_TTL'' 900 60 3600) (\<lambda>transaction.
     rbind (env_range env ''ID_TOKEN_TTL'' 300 60 3600) (\<lambda>idToken.
     rbind (env_range env ''ACCESS_TOKEN_TTL'' 600 60 86400) (\<lambda>accessToken.
     rbind (env_range env ''CLOCK_SKEW'' 60 0 300) (\<lambda>skew.
     Inr \<lparr>tk_authorizationCodeTtlSeconds = code, tk_transactionTtlSeconds = transaction, tk_idTokenTtlSeconds = idToken,
          tk_accessTokenTtlSeconds = accessToken, tk_clockSkewSeconds = skew\<rparr>)))))"

definition readLocalIdentities :: "env \<Rightarrow> string \<Rightarrow> string list \<Rightarrow> (load_error, local_config) result" where
  "readLocalIdentities env backend domains =
     rbind (env_range env ''LOCAL_AUTH_ATTEMPT_WINDOW'' 300 30 86400) (\<lambda>window.
     rbind (env_range env ''LOCAL_AUTH_MAX_ATTEMPTS'' 10 1 1000) (\<lambda>maxAttempts.
     rbind (env_range env ''LOCAL_AUTH_NETWORK_MAX_ATTEMPTS'' 50 0 10000) (\<lambda>networkMax.
     rbind (env_range env ''LOCAL_PASSWORD_MAX_BYTES'' 1024 64 4096) (\<lambda>maxBytes.
     rbind (env_range env ''LOCAL_TOTP_SKEW'' 1 0 5) (\<lambda>totpSkew.
     rbind (env_range env ''LOCAL_ARGON2_CONCURRENCY'' 4 1 32) (\<lambda>concurrency.
     Inr \<lparr>li_backend = backend, li_directory = env_str env ''LOCAL_IDENTITIES_DIR'',
          li_bindingName = env_text env ''LOCAL_IDENTITIES_BINDING'' ''SAG_LOCAL_IDENTITIES'', li_domains = domains,
          li_attemptWindowSeconds = window, li_maxAttempts = maxAttempts, li_networkMaxAttempts = networkMax, li_maxPasswordBytes = maxBytes,
          li_totpSkew = totpSkew, li_argon2Concurrency = concurrency\<rparr>))))))"

definition readClients :: "reader \<Rightarrow> env \<Rightarrow> bool \<Rightarrow> client list \<Rightarrow> (load_error, clients_config) result" where
  "readClients rd env devMode clients =
     rbind (schemes env ''CLIENTS_REDIRECT_URI_SCHEMES'') (\<lambda>uriSchemes.
     rbind (env_bool env ''CLIENTS_CIMD_ENABLED'' devMode) (\<lambda>cimdEnabled.
     rbind (env_bool env ''CLIENTS_CIMD_ALLOW_SUBDOMAINS'' True) (\<lambda>subdomains.
     rbind (env_range env ''CLIENTS_CIMD_CACHE_TTL'' 300 0 86400) (\<lambda>cimdTtl.
     rbind (env_int env ''CLIENTS_CIMD_MAX_BYTES'' (32 * 1024) (Some 1024) None) (\<lambda>cimdBytes.
     rbind (env_bool env ''CLIENTS_OPAQUE_ENABLED'' True) (\<lambda>opaque.
     rbind (oneOf env ''CLIENTS_STORE_BACKEND'' [''none'', ''cf-kv'', ''s3'', ''file''] ''none'') (\<lambda>backend.
     rbind (awsEndpoint rd env ''S3'') (\<lambda>endpoint.
     rbind (env_range env ''CLIENTS_STORE_CACHE_TTL'' 60 0 3600) (\<lambda>storeTtl.
     Inr \<lparr>cc_static = clients, cc_redirectUriSchemes = uriSchemes,
          cc_cimd = \<lparr>cm_enabled = cimdEnabled, cm_allowedDomains = env_list env ''CLIENTS_CIMD_ALLOWED_DOMAINS'' [], cm_allowSubdomains = subdomains,
            cm_cacheTtlSeconds = cimdTtl, cm_maxDocumentBytes = cimdBytes\<rparr>,
          cc_opaqueEnabled = opaque, cc_storeBackend = backend, cc_storeDirectory = env_str env ''CLIENTS_STORE_DIR'',
          cc_storeKvBindingName = env_text env ''CLIENTS_STORE_KV_BINDING'' ''SAG_CLIENTS'',
          cc_storeS3Bucket = env_str env ''CLIENTS_STORE_S3_BUCKET'',
          cc_storeS3Region = env_or env ''CLIENTS_STORE_S3_REGION'' (env_str env ''AWS_REGION''), cc_storeS3Endpoint = endpoint,
          cc_storePrefix = env_text env ''CLIENTS_STORE_PREFIX'' (if env_str env ''CLIENTS_STORE_BACKEND'' = Some ''file'' then [] else ''clients/''),
          cc_storeCacheTtlSeconds = storeTtl\<rparr>)))))))))"

definition readOtp :: "env \<Rightarrow> bool \<Rightarrow> (load_error, otp_config \<times> remark list) result" where
  "readOtp env enabled =
     rbind (codeLength env) (\<lambda>(len, remarks).
     rbind (oneOf env ''OTP_CODE_ALPHABET'' [''alphanumeric'', ''numeric'']
       (if env_str env ''OTP_CODE_ALPHABET'' = None \<and> env_str env ''OTP_DIGITS'' \<noteq> None then ''numeric'' else ''alphanumeric'')) (\<lambda>alphabet.
     rbind (env_range env ''OTP_TTL'' 600 60 3600) (\<lambda>ttl.
     rbind (env_range env ''OTP_MAX_ATTEMPTS'' 5 1 20) (\<lambda>maxAttempts.
     rbind (env_range env ''OTP_MAX_RESENDS'' 3 0 10) (\<lambda>maxResends.
     rbind (env_range env (aliased env [''OTP_SEND_WINDOW'', ''OTP_SEND_MIN_INTERVAL'']) 600 0 86400) (\<lambda>window.
     rbind (env_range env ''OTP_SEND_BURST'' 2 1 50) (\<lambda>burst.
     rbind (env_range env ''OTP_SEND_DAILY_LIMIT'' 5 0 1000) (\<lambda>daily.
     Inr (\<lparr>otp_enabled = enabled, otp_codeLength = len, otp_codeAlphabet = alphabet, otp_ttlSeconds = ttl, otp_maxAttempts = maxAttempts,
           otp_maxResends = maxResends, otp_sendWindowSeconds = window, otp_sendBurst = burst, otp_sendDailyLimit = daily,
           otp_allowedDomains = env_list env ''OTP_ALLOWED_DOMAINS'' [], otp_blockedDomains = env_list env ''OTP_BLOCKED_DOMAINS'' []\<rparr>,
          remarks)))))))))"

definition readEmail :: "env \<Rightarrow> bool \<Rightarrow> string \<Rightarrow> email_config" where
  "readEmail env devMode provider =
     \<lparr>em_provider = provider, em_from = env_or env ''EMAIL_FROM'' (if devMode then Some ''SAG <no-reply@localhost>'' else None),
      em_replyTo = env_str env ''EMAIL_REPLY_TO'', em_subject = env_text env ''EMAIL_OTP_SUBJECT'' ''Your sign-in code'',
      em_sesRegion = env_or env ''SES_REGION'' (env_str env ''AWS_REGION''), em_sesConfigurationSet = env_str env ''SES_CONFIGURATION_SET'',
      em_notifyApiKey = env_str env ''NOTIFY_API_KEY'', em_notifyTemplateId = env_str env ''NOTIFY_TEMPLATE_ID'',
      em_notifyBaseUrl = env_text env ''NOTIFY_BASE_URL'' ''https://api.notifications.service.gov.uk'',
      em_mailchannelsEndpoint = env_text env ''MAILCHANNELS_ENDPOINT'' ''https://api.mailchannels.net/tx/v1/send'',
      em_mailchannelsApiKey = env_str env ''MAILCHANNELS_API_KEY'',
      em_cloudflareBindingName = env_text env ''CLOUDFLARE_EMAIL_BINDING'' ''SEND_EMAIL'',
      em_cloudflareDestination = env_str env ''CLOUDFLARE_EMAIL_DESTINATION'', em_smtpUrl = env_str env ''SMTP_URL''\<rparr>"

definition DEFAULT_PROFILE_CLAIMS :: "string list" where
  "DEFAULT_PROFILE_CLAIMS = [''name'', ''given_name'', ''family_name'', ''preferred_username'', ''picture'', ''locale'']"

definition readProfile :: "env \<Rightarrow> (load_error, profile_config) result" where
  "readProfile env =
     rbind (env_bool env ''PROFILE_PICTURE'' True) (\<lambda>picture.
     rbind (oneOf env ''PROFILE_NAME_FROM_EMAIL'' [''off'', ''infer''] ''off'') (\<lambda>nameFromEmail.
     rbind (oneOf env ''PROFILE_AVATAR_FALLBACK'' [''off'', ''initials''] ''off'') (\<lambda>avatar.
     rbind (env_bool env ''PROFILE_SHOW_ON_SCREEN'' True) (\<lambda>onScreen.
     Inr \<lparr>pr_claims = filter (\<lambda>c. c \<in> set PROFILE_CLAIMS) (env_list env ''PROFILE_CLAIMS'' DEFAULT_PROFILE_CLAIMS),
          pr_showPicture = picture, pr_nameFromEmail = nameFromEmail, pr_avatarFallback = avatar, pr_showOnScreen = onScreen\<rparr>))))"

definition readDns :: "env \<Rightarrow> (load_error, dns_config) result" where
  "readDns env =
     rbind (oneOf env ''SIGNIN_PROVIDER_HINT'' [''off'', ''order'', ''select''] ''select'') (\<lambda>hint.
     rbind (env_range env ''DNS_TIMEOUT_MS'' 1500 100 10000) (\<lambda>timeout.
     rbind (env_range env ''DNS_CACHE_TTL'' 3600 0 86400) (\<lambda>ttl.
     Inr \<lparr>dn_hint = hint, dn_resolverUrl = env_text env ''DNS_RESOLVER_URL'' ''https://cloudflare-dns.com/dns-query'', dn_timeoutMs = timeout,
          dn_cacheTtlSeconds = ttl, dn_bindingName = env_text env ''DNS_BINDING'' ''SAG_DNS''\<rparr>)))"

definition readUi :: "env \<Rightarrow> (load_error, ui_config) result" where
  "readUi env =
     rbind (env_bool env ''UI_WHITELABEL'' False) (\<lambda>whitelabel.
     Inr \<lparr>ui_title = env_text env ''UI_TITLE'' ''Sign in'', ui_organisation = env_str env ''UI_ORG_NAME'', ui_supportUrl = env_str env ''UI_SUPPORT_URL'',
          ui_logoUrl = env_str env ''UI_LOGO_URL'', ui_customCssSnippet = env_str env ''CUSTOM_CSS_SNIPPET'',
          ui_customCssRemoteUrl = env_str env ''CUSTOM_CSS_REMOTE_URL'', ui_locale = env_text env ''UI_LOCALE'' ''en-GB'',
          ui_brandName = env_text env ''UI_BRAND_NAME'' ''RESOAuth'', ui_productName = env_text env ''UI_PRODUCT_NAME'' ''Smart Access Gateway'',
          ui_whitelabel = whitelabel, ui_brandUrl = env_text env ''UI_BRAND_URL'' ''https://resoauth.dev'',
          ui_termsUrl = env_str env ''UI_TERMS_URL'', ui_privacyUrl = env_str env ''UI_PRIVACY_URL''\<rparr>)"

section \<open>Top level\<close>

text \<open>What is pushed to \<open>problems\<close>, in the order of the code. Every condition reads a value of the configuration under
  construction, whose salt is still the one of the environment.\<close>

definition salt_problems :: "config \<Rightarrow> problem list" where
  "salt_problems c =
     (case c_subjectSalt c of
        None \<Rightarrow> raise_when (li_backend (c_localIdentities c) \<noteq> ''none'') Local_Without_Salt @ raise_when (\<not> c_devMode c) No_Salt
      | Some salt \<Rightarrow> raise_when (length salt < 16 \<and> li_backend (c_localIdentities c) \<noteq> ''none'') Short_Salt_Local)"

definition plain_http :: "bool \<Rightarrow> string \<Rightarrow> string option \<Rightarrow> problem list" where
  "plain_http devMode service endpoint =
     (case endpoint of None \<Rightarrow> []
      | Some e \<Rightarrow> raise_when (starts_with e ''http://'' \<and> \<not> devMode) (Plain_Http_Endpoint service e))"

definition problems_of :: "env \<Rightarrow> config \<Rightarrow> problem list" where
  "problems_of env c =
     (let dev = c_devMode c; local = li_backend (c_localIdentities c); session = c_session c in
      raise_when (c_insecureTransport c \<and> \<not> dev) Http_Issuer @
      raise_when (c_issuerDerived c \<and> \<not> dev) Issuer_Derived @
      secret_problems env dev @
      signing_problems (c_signing c) dev @
      raise_when (otp_enabled (c_otp c) \<and> em_provider (c_email c) = ''console'' \<and> \<not> dev) Console_Email @
      raise_when (c_upstreams c = [] \<and> \<not> otp_enabled (c_otp c) \<and> local = ''none'') Nobody_Can_Sign_In @
      raise_when (local \<noteq> ''none'' \<and> li_domains (c_localIdentities c) = []) Local_Without_Domains @
      raise_when (local \<noteq> ''none'' \<and> st_backend (c_stateStore c) = ''none'') Local_Without_Store @
      salt_problems c @
      plain_http dev ''KMS'' (sg_kmsEndpoint (c_signing c)) @
      plain_http dev ''DynamoDB'' (st_endpoint (c_stateStore c)) @
      plain_http dev ''S3'' (cc_storeS3Endpoint (c_clients c)) @
      raise_when (ss_maxLifetimeSeconds session < ss_idleTtlSeconds session) Session_Cap_Short @
      raise_when (ui_customCssRemoteUrl (c_ui c) \<noteq> None \<and> \<not> starts_with (the (ui_customCssRemoteUrl (c_ui c))) ''https://'' \<and> \<not> dev) Css_Not_Https)"

definition warnings_of :: "reader \<Rightarrow> env \<Rightarrow> config \<Rightarrow> warning list" where
  "warnings_of rd env c =
     raise_when (env_str env ''SAG_SECRET'' = None \<and> c_devMode c) Dev_Secret @
     raise_when (c_devMode c \<and> fst (readStaticClients rd env) = []) Dev_Client @
     raise_when (c_subjectSalt c = None \<and> c_devMode c) Dev_Salt"

definition tenant_remarks :: "upstream \<Rightarrow> remark list" where
  "tenant_remarks u =
     raise_when (up_allowedTenants u \<noteq> [] \<and> up_provider u \<noteq> ''microsoft'') (Tenants_Ignored (up_id u)) @
     raise_when (up_provider u = ''microsoft'' \<and> up_isCommon u \<and> up_allowedTenants u = []) (Any_Tenant (up_id u) (up_provider u) (up_slug u))"

definition late_remarks :: "config \<Rightarrow> remark list" where
  "late_remarks c =
     (let dev = c_devMode c; local = li_backend (c_localIdentities c); backend = st_backend (c_stateStore c) in
      concat (map tenant_remarks (c_upstreams c)) @
      raise_when (pj_urls (c_peerJwks c) \<noteq> [] \<and> pj_cacheBackend (c_peerJwks c) = ''memory'' \<and> \<not> dev) Peers_In_Memory @
      raise_when (backend = ''memory'' \<and> \<not> dev) (Store_In_Memory (local \<noteq> ''none'')) @
      raise_when (backend = ''none'' \<and> \<not> dev) (No_State_Store (otp_enabled (c_otp c))) @
      (case c_subjectSalt c of None \<Rightarrow> [] | Some salt \<Rightarrow> raise_when (length salt < 16 \<and> local = ''none'') Short_Salt))"

definition DEV_SALT :: string where "DEV_SALT = ''sag-development-only-subject-salt''"

definition judged :: "reader \<Rightarrow> env \<Rightarrow> remark list \<Rightarrow> config \<Rightarrow> config" where
  "judged rd env remarks c =
     c\<lparr>c_subjectSalt := (if c_subjectSalt c = None \<and> c_devMode c then Some DEV_SALT else c_subjectSalt c),
       c_problems := map problem_text (problems_of env c), c_warnings := map warning_text (warnings_of rd env c),
       c_internalWarnings := map remark_text (remarks @ late_remarks c)\<rparr>"

definition parsed :: "reader \<Rightarrow> string \<Rightarrow> (load_error, url) result" where
  "parsed rd s = (case rd_url rd s of None \<Rightarrow> Inl (InvalidUrl s) | Some u \<Rightarrow> Inr u)"

definition loadConfig :: "reader \<Rightarrow> env \<Rightarrow> string option \<Rightarrow> (load_error, config) result" where
  "loadConfig rd env requestUrl =
     rbind (assertNothingSealed env) (\<lambda>_.
     rbind (resolveIssuer rd env requestUrl) (\<lambda>(issuer, derived).
     rbind (parsed rd issuer) (\<lambda>u.
     rbind (env_bool env ''SAG_DEV'' (isDevHostname (u_hostname u))) (\<lambda>devMode.
     rbind (readSigning rd env) (\<lambda>signing.
     let (upstreams, r_upstreams) = readUpstreams rd env; (configured, r_clients) = readStaticClients rd env;
         clients = (if devMode \<and> configured = [] then [dev_client] else configured) in
     rbind (oneOf env ''LOCAL_IDENTITIES_BACKEND'' [''none'', ''file''] ''none'') (\<lambda>backend.
     rbind (identityDomains env ''LOCAL_IDENTITY_DOMAINS'') (\<lambda>domains.
     rbind (env_bool env ''OTP_ENABLED'' True) (\<lambda>otpEnabled.
     rbind (oneOf env ''EMAIL_PROVIDER'' [''console'', ''ses'', ''notify'', ''mailchannels'', ''cloudflare'', ''smtp''] ''console'') (\<lambda>emailProvider.
     rbind (readStateStore rd env) (\<lambda>stateStore.
     rbind (env_range env ''SESSION_MAX_LIFETIME'' (7 * 86400) 60 (365 * 86400)) (\<lambda>maxLifetime.
     rbind (readPeerJwks rd env devMode (u_origin u) maxLifetime) (\<lambda>(peerJwks, r_peers).
     rbind (readSession_config env devMode maxLifetime) (\<lambda>session.
     rbind (readTokens env) (\<lambda>tokens.
     rbind (oneOf env ''SUBJECT_TYPE'' [''public'', ''pairwise''] ''public'') (\<lambda>subjectType.
     rbind (env_bool env ''SANITISE_PLUS_EMAILS'' True) (\<lambda>sanitise.
     rbind (readLocalIdentities env backend domains) (\<lambda>localIdentities.
     rbind (env_bool env ''CORS_ENABLED'' True) (\<lambda>corsEnabled.
     rbind (readCorsOrigins rd env devMode clients) (\<lambda>(origins, r_cors).
     rbind (readClients rd env devMode clients) (\<lambda>clientsConfig.
     rbind (readOtp env otpEnabled) (\<lambda>(otp, r_otp).
     rbind (oneOf env ''SIGNIN_UNKNOWN_ADDRESS'' [''silent'', ''explain''] ''silent'') (\<lambda>unknown.
     rbind (readProfile env) (\<lambda>profile.
     rbind (readDns env) (\<lambda>dns.
     rbind (readUi env) (\<lambda>ui.
     rbind (oneOf env ''LOG_LEVEL'' [''debug'', ''info'', ''warn'', ''error'', ''silent''] (if devMode then ''debug'' else ''info'')) (\<lambda>logLevel.
     Inr (judged rd env (r_upstreams @ r_clients @ r_peers @ r_cors @ r_otp)
       \<lparr>c_issuer = issuer, c_issuerOrigin = u_origin u, c_basePath = strip_trailing (CHR ''/'') (u_pathname u), c_issuerDerived = derived,
        c_devMode = devMode, c_insecureTransport = (u_protocol u = ''http:''), c_secrets = secrets_of env devMode, c_signing = signing,
        c_stateStore = stateStore, c_peerJwks = peerJwks, c_session = session, c_tokens = tokens, c_subjectType = subjectType,
        c_subjectSalt = env_str env ''SUBJECT_SALT'', c_sanitisePlusEmails = sanitise, c_localIdentities = localIdentities,
        c_corsEnabled = corsEnabled, c_corsOrigins = origins, c_clients = clientsConfig, c_upstreams = upstreams, c_otp = otp,
        c_unknownAddress = unknown, c_email = readEmail env devMode emailProvider, c_profile = profile, c_dns = dns, c_ui = ui,
        c_acrDefaultRequired = env_list env ''ACR_DEFAULT_REQUIRED'' [], c_logLevel = logLevel,
        c_problems = [], c_warnings = [], c_internalWarnings = []\<rparr>)))))))))))))))))))))))))))"

definition assertUsable :: "config \<Rightarrow> (load_error, config) result" where
  "assertUsable c =
     (if c_problems c \<noteq> []
      then Inl (ConfigError (''SAG refused to start with this configuration:'' @ [CHR 0x0A] @ join [CHR 0x0A] (map (\<lambda>p. ''  - '' @ p) (c_problems c))))
      else Inr c)"

section \<open>What a loaded configuration guarantees\<close>

lemma env_range_bounds: "env_range env key d lo hi = Inr n \<Longrightarrow> lo \<le> d \<Longrightarrow> d \<le> hi \<Longrightarrow> lo \<le> n \<and> n \<le> hi"
  by (auto simp: env_range_def env_int_def split: option.splits if_splits)

lemma env_int_least: "env_int env key d (Some lo) None = Inr n \<Longrightarrow> lo \<le> d \<Longrightarrow> lo \<le> n"
  by (auto simp: env_int_def split: option.splits if_splits)

lemma oneOf_choice: "oneOf env key choices d = Inr v \<Longrightarrow> v \<in> set choices"
  by (auto simp: oneOf_def Let_def split: if_splits)

text \<open>The judgement changes nothing but the salt and the three lists of messages.\<close>

lemma judged_keeps [simp]:
  "c_issuerOrigin (judged rd env r c) = c_issuerOrigin c" "c_devMode (judged rd env r c) = c_devMode c" "c_secrets (judged rd env r c) = c_secrets c"
  "c_signing (judged rd env r c) = c_signing c" "c_stateStore (judged rd env r c) = c_stateStore c" "c_peerJwks (judged rd env r c) = c_peerJwks c"
  "c_session (judged rd env r c) = c_session c" "c_tokens (judged rd env r c) = c_tokens c" "c_upstreams (judged rd env r c) = c_upstreams c"
  "c_localIdentities (judged rd env r c) = c_localIdentities c" "c_clients (judged rd env r c) = c_clients c" "c_otp (judged rd env r c) = c_otp c"
  "c_dns (judged rd env r c) = c_dns c"
  by (simp_all add: judged_def)

lemma judged_messages:
  "c_problems (judged rd env r c) = map problem_text (problems_of env ((judged rd env r c)\<lparr>c_subjectSalt := c_subjectSalt c\<rparr>))"
  "c_warnings (judged rd env r c) = map warning_text (warnings_of rd env c)"
  "c_subjectSalt (judged rd env r c) = (if c_subjectSalt c = None \<and> c_devMode c then Some DEV_SALT else c_subjectSalt c)"
  by (cases "c_subjectSalt c"; simp add: judged_def problems_of_def salt_problems_def Let_def)+

text \<open>The fields of a loaded configuration are what its readers returned.\<close>

lemma loadConfig_judged:
  assumes "loadConfig rd env requestUrl = Inr c"
  obtains r c0 peers otp clients backend domains enabled m where "c = judged rd env r c0"
    "readSigning rd env = Inr (c_signing c0)" "readStateStore rd env = Inr (c_stateStore c0)" "readTokens env = Inr (c_tokens c0)"
    "env_range env ''SESSION_MAX_LIFETIME'' (7 * 86400) 60 (365 * 86400) = Inr m" "readSession_config env (c_devMode c0) m = Inr (c_session c0)"
    "readPeerJwks rd env (c_devMode c0) (c_issuerOrigin c0) m = Inr peers" "c_peerJwks c0 = fst peers"
    "readLocalIdentities env backend domains = Inr (c_localIdentities c0)" "readClients rd env (c_devMode c0) clients = Inr (c_clients c0)"
    "readOtp env enabled = Inr otp" "c_otp c0 = fst otp" "readDns env = Inr (c_dns c0)" "c_upstreams c0 = fst (readUpstreams rd env)"
    "c_secrets c0 = secrets_of env (c_devMode c0)" "c_subjectSalt c0 = env_str env ''SUBJECT_SALT''"
  using assms unfolding loadConfig_def Let_def case_prod_unfold
  by (elim rbindE) (drule Inr_inject, erule that [OF sym]; (simp only: config.simps | assumption)?)

definition between :: "int \<Rightarrow> int \<Rightarrow> int \<Rightarrow> bool" where "between lo hi n \<longleftrightarrow> lo \<le> n \<and> n \<le> hi"

lemma env_range_between: "env_range env key d lo hi = Inr n \<Longrightarrow> lo \<le> d \<Longrightarrow> d \<le> hi \<Longrightarrow> between lo hi n"
  using env_range_bounds by (simp add: between_def)

definition tokens_bounded :: "tokens_config \<Rightarrow> bool" where
  "tokens_bounded t \<longleftrightarrow> between 10 600 (tk_authorizationCodeTtlSeconds t) \<and> between 60 3600 (tk_transactionTtlSeconds t) \<and>
     between 60 3600 (tk_idTokenTtlSeconds t) \<and> between 60 86400 (tk_accessTokenTtlSeconds t) \<and> between 0 300 (tk_clockSkewSeconds t)"

definition otp_bounded :: "otp_config \<Rightarrow> bool" where
  "otp_bounded p \<longleftrightarrow> between 9 12 (otp_codeLength p) \<and> otp_codeAlphabet p \<in> {''alphanumeric'', ''numeric''} \<and> between 60 3600 (otp_ttlSeconds p) \<and>
     between 1 20 (otp_maxAttempts p) \<and> between 0 10 (otp_maxResends p) \<and> between 0 86400 (otp_sendWindowSeconds p) \<and>
     between 1 50 (otp_sendBurst p) \<and> between 0 1000 (otp_sendDailyLimit p)"

definition local_bounded :: "local_config \<Rightarrow> bool" where
  "local_bounded l \<longleftrightarrow> between 30 86400 (li_attemptWindowSeconds l) \<and> between 1 1000 (li_maxAttempts l) \<and> between 0 10000 (li_networkMaxAttempts l) \<and>
     between 64 4096 (li_maxPasswordBytes l) \<and> between 0 5 (li_totpSkew l) \<and> between 1 32 (li_argon2Concurrency l)"

definition session_bounded :: "session_config \<Rightarrow> bool" where
  "session_bounded s \<longleftrightarrow> between 60 (90 * 86400) (ss_idleTtlSeconds s) \<and> between 60 (365 * 86400) (ss_maxLifetimeSeconds s) \<and>
     ss_scope s \<in> {''shared'', ''rp''} \<and> ss_logoutConfirm s \<in> {''auto'', ''always'', ''never''}"

definition caches_bounded :: "config \<Rightarrow> bool" where
  "caches_bounded c \<longleftrightarrow> between 100 5000000 (st_maxEntries (c_stateStore c)) \<and> between 0 86400 (pj_cacheTtlSeconds (c_peerJwks c)) \<and>
     between 0 (40 * 365 * 86400) (pj_staleTtlSeconds (c_peerJwks c)) \<and> between 0 3600 (pj_retryAfterSeconds (c_peerJwks c)) \<and> between 100 20000 (pj_timeoutMs (c_peerJwks c)) \<and>
     1024 \<le> pj_maxDocumentBytes (c_peerJwks c) \<and> between 0 86400 (cm_cacheTtlSeconds (cc_cimd (c_clients c))) \<and>
     1024 \<le> cm_maxDocumentBytes (cc_cimd (c_clients c)) \<and> between 0 3600 (cc_storeCacheTtlSeconds (c_clients c)) \<and>
     between 100 10000 (dn_timeoutMs (c_dns c)) \<and> between 0 86400 (dn_cacheTtlSeconds (c_dns c))"

lemma readTokens_bounded: "readTokens env = Inr t \<Longrightarrow> tokens_bounded t"
  unfolding readTokens_def by (elim rbindE) (auto simp: tokens_bounded_def intro!: env_range_between)

lemma codeLength_bounded: "codeLength env = Inr p \<Longrightarrow> between 9 12 (fst p)"
  unfolding codeLength_def Let_def by (elim rbindE) (auto dest!: env_range_bounds simp: between_def split: if_splits)

lemma readOtp_bounded: "readOtp env b = Inr p \<Longrightarrow> otp_bounded (fst p)"
  unfolding readOtp_def case_prod_unfold
  by (elim rbindE) (auto simp: otp_bounded_def dest!: codeLength_bounded oneOf_choice intro: env_range_between)

lemma readLocalIdentities_bounded: "readLocalIdentities env b d = Inr l \<Longrightarrow> local_bounded l"
  unfolding readLocalIdentities_def by (elim rbindE) (auto simp: local_bounded_def intro!: env_range_between)

lemma readSession_fields:
  assumes "readSession_config env dev m = Inr s"
  shows "ss_maxLifetimeSeconds s = m" "between 60 (90 * 86400) (ss_idleTtlSeconds s)" "ss_scope s \<in> {''shared'', ''rp''}"
    "ss_logoutConfirm s \<in> {''auto'', ''always'', ''never''}" "\<not> dev \<Longrightarrow> starts_with (ss_cookieName s) ''__Host-''"
  using assms unfolding readSession_config_def Let_def
  by (elim rbindE; auto simp: starts_with_def dest!: oneOf_choice intro!: env_range_between)+

lemma readPeerJwks_bounded:
  assumes "readPeerJwks rd env dev origin m = Inr p" "between 60 (365 * 86400) m"
  shows "between 0 86400 (pj_cacheTtlSeconds (fst p)) \<and> between 0 (40 * 365 * 86400) (pj_staleTtlSeconds (fst p)) \<and>
    between 0 3600 (pj_retryAfterSeconds (fst p)) \<and> between 100 20000 (pj_timeoutMs (fst p)) \<and> 1024 \<le> pj_maxDocumentBytes (fst p)"
  using assms unfolding readPeerJwks_def case_prod_unfold
  by (elim rbindE) (auto simp: between_def [of 60] split: if_split_asm dest: env_int_least intro!: env_range_between)

lemma readStateStore_bounded: "readStateStore rd env = Inr s \<Longrightarrow> between 100 5000000 (st_maxEntries s)"
  unfolding readStateStore_def by (elim rbindE) (auto split: if_splits intro!: env_range_between)

lemma readDns_bounded: "readDns env = Inr d \<Longrightarrow> between 100 10000 (dn_timeoutMs d) \<and> between 0 86400 (dn_cacheTtlSeconds d)"
  unfolding readDns_def by (elim rbindE) (auto intro!: env_range_between)

lemma readClients_bounded:
  assumes "readClients rd env dev clients = Inr cc"
  shows "between 0 86400 (cm_cacheTtlSeconds (cc_cimd cc)) \<and> 1024 \<le> cm_maxDocumentBytes (cc_cimd cc) \<and> between 0 3600 (cc_storeCacheTtlSeconds cc)"
  using assms unfolding readClients_def by (elim rbindE) (auto dest: env_int_least intro!: env_range_between)

lemma loaded_caches:
  assumes "loadConfig rd env requestUrl = Inr c"
  shows "caches_bounded c"
  using assms
proof (rule loadConfig_judged)
  fix r c0 peers otp clients backend domains enabled m
  assume c: "c = judged rd env r c0" and store: "readStateStore rd env = Inr (c_stateStore c0)" and dns: "readDns env = Inr (c_dns c0)"
    and m: "env_range env ''SESSION_MAX_LIFETIME'' (7 * 86400) 60 (365 * 86400) = Inr m"
    and peers: "readPeerJwks rd env (c_devMode c0) (c_issuerOrigin c0) m = Inr peers" "c_peerJwks c0 = fst peers"
    and clients: "readClients rd env (c_devMode c0) clients = Inr (c_clients c0)"
  from m have "between 60 (365 * 86400) m" by (rule env_range_between) simp_all
  from readPeerJwks_bounded [OF peers(1) this] show ?thesis
    using readStateStore_bounded [OF store] readDns_bounded [OF dns] readClients_bounded [OF clients] by (simp add: c caches_bounded_def peers(2))
qed

section \<open>Properties\<close>

definition signs :: "signing_config \<Rightarrow> bool" where
  "signs s \<longleftrightarrow>
     (sg_backend s = ''local'' \<longrightarrow> truthy (sg_privateJwk s) \<or> str_truthy (sg_privatePem s)) \<and>
     (sg_backend s = ''cloudflare-hsm'' \<longrightarrow> str_truthy (sg_hsmSharedSecret s)) \<and>
     (sg_backend s = ''aws-kms'' \<longrightarrow> str_truthy (sg_kmsKeyId s) \<and> str_truthy (sg_kmsRegion s))"

definition production_sound :: "config \<Rightarrow> bool" where
  "production_sound c \<longleftrightarrow>
     \<not> c_issuerDerived c \<and> \<not> c_insecureTransport c \<and>
     c_secrets c \<noteq> [] \<and> list_all (\<lambda>s. 32 \<le> length s) (c_secrets c) \<and> c_subjectSalt c \<noteq> None \<and>
     (otp_enabled (c_otp c) \<longrightarrow> em_provider (c_email c) \<noteq> ''console'') \<and>
     (c_upstreams c \<noteq> [] \<or> otp_enabled (c_otp c) \<or> li_backend (c_localIdentities c) \<noteq> ''none'') \<and>
     starts_with (ss_cookieName (c_session c)) ''__Host-'' \<and> ss_idleTtlSeconds (c_session c) \<le> ss_maxLifetimeSeconds (c_session c) \<and>
     signs (c_signing c) \<and>
     (li_backend (c_localIdentities c) \<noteq> ''none'' \<longrightarrow>
        li_domains (c_localIdentities c) \<noteq> [] \<and> st_backend (c_stateStore c) \<noteq> ''none'' \<and> 16 \<le> length (the (c_subjectSalt c))) \<and>
     list_all (\<lambda>e. \<not> starts_with (coalesce e []) ''http://'')
       [sg_kmsEndpoint (c_signing c), st_endpoint (c_stateStore c), cc_storeS3Endpoint (c_clients c)]"

lemma secrets_sound: "secret_problems env False = [] \<Longrightarrow> secrets_of env False \<noteq> [] \<and> list_all (\<lambda>s. 32 \<le> length s) (secrets_of env False)"
  by (auto simp: secret_problems_def secrets_of_def split: option.splits)

lemma plain_http_none: "plain_http False service e = [] \<longleftrightarrow> \<not> starts_with (coalesce e []) ''http://''"
  by (auto simp: plain_http_def coalesce_def starts_with_def split: option.splits)

lemma signing_sound: "signing_problems s False = [] \<longleftrightarrow> signs s"
  unfolding signing_problems_def signs_def by auto

lemma salt_sound:
  assumes "salt_problems c = []" "\<not> c_devMode c"
  shows "c_subjectSalt c \<noteq> None" "li_backend (c_localIdentities c) \<noteq> ''none'' \<Longrightarrow> 16 \<le> length (the (c_subjectSalt c))"
  using assms by (auto simp: salt_problems_def split: option.splits)


text \<open>C35: whatever the environment says, the numbers of a loaded configuration are between the bounds the code names: no
  lifetime, limit, window or cache size is outside them, and a one-time code is never shorter than nine characters.\<close>

theorem loaded_bounds:
  assumes "loadConfig rd env requestUrl = Inr c"
  shows "tokens_bounded (c_tokens c) \<and> otp_bounded (c_otp c) \<and> local_bounded (c_localIdentities c) \<and> session_bounded (c_session c) \<and>
    caches_bounded c"
  using assms
proof (rule loadConfig_judged)
  fix r c0 peers otp backend domains enabled m
  assume c: "c = judged rd env r c0" and tokens: "readTokens env = Inr (c_tokens c0)" and otp: "readOtp env enabled = Inr otp" "c_otp c0 = fst otp"
    and locals: "readLocalIdentities env backend domains = Inr (c_localIdentities c0)"
    and session: "readSession_config env (c_devMode c0) m = Inr (c_session c0)"
    and m: "env_range env ''SESSION_MAX_LIFETIME'' (7 * 86400) 60 (365 * 86400) = Inr m"
  from m have "between 60 (365 * 86400) m" by (rule env_range_between) simp_all
  with readSession_fields [OF session] have "session_bounded (c_session c0)" by (simp add: session_bounded_def)
  with readTokens_bounded [OF tokens] readOtp_bounded [OF otp(1)] readLocalIdentities_bounded [OF locals] loaded_caches [OF assms] otp(2)
  show ?thesis by (simp add: c)
qed

text \<open>The warnings anybody can read at \<open>/healthz\<close> quote nothing of the environment: they are among three fixed texts.\<close>

lemma public_warnings_fixed:
  assumes "loadConfig rd env requestUrl = Inr c"
  shows "set (c_warnings c) \<subseteq> {warning_text Dev_Secret, warning_text Dev_Client, warning_text Dev_Salt}"
  using assms by (rule loadConfig_judged) (auto simp: judged_messages warnings_of_def simp del: warning_text.simps)

section \<open>A concrete environment\<close>

definition production_env :: env where
  "production_env = [(''SAG_ISSUER'', ''https://id.example/''), (''SAG_SECRET'', ''0123456789abcdef0123456789abcdef''), (''OTP_DIGITS'', ''6''),
     (''SIGNING_PRIVATE_KEY_PEM'', ''pem''), (''EMAIL_PROVIDER'', ''smtp''), (''SUBJECT_SALT'', ''abcdefghijklmnop'')]"

definition production_reader :: reader where
  "production_reader = \<lparr>rd_url = \<lambda>s. if starts_with s ''https://id.example'' then Some \<lparr>u_href = ''https://id.example/'', u_protocol = ''https:'',
       u_hostname = ''id.example'', u_pathname = ''/'', u_search = [], u_hash = [], u_username = [], u_password = [],
       u_origin = ''https://id.example''\<rparr> else None,
     rd_json = \<lambda>_. Inl ''json'', rd_before = \<lambda>a b. a \<noteq> b\<rparr>"

lemma production_loads:
  obtains c where "loadConfig production_reader production_env None = Inr c" "c_problems c = []" "\<not> c_devMode c" "otp_codeLength (c_otp c) = 9"
proof -
  let ?r = "loadConfig production_reader production_env None"
  have "(case ?r of Inl _ \<Rightarrow> False | Inr c \<Rightarrow> c_problems c = [] \<and> \<not> c_devMode c \<and> otp_codeLength (c_otp c) = 9)" by code_simp
  then show thesis using that by (cases ?r) auto
qed


theorem loaded_bounds_witness:
  "\<exists>c. loadConfig production_reader production_env None = Inr c \<and> otp_codeLength (c_otp c) = 9 \<and> otp_bounded (c_otp c)"
proof -
  obtain c where c: "loadConfig production_reader production_env None = Inr c" "otp_codeLength (c_otp c) = 9" by (rule production_loads)
  with loaded_bounds [OF c(1)] show ?thesis by blast
qed

end
