(* ===== verification/Mime.thy ===== *)
theory Mime
  imports Otp Http Identity
begin

text \<open>
  The one email the gateway sends, \<^verbatim>\<open>src/email/message.js\<close>, and its raw form, \<^verbatim>\<open>src/email/mime.js\<close>: header values, the
  quoted-printable encoding, addresses and the multipart message. The random bytes and the date are arguments.
\<close>

section \<open>The message\<close>

record otp_mail =
  om_code :: string
  om_ttlMinutes :: int
  om_organisation :: "string option"
  om_clientName :: "string option"
  om_issuerHost :: string

record mail_text =
  mt_subject :: string
  mt_text :: string
  mt_html :: string

definition for_app :: "otp_mail \<Rightarrow> string" where
  "for_app m = (if str_truthy (om_clientName m) then '' to sign in to '' @ the (om_clientName m) else [])"

definition mail_sender_name :: "otp_mail \<Rightarrow> string" where
  "mail_sender_name m = or_str (om_organisation m) (om_issuerHost m)"

definition mail_plain :: "otp_mail \<Rightarrow> string" where
  "mail_plain m = join [CHR 0x0A]
     [''Your sign-in code is '' @ formatCodeForDisplay (om_code m), [],
      ''Enter it on the page you already have open'' @ for_app m @ ''. It expires in '' @ show_int (om_ttlMinutes m) @ '' minutes.'', [],
      ''If you did not try to sign in, you can ignore this email. Nobody can use'',
      ''this code without also having the sign-in page open on your device.'', [],
      ''Sent by '' @ mail_sender_name m @ '' ('' @ om_issuerHost m @ '').'']"

definition mail_markup :: "otp_mail \<Rightarrow> string" where
  "mail_markup m =
     (let e = (\<lambda>s. escapeHtml (Some s)); shown = formatCodeForDisplay (om_code m) in concat
       [''<!DOCTYPE html>'',
        ''<html lang=\"en-GB\"><head><meta charset=\"utf-8\">'',
        ''<meta name=\"viewport\" content=\"width=device-width,initial-scale=1\">'',
        ''<title>'' @ e (''Your sign-in code: '' @ shown) @ ''</title></head>'',
        ''<body style=\"margin:0;padding:24px;background:#f6f7f9;'',
        ''font:16px/1.55 system-ui,-apple-system,Segoe UI,Roboto,Arial,sans-serif;color:#16181d\">'',
        ''<div style=\"max-width:480px;margin:0 auto;background:#fff;border:1px solid #d6dae1;'',
        ''border-radius:10px;padding:28px\">'',
        ''<h1 style=\"margin:0 0 12px;font-size:20px\">Your sign-in code</h1>'',
        ''<p style=\"margin:0 0 20px;color:#545a66\">Enter this code on the page you already have open'' @ e (for_app m) @ ''.</p>'',
        ''<p style=\"margin:0 0 20px;font:700 30px/1.2 ui-monospace,SFMono-Regular,Menlo,Consolas,monospace;'',
        ''letter-spacing:0.18em\">'' @ e shown @ ''</p>'',
        ''<p style=\"margin:0 0 20px;color:#545a66\">It expires in '' @ show_int (om_ttlMinutes m) @ '' minutes.</p>'',
        ''<p style=\"margin:0;color:#545a66;font-size:14px\">If you did not try to sign in you can ignore '',
        ''this email. Nobody can use this code without also having the sign-in page open on your device.</p>'',
        ''</div>'',
        ''<p style=\"max-width:480px;margin:12px auto 0;color:#545a66;font-size:13px\">Sent by '' @ e (mail_sender_name m) @
          '' ('' @ e (om_issuerHost m) @ '').</p>'',
        ''</body></html>''])"

definition otpMessage :: "otp_mail \<Rightarrow> mail_text" where
  "otpMessage m =
     \<lparr>mt_subject = ''Your sign-in code: '' @ formatCodeForDisplay (om_code m), mt_text = mail_plain m, mt_html = mail_markup m\<rparr>"

section \<open>Header values\<close>

definition CRLF :: string where "CRLF = [CHR 0x0D, CHR 0x0A]"

definition printable :: "char \<Rightarrow> bool" where
  "printable c \<longleftrightarrow> 0x20 \<le> (of_char c :: nat) \<and> (of_char c :: nat) \<le> 0x7E"

text \<open>\<open>utf8\<close> of \<^verbatim>\<open>src/util/bytes.js\<close> for code units up to 255: those above 127 take two bytes.\<close>

definition utf8_text :: "string \<Rightarrow> bytes" where
  "utf8_text s = concat (map (\<lambda>c. let n = of_char c :: nat in
     if n < 128 then [of_nat n] else [of_nat (192 + n div 64), of_nat (128 + n mod 64)]) s)"

definition encodeHeaderValue :: "string \<Rightarrow> string" where
  "encodeHeaderValue s = (if list_all printable s then s else ''=?UTF-8?B?'' @ b64 (utf8_text s) @ ''?='')"

section \<open>Quoted-printable\<close>

text \<open>\<open>replace(/\r?\n/g, '\r\n')\<close>.\<close>

fun normal_breaks :: "string \<Rightarrow> string" where
  "normal_breaks [] = []"
| "normal_breaks (c # cs) =
     (if c = CHR 0x0A then CRLF @ normal_breaks cs
      else if c = CHR 0x0D \<and> cs \<noteq> [] \<and> hd cs = CHR 0x0A then normal_breaks cs
      else c # normal_breaks cs)"

definition hex_digit_upper :: "nat \<Rightarrow> char" where
  "hex_digit_upper n = ''0123456789ABCDEF'' ! n"

definition escaped_byte :: "byte \<Rightarrow> string" where
  "escaped_byte b = [CHR ''='', hex_digit_upper (unat b div 16), hex_digit_upper (unat b mod 16)]"

definition qp_chunk :: "byte \<Rightarrow> string" where
  "qp_chunk b = (if b = 0x3D \<or> b < 0x20 \<or> b > 0x7E then escaped_byte b else [char_of (unat b)])"

definition SOFT_BREAK :: string where "SOFT_BREAK = CHR ''='' # CRLF"

definition qp_push :: "string \<times> nat \<Rightarrow> string \<Rightarrow> string \<times> nat" where
  "qp_push acc chunk =
     (case acc of (out, lineLength) \<Rightarrow>
        if lineLength + length chunk > 75 then (out @ SOFT_BREAK @ chunk, length chunk) else (out @ chunk, lineLength + length chunk))"

text \<open>Encode trailing white space before a break.\<close>

definition qp_close :: "string \<Rightarrow> string" where
  "qp_close out =
     (if out \<noteq> [] \<and> last out = CHR '' '' then butlast out @ ''=20''
      else if out \<noteq> [] \<and> last out = CHR 0x09 then butlast out @ ''=09'' else out)"

fun qp_loop :: "string \<times> nat \<Rightarrow> bytes \<Rightarrow> string" where
  "qp_loop acc [] = fst acc"
| "qp_loop acc [b] = fst (qp_push acc (qp_chunk b))"
| "qp_loop acc (b # b' # bs) =
     (if b = 0x0D \<and> b' = 0x0A then qp_loop (qp_close (fst acc) @ CRLF, 0) bs
      else qp_loop (qp_push acc (qp_chunk b)) (b' # bs))"

definition quotedPrintable :: "string \<Rightarrow> string" where
  "quotedPrintable input = qp_loop ([], 0) (utf8_text (normal_breaks input))"

section \<open>Addresses\<close>

record address =
  ad_name :: "string option"
  ad_address :: string

definition rtrim :: "string \<Rightarrow> string" where "rtrim s = rev (dropWhile is_space (rev s))"

definition line_end :: "char \<Rightarrow> bool" where "line_end c \<longleftrightarrow> c = CHR 0x0A \<or> c = CHR 0x0D"

text \<open>\<open>/^(.*?)\s*<([^>]+)>$/\<close>: the first \<open><\<close> whose text up to the final \<open>></\<close> holds no other \<open>></\<close>, after a name on one line.\<close>

definition bracketed :: "string \<Rightarrow> (string \<times> string) option" where
  "bracketed s =
     (if s = [] \<or> last s \<noteq> CHR ''>'' then None
      else (let t = butlast s in
        map_option (\<lambda>i. (rtrim (take i t), drop (Suc i) t))
          (find (\<lambda>i. t ! i = CHR ''<'' \<and> drop (Suc i) t \<noteq> [] \<and> CHR ''>'' \<notin> set (drop (Suc i) t) \<and>
              list_all (\<lambda>c. \<not> line_end c) (rtrim (take i t))) [0..<length t])))"

definition unquoted_name :: "string \<Rightarrow> string" where
  "unquoted_name s =
     (let t = (if s \<noteq> [] \<and> hd s = CHR 0x22 then tl s else s)
      in if t \<noteq> [] \<and> last t = CHR 0x22 then butlast t else t)"

definition parseAddress :: "string \<Rightarrow> address" where
  "parseAddress input =
     (case bracketed (trim input) of None \<Rightarrow> \<lparr>ad_name = None, ad_address = trim input\<rparr>
      | Some (name, addr) \<Rightarrow>
          \<lparr>ad_name = (if trim (unquoted_name name) = [] then None else Some (trim (unquoted_name name))), ad_address = trim addr\<rparr>)"

definition formatAddress :: "address \<Rightarrow> string" where
  "formatAddress a =
     (case ad_name a of None \<Rightarrow> ad_address a
      | Some name \<Rightarrow> [CHR 0x22] @ filter (\<lambda>c. c \<noteq> CHR 0x22) (encodeHeaderValue name) @ [CHR 0x22] @ '' <'' @ ad_address a @ ''>'')"

section \<open>The raw message\<close>

record outgoing =
  og_to :: string
  og_from :: string
  og_replyTo :: "string option"
  og_subject :: string
  og_text :: string
  og_html :: string

definition mail_domain :: "string \<Rightarrow> string" where
  "mail_domain addr = or_str (case split_on (CHR ''@'') addr of _ # d # _ \<Rightarrow> Some d | _ \<Rightarrow> None) ''localhost''"

definition messageId :: "bytes \<Rightarrow> string \<Rightarrow> string" where
  "messageId random fromDomain = ''<'' @ toHex random @ ''@'' @ fromDomain @ ''>''"

definition boundary_of :: "bytes \<Rightarrow> string" where
  "boundary_of random = ''sag-'' @ filter is_alnum (b64 random)"

definition mime_headers :: "outgoing \<Rightarrow> string \<Rightarrow> bytes \<Rightarrow> bytes \<Rightarrow> string list" where
  "mime_headers msg date idBytes boundaryBytes =
     [''From: '' @ formatAddress (parseAddress (og_from msg)),
      ''To: '' @ formatAddress (parseAddress (og_to msg)),
      ''Subject: '' @ encodeHeaderValue (og_subject msg),
      ''Date: '' @ date,
      ''Message-ID: '' @ messageId idBytes (mail_domain (ad_address (parseAddress (og_from msg)))),
      ''MIME-Version: 1.0'',
      ''Auto-Submitted: auto-generated'',
      ''X-Auto-Response-Suppress: All'',
      ''Content-Type: multipart/alternative; boundary=\"'' @ boundary_of boundaryBytes @ ''\"''] @
     (if str_truthy (og_replyTo msg) then [''Reply-To: '' @ formatAddress (parseAddress (the (og_replyTo msg)))] else [])"

definition mime_parts :: "outgoing \<Rightarrow> string \<Rightarrow> string list" where
  "mime_parts msg boundary =
     [''--'' @ boundary, ''Content-Type: text/plain; charset=UTF-8'', ''Content-Transfer-Encoding: quoted-printable'', [],
      quotedPrintable (og_text msg),
      ''--'' @ boundary, ''Content-Type: text/html; charset=UTF-8'', ''Content-Transfer-Encoding: quoted-printable'', [],
      quotedPrintable (og_html msg),
      ''--'' @ boundary @ ''--'', []]"

definition buildMimeMessage :: "outgoing \<Rightarrow> string \<Rightarrow> bytes \<Rightarrow> bytes \<Rightarrow> string" where
  "buildMimeMessage msg date idBytes boundaryBytes =
     join CRLF (mime_headers msg date idBytes boundaryBytes) @ CRLF @ CRLF @ join CRLF (mime_parts msg (boundary_of boundaryBytes))"

section \<open>Reading quoted-printable back\<close>

definition upper_hex_value :: "char \<Rightarrow> nat" where
  "upper_hex_value c = coalesce (index_of c ''0123456789ABCDEF'') 0"

fun qp_decode :: "string \<Rightarrow> bytes" where
  "qp_decode (c # a # b # s) =
     (if c \<noteq> CHR ''='' then of_nat (of_char c) # qp_decode (a # b # s)
      else if [a, b] = CRLF then qp_decode s
      else of_nat (16 * upper_hex_value a + upper_hex_value b) # qp_decode s)"
| "qp_decode s = map (\<lambda>c. of_nat (of_char c)) s"

text \<open>What the encoder has written, and for which bytes.\<close>

inductive qp :: "string \<Rightarrow> bytes \<Rightarrow> bool" where
  nothing: "qp [] []"
| soft: "qp out bs \<Longrightarrow> qp (out @ SOFT_BREAK) bs"
| hard: "qp out bs \<Longrightarrow> qp (out @ CRLF) (bs @ [0x0D, 0x0A])"
| chunk: "qp out bs \<Longrightarrow> qp (out @ qp_chunk b) (bs @ [b])"
| escape: "qp out bs \<Longrightarrow> qp (out @ escaped_byte b) (bs @ [b])"

lemma upper_hex: "n < 16 \<Longrightarrow> upper_hex_value (hex_digit_upper n) = n \<and> hex_digit_upper n \<noteq> CHR 0x0D \<and> printable (hex_digit_upper n) \<and>
    hex_digit_upper n \<noteq> CHR '' ''"
proof -
  have "list_all (\<lambda>n. upper_hex_value (hex_digit_upper n) = n \<and> hex_digit_upper n \<noteq> CHR 0x0D \<and> printable (hex_digit_upper n) \<and>
    hex_digit_upper n \<noteq> CHR '' '') [0..<16]" by code_simp
  then show "n < 16 \<Longrightarrow> ?thesis" by (simp add: list_all_iff)
qed

lemma unat_byte: "unat (b :: byte) < 256"
  using unsigned_less [of b, where ?'a = nat] by simp

lemma byte_parts: "unat (b :: byte) div 16 < 16" "unat b mod 16 < 16" "of_nat (16 * (unat b div 16) + unat b mod 16) = b"
  using unat_byte [of b] by (simp_all add: less_mult_imp_div_less)

lemma qp_decode_escape: "qp_decode (escaped_byte b @ x) = b # qp_decode x"
  using upper_hex [OF byte_parts(1) [of b]] upper_hex [OF byte_parts(2) [of b]] byte_parts(3) [of b]
  by (simp add: escaped_byte_def CRLF_def)

lemma qp_decode_plain: "c \<noteq> CHR ''='' \<Longrightarrow> qp_decode (c # x) = of_nat (of_char c) # qp_decode x"
  by (cases x rule: qp_decode.cases; cases x) auto

lemma byte_char: "(of_char (char_of (unat (b :: byte)) :: char) :: nat) = unat b"
  using unat_byte [of b] by (simp add: of_char_of)

lemma qp_decode_chunk: "qp_decode (qp_chunk b @ x) = b # qp_decode x"
proof (cases "b = 0x3D \<or> b < 0x20 \<or> b > 0x7E")
  case False
  note n = byte_char [of b]
  have "(char_of (unat b) :: char) \<noteq> CHR ''=''"
  proof
    assume e: "(char_of (unat b) :: char) = CHR ''=''"
    from n [unfolded e] have "unat b = unat (0x3D :: byte)" by simp
    with False show False by (simp only: word_unat_eq_iff [symmetric]) simp
  qed
  with False n show ?thesis by (simp add: qp_chunk_def qp_decode_plain)
qed (simp add: qp_chunk_def qp_decode_escape)

lemma qp_decodes: "qp out bs \<Longrightarrow> qp_decode (out @ x) = bs @ qp_decode x"
proof (induction arbitrary: x rule: qp.induct)
  case (hard out bs)
  have "qp_decode (CRLF @ x) = [0x0D, 0x0A] @ qp_decode x" by (simp add: CRLF_def qp_decode_plain)
  with hard show ?case by simp
qed (simp_all add: SOFT_BREAK_def CRLF_def qp_decode_chunk qp_decode_escape)

lemma qp_last_space:
  assumes "qp out bs" "out \<noteq> []" "last out = CHR '' ''"
  shows "\<exists>bs'. qp (butlast out) bs' \<and> bs = bs' @ [0x20]"
  using assms
proof (cases rule: qp.cases)
  case (chunk out' bs' b)
  show ?thesis
  proof (cases "b = 0x3D \<or> b < 0x20 \<or> b > 0x7E")
    case False
    with chunk assms(3) have "(char_of (unat b) :: char) = CHR '' ''" by (simp add: qp_chunk_def)
    then have "unat b = 32" using byte_char [of b] by simp
    then have "b = 0x20" by (simp add: word_unat_eq_iff)
    with chunk show ?thesis by (auto simp: qp_chunk_def)
  qed (use chunk assms(3) upper_hex byte_parts in \<open>auto simp: qp_chunk_def escaped_byte_def\<close>)
qed (use assms(3) upper_hex byte_parts in \<open>auto simp: SOFT_BREAK_def CRLF_def escaped_byte_def\<close>)

lemma qp_no_tab: "qp out bs \<Longrightarrow> out \<noteq> [] \<Longrightarrow> last out \<noteq> CHR 0x09"
proof (induction rule: qp.induct)
  case (chunk out bs b)
  show ?case
  proof (cases "b = 0x3D \<or> b < 0x20 \<or> b > 0x7E")
    case False
    show ?thesis
    proof
      assume "last (out @ qp_chunk b) = CHR 0x09"
      with False have "(char_of (unat b) :: char) = CHR 0x09" by (simp add: qp_chunk_def)
      with byte_char [of b] have "unat b = unat (0x09 :: byte)" by simp
      with False show False by (simp only: word_unat_eq_iff [symmetric]) simp
    qed
  qed (use upper_hex [OF byte_parts(2) [of b]] in \<open>auto simp: qp_chunk_def escaped_byte_def printable_def\<close>)
next
  case (escape out bs b)
  show ?case using upper_hex [OF byte_parts(2) [of b]] by (auto simp: escaped_byte_def printable_def)
qed (simp_all add: SOFT_BREAK_def CRLF_def)

lemma qp_close: "qp out bs \<Longrightarrow> qp (qp_close out) bs"
proof (cases "out \<noteq> [] \<and> last out = CHR '' ''")
  case True
  assume "qp out bs"
  with True obtain bs' where bs': "qp (butlast out) bs'" "bs = bs' @ [0x20]" using qp_last_space by blast
  have "escaped_byte 0x20 = ''=20''" by code_simp
  with qp.escape [OF bs'(1), of "0x20"] True bs'(2) show ?thesis by (simp add: qp_close_def)
next
  case False
  assume "qp out bs"
  with False qp_no_tab [of out bs] show ?thesis by (auto simp: qp_close_def)
qed

lemma qp_push: "qp (fst acc) bs \<Longrightarrow> qp (fst (qp_push acc (qp_chunk b))) (bs @ [b])"
  using qp.chunk [OF qp.soft] qp.chunk by (fastforce simp: qp_push_def split: prod.split)

lemma qp_loop: "qp (fst acc) bs \<Longrightarrow> qp (qp_loop acc rest) (bs @ rest)"
proof (induction acc rest arbitrary: bs rule: qp_loop.induct)
  case (3 acc b b' rest)
  show ?case
  proof (cases "b = 0x0D \<and> b' = 0x0A")
    case True
    have "qp (qp_close (fst acc) @ CRLF) (bs @ [0x0D, 0x0A])" by (intro qp.hard qp_close 3)
    with 3(1) [OF True, of "bs @ [0x0D, 0x0A]"] True show ?thesis by simp
  next
    case False
    with 3(2) [OF False qp_push [OF 3(3)]] show ?thesis by (simp add: if_not_P)
  qed
qed (simp_all add: qp_push)

section \<open>What the transport may strip\<close>

text \<open>RFC 2045: white space at the end of an encoded line was added or may be removed on the way, so a reader deletes it before it
  decodes.\<close>

definition blank :: "char \<Rightarrow> bool" where "blank c \<longleftrightarrow> c = CHR '' '' \<or> c = CHR 0x09"

fun delete_trailing :: "string \<Rightarrow> string" where
  "delete_trailing [] = []"
| "delete_trailing (c # cs) =
     (let r = delete_trailing cs in if blank c \<and> (r = [] \<or> take 2 r = CRLF) then r else c # r)"

definition client_reads :: "string \<Rightarrow> bytes" where
  "client_reads body = qp_decode (delete_trailing body)"

text \<open>The text with its line breaks as CRLF: the lines between line feeds, each without the carriage return that ended it.\<close>

definition drop_cr :: "string \<Rightarrow> string" where
  "drop_cr l = (if l \<noteq> [] \<and> last l = CHR 0x0D then butlast l else l)"

definition crlf_text :: "string \<Rightarrow> string" where
  "crlf_text s = (let ls = split_on (CHR 0x0A) s in join CRLF (map drop_cr (butlast ls) @ [last ls]))"

lemma split_on_hd: "hd (split_on d s) = takeWhile (\<lambda>c. c \<noteq> d) s"
  by (induction s) (auto split: list.split)

lemma join_front: "xs \<noteq> [] \<Longrightarrow> join sep (x # xs) = x @ sep @ join sep xs"
  by (cases xs) simp_all

lemma normal_breaks_crlf: "normal_breaks s = crlf_text s"
proof (induction s)
  case (Cons c cs)
  obtain l ls where sp: "split_on (CHR 0x0A) cs = l # ls" using split_on_not_Nil by (cases "split_on (CHR 0x0A) cs") auto
  have l: "l = takeWhile (\<lambda>c. c \<noteq> CHR 0x0A) cs" using split_on_hd [of "CHR 0x0A" cs] sp by simp
  have end_: "ls = [] \<Longrightarrow> cs = l" using join_split_on [of "CHR 0x0A" cs] sp by simp
  have more: "ls \<noteq> [] \<Longrightarrow> cs = l @ CHR 0x0A # join [CHR 0x0A] ls" using join_split_on [of "CHR 0x0A" cs] sp by (simp add: join_front)
  show ?case
  proof (cases "c = CHR 0x0A")
    case True
    then show ?thesis using Cons sp by (simp add: crlf_text_def Let_def join_front drop_cr_def)
  next
    case False
    show ?thesis
    proof (cases "ls = []")
      case True
      then have "cs = l" using end_ by simp
      moreover have "CHR 0x0A \<notin> set l" using set_takeWhileD l by metis
      moreover from calculation have "\<not> (cs \<noteq> [] \<and> hd cs = CHR 0x0A)" by (cases cs) auto
      ultimately show ?thesis using Cons False sp True by (simp add: crlf_text_def)
    next
      case ls: False
      have cs: "crlf_text cs = drop_cr l @ CRLF @ join CRLF (map drop_cr (butlast ls) @ [last ls])"
        using ls by (simp add: crlf_text_def sp join_front)
      have ccs: "crlf_text (c # cs) = drop_cr (c # l) @ CRLF @ join CRLF (map drop_cr (butlast ls) @ [last ls])"
        using ls False by (simp add: crlf_text_def sp join_front)
      show ?thesis
      proof (cases "l = []")
        case True
        then have "cs \<noteq> []" "hd cs = CHR 0x0A" using more [OF ls] by simp_all
        then show ?thesis using Cons False True unfolding cs ccs by (simp add: drop_cr_def)
      next
        case l': False
        then have "hd cs \<noteq> CHR 0x0A" using l by (cases cs) (auto split: if_splits)
        then show ?thesis using Cons False l' unfolding cs ccs by (simp add: drop_cr_def)
      qed
    qed
  qed
qed (simp add: crlf_text_def)

text \<open>No line the encoder has ended ends in white space; what is left at the very end is what the text ends with.\<close>

definition settled :: "string \<Rightarrow> bool" where
  "settled out \<longleftrightarrow> (\<forall>i. i + 2 < length out \<longrightarrow> out ! (i + 1) = CHR 0x0D \<longrightarrow> out ! (i + 2) = CHR 0x0A \<longrightarrow> \<not> blank (out ! i))"

definition right_trimmed :: "string \<Rightarrow> string" where
  "right_trimmed s = rev (dropWhile blank (rev s))"

lemma right_trimmed_Cons: "right_trimmed (c # cs) = (if right_trimmed cs = [] then (if blank c then [] else [c]) else c # right_trimmed cs)"
  by (simp add: right_trimmed_def dropWhile_append)

lemma right_trimmed_prefix: "\<exists>w. s = right_trimmed s @ w"
  unfolding right_trimmed_def by (metis rev_append rev_rev_ident takeWhile_dropWhile_id)

lemma delete_trailing_settled: "settled out \<Longrightarrow> delete_trailing out = right_trimmed out"
proof (induction out)
  case (Cons c cs)
  have "settled cs"
    unfolding settled_def
  proof (intro allI impI)
    fix i assume "i + 2 < length cs" "cs ! (i + 1) = CHR 0x0D" "cs ! (i + 2) = CHR 0x0A"
    with Cons.prems [unfolded settled_def, rule_format, of "Suc i"] show "\<not> blank (cs ! i)" by simp
  qed
  with Cons.IH have IH: "delete_trailing cs = right_trimmed cs" by simp
  have "\<not> blank c" if r: "take 2 (right_trimmed cs) = CRLF"
  proof -
    obtain w where "cs = right_trimmed cs @ w" using right_trimmed_prefix by blast
    moreover obtain v where "right_trimmed cs = CRLF @ v" using r by (metis append_take_drop_id)
    ultimately have "cs = CHR 0x0D # CHR 0x0A # v @ w" by (simp add: CRLF_def)
    with Cons.prems [unfolded settled_def, rule_format, of 0] show ?thesis by simp
  qed
  then show ?case by (auto simp: IH right_trimmed_Cons Let_def)
qed (simp add: right_trimmed_def)

lemma settled_append: "settled out \<Longrightarrow> CHR 0x0A \<notin> set x \<Longrightarrow> settled (out @ x)"
  unfolding settled_def
proof (intro allI impI)
  fix i assume a: "\<forall>i. i + 2 < length out \<longrightarrow> out ! (i + 1) = CHR 0x0D \<longrightarrow> out ! (i + 2) = CHR 0x0A \<longrightarrow> \<not> blank (out ! i)"
    "CHR 0x0A \<notin> set x" "i + 2 < length (out @ x)" "(out @ x) ! (i + 1) = CHR 0x0D" "(out @ x) ! (i + 2) = CHR 0x0A"
  have "i + 2 < length out"
  proof (rule ccontr)
    assume "\<not> i + 2 < length out"
    then have "(out @ x) ! (i + 2) \<in> set x" using a(3) by (simp add: nth_append)
    with a(2,5) show False by simp
  qed
  with a show "\<not> blank ((out @ x) ! i)" by (simp add: nth_append)
qed

lemma settled_break: "settled out \<Longrightarrow> out = [] \<or> \<not> blank (last out) \<Longrightarrow> settled (out @ CRLF)"
  unfolding settled_def
proof (intro allI impI)
  fix i assume a: "\<forall>i. i + 2 < length out \<longrightarrow> out ! (i + 1) = CHR 0x0D \<longrightarrow> out ! (i + 2) = CHR 0x0A \<longrightarrow> \<not> blank (out ! i)"
    "out = [] \<or> \<not> blank (last out)" "i + 2 < length (out @ CRLF)" "(out @ CRLF) ! (i + 1) = CHR 0x0D" "(out @ CRLF) ! (i + 2) = CHR 0x0A"
  have "i < length out" using a(3) by (simp add: CRLF_def)
  then consider "i + 2 < length out" | "i + 2 = length out" | "i + 1 = length out" by linarith
  then show "\<not> blank ((out @ CRLF) ! i)"
  proof cases
    case 1
    with a show ?thesis by (simp add: nth_append)
  next
    case 2
    with a(5) show ?thesis by (simp add: nth_append CRLF_def)
  next
    case 3
    then have "out \<noteq> []" "length out - 1 = i" by auto
    then have "last out = out ! i" by (simp add: last_conv_nth)
    with a(2) 3 \<open>out \<noteq> []\<close> show ?thesis by (simp add: nth_append)
  qed
qed

lemma settled_butlast: "settled out \<Longrightarrow> settled (butlast out)"
  by (auto simp: settled_def nth_butlast)

lemma settled_close: "settled out \<Longrightarrow> settled (qp_close out @ CRLF)"
  by (rule settled_break) (auto simp: qp_close_def blank_def intro!: settled_append settled_butlast)

lemma qp_chunk_line: "CHR 0x0A \<notin> set (qp_chunk b)"
proof (cases "b = 0x3D \<or> b < 0x20 \<or> b > 0x7E")
  case True
  have "\<not> printable (CHR 0x0A)" by (simp add: printable_def)
  then have "CHR 0x0A \<noteq> hex_digit_upper (unat b div 16)" "CHR 0x0A \<noteq> hex_digit_upper (unat b mod 16)"
    using upper_hex [OF byte_parts(1) [of b]] upper_hex [OF byte_parts(2) [of b]] by metis+
  with True show ?thesis by (simp add: qp_chunk_def escaped_byte_def)
next
  case False
  have "CHR 0x0A \<noteq> (char_of (unat b) :: char)"
  proof
    assume e: "CHR 0x0A = (char_of (unat b) :: char)"
    have "unat b = 10" using byte_char [of b] unfolding e [symmetric] by simp
    then have "b = 0x0A" by (simp add: word_unat_eq_iff)
    with False show False by simp
  qed
  with False show ?thesis by (simp add: qp_chunk_def)
qed

lemma settled_push: "settled (fst acc) \<Longrightarrow> settled (fst (qp_push acc (qp_chunk b)))"
proof -
  assume s: "settled (fst acc)"
  have "settled ((fst acc @ ''='') @ CRLF)" by (rule settled_break, rule settled_append [OF s]) (simp_all add: blank_def)
  then have "settled (fst acc @ SOFT_BREAK)" by (simp add: SOFT_BREAK_def)
  from settled_append [OF this qp_chunk_line] have "settled (fst acc @ SOFT_BREAK @ qp_chunk b)" by simp
  with settled_append [OF s qp_chunk_line] show ?thesis by (auto simp: qp_push_def split: prod.split)
qed

lemma settled_loop: "settled (fst acc) \<Longrightarrow> settled (qp_loop acc rest)"
  by (induction acc rest rule: qp_loop.induct) (auto simp: settled_push settled_close)

lemma qp_right_trimmed:
  "qp out bs \<Longrightarrow> \<exists>bs' k. qp (right_trimmed out) bs' \<and> bs = bs' @ replicate k 0x20 \<and> (k = 0 \<or> out \<noteq> [] \<and> last out = CHR '' '')"
proof (induction "length out" arbitrary: out bs rule: less_induct)
  case less
  show ?case
  proof (cases "out \<noteq> [] \<and> last out = CHR '' ''")
    case True
    with qp_last_space [OF less.prems] obtain b0 where b0: "qp (butlast out) b0" "bs = b0 @ [0x20]" by blast
    from less.hyps [OF _ b0(1)] True obtain bs' k where "qp (right_trimmed (butlast out)) bs'" "b0 = bs' @ replicate k 0x20" by auto
    moreover have "right_trimmed out = right_trimmed (butlast out)"
    proof -
      obtain o' where "out = o' @ '' ''" using True by (metis append_butlast_last_id)
      then show ?thesis by (simp add: right_trimmed_def blank_def)
    qed
    ultimately show ?thesis using True b0(2) by (intro exI [of _ bs'] exI [of _ "Suc k"]) (simp add: replicate_append_same)
  next
    case False
    then have "right_trimmed out = out"
      using qp_no_tab [OF less.prems] by (cases out rule: rev_cases) (auto simp: right_trimmed_def blank_def)
    with less.prems show ?thesis by (intro exI [of _ bs] exI [of _ 0]) simp
  qed
qed

lemma last_normal_breaks: "s \<noteq> [] \<Longrightarrow> normal_breaks s \<noteq> [] \<and> last (normal_breaks s) = last s"
  by (induction s) (auto simp: CRLF_def)

lemma utf8_text_last_space: "t \<noteq> [] \<Longrightarrow> last (utf8_text t) = 0x20 \<Longrightarrow> last t = CHR '' ''"
proof (cases t rule: rev_cases)
  case (snoc t' c)
  assume l: "last (utf8_text t) = 0x20"
  define n where "n = (of_char c :: nat)"
  have n: "n < 256" "c = char_of n" by (simp_all add: n_def)
  define m where "m = (if n < 128 then n else 128 + n mod 64)"
  have "last (utf8_text t) = of_nat m" by (simp add: snoc utf8_text_def n_def m_def Let_def)
  then have "unat (of_nat m :: byte) = 32" using l by simp
  moreover have "n mod 64 < 64" by simp
  then have "m < 256" by (auto simp: m_def)
  ultimately have "m = 32" by (simp only: unat_of_nat) simp
  then have "of_char c = (of_char (CHR '' '') :: nat)" by (simp add: m_def n_def split: if_splits)
  then show ?thesis using snoc by (simp only: of_char_eq_iff) simp
qed simp

lemma client_reads_back:
  "\<exists>k. utf8_text (crlf_text s) = client_reads (quotedPrintable s) @ replicate k 0x20 \<and> (k = 0 \<or> s \<noteq> [] \<and> last s = CHR '' '')"
proof -
  let ?bs = "utf8_text (normal_breaks s)"
  have q: "qp (quotedPrintable s) ?bs"
    using qp_loop [of "([], 0)" "[]" ?bs] by (simp add: quotedPrintable_def qp.nothing)
  have "settled (quotedPrintable s)" unfolding quotedPrintable_def by (rule settled_loop) (simp add: settled_def)
  note del = delete_trailing_settled [OF this]
  from qp_right_trimmed [OF q] obtain bs' k where k: "qp (right_trimmed (quotedPrintable s)) bs'" "?bs = bs' @ replicate k 0x20"
      "k = 0 \<or> quotedPrintable s \<noteq> [] \<and> last (quotedPrintable s) = CHR '' ''" by blast
  have "client_reads (quotedPrintable s) = bs'" using qp_decodes [OF k(1), of "[]"] by (simp add: client_reads_def del)
  moreover have "s \<noteq> [] \<and> last s = CHR '' ''" if "k \<noteq> 0"
  proof -
    have "?bs \<noteq> []" "last ?bs = 0x20" using k(2) that by simp_all
    moreover from this have "s \<noteq> []" by (auto simp: utf8_text_def)
    ultimately show "s \<noteq> [] \<and> last s = CHR '' ''"
      using last_normal_breaks [of s] utf8_text_last_space [of "normal_breaks s"] by simp
  qed
  ultimately show ?thesis using k(2) by (intro exI [of _ k]) (auto simp: normal_breaks_crlf)
qed

lemma client_reads_exact: "s \<noteq> [] \<Longrightarrow> last s \<noteq> CHR '' '' \<Longrightarrow> client_reads (quotedPrintable s) = utf8_text (crlf_text s)"
  using client_reads_back [of s] by auto

lemma last_join: "xs \<noteq> [] \<Longrightarrow> last xs \<noteq> [] \<Longrightarrow> join sep xs \<noteq> [] \<and> last (join sep xs) = last (last xs)"
  by (induction xs) (auto simp: join_front)

lemma last_concat: "xs \<noteq> [] \<Longrightarrow> last xs \<noteq> [] \<Longrightarrow> concat xs \<noteq> [] \<and> last (concat xs) = last (last xs)"
  by (induction xs) auto

lemma mail_texts_end: "mail_plain m \<noteq> [] \<and> last (mail_plain m) = CHR ''.''" "mail_markup m \<noteq> [] \<and> last (mail_markup m) = CHR ''>''"
proof -
  obtain ls where p: "mail_plain m = join [CHR 0x0A] ls" "ls \<noteq> []" "last ls = ''Sent by '' @ mail_sender_name m @ '' ('' @ om_issuerHost m @ '').''"
    by (rule that, rule mail_plain_def) (simp_all only: last.simps list.simps(3) if_False if_True simp_thms)
  have "''Sent by '' @ x @ '' ('' @ y @ '').'' \<noteq> [] \<and> last (''Sent by '' @ x @ '' ('' @ y @ '').'') = CHR ''.''" for x y by simp
  then show "mail_plain m \<noteq> [] \<and> last (mail_plain m) = CHR ''.''" using last_join [of ls "[CHR 0x0A]"] p by metis
  obtain ps where h: "mail_markup m = concat ps" "ps \<noteq> []" "last ps = ''</body></html>''"
    by (rule that, rule mail_markup_def [unfolded Let_def]) (simp_all only: last.simps list.simps(3) if_False if_True simp_thms)
  have "''</body></html>'' \<noteq> [] \<and> last ''</body></html>'' = CHR ''>''" by simp
  then show "mail_markup m \<noteq> [] \<and> last (mail_markup m) = CHR ''>''" using last_concat [of ps] h by metis
qed

text \<open>C37: quoted-printable is read back. A mail client that deletes the white space at the ends of the encoded lines and decodes the rest
  has the text of the message, byte for byte, with its line breaks as CRLF, but for spaces at the very end of a text that ends
  in one; and so it has both bodies of the sign-in mail completely.\<close>

theorem quotedPrintable_roundtrip:
  "(\<exists>k. utf8_text (crlf_text s) = client_reads (quotedPrintable s) @ replicate k 0x20 \<and> (k = 0 \<or> s \<noteq> [] \<and> last s = CHR '' '')) \<and>
   client_reads (quotedPrintable (mt_text (otpMessage m))) = utf8_text (crlf_text (mt_text (otpMessage m))) \<and>
   client_reads (quotedPrintable (mt_html (otpMessage m))) = utf8_text (crlf_text (mt_html (otpMessage m)))"
  using client_reads_back [of s] client_reads_exact mail_texts_end [of m] by (simp add: otpMessage_def)

text \<open>A space at the end of the whole text is not encoded, so it is lost.\<close>

lemma final_space_lost: "client_reads (quotedPrintable ''a '') = utf8_text ''a''"
  by code_simp

text \<open>A full line that ends in a space grows by two when the space is encoded, past the 76 characters the encoder aims at.\<close>

lemma long_line: "takeWhile (\<lambda>c. c \<noteq> CHR 0x0D) (quotedPrintable (replicate 74 (CHR ''a'') @ '' '' @ [CHR 0x0A])) =
    replicate 74 (CHR ''a'') @ ''=20'' \<and> length (replicate 74 (CHR ''a'') @ ''=20'') = 77"
  by code_simp

section \<open>One line per header\<close>

definition one_line :: "string \<Rightarrow> bool" where
  "one_line s \<longleftrightarrow> list_all (\<lambda>c. \<not> line_end c) s"

lemma one_line_simps [simp]:
  "one_line []" "one_line (c # s) \<longleftrightarrow> \<not> line_end c \<and> one_line s" "one_line (a @ b) \<longleftrightarrow> one_line a \<and> one_line b"
  by (simp_all add: one_line_def)

lemma one_line_mono: "set a \<subseteq> set b \<Longrightarrow> one_line b \<Longrightarrow> one_line a"
  by (auto simp: one_line_def list_all_iff)

lemma line_end_literal [simp]: "line_end c \<longleftrightarrow> c = CHR 0x0A \<or> c = CHR 0x0D"
  by (simp add: line_end_def)

lemma one_line_b64: "one_line (b64 bs)"
proof -
  have "\<not> line_end c" if "c \<in> set B64_ALPHA" for c
    using B64_ALPHA_char [OF that] by (auto simp: is_alnum_def is_upper_def is_lower_def is_digit_def)
  then show ?thesis by (auto simp: b64_eq one_line_def list_all_iff dest: b64_chunks_alpha split: if_splits)
qed

lemma one_line_toHex: "one_line (toHex bs)"
proof -
  have "list_all (\<lambda>c. \<not> line_end c) HEX_DIGITS" by code_simp
  then show ?thesis by (auto simp: one_line_def list_all_iff dest!: toHex_digits)
qed

lemma one_line_encodeHeaderValue [simp]: "one_line (encodeHeaderValue s)"
proof (cases "list_all printable s")
  case True
  moreover have "\<not> line_end c" if "printable c" for c using that by (auto simp: printable_def)
  ultimately show ?thesis by (auto simp: encodeHeaderValue_def one_line_def list_all_iff)
qed (simp add: encodeHeaderValue_def one_line_b64 B64_ALPHA_def)

lemma set_trim: "set (trim s) \<subseteq> set s"
  by (auto simp: trim_def dest!: set_dropWhileD)

lemma set_mail_domain: "one_line s \<Longrightarrow> one_line (mail_domain s)"
proof -
  assume s: "one_line s"
  have "one_line p" if "p \<in> set (split_on (CHR ''@'') s)" for p
    using s that by (induction s arbitrary: p) (auto split: if_splits list.splits)
  then show ?thesis by (auto simp: mail_domain_def or_str_def split: list.split option.split)
qed

lemma one_line_parseAddress: "one_line s \<Longrightarrow> one_line (ad_address (parseAddress s))"
proof (cases "bracketed (trim s)")
  case None
  then show "one_line s \<Longrightarrow> ?thesis" using one_line_mono [OF set_trim] by (simp add: parseAddress_def)
next
  case (Some p)
  then obtain i where "snd p = drop (Suc i) (butlast (trim s))"
    by (auto simp: bracketed_def Let_def split: if_splits)
  then have "set (trim (snd p)) \<subseteq> set s"
    using set_trim [of "snd p"] set_trim [of s] set_drop_subset in_set_butlastD by fastforce
  with Some show "one_line s \<Longrightarrow> ?thesis"
    using one_line_mono by (auto simp: parseAddress_def split: prod.split)
qed

lemma one_line_formatAddress: "one_line (ad_address a) \<Longrightarrow> one_line (formatAddress a)"
  using one_line_mono [OF filter_is_subset one_line_encodeHeaderValue]
  by (auto simp: formatAddress_def split: option.split)

lemma one_line_mail: "looksLikeEmail (Some e) \<Longrightarrow> one_line e"
proof -
  assume "looksLikeEmail (Some e)"
  then obtain loc dm where s: "split_on (CHR ''@'') e = [loc, dm]" "\<not> list_ex is_space loc"
      "\<not> list_ex (\<lambda>l. l = [] \<or> list_ex (\<lambda>c. is_space c \<or> c = CHR ''@'') l) (split_on (CHR ''.'') dm)"
    by (auto simp: looksLikeEmail_def coalesce_def Let_def split: list.splits if_splits)
  have e: "e = loc @ CHR ''@'' # dm" using join_split_on [of "CHR ''@''" e] s(1) by simp
  have "c \<in> set dm \<Longrightarrow> c = CHR ''.'' \<or> (\<exists>l \<in> set (split_on (CHR ''.'') dm). c \<in> set l)" for c
    by (induction dm) (auto split: list.splits)
  with s(2,3) have "c \<in> set e \<Longrightarrow> \<not> line_end c" for c
    unfolding e list_ex_iff by (fastforce simp: is_space_def)
  then show "one_line e" by (simp add: one_line_def list_all_iff)
qed

lemma mime_headers_one_line:
  assumes "one_line (og_from msg)" "one_line (og_to msg)" "\<And>r. og_replyTo msg = Some r \<Longrightarrow> one_line r" "one_line date"
  shows "list_all one_line (mime_headers msg date idBytes boundaryBytes)"
proof -
  have "one_line (boundary_of boundaryBytes)"
    using one_line_mono [OF filter_is_subset one_line_b64] by (simp add: boundary_of_def)
  with assms show ?thesis
    by (auto simp: mime_headers_def messageId_def str_truthy_def
        intro!: one_line_formatAddress one_line_parseAddress one_line_toHex set_mail_domain split: option.splits)
qed


definition sample_mail :: outgoing where
  "sample_mail = \<lparr>og_to = ''jo@example.com'', og_from = ''SAG <sag@example.com>'', og_replyTo = None,
     og_subject = ''Hi'' @ CRLF @ ''Bcc: eve@example.com'', og_text = ''text'', og_html = ''html''\<rparr>"


end
