(* ===== verification/Smtp.thy ===== *)
theory Smtp
  imports Mime
begin

text \<open>
  Handing one message to a relay, \<^verbatim>\<open>src/email/smtp.js\<close>: the options of \<open>SMTP_URL\<close>, the reply framing, and one conversation. A
  connection is what happens on its socket, turn by turn; the TLS connection inside it has turns of its own.
\<close>

section \<open>Options\<close>

record smtp_options =
  so_host :: string
  so_port :: int
  so_secure :: bool
  so_username :: "string option"
  so_password :: "string option"
  so_rejectUnauthorized :: bool
  so_requireTls :: bool

text \<open>\<open>new URL(input)\<close> with its port and its query.\<close>

definition decoded :: "string \<Rightarrow> (string, string option) result" where
  "decoded s = (if s = [] then Inr None
     else (case decodeURIComponent s of None \<Rightarrow> Inl ''URI malformed'' | Some t \<Rightarrow> Inr (Some t)))"

definition parseSmtpUrl :: "(string \<Rightarrow> (url \<times> string \<times> params) option) \<Rightarrow> string \<Rightarrow> (string, smtp_options) result" where
  "parseSmtpUrl parse input =
     (case parse input of None \<Rightarrow> Inl ''Invalid URL''
      | Some (u, port, query) \<Rightarrow>
          if u_protocol u \<noteq> ''smtp:'' \<and> u_protocol u \<noteq> ''smtps:'' then Inl ''SMTP_URL must start with smtp:// or smtps://''
          else (let secure = (u_protocol u = ''smtps:''); n = int (read_nat port) in
            rbind (decoded (u_username u)) (\<lambda>username.
            rbind (decoded (u_password u)) (\<lambda>password.
            Inr \<lparr>so_host = u_hostname u, so_port = (if n \<noteq> 0 then n else if secure then 465 else 587), so_secure = secure,
                 so_username = username, so_password = password,
                 so_rejectUnauthorized = (map_of query ''insecure'' \<noteq> Some ''true''),
                 so_requireTls = (map_of query ''starttls'' \<noteq> Some ''false'')\<rparr>))))"

section \<open>Replies\<close>

text \<open>\<open>/^(\d{3}) [^\r\n]*\r\n/m\<close>: the code of the first complete final line.\<close>

definition final_line :: "string \<Rightarrow> nat option" where
  "final_line s =
     (if 4 \<le> length s \<and> list_all is_digit (take 3 s) \<and> s ! 3 = CHR '' '' \<and>
         take 2 (dropWhile (\<lambda>c. \<not> line_end c) (drop 4 s)) = CRLF
      then Some (read_nat (take 3 s)) else None)"

fun final_reply :: "bool \<Rightarrow> string \<Rightarrow> nat option" where
  "final_reply at_start [] = None"
| "final_reply at_start (c # cs) =
     (case (if at_start then final_line (c # cs) else None) of Some code \<Rightarrow> Some code | None \<Rightarrow> final_reply (line_end c) cs)"

definition ci_starts :: "string \<Rightarrow> string \<Rightarrow> bool" where
  "ci_starts s p \<longleftrightarrow> starts_with (to_lower s) (to_lower p)"

fun some_suffix :: "(string \<Rightarrow> bool) \<Rightarrow> string \<Rightarrow> bool" where
  "some_suffix test [] = test []"
| "some_suffix test (c # cs) = (test (c # cs) \<or> some_suffix test cs)"

text \<open>\<open>/^250[ -]STARTTLS(?:[ \t]|\r?$)/im\<close>.\<close>

definition starttls_line :: "string \<Rightarrow> bool" where
  "starttls_line s \<longleftrightarrow>
     (ci_starts s ''250 STARTTLS'' \<or> ci_starts s ''250-STARTTLS'') \<and>
     (case drop 12 s of [] \<Rightarrow> True | c # _ \<Rightarrow> c = CHR '' '' \<or> c = CHR 0x09 \<or> line_end c)"

fun offers_starttls :: "bool \<Rightarrow> string \<Rightarrow> bool" where
  "offers_starttls at_start [] = False"
| "offers_starttls at_start (c # cs) = (at_start \<and> starttls_line (c # cs) \<or> offers_starttls (line_end c) cs)"

text \<open>\<open>/AUTH[ =-][^\r\n]*PLAIN/i\<close> and its sibling.\<close>

definition offers_auth :: "string \<Rightarrow> string \<Rightarrow> bool" where
  "offers_auth method text \<longleftrightarrow>
     some_suffix (\<lambda>s. ci_starts s ''AUTH'' \<and> (case drop 4 s of [] \<Rightarrow> False
        | c # rest \<Rightarrow> c \<in> set '' =-'' \<and> some_suffix (\<lambda>t. ci_starts t method) (takeWhile (\<lambda>x. \<not> line_end x) rest))) text"

section \<open>A session\<close>

datatype event = Arrived string | Failed_Socket string

text \<open>
  One turn per wait of the client: what happens on the socket before the wait starts, and while it lasts. A relay that never
  answers is a turn without an answer, which the socket's own timer ends.
\<close>

type_synonym turn = "event list \<times> event list"

record session =
  se_buffer :: string
  se_failure :: "string option"
  se_turns :: "turn list"
  se_encrypted :: bool
  se_inside :: "turn list"
  se_log :: "(bool \<times> string) list"

type_synonym 'a talk = "session \<Rightarrow> (string, 'a) result \<times> session"

definition talk_then :: "'a talk \<Rightarrow> ('a \<Rightarrow> 'b talk) \<Rightarrow> 'b talk" where
  "talk_then m f se = (case m se of (Inl e, se') \<Rightarrow> (Inl e, se') | (Inr x, se') \<Rightarrow> f x se')"

definition say :: "'a \<Rightarrow> 'a talk" where "say x se = (Inr x, se)"
definition fail_with :: "string \<Rightarrow> 'a talk" where "fail_with e se = (Inl e, se)"

definition onEvent :: "event \<Rightarrow> session \<Rightarrow> session" where
  "onEvent e se =
     (case e of Arrived chunk \<Rightarrow> se\<lparr>se_buffer := se_buffer se @ chunk\<rparr> | Failed_Socket err \<Rightarrow> se\<lparr>se_failure := Some err\<rparr>)"

definition judge_reply :: "nat \<Rightarrow> nat \<Rightarrow> string \<Rightarrow> (string, string) result" where
  "judge_reply expected code reply =
     (if code \<noteq> expected
      then Inl (''SMTP relay replied '' @ show_nat code @ '' where '' @ show_nat expected @ '' was expected: '' @ trim reply)
      else Inr reply)"

text \<open>A reply consumes the whole buffer, and a failure stays.\<close>

definition flush :: "nat \<Rightarrow> session \<Rightarrow> ((string, string) result \<times> session) option" where
  "flush expected se =
     (case se_failure se of Some err \<Rightarrow> Some (Inl err, se)
      | None \<Rightarrow> map_option (\<lambda>code. (judge_reply expected code (se_buffer se), se\<lparr>se_buffer := []\<rparr>)) (final_reply True (se_buffer se)))"

fun await :: "nat \<Rightarrow> event list \<Rightarrow> session \<Rightarrow> (string, string) result \<times> session" where
  "await expected during se =
     (case flush expected se of Some (r, se') \<Rightarrow> (r, fold onEvent during se')
      | None \<Rightarrow> (case during of [] \<Rightarrow> (Inl ''SMTP connection timed out'', se) | e # es \<Rightarrow> await expected es (onEvent e se)))"

definition expect :: "nat \<Rightarrow> string talk" where
  "expect expected se =
     (case se_turns se of [] \<Rightarrow> await expected [] se
      | (before, during) # turns \<Rightarrow> await expected during (fold onEvent before (se\<lparr>se_turns := turns\<rparr>)))"

definition command :: "string \<Rightarrow> nat \<Rightarrow> string talk" where
  "command line expected se = expect expected (se\<lparr>se_log := se_log se @ [(se_encrypted se, line @ CRLF)]\<rparr>)"

text \<open>
  \<open>rebind\<close> to the TLS socket, which drops what had arrived in clear. \<open>secured\<close> tests \<open>socket.encrypted\<close>, which is true of every
  TLS socket from the start, so a handshake that fails is an event of the next wait.
\<close>

definition secure_channel :: "unit talk" where
  "secure_channel se =
     (Inr (), se\<lparr>se_buffer := [], se_failure := None, se_turns := se_inside se, se_encrypted := True\<rparr>)"

section \<open>One conversation\<close>

definition NUL :: char where "NUL = CHR 0x00"

definition b64Text :: "string \<Rightarrow> string" where "b64Text s = b64 (utf8_text s)"

definition upgrade :: "smtp_options \<Rightarrow> string \<Rightarrow> string \<Rightarrow> string talk" where
  "upgrade opts from capabilities =
     (if \<not> so_secure opts \<and> so_requireTls opts
      then if \<not> offers_starttls True capabilities then fail_with ''the SMTP relay does not advertise STARTTLS''
           else talk_then (command ''STARTTLS'' 220) (\<lambda>_. talk_then secure_channel (\<lambda>_. command (''EHLO '' @ mail_domain from) 250))
      else say capabilities)"

definition log_in :: "smtp_options \<Rightarrow> string \<Rightarrow> unit talk" where
  "log_in opts capabilities =
     (case so_username opts of None \<Rightarrow> say ()
      | Some username \<Rightarrow>
          let password = coalesce (so_password opts) ''undefined'' in
          if offers_auth ''PLAIN'' capabilities
          then talk_then (command (''AUTH PLAIN '' @ b64Text ([NUL] @ username @ [NUL] @ password)) 235) (\<lambda>_. say ())
          else if offers_auth ''LOGIN'' capabilities
          then talk_then (command ''AUTH LOGIN'' 334) (\<lambda>_. talk_then (command (b64Text username) 334) (\<lambda>_.
               talk_then (command (b64Text (coalesce (so_password opts) [])) 235) (\<lambda>_. say ())))
          else fail_with ''the relay advertises no authentication method this sender supports'')"

text \<open>\<open>raw.replace(/\r\n\./g, '\r\n..')\<close>.\<close>

fun dot_stuff :: "string \<Rightarrow> string" where
  "dot_stuff (a # b # c # s) =
     (if [a, b] = CRLF \<and> c = CHR ''.'' then CRLF @ ''..'' @ dot_stuff s else a # dot_stuff (b # c # s))"
| "dot_stuff s = s"

text \<open>The rejection of \<open>QUIT\<close> is swallowed.\<close>

definition quit :: "unit talk" where
  "quit se = (Inr (), snd (command ''QUIT'' 221 se))"

definition deliver :: "smtp_options \<Rightarrow> string \<Rightarrow> string \<Rightarrow> string \<Rightarrow> unit talk" where
  "deliver opts from to raw =
     talk_then (expect 220) (\<lambda>_.
     talk_then (command (''EHLO '' @ mail_domain from) 250) (\<lambda>greeting.
     talk_then (upgrade opts from greeting) (\<lambda>capabilities.
     talk_then (log_in opts capabilities) (\<lambda>_.
     talk_then (command (''MAIL FROM:<'' @ from @ ''>'') 250) (\<lambda>_.
     talk_then (command (''RCPT TO:<'' @ to @ ''>'') 250) (\<lambda>_.
     talk_then (command ''DATA'' 354) (\<lambda>_.
     talk_then (command (dot_stuff raw @ CRLF @ ''.'') 250) (\<lambda>_.
     quit))))))))"

definition connect :: "smtp_options \<Rightarrow> turn list \<Rightarrow> turn list \<Rightarrow> session" where
  "connect opts turns inside =
     \<lparr>se_buffer = [], se_failure = None, se_turns = turns, se_encrypted = so_secure opts, se_inside = inside, se_log = []\<rparr>"

section \<open>The sender\<close>

definition createSmtpSender ::
  "(string \<Rightarrow> (url \<times> string \<times> params) option) \<Rightarrow> email_config \<Rightarrow> (string, smtp_options) result" where
  "createSmtpSender parse c =
     (if \<not> str_truthy (em_smtpUrl c) then Inl ''EMAIL_PROVIDER is smtp but SMTP_URL is not set''
      else if \<not> str_truthy (em_from c) then Inl ''EMAIL_PROVIDER is smtp but EMAIL_FROM is not set''
      else parseSmtpUrl parse (the (em_smtpUrl c)))"

definition smtp_send ::
  "email_config \<Rightarrow> smtp_options \<Rightarrow> outgoing \<Rightarrow> string \<Rightarrow> bytes \<Rightarrow> bytes \<Rightarrow> turn list \<Rightarrow> turn list \<Rightarrow>
     (string, unit) result \<times> session" where
  "smtp_send c opts msg date idBytes boundaryBytes turns inside =
     (let from = or_str (Some (og_from msg)) (coalesce (em_from c) []);
          raw = buildMimeMessage (msg\<lparr>og_from := from\<rparr>) date idBytes boundaryBytes
      in deliver opts (ad_address (parseAddress from)) (ad_address (parseAddress (og_to msg))) raw (connect opts turns inside))"

section \<open>Credentials and messages travel encrypted\<close>

text \<open>What may be said in clear.\<close>

definition discreet :: "string \<Rightarrow> bool \<times> string \<Rightarrow> bool" where
  "discreet from entry \<longleftrightarrow> fst entry \<or> snd entry = ''EHLO '' @ mail_domain from @ CRLF \<or> snd entry = ''STARTTLS'' @ CRLF"

lemma onEvent_keeps [simp]: "se_log (onEvent e se) = se_log se" "se_encrypted (onEvent e se) = se_encrypted se"
  by (simp_all add: onEvent_def split: event.split)

lemma fold_onEvent_keeps [simp]:
  "se_log (fold onEvent es se) = se_log se" "se_encrypted (fold onEvent es se) = se_encrypted se"
  by (induction es arbitrary: se) simp_all

lemma flush_keeps: "flush expected se = Some (r, se') \<Longrightarrow> se_log se' = se_log se \<and> se_encrypted se' = se_encrypted se"
  by (auto simp: flush_def split: option.splits)

lemma await_keeps [simp]:
  "se_log (snd (await expected es se)) = se_log se" "se_encrypted (snd (await expected es se)) = se_encrypted se"
proof (induction es arbitrary: se)
  case Nil
  { case 1 then show ?case using flush_keeps by (auto split: option.split) }
  { case 2 then show ?case using flush_keeps by (auto split: option.split) }
next
  case (Cons e es)
  { case 1 then show ?case using flush_keeps Cons by (auto split: option.split) }
  { case 2 then show ?case using flush_keeps Cons by (auto split: option.split) }
qed

lemma expect_keeps [simp]:
  "se_log (snd (expect expected se)) = se_log se" "se_encrypted (snd (expect expected se)) = se_encrypted se"
  by (simp_all add: expect_def del: await.simps split: list.split prod.split)

lemma command_keeps:
  "se_log (snd (command line expected se)) = se_log se @ [(se_encrypted se, line @ CRLF)]"
  "se_encrypted (snd (command line expected se)) = se_encrypted se"
  by (simp_all add: command_def)

text \<open>From a session where only discreet things were said: they still are, and \<open>after\<close> says whether success needs TLS to be on.\<close>

definition quiet :: "string \<Rightarrow> bool \<Rightarrow> 'a talk \<Rightarrow> bool \<Rightarrow> bool" where
  "quiet from before m after \<longleftrightarrow>
     (\<forall>se. list_all (discreet from) (se_log se) \<longrightarrow> (before \<longrightarrow> se_encrypted se) \<longrightarrow>
        list_all (discreet from) (se_log (snd (m se))) \<and> (\<forall>x. fst (m se) = Inr x \<longrightarrow> after \<longrightarrow> se_encrypted (snd (m se))))"

named_theorems quietly

lemma quiet_then:
  assumes "quiet from before m mid" "\<And>x. quiet from mid (f x) after"
  shows "quiet from before (talk_then m f) after"
  unfolding quiet_def
proof (intro allI impI)
  fix se :: session assume se: "list_all (discreet from) (se_log se)" "before \<longrightarrow> se_encrypted se"
  obtain r se' where m: "m se = (r, se')" by force
  with assms(1) se have "list_all (discreet from) (se_log se')" "\<And>x. r = Inr x \<Longrightarrow> mid \<longrightarrow> se_encrypted se'"
    by (auto simp: quiet_def dest!: spec [of _ se])
  with assms(2) show "list_all (discreet from) (se_log (snd (talk_then m f se))) \<and>
      (\<forall>x. fst (talk_then m f se) = Inr x \<longrightarrow> after \<longrightarrow> se_encrypted (snd (talk_then m f se)))"
    by (cases r) (simp_all add: talk_then_def m quiet_def)
qed

lemma quiet_say [quietly]: "quiet from before (say x) before"
  by (simp add: quiet_def say_def)

lemma quiet_fail [quietly]: "quiet from before (fail_with e) after"
  by (simp add: quiet_def fail_with_def)

lemma quiet_expect [quietly]: "quiet from before (expect n) before"
  by (simp add: quiet_def)

lemma quiet_secret [quietly]: "quiet from True (command l n) True"
  by (simp add: quiet_def command_keeps discreet_def)

lemma quiet_greeting [quietly]: "quiet from before (command (''EHLO '' @ mail_domain from) n) before"
  by (simp add: quiet_def command_keeps discreet_def)

lemma quiet_starttls [quietly]: "quiet from before (command ''STARTTLS'' n) before"
  by (simp add: quiet_def command_keeps discreet_def)

lemma quiet_secured [quietly]: "quiet from before secure_channel True"
  by (simp add: quiet_def secure_channel_def)

lemma quiet_quit [quietly]: "quiet from True quit True"
  by (simp add: quiet_def quit_def command_keeps discreet_def)

lemma quiet_upgrade [quietly]:
  "so_secure opts \<or> so_requireTls opts \<Longrightarrow> quiet from (so_secure opts) (upgrade opts from c) True"
  unfolding upgrade_def by (auto intro!: quiet_then intro: quietly simp: quiet_say [of _ True])

lemma quiet_log_in [quietly]: "quiet from True (log_in opts c) True"
  unfolding log_in_def Let_def
  by (auto intro!: quiet_then [where mid = True] intro: quietly split: option.split)

lemma quiet_deliver:
  assumes "so_secure opts \<or> so_requireTls opts"
  shows "quiet from (so_secure opts) (deliver opts from to raw) True"
  unfolding deliver_def using assms
  by (intro quiet_then [where mid = "so_secure opts"] quiet_then [where mid = True] quietly)

text \<open>Success is a whole transaction, in order: the envelope, the message and the farewell close what was said.\<close>

lemma talk_then_Inr: "fst (talk_then m f se) = Inr y \<Longrightarrow> \<exists>x. fst (m se) = Inr x \<and> fst (f x (snd (m se))) = Inr y \<and>
    talk_then m f se = f x (snd (m se))"
  by (auto simp: talk_then_def split: prod.splits sum.splits)

definition said :: "session \<Rightarrow> string list" where
  "said se = map snd (se_log se)"

lemma said_command [simp]: "said (snd (command l n se)) = said se @ [l @ CRLF]"
  by (simp add: said_def command_keeps)

lemma deliver_complete:
  assumes "fst (deliver opts from to raw se) = Inr ()"
  shows "\<exists>before. said (snd (deliver opts from to raw se)) =
    before @ map (\<lambda>l. l @ CRLF) [''MAIL FROM:<'' @ from @ ''>'', ''RCPT TO:<'' @ to @ ''>'', ''DATA'',
      dot_stuff raw @ CRLF @ ''.'', ''QUIT'']"
  using assms unfolding deliver_def
  apply -
  apply (drule talk_then_Inr, elim exE conjE)+
  apply (simp add: quit_def)
  done

section \<open>What the relay reads\<close>

text \<open>A relay's reading of \<^verbatim>\<open>DATA\<close>: a line that is one dot ends the message, any other leading dot is dropped.\<close>

fun receive :: "bool \<Rightarrow> string \<Rightarrow> string option" where
  "receive start [] = None"
| "receive start (c # cs) =
     (if start \<and> c = CHR ''.'' then (if take 2 cs = CRLF then Some [] else receive False cs)
      else if c = CHR 0x0D \<and> cs \<noteq> [] \<and> hd cs = CHR 0x0A then map_option (\<lambda>r. CRLF @ r) (receive True (tl cs))
      else map_option (\<lambda>r. c # r) (receive False cs))"

lemma dot_stuff_cons: "c \<noteq> CHR 0x0D \<Longrightarrow> dot_stuff (c # s) = c # dot_stuff s"
  by (cases s rule: dot_stuff.cases; cases s) (auto simp: CRLF_def)

lemma dot_stuff_break: "s = [] \<or> hd s \<noteq> CHR ''.'' \<Longrightarrow> dot_stuff (CRLF @ s) = CRLF @ dot_stuff s"
  by (cases s) (auto simp: CRLF_def dot_stuff_cons)

lemma dot_stuff_alone: "s = [] \<or> hd s \<noteq> CHR 0x0A \<Longrightarrow> dot_stuff (c # s) = c # dot_stuff s"
  by (cases s; cases "tl s") (auto simp: CRLF_def)

lemma receive_dot_stuff:
  "\<not> (start \<and> raw \<noteq> [] \<and> hd raw = CHR ''.'') \<Longrightarrow>
     receive start (dot_stuff raw @ CRLF @ ''.'' @ CRLF) = Some (raw @ CRLF)"
proof (induction "length raw" arbitrary: start raw rule: less_induct)
  case less
  show ?case
  proof (cases raw)
    case Nil
    then show ?thesis by (simp add: CRLF_def)
  next
    case (Cons c s)
    show ?thesis
    proof (cases "c = CHR 0x0D \<and> s \<noteq> [] \<and> hd s = CHR 0x0A")
      case True
      then obtain t where t: "raw = CRLF @ t" using Cons by (cases s) (auto simp: CRLF_def)
      show ?thesis
      proof (cases "t \<noteq> [] \<and> hd t = CHR ''.''")
        case True
        then obtain u where u: "t = CHR ''.'' # u" by (cases t) auto
        have "receive False (dot_stuff u @ CRLF @ ''.'' @ CRLF) = Some (u @ CRLF)" using less(1) [of u False] t u by simp
        then show ?thesis using t u by (simp add: CRLF_def)
      next
        case False
        then have "receive True (dot_stuff t @ CRLF @ ''.'' @ CRLF) = Some (t @ CRLF)"
          using less(1) [of t True] t by (auto simp: CRLF_def)
        then show ?thesis using t False dot_stuff_break [of t] by (auto simp: CRLF_def)
      qed
    next
      case False
      have "dot_stuff raw = c # dot_stuff s"
        using False Cons dot_stuff_cons [of c s] dot_stuff_alone [of s c] by (cases "c = CHR 0x0D") auto
      moreover have "receive False (dot_stuff s @ CRLF @ ''.'' @ CRLF) = Some (s @ CRLF)" using less(1) [of s False] Cons by simp
      moreover have "\<not> (c = CHR 0x0D \<and> hd (dot_stuff s @ CRLF @ ''.'' @ CRLF) = CHR 0x0A)"
        using False by (cases s rule: dot_stuff.cases) (auto simp: CRLF_def)
      ultimately show ?thesis using Cons less(2) by auto
    qed
  qed
qed

lemma buildMimeMessage_starts: "\<exists>rest. buildMimeMessage msg date idBytes boundaryBytes = CHR ''F'' # rest"
  by (simp add: buildMimeMessage_def mime_headers_def)

section \<open>Properties\<close>

text \<open>C13: credentials and messages travel encrypted. With an \<^verbatim>\<open>smtps\<close> address, or while \<^verbatim>\<open>starttls\<close> is not waived, the only lines
  a conversation ever writes in clear are the greeting and the request for TLS, whatever the relay answers, so a relay or a
  man in the middle that hides STARTTLS obtains neither a password nor a code.\<close>

theorem smtp_confidential:
  assumes "so_secure opts \<or> so_requireTls opts"
    and "(False, sent) \<in> set (se_log (snd (deliver opts from to raw (connect opts turns inside))))"
  shows "sent = ''EHLO '' @ mail_domain from @ CRLF \<or> sent = ''STARTTLS'' @ CRLF"
proof -
  have "list_all (discreet from) (se_log (snd (deliver opts from to raw (connect opts turns inside))))"
    using quiet_deliver [OF assms(1)] by (simp add: quiet_def connect_def)
  with assms(2) show ?thesis by (auto simp: list_all_iff discreet_def)
qed

definition sample_options :: smtp_options where
  "sample_options = \<lparr>so_host = ''relay'', so_port = 587, so_secure = False, so_username = Some ''user'', so_password = Some ''pass'',
     so_rejectUnauthorized = True, so_requireTls = True\<rparr>"

definition sample_turns :: "turn list" where
  "sample_turns = [([], [Arrived (''220 hello'' @ CRLF)]), ([], [Arrived (''250-relay'' @ CRLF), Arrived (''250 STARTTLS'' @ CRLF)]),
     ([], [Arrived (''220 go'' @ CRLF)])]"

theorem smtp_confidential_witness:
  "(False, ''STARTTLS'' @ CRLF) \<in> set (se_log (snd (deliver sample_options ''a@b.c'' ''d@e.f'' ''raw'' (connect sample_options sample_turns [])))) \<and>
   (''STARTTLS'' @ CRLF = ''EHLO '' @ mail_domain ''a@b.c'' @ CRLF \<or> ''STARTTLS'' @ CRLF = ''STARTTLS'' @ CRLF)"
proof -
  have "list_ex (\<lambda>e. e = (False, ''STARTTLS'' @ CRLF)) (se_log (snd (deliver sample_options ''a@b.c'' ''d@e.f'' ''raw'' (connect sample_options sample_turns []))))"
    by code_simp
  then have "(False, ''STARTTLS'' @ CRLF) \<in> set (se_log (snd (deliver sample_options ''a@b.c'' ''d@e.f'' ''raw'' (connect sample_options sample_turns []))))"
    by (auto simp: list_ex_iff)
  moreover have "so_secure sample_options \<or> so_requireTls sample_options" by (simp add: sample_options_def)
  ultimately show ?thesis using smtp_confidential [of sample_options "''STARTTLS'' @ CRLF"] by blast
qed

text \<open>C39: the relay receives the message that was built. When the sender reports success, what it said ends with the envelope, the
  data and the farewell, and reading the data by the rules of SMTP ends exactly at its final dot and gives the built message
  back, lines that begin with a dot included.\<close>

theorem relay_receives_message:
  assumes "smtp_send c opts msg date idBytes boundaryBytes turns inside = (Inr (), se)"
    and "from = (if og_from msg = [] then coalesce (em_from c) [] else og_from msg)"
  shows "\<exists>before data. said se = before @
      [''MAIL FROM:<'' @ ad_address (parseAddress from) @ ''>'' @ CRLF, ''RCPT TO:<'' @ ad_address (parseAddress (og_to msg)) @ ''>'' @ CRLF,
       ''DATA'' @ CRLF, data, ''QUIT'' @ CRLF] \<and>
    receive True data = Some (buildMimeMessage (msg\<lparr>og_from := from\<rparr>) date idBytes boundaryBytes @ CRLF)"
proof -
  define raw where "raw = buildMimeMessage (msg\<lparr>og_from := from\<rparr>) date idBytes boundaryBytes"
  have "or_str (Some (og_from msg)) (coalesce (em_from c) []) = from" by (simp add: assms(2) or_str_def str_truthy_def)
  with assms(1) have d: "deliver opts (ad_address (parseAddress from)) (ad_address (parseAddress (og_to msg))) raw (connect opts turns inside) = (Inr (), se)"
    by (simp add: smtp_send_def Let_def raw_def)
  have starts: "raw \<noteq> []" "hd raw = CHR ''F''"
    using buildMimeMessage_starts [of "msg\<lparr>og_from := from\<rparr>" date idBytes boundaryBytes] by (auto simp: raw_def)
  have "receive True (dot_stuff raw @ CRLF @ ''.'' @ CRLF) = Some (raw @ CRLF)" by (rule receive_dot_stuff) (simp add: starts)
  moreover obtain before where "said se = before @ map (\<lambda>l. l @ CRLF) [''MAIL FROM:<'' @ ad_address (parseAddress from) @ ''>'',
      ''RCPT TO:<'' @ ad_address (parseAddress (og_to msg)) @ ''>'', ''DATA'', dot_stuff raw @ CRLF @ ''.'', ''QUIT'']"
    using deliver_complete [of opts "ad_address (parseAddress from)" "ad_address (parseAddress (og_to msg))" raw "connect opts turns inside"]
    unfolding d by auto
  ultimately show ?thesis
    by (intro exI [of _ before] exI [of _ "dot_stuff raw @ CRLF @ ''.'' @ CRLF"]) (simp add: raw_def)
qed

definition plain_options :: smtp_options where
  "plain_options = sample_options\<lparr>so_secure := True, so_username := None\<rparr>"

definition dotted_mail :: outgoing where
  "dotted_mail = \<lparr>og_to = ''d@e.f'', og_from = ''a@b.c'', og_replyTo = None, og_subject = ''s'', og_text = ''x'' @ [CHR 0x0A] @ ''.y'', og_html = ''h''\<rparr>"

definition polite_turns :: "turn list" where
  "polite_turns = map (\<lambda>l. ([], [Arrived (l @ CRLF)]))
     [''220 hello'', ''250 relay'', ''250 ok'', ''250 ok'', ''354 go on'', ''250 queued'', ''221 bye'']"

lemma dotted_delivered:
  "fst (smtp_send c plain_options dotted_mail ''now'' [1] [2] polite_turns []) = Inr ()"
  unfolding smtp_send_def Let_def dotted_mail_def by code_simp

theorem relay_receives_message_witness:
  "\<exists>data. data \<in> set (said (snd (smtp_send (c_email sample_config) plain_options dotted_mail ''now'' [1] [2] polite_turns []))) \<and>
     receive True data = Some (buildMimeMessage dotted_mail ''now'' [1] [2] @ CRLF)"
proof -
  let ?r = "smtp_send (c_email sample_config) plain_options dotted_mail ''now'' [1] [2] polite_turns []"
  have "?r = (Inr (), snd ?r)" using dotted_delivered by (metis prod.collapse)
  from relay_receives_message [OF this refl] show ?thesis by (auto simp: dotted_mail_def)
qed

end
