(* ===== verification/Mailers.thy ===== *)
theory Mailers
  imports Smtp Jose Sigv4
begin

text \<open>
  The mail senders, \<^verbatim>\<open>src/email/\<close>: the factory by name, and for each provider what it refuses to start without, the request it
  sends and how it reads the answer. The provider's HTTP interface is the parameter \<open>fetch\<close>; the body of an answer is its text
  (\<open>None\<close> when it cannot be read).
\<close>

section \<open>What a sender is given and answers\<close>

record mail_message =
  mm_to :: string
  mm_from :: "string option"
  mm_replyTo :: "string option"
  mm_subject :: string
  mm_text :: string
  mm_html :: string
  mm_code :: "string option"
  mm_ttlMinutes :: int
  mm_personalisation :: "(string \<times> json) list"

record delivered_mail =
  dv_delivered :: bool
  dv_id :: "json option"
  dv_code :: "string option"
  dv_redirected :: "string option"

definition delivered_as :: "json option \<Rightarrow> delivered_mail" where
  "delivered_as identifier = \<lparr>dv_delivered = True, dv_id = identifier, dv_code = None, dv_redirected = None\<rparr>"

text \<open>\<open>msg.from || config.email.from\<close>, where the sender has checked the second.\<close>

definition sender_of :: "email_config \<Rightarrow> mail_message \<Rightarrow> string" where
  "sender_of c m = or_str (mm_from m) (or_str (em_from c) [])"

definition reply_to_of :: "email_config \<Rightarrow> mail_message \<Rightarrow> string option" where
  "reply_to_of c m = (if str_truthy (mm_replyTo m) then mm_replyTo m else if str_truthy (em_replyTo c) then em_replyTo c else None)"

text \<open>\<open>res.text().catch(() => '')\<close> and \<open>res.json().catch(() => ({}))\<close>.\<close>

record answer_in =
  ai_status :: int
  ai_opaque :: bool
  ai_text :: "string option"

type_synonym mail_fetch = "http_call \<Rightarrow> (string, answer_in) result"

definition mail_accepted :: "answer_in \<Rightarrow> bool" where
  "mail_accepted res \<longleftrightarrow> 200 \<le> ai_status res \<and> ai_status res \<le> 299"

definition refuse_redirect :: "mail_fetch \<Rightarrow> http_call \<Rightarrow> (string, answer_in) result" where
  "refuse_redirect fetch call =
     rbind (fetch call) (\<lambda>res.
       if ai_opaque res \<or> 300 \<le> ai_status res \<and> ai_status res < 400 \<and> ai_status res \<noteq> 304
       then Inl (''refusing to follow a redirect (HTTP '' @ show_int (ai_status res) @ '')'') else Inr res)"

definition answer_json :: "platform \<Rightarrow> answer_in \<Rightarrow> json" where
  "answer_json pf res = coalesce (Option.bind (ai_text res) (pf_parse pf)) (JObj [])"

definition rejected_by :: "string \<Rightarrow> answer_in \<Rightarrow> string" where
  "rejected_by who res =
     who @ '' rejected the message (HTTP '' @ show_int (ai_status res) @ ''): '' @ take 300 (coalesce (ai_text res) [])"

definition post_json :: "string \<Rightarrow> headers \<Rightarrow> string \<Rightarrow> http_call" where
  "post_json url hs content = \<lparr>hc_url = url, hc_method = ''POST'', hc_headers = hs, hc_body = Some content\<rparr>"

definition jstr_field :: "string \<Rightarrow> string \<Rightarrow> string \<times> json option" where
  "jstr_field k v = (k, Some (JStr v))"

section \<open>Amazon SES\<close>

record ses_sender =
  ss_region :: string
  ss_endpoint :: string

definition createSesSender :: "email_config \<Rightarrow> (string, ses_sender) result" where
  "createSesSender c =
     (if \<not> str_truthy (em_sesRegion c) then Inl ''EMAIL_PROVIDER is ses but neither SES_REGION nor AWS_REGION is set''
      else if \<not> str_truthy (em_from c) then Inl ''EMAIL_PROVIDER is ses but EMAIL_FROM is not set''
      else (let region = the (em_sesRegion c) in
        Inr \<lparr>ss_region = region, ss_endpoint = ''https://email.'' @ region @ ''.amazonaws.com/v2/email/outbound-emails''\<rparr>))"

definition utf8_data :: "string \<Rightarrow> json" where
  "utf8_data s = jobj [jstr_field ''Data'' s, jstr_field ''Charset'' ''UTF-8'']"

definition ses_payload :: "email_config \<Rightarrow> mail_message \<Rightarrow> json" where
  "ses_payload c m =
     jobj [jstr_field ''FromEmailAddress'' (sender_of c m),
       (''Destination'', Some (jobj [(''ToAddresses'', Some (JArr [JStr (mm_to m)]))])),
       (''Content'', Some (jobj [(''Simple'', Some (jobj
         [(''Subject'', Some (utf8_data (mm_subject m))),
          (''Body'', Some (jobj [(''Text'', Some (utf8_data (mm_text m))), (''Html'', Some (utf8_data (mm_html m)))]))]))])),
       (''ReplyToAddresses'', map_option (\<lambda>r. JArr [JStr r]) (reply_to_of c m)),
       (''ConfigurationSetName'', if str_truthy (em_sesConfigurationSet c) then map_option JStr (em_sesConfigurationSet c) else None)]"

definition ses_signed :: "ses_sender \<Rightarrow> (string \<times> string) list \<Rightarrow> string \<Rightarrow> sign_args" where
  "ses_signed s env content =
     \<lparr>sa_method = ''POST'', sa_host = ''email.'' @ ss_region s @ ''.amazonaws.com'', sa_pathname = ''/v2/email/outbound-emails'',
      sa_query = [], sa_body = content, sa_service = ''ses'', sa_region = ss_region s,
      sa_credentials = credentialsFromEnv env, sa_headers = [(''content-type'', ''application/json'')],
      sa_includeContentSha256 = True\<rparr>"

definition ses_send ::
  "platform \<Rightarrow> mail_fetch \<Rightarrow> email_config \<Rightarrow> (string \<times> string) list \<Rightarrow> ses_sender \<Rightarrow> int \<Rightarrow> mail_message \<Rightarrow> (string, delivered_mail) result" where
  "ses_send pf fetch c env s now m =
     (let content = pf_stringify pf (ses_payload c m) in
      rbind (signRequest pf now (ses_signed s env content)) (\<lambda>hs.
      rbind (refuse_redirect fetch (post_json (ss_endpoint s) hs content)) (\<lambda>res.
      if \<not> mail_accepted res then Inl (rejected_by ''SES'' res)
      else Inr (delivered_as (jget (answer_json pf res) ''MessageId'')))))"

section \<open>MailChannels\<close>

definition createMailchannelsSender :: "email_config \<Rightarrow> (string, unit) result" where
  "createMailchannelsSender c =
     (if \<not> str_truthy (em_from c) then Inl ''EMAIL_PROVIDER is mailchannels but EMAIL_FROM is not set'' else Inr ())"

definition mailchannels_payload :: "email_config \<Rightarrow> mail_message \<Rightarrow> json" where
  "mailchannels_payload c m =
     (let from = parseAddress (sender_of c m) in
      jobj [(''personalizations'', Some (JArr [jobj [(''to'', Some (JArr [jobj [jstr_field ''email'' (mm_to m)]]))]])),
        (''from'', Some (jobj [jstr_field ''email'' (ad_address from), (''name'', map_option JStr (ad_name from))])),
        jstr_field ''subject'' (mm_subject m),
        (''content'', Some (JArr
          [jobj [jstr_field ''type'' ''text/plain'', jstr_field ''value'' (mm_text m)],
           jobj [jstr_field ''type'' ''text/html'', jstr_field ''value'' (mm_html m)]])),
        (''reply_to'', map_option (\<lambda>r. jobj [jstr_field ''email'' (ad_address (parseAddress r))]) (reply_to_of c m))])"

definition mailchannels_send :: "platform \<Rightarrow> mail_fetch \<Rightarrow> email_config \<Rightarrow> mail_message \<Rightarrow> (string, delivered_mail) result" where
  "mailchannels_send pf fetch c m =
     (let hs = (''content-type'', ''application/json'') #
           (if str_truthy (em_mailchannelsApiKey c) then [(''x-api-key'', the (em_mailchannelsApiKey c))] else [])
      in rbind (refuse_redirect fetch (post_json (em_mailchannelsEndpoint c) hs (pf_stringify pf (mailchannels_payload c m)))) (\<lambda>res.
         if \<not> mail_accepted res then Inl (rejected_by ''MailChannels'' res) else Inr (delivered_as None)))"

section \<open>GOV.UK Notify\<close>

definition uuid_chars :: "string \<Rightarrow> bool" where
  "uuid_chars s \<longleftrightarrow> length s = 36 \<and> list_all (\<lambda>c. c \<in> set ''0123456789abcdef-'') (to_lower s)"

record notify_key =
  nk_serviceId :: string
  nk_secret :: string

definition parseNotifyKey :: "string option \<Rightarrow> (string, notify_key) result" where
  "parseNotifyKey apiKey =
     (let key = trim (coalesce apiKey []); n = length key; secret = drop (n - 36) key; serviceId = take 36 (drop (n - 73) key)
      in if n < 73 then Inl ''NOTIFY_API_KEY is too short to be a Notify key''
         else if \<not> uuid_chars secret \<or> \<not> uuid_chars serviceId
         then Inl ''NOTIFY_API_KEY is not in the expected <name>-<service id>-<secret> form''
         else Inr \<lparr>nk_serviceId = serviceId, nk_secret = secret\<rparr>)"

definition createNotifySender :: "email_config \<Rightarrow> (string, notify_key) result" where
  "createNotifySender c =
     (if \<not> str_truthy (em_notifyApiKey c) then Inl ''EMAIL_PROVIDER is notify but NOTIFY_API_KEY is not set''
      else if \<not> str_truthy (em_notifyTemplateId c) then Inl ''EMAIL_PROVIDER is notify but NOTIFY_TEMPLATE_ID is not set''
      else parseNotifyKey (em_notifyApiKey c))"

text \<open>\<open>signHs256\<close> of \<^verbatim>\<open>src/crypto/jose.js\<close>: the compact form with \<open>alg\<close> set last.\<close>

definition signHs256 :: "platform \<Rightarrow> string \<Rightarrow> json \<Rightarrow> string" where
  "signHs256 pf secret payload =
     (let input = signingInput pf (jobj [jstr_field ''typ'' ''JWT'', jstr_field ''alg'' ''HS256'']) payload
      in input @ ''.'' @ b64u (pf_hmac pf ''SHA-256'' (utf8 secret) (utf8 input)))"

definition notify_payload :: "email_config \<Rightarrow> mail_message \<Rightarrow> json" where
  "notify_payload c m =
     jobj [jstr_field ''email_address'' (mm_to m), (''template_id'', map_option JStr (em_notifyTemplateId c)),
       (''personalisation'', Some (foldl (\<lambda>j (k, v). jput j k (Some v))
          (jobj [(''code'', map_option JStr (mm_code m)), (''ttl_minutes'', Some (JNum (mm_ttlMinutes m)))]) (mm_personalisation m)))]"

definition notify_call :: "platform \<Rightarrow> email_config \<Rightarrow> notify_key \<Rightarrow> int \<Rightarrow> mail_message \<Rightarrow> http_call" where
  "notify_call pf c k now m =
     (let token = signHs256 pf (nk_secret k) (jobj [jstr_field ''iss'' (nk_serviceId k), (''iat'', Some (JNum (now div 1000)))])
      in post_json (strip_trailing (CHR ''/'') (em_notifyBaseUrl c) @ ''/v2/notifications/email'')
           [(''content-type'', ''application/json''), (''authorization'', ''Bearer '' @ token)]
           (pf_stringify pf (notify_payload c m)))"

definition notify_send ::
  "platform \<Rightarrow> mail_fetch \<Rightarrow> email_config \<Rightarrow> notify_key \<Rightarrow> int \<Rightarrow> mail_message \<Rightarrow> (string, delivered_mail) result" where
  "notify_send pf fetch c k now m =
     rbind (refuse_redirect fetch (notify_call pf c k now m)) (\<lambda>res.
       if \<not> mail_accepted res then Inl (rejected_by ''Notify'' res) else Inr (delivered_as (jget (answer_json pf res) ''id'')))"

section \<open>Cloudflare Email Routing\<close>

text \<open>The binding is a function of the envelope and the raw message, when it is bound and can send.\<close>

type_synonym mail_binding = "string \<Rightarrow> string \<Rightarrow> string \<Rightarrow> (string, unit) result"

definition createCloudflareSender :: "email_config \<Rightarrow> (string \<Rightarrow> mail_binding option) \<Rightarrow> (string, mail_binding) result" where
  "createCloudflareSender c env =
     (case env (em_cloudflareBindingName c) of
        None \<Rightarrow> Inl (''EMAIL_PROVIDER is cloudflare but no send_email binding is bound as '' @ em_cloudflareBindingName c)
      | Some binding \<Rightarrow>
          if \<not> str_truthy (em_from c) then Inl ''EMAIL_PROVIDER is cloudflare but EMAIL_FROM is not set'' else Inr binding)"

definition outgoing_of :: "mail_message \<Rightarrow> string \<Rightarrow> string \<Rightarrow> outgoing" where
  "outgoing_of m to from =
     \<lparr>og_to = to, og_from = from, og_replyTo = mm_replyTo m, og_subject = mm_subject m, og_text = mm_text m, og_html = mm_html m\<rparr>"

definition cloudflare_send ::
  "email_config \<Rightarrow> bool \<Rightarrow> mail_binding \<Rightarrow> mail_message \<Rightarrow> string \<Rightarrow> bytes \<Rightarrow> bytes \<Rightarrow> (string, delivered_mail) result" where
  "cloudflare_send c insideWorker binding m date idBytes boundaryBytes =
     (let to = or_str (em_cloudflareDestination c) (mm_to m);
          from = ad_address (parseAddress (sender_of c m));
          raw = buildMimeMessage (outgoing_of m to (sender_of c m)) date idBytes boundaryBytes
      in if \<not> insideWorker then Inl ''the cloudflare email sender only works inside a Cloudflare Worker''
         else rbind (binding from to raw) (\<lambda>_.
           Inr ((delivered_as None)\<lparr>dv_redirected := (if to = mm_to m then None else Some to)\<rparr>)))"

section \<open>The console\<close>

text \<open>What is printed, one call of \<open>console.log\<close>, and the answer.\<close>

definition console_send :: "config \<Rightarrow> string \<Rightarrow> mail_message \<Rightarrow> string option \<times> delivered_mail" where
  "console_send c banner m =
     (let out = (delivered_as None)\<lparr>dv_code := (if c_devMode c then mm_code m else None)\<rparr>;
          lns = [[], banner, ''  SAG email (not actually sent - EMAIL_PROVIDER=console)'', ''  To:      '' @ mm_to m,
                 ''  Subject: '' @ mm_subject m] @
                (if str_truthy (mm_code m) then [[], ''  CODE:    '' @ the (mm_code m), []] else []) @ [banner, []]
      in if c_logLevel c = ''silent'' then (None, out) else (Some (join [CHR 10] lns), out))"

section \<open>The configured sender\<close>

datatype sender =
    Console_Sender
  | Ses_Sender ses_sender
  | Notify_Sender notify_key
  | Mailchannels_Sender
  | Cloudflare_Sender mail_binding
  | Smtp_Sender smtp_options

definition createEmailSender ::
  "(string \<Rightarrow> (url \<times> string \<times> params) option) \<Rightarrow> (string \<Rightarrow> mail_binding option) \<Rightarrow> email_config \<Rightarrow> (string, sender) result" where
  "createEmailSender parse env c =
     (let name = em_provider c in
      if name = ''console'' then Inr Console_Sender
      else if name = ''ses'' then rbind (createSesSender c) (\<lambda>x. Inr (Ses_Sender x))
      else if name = ''notify'' then rbind (createNotifySender c) (\<lambda>x. Inr (Notify_Sender x))
      else if name = ''mailchannels'' then rbind (createMailchannelsSender c) (\<lambda>_. Inr Mailchannels_Sender)
      else if name = ''cloudflare'' then rbind (createCloudflareSender c env) (\<lambda>x. Inr (Cloudflare_Sender x))
      else if name = ''smtp'' then rbind (createSmtpSender parse c) (\<lambda>x. Inr (Smtp_Sender x))
      else Inl (''unknown EMAIL_PROVIDER: '' @ name))"

definition isConsoleSender :: "config \<Rightarrow> bool" where
  "isConsoleSender c \<longleftrightarrow> em_provider (c_email c) = ''console''"

section \<open>Facts\<close>

text \<open>The code a person is mailed is answered to the caller by the console alone, and only in development.\<close>

lemma console_code: "dv_code (snd (console_send c banner m)) = Some code \<Longrightarrow> c_devMode c"
  by (auto simp: console_send_def delivered_as_def Let_def split: if_splits)

lemma senders_keep_code:
  "ses_send pf fetch c env s now m = Inr d \<Longrightarrow> dv_code d = None"
  "mailchannels_send pf fetch c m = Inr d \<Longrightarrow> dv_code d = None"
  "notify_send pf fetch c k now m = Inr d \<Longrightarrow> dv_code d = None"
  "cloudflare_send c inside binding m date i b = Inr d \<Longrightarrow> dv_code d = None"
  by (auto simp: ses_send_def mailchannels_send_def notify_send_def cloudflare_send_def delivered_as_def Let_def rbind_def
      split: sum.splits if_splits)

text \<open>A Notify key is read back from its three parts.\<close>

lemma parseNotifyKey_parts:
  assumes "uuid_chars sid" "uuid_chars secret" "trim (name @ ''-'' @ sid @ ''-'' @ secret) = name @ ''-'' @ sid @ ''-'' @ secret"
    and "name \<noteq> []"
  shows "parseNotifyKey (Some (name @ ''-'' @ sid @ ''-'' @ secret)) = Inr \<lparr>nk_serviceId = sid, nk_secret = secret\<rparr>"
  using assms by (simp add: parseNotifyKey_def coalesce_def uuid_chars_def Let_def)

end
