(* ===== verification/Pages.thy ===== *)
theory Pages
  imports Logout
begin

text \<open>
  The screens, \<^verbatim>\<open>src/ui/pages.js\<close> and the shell around them, \<^verbatim>\<open>src/ui/layout.js\<close>. A page is a list of fragments: literal
  markup, a value that the template escapes, a checked address that it escapes, a number. The scanner of the second half reads the
  rendered text as a browser's tokeniser does, and shows that no value reaches the markup.
\<close>

section \<open>Fragments\<close>

datatype fragment = Raw string | Esc string | Link string | Num int

fun render_fragment :: "fragment \<Rightarrow> string" where
  "render_fragment (Raw s) = s"
| "render_fragment (Esc v) = escapeHtml (Some v)"
| "render_fragment (Link v) = escapeHtml (Some v)"
| "render_fragment (Num n) = show_int n"

definition render :: "fragment list \<Rightarrow> string" where
  "render fs = concat (map render_fragment fs)"

text \<open>A new line of a template, indented.\<close>

definition line :: "nat \<Rightarrow> string \<Rightarrow> fragment" where
  "line n s = Raw (CHR 10 # replicate n (CHR '' '') @ s)"

definition shown_if :: "bool \<Rightarrow> fragment list \<Rightarrow> fragment list" where
  "shown_if b fs = (if b then fs else [])"

fun separated :: "fragment list \<Rightarrow> fragment list list \<Rightarrow> fragment list" where
  "separated glue [] = []"
| "separated glue [fs] = fs"
| "separated glue (fs # rest) = fs @ glue @ separated glue rest"

definition value_text :: "string option \<Rightarrow> string" where "value_text v = or_str v []"

section \<open>The shell\<close>

record view =
  vw_web :: web
  vw_config :: config
  vw_css :: string
  vw_custom :: "string option"
  vw_js :: string

definition route_to :: "view \<Rightarrow> string \<Rightarrow> string" where
  "route_to v p = c_basePath (vw_config v) @ p"

definition checked :: "view \<Rightarrow> string option \<Rightarrow> bool \<Rightarrow> string option" where
  "checked v url allowHttp = safeHttpUrl (wb_parse (vw_web v)) url allowHttp"

definition the_link :: "string option \<Rightarrow> fragment" where "the_link v = Link (coalesce v [])"

definition headAssets :: "view \<Rightarrow> fragment list" where
  "headAssets v =
     (let ui = c_ui (vw_config v);
          base = (if str_truthy (ui_customCssRemoteUrl ui) then checked v (ui_customCssRemoteUrl ui) True else Some (vw_css v))
      in separated [line 4 []]
           (shown_if (str_truthy base) [Raw ''<link rel=\"stylesheet\" href=\"'', Esc (the base), Raw ''\">''] #
            (if str_truthy (vw_custom v) then [[Raw ''<link rel=\"stylesheet\" href=\"'', Esc (the (vw_custom v)), Raw ''\">'']] else []) @
            [[Raw ''<script src=\"'', Esc (vw_js v), Raw ''\"></script>'']]))"

definition themeSlot :: "fragment list" where
  "themeSlot = [Raw ''<div data-theme-control data-label=\"Colour theme\"></div>'']"

definition issuer_host :: "view \<Rightarrow> string" where
  "issuer_host v = (case wb_target (vw_web v) (c_issuer (vw_config v)) of None \<Rightarrow> [] | Some (host, _) \<Rightarrow> host)"

definition anchor :: "string option \<Rightarrow> string \<Rightarrow> fragment list list" where
  "anchor url label = (if str_truthy url then [[Raw ''<a href=\"'', the_link url, Raw (''\">'' @ label @ ''</a>'')]] else [])"

definition footerBlock :: "view \<Rightarrow> legal_links \<Rightarrow> fragment list" where
  "footerBlock v legal =
     (let ui = c_ui (vw_config v);
          support = checked v (ui_supportUrl ui) True;
          terms = (if str_truthy (lg_terms legal) then lg_terms legal else checked v (ui_termsUrl ui) True);
          privacy = (if str_truthy (lg_privacy legal) then lg_privacy legal else checked v (ui_privacyUrl ui) True);
          links = anchor terms ''Terms of use'' @ anchor privacy ''Privacy notice''
      in separated [line 6 []]
           ((if str_truthy support then [[Raw ''<p><a href=\"'', the_link support, Raw ''\">Get help signing in</a></p>'']] else []) @
            [[Raw ''<p>Sign-in is handled by <span class=\"host\">'', Esc (issuer_host v), Raw ''</span>.</p>'']] @
            (if links \<noteq> [] then [[Raw ''<p class=\"legal\">''] @
               separated [Raw '' <span aria-hidden=\"true\">&middot;</span> ''] links @ [Raw ''</p>'']] else []) @
            [[Raw ''<p class=\"powered\">Powered by <a href=\"'', Esc (ui_brandUrl ui), Raw ''\" rel=\"noopener\">'', Esc (ui_brandName ui),
              Raw ''</a>''] @ (if ui_whitelabel ui then [] else [Raw '' '', Esc (ui_productName ui)]) @ [Raw ''</p>'']]))"

definition logo_image :: "string \<Rightarrow> string option \<Rightarrow> string option \<Rightarrow> fragment list" where
  "logo_image cls url alt =
     shown_if (str_truthy url) [Raw (''<p class=\"'' @ cls @ ''\"><img src=\"''), the_link url, Raw ''\" alt=\"'', Esc (value_text alt), Raw ''\"></p>'']"

definition page_title :: "ui_config \<Rightarrow> string \<Rightarrow> string" where
  "page_title ui title =
     (let own = (if ui_title ui = [] then ''Sign in'' else ui_title ui) in if title \<noteq> [] then title @ '' - '' @ own else own)"

definition layout :: "view \<Rightarrow> string \<Rightarrow> fragment list \<Rightarrow> legal_links \<Rightarrow> string option \<Rightarrow> string option \<Rightarrow> fragment list" where
  "layout v title content legal clientLogoUri clientLogoAlt =
     (let ui = c_ui (vw_config v);
          logo = checked v (ui_logoUrl ui) True;
          clientLogo = checked v clientLogoUri (c_devMode (vw_config v))
      in [Raw ''<!DOCTYPE html>'', line 0 ''<html lang=\"'', Esc (if ui_locale ui = [] then ''en-GB'' else ui_locale ui), Raw ''\">'',
          line 2 ''<head>'', line 4 ''<meta charset=\"utf-8\">'',
          line 4 ''<meta name=\"viewport\" content=\"width=device-width, initial-scale=1\">'',
          line 4 ''<meta name=\"robots\" content=\"noindex, nofollow\">'',
          line 4 ''<meta name=\"referrer\" content=\"no-referrer\">'',
          line 4 ''<meta name=\"color-scheme\" content=\"light dark\">'',
          line 4 ''<title>'', Esc (page_title ui title), Raw ''</title>'', line 4 []] @ headAssets v @
         [line 2 ''</head>'', line 2 ''<body>'', line 4 ''<main>'', line 6 []] @ logo_image ''client-logo'' clientLogo clientLogoAlt @
         [line 6 []] @ content @
         [line 4 ''</main>'', line 4 ''<footer>'', line 6 []] @ footerBlock v legal @
         [line 6 []] @ themeSlot @ [line 6 []] @ logo_image ''logo'' logo (ui_organisation ui) @
         [line 4 ''</footer>'', line 2 ''</body>'', line 0 ''</html>'', line 0 []])"

definition errorBlock :: "page_error option \<Rightarrow> fragment list" where
  "errorBlock error =
     (case error of None \<Rightarrow> []
      | Some e \<Rightarrow>
          if pe_title e = [] \<and> pe_detail e = [] then []
          else [Raw ''<div class=\"error\" role=\"alert\">''] @
               shown_if (pe_title e \<noteq> []) [Raw ''<strong>'', Esc (pe_title e), Raw ''</strong>''] @
               shown_if (pe_detail e \<noteq> []) [Esc (pe_detail e)] @ [Raw ''</div>''])"

definition noticeBlock :: "fragment list \<Rightarrow> fragment list" where
  "noticeBlock content = shown_if (content \<noteq> []) ([Raw ''<div class=\"notice\">''] @ content @ [Raw ''</div>''])"

definition identityBlock :: "identity_card \<Rightarrow> string option \<Rightarrow> fragment list" where
  "identityBlock who how =
     (let primary = (if str_truthy (ic_name who) then ic_name who else ic_email who);
          secondary = filter str_truthy [if str_truthy (ic_name who) then ic_email who else None, how]
      in [Raw ''<div class=\"identity\">''] @
         shown_if (str_truthy (ic_picture who))
           [Raw ''<img class=\"avatar\" src=\"'', Esc (value_text (ic_picture who)), Raw ''\" alt=\"\" width=\"44\" height=\"44\">''] @
         [Raw ''<span class=\"who\"><strong>'', Esc (value_text primary), Raw ''</strong>''] @
         concat (map (\<lambda>l. [Raw ''<span>'', Esc (value_text l), Raw ''</span>'']) secondary) @
         [Raw ''</span></div>''])"

definition hiddenFields :: "(string \<times> string option) list \<Rightarrow> fragment list" where
  "hiddenFields items =
     separated [line 8 []]
       (map (\<lambda>(k, v). [Raw ''<input type=\"hidden\" name=\"'', Esc k, Raw ''\" value=\"'', Esc (value_text v), Raw ''\">''])
         (filter (\<lambda>(k, v). str_truthy v) items))"

section \<open>The pages\<close>

definition invalid_mark :: "page_error option \<Rightarrow> fragment list" where
  "invalid_mark error = shown_if (error \<noteq> None) [Raw ''aria-invalid=\"true\"'']"

definition form_start :: "nat \<Rightarrow> string \<Rightarrow> fragment list" where
  "form_start n action = [line n ''<form method=\"post\" action=\"'', Esc action, Raw ''\">'']"

definition emailPage ::
  "view \<Rightarrow> string \<Rightarrow> string option \<Rightarrow> bool \<Rightarrow> page_error option \<Rightarrow> string option \<Rightarrow> string option \<Rightarrow> legal_links \<Rightarrow> bool \<Rightarrow> bool \<Rightarrow>
     fragment list" where
  "emailPage v tx email rememberMe error clientName clientLogoUri legal otpRecovery showOtpRecovery =
     layout v ''Sign in''
       ([line 6 ''<h1>Sign in</h1>'', line 6 ''<p class=\"lede\">''] @
        (if str_truthy clientName
         then [Raw ''Continue to <strong>'', Esc (the clientName), Raw ''</strong> by confirming your email address.'']
         else [Raw ''Enter your email address to continue.'']) @
        [Raw ''</p>'', line 6 []] @ errorBlock error @ form_start 6 (route_to v ''/authorize/email'') @
        [line 8 []] @ hiddenFields [(''tx'', Some tx)] @
        [line 8 ''<div class=\"field\">'', line 10 ''<label for=\"email\">Email address</label>'',
         line 10 ''<input id=\"email\" name=\"email\" type=\"email\" inputmode=\"email\"'',
         line 17 ''autocomplete=\"username\" spellcheck=\"false\"'',
         line 17 ''required value=\"'', Esc (value_text email), Raw ''\"'', line 17 []] @ invalid_mark error @
        [Raw ''>'', line 8 ''</div>'', line 8 ''<div class=\"remember-me\">'',
         line 10 ''<input id=\"remember_me\" name=\"remember_me\" type=\"checkbox\" value=\"1\"'', line 17 []] @
        shown_if rememberMe [Raw ''checked''] @
        [Raw ''>'', line 10 ''<label for=\"remember_me\">Remember me</label>'', line 8 ''</div>'',
         line 8 ''<button type=\"submit\" data-busy-label=\"Continuing...\"''] @ shown_if otpRecovery [Raw '' data-otp-recovery''] @
        [Raw ''>Continue</button>'', line 8 []] @
        shown_if (otpRecovery \<and> showOtpRecovery)
          [Raw ''<div class=\"also\"><button type=\"submit\" name=\"method\" value=\"otp\" class=\"secondary\" data-busy-label=\"Sending...\">Email a one-time PIN</button></div>''] @
        [line 6 ''</form>''])
       legal clientLogoUri clientName"

definition other_form :: "nat \<Rightarrow> string \<Rightarrow> string \<Rightarrow> string \<Rightarrow> fragment list" where
  "other_form n tx action label =
     form_start n action @ [line (n + 2) []] @ hiddenFields [(''tx'', Some tx)] @
     [line (n + 2) (''<button type=\"submit\" class=\"secondary\">'' @ label @ ''</button>''), line n ''</form>'']"

definition otpPage ::
  "view \<Rightarrow> string \<Rightarrow> string option \<Rightarrow> page_error option \<Rightarrow> string option \<Rightarrow> bool \<Rightarrow> string option \<Rightarrow> string option \<Rightarrow> legal_links \<Rightarrow>
     fragment list" where
  "otpPage v tx email error devCode resent clientLogoUri clientLogoAlt legal =
     (let codeLength = otp_codeLength (c_otp (vw_config v));
          alphanumeric = (otp_codeAlphabet (c_otp (vw_config v)) = ''alphanumeric'');
          notice = (if str_truthy devCode
             then noticeBlock [Raw ''Development mode: your sign-in code is <code>'', Esc (the devCode),
                    Raw ''</code> It is printed to the server console too, and no email was sent.'']
             else if resent then noticeBlock [Raw ''A new code is on its way. The previous one no longer works.''] else []);
          describe = [Num codeLength, Raw (if alphanumeric then ''-character'' else ''-digit'')];
          hint = [Num codeLength, Raw (if alphanumeric
             then '' letters and numbers, from the email we just sent. Capitals do not matter.''
             else '' digits, from the email we just sent.'')];
          kind = (if alphanumeric then ''alphanumeric'' else ''numeric'')
      in layout v ''Check your email''
       ([line 6 ''<h1>Check your email</h1>'', line 6 ''<p class=\"lede\">We have sent a ''] @ describe @
        [Raw '' code to <strong>'', Esc (value_text email), Raw ''</strong>.</p>'', line 6 []] @ errorBlock error @ [line 6 []] @ notice @
        form_start 6 (route_to v ''/authorize/otp'') @ [line 8 []] @ hiddenFields [(''tx'', Some tx)] @
        [line 8 ''<div class=\"field\">'', line 10 ''<label for=\"code\">Sign-in code</label>'',
         line 10 ''<span class=\"hint\" id=\"code-hint\">''] @ hint @
        [Raw ''</span>'', line 10 ''<input id=\"code\" name=\"code\" type=\"text\" class=\"code\"'',
         line 17 (''inputmode=\"'' @ (if alphanumeric then ''text'' else ''numeric'') @ ''\" autocomplete=\"one-time-code\"''),
         line 17 ''autocapitalize=\"characters\" autocorrect=\"off\" spellcheck=\"false\"'',
         line 17 (''pattern=\"'' @ (if alphanumeric then ''[0-9A-Za-z '' @ [CHR 0x5C] @ ''-]*'' else ''[0-9 '' @ [CHR 0x5C] @ ''-]*'') @ ''\" maxlength=\"''),
         Num (codeLength + 4), Raw ''\"'',
         line 17 ''data-length=\"'', Num codeLength, Raw (''\" data-alphabet=\"'' @ kind @ ''\"''),
         line 17 ''aria-describedby=\"code-hint\" required'', line 17 []] @ invalid_mark error @
        [Raw ''>'', line 8 ''</div>'', line 8 ''<button type=\"submit\" data-busy-label=\"Signing in...\">Sign in</button>'',
         line 6 ''</form>'', line 6 ''<div class=\"also\">''] @
        other_form 8 tx (route_to v ''/authorize/resend'') ''Send another code'' @
        other_form 8 tx (route_to v ''/authorize/restart'') ''Use a different email address'' @ [line 6 ''</div>''])
       legal clientLogoUri clientLogoAlt)"

definition alternative_form :: "view \<Rightarrow> string \<Rightarrow> string \<times> string \<Rightarrow> fragment list" where
  "alternative_form v tx = (\<lambda>(uid, label).
     [Raw ''<form method=\"post\" action=\"'', Esc (route_to v ''/authorize/upstream''), Raw ''\">''] @
     hiddenFields [(''tx'', Some tx), (''upstream'', Some uid)] @
     [Raw ''<button type=\"submit\" class=\"secondary\" data-busy-label=\"Redirecting...\">Continue with '', Esc label,
      Raw ''</button></form>''])"

definition localPasswordPage ::
  "view \<Rightarrow> string \<Rightarrow> string option \<Rightarrow> page_error option \<Rightarrow> (string \<times> string) list \<Rightarrow> string option \<Rightarrow> string option \<Rightarrow> legal_links \<Rightarrow>
     fragment list" where
  "localPasswordPage v tx email error upstreams clientLogoUri clientLogoAlt legal =
     (let alternatives = separated [line 10 []]
            (map (alternative_form v tx) upstreams)
      in layout v ''Enter your password''
       ([line 6 ''<h1>Enter your password</h1>'', line 6 ''<p class=\"lede\">Sign in as <strong>'', Esc (value_text email), Raw ''</strong>.</p>'',
         line 6 []] @ errorBlock error @ form_start 6 (route_to v ''/authorize/local-password'') @
        [line 8 []] @ hiddenFields [(''tx'', Some tx)] @
        [line 8 ''<input type=\"hidden\" name=\"username\" autocomplete=\"username\" value=\"'', Esc (value_text email), Raw ''\">'',
         line 8 ''<div class=\"field\">'', line 10 ''<label for=\"password\">Password</label>'',
         line 10 ''<input id=\"password\" name=\"password\" type=\"password\"'',
         line 17 ''autocomplete=\"current-password\" autocapitalize=\"none\" autocorrect=\"off\"'',
         line 17 ''spellcheck=\"false\" maxlength=\"'', Esc (show_int (li_maxPasswordBytes (c_localIdentities (vw_config v)))), Raw ''\" required'',
         line 17 []] @ invalid_mark error @
        [Raw ''>'', line 8 ''</div>'', line 8 ''<button type=\"submit\" data-busy-label=\"Signing in...\">Sign in</button>'', line 6 ''</form>'',
         line 6 ''<div class=\"also\">'', line 8 []] @ alternatives @
        other_form 8 tx (route_to v ''/authorize/restart'') ''Use a different email address'' @ [line 6 ''</div>''])
       legal clientLogoUri clientLogoAlt)"

definition submit_at :: "nat list \<Rightarrow> fragment list" where
  "submit_at totpDigits =
     (if 8 \<in> set totpDigits then [Raw '' data-submit-at=\"'', Num 8, Raw ''\"'']
      else if 6 \<in> set totpDigits then [Raw '' data-submit-at=\"'', Num 6, Raw ''\"''] else [])"

definition localMfaPage ::
  "view \<Rightarrow> string \<Rightarrow> string option \<Rightarrow> page_error option \<Rightarrow> nat list \<Rightarrow> string option \<Rightarrow> string option \<Rightarrow> legal_links \<Rightarrow> fragment list" where
  "localMfaPage v tx email error totpDigits clientLogoUri clientLogoAlt legal =
     layout v ''Verification code''
       ([line 6 ''<h1 id=\"totp-label\">Enter a verification code</h1>'',
         line 6 ''<p class=\"lede\" id=\"totp-hint\">Use an authenticator code for <strong>'', Esc (value_text email), Raw ''</strong></p>'', line 6 []] @
        errorBlock error @ form_start 6 (route_to v ''/authorize/local-mfa'') @ [line 8 []] @ hiddenFields [(''tx'', Some tx)] @
        [line 8 ''<div class=\"field\">'', line 10 ''<input id=\"totp\" name=\"code\" type=\"text\" class=\"code otp-input totp-input\"'',
         line 17 ''inputmode=\"numeric\" autocomplete=\"one-time-code\" autocapitalize=\"none\"'',
         line 17 (''autocorrect=\"off\" spellcheck=\"false\" pattern=\"[0-9 '' @ [CHR 0x5C] @ ''-]*\"''),
         line 17 ''placeholder=\"XXXXXX\" minlength=\"6\" maxlength=\"10\"''] @ submit_at totpDigits @
        [line 17 ''aria-labelledby=\"totp-label\" aria-describedby=\"totp-hint\" required'', line 17 []] @ invalid_mark error @
        [Raw ''>'', line 8 ''</div>'', line 8 ''<button type=\"submit\" data-busy-label=\"Verifying...\">Verify</button>'', line 6 ''</form>'',
         line 6 ''<details class=\"recovery\"''] @ shown_if (error \<noteq> None) [Raw '' open''] @
        [Raw ''>'', line 8 ''<summary>Use a backup code</summary>''] @ form_start 8 (route_to v ''/authorize/local-mfa'') @
        [line 10 []] @ hiddenFields [(''tx'', Some tx)] @
        [line 10 ''<div class=\"field\">'', line 12 ''<label for=\"backup-code\">Backup code</label>'',
         line 12 ''<span class=\"hint\" id=\"backup-code-hint\">Enter one of your single-use backup codes, including its hyphens.</span>'',
         line 12 ''<input id=\"backup-code\" name=\"code\" type=\"text\" class=\"code backup-code\"'',
         line 19 ''inputmode=\"text\" autocomplete=\"off\" autocapitalize=\"characters\"'',
         line 19 ''autocorrect=\"off\" spellcheck=\"false\" maxlength=\"64\"'',
         line 19 ''aria-describedby=\"backup-code-hint\" required'', line 19 []] @ invalid_mark error @
        [Raw ''>'', line 10 ''</div>'', line 10 ''<button type=\"submit\" data-busy-label=\"Verifying...\">Verify backup code</button>'',
         line 8 ''</form>'', line 6 ''</details>'', line 6 ''<div class=\"also\">''] @
        other_form 8 tx (route_to v ''/authorize/restart'') ''Use a different account'' @ [line 6 ''</div>''])
       legal clientLogoUri clientLogoAlt"

definition describeMethod :: "json \<Rightarrow> string" where
  "describeMethod session =
     (let acr = coalesce (as_str (jget session ''acr'')) [] in
      if str_truthy (as_str (jget session ''upstreamLabel'')) then ''Signed in with '' @ the (as_str (jget session ''upstreamLabel''))
      else if ends_with acr ''email-otp'' then ''Verified by email code''
      else if ends_with acr ''local-mfa'' then ''Signed in with password and verification code''
      else if ends_with acr ''local-password'' then ''Signed in with password'' else ''Already signed in'')"

definition continuePage ::
  "view \<Rightarrow> string \<Rightarrow> json \<Rightarrow> identity_card option \<Rightarrow> string option \<Rightarrow> string option \<Rightarrow> page_error option \<Rightarrow> legal_links \<Rightarrow> fragment list" where
  "continuePage v tx session identity clientName clientLogoUri error legal =
     (let who = coalesce identity \<lparr>ic_email = as_str (jget session ''email''), ic_name = None, ic_picture = None\<rparr>
      in layout v ''Continue''
       ([line 6 ''<h1>Continue signing in</h1>'', line 6 ''<p class=\"lede\">''] @
        (if str_truthy clientName then [Esc (the clientName), Raw '' is asking you to sign in.''] else [Raw ''Confirm the account to use.'']) @
        [Raw ''</p>'', line 6 []] @ errorBlock error @ [line 6 []] @ identityBlock who (Some (describeMethod session)) @
        form_start 6 (route_to v ''/authorize/continue'') @ [line 8 []] @ hiddenFields [(''tx'', Some tx)] @
        [line 8 ''<button type=\"submit\" data-busy-label=\"Continuing...\">Continue as '',
         Esc (value_text (if str_truthy (ic_name who) then ic_name who else ic_email who)), Raw ''</button>'', line 6 ''</form>'',
         line 6 ''<div class=\"also\">''] @
        other_form 8 tx (route_to v ''/authorize/restart'') ''Use a different account'' @ [line 6 ''</div>''])
       legal clientLogoUri clientName)"

definition signedOutPage :: "view \<Rightarrow> string option \<Rightarrow> string option \<Rightarrow> legal_links \<Rightarrow> fragment list" where
  "signedOutPage v returnTo returnLabel legal =
     (let safeReturnTo = checked v returnTo (c_devMode (vw_config v))
      in layout v ''Signed out''
       ([line 6 ''<h1>You are signed out</h1>'', line 6 ''<p class=\"lede\">Your sign-in session on this device has ended.</p>'', line 6 []] @
        shown_if (str_truthy safeReturnTo)
          [Raw ''<a class=\"button\" href=\"'', the_link safeReturnTo, Raw ''\">Return to '', Esc (or_str returnLabel ''the application''), Raw ''</a>''])
       legal None None)"

definition confirmLogoutPage ::
  "view \<Rightarrow> string \<Rightarrow> string option \<Rightarrow> identity_card option \<Rightarrow> string option \<Rightarrow> string option \<Rightarrow> bool \<Rightarrow> legal_links \<Rightarrow> fragment list" where
  "confirmLogoutPage v token email identity clientName cancelUrl shared legal =
     (let who = (if str_truthy (Option.bind identity ic_email) then identity
                 else if str_truthy email then Some \<lparr>ic_email = email, ic_name = None, ic_picture = None\<rparr> else None);
          safeCancelUrl = checked v cancelUrl (c_devMode (vw_config v))
      in layout v ''Sign out''
       ([line 6 ''<h1>Sign out?</h1>'', line 6 ''<p class=\"lede\">''] @
        (if shared
         then [Raw ''Signing out ends your session for every application that uses this sign-in service, not just '',
               Esc (or_str clientName ''this one''), Raw ''.'']
         else [Raw ''This will end your session for '', Esc (or_str clientName ''this application''), Raw ''.'']) @
        [Raw ''</p>'', line 6 []] @ (case who of None \<Rightarrow> [] | Some w \<Rightarrow> identityBlock w None) @
        form_start 6 (route_to v ''/logout'') @ [line 8 []] @ hiddenFields [(''lt'', Some token)] @
        [line 8 ''<button type=\"submit\" data-busy-label=\"Signing out...\">Sign out</button>'', line 6 ''</form>'', line 6 []] @
        shown_if (str_truthy safeCancelUrl)
          [Raw ''<div class=\"also\"><a class=\"button secondary\" href=\"'', the_link safeCancelUrl, Raw ''\">Stay signed in</a></div>''])
       legal None None)"

definition errorPage :: "view \<Rightarrow> string \<Rightarrow> string \<Rightarrow> string option \<Rightarrow> fragment list" where
  "errorPage v title detail reference =
     layout v title
       ([line 6 ''<h1>'', Esc title, Raw ''</h1>'', line 6 ''<p class=\"lede\">'', Esc detail, Raw ''</p>'', line 6 []] @
        shown_if (str_truthy reference) [Raw ''<p class=\"notice\">Reference: <code>'', Esc (value_text reference), Raw ''</code></p>''] @
        [line 6 ''<p class=\"lede\">If you were part-way through signing in, start again from the application you came from. Opening this page directly will not work.</p>''])
       no_legal None None"

definition chooser_item :: "view \<Rightarrow> string \<Rightarrow> string option \<Rightarrow> string \<times> string \<Rightarrow> fragment list" where
  "chooser_item v tx hinted = (\<lambda>(uid, label).
     [Raw ''<li><form method=\"post\" action=\"'', Esc (route_to v ''/authorize/upstream''), Raw ''\">''] @
     hiddenFields [(''tx'', Some tx), (''upstream'', Some uid)] @
     [Raw ''<button type=\"submit\"''] @ shown_if (str_truthy hinted \<and> Some uid \<noteq> hinted) [Raw '' class=\"secondary\"''] @
     [Raw '' data-busy-label=\"Redirecting...\">'', Esc label, Raw ''</button></form></li>''])"

definition chooserPage ::
  "view \<Rightarrow> string \<Rightarrow> string option \<Rightarrow> (string \<times> string) list \<Rightarrow> string option \<Rightarrow> page_error option \<Rightarrow> bool \<Rightarrow> string option \<Rightarrow> string option \<Rightarrow>
     legal_links \<Rightarrow> fragment list" where
  "chooserPage v tx email options hinted error otp clientLogoUri clientLogoAlt legal =
     (let items = separated [line 8 []]
            (map (chooser_item v tx hinted) options);
          lede = (if str_truthy hinted
             then [Raw ''The mail records for <strong>'',
                   Esc (case split_on (CHR ''@'') (value_text email) of _ # d # _ \<Rightarrow> d | _ \<Rightarrow> []),
                   Raw ''</strong> suggest the first option. Choose another if that is not where your account is.'']
             else [Raw ''More than one option is available for <strong>'', Esc (value_text email), Raw ''</strong>.''])
      in layout v ''Choose how to sign in''
       ([line 6 ''<h1>Choose how to sign in</h1>'', line 6 ''<p class=\"lede\">''] @ lede @ [Raw ''</p>'', line 6 []] @ errorBlock error @
        [line 6 ''<ul class=\"choices\">'', line 8 []] @ items @ [line 6 ''</ul>'', line 6 []] @
        shown_if otp ([Raw ''<div class=\"also\"><form method=\"post\" action=\"'', Esc (route_to v ''/authorize/otp-request''), Raw ''\">''] @
          hiddenFields [(''tx'', Some tx)] @ [Raw ''<button type=\"submit\" class=\"secondary\">Email me a code instead</button></form></div>'']))
       legal clientLogoUri clientLogoAlt)"

text \<open>The page an answer carries, with the arguments its handler gives the template.\<close>

fun page_html :: "view \<Rightarrow> string option \<Rightarrow> legal_links \<Rightarrow> string option \<Rightarrow> page \<Rightarrow> fragment list" where
  "page_html v client legal logo (EmailPage tx email rememberMe error otpRecovery showOtp) =
     emailPage v tx email rememberMe error client logo legal otpRecovery showOtp"
| "page_html v client legal logo (OtpPage tx email error devCode resent) = otpPage v tx email error devCode resent logo client legal"
| "page_html v client legal logo (LocalPasswordPage tx email error upstreams) =
     localPasswordPage v tx email error upstreams logo client legal"
| "page_html v client legal logo (LocalMfaPage tx email error digits) = localMfaPage v tx email error digits logo client legal"
| "page_html v client legal logo (ContinuePage tx session identity error) =
     continuePage v tx session identity client logo error legal"
| "page_html v client legal logo (ChooserPage tx email options hinted error otp) =
     chooserPage v tx email options hinted error otp logo client legal"
| "page_html v client legal logo (SignedOutPage returnTo label) = signedOutPage v returnTo label legal"
| "page_html v client legal logo (ConfirmLogoutPage token email identity clientName cancelUrl shared) =
     confirmLogoutPage v token email identity clientName cancelUrl shared legal"
| "page_html v client legal logo (ErrorPage title detail) = errorPage v title detail None"

section \<open>Reading the markup\<close>

text \<open>
  The tokeniser's states that these pages reach: text, inside a tag, inside a double-quoted attribute value. A page has no
  unquoted or single-quoted attribute with a value of its own, no comment, and no text inside its script element.
\<close>

datatype markup = In_Text | In_Tag | In_Quotes

fun read_char :: "markup \<Rightarrow> char \<Rightarrow> markup" where
  "read_char In_Text c = (if c = CHR ''<'' then In_Tag else In_Text)"
| "read_char In_Tag c = (if c = CHR ''>'' then In_Text else if c = CHR 0x22 then In_Quotes else In_Tag)"
| "read_char In_Quotes c = (if c = CHR 0x22 then In_Tag else In_Quotes)"

fun read_markup :: "markup \<Rightarrow> string \<Rightarrow> markup" where
  "read_markup st [] = st"
| "read_markup st (c # cs) = read_markup (read_char st c) cs"

text \<open>The skeleton: what is inside tags, without the attribute values and the text.\<close>

fun skeleton :: "markup \<Rightarrow> string \<Rightarrow> string" where
  "skeleton st [] = []"
| "skeleton st (c # cs) =
     (if st = In_Tag \<or> read_char st c = In_Tag then c # skeleton (read_char st c) cs else skeleton (read_char st c) cs)"

fun blank :: "fragment \<Rightarrow> fragment" where
  "blank (Raw s) = Raw s"
| "blank other = Raw []"

fun fits :: "markup \<Rightarrow> fragment list \<Rightarrow> markup option" where
  "fits st [] = Some st"
| "fits st (Raw s # fs) = fits (read_markup st s) fs"
| "fits st (_ # fs) = (if st = In_Tag then None else fits st fs)"

lemma read_markup_append [simp]: "read_markup st (a @ b) = read_markup (read_markup st a) b"
  by (induction a arbitrary: st) simp_all

lemma skeleton_append: "skeleton st (a @ b) = skeleton st a @ skeleton (read_markup st a) b"
  by (induction a arbitrary: st) simp_all

lemma fits_append [simp]: "fits st (a @ b) = Option.bind (fits st a) (\<lambda>st'. fits st' b)"
  by (induction st a rule: fits.induct) simp_all

definition inert :: "string \<Rightarrow> bool" where
  "inert s \<longleftrightarrow> list_all (\<lambda>c. c \<noteq> CHR ''<'' \<and> c \<noteq> CHR 0x22) s"

lemma inert_reads:
  assumes "inert s" "st \<noteq> In_Tag"
  shows "read_markup st s = st \<and> skeleton st s = []"
  using assms by (induction s) (cases st; auto simp: inert_def)+

lemma inert_escapeHtml: "inert (escapeHtml (Some v))"
  unfolding escapeHtml_single_pass inert_def list_all_iff using entity_safe by fastforce

lemma inert_show_int: "inert (show_int n)"
  by (auto simp: inert_def list_all_iff show_int_def is_digit_def dest!: show_nat_digits split: if_splits)

lemma render_Cons [simp]: "render (f # fs) = render_fragment f @ render fs"
  by (simp add: render_def)

lemma render_Nil [simp]: "render [] = []"
  by (simp add: render_def)

text \<open>Values that sit where \<open>fits\<close> asks leave the markup as the literals alone make it.\<close>

lemma fits_inert:
  "fits st fs = Some st' \<Longrightarrow> read_markup st (render fs) = st' \<and> skeleton st (render fs) = skeleton st (render (map blank fs))"
proof (induction st fs rule: fits.induct)
  case (2 st s fs)
  then show ?case by (simp add: skeleton_append)
qed (use inert_reads inert_escapeHtml inert_show_int in \<open>auto simp: skeleton_append split: if_splits\<close>)


section \<open>Every page fits\<close>

definition whole :: "fragment list \<Rightarrow> bool" where
  "whole fs \<longleftrightarrow> fits In_Text fs = Some In_Text"

lemma read_blank: "read_markup st (CHR 10 # replicate n (CHR '' '') @ s) = read_markup st s"
proof -
  have "read_markup st (replicate n (CHR '' '')) = st" by (induction n) (cases st; simp)+
  then show ?thesis by (cases st) simp_all
qed

lemma fits_line [simp]: "fits st (line n s # fs) = fits (read_markup st s) fs"
  by (simp add: line_def read_blank del: read_markup.simps read_markup_append)

lemma fits_shown_if [simp]: "fits st (shown_if b fs) = (if b then fits st fs else Some st)"
  by (simp add: shown_if_def)

lemma whole_append: "whole a \<Longrightarrow> whole b \<Longrightarrow> whole (a @ b)"
  by (simp add: whole_def)

lemma whole_separated: "whole glue \<Longrightarrow> (\<And>fs. fs \<in> set items \<Longrightarrow> whole fs) \<Longrightarrow> whole (separated glue items)"
  by (induction glue items rule: separated.induct) (simp_all add: whole_def)

lemma whole_concat: "(\<And>fs. fs \<in> set items \<Longrightarrow> whole fs) \<Longrightarrow> whole (concat items)"
  by (induction items) (simp_all add: whole_def)

lemma fits_whole: "whole a \<Longrightarrow> fits In_Text (a @ b) = fits In_Text b"
  by (simp add: whole_def)

lemma fits_the_link [simp]: "fits st (the_link u # fs) = (if st = In_Tag then None else fits st fs)"
  by (simp add: the_link_def)

lemma whole_errorBlock: "whole (errorBlock error)"
  by (cases error) (simp_all add: errorBlock_def whole_def)

lemma whole_notice: "whole fs \<Longrightarrow> whole (noticeBlock fs)"
  by (simp add: noticeBlock_def whole_def)

lemma whole_identityBlock: "whole (identityBlock who how)"
proof -
  have "whole (concat (map (\<lambda>l. [Raw ''<span>'', Esc (value_text l), Raw ''</span>'']) ls))" for ls
    by (rule whole_concat) (auto simp: whole_def)
  then show ?thesis unfolding identityBlock_def Let_def by (simp add: whole_def)
qed

lemma whole_hiddenFields: "whole (hiddenFields items)"
  unfolding hiddenFields_def by (rule whole_separated) (auto simp: whole_def)

lemma whole_logo_image: "whole (logo_image ''logo'' url alt)" "whole (logo_image ''client-logo'' url alt)"
  by (simp_all add: logo_image_def whole_def)

lemma whole_headAssets: "whole (headAssets v)"
  unfolding headAssets_def Let_def
  by (rule whole_separated) (auto simp: whole_def)

lemma whole_footerBlock: "whole (footerBlock v legal)"
proof -
  have "whole fs" if "fs \<in> set (anchor t ''Terms of use'' @ anchor p ''Privacy notice'')" for fs t p
    using that by (auto simp: anchor_def whole_def split: if_splits)
  then have "whole (separated [Raw '' <span aria-hidden=\"true\">&middot;</span> ''] (anchor t ''Terms of use'' @ anchor p ''Privacy notice''))" for t p
    by (intro whole_separated) (simp_all add: whole_def)
  then show ?thesis unfolding footerBlock_def Let_def
    by (intro whole_separated) (auto simp: whole_def)
qed

lemma whole_layout: "whole content \<Longrightarrow> whole (layout v title content legal logo alt)"
  using whole_headAssets [of v] whole_footerBlock [of v legal] whole_logo_image
  unfolding layout_def Let_def by (simp add: whole_def themeSlot_def)

lemma whole_other_form:
  "whole (other_form n tx action ''Send another code'')" "whole (other_form n tx action ''Use a different email address'')"
  "whole (other_form n tx action ''Use a different account'')"
  using whole_hiddenFields [of "[(''tx'', Some tx)]"] by (simp_all add: other_form_def form_start_def whole_def)

lemmas blocks = whole_errorBlock [unfolded whole_def] whole_hiddenFields [unfolded whole_def] whole_identityBlock [unfolded whole_def]
  whole_other_form [unfolded whole_def]

lemma whole_emailPage: "whole (emailPage v tx email rememberMe error client logo legal rec showRec)"
  unfolding emailPage_def
  by (rule whole_layout) (simp add: whole_def blocks form_start_def invalid_mark_def)

lemma whole_otpPage: "whole (otpPage v tx email error devCode resent logo alt legal)"
  unfolding otpPage_def Let_def
  by (rule whole_layout)
    (simp add: whole_def blocks form_start_def invalid_mark_def noticeBlock_def)

lemma whole_alternatives: "whole (separated [line 10 []] (map (alternative_form v tx) upstreams))"
  by (rule whole_separated) (auto simp: whole_def blocks alternative_form_def)

lemma whole_localPasswordPage: "whole (localPasswordPage v tx email error upstreams logo alt legal)"
  using whole_alternatives [of v tx upstreams] unfolding localPasswordPage_def Let_def
  by (intro whole_layout) (simp add: whole_def blocks form_start_def invalid_mark_def)

lemma whole_localMfaPage: "whole (localMfaPage v tx email error digits logo alt legal)"
  unfolding localMfaPage_def
  by (rule whole_layout) (simp add: whole_def blocks form_start_def invalid_mark_def submit_at_def)

lemma whole_continuePage: "whole (continuePage v tx session identity client logo error legal)"
  unfolding continuePage_def Let_def
  by (rule whole_layout) (simp add: whole_def blocks form_start_def)

lemma whole_signedOutPage: "whole (signedOutPage v returnTo label legal)"
  unfolding signedOutPage_def Let_def
  by (rule whole_layout) (simp add: whole_def)

lemma whole_confirmLogoutPage: "whole (confirmLogoutPage v token email identity client cancel shared legal)"
proof -
  have "whole (case who of None \<Rightarrow> [] | Some w \<Rightarrow> identityBlock w None)" for who
    using whole_identityBlock by (cases who) (simp_all add: whole_def)
  then show ?thesis unfolding confirmLogoutPage_def Let_def
    by (intro whole_layout) (simp add: whole_def blocks form_start_def)
qed

lemma whole_errorPage: "whole (errorPage v title detail reference)"
  unfolding errorPage_def by (rule whole_layout) (simp add: whole_def)

lemma whole_chooser_items: "whole (separated [line 8 []] (map (chooser_item v tx hinted) options))"
  by (rule whole_separated) (auto simp: whole_def blocks chooser_item_def)

lemma whole_chooserPage: "whole (chooserPage v tx email options hinted error otp logo alt legal)"
  using whole_chooser_items [of v tx hinted options] unfolding chooserPage_def Let_def
  by (intro whole_layout) (simp add: whole_def blocks)

lemmas whole_pages = whole_emailPage whole_otpPage whole_localPasswordPage whole_localMfaPage whole_continuePage whole_chooserPage
  whole_signedOutPage whole_confirmLogoutPage whole_errorPage

lemma whole_page_html: "whole (page_html v client legal logo p)"
  by (cases p) (simp_all only: page_html.simps whole_pages)

text \<open>C12: no value reaches the markup. Whatever the addresses, names, labels, links, tokens and messages of a page are, the browser
  reads the tags and attribute names of its literals and nothing else, and ends in text.\<close>

theorem page_markup_fixed:
  "read_markup In_Text (render (page_html v client legal logo p)) = In_Text \<and>
   skeleton In_Text (render (page_html v client legal logo p)) = skeleton In_Text (render (map blank (page_html v client legal logo p)))"
  using fits_inert [OF whole_page_html [unfolded whole_def]] .

section \<open>Addresses\<close>

text \<open>An address the gateway may link to: a parsed one whose scheme is HTTP.\<close>

definition http_address :: "view \<Rightarrow> string \<Rightarrow> bool" where
  "http_address v url \<longleftrightarrow>
     (\<exists>given u. wb_parse (vw_web v) given = Some u \<and> u_href u = url \<and> (u_protocol u = ''https:'' \<or> u_protocol u = ''http:''))"

fun links_of :: "fragment list \<Rightarrow> string list" where
  "links_of [] = []"
| "links_of (Link u # fs) = u # links_of fs"
| "links_of (f # fs) = links_of fs"

definition links_http :: "view \<Rightarrow> fragment list \<Rightarrow> bool" where
  "links_http v fs \<longleftrightarrow> list_all (http_address v) (links_of fs)"

lemma linked_append [simp]: "links_http v (a @ b) \<longleftrightarrow> links_http v a \<and> links_http v b"
proof -
  have "links_of (a @ b) = links_of a @ links_of b" by (induction a rule: links_of.induct) simp_all
  then show ?thesis by (simp add: links_http_def)
qed

lemma linked_simps [simp]:
  "links_http v []" "links_http v (Raw s # fs) \<longleftrightarrow> links_http v fs" "links_http v (Esc x # fs) \<longleftrightarrow> links_http v fs" "links_http v (Num n # fs) \<longleftrightarrow> links_http v fs"
  "links_http v (Link u # fs) \<longleftrightarrow> http_address v u \<and> links_http v fs" "links_http v (line k s # fs) \<longleftrightarrow> links_http v fs"
  "links_http v (shown_if b fs) \<longleftrightarrow> (b \<longrightarrow> links_http v fs)"
  by (simp_all add: links_http_def line_def shown_if_def)

lemma linked_the_link [simp]: "str_truthy u \<Longrightarrow> links_http v (the_link u # fs) \<longleftrightarrow> http_address v (the u) \<and> links_http v fs"
  by (cases u) (simp_all add: the_link_def coalesce_def str_truthy_def)

lemma checked_http: "str_truthy (checked v u h) \<Longrightarrow> http_address v (the (checked v u h))"
  by (auto simp: checked_def safeHttpUrl_def http_address_def str_truthy_def split: if_splits option.splits)

lemma linked_separated: "links_http v glue \<Longrightarrow> (\<And>fs. fs \<in> set items \<Longrightarrow> links_http v fs) \<Longrightarrow> links_http v (separated glue items)"
  by (induction glue items rule: separated.induct) simp_all

definition legal_checked :: "view \<Rightarrow> legal_links \<Rightarrow> bool" where
  "legal_checked v legal \<longleftrightarrow>
     (str_truthy (lg_terms legal) \<longrightarrow> http_address v (the (lg_terms legal))) \<and>
     (str_truthy (lg_privacy legal) \<longrightarrow> http_address v (the (lg_privacy legal)))"

lemma linked_hiddenFields [simp]: "links_http v (hiddenFields items)"
  unfolding hiddenFields_def by (rule linked_separated) auto

lemma linked_errorBlock [simp]: "links_http v (errorBlock e)"
  by (cases e) (simp_all add: errorBlock_def)

lemma linked_identityBlock [simp]: "links_http v (identityBlock who how)"
proof -
  have "links_http v (concat (map (\<lambda>l. [Raw ''<span>'', Esc (value_text l), Raw ''</span>'']) ls))" for ls by (induction ls) simp_all
  then show ?thesis by (simp add: identityBlock_def Let_def)
qed

lemma linked_logo_image: "links_http v (logo_image cls (checked v u h) alt)"
  using checked_http by (simp add: logo_image_def)

lemma linked_anchor: "(str_truthy u \<Longrightarrow> http_address v (the u)) \<Longrightarrow> fs \<in> set (anchor u l) \<Longrightarrow> links_http v fs"
  by (auto simp: anchor_def split: if_splits)

lemma linked_footerBlock:
  assumes "legal_checked v legal"
  shows "links_http v (footerBlock v legal)"
proof -
  let ?t = "if str_truthy (lg_terms legal) then lg_terms legal else checked v (ui_termsUrl (c_ui (vw_config v))) True"
  let ?p = "if str_truthy (lg_privacy legal) then lg_privacy legal else checked v (ui_privacyUrl (c_ui (vw_config v))) True"
  have "str_truthy ?t \<Longrightarrow> http_address v (the ?t)" "str_truthy ?p \<Longrightarrow> http_address v (the ?p)"
    using assms checked_http by (auto simp: legal_checked_def split: if_splits)
  then have "links_http v (separated [Raw '' <span aria-hidden=\"true\">&middot;</span> ''] (anchor ?t ''Terms of use'' @ anchor ?p ''Privacy notice''))"
    by (intro linked_separated) (auto dest: linked_anchor [rotated])
  then show ?thesis unfolding footerBlock_def Let_def
    using checked_http by (intro linked_separated) (auto split: if_splits)
qed

lemma linked_headAssets: "links_http v (headAssets v)"
  unfolding headAssets_def Let_def by (rule linked_separated) auto

lemma linked_layout: "legal_checked v legal \<Longrightarrow> links_http v content \<Longrightarrow> links_http v (layout v title content legal logo alt)"
  using linked_footerBlock linked_headAssets linked_logo_image unfolding layout_def Let_def by (simp add: themeSlot_def)

lemma safeHttpUrl_http: "safeHttpUrl (wb_parse (vw_web v)) u h = Some y \<Longrightarrow> http_address v y"
  by (auto simp: safeHttpUrl_def http_address_def split: if_splits option.splits)

lemma legal_checked_legalFor: "legal_checked v (legalFor (wb_parse (vw_web v)) (vw_config v) tx)" "legal_checked v no_legal"
  by (auto simp: legal_checked_def legalFor_def no_legal_def Let_def str_truthy_def intro: safeHttpUrl_http
      split: option.splits if_splits)

lemma linked_chooser_items: "links_http v (separated [line 8 []] (map (chooser_item v tx hinted) options))"
  by (rule linked_separated) (auto simp: chooser_item_def)

lemma linked_alternatives: "links_http v (separated [line 10 []] (map (alternative_form v tx) upstreams))"
  by (rule linked_separated) (auto simp: alternative_form_def)

lemma linked_page_html:
  assumes "legal_checked v legal"
  shows "links_http v (page_html v client legal logo p)"
proof -
  note layout = linked_layout [OF assms] linked_layout [OF legal_checked_legalFor(2)]
  note parts = form_start_def other_form_def invalid_mark_def noticeBlock_def submit_at_def linked_chooser_items linked_alternatives
  have who: "links_http v (case who of None \<Rightarrow> [] | Some w \<Rightarrow> identityBlock w None)" for who by (cases who) simp_all
  show ?thesis
  proof (cases p)
    case (EmailPage tx email remember error rec showRec)
    show ?thesis unfolding EmailPage page_html.simps emailPage_def by (rule layout(1)) (simp add: parts)
  next
    case (OtpPage tx email error code resent)
    show ?thesis unfolding OtpPage page_html.simps otpPage_def Let_def by (rule layout(1)) (simp add: parts)
  next
    case (LocalPasswordPage tx email error upstreams)
    show ?thesis unfolding LocalPasswordPage page_html.simps localPasswordPage_def Let_def by (rule layout(1)) (simp add: parts)
  next
    case (LocalMfaPage tx email error digits)
    show ?thesis unfolding LocalMfaPage page_html.simps localMfaPage_def by (rule layout(1)) (simp add: parts)
  next
    case (ContinuePage tx session identity error)
    show ?thesis unfolding ContinuePage page_html.simps continuePage_def Let_def by (rule layout(1)) (simp add: parts)
  next
    case (ChooserPage tx email options hinted error otp)
    show ?thesis unfolding ChooserPage page_html.simps chooserPage_def Let_def by (rule layout(1)) (simp add: parts)
  next
    case (SignedOutPage ret label)
    show ?thesis unfolding SignedOutPage page_html.simps signedOutPage_def Let_def
      by (rule layout(1)) (simp add: checked_http)
  next
    case (ConfirmLogoutPage token email identity name cancel shared)
    show ?thesis unfolding ConfirmLogoutPage page_html.simps confirmLogoutPage_def Let_def
      by (rule layout(1)) (simp add: parts who checked_http)
  next
    case (ErrorPage title detail)
    show ?thesis unfolding ErrorPage page_html.simps errorPage_def by (rule layout(2)) simp
  qed
qed

text \<open>C40: every link of a page that comes from a relying party, a request or the legal settings is an address the URL parser
  accepted with an HTTP scheme, so no page offers a script as a link.\<close>

theorem page_links_http:
  "links_http v (page_html v client (legalFor (wb_parse (vw_web v)) (vw_config v) source) logo p) \<and>
   links_http v (page_html v client no_legal logo p)"
  using linked_page_html legal_checked_legalFor by blast

end
