(* ===== verification/Dynamo.thy ===== *)
theory Dynamo
  imports State_Store Sigv4 Numbers Settings
begin

text \<open>
  The DynamoDB state store of \<^verbatim>\<open>src/store/index.js\<close>, and the choice of a backend. The table is not under \<^verbatim>\<open>src/\<close>: it is the
  parameter \<open>dy_serve\<close>, a function of the state of the service, its clock, the operation the \<^verbatim>\<open>x-amz-target\<close> header names, the signed
  headers and the JSON value of the body, to a status, the text of the answer and the JSON value that text holds. What AWS
  documents of the three operations is the predicate \<open>dynamo_documented\<close>; under it the store honours the contract of
  \<open>State_Store\<close>, so everything proved of that contract holds of it too.
\<close>

section \<open>Requests\<close>

type_synonym aws_answer = "(string, int \<times> string \<times> json option) result"

record 't dynamo =
  dy_pf :: platform
  dy_target :: "string \<Rightarrow> (string \<times> string \<times> params) option"
  dy_env :: "(string \<times> string) list"
  dy_table :: string
  dy_region :: string
  dy_endpoint :: string
  dy_serve :: "'t \<Rightarrow> int \<Rightarrow> string \<Rightarrow> headers \<Rightarrow> json \<Rightarrow> aws_answer \<times> 't"

definition createDynamoStore ::
  "platform \<Rightarrow> (string \<Rightarrow> (string \<times> string \<times> params) option) \<Rightarrow> (string \<times> string) list \<Rightarrow>
     ('t \<Rightarrow> int \<Rightarrow> string \<Rightarrow> headers \<Rightarrow> json \<Rightarrow> aws_answer \<times> 't) \<Rightarrow> state_config \<Rightarrow> (string, 't dynamo) result" where
  "createDynamoStore pf target env serve c =
     (if \<not> str_truthy (st_table c) then Inl ''The state store backend is dynamodb but no table name is set''
      else if \<not> str_truthy (st_region c) then Inl ''The state store backend is dynamodb but no region is set''
      else Inr \<lparr>dy_pf = pf, dy_target = target, dy_env = env, dy_table = the (st_table c), dy_region = the (st_region c),
        dy_endpoint = or_str (st_endpoint c) (''https://dynamodb.'' @ the (st_region c) @ ''.amazonaws.com/''), dy_serve = serve\<rparr>)"

definition accepted :: "aws_answer \<Rightarrow> bool" where
  "accepted r = (case r of Inl _ \<Rightarrow> False | Inr (status, _) \<Rightarrow> 200 \<le> status \<and> status \<le> 299)"

definition no_redirect :: "aws_answer \<Rightarrow> aws_answer" where
  "no_redirect r =
     rbind r (\<lambda>(status, detail, content).
       if 300 \<le> status \<and> status < 400 \<and> status \<noteq> 304
       then Inl (''refusing to follow a redirect (HTTP '' @ show_int status @ '')'') else Inr (status, detail, content))"

definition dyn_signed :: "'t dynamo \<Rightarrow> string \<Rightarrow> json \<Rightarrow> sign_args" where
  "dyn_signed d target content =
     (let (host, path, query) = coalesce (dy_target d (dy_endpoint d)) ([], [], []) in
      \<lparr>sa_method = ''POST'', sa_host = host, sa_pathname = path, sa_query = query, sa_body = pf_stringify (dy_pf d) content,
       sa_service = ''dynamodb'', sa_region = dy_region d, sa_credentials = credentialsFromEnv (dy_env d),
       sa_headers = [(''content-type'', ''application/x-amz-json-1.0''), (''x-amz-target'', ''DynamoDB_20120810.'' @ target)],
       sa_includeContentSha256 = True\<rparr>)"

definition dyn_send :: "'t dynamo \<Rightarrow> int \<Rightarrow> string \<Rightarrow> json \<Rightarrow> 't \<Rightarrow> aws_answer \<times> 't" where
  "dyn_send d now target content t =
     (case signRequest (dy_pf d) now (dyn_signed d target content) of Inl e \<Rightarrow> (Inl e, t)
      | Inr hs \<Rightarrow>
          if dy_target d (dy_endpoint d) = None then (Inl ''Invalid URL'', t)
          else (case dy_serve d t now target hs content of (r, t') \<Rightarrow> (no_redirect r, t')))"

definition attr_s :: "string \<Rightarrow> json" where "attr_s v = jobj [(''S'', Some (JStr v))]"
definition attr_n :: "int \<Rightarrow> json" where "attr_n n = jobj [(''N'', Some (JStr (show_int n)))]"

definition put_body :: "string \<Rightarrow> string \<Rightarrow> int \<Rightarrow> int \<Rightarrow> json" where
  "put_body table cid expires now =
     jobj [(''TableName'', Some (JStr table)),
       (''Item'', Some (jobj [(''jti'', Some (attr_s cid)), (''expires_at'', Some (attr_n expires))])),
       (''ConditionExpression'', Some (JStr ''attribute_not_exists(jti) OR #expires < :now'')),
       (''ExpressionAttributeNames'', Some (jobj [(''#expires'', Some (JStr ''expires_at''))])),
       (''ExpressionAttributeValues'', Some (jobj [('':now'', Some (attr_n now))]))]"

definition get_body :: "string \<Rightarrow> string \<Rightarrow> json" where
  "get_body table cid =
     jobj [(''TableName'', Some (JStr table)), (''Key'', Some (jobj [(''jti'', Some (attr_s cid))])),
       (''ConsistentRead'', Some (JBool True)), (''ProjectionExpression'', Some (JStr ''expires_at''))]"

definition update_body :: "string \<Rightarrow> string \<Rightarrow> int \<Rightarrow> json" where
  "update_body table key expires =
     jobj [(''TableName'', Some (JStr table)), (''Key'', Some (jobj [(''jti'', Some (attr_s key))])),
       (''UpdateExpression'', Some (JStr ''SET #expires = if_not_exists(#expires, :exp) ADD #hits :one'')),
       (''ExpressionAttributeNames'', Some (jobj [(''#expires'', Some (JStr ''expires_at'')), (''#hits'', Some (JStr ''hits''))])),
       (''ExpressionAttributeValues'', Some (jobj [('':one'', Some (attr_n 1)), ('':exp'', Some (attr_n expires))])),
       (''ReturnValues'', Some (JStr ''ALL_NEW''))]"

section \<open>Operations\<close>

definition lifetime :: "int \<Rightarrow> int \<Rightarrow> int" where
  "lifetime now ttlSeconds = nowSeconds now + max 60 ttlSeconds"

definition store_failure :: "string \<Rightarrow> int \<Rightarrow> string \<Rightarrow> reply" where
  "store_failure what status detail =
     Failed (''state store '' @ what @ '' failed (HTTP '' @ show_int status @ ''): '' @ take 200 detail)"

definition dyn_claim :: "'t dynamo \<Rightarrow> 't \<Rightarrow> int \<Rightarrow> string \<Rightarrow> int \<Rightarrow> reply \<times> 't" where
  "dyn_claim d t now cid ttl =
     (case dyn_send d now ''PutItem'' (put_body (dy_table d) cid (lifetime now ttl) (nowSeconds now)) t of
        (Inl e, t') \<Rightarrow> (Failed e, t')
      | (Inr (status, detail, content), t') \<Rightarrow>
          if accepted (Inr (status, detail, content)) then (Fresh True, t')
          else if status = 400 \<and> sublist ''ConditionalCheckFailedException'' detail then (Fresh False, t')
          else (store_failure ''write'' status detail, t'))"

text \<open>\<open>body?.Item?.expires_at?.N\<close>, and \<open>Number\<close> of it; the service writes decimal numbers.\<close>

definition attr_path :: "json option \<Rightarrow> string \<Rightarrow> string \<Rightarrow> string option" where
  "attr_path content part attr =
     as_str (Option.bind (Option.bind (Option.bind content (\<lambda>b. jget b part)) (\<lambda>i. jget i attr)) (\<lambda>a. jget a ''N''))"

definition number_of :: "string option \<Rightarrow> int option" where
  "number_of v = Option.bind v (\<lambda>s. decimal_integer (trim s))"

definition dyn_has :: "'t dynamo \<Rightarrow> 't \<Rightarrow> int \<Rightarrow> string \<Rightarrow> reply \<times> 't" where
  "dyn_has d t now cid =
     (case dyn_send d now ''GetItem'' (get_body (dy_table d) cid) t of
        (Inl e, t') \<Rightarrow> (Failed e, t')
      | (Inr (status, detail, content), t') \<Rightarrow>
          if \<not> accepted (Inr (status, detail, content)) then (store_failure ''read'' status detail, t')
          else if content = None then (Failed ''invalid JSON'', t')
          else (case number_of (attr_path content ''Item'' ''expires_at'') of None \<Rightarrow> (Claimed False, t')
                | Some e \<Rightarrow> (Claimed (nowSeconds now \<le> e), t')))"

definition dyn_increment :: "'t dynamo \<Rightarrow> 't \<Rightarrow> int \<Rightarrow> string \<Rightarrow> int \<Rightarrow> reply \<times> 't" where
  "dyn_increment d t now key ttl =
     (case dyn_send d now ''UpdateItem'' (update_body (dy_table d) key (lifetime now ttl)) t of
        (Inl e, t') \<Rightarrow> (Failed e, t')
      | (Inr (status, detail, content), t') \<Rightarrow>
          if \<not> accepted (Inr (status, detail, content)) then (store_failure ''counter'' status detail, t')
          else if content = None then (Failed ''invalid JSON'', t')
          else (Count (coalesce (number_of (attr_path content ''Attributes'' ''hits'')) 0), t'))"

text \<open>No alarm exists: the service deletes expired items by itself.\<close>

fun dyn_step :: "'t dynamo \<Rightarrow> 't \<Rightarrow> int \<Rightarrow> store_op \<Rightarrow> reply \<times> 't" where
  "dyn_step d t now (Claim cid ttl) = dyn_claim d t now cid ttl"
| "dyn_step d t now (Has cid) = dyn_has d t now cid"
| "dyn_step d t now (Increment key ttl fc) = dyn_increment d t now key ttl"
| "dyn_step d t now (Alarm key) = (Done, t)"

section \<open>The choice of a backend\<close>

datatype 't backend = No_Store | Memory_Store mem_store | Object_Store string | Dynamo_Store "'t dynamo"

text \<open>A Durable Object namespace is bound, or not, under the configured name.\<close>

definition createStateStore ::
  "platform \<Rightarrow> (string \<Rightarrow> (string \<times> string \<times> params) option) \<Rightarrow> (string \<times> string) list \<Rightarrow> (string \<Rightarrow> bool) \<Rightarrow>
     ('t \<Rightarrow> int \<Rightarrow> string \<Rightarrow> headers \<Rightarrow> json \<Rightarrow> aws_answer \<times> 't) \<Rightarrow> state_config \<Rightarrow> (string, 't backend) result" where
  "createStateStore pf target env bound serve c =
     (if st_backend c = ''none'' then Inr No_Store
      else if st_backend c = ''memory'' then Inr (Memory_Store (createMemoryStore (nat (st_maxEntries c))))
      else if st_backend c = ''cf-durable-object''
      then if bound (st_doBindingName c) then Inr (Object_Store (st_doBindingName c))
           else Inl (''The state store backend is cf-durable-object but no Durable Object namespace is bound as '' @ st_doBindingName c)
      else if st_backend c = ''dynamodb'' then rbind (createDynamoStore pf target env serve c) (\<lambda>d. Inr (Dynamo_Store d))
      else Inl (''unknown state store backend: '' @ st_backend c))"

section \<open>What the service documents\<close>

text \<open>The part of the expression language of DynamoDB that requests of this kind use, over items of numeric attributes; \<open>jti\<close> is the
  key of the table. An expression outside it has no meaning here (\<open>None\<close>), and then nothing is assumed of the service. A condition
  is a disjunction of \<^verbatim>\<open>attribute_not_exists\<close> and comparisons, an update a sequence of \<^verbatim>\<open>SET\<close> and \<^verbatim>\<open>ADD\<close> clauses.\<close>

type_synonym attrs = "string \<Rightarrow> int option"

definition nested :: "json \<Rightarrow> string list \<Rightarrow> json option" where
  "nested j path = fold (\<lambda>k v. Option.bind v (\<lambda>x. jget x k)) path (Some j)"

definition words :: "string \<Rightarrow> string list" where
  "words e = filter (\<lambda>w. w \<noteq> []) (split_on (CHR '' '') e)"

fun alternatives :: "string list \<Rightarrow> string list list" where
  "alternatives [] = [[]]"
| "alternatives (w # ws) = (if w = ''OR'' then [] # alternatives ws else (w # hd (alternatives ws)) # tl (alternatives ws))"

definition attribute_name :: "json \<Rightarrow> string \<Rightarrow> string" where
  "attribute_name body x = (if starts_with x ''#'' then coalesce (as_str (nested body [''ExpressionAttributeNames'', x])) [] else x)"

definition value_named :: "json \<Rightarrow> string \<Rightarrow> int option" where
  "value_named body v = number_of (as_str (nested body [''ExpressionAttributeValues'', v, ''N'']))"

definition argument :: "string \<Rightarrow> string \<Rightarrow> string" where
  "argument f w = butlast (drop (length f + 1) w)"

definition alternative_holds :: "json \<Rightarrow> attrs option \<Rightarrow> string list \<Rightarrow> bool option" where
  "alternative_holds body it alt =
     (case alt of
        [f] \<Rightarrow> if starts_with f ''attribute_not_exists(''
          then (let x = attribute_name body (argument ''attribute_not_exists'' f) in
            Some (case it of None \<Rightarrow> True | Some at \<Rightarrow> x \<noteq> ''jti'' \<and> at x = None))
          else None
      | [x, op, v] \<Rightarrow> if op = ''<''
          then Some (case (Option.bind it (\<lambda>at. at (attribute_name body x)), value_named body v) of (Some m, Some n) \<Rightarrow> m < n | _ \<Rightarrow> False)
          else None
      | _ \<Rightarrow> None)"

definition condition_holds :: "json \<Rightarrow> attrs option \<Rightarrow> bool option" where
  "condition_holds body it =
     (case jget body ''ConditionExpression'' of
        None \<Rightarrow> Some True
      | Some e \<Rightarrow> (let rs = map (alternative_holds body it) (alternatives (words (coalesce (as_str (Some e)) []))) in
          if list_ex (\<lambda>x. x = None) rs then None else Some (list_ex (\<lambda>x. x = Some True) rs)))"

definition item_written :: "json \<Rightarrow> attrs" where
  "item_written body = (\<lambda>x. if x = ''jti'' then None else number_of (as_str (nested body [''Item'', x, ''N''])))"

function update_clauses :: "json \<Rightarrow> attrs \<Rightarrow> attrs \<Rightarrow> string list \<Rightarrow> attrs option" where
  "update_clauses body old at [] = Some at"
| "update_clauses body old at (kw # ts) =
     (if kw = ''SET'' \<and> 4 \<le> length ts \<and> ts ! 1 = ''='' \<and> starts_with (ts ! 2) ''if_not_exists(''
      then update_clauses body old
        (at(attribute_name body (ts ! 0) := (case old (attribute_name body (argument ''if_not_exists'' (ts ! 2))) of
             Some v \<Rightarrow> Some v | None \<Rightarrow> value_named body (butlast (ts ! 3))))) (drop 4 ts)
      else if kw = ''SET'' \<and> 3 \<le> length ts \<and> ts ! 1 = ''=''
      then update_clauses body old (at(attribute_name body (ts ! 0) := value_named body (ts ! 2))) (drop 3 ts)
      else if kw = ''ADD'' \<and> 2 \<le> length ts
      then update_clauses body old
        (at(attribute_name body (ts ! 0) := map_option (\<lambda>v. coalesce (old (attribute_name body (ts ! 0))) 0 + v) (value_named body (ts ! 1)))) (drop 2 ts)
      else None)"
  by pat_completeness auto
termination
  by (relation "measure (\<lambda>(_, _, _, ts). length ts)") auto

definition item_updated :: "json \<Rightarrow> attrs option \<Rightarrow> attrs option" where
  "item_updated body it =
     update_clauses body (coalesce it (\<lambda>_. None)) (coalesce it (\<lambda>_. None)) (words (coalesce (as_str (jget body ''UpdateExpression'')) []))"

text \<open>\<open>item\<close> shows the attributes of an item. Only an expired item may disappear by itself, by the attribute the table's time to live
  is set to.\<close>

type_synonym 't table = "'t \<Rightarrow> string \<Rightarrow> attrs option"

definition deleted_or :: "int \<Rightarrow> attrs option \<Rightarrow> attrs option \<Rightarrow> bool" where
  "deleted_or now before after \<longleftrightarrow> after = before \<or> after = None \<and> (\<exists>at e. before = Some at \<and> at ''expires_at'' = Some e \<and> e < nowSeconds now)"

text \<open>\<open>PutItem\<close>: an item is replaced only where the condition holds of what is stored. A put that was not accepted may
  have been stored nevertheless (the answer was lost), but not against its condition.\<close>

definition put_served :: "'t dynamo \<Rightarrow> 't table \<Rightarrow> bool" where
  "put_served d item \<longleftrightarrow>
     (\<forall>t now hs body cid r t'. dy_serve d t now ''PutItem'' hs body = (r, t') \<and> jget body ''TableName'' = Some (JStr (dy_table d)) \<and>
        as_str (nested body [''Item'', ''jti'', ''S'']) = Some cid \<longrightarrow>
        (\<forall>k. k \<noteq> cid \<longrightarrow> deleted_or now (item t k) (item t' k)) \<and>
        (\<exists>seen. deleted_or now (item t cid) seen \<and>
          (case condition_holds body seen of None \<Rightarrow> True
           | Some False \<Rightarrow> item t' cid = seen \<and> \<not> accepted r
           | Some True \<Rightarrow> item t' cid = Some (item_written body) \<or> item t' cid = seen \<and> \<not> accepted r)))"

text \<open>\<open>GetItem\<close>: a consistent read answers what is stored, the attributes it projects.\<close>

definition projects :: "json \<Rightarrow> string \<Rightarrow> bool" where
  "projects body x = (case jget body ''ProjectionExpression'' of None \<Rightarrow> True
     | Some e \<Rightarrow> x \<in> set (map trim (split_on (CHR '','') (coalesce (as_str (Some e)) []))))"

definition get_served :: "'t dynamo \<Rightarrow> 't table \<Rightarrow> bool" where
  "get_served d item \<longleftrightarrow>
     (\<forall>t now hs body cid r t'. dy_serve d t now ''GetItem'' hs body = (r, t') \<and> jget body ''TableName'' = Some (JStr (dy_table d)) \<and>
        as_str (nested body [''Key'', ''jti'', ''S'']) = Some cid \<longrightarrow>
        (\<forall>k. deleted_or now (item t k) (item t' k)) \<and>
        (\<forall>status detail content at x v. r = Inr (status, detail, content) \<and> accepted r \<and> jget body ''ConsistentRead'' = Some (JBool True) \<and>
           projects body x \<and> item t' cid = Some at \<and> at x = Some v \<longrightarrow> attr_path content ''Item'' x = Some (show_int v)))"

text \<open>\<open>UpdateItem\<close>: the clauses are applied to the item that is stored, and \<^verbatim>\<open>ALL_NEW\<close> answers what they made of it.\<close>

definition update_served :: "'t dynamo \<Rightarrow> 't table \<Rightarrow> bool" where
  "update_served d item \<longleftrightarrow>
     (\<forall>t now hs body key r t'. dy_serve d t now ''UpdateItem'' hs body = (r, t') \<and> jget body ''TableName'' = Some (JStr (dy_table d)) \<and>
        as_str (nested body [''Key'', ''jti'', ''S'']) = Some key \<and> jget body ''ConditionExpression'' = None \<longrightarrow>
        (\<forall>k. k \<noteq> key \<longrightarrow> deleted_or now (item t k) (item t' k)) \<and>
        (\<exists>seen. deleted_or now (item t key) seen \<and>
          (case item_updated body seen of None \<Rightarrow> True
           | Some at \<Rightarrow> item t' key = Some at \<or> item t' key = seen \<and> \<not> accepted r)) \<and>
        (\<forall>status detail content at x v. r = Inr (status, detail, content) \<and> accepted r \<and> jget body ''ReturnValues'' = Some (JStr ''ALL_NEW'') \<and>
           item t' key = Some at \<and> at x = Some v \<longrightarrow> attr_path content ''Attributes'' x = Some (show_int v)))"

definition dynamo_documented :: "'t dynamo \<Rightarrow> 't table \<Rightarrow> bool" where
  "dynamo_documented d item \<longleftrightarrow> put_served d item \<and> get_served d item \<and> update_served d item"

section \<open>What that means for the requests of the store\<close>

lemma nested_simps [simp]: "nested j [] = Some j" "nested j (k # ks) = Option.bind (jget j k) (\<lambda>x. nested x ks)"
proof -
  have "fold (\<lambda>k v. Option.bind v (\<lambda>x. jget x k)) ks None = None" for ks by (induction ks) simp_all
  then show "nested j [] = Some j" "nested j (k # ks) = Option.bind (jget j k) (\<lambda>x. nested x ks)"
    by (cases "jget j k"; simp add: nested_def)+
qed

lemma number_of_show: "number_of (Some (show_int n)) = Some n"
proof (cases "n < 0")
  case False
  moreover have "list_all is_digit (show_nat (nat n))" using show_nat_digits by (simp add: list_all_iff)
  ultimately show ?thesis by (simp add: number_of_def show_int_def trim_digits decimal_integer_digits)
next
  case True
  define ds where "ds = show_nat (nat (- n))"
  have ds: "list_all is_digit ds" "ds \<noteq> []" "read_nat ds = nat (- n)"
    unfolding ds_def using show_nat_digits by (simp_all add: list_all_iff)
  have "trim (CHR ''-'' # ds) = CHR ''-'' # ds"
    using ds by (intro trim_id) (auto simp: list_all_iff is_digit_def is_space_def)
  moreover have "decimal_integer (CHR ''-'' # ds) = map_option uminus (decimal_integer ds)"
  proof -
    have "hd ds \<noteq> CHR ''-''" "hd ds \<noteq> CHR ''+''" using ds by (cases ds; auto simp: is_digit_def)+
    then have "split_sign ds = (1, ds)" using ds(2) by (cases ds) (simp_all add: split_sign_def)
    moreover have "split_sign (CHR ''-'' # ds) = (- 1, ds)" by (simp add: split_sign_def)
    ultimately show ?thesis
      unfolding decimal_integer_def Let_def by (simp split: option.split) (auto simp: option.map_comp comp_def)
  qed
  ultimately show ?thesis
    using True ds decimal_integer_digits [OF ds(1,2)] by (simp add: number_of_def show_int_def ds_def)
qed

lemma put_means:
  "as_str (nested (put_body table cid expires n) [''Item'', ''jti'', ''S'']) = Some cid"
  "jget (put_body table cid expires n) ''TableName'' = Some (JStr table)"
  "condition_holds (put_body table cid expires n) it =
     Some (case it of None \<Rightarrow> True | Some at \<Rightarrow> (case at ''expires_at'' of None \<Rightarrow> False | Some e \<Rightarrow> e < n))"
  "item_written (put_body table cid expires n) ''expires_at'' = Some expires" "item_written (put_body table cid expires n) ''hits'' = None"
proof -
  show "as_str (nested (put_body table cid expires n) [''Item'', ''jti'', ''S'']) = Some cid"
    "jget (put_body table cid expires n) ''TableName'' = Some (JStr table)"
    "item_written (put_body table cid expires n) ''expires_at'' = Some expires" "item_written (put_body table cid expires n) ''hits'' = None"
    by (simp_all add: put_body_def attr_s_def attr_n_def item_written_def number_of_show) (simp add: number_of_def)
  have w: "alternatives (words ''attribute_not_exists(jti) OR #expires < :now'') = [[''attribute_not_exists(jti)''], [''#expires'', ''<'', '':now'']]"
    "attribute_name (put_body table cid expires n) (argument ''attribute_not_exists'' ''attribute_not_exists(jti)'') = ''jti''"
    "starts_with ''attribute_not_exists(jti)'' ''attribute_not_exists(''"
    by code_simp+
  have names: "attribute_name (put_body table cid expires n) ''#expires'' = ''expires_at''" "value_named (put_body table cid expires n) '':now'' = Some n"
    by (simp_all add: attribute_name_def value_named_def put_body_def attr_n_def starts_with_def coalesce_def number_of_show)
  have ce: "jget (put_body table cid expires n) ''ConditionExpression'' = Some (JStr ''attribute_not_exists(jti) OR #expires < :now'')"
    by (simp add: put_body_def)
  show "condition_holds (put_body table cid expires n) it =
     Some (case it of None \<Rightarrow> True | Some at \<Rightarrow> (case at ''expires_at'' of None \<Rightarrow> False | Some e \<Rightarrow> e < n))"
    by (simp add: condition_holds_def ce coalesce_def w alternative_holds_def names Let_def split: option.split)
qed

lemma get_means:
  "as_str (nested (get_body table cid) [''Key'', ''jti'', ''S'']) = Some cid" "jget (get_body table cid) ''TableName'' = Some (JStr table)"
  "jget (get_body table cid) ''ConsistentRead'' = Some (JBool True)" "projects (get_body table cid) ''expires_at''"
proof -
  have "map trim (split_on (CHR '','') ''expires_at'') = [''expires_at'']" by code_simp
  then show "as_str (nested (get_body table cid) [''Key'', ''jti'', ''S'']) = Some cid" "jget (get_body table cid) ''TableName'' = Some (JStr table)"
    "jget (get_body table cid) ''ConsistentRead'' = Some (JBool True)" "projects (get_body table cid) ''expires_at''"
    by (simp_all add: get_body_def attr_s_def projects_def coalesce_def)
qed

lemma update_means:
  "as_str (nested (update_body table key expires) [''Key'', ''jti'', ''S'']) = Some key" "jget (update_body table key expires) ''TableName'' = Some (JStr table)"
  "jget (update_body table key expires) ''ConditionExpression'' = None" "jget (update_body table key expires) ''ReturnValues'' = Some (JStr ''ALL_NEW'')"
  "\<exists>at. item_updated (update_body table key expires) it = Some at \<and>
     at ''expires_at'' = Some (coalesce (coalesce it (\<lambda>_. None) ''expires_at'') expires) \<and>
     at ''hits'' = Some (coalesce (coalesce it (\<lambda>_. None) ''hits'') 0 + 1)"
proof -
  show "as_str (nested (update_body table key expires) [''Key'', ''jti'', ''S'']) = Some key" "jget (update_body table key expires) ''TableName'' = Some (JStr table)"
    "jget (update_body table key expires) ''ConditionExpression'' = None" "jget (update_body table key expires) ''ReturnValues'' = Some (JStr ''ALL_NEW'')"
    by (simp_all add: update_body_def attr_s_def)
  have w: "words ''SET #expires = if_not_exists(#expires, :exp) ADD #hits :one'' =
      [''SET'', ''#expires'', ''='', ''if_not_exists(#expires,'', '':exp)'', ''ADD'', ''#hits'', '':one'']"
    "argument ''if_not_exists'' ''if_not_exists(#expires,'' = ''#expires''" "starts_with ''if_not_exists(#expires,'' ''if_not_exists(''"
    "butlast '':exp)'' = '':exp''"
    by code_simp+
  have names: "attribute_name (update_body table key expires) ''#expires'' = ''expires_at''" "attribute_name (update_body table key expires) ''#hits'' = ''hits''"
    "value_named (update_body table key expires) '':exp'' = Some expires" "value_named (update_body table key expires) '':one'' = Some 1"
    by (simp_all add: attribute_name_def value_named_def update_body_def attr_n_def starts_with_def coalesce_def number_of_show)
  have ue: "jget (update_body table key expires) ''UpdateExpression'' = Some (JStr ''SET #expires = if_not_exists(#expires, :exp) ADD #hits :one'')"
    by (simp add: update_body_def)
  show "\<exists>at. item_updated (update_body table key expires) it = Some at \<and>
     at ''expires_at'' = Some (coalesce (coalesce it (\<lambda>_. None) ''expires_at'') expires) \<and>
     at ''hits'' = Some (coalesce (coalesce it (\<lambda>_. None) ''hits'') 0 + 1)"
    unfolding item_updated_def ue as_str.simps coalesce_def [of "Some _"] option.case w
    by (simp add: w names) (simp add: coalesce_def names split: option.split)
qed

text \<open>What the store reads of an item: its expiry and its count.\<close>

type_synonym 't items = "'t \<Rightarrow> string \<Rightarrow> (int option \<times> int) option"

definition read_item :: "'t table \<Rightarrow> 't items" where
  "read_item item t k = map_option (\<lambda>at. (at ''expires_at'', coalesce (at ''hits'') 0)) (item t k)"

definition keeps :: "int \<Rightarrow> (int option \<times> int) option \<Rightarrow> (int option \<times> int) option \<Rightarrow> bool" where
  "keeps now before after \<longleftrightarrow> after = before \<or> after = None \<and> (\<exists>e h. before = Some (Some e, h) \<and> e < nowSeconds now)"

definition live :: "(int option \<times> int) option \<Rightarrow> int \<Rightarrow> bool" where
  "live it n \<longleftrightarrow> (case it of None \<Rightarrow> False | Some (None, _) \<Rightarrow> True | Some (Some e, _) \<Rightarrow> n \<le> e)"

definition updated :: "int \<Rightarrow> (int option \<times> int) option \<Rightarrow> int option \<times> int" where
  "updated expires it = (case it of None \<Rightarrow> (Some expires, 1) | Some (e, h) \<Rightarrow> (Some (coalesce e expires), h + 1))"

lemma deleted_or_keeps: "deleted_or now (item t k) x \<Longrightarrow> keeps now (read_item item t k) (map_option (\<lambda>at. (at ''expires_at'', coalesce (at ''hits'') 0)) x)"
  by (auto simp: deleted_or_def keeps_def read_item_def)

definition put_documented :: "'t dynamo \<Rightarrow> 't items \<Rightarrow> bool" where
  "put_documented d item \<longleftrightarrow>
     (\<forall>t now hs cid expires n r t'. dy_serve d t now ''PutItem'' hs (put_body (dy_table d) cid expires n) = (r, t') \<longrightarrow>
        (\<forall>k. k \<noteq> cid \<longrightarrow> keeps now (item t k) (item t' k)) \<and>
        (\<exists>seen. keeps now (item t cid) seen \<and>
          (if live seen n then item t' cid = seen \<and> \<not> accepted r
           else item t' cid = Some (Some expires, 0) \<or> item t' cid = seen \<and> \<not> accepted r)))"

definition get_documented :: "'t dynamo \<Rightarrow> 't items \<Rightarrow> bool" where
  "get_documented d item \<longleftrightarrow>
     (\<forall>t now hs cid r t'. dy_serve d t now ''GetItem'' hs (get_body (dy_table d) cid) = (r, t') \<longrightarrow>
        (\<forall>k. keeps now (item t k) (item t' k)) \<and>
        (\<forall>status detail content e h. r = Inr (status, detail, content) \<and> accepted r \<and> item t' cid = Some (Some e, h) \<longrightarrow>
           attr_path content ''Item'' ''expires_at'' = Some (show_int e)))"

definition update_documented :: "'t dynamo \<Rightarrow> 't items \<Rightarrow> bool" where
  "update_documented d item \<longleftrightarrow>
     (\<forall>t now hs key expires r t'. dy_serve d t now ''UpdateItem'' hs (update_body (dy_table d) key expires) = (r, t') \<longrightarrow>
        (\<forall>k. k \<noteq> key \<longrightarrow> keeps now (item t k) (item t' k)) \<and>
        (\<exists>seen. keeps now (item t key) seen \<and>
          (item t' key = Some (updated expires seen) \<and>
             (\<forall>status detail content. r = Inr (status, detail, content) \<and> accepted r \<longrightarrow>
                attr_path content ''Attributes'' ''hits'' = Some (show_int (snd (updated expires seen)))) \<or>
           item t' key = seen \<and> \<not> accepted r)))"

lemma put_is_documented:
  assumes "put_served d item"
  shows "put_documented d (read_item item)"
  unfolding put_documented_def
proof (intro allI impI)
  fix t now hs cid expires n r t'
  let ?b = "put_body (dy_table d) cid expires n"
  let ?v = "map_option (\<lambda>at. (at ''expires_at'', coalesce (at ''hits'') 0))"
  assume served: "dy_serve d t now ''PutItem'' hs ?b = (r, t')"
  have k: "\<forall>k. k \<noteq> cid \<longrightarrow> deleted_or now (item t k) (item t' k)"
    and "\<exists>seen. deleted_or now (item t cid) seen \<and>
          (case condition_holds ?b seen of None \<Rightarrow> True
           | Some False \<Rightarrow> item t' cid = seen \<and> \<not> accepted r
           | Some True \<Rightarrow> item t' cid = Some (item_written ?b) \<or> item t' cid = seen \<and> \<not> accepted r)"
    using assms [unfolded put_served_def, rule_format, of t now hs ?b r t' cid] served put_means(1,2) by blast+
  then obtain seen where seen: "deleted_or now (item t cid) seen" and
    "case Some (case seen of None \<Rightarrow> True | Some at \<Rightarrow> (case at ''expires_at'' of None \<Rightarrow> False | Some e \<Rightarrow> e < n)) of None \<Rightarrow> True
       | Some False \<Rightarrow> item t' cid = seen \<and> \<not> accepted r
       | Some True \<Rightarrow> item t' cid = Some (item_written ?b) \<or> item t' cid = seen \<and> \<not> accepted r"
    unfolding put_means(3) by blast
  then have
    c: "if (case seen of None \<Rightarrow> True | Some at \<Rightarrow> (case at ''expires_at'' of None \<Rightarrow> False | Some e \<Rightarrow> e < n))
        then item t' cid = Some (item_written ?b) \<or> item t' cid = seen \<and> \<not> accepted r else item t' cid = seen \<and> \<not> accepted r"
    by (simp split: bool.splits)
  have others: "keeps now (read_item item t k) (read_item item t' k)" if "k \<noteq> cid" for k
    using k that deleted_or_keeps [of now item t k "item t' k"] by (simp add: read_item_def)
  have live: "live (?v seen) n \<longleftrightarrow> \<not> (case seen of None \<Rightarrow> True | Some at \<Rightarrow> (case at ''expires_at'' of None \<Rightarrow> False | Some e \<Rightarrow> e < n))"
    by (auto simp: live_def split: option.split)
  have "keeps now (read_item item t cid) (?v seen)" using deleted_or_keeps [of now item t cid seen] seen by simp
  moreover have "if live (?v seen) n then read_item item t' cid = ?v seen \<and> \<not> accepted r
      else read_item item t' cid = Some (Some expires, 0) \<or> read_item item t' cid = ?v seen \<and> \<not> accepted r"
    using c put_means(4,5) [of "dy_table d" cid expires n] unfolding live by (auto simp: read_item_def coalesce_def split: if_splits)
  ultimately show "(\<forall>k. k \<noteq> cid \<longrightarrow> keeps now (read_item item t k) (read_item item t' k)) \<and>
      (\<exists>seen. keeps now (read_item item t cid) seen \<and>
        (if live seen n then read_item item t' cid = seen \<and> \<not> accepted r
         else read_item item t' cid = Some (Some expires, 0) \<or> read_item item t' cid = seen \<and> \<not> accepted r))"
    using others by blast
qed

lemma get_is_documented:
  assumes "get_served d item"
  shows "get_documented d (read_item item)"
  unfolding get_documented_def
proof (intro allI impI)
  fix t now hs cid r t'
  assume s: "dy_serve d t now ''GetItem'' hs (get_body (dy_table d) cid) = (r, t')"
  with assms have k: "\<forall>k. deleted_or now (item t k) (item t' k)"
    and a: "\<And>status detail content at v. r = Inr (status, detail, content) \<Longrightarrow> accepted r \<Longrightarrow> item t' cid = Some at \<Longrightarrow> at ''expires_at'' = Some v \<Longrightarrow>
         attr_path content ''Item'' ''expires_at'' = Some (show_int v)"
    unfolding get_served_def using get_means [of "dy_table d" cid] by blast+
  show "(\<forall>k. keeps now (read_item item t k) (read_item item t' k)) \<and>
      (\<forall>status detail content e h. r = Inr (status, detail, content) \<and> accepted r \<and> read_item item t' cid = Some (Some e, h) \<longrightarrow>
         attr_path content ''Item'' ''expires_at'' = Some (show_int e))"
    using k deleted_or_keeps [of now item t] a by (auto simp: read_item_def)
qed

lemma update_is_documented:
  assumes "update_served d item"
  shows "update_documented d (read_item item)"
  unfolding update_documented_def
proof (intro allI impI)
  fix t now hs key expires r t'
  let ?b = "update_body (dy_table d) key expires"
  let ?v = "map_option (\<lambda>at. (at ''expires_at'', coalesce (at ''hits'') 0))"
  assume "dy_serve d t now ''UpdateItem'' hs ?b = (r, t')"
  with assms have k: "\<forall>k. k \<noteq> key \<longrightarrow> deleted_or now (item t k) (item t' k)"
    and u: "\<exists>seen. deleted_or now (item t key) seen \<and>
          (case item_updated ?b seen of None \<Rightarrow> True | Some at \<Rightarrow> item t' key = Some at \<or> item t' key = seen \<and> \<not> accepted r)"
    and a: "\<And>status detail content at v. r = Inr (status, detail, content) \<Longrightarrow> accepted r \<Longrightarrow> item t' key = Some at \<Longrightarrow> at ''hits'' = Some v \<Longrightarrow>
         attr_path content ''Attributes'' ''hits'' = Some (show_int v)"
    unfolding update_served_def using update_means(1-4) [of "dy_table d" key expires] by blast+
  from u obtain seen where seen: "deleted_or now (item t key) seen"
    "case item_updated ?b seen of None \<Rightarrow> True | Some at \<Rightarrow> item t' key = Some at \<or> item t' key = seen \<and> \<not> accepted r" by blast
  obtain at where at: "item_updated ?b seen = Some at" "at ''expires_at'' = Some (coalesce (coalesce seen (\<lambda>_. None) ''expires_at'') expires)"
    "at ''hits'' = Some (coalesce (coalesce seen (\<lambda>_. None) ''hits'') 0 + 1)" using update_means(5) by blast
  have up: "(at ''expires_at'', coalesce (at ''hits'') 0) = updated expires (?v seen)"
    unfolding at(2,3) by (cases seen) (simp_all add: updated_def coalesce_def)
  have hits: "at ''hits'' = Some (snd (updated expires (?v seen)))" unfolding up [symmetric] using at(3) by (simp add: coalesce_def)
  have "keeps now (read_item item t key) (?v seen)" using deleted_or_keeps [of now item t key seen] seen(1) by simp
  moreover have "read_item item t' key = Some (updated expires (?v seen)) \<and>
        (\<forall>status detail content. r = Inr (status, detail, content) \<and> accepted r \<longrightarrow>
            attr_path content ''Attributes'' ''hits'' = Some (show_int (snd (updated expires (?v seen))))) \<or>
      read_item item t' key = ?v seen \<and> \<not> accepted r"
    using seen(2) at(1) a hits up by (auto simp: read_item_def)
  ultimately show "(\<forall>k. k \<noteq> key \<longrightarrow> keeps now (read_item item t k) (read_item item t' k)) \<and>
      (\<exists>seen. keeps now (read_item item t key) seen \<and>
        (read_item item t' key = Some (updated expires seen) \<and>
           (\<forall>status detail content. r = Inr (status, detail, content) \<and> accepted r \<longrightarrow>
              attr_path content ''Attributes'' ''hits'' = Some (show_int (snd (updated expires seen)))) \<or>
         read_item item t' key = seen \<and> \<not> accepted r))"
    using k deleted_or_keeps [of now item t] unfolding read_item_def by blast
qed

definition store_documented :: "'t dynamo \<Rightarrow> 't items \<Rightarrow> bool" where
  "store_documented d item \<longleftrightarrow> put_documented d item \<and> get_documented d item \<and> update_documented d item"

lemma documented_store: "dynamo_documented d item \<Longrightarrow> store_documented d (read_item item)"
  by (simp add: dynamo_documented_def store_documented_def put_is_documented get_is_documented update_is_documented)

section \<open>The contract\<close>

lemma accepted_no_redirect [simp]: "accepted (no_redirect r) = accepted r"
  by (auto simp: no_redirect_def accepted_def rbind_def split: sum.splits)

lemma no_redirect_accepted: "accepted r \<Longrightarrow> no_redirect r = r"
  by (auto simp: no_redirect_def accepted_def rbind_def split: sum.splits)

text \<open>A request either never leaves, and nothing changes, or it is served.\<close>

lemma dyn_send_cases:
  assumes "dyn_send d now target content t = (r, t')"
  obtains "t' = t" "\<not> accepted r" | hs r' where "dy_serve d t now target hs content = (r', t')" "r = no_redirect r'"
  using assms
  by (auto simp: dyn_send_def accepted_def split: sum.splits prod.splits if_splits)

definition dyn_held :: "'t items \<Rightarrow> 't \<Rightarrow> int \<Rightarrow> string \<Rightarrow> bool" where
  "dyn_held item t u cid \<longleftrightarrow> 0 \<le> nowSeconds u \<and> (\<exists>e h. item t cid = Some (Some e, h) \<and> nowSeconds u \<le> e)"

definition dyn_counted :: "'t items \<Rightarrow> 't \<Rightarrow> int \<Rightarrow> string \<Rightarrow> int \<Rightarrow> bool" where
  "dyn_counted item t u key n \<longleftrightarrow>
     0 \<le> nowSeconds u \<and> (case item t key of None \<Rightarrow> n \<le> 0 | Some (e, h) \<Rightarrow> (\<forall>x. e = Some x \<longrightarrow> nowSeconds u \<le> x) \<and> 0 \<le> h \<and> n \<le> h)"

lemma keeps_live: "keeps now before after \<Longrightarrow> live before n \<Longrightarrow> nowSeconds now \<le> n \<Longrightarrow> after = before"
  by (auto simp: keeps_def live_def split: option.splits)

lemma keeps_live_iff: "keeps now before after \<Longrightarrow> nowSeconds now \<le> n \<Longrightarrow> live after n \<longleftrightarrow> live before n"
  by (auto simp: keeps_def live_def split: option.splits)

lemma dyn_counted_keeps:
  "dyn_counted item t u key n \<Longrightarrow> now \<le> u \<Longrightarrow> keeps now (item t key) (item t' key) \<Longrightarrow> dyn_counted item t' u key n"
  using nowSeconds_mono [of now u] by (auto simp: dyn_counted_def keeps_def split: option.splits)

lemma dyn_held_keeps: "dyn_held item t u cid \<Longrightarrow> now \<le> u \<Longrightarrow> keeps now (item t cid) (item t' cid) \<Longrightarrow> dyn_held item t' u cid"
  using nowSeconds_mono [of now u] keeps_live [of now "item t cid" "item t' cid" "nowSeconds u"] by (auto simp: dyn_held_def live_def)

lemma keeps_refl [simp]: "keeps now a a"
  by (simp add: keeps_def)

text \<open>What one operation does to the items.\<close>

lemma dyn_claim_items:
  assumes "store_documented d item" "dyn_claim d t now cid ttl = (r, t')"
  shows "(\<forall>k. k \<noteq> cid \<longrightarrow> keeps now (item t k) (item t' k)) \<and>
    (\<exists>seen. keeps now (item t cid) seen \<and>
       (if live seen (nowSeconds now) then item t' cid = seen \<and> r \<noteq> Fresh True
        else item t' cid = Some (Some (lifetime now ttl), 0) \<or> item t' cid = seen \<and> r \<noteq> Fresh True))"
proof -
  obtain a s where send: "dyn_send d now ''PutItem'' (put_body (dy_table d) cid (lifetime now ttl) (nowSeconds now)) t = (a, s)"
    by (metis surj_pair)
  have s: "t' = s" and fresh: "r = Fresh True \<Longrightarrow> accepted a"
    using assms(2) send by (auto simp: dyn_claim_def store_failure_def accepted_def split: sum.splits prod.splits if_splits)
  from send show ?thesis
  proof (cases rule: dyn_send_cases)
    case 1
    then have "r \<noteq> Fresh True" using fresh by auto
    with 1 s show ?thesis by (intro conjI exI [of _ "item t cid"]) auto
  next
    case (2 hs r')
    with assms(1) have "(\<forall>k. k \<noteq> cid \<longrightarrow> keeps now (item t k) (item s k)) \<and>
        (\<exists>seen. keeps now (item t cid) seen \<and>
          (if live seen (nowSeconds now) then item s cid = seen \<and> \<not> accepted r'
           else item s cid = Some (Some (lifetime now ttl), 0) \<or> item s cid = seen \<and> \<not> accepted r'))"
      unfolding store_documented_def put_documented_def by blast
    with 2 s fresh show ?thesis by (metis accepted_no_redirect)
  qed
qed

lemma dyn_has_items:
  assumes "store_documented d item" "dyn_has d t now cid = (r, t')"
  shows "(\<forall>k. keeps now (item t k) (item t' k)) \<and> (\<forall>e h. item t' cid = Some (Some e, h) \<longrightarrow> 0 \<le> e \<longrightarrow> r = Claimed False \<longrightarrow> e < nowSeconds now)"
proof -
  obtain a s where send: "dyn_send d now ''GetItem'' (get_body (dy_table d) cid) t = (a, s)" by (metis surj_pair)
  have s: "t' = s" and seen: "r = Claimed False \<Longrightarrow> \<exists>status detail content. a = Inr (status, detail, content) \<and> accepted a \<and>
      (case number_of (attr_path content ''Item'' ''expires_at'') of None \<Rightarrow> True | Some e \<Rightarrow> e < nowSeconds now)"
    using assms(2) send
    by (auto simp: dyn_has_def store_failure_def split: sum.splits prod.splits if_splits option.splits)
  from send show ?thesis
  proof (cases rule: dyn_send_cases)
    case 1
    then have "r \<noteq> Claimed False" using seen by auto
    with 1 s show ?thesis by auto
  next
    case (2 hs r')
    with assms(1) have doc: "\<forall>k. keeps now (item t k) (item s k)"
        "\<And>status detail content e h. r' = Inr (status, detail, content) \<Longrightarrow> accepted r' \<Longrightarrow> item s cid = Some (Some e, h) \<Longrightarrow>
           attr_path content ''Item'' ''expires_at'' = Some (show_int e)"
      unfolding store_documented_def get_documented_def by blast+
    have "e < nowSeconds now" if "item s cid = Some (Some e, h)" "0 \<le> e" "r = Claimed False" for e h
    proof -
      from seen [OF that(3)] obtain status detail content where
        a: "a = Inr (status, detail, content)" "accepted a"
          "case number_of (attr_path content ''Item'' ''expires_at'') of None \<Rightarrow> True | Some e \<Rightarrow> e < nowSeconds now"
        by blast
      have "accepted r'" using a(2) 2(2) by simp
      then have "r' = a" using 2(2) no_redirect_accepted [of r'] by simp
      with doc(2) [of status detail content e h] a that number_of_show [of e] show ?thesis by simp
    qed
    with doc(1) s show ?thesis by blast
  qed
qed

lemma dyn_increment_items:
  assumes "store_documented d item" "dyn_increment d t now key ttl = (r, t')"
  shows "(\<forall>k. k \<noteq> key \<longrightarrow> keeps now (item t k) (item t' k)) \<and>
    (\<exists>seen. keeps now (item t key) seen \<and>
       (item t' key = Some (updated (lifetime now ttl) seen) \<and> (\<forall>m. r = Count m \<longrightarrow> m = snd (updated (lifetime now ttl) seen)) \<or>
        item t' key = seen \<and> (\<forall>m. r \<noteq> Count m)))"
proof -
  obtain a s where send: "dyn_send d now ''UpdateItem'' (update_body (dy_table d) key (lifetime now ttl)) t = (a, s)"
    by (metis surj_pair)
  have s: "t' = s" and counted: "\<And>m. r = Count m \<Longrightarrow> \<exists>status detail content. a = Inr (status, detail, content) \<and> accepted a \<and>
      m = coalesce (number_of (attr_path content ''Attributes'' ''hits'')) 0"
    using assms(2) send by (auto simp: dyn_increment_def store_failure_def split: sum.splits prod.splits if_splits)
  from send show ?thesis
  proof (cases rule: dyn_send_cases)
    case 1
    then have "r \<noteq> Count m" for m using counted by auto
    with 1 s show ?thesis by (intro conjI exI [of _ "item t key"]) auto
  next
    case (2 hs r')
    with assms(1) have doc: "\<forall>k. k \<noteq> key \<longrightarrow> keeps now (item t k) (item s k)"
        "\<exists>seen. keeps now (item t key) seen \<and>
          (item s key = Some (updated (lifetime now ttl) seen) \<and>
             (\<forall>status detail content. r' = Inr (status, detail, content) \<and> accepted r' \<longrightarrow>
                attr_path content ''Attributes'' ''hits'' = Some (show_int (snd (updated (lifetime now ttl) seen)))) \<or>
           item s key = seen \<and> \<not> accepted r')"
      unfolding store_documented_def update_documented_def by blast+
    have got: "\<exists>status detail content. r' = Inr (status, detail, content) \<and> accepted r' \<and>
        m = coalesce (number_of (attr_path content ''Attributes'' ''hits'')) 0" if "r = Count m" for m
      using counted [OF that] 2 no_redirect_accepted [of r'] by auto
    from doc(2) obtain seen where seen: "keeps now (item t key) seen"
      "item s key = Some (updated (lifetime now ttl) seen) \<and>
             (\<forall>status detail content. r' = Inr (status, detail, content) \<and> accepted r' \<longrightarrow>
                attr_path content ''Attributes'' ''hits'' = Some (show_int (snd (updated (lifetime now ttl) seen)))) \<or>
           item s key = seen \<and> \<not> accepted r'" by blast
    then have "item s key = Some (updated (lifetime now ttl) seen) \<and> (\<forall>m. r = Count m \<longrightarrow> m = snd (updated (lifetime now ttl) seen)) \<or>
        item s key = seen \<and> (\<forall>m. r \<noteq> Count m)"
    proof (elim disjE conjE)
      assume u: "item s key = Some (updated (lifetime now ttl) seen)"
        "\<forall>status detail content. r' = Inr (status, detail, content) \<and> accepted r' \<longrightarrow>
           attr_path content ''Attributes'' ''hits'' = Some (show_int (snd (updated (lifetime now ttl) seen)))"
      have "m = snd (updated (lifetime now ttl) seen)" if "r = Count m" for m
        using got [OF that] u(2) number_of_show by (auto simp: coalesce_def)
      with u(1) show ?thesis by blast
    next
      assume "item s key = seen" "\<not> accepted r'"
      with got show ?thesis by blast
    qed
    with seen(1) doc(1) s show ?thesis by blast
  qed
qed

lemma lifetime_window: "t < now + ttl * 1000 \<Longrightarrow> nowSeconds t \<le> lifetime now ttl"
  unfolding lifetime_def using nowSeconds_window [of t now ttl] by simp

lemma dyn_claim_granted:
  assumes "store_documented d item" "dyn_claim d s now cid ttl = (Fresh True, s')" "0 < now" "now \<le> t" "t < now + ttl * 1000"
  shows "dyn_held item s' t cid"
proof -
  have "item s' cid = Some (Some (lifetime now ttl), 0)" using dyn_claim_items [OF assms(1,2)] by (auto split: if_splits)
  moreover have "0 \<le> nowSeconds t" using assms(3,4) by (simp add: nowSeconds_def)
  ultimately show ?thesis using lifetime_window [OF assms(5)] by (simp add: dyn_held_def live_def)
qed

lemma dyn_claim_refused:
  assumes "store_documented d item" "live (item s cid) (nowSeconds now)" "dyn_claim d s now cid ttl = (r, s')"
  shows "item s' cid = item s cid \<and> r \<noteq> Fresh True"
proof -
  from dyn_claim_items [OF assms(1,3)] obtain seen where seen: "keeps now (item s cid) seen"
      "if live seen (nowSeconds now) then item s' cid = seen \<and> r \<noteq> Fresh True
       else item s' cid = Some (Some (lifetime now ttl), 0) \<or> item s' cid = seen \<and> r \<noteq> Fresh True"
    by blast
  from keeps_live [OF seen(1) assms(2)] have "seen = item s cid" by simp
  with seen(2) assms(2) show ?thesis by simp
qed

lemma dyn_step_keeps:
  assumes "store_documented d item" "dyn_step d s now op = (r, s')"
    and "op_key op = k \<Longrightarrow> \<not> counts op \<and> (claims_op op \<longrightarrow> live (item s k) (nowSeconds now))"
  shows "keeps now (item s k) (item s' k)"
proof (cases op)
  case (Claim c ttl)
  with assms dyn_claim_items [OF assms(1), of s now c ttl r s'] dyn_claim_refused [OF assms(1), of s c now ttl r s'] show ?thesis
    by (cases "c = k") simp_all
next
  case (Has c)
  with assms(2) dyn_has_items [OF assms(1), of s now c r s'] show ?thesis by simp
next
  case (Increment c ttl fc)
  with assms(2,3) dyn_increment_items [OF assms(1), of s now c ttl r s'] show ?thesis by (cases "c = k") simp_all
next
  case (Alarm c)
  with assms(2) show ?thesis by simp
qed

lemma dyn_held_seen:
  assumes "store_documented d item" "dyn_held item s now cid" "dyn_has d s now cid = (r, s')"
  shows "r \<noteq> Claimed False"
proof -
  from assms(2) obtain e h where e: "item s cid = Some (Some e, h)" "nowSeconds now \<le> e" "0 \<le> nowSeconds now"
    by (auto simp: dyn_held_def live_def split: option.splits)
  note items = dyn_has_items [OF assms(1,3)]
  have "keeps now (item s cid) (item s' cid)" using items by blast
  then have "item s' cid = item s cid" using keeps_live [of now _ _ "nowSeconds now"] e by (simp add: live_def)
  then have "item s' cid = Some (Some e, h)" using e by simp
  with items e show ?thesis by force
qed

lemma dyn_counted_up:
  assumes "store_documented d item" "dyn_counted item s t key n" "now \<le> t" "t < now + ttl * 1000"
    "dyn_increment d s now key ttl = (Count m, s')"
  shows "n < m \<and> dyn_counted item s' t key (n + 1)"
proof -
  obtain seen where seen: "keeps now (item s key) seen" "item s' key = Some (updated (lifetime now ttl) seen)"
      "m = snd (updated (lifetime now ttl) seen)"
    using dyn_increment_items [OF assms(1,5)] by auto
  obtain e h where e: "updated (lifetime now ttl) seen = (e, h)" by (metis surj_pair)
  have grown: "(\<forall>x. e = Some x \<longrightarrow> nowSeconds t \<le> x) \<and> 0 \<le> h \<and> n < h"
    using assms(2) seen(1) e lifetime_window [OF assms(4)] nowSeconds_mono [OF assms(3)]
    by (cases seen) (auto simp: dyn_counted_def keeps_def updated_def coalesce_def split: option.splits)
  then show ?thesis using assms(2) seen(2,3) e by (simp add: dyn_counted_def)
qed

lemma dyn_counted_failed:
  assumes "store_documented d item" "dyn_counted item s t key n" "now \<le> t" "t < now + ttl * 1000"
    "dyn_increment d s now key ttl = (Failed x, s')"
  shows "dyn_counted item s' t key n"
proof -
  obtain seen where "keeps now (item s key) seen"
      "item s' key = Some (updated (lifetime now ttl) seen) \<or> item s' key = seen"
    using dyn_increment_items [OF assms(1,5)] by auto
  then show ?thesis
    using assms(2) lifetime_window [OF assms(4)] nowSeconds_mono [OF assms(3)]
    by (cases seen) (auto simp: dyn_counted_def keeps_def updated_def coalesce_def split: option.splits)
qed

lemma dyn_increment_reply: "dyn_increment d s now key ttl = (r, s') \<Longrightarrow> (\<exists>m. r = Count m) \<or> (\<exists>e. r = Failed e)"
  by (auto simp: dyn_increment_def store_failure_def split: sum.splits prod.splits if_splits)

lemma dynamo_state_store:
  assumes "store_documented d item"
  shows "state_store (dyn_step d) (dyn_held item) (dyn_counted item) (\<lambda>fc. True)"
proof unfold_locales
  fix s now cid ttl s' t
  assume "dyn_step d s now (Claim cid ttl) = (Fresh True, s')" "0 < now" "now \<le> t" "t < now + ttl * 1000"
  then show "dyn_held item s' t cid" using dyn_claim_granted [OF assms] by simp
next
  fix s t cid now op r s'
  assume a: "dyn_held item s t cid" "0 < now" "now \<le> t" "\<not> (counts op \<and> op_key op = cid)" "dyn_step d s now op = (r, s')"
  have "live (item s cid) (nowSeconds now)"
    using a(1) nowSeconds_mono [OF a(3)] by (auto simp: dyn_held_def live_def split: option.splits)
  then show "dyn_held item s' t cid"
    using dyn_held_keeps [OF a(1,3) dyn_step_keeps [OF assms a(5)]] a(4) by blast
next
  fix s now cid ttl
  assume "dyn_held item s now cid"
  then have "live (item s cid) (nowSeconds now)" by (auto simp: dyn_held_def live_def)
  then show "fst (dyn_step d s now (Claim cid ttl)) \<noteq> Fresh True"
    using dyn_claim_refused [OF assms, of s cid now ttl "fst (dyn_claim d s now cid ttl)" "snd (dyn_claim d s now cid ttl)"] by simp
next
  fix s now cid
  assume a: "dyn_held item s now cid"
  show "fst (dyn_step d s now (Has cid)) \<noteq> Claimed False"
    using dyn_held_seen [OF assms a, of "fst (dyn_has d s now cid)" "snd (dyn_has d s now cid)"] by simp
next
  fix s t key n now op r s'
  assume a: "dyn_counted item s t key n" "now \<le> t" "op_key op \<noteq> key \<or> \<not> counts op \<and> \<not> claims_op op" "dyn_step d s now op = (r, s')"
  then show "dyn_counted item s' t key n"
    using dyn_counted_keeps [OF a(1,2) dyn_step_keeps [OF assms a(4)]] by blast
next
  fix s t key n now ttl fc m s'
  assume "dyn_counted item s t key n" "now \<le> t" "t < now + ttl * 1000" "dyn_step d s now (Increment key ttl fc) = (Count m, s')"
  then show "n < m \<and> dyn_counted item s' t key (n + 1)" using dyn_counted_up [OF assms] by simp
next
  fix s t key n now ttl fc e s'
  assume "dyn_counted item s t key n" "now \<le> t" "t < now + ttl * 1000" "dyn_step d s now (Increment key ttl fc) = (Failed e, s')"
  then show "dyn_counted item s' t key n" using dyn_counted_failed [OF assms] by simp
next
  fix s now key ttl fc r s'
  assume "dyn_step d s now (Increment key ttl fc) = (r, s')"
  then show "(\<exists>m. r = Count m) \<or> (\<exists>e. r = Failed e)" using dyn_increment_reply by simp
qed

section \<open>Properties\<close>

text \<open>C19: the DynamoDB store keeps the promises its callers rely on. Under what the service documents of its three operations, of the
  expressions the requests carry and of its time to live, a granted claim is not granted again within its time, a revocation check
  still sees it, and of all increments of a key in its window at most \<open>lim\<close> are answered with a number within the limit, whatever
  else is interleaved and although the service deletes expired items when it pleases.\<close>

theorem dynamo_store_sound:
  assumes "dynamo_documented d item" "0 < now" "now \<le> t" "t < now + ttl * 1000" "ttl \<le> 366 * 86400"
    and "list_all (\<lambda>(u, op). 0 < u \<and> u \<le> t \<and> \<not> (counts op \<and> op_key op = cid)) ops"
    and "item s key = None" "0 \<le> lim" "list_all (window_use key t) uses"
  shows "(dyn_step d s now (Claim cid ttl) = (Fresh True, s') \<longrightarrow>
      fst (dyn_step d (snd (claim_store.run (dyn_step d) s' ops)) t (Claim cid ttl')) \<noteq> Fresh True \<and>
      fst (dyn_step d (snd (claim_store.run (dyn_step d) s' ops)) t (Has cid)) \<noteq> Claimed False) \<and>
    int (counter_store.within (dyn_step d) s key lim uses) \<le> lim"
proof -
  note contract = dynamo_state_store [OF documented_store [OF assms(1)]]
  note claims = state_store.axioms(1) [OF contract] and counters = state_store.axioms(2) [OF contract]
  have op: "0 < u \<and> u \<le> t \<and> \<not> (counts op \<and> op_key op = cid)" if "(u, op) \<in> set ops" for u op
    using assms(6) that by (auto simp: list_all_iff)
  have use: "u \<le> t \<and> (op_key op = key \<longrightarrow> (\<exists>ttl fc. op = Increment key ttl fc \<and> True \<and> t < u + ttl * 1000 \<and> ttl \<le> 366 * 86400) \<or>
      \<not> counts op \<and> \<not> claims_op op)" if "(u, op) \<in> set uses" for u op
    using window_use_cases [of key t u op] assms(9) that by (auto simp: list_all_iff)
  have "dyn_counted (read_item item) s t key 0" using assms(2,3,7) by (simp add: dyn_counted_def nowSeconds_def read_item_def)
  from counter_store.limit_enforced [OF counters this, of uses lim, OF use] assms(8)
  have "int (counter_store.within (dyn_step d) s key lim uses) \<le> lim" by simp
  then show ?thesis
    using claim_store.claim_once [OF claims _ assms(2-5) op, of s s'] by blast
qed

section \<open>A table\<close>

text \<open>A service that does what is documented by evaluating the requests it is sent, and never deletes. Its items are lists of attributes.\<close>

type_synonym sample_table = "(string \<times> (string \<times> int) list) list"

definition table_of :: "('a \<Rightarrow> 'b option) \<Rightarrow> 'a list \<Rightarrow> ('a \<times> 'b) list" where
  "table_of f ks = map (\<lambda>k. (k, the (f k))) (filter (\<lambda>k. f k \<noteq> None) ks)"

definition shown_item :: "(string \<times> int) list \<Rightarrow> json" where
  "shown_item l = JObj (map (\<lambda>(x, v). (x, attr_n v)) l)"

definition item_keys :: "json option \<Rightarrow> string list" where
  "item_keys j = (case j of Some (JObj fs) \<Rightarrow> map fst fs | _ \<Rightarrow> [])"

definition sample_item :: "sample_table table" where
  "sample_item t k = map_option map_of (map_of t k)"

definition sample_serve :: "sample_table \<Rightarrow> int \<Rightarrow> string \<Rightarrow> headers \<Rightarrow> json \<Rightarrow> aws_answer \<times> sample_table" where
  "sample_serve t now target hs body =
     (case as_str (nested body [if target = ''PutItem'' then ''Item'' else ''Key'', ''jti'', ''S'']) of
        None \<Rightarrow> (Inr (400, ''ValidationException'', None), t)
      | Some k \<Rightarrow>
          if target = ''PutItem''
          then (case condition_holds body (sample_item t k) of
              None \<Rightarrow> (Inr (400, ''ValidationException'', None), t)
            | Some False \<Rightarrow> (Inr (400, ''ConditionalCheckFailedException'', None), t)
            | Some True \<Rightarrow> (Inr (200, [], Some (jobj [])), (k, table_of (item_written body) (item_keys (jget body ''Item''))) # t))
          else if target = ''GetItem''
          then (Inr (200, [], Some (jobj [(''Item'', map_option shown_item (map_of t k))])), t)
          else (case item_updated body (sample_item t k) of
              None \<Rightarrow> (Inr (400, ''ValidationException'', None), t)
            | Some at \<Rightarrow> (let l = table_of at (map fst (coalesce (map_of t k) []) @
                  map (attribute_name body) (words (coalesce (as_str (jget body ''UpdateExpression'')) []))) in
                (Inr (200, [], Some (jobj [(''Attributes'', Some (shown_item l))])), (k, l) # t))))"

definition sample_dynamo :: "sample_table dynamo" where
  "sample_dynamo = \<lparr>dy_pf = toy_platform JNull, dy_target = (\<lambda>u. Some (''dynamodb'', ''/'', [])),
     dy_env = [(''AWS_ACCESS_KEY_ID'', ''a''), (''AWS_SECRET_ACCESS_KEY'', ''s'')], dy_table = ''t'', dy_region = ''r'', dy_endpoint = ''e'',
     dy_serve = sample_serve\<rparr>"

lemma sample_dynamo_serve: "dy_serve sample_dynamo = sample_serve"
  by (simp add: sample_dynamo_def)

lemma map_of_table_of: "map_of (table_of f ks) x = (if x \<in> set ks then f x else None)"
  by (induction ks) (auto simp: table_of_def)

lemma table_of_all: "(\<And>x. f x \<noteq> None \<Longrightarrow> x \<in> set ks) \<Longrightarrow> map_of (table_of f ks) = f"
  by (rule ext) (metis map_of_table_of)

lemma item_written_keys: "item_written body x \<noteq> None \<Longrightarrow> x \<in> set (item_keys (jget body ''Item''))"
proof -
  assume "item_written body x \<noteq> None"
  then obtain j where "jget body ''Item'' = Some j" "jget j x \<noteq> None"
    by (cases "jget body ''Item''") (auto simp: item_written_def number_of_def split: if_splits bind_splits)
  then show ?thesis by (cases j) (force simp: item_keys_def dest: map_of_SomeD)+
qed

lemma update_clauses_keys:
  "update_clauses body old at ts = Some at' \<Longrightarrow> at' x \<noteq> None \<Longrightarrow> at x \<noteq> None \<or> x \<in> attribute_name body ` set ts"
proof (induction body old at ts rule: update_clauses.induct)
  case (2 body old at kw ts)
  have assigned: ?case if "y \<in> set ts" "at2 x \<noteq> None \<or> x \<in> attribute_name body ` set (drop n ts)" "at2 = at(attribute_name body y := v)" for y n v at2
    using that set_drop_subset [of n ts] by (cases "x = attribute_name body y") auto
  have tok: "2 \<le> length ts \<Longrightarrow> ts ! 0 \<in> set ts" by (cases ts) simp_all
  from 2(4) consider
    "kw = ''SET'' \<and> 4 \<le> length ts \<and> ts ! 1 = ''='' \<and> starts_with (ts ! 2) ''if_not_exists(''"
  | "\<not> (kw = ''SET'' \<and> 4 \<le> length ts \<and> ts ! 1 = ''='' \<and> starts_with (ts ! 2) ''if_not_exists('')" "kw = ''SET'' \<and> 3 \<le> length ts \<and> ts ! 1 = ''=''"
  | "\<not> (kw = ''SET'' \<and> 4 \<le> length ts \<and> ts ! 1 = ''='' \<and> starts_with (ts ! 2) ''if_not_exists('')"
    "\<not> (kw = ''SET'' \<and> 3 \<le> length ts \<and> ts ! 1 = ''='')" "kw = ''ADD'' \<and> 2 \<le> length ts"
    by (simp split: if_split_asm; blast)
  then show ?case
  proof cases
    case 1
    with 2(1) [OF 1 _ 2(5)] 2(4) show ?thesis by (intro assigned [of "ts ! 0" _ 4, OF tok _ refl]) (auto simp del: fun_upd_apply split: if_splits)
  next
    case 2
    with "2.IH"(2) [OF 2 _ "2.prems"(2)] "2.prems"(1) show ?thesis by (intro assigned [of "ts ! 0" _ 3, OF tok _ refl]) (auto simp del: fun_upd_apply split: if_splits)
  next
    case 3
    with "2.IH"(3) [OF 3 _ "2.prems"(2)] "2.prems"(1) show ?thesis by (intro assigned [of "ts ! 0" _ 2, OF tok _ refl]) (auto simp del: fun_upd_apply split: if_splits)
  qed
qed auto

lemma shown_item_path: "attr_path (Some (jobj [(part, Some (shown_item l))])) part x = map_option show_int (map_of l x)"
proof -
  have "map_of (map (\<lambda>(x, v). (x, attr_n v)) l) x = map_option attr_n (map_of l x)" by (induction l) auto
  then show ?thesis by (cases "map_of l x") (simp_all add: attr_path_def shown_item_def attr_n_def)
qed

lemma sample_dynamo_documented: "dynamo_documented sample_dynamo sample_item"
  unfolding dynamo_documented_def
proof (intro conjI)
  have keep: "deleted_or now (sample_item t k) (sample_item t k)" for now t k by (simp add: deleted_or_def)
  show "put_served sample_dynamo sample_item"
    unfolding put_served_def
  proof (intro allI impI, elim conjE)
    fix t now hs body cid r t'
    assume s: "dy_serve sample_dynamo t now ''PutItem'' hs body = (r, t')" and k: "as_str (nested body [''Item'', ''jti'', ''S'']) = Some cid"
    have w: "map_of (table_of (item_written body) (item_keys (jget body ''Item''))) = item_written body"
      by (rule table_of_all) (rule item_written_keys)
    from s k have "(case condition_holds body (sample_item t cid) of
        Some True \<Rightarrow> t' = (cid, table_of (item_written body) (item_keys (jget body ''Item''))) # t
      | _ \<Rightarrow> t' = t \<and> \<not> accepted r)"
      by (auto simp: sample_dynamo_serve sample_serve_def accepted_def simp del: nested_simps split: option.splits bool.splits)
    then show "(\<forall>k. k \<noteq> cid \<longrightarrow> deleted_or now (sample_item t k) (sample_item t' k)) \<and>
        (\<exists>seen. deleted_or now (sample_item t cid) seen \<and>
          (case condition_holds body seen of None \<Rightarrow> True
           | Some False \<Rightarrow> sample_item t' cid = seen \<and> \<not> accepted r
           | Some True \<Rightarrow> sample_item t' cid = Some (item_written body) \<or> sample_item t' cid = seen \<and> \<not> accepted r))"
      by (intro conjI exI [of _ "sample_item t cid"]) (auto simp: deleted_or_def w sample_item_def split: option.splits bool.splits)
  qed
  show "get_served sample_dynamo sample_item"
    unfolding get_served_def
  proof (intro allI impI, elim conjE)
    fix t now hs body cid r t'
    assume s: "dy_serve sample_dynamo t now ''GetItem'' hs body = (r, t')" and k: "as_str (nested body [''Key'', ''jti'', ''S'']) = Some cid"
    then have "t' = t" "r = Inr (200, [], Some (jobj [(''Item'', map_option shown_item (map_of t cid))]))"
      by (auto simp: sample_dynamo_serve sample_serve_def simp del: nested_simps)
    then show "(\<forall>k. deleted_or now (sample_item t k) (sample_item t' k)) \<and>
        (\<forall>status detail content at x v. r = Inr (status, detail, content) \<and> accepted r \<and> jget body ''ConsistentRead'' = Some (JBool True) \<and>
           projects body x \<and> sample_item t' cid = Some at \<and> at x = Some v \<longrightarrow> attr_path content ''Item'' x = Some (show_int v))"
      by (auto simp: deleted_or_def sample_item_def shown_item_path simp del: jobj.simps)
  qed
  show "update_served sample_dynamo sample_item"
    unfolding update_served_def
  proof (intro allI impI, elim conjE)
    fix t now hs body key r t'
    assume s: "dy_serve sample_dynamo t now ''UpdateItem'' hs body = (r, t')" and k: "as_str (nested body [''Key'', ''jti'', ''S'']) = Some key"
    let ?ks = "map fst (coalesce (map_of t key) []) @ map (attribute_name body) (words (coalesce (as_str (jget body ''UpdateExpression'')) []))"
    show "(\<forall>k. k \<noteq> key \<longrightarrow> deleted_or now (sample_item t k) (sample_item t' k)) \<and>
        (\<exists>seen. deleted_or now (sample_item t key) seen \<and>
          (case item_updated body seen of None \<Rightarrow> True
           | Some at \<Rightarrow> sample_item t' key = Some at \<or> sample_item t' key = seen \<and> \<not> accepted r)) \<and>
        (\<forall>status detail content at x v. r = Inr (status, detail, content) \<and> accepted r \<and> jget body ''ReturnValues'' = Some (JStr ''ALL_NEW'') \<and>
           sample_item t' key = Some at \<and> at x = Some v \<longrightarrow> attr_path content ''Attributes'' x = Some (show_int v))"
    proof (cases "item_updated body (sample_item t key)")
      case None
      then have "t' = t" "\<not> accepted r" using s k by (auto simp: sample_dynamo_serve sample_serve_def accepted_def simp del: nested_simps)
      with None keep show ?thesis by (intro conjI exI [of _ "sample_item t key"]) auto
    next
      case (Some at)
      then have t': "t' = (key, table_of at ?ks) # t" "r = Inr (200, [], Some (jobj [(''Attributes'', Some (shown_item (table_of at ?ks)))]))"
        using s k by (simp_all add: sample_dynamo_serve sample_serve_def Let_def del: nested_simps)
      have "x \<in> set ?ks" if "at x \<noteq> None" for x
        using update_clauses_keys [OF Some [unfolded item_updated_def] that]
        by (cases "map_of t key") (auto simp: sample_item_def coalesce_def dest!: map_of_SomeD intro: rev_image_eqI)
      then have w: "map_of (table_of at ?ks) = at" by (rule table_of_all)
      with Some t' keep show ?thesis
        by (intro conjI exI [of _ "sample_item t key"]) (auto simp: sample_item_def shown_item_path simp del: jobj.simps)
    qed
  qed
qed

lemma sample_signed: "\<exists>hs. signRequest (toy_platform JNull) now (dyn_signed sample_dynamo target content) = Inr hs"
proof -
  have "credentialsFromEnv (dy_env sample_dynamo) \<noteq> None" by (simp add: sample_dynamo_def credentialsFromEnv_def or_str_def)
  then show ?thesis by (auto simp: signRequest_def dyn_signed_def Let_def split: prod.split)
qed

lemma sample_granted: "fst (dyn_step sample_dynamo [] now (Claim cid ttl)) = Fresh True"
proof -
  let ?put = "put_body (dy_table sample_dynamo) cid (lifetime now ttl) (nowSeconds now)"
  obtain hs where hs: "signRequest (toy_platform JNull) now (dyn_signed sample_dynamo ''PutItem'' ?put) = Inr hs"
    using sample_signed by blast
  have "fst (sample_serve [] now ''PutItem'' hs ?put) = Inr (200, [], Some (jobj []))"
    by (simp add: sample_serve_def put_means sample_item_def del: nested_simps)
  then obtain t' where "dy_serve sample_dynamo [] now ''PutItem'' hs ?put = (Inr (200, [], Some (jobj [])), t')"
    by (metis prod.collapse sample_dynamo_serve)
  then have "fst (dyn_send sample_dynamo now ''PutItem'' ?put []) = Inr (200, [], Some (jobj []))"
    using hs no_redirect_accepted [of "Inr (200, [], Some (jobj []))"]
    by (simp add: dyn_send_def accepted_def) (simp add: sample_dynamo_def)
  then show ?thesis by (auto simp: dyn_claim_def accepted_def split: prod.split sum.split)
qed

theorem dynamo_store_sound_witness:
  "fst (dyn_step sample_dynamo (snd (claim_store.run (dyn_step sample_dynamo)
       (snd (dyn_step sample_dynamo [] 5000 (Claim ''code:a'' 60))) sample_ops)) 60000 (Claim ''code:a'' 60)) \<noteq> Fresh True \<and>
   int (counter_store.within (dyn_step sample_dynamo) [] ''local:a'' 1 sample_attempts) \<le> 1"
proof -
  have granted: "dyn_step sample_dynamo [] 5000 (Claim ''code:a'' 60) =
      (Fresh True, snd (dyn_step sample_dynamo [] 5000 (Claim ''code:a'' 60)))"
    using sample_granted [of 5000 "''code:a''" 60] by (metis prod.collapse)
  have "list_all (\<lambda>(u, op). 0 < u \<and> u \<le> 60000 \<and> \<not> (counts op \<and> op_key op = ''code:a'')) sample_ops"
    "list_all (window_use ''local:a'' 60000) sample_attempts" "sample_item [] ''local:a'' = None"
    by code_simp+
  then show ?thesis
    using dynamo_store_sound [OF sample_dynamo_documented, of 5000 60000 60 "''code:a''" sample_ops "[]" "''local:a''" 1 sample_attempts
        "snd (dyn_step sample_dynamo [] 5000 (Claim ''code:a'' 60))" 60] granted
    by (simp del: dyn_step.simps)
qed

end
