(* ===== verification/Remote_Keys.thy ===== *)
theory Remote_Keys
  imports Keys Environment Sigv4
begin

text \<open>
  Secrets and keys held elsewhere: the sealed environment of \<^verbatim>\<open>src/keys/sealedEnv.js\<close> and the KMS signer of
  \<^verbatim>\<open>src/keys/awskms.js\<close>. The AWS services are parameters: a call gives a status and the text of the answer.
\<close>

section \<open>Signed calls to AWS\<close>

type_synonym aws_fetch = "http_call \<Rightarrow> (string, int \<times> string) result"

record aws =
  aw_pf :: platform
  aw_target :: "string \<Rightarrow> (string \<times> string \<times> params) option"
  aw_fetch :: aws_fetch
  aw_credentials :: "credentials option"

text \<open>The request of one target of a JSON service, signed and sent; redirects are refused.\<close>

definition aws_args :: "aws \<Rightarrow> string \<Rightarrow> string \<Rightarrow> string \<Rightarrow> string \<Rightarrow> string \<Rightarrow> sign_args" where
  "aws_args aw url service region target content =
     (let (host, path, query) = coalesce (aw_target aw url) ([], [], []) in
      \<lparr>sa_method = ''POST'', sa_host = host, sa_pathname = path, sa_query = query, sa_body = content, sa_service = service,
       sa_region = region, sa_credentials = aw_credentials aw,
       sa_headers = [(''content-type'', ''application/x-amz-json-1.1''), (''x-amz-target'', target)], sa_includeContentSha256 = True\<rparr>)"

definition aws_send :: "aws \<Rightarrow> int \<Rightarrow> string \<Rightarrow> string \<Rightarrow> string \<Rightarrow> string \<Rightarrow> json \<Rightarrow> (string, int \<times> string) result" where
  "aws_send aw now url service region target payload =
     (let content = pf_stringify (aw_pf aw) payload in
      rbind (signRequest (aw_pf aw) now (aws_args aw url service region target content)) (\<lambda>hs.
      if aw_target aw url = None then Inl ''Invalid URL''
      else rbind (aw_fetch aw \<lparr>hc_url = url, hc_method = ''POST'', hc_headers = hs, hc_body = Some content\<rparr>) (\<lambda>(status, detail).
        if 300 \<le> status \<and> status < 400 \<and> status \<noteq> 304
        then Inl (''refusing to follow a redirect (HTTP '' @ show_int status @ '')'') else Inr (status, detail))))"

text \<open>The value of a good answer.\<close>

definition aws_value :: "aws \<Rightarrow> string \<Rightarrow> int \<times> string \<Rightarrow> (string, json) result" where
  "aws_value aw who = (\<lambda>(status, detail).
     if status < 200 \<or> 299 < status then Inl (who @ '' failed with HTTP '' @ show_int status @ '' '' @ take 300 detail)
     else (case pf_parse (aw_pf aw) detail of None \<Rightarrow> Inl ''invalid JSON'' | Some j \<Rightarrow> Inr j))"

definition text_at :: "json option \<Rightarrow> (string, string) result" where
  "text_at v = (case v of Some (JStr s) \<Rightarrow> Inr s | _ \<Rightarrow> Inl ''not a string'')"

definition decoded_at :: "json option \<Rightarrow> (string, string) result" where
  "decoded_at v = rbind (text_at v) (\<lambda>s. rbind (unb64 s) (\<lambda>bs. Inr (from_utf8 bs)))"

section \<open>Sealed environment variables\<close>

datatype secret_service = Kms | Secrets_Manager | Parameter_Store

fun service_name :: "secret_service \<Rightarrow> string" where
  "service_name Kms = ''kms''"
| "service_name Secrets_Manager = ''secretsmanager''"
| "service_name Parameter_Store = ''ssm''"

fun endpointEnv :: "secret_service \<Rightarrow> string" where
  "endpointEnv Kms = ''AWS_ENDPOINT_URL_KMS''"
| "endpointEnv Secrets_Manager = ''AWS_ENDPOINT_URL_SECRETS_MANAGER''"
| "endpointEnv Parameter_Store = ''AWS_ENDPOINT_URL_SSM''"

fun service_target :: "secret_service \<Rightarrow> string" where
  "service_target Kms = ''TrentService.Decrypt''"
| "service_target Secrets_Manager = ''secretsmanager.GetSecretValue''"
| "service_target Parameter_Store = ''AmazonSSM.GetParameter''"

fun service_payload :: "secret_service \<Rightarrow> string \<Rightarrow> json" where
  "service_payload Kms i = jobj [(''CiphertextBlob'', Some (JStr i))]"
| "service_payload Secrets_Manager i = jobj [(''SecretId'', Some (JStr i))]"
| "service_payload Parameter_Store i = jobj [(''Name'', Some (JStr i)), (''WithDecryption'', Some (JBool True))]"

text \<open>The value a service answers; one that is no text cannot be a variable's value.\<close>

fun extractValue :: "secret_service \<Rightarrow> json \<Rightarrow> (string, string) result" where
  "extractValue Kms out = decoded_at (jget out ''Plaintext'')"
| "extractValue Secrets_Manager out =
     (case jget out ''SecretString'' of None \<Rightarrow> decoded_at (jget out ''SecretBinary'') | v \<Rightarrow> text_at v)"
| "extractValue Parameter_Store out = text_at (Option.bind (jget out ''Parameter'') (\<lambda>p. jget p ''Value''))"

definition MARKERS :: "(string \<times> secret_service) list" where
  "MARKERS = [(''aws:kms:'', Kms), (''aws:secretsmanager:'', Secrets_Manager), (''aws:ssm:'', Parameter_Store)]"

definition matchSealed :: "string \<Rightarrow> (string \<times> secret_service) option" where
  "matchSealed value = find (\<lambda>(marker, _). starts_with value marker) MARKERS"

definition resolve_secret :: "aws \<Rightarrow> int \<Rightarrow> secret_service \<Rightarrow> string \<Rightarrow> string \<Rightarrow> string option \<Rightarrow> (string, string) result" where
  "resolve_secret aw now service i region endpoint =
     (let url = or_str endpoint (''https://'' @ service_name service @ ''.'' @ region @ ''.amazonaws.com/'') in
      rbind (aws_send aw now url (service_name service) region (service_target service) (service_payload service i)) (\<lambda>answer.
      rbind (aws_value aw (service_name service @ '' '' @ service_target service) answer) (extractValue service)))"

text \<open>One variable: resolved when it is sealed, and otherwise as it is.\<close>

definition unseal_variable :: "aws \<Rightarrow> int \<Rightarrow> env \<Rightarrow> string \<Rightarrow> string \<times> string \<Rightarrow> (string, string \<times> string) result" where
  "unseal_variable aw now env region = (\<lambda>(key, value).
     case matchSealed value of None \<Rightarrow> Inr (key, value)
     | Some (marker, service) \<Rightarrow>
         let endpoint = (case env_str env (endpointEnv service) of None \<Rightarrow> env_str env ''AWS_ENDPOINT_URL'' | e \<Rightarrow> e) in
         rbind (resolve_secret aw now service (drop (length marker) value) region endpoint) (\<lambda>v. Inr (key, v)))"

fun all_results :: "('a \<Rightarrow> ('e, 'b) result) \<Rightarrow> 'a list \<Rightarrow> ('e, 'b list) result" where
  "all_results f [] = Inr []"
| "all_results f (x # xs) = rbind (f x) (\<lambda>y. rbind (all_results f xs) (\<lambda>ys. Inr (y # ys)))"

text \<open>The credentials are the environment's own.\<close>

definition unsealEnv :: "aws \<Rightarrow> int \<Rightarrow> env \<Rightarrow> (string, env) result" where
  "unsealEnv aw now env =
     (if list_all (\<lambda>(_, value). matchSealed value = None) env then Inr env
      else (case env_str env ''AWS_REGION'' of None \<Rightarrow> Inl ''AWS_REGION must be set to unseal a sealed environment variable''
        | Some region \<Rightarrow> all_results (unseal_variable (aw\<lparr>aw_credentials := credentialsFromEnv env\<rparr>) now env region) env))"

section \<open>The KMS signer\<close>

definition SIGNING_ALGORITHMS :: "(string \<times> string) list" where
  "SIGNING_ALGORITHMS = [(''ES256'', ''ECDSA_SHA_256''), (''ES384'', ''ECDSA_SHA_384''), (''RS256'', ''RSASSA_PKCS1_V1_5_SHA_256''),
     (''PS256'', ''RSASSA_PSS_SHA_256'')]"

definition KMS_CURVES :: "(string \<times> string) list" where
  "KMS_CURVES = [(''ES256'', ''P-256''), (''ES384'', ''P-384'')]"

record kms_options =
  km_keyId :: "string option"
  km_region :: "string option"
  km_alg :: string
  km_endpoint :: "string option"
  km_extraPublicJwks :: "json list"

definition kms_call :: "aws \<Rightarrow> int \<Rightarrow> kms_options \<Rightarrow> string \<Rightarrow> json \<Rightarrow> (string, json) result" where
  "kms_call aw now km target payload =
     (let region = coalesce (km_region km) []; url = or_str (km_endpoint km) (''https://kms.'' @ region @ ''.amazonaws.com/'') in
      rbind (aws_send aw now url ''kms'' region (''TrentService.'' @ target) payload) (aws_value aw (''KMS '' @ target)))"

text \<open>\<open>spkiToJwk\<close> of \<^verbatim>\<open>src/crypto/jose.js\<close>; importing and exporting the key is WebCrypto's.\<close>

definition spkiToJwk :: "(bytes \<Rightarrow> string \<Rightarrow> (string, json) result) \<Rightarrow> bytes \<Rightarrow> string \<Rightarrow> (string, json) result" where
  "spkiToJwk spki der alg =
     rbind (importParams alg) (\<lambda>_. rbind (spki der alg) (\<lambda>jwk.
     rbind (assertKeyStrength jwk alg) (\<lambda>_. publicPartOf (jput jwk ''alg'' (Some (JStr alg))))))"

text \<open>The loaded key is kept by the signer; loading it again gives the same value.\<close>

definition loadPublicKey ::
  "aws \<Rightarrow> (bytes \<Rightarrow> string \<Rightarrow> (string, json) result) \<Rightarrow> int \<Rightarrow> kms_options \<Rightarrow> (string, string \<times> json) result" where
  "loadPublicKey aw spki now km =
     rbind (kms_call aw now km ''GetPublicKey'' (jobj [(''KeyId'', map_option JStr (km_keyId km))])) (\<lambda>out.
     rbind (text_at (jget out ''PublicKey'')) (\<lambda>encoded. rbind (unb64 encoded) (\<lambda>der.
     rbind (spkiToJwk spki der (km_alg km)) (\<lambda>jwk.
     rbind (case as_str (jget jwk ''kid'') of Some k \<Rightarrow> (if k = [] then jwkThumbprint (aw_pf aw) jwk else Inr k)
            | None \<Rightarrow> jwkThumbprint (aw_pf aw) jwk) (\<lambda>kid.
     Inr (kid, jputs jwk [(''kid'', Some (JStr kid)), (''use'', Some (JStr ''sig''))]))))))"

definition kms_sign :: "aws \<Rightarrow> int \<Rightarrow> kms_options \<Rightarrow> bytes \<Rightarrow> (string, bytes) result" where
  "kms_sign aw now km input =
     rbind (kms_call aw now km ''Sign''
       (jobj [(''KeyId'', map_option JStr (km_keyId km)), (''Message'', Some (JStr (b64 input))), (''MessageType'', Some (JStr ''RAW'')),
          (''SigningAlgorithm'', map_option JStr (map_of SIGNING_ALGORITHMS (km_alg km)))])) (\<lambda>out.
     rbind (text_at (jget out ''Signature'')) (\<lambda>encoded. rbind (unb64 encoded) (\<lambda>sig.
     case map_of KMS_CURVES (km_alg km) of None \<Rightarrow> Inr sig | Some curve \<Rightarrow> derToRawEcdsa sig curve)))"

definition createKmsSigner ::
  "aws \<Rightarrow> (bytes \<Rightarrow> string \<Rightarrow> (string, json) result) \<Rightarrow> int \<Rightarrow> kms_options \<Rightarrow> (string, signer) result" where
  "createKmsSigner aw spki now km =
     (if map_of SIGNING_ALGORITHMS (km_alg km) = None then Inl (''KMS cannot sign with '' @ km_alg km)
      else if \<not> str_truthy (km_keyId km) then Inl ''KMS signer requires SIGNING_KMS_KEY_ID''
      else if \<not> str_truthy (km_region km) then Inl ''KMS signer requires SIGNING_KMS_REGION or AWS_REGION''
      else Inr \<lparr>sn_backend = ''aws-kms'', sn_alg = km_alg km, sn_kid = None,
        sn_keyId = Some (rbind (loadPublicKey aw spki now km) (\<lambda>(kid, _). Inr (Some kid))), sn_sign = kms_sign aw now km,
        sn_keys = rbind (loadPublicKey aw spki now km) (\<lambda>(_, jwk). Inr (jwk # km_extraPublicJwks km)), sn_ephemeral = False\<rparr>)"

section \<open>What unsealing changes\<close>

text \<open>No marker is the beginning of another, so the service of a sealed value does not depend on their order.\<close>

lemma markers_exclusive: "(m, a) \<in> set MARKERS \<Longrightarrow> (n, b) \<in> set MARKERS \<Longrightarrow> starts_with v m \<Longrightarrow> starts_with v n \<Longrightarrow> (m, a) = (n, b)"
proof -
  assume *: "(m, a) \<in> set MARKERS" "(n, b) \<in> set MARKERS" "starts_with v m" "starts_with v n"
  let ?apart = "\<lambda>p q. p = q \<or> \<not> prefix (fst p) (fst q) \<and> \<not> prefix (fst q) (fst p)"
  have table: "list_all (\<lambda>p. list_all (?apart p) MARKERS) MARKERS"
    by (simp add: MARKERS_def)
  have "prefix m n \<or> prefix n m"
    using *(3,4) unfolding starts_with_def by (metis prefix_same_cases take_is_prefix)
  moreover have "?apart (m, a) (n, b)"
    by (rule bspec [OF bspec [OF table [unfolded list_all_iff] *(1)] *(2)])
  ultimately show ?thesis by auto
qed

lemma all_results_Inr: "all_results f xs = Inr ys \<Longrightarrow> list_all2 (\<lambda>x y. f x = Inr y) xs ys"
proof (induction xs arbitrary: ys)
  case (Cons x xs)
  then show ?case by (cases "f x"; cases "all_results f xs") auto
qed simp

text \<open>Every name stays, a value that is not sealed stays, and with nothing sealed no service is asked.\<close>

lemma unseal_variable_plain: "matchSealed v = None \<Longrightarrow> unseal_variable aw now env region (k, v) = Inr (k, v)"
  by (simp add: unseal_variable_def)

lemma unseal_variable_name: "unseal_variable aw now env region kv = Inr kv' \<Longrightarrow> fst kv' = fst kv"
  by (cases kv) (auto simp: unseal_variable_def Let_def rbind_Inr_iff split: option.splits)

lemma unsealEnv_shape:
  "unsealEnv aw now env = Inr env' \<Longrightarrow>
     list_all2 (\<lambda>kv kv'. fst kv' = fst kv \<and> (matchSealed (snd kv) = None \<longrightarrow> kv' = kv)) env env'"
proof (cases "list_all (\<lambda>(_, value). matchSealed value = None) env")
  case True
  assume "unsealEnv aw now env = Inr env'"
  with True show ?thesis by (simp add: unsealEnv_def list_all2_same)
next
  case False
  assume "unsealEnv aw now env = Inr env'"
  with False obtain region where
    "all_results (unseal_variable (aw\<lparr>aw_credentials := credentialsFromEnv env\<rparr>) now env region) env = Inr env'"
    by (auto simp: unsealEnv_def split: option.splits)
  from all_results_Inr [OF this] show ?thesis
  proof (rule list_all2_mono)
    fix kv kv'
    assume *: "unseal_variable (aw\<lparr>aw_credentials := credentialsFromEnv env\<rparr>) now env region kv = Inr kv'"
    with unseal_variable_name [OF *] show "fst kv' = fst kv \<and> (matchSealed (snd kv) = None \<longrightarrow> kv' = kv)"
      by (cases kv) (auto simp: unseal_variable_plain)
  qed
qed

end
