(* ===== verification/Hsm.thy ===== *)
theory Hsm
  imports Remote_Keys
begin

text \<open>
  The private key Worker, \<^verbatim>\<open>adapters/cloudflare/hsm.js\<close>, the signer that asks it over a service binding, \<^verbatim>\<open>src/keys/cfhsm.js\<close>, and
  their composition. The JSON text of a request or an answer is taken as the value it encodes; \<open>None\<close> is a body that is not JSON.
\<close>

section \<open>The Worker's keys\<close>

record hsm_key =
  hk_alg :: string
  hk_kid :: json
  hk_jwk :: json
  hk_public :: json

record hsm_keys =
  hm_keys :: "hsm_key list"
  hm_primary :: string

definition MAX_INPUT_BYTES :: nat where "MAX_INPUT_BYTES = 8 * 1024"

definition variable :: "env \<Rightarrow> string \<Rightarrow> string option" where
  "variable env k = (case map_of env k of Some v \<Rightarrow> if v = [] then None else Some v | None \<Rightarrow> None)"

definition hsm_algs :: "env \<Rightarrow> string list" where
  "hsm_algs env =
     filter (\<lambda>a. a \<noteq> []) (coalesce (variable env ''SIGNING_ALG'') ''ES256'' #
       Prelude.fields list_sep (coalesce (variable env ''SIGNING_ADDITIONAL_ALGS'') []))"

definition hsm_raw :: "env \<Rightarrow> string \<Rightarrow> string \<Rightarrow> string option" where
  "hsm_raw env first alg =
     (case variable env (''SIGNING_PRIVATE_JWK_'' @ algEnvSuffix alg) of Some v \<Rightarrow> Some v
      | None \<Rightarrow> if alg = first then variable env ''SIGNING_PRIVATE_JWK'' else None)"

definition as_object :: "json \<Rightarrow> json" where
  "as_object j = (case j of JObj fs \<Rightarrow> JObj fs | _ \<Rightarrow> JObj [])"

definition hsm_load :: "platform \<Rightarrow> key_ops \<Rightarrow> string \<Rightarrow> string \<Rightarrow> (string, hsm_key) result" where
  "hsm_load pf ops alg raw =
     (case pf_parse pf raw of None \<Rightarrow> Inl (''SIGNING_PRIVATE_JWK for '' @ alg @ '' is not valid JSON'')
      | Some parsed \<Rightarrow>
          let jwk = jput (as_object parsed) ''alg'' (Some (JStr alg)) in
          rbind (if truthy (jget jwk ''kid'') then Inr (the (jget jwk ''kid'')) else rbind (jwkThumbprint pf jwk) (\<lambda>t. Inr (JStr t))) (\<lambda>kid.
          rbind (ko_import ops jwk alg) (\<lambda>_.
          rbind (signParams alg) (\<lambda>_.
          rbind (publicPartOf (jput jwk ''kid'' (Some kid))) (\<lambda>pub.
          Inr \<lparr>hk_alg = alg, hk_kid = kid, hk_jwk = jwk, hk_public = pub\<rparr>)))))"

fun hsm_loads :: "platform \<Rightarrow> key_ops \<Rightarrow> env \<Rightarrow> string \<Rightarrow> string list \<Rightarrow> string list \<Rightarrow> (string, hsm_key list) result" where
  "hsm_loads pf ops env first seen [] = Inr []"
| "hsm_loads pf ops env first seen (alg # rest) =
     (if alg \<in> set seen then hsm_loads pf ops env first seen rest
      else if map_of ALGS alg = None then Inl (''unknown signing algorithm '' @ alg)
      else (case hsm_raw env first alg of None \<Rightarrow> hsm_loads pf ops env first (alg # seen) rest
        | Some raw \<Rightarrow> rbind (hsm_load pf ops alg raw) (\<lambda>k. rbind (hsm_loads pf ops env first (alg # seen) rest) (\<lambda>ks. Inr (k # ks)))))"

text \<open>The loaded keys are cached for the life of the Worker; loading them again gives the same ones.\<close>

definition loadKeys :: "platform \<Rightarrow> key_ops \<Rightarrow> env \<Rightarrow> (string, hsm_keys) result" where
  "loadKeys pf ops env =
     (let wanted = hsm_algs env in
      rbind (hsm_loads pf ops env (hd wanted) [] wanted) (\<lambda>keys.
      case keys of [] \<Rightarrow> Inl ''this HSM Worker has no signing key configured''
      | k # _ \<Rightarrow> Inr \<lparr>hm_keys = keys, hm_primary = hk_alg k\<rparr>))"

section \<open>The Worker's answers\<close>

definition hsm_authorised :: "env \<Rightarrow> headers \<Rightarrow> bool" where
  "hsm_authorised env hs =
     (case variable env ''HSM_SHARED_SECRET'' of None \<Rightarrow> False
      | Some expected \<Rightarrow> timingSafeEqual (utf8 (coalesce (map_of hs ''x-sag-hsm-secret'') [])) (utf8 expected))"

definition refusal :: "int \<Rightarrow> string \<Rightarrow> int \<times> json" where
  "refusal status why = (status, jobj [(''error'', Some (JStr why))])"

definition key_for :: "hsm_keys \<Rightarrow> string \<Rightarrow> hsm_key option" where
  "key_for hm alg = find (\<lambda>k. hk_alg k = alg) (hm_keys hm)"

definition ordered_keys :: "hsm_keys \<Rightarrow> hsm_key list" where
  "ordered_keys hm = opt_list (key_for hm (hm_primary hm)) @ filter (\<lambda>k. hk_alg k \<noteq> hm_primary hm) (hm_keys hm)"

text \<open>An error thrown outside every \<open>catch\<close> is the left value: reading a member of \<open>null\<close>, and what WebCrypto throws.\<close>

definition hsm_sign_body :: "key_ops \<Rightarrow> hsm_keys \<Rightarrow> json \<Rightarrow> (string, int \<times> json) result" where
  "hsm_sign_body ops hm content =
     (if content = JNull then Inl ''Cannot read properties of null''
      else let alg = jget content ''alg'' in
        case (if truthy alg then Option.bind (as_str alg) (key_for hm) else key_for hm (hm_primary hm)) of
          None \<Rightarrow> Inr (refusal 400 ''unknown_alg'')
        | Some k \<Rightarrow>
            (case rbind (text_at (jget content ''input'')) unb64u of
               Inl _ \<Rightarrow> Inr (refusal 400 ''invalid_input'')
             | Inr input \<Rightarrow>
                 if input = [] \<or> length input > MAX_INPUT_BYTES then Inr (refusal 400 ''invalid_input'')
                 else rbind (ko_sign ops (hk_alg k) (hk_jwk k) input) (\<lambda>signature.
                   Inr (200, jobj [(''signature'', Some (JStr (b64u signature))), (''kid'', Some (hk_kid k)), (''alg'', Some (JStr (hk_alg k)))]))))"

definition hsm_worker ::
  "platform \<Rightarrow> key_ops \<Rightarrow> env \<Rightarrow> string \<Rightarrow> string \<Rightarrow> headers \<Rightarrow> json option \<Rightarrow> (string, int \<times> json) result" where
  "hsm_worker pf ops env meth path hs content =
     (if \<not> hsm_authorised env hs then Inr (refusal 403 ''forbidden'')
      else (case loadKeys pf ops env of Inl _ \<Rightarrow> Inr (refusal 500 ''misconfigured'')
        | Inr hm \<Rightarrow>
            if path = ''/jwks'' \<and> meth = ''GET'' then Inr (200, jobj [(''keys'', Some (JArr (map hk_public (ordered_keys hm))))])
            else if path = ''/sign'' \<and> meth = ''POST''
            then (case content of None \<Rightarrow> Inr (refusal 400 ''invalid_request'') | Some j \<Rightarrow> hsm_sign_body ops hm j)
            else if path = ''/healthz'' \<and> meth = ''GET''
            then Inr (200, jobj [(''status'', Some (JStr ''ok'')), (''algs'', Some (JArr (map (JStr \<circ> hk_alg) (hm_keys hm)))),
                   (''primary'', Some (JStr (hm_primary hm)))])
            else Inr (refusal 404 ''not_found'')))"

section \<open>The signer that asks it\<close>

text \<open>What a binding's \<open>fetch\<close> gives: a status and the value of the body.\<close>

type_synonym hsm_binding = "string \<Rightarrow> string \<Rightarrow> headers \<Rightarrow> json option \<Rightarrow> (string, int \<times> json) result"

record hsm_signer =
  hs_binding :: hsm_binding
  hs_headers :: headers
  hs_alg :: string
  hs_text :: "json \<Rightarrow> string"
  hs_kid :: "json option"
  hs_jwks :: "(json \<times> int) option"

definition createHsmSigner :: "hsm_binding option \<Rightarrow> string option \<Rightarrow> string \<Rightarrow> (json \<Rightarrow> string) \<Rightarrow> (string, hsm_signer) result" where
  "createHsmSigner binding sharedSecret alg text_of =
     (case binding of None \<Rightarrow> Inl ''HSM signer requires a service binding or URL''
      | Some b \<Rightarrow>
          if \<not> str_truthy sharedSecret then Inl ''HSM signer requires HSM_SHARED_SECRET''
          else Inr \<lparr>hs_binding = b, hs_headers = [(''content-type'', ''application/json''), (''x-sag-hsm-secret'', the sharedSecret)],
            hs_alg = alg, hs_text = text_of, hs_kid = None, hs_jwks = None\<rparr>)"

definition hsm_call :: "hsm_signer \<Rightarrow> string \<Rightarrow> string \<Rightarrow> json option \<Rightarrow> (string, json) result" where
  "hsm_call s meth path content =
     rbind (hs_binding s meth path (hs_headers s) content) (\<lambda>(status, out).
       if status < 200 \<or> 299 < status
       then Inl (''HSM '' @ path @ '' failed with HTTP '' @ show_int status @ '' '' @ take 200 (hs_text s out)) else Inr out)"

definition hsm_sign :: "hsm_signer \<Rightarrow> bytes \<Rightarrow> (string, bytes) result \<times> hsm_signer" where
  "hsm_sign s input =
     (case hsm_call s ''POST'' ''/sign'' (Some (jobj [(''alg'', Some (JStr (hs_alg s))), (''input'', Some (JStr (b64u input)))])) of
        Inl e \<Rightarrow> (Inl e, s)
      | Inr out \<Rightarrow>
          if \<not> truthy (jget out ''signature'') then (Inl ''HSM returned no signature'', s)
          else (rbind (text_at (jget out ''signature'')) unb64u, s\<lparr>hs_kid := jnull (jget out ''kid'') (hs_kid s)\<rparr>))"

definition first_kid :: "json \<Rightarrow> json option" where
  "first_kid jwks = (case jget jwks ''keys'' of Some (JArr (k # _)) \<Rightarrow> jget k ''kid'' | _ \<Rightarrow> None)"

text \<open>The clock is in milliseconds.\<close>

definition hsm_fetchJwks :: "hsm_signer \<Rightarrow> int \<Rightarrow> (string, json) result \<times> hsm_signer" where
  "hsm_fetchJwks s now =
     (case hsm_call s ''GET'' ''/jwks'' None of Inl e \<Rightarrow> (Inl e, s)
      | Inr out \<Rightarrow>
          if jnull (hs_kid s) None = None \<and> out = JNull
          then (Inl ''Cannot read properties of null'', s\<lparr>hs_jwks := Some (out, now + 60000)\<rparr>)
          else (Inr out, s\<lparr>hs_jwks := Some (out, now + 60000), hs_kid := jnull (hs_kid s) (first_kid out)\<rparr>))"

definition hsm_publicJwks :: "hsm_signer \<Rightarrow> int \<Rightarrow> (string, json) result \<times> hsm_signer" where
  "hsm_publicJwks s now =
     (case hs_jwks s of None \<Rightarrow> hsm_fetchJwks s now
      | Some (jwks, expires) \<Rightarrow> if now < expires then (Inr jwks, s) else hsm_fetchJwks s now)"

definition hsm_keyId :: "hsm_signer \<Rightarrow> int \<Rightarrow> (string, json option) result \<times> hsm_signer" where
  "hsm_keyId s now =
     (if truthy (hs_kid s) then (Inr (hs_kid s), s)
      else (case hsm_publicJwks s now of (Inl e, s') \<Rightarrow> (Inl e, s')
        | (Inr jwks, s') \<Rightarrow>
            if jnull (jget jwks ''keys'') None = None then (Inl ''Cannot read properties of undefined'', s')
            else (Inr (first_kid jwks), s'\<lparr>hs_kid := first_kid jwks\<rparr>)))"

section \<open>The two together\<close>

lemma hsm_forbidden: "\<not> hsm_authorised env hs \<Longrightarrow> hsm_worker pf ops env meth path hs content = Inr (refusal 403 ''forbidden'')"
  by (simp add: hsm_worker_def)

lemma hsm_authorised_iff:
  "length secret < 2 ^ 32 \<Longrightarrow> length given < 2 ^ 32 \<Longrightarrow> map_of hs ''x-sag-hsm-secret'' = Some given \<Longrightarrow>
     map_of env ''HSM_SHARED_SECRET'' = Some secret \<Longrightarrow> hsm_authorised env hs \<longleftrightarrow> given = secret \<and> secret \<noteq> []"
  by (auto simp: hsm_authorised_def variable_def coalesce_def timingSafeEqual_str)

definition hsm_pair ::
  "platform \<Rightarrow> key_ops \<Rightarrow> env \<Rightarrow> string \<Rightarrow> string \<Rightarrow> (json \<Rightarrow> string) \<Rightarrow> (string, hsm_signer) result" where
  "hsm_pair pf ops env given alg text_of = createHsmSigner (Some (hsm_worker pf ops env)) (Some given) alg text_of"

lemma b64u_nonempty: "bs \<noteq> [] \<Longrightarrow> b64u bs \<noteq> []"
  by (cases bs rule: b64_chunks.cases) (simp_all add: b64u_def replace_char_def)

lemma b64u_empty: "b64u [] = []"
  by (simp add: b64u_def replace_char_def)

text \<open>What the Worker answers a signer that presents the secret.\<close>

lemma hsm_worker_sign:
  assumes "hsm_authorised env hs" "loadKeys pf ops env = Inr hm" "alg \<noteq> []"
  shows "hsm_worker pf ops env ''POST'' ''/sign'' hs (Some (jobj [(''alg'', Some (JStr alg)), (''input'', Some (JStr (b64u input)))])) =
    (case key_for hm alg of None \<Rightarrow> Inr (refusal 400 ''unknown_alg'')
     | Some k \<Rightarrow> if input = [] \<or> length input > MAX_INPUT_BYTES then Inr (refusal 400 ''invalid_input'')
         else rbind (ko_sign ops (hk_alg k) (hk_jwk k) input) (\<lambda>signature.
           Inr (200, jobj [(''signature'', Some (JStr (b64u signature))), (''kid'', Some (hk_kid k)), (''alg'', Some (JStr (hk_alg k)))])))"
  using assms by (simp add: hsm_worker_def hsm_sign_body_def text_at_def jobj.simps split: option.split)

lemma hsm_sign_answer:
  "hsm_call s ''POST'' ''/sign'' (Some (jobj [(''alg'', Some (JStr (hs_alg s))), (''input'', Some (JStr (b64u input)))])) =
     Inr (jobj [(''signature'', Some (JStr (b64u signature))), (''kid'', kid), (''alg'', alg)]) \<Longrightarrow>
   fst (hsm_sign s input) = Inr r \<longleftrightarrow> signature = r \<and> signature \<noteq> []"
  using b64u_nonempty [of signature] by (cases "signature = []") (auto simp: hsm_sign_def text_at_def jobj.simps b64u_empty)

lemma hsm_sign_iff:
  assumes "hsm_authorised env (hs_headers s)" "loadKeys pf ops env = Inr hm" "alg \<noteq> []"
    and "hs_binding s = hsm_worker pf ops env" "hs_alg s = alg"
  shows "fst (hsm_sign s input) = Inr signature \<longleftrightarrow> signature \<noteq> [] \<and> input \<noteq> [] \<and> length input \<le> MAX_INPUT_BYTES \<and>
    (\<exists>k. key_for hm alg = Some k \<and> ko_sign ops (hk_alg k) (hk_jwk k) input = Inr signature)"
proof (cases "\<exists>k r. key_for hm alg = Some k \<and> input \<noteq> [] \<and> length input \<le> MAX_INPUT_BYTES \<and> ko_sign ops (hk_alg k) (hk_jwk k) input = Inr r")
  case True
  then obtain k r where k: "key_for hm alg = Some k" "input \<noteq> []" "length input \<le> MAX_INPUT_BYTES"
    "ko_sign ops (hk_alg k) (hk_jwk k) input = Inr r" by blast
  show ?thesis
    using hsm_sign_answer [of s input r "Some (hk_kid k)" "Some (JStr (hk_alg k))" signature] hsm_worker_sign [OF assms(1-3), of input] assms(4,5) k
    by (auto simp: hsm_call_def)
next
  case False
  then show ?thesis
    using hsm_worker_sign [OF assms(1-3), of input] assms(4,5)
    by (cases "key_for hm alg"; cases "ko_sign ops (hk_alg (the (key_for hm alg))) (hk_jwk (the (key_for hm alg))) input")
      (auto simp: hsm_sign_def hsm_call_def refusal_def)
qed

text \<open>C20: the key Worker signs for those who hold the secret, and for nobody else. A signer bound to the Worker obtains a
  signature exactly when it presents the Worker's secret, the Worker has a key of the algorithm, the input has between one
  byte and 8 KiB, and that key makes the signature of exactly this input; and it obtains the public keys exactly when it
  presents the secret and the Worker has a key.\<close>

theorem hsm_signs_for_the_secret:
  assumes "hsm_pair pf ops env given alg text_of = Inr s" "map_of env ''HSM_SHARED_SECRET'' = Some secret"
    and "length secret < 2 ^ 32" "length given < 2 ^ 32" "alg \<noteq> []"
  shows "(fst (hsm_sign s input) = Inr signature \<longleftrightarrow> given = secret \<and> signature \<noteq> [] \<and> input \<noteq> [] \<and> length input \<le> MAX_INPUT_BYTES \<and>
      (\<exists>hm k. loadKeys pf ops env = Inr hm \<and> key_for hm alg = Some k \<and> ko_sign ops (hk_alg k) (hk_jwk k) input = Inr signature)) \<and>
    (fst (hsm_publicJwks s now) = Inr jwks \<longleftrightarrow> given = secret \<and>
      (\<exists>hm. loadKeys pf ops env = Inr hm \<and> jwks = jobj [(''keys'', Some (JArr (map hk_public (ordered_keys hm))))]))"
proof -
  from assms(1) have s: "given \<noteq> []" "hs_binding s = hsm_worker pf ops env" "hs_alg s = alg" "hs_jwks s = None"
      "map_of (hs_headers s) ''x-sag-hsm-secret'' = Some given"
    by (auto simp: hsm_pair_def createHsmSigner_def str_truthy_def split: if_splits)
  have auth: "hsm_authorised env (hs_headers s) \<longleftrightarrow> given = secret"
    using hsm_authorised_iff [OF assms(3,4) s(5) assms(2)] s(1) by auto
  show ?thesis
  proof (cases "given = secret")
    case False
    with auth s show ?thesis by (simp add: hsm_sign_def hsm_publicJwks_def hsm_fetchJwks_def hsm_call_def hsm_forbidden refusal_def)
  next
    case True
    with auth have ok: "hsm_authorised env (hs_headers s)" by simp
    show ?thesis
    proof (cases "loadKeys pf ops env")
      case (Inl e)
      with ok s show ?thesis by (simp add: hsm_sign_def hsm_publicJwks_def hsm_fetchJwks_def hsm_call_def hsm_worker_def refusal_def)
    next
      case (Inr hm)
      have keys: "fst (hsm_publicJwks s now) = Inr (jobj [(''keys'', Some (JArr (map hk_public (ordered_keys hm))))])"
        using ok s Inr by (simp add: hsm_publicJwks_def hsm_fetchJwks_def hsm_call_def hsm_worker_def jobj.simps)
      note sign = hsm_sign_iff [OF ok Inr assms(5) s(2,3), of input signature]
      from keys sign \<open>given = secret\<close> Inr show ?thesis by auto
    qed
  qed
qed

section \<open>A Worker with one key\<close>

definition vault_jwk :: json where
  "vault_jwk = JObj [(''kty'', JStr ''EC''), (''crv'', JStr ''P-256''), (''kid'', JStr ''k1'')]"

definition vault_ops :: key_ops where
  "vault_ops = \<lparr>ko_pem = (\<lambda>_ _. Inl []), ko_generate = (\<lambda>_. Inl []), ko_import = (\<lambda>_ _. Inr ()), ko_sign = (\<lambda>_ _ bs. Inr (rev bs)),
     ko_remote = (\<lambda>_ _. Inl [])\<rparr>"

definition vault_env :: env where
  "vault_env = [(''HSM_SHARED_SECRET'', ''s3cret''), (''SIGNING_PRIVATE_JWK'', ''jwk'')]"

lemma vault_loaded: "\<exists>hm k. loadKeys (toy_platform vault_jwk) vault_ops vault_env = Inr hm \<and> key_for hm ''ES256'' = Some k \<and>
    ko_sign vault_ops (hk_alg k) (hk_jwk k) [1, 2] = Inr [2, 1]"
proof -
  have "(case loadKeys (toy_platform vault_jwk) vault_ops vault_env of Inl _ \<Rightarrow> False | Inr hm \<Rightarrow> key_for hm ''ES256'' \<noteq> None)" by code_simp
  then show ?thesis by (auto simp: vault_ops_def split: sum.splits)
qed

theorem hsm_signs_for_the_secret_witness:
  "\<exists>s. hsm_pair (toy_platform vault_jwk) vault_ops vault_env ''s3cret'' ''ES256'' (\<lambda>_. []) = Inr s \<and>
     fst (hsm_sign s [1, 2]) = Inr [2, 1]"
proof -
  obtain s where s: "hsm_pair (toy_platform vault_jwk) vault_ops vault_env ''s3cret'' ''ES256'' (\<lambda>_. []) = Inr s"
    by (simp add: hsm_pair_def createHsmSigner_def str_truthy_def)
  have "fst (hsm_sign s [1, 2]) = Inr [2, 1]"
    using hsm_signs_for_the_secret [OF s, of "''s3cret''" "[1, 2]" "[2, 1]"] vault_loaded
    by (simp add: vault_env_def MAX_INPUT_BYTES_def)
  with s show ?thesis by blast
qed

end
