(* ===== verification/Adapters.thy ===== *)
theory Adapters
  imports Http Ip
begin

text \<open>
  The platform adapters: the Node server (\<^verbatim>\<open>adapters/node/server.js\<close>, with its client files and its resolver), the Lambda handler
  (\<^verbatim>\<open>adapters/lambda/handler.js\<close>) and the Worker (\<^verbatim>\<open>adapters/cloudflare/worker.js\<close>, with its resolver). Each translates a platform's
  request into the one the core reads and the core's response back. The core is an argument: \<open>handleRequest\<close> with the construction
  of its \<open>Request\<close>, either of which may throw. A header map has lower-case names, and text is ASCII here.
\<close>

section \<open>Headers and responses of the Fetch API\<close>

text \<open>\<open>headers.append\<close>: values of one name are joined, those of cookies with a semicolon.\<close>

definition append_header :: "headers \<Rightarrow> string \<Rightarrow> string \<Rightarrow> headers" where
  "append_header hs name value =
     (let n = to_lower name; glue = (if n = ''cookie'' then ''; '' else '', '') in
      case map_of hs n of None \<Rightarrow> hs @ [(n, value)] | Some old \<Rightarrow> AList.update n (old @ glue @ value) hs)"

text \<open>A response of the core with the bytes of its body; \<open>set-cookie\<close> may repeat, and \<open>forEach\<close> gives every other name once.\<close>

record core_response =
  cr_status :: int
  cr_headers :: headers
  cr_body :: "bytes option"

definition plain_headers :: "core_response \<Rightarrow> headers" where
  "plain_headers r = filter (\<lambda>(k, _). to_lower k \<noteq> ''set-cookie'') (cr_headers r)"

definition collectCookies :: "core_response \<Rightarrow> string list" where
  "collectCookies r = map snd (filter (\<lambda>(k, _). to_lower k = ''set-cookie'') (cr_headers r))"

section \<open>The Node server\<close>

definition MAX_REQUEST_BODY_BYTES :: nat where "MAX_REQUEST_BODY_BYTES = 64 * 1024"

datatype node_error = Request_Body_Too_Large | Node_Failure string

record node_request =
  nq_method :: string
  nq_url :: string
  nq_rawHeaders :: "(string \<times> string) list"
  nq_host :: "string option"
  nq_remoteAddress :: "string option"
  nq_chunks :: "bytes list"

record fetch_request =
  fq_url :: string
  fq_method :: string
  fq_headers :: headers
  fq_body :: "bytes option"

definition node_headers :: "node_request \<Rightarrow> headers" where
  "node_headers nq =
     (let given = AList.delete ''x-sag-client-ip'' (fold (\<lambda>(k, v) hs. append_header hs k v) (nq_rawHeaders nq) []) in
      if str_truthy (nq_remoteAddress nq) then AList.update ''x-sag-client-ip'' (the (nq_remoteAddress nq)) given else given)"

text \<open>The chunks so far, and the error once they are too many: nothing more is buffered.\<close>

fun node_body :: "nat \<Rightarrow> bytes \<Rightarrow> bytes list \<Rightarrow> (node_error, bytes) result" where
  "node_body sofar kept [] = Inr kept"
| "node_body sofar kept (chunk # rest) =
     (if sofar + length chunk > MAX_REQUEST_BODY_BYTES then Inl Request_Body_Too_Large
      else node_body (sofar + length chunk) (kept @ chunk) rest)"

definition toFetchRequest :: "node_request \<Rightarrow> string \<Rightarrow> (node_error, fetch_request) result" where
  "toFetchRequest nq origin =
     (let make = (\<lambda>content. \<lparr>fq_url = origin @ nq_url nq, fq_method = nq_method nq, fq_headers = node_headers nq, fq_body = content\<rparr>) in
      if nq_method nq \<noteq> ''GET'' \<and> nq_method nq \<noteq> ''HEAD''
      then rbind (node_body 0 [] (nq_chunks nq)) (\<lambda>content. Inr (make (Some content)))
      else Inr (make None))"

text \<open>What is written: status, single headers, cookies, body.\<close>

record node_response =
  ns_status :: int
  ns_headers :: headers
  ns_cookies :: "string list"
  ns_body :: bytes

definition node_origin :: "string \<Rightarrow> node_request \<Rightarrow> string" where
  "node_origin listen nq = ''http://'' @ or_str (nq_host nq) listen"

definition node_failed :: "node_error \<Rightarrow> node_response" where
  "node_failed e =
     \<lparr>ns_status = (if e = Request_Body_Too_Large then 413 else 500),
      ns_headers = spread [(''content-type'', ''text/plain; charset=utf-8''), (''cache-control'', ''no-store'')] SECURITY_HEADERS,
      ns_cookies = [], ns_body = utf8 (if e = Request_Body_Too_Large then ''Request body too large'' else ''Internal error'')\<rparr>"

definition node_serve :: "(fetch_request \<Rightarrow> (string, core_response) result) \<Rightarrow> string \<Rightarrow> node_request \<Rightarrow> node_response" where
  "node_serve core listen nq =
     (case toFetchRequest nq (node_origin listen nq) of Inl e \<Rightarrow> node_failed e
      | Inr fq \<Rightarrow> (case core fq of Inl e \<Rightarrow> node_failed (Node_Failure e)
          | Inr r \<Rightarrow> \<lparr>ns_status = cr_status r, ns_headers = plain_headers r, ns_cookies = collectCookies r,
                      ns_body = coalesce (cr_body r) []\<rparr>))"

text \<open>The bindings \<open>buildEnv\<close> adds to the variables of the process. \<open>num\<close> is \<open>Number\<close> where that is finite, in
  any ordered ring of numbers; the process ends on the left value, which \<open>assertAvailable\<close> throws when the runtime has no Argon2id.\<close>

type_synonym 'n js_number = "string \<Rightarrow> 'n option"

datatype 'n node_binding = Dns_Resolver "'n option" | Client_Files string | Identity_Files string "'n option"

definition number_or :: "'n js_number \<Rightarrow> (string \<times> string) list \<Rightarrow> string \<Rightarrow> 'n \<Rightarrow> 'n option" where
  "number_or num env k d = (if str_truthy (map_of env k) then num (the (map_of env k)) else Some d)"

definition dir_or :: "(string \<times> string) list \<Rightarrow> string \<Rightarrow> string \<Rightarrow> string" where
  "dir_or env k sub = or_str (map_of env k) (or_str (map_of env ''SAG_DATA_DIR'') ''./data'' @ ''/'' @ sub)"

definition buildEnv :: "('n::linordered_idom) js_number \<Rightarrow> string option \<Rightarrow> (string \<times> string) list \<Rightarrow> (string, (string \<times> 'n node_binding) list) result" where
  "buildEnv num unavailable env =
     (let bag = [(or_str (map_of env ''DNS_BINDING'') ''SAG_DNS'', Dns_Resolver (number_or num env ''DNS_TIMEOUT_MS'' 1500))];
          bag = (if map_of env ''CLIENTS_STORE_BACKEND'' = Some ''file''
            then AList.update (or_str (map_of env ''CLIENTS_STORE_KV_BINDING'') ''SAG_CLIENTS'')
                   (Client_Files (dir_or env ''CLIENTS_STORE_DIR'' ''clients'')) bag
            else bag)
      in if map_of env ''LOCAL_IDENTITIES_BACKEND'' = Some ''file''
         then (case unavailable of Some e \<Rightarrow> Inl e
           | None \<Rightarrow> Inr (AList.update (or_str (map_of env ''LOCAL_IDENTITIES_BINDING'') ''SAG_LOCAL_IDENTITIES'')
               (Identity_Files (dir_or env ''LOCAL_IDENTITIES_DIR'' ''local-identities'') (number_or num env ''LOCAL_ARGON2_CONCURRENCY'' 4)) bag))
         else Inr bag)"

section \<open>Client files\<close>

text \<open>\<open>resolve(join(base, key))\<close> on POSIX, for an absolute root: empty and \<open>.\<close> segments vanish, \<open>..\<close> removes one.\<close>

fun walk_path :: "string list \<Rightarrow> string list \<Rightarrow> string list" where
  "walk_path here [] = here"
| "walk_path here (seg # segs) =
     (if seg = [] \<or> seg = ''.'' then walk_path here segs
      else if seg = ''..'' then walk_path (butlast here) segs else walk_path (here @ [seg]) segs)"

definition absolute_path :: "string list \<Rightarrow> string" where
  "absolute_path segs = ''/'' @ join ''/'' segs"

text \<open>A missing file and a directory (\<open>ENOENT\<close>, \<open>EISDIR\<close>) are \<open>File_Missing\<close>.\<close>

datatype file_read = File_Text string | File_Missing | File_Error string

definition client_file_get ::
  "(string \<Rightarrow> file_read) \<Rightarrow> (string \<Rightarrow> json option) \<Rightarrow> string list \<Rightarrow> string \<Rightarrow> (string, json option) result" where
  "client_file_get read parse base key =
     (let rootPath = absolute_path base; path = absolute_path (walk_path base (split_on (CHR ''/'') key)) in
      if path \<noteq> rootPath \<and> \<not> starts_with path (rootPath @ ''/'') then Inr None
      else (case read path of File_Missing \<Rightarrow> Inr None | File_Error e \<Rightarrow> Inl e
        | File_Text t \<Rightarrow> (case parse t of None \<Rightarrow> Inl (path @ '' is not valid JSON'') | Some j \<Rightarrow> Inr (Some j))))"

definition client_file_list :: "string list option \<Rightarrow> string list" where
  "client_file_list names = (case names of None \<Rightarrow> [] | Some ns \<Rightarrow> filter (\<lambda>n. ends_with n ''.json'') ns)"

section \<open>Resolvers\<close>

text \<open>The platform's answers: addresses, mail exchanges with their priority, chunks of text. \<open>None\<close> is a failed lookup.\<close>

record platform_dns =
  pd_v4 :: "string \<Rightarrow> string list option"
  pd_v6 :: "string \<Rightarrow> string list option"
  pd_mx :: "string \<Rightarrow> (int \<times> string) list option"
  pd_txt :: "string \<Rightarrow> string list list option"

definition failed_lookup :: "'a option \<Rightarrow> (string, 'a) result" where
  "failed_lookup r = (case r of None \<Rightarrow> Inl ''DNS lookup failed'' | Some x \<Rightarrow> Inr x)"

definition mx_records :: "(int \<times> string) list \<Rightarrow> string list" where
  "mx_records = map (\<lambda>(p, x). show_int p @ '' '' @ x)"

definition node_dns :: "platform_dns \<Rightarrow> string \<Rightarrow> string \<Rightarrow> (string, string list) result" where
  "node_dns pd name kind =
     (if kind = ''MX'' then rbind (failed_lookup (pd_mx pd name)) (Inr \<circ> mx_records)
      else if kind = ''TXT'' then rbind (failed_lookup (pd_txt pd name)) (Inr \<circ> map concat)
      else if kind = ''A'' then failed_lookup (pd_v4 pd name)
      else if kind = ''AAAA'' then failed_lookup (pd_v6 pd name)
      else Inl (''unsupported record type '' @ kind))"

text \<open>A Worker's resolver answers whole sections, so only addresses are kept; \<open>slow\<close> is a lookup the timer beats.\<close>

definition worker_dns :: "platform_dns \<Rightarrow> bool \<Rightarrow> string \<Rightarrow> string \<Rightarrow> (string, string list) result" where
  "worker_dns pd slow name kind =
     (if kind \<notin> {''A'', ''AAAA'', ''MX'', ''TXT''} then Inl (''unsupported record type '' @ kind)
      else if slow then Inl (''DNS lookup for '' @ name @ '' timed out'')
      else if kind = ''A'' then rbind (failed_lookup (pd_v4 pd name)) (Inr \<circ> filter isIpAddress)
      else if kind = ''AAAA'' then rbind (failed_lookup (pd_v6 pd name)) (Inr \<circ> filter isIpAddress)
      else node_dns pd name kind)"

section \<open>The Worker\<close>

definition DNS_TIMEOUT_DEFAULT_MS :: "'n::linordered_idom" where "DNS_TIMEOUT_DEFAULT_MS = 1500"
definition DNS_TIMEOUT_MIN_MS :: "'n::linordered_idom" where "DNS_TIMEOUT_MIN_MS = 100"
definition DNS_TIMEOUT_MAX_MS :: "'n::linordered_idom" where "DNS_TIMEOUT_MAX_MS = 10000"

definition dnsTimeoutMs :: "('n::linordered_idom) js_number \<Rightarrow> (string \<times> string) list \<Rightarrow> 'n" where
  "dnsTimeoutMs num env =
     (case Option.bind (map_of env ''DNS_TIMEOUT_MS'') num of None \<Rightarrow> DNS_TIMEOUT_DEFAULT_MS
      | Some v \<Rightarrow> if v \<le> 0 then DNS_TIMEOUT_DEFAULT_MS else min (max v DNS_TIMEOUT_MIN_MS) DNS_TIMEOUT_MAX_MS)"

text \<open>The name of the resolver the Worker adds, unless a binding or an endpoint is configured.\<close>

definition envWithResolver :: "('n::linordered_idom) js_number \<Rightarrow> (string \<times> string) list \<Rightarrow> (string \<Rightarrow> bool) \<Rightarrow> (string \<times> 'n) option" where
  "envWithResolver num env bound =
     (let binding = or_str (map_of env ''DNS_BINDING'') ''SAG_DNS'' in
      if bound binding \<or> str_truthy (map_of env binding) \<or> str_truthy (map_of env ''DNS_RESOLVER_URL'') then None
      else Some (binding, dnsTimeoutMs num env))"

definition worker_serve :: "(fetch_request \<Rightarrow> (string, core_response) result) \<Rightarrow> fetch_request \<Rightarrow> core_response" where
  "worker_serve core fq =
     (case core fq of Inr r \<Rightarrow> r
      | Inl e \<Rightarrow> \<lparr>cr_status = 500, cr_headers = [(''content-type'', ''text/plain; charset=utf-8''), (''cache-control'', ''no-store'')],
          cr_body = Some (utf8 ''Internal error'')\<rparr>)"

section \<open>Lambda\<close>

text \<open>Both payloads: the second version when \<open>requestContext.http\<close> is there, whose value is its method.\<close>

record lambda_event =
  lv_http :: "string option option"
  lv_rawPath :: "string option"
  lv_path :: "string option"
  lv_stage :: "string option"
  lv_domainName :: "string option"
  lv_rawQueryString :: "string option"
  lv_multiQuery :: "(string \<times> string list) list option"
  lv_query :: "params option"
  lv_httpMethod :: "string option"
  lv_headers :: "(string \<times> string option) list"
  lv_cookies :: "string list"
  lv_body :: "string option"
  lv_isBase64 :: bool

definition flatten :: "(string \<times> string list) list option \<Rightarrow> params option \<Rightarrow> params" where
  "flatten multi one =
     (case multi of Some m \<Rightarrow> concat (map (\<lambda>(k, vs). map (Pair k) vs) m) | None \<Rightarrow> coalesce one [])"

definition headersFrom :: "lambda_event \<Rightarrow> headers" where
  "headersFrom e =
     (let given = fold (\<lambda>(k, v) hs. case v of None \<Rightarrow> hs | Some x \<Rightarrow> AList.update (to_lower k) x hs) (lv_headers e) []
      in if lv_cookies e \<noteq> [] then AList.update ''cookie'' (join ''; '' (lv_cookies e)) given else given)"

definition first_of :: "string option list \<Rightarrow> string \<Rightarrow> string" where
  "first_of vs d = (case find str_truthy vs of Some (Some v) \<Rightarrow> v | _ \<Rightarrow> d)"

text \<open>The text of a query, \<open>new URLSearchParams(pairs).toString()\<close>, is the parameter \<open>query_text\<close>.\<close>

definition urlFor :: "(params \<Rightarrow> string) \<Rightarrow> lambda_event \<Rightarrow> headers \<Rightarrow> string" where
  "urlFor query_text e hs =
     (let isV2 = (lv_http e \<noteq> None);
          rawPath = or_str (if isV2 then lv_rawPath e else lv_path e) ''/'';
          host = first_of [map_of hs ''x-forwarded-host'', map_of hs ''host'', lv_domainName e] ''localhost'';
          proto = or_str (map_of hs ''x-forwarded-proto'') ''https'';
          stage = coalesce (lv_stage e) [];
          path = (if stage \<noteq> [] \<and> stage \<noteq> ''$default'' \<and> starts_with rawPath (''/'' @ stage @ ''/'')
                  then drop (length stage + 1) rawPath else rawPath);
          query = (if isV2 then coalesce (lv_rawQueryString e) [] else query_text (flatten (lv_multiQuery e) (lv_query e)))
      in proto @ ''://'' @ host @ (if path = [] then ''/'' else path) @ (if query = [] then [] else ''?'' @ query))"

text \<open>\<open>Buffer.from(body, 'base64')\<close> takes either alphabet and skips every other character.\<close>

definition buffer_base64 :: "string \<Rightarrow> bytes" where
  "buffer_base64 s =
     unb64_loop 0 0 (filter (\<lambda>c. c \<in> set B64_ALPHA) (replace_char (CHR ''_'') (CHR ''/'') (replace_char (CHR ''-'') (CHR ''+'') s)))"

definition bodyFrom :: "lambda_event \<Rightarrow> bytes option" where
  "bodyFrom e =
     (if \<not> str_truthy (lv_body e) then None
      else if lv_isBase64 e then Some (buffer_base64 (the (lv_body e))) else Some (utf8 (the (lv_body e))))"

record lambda_result =
  lr_statusCode :: int
  lr_headers :: headers
  lr_cookies :: "string list"
  lr_body :: string
  lr_isBase64 :: bool

text \<open>\<open>/^(text\/|application\/(json|javascript|x-www-form-urlencoded)|.*\+json)/\<close>.\<close>

definition is_text_type :: "string \<Rightarrow> bool" where
  "is_text_type contentType \<longleftrightarrow>
     starts_with contentType ''text/'' \<or>
     list_ex (\<lambda>t. starts_with contentType (''application/'' @ t)) [''json'', ''javascript'', ''x-www-form-urlencoded''] \<or>
     sublist ''+json'' (takeWhile (\<lambda>c. c \<noteq> CHR 0x0A \<and> c \<noteq> CHR 0x0D) contentType)"

definition toLambdaResult :: "core_response \<Rightarrow> lambda_result" where
  "toLambdaResult r =
     (let isText = is_text_type (coalesce (map_of (cr_headers r) ''content-type'') []); content = coalesce (cr_body r) [] in
      \<lparr>lr_statusCode = cr_status r, lr_headers = plain_headers r, lr_cookies = collectCookies r,
       lr_body = (if isText then map (\<lambda>b. char_of (unat b)) content else b64 content), lr_isBase64 = \<not> isText\<rparr>)"

definition lambda_handler ::
  "(params \<Rightarrow> string) \<Rightarrow> (fetch_request \<Rightarrow> (string, core_response) result) \<Rightarrow> lambda_event \<Rightarrow> lambda_result" where
  "lambda_handler query_text core e =
     (let hs = headersFrom e; meth = first_of [Option.bind (lv_http e) (\<lambda>m. m), lv_httpMethod e] ''GET'';
          answer = core \<lparr>fq_url = urlFor query_text e hs, fq_method = meth, fq_headers = hs,
            fq_body = (if meth = ''GET'' \<or> meth = ''HEAD'' then None else bodyFrom e)\<rparr>
      in case answer of Inr r \<Rightarrow> toLambdaResult r
         | Inl _ \<Rightarrow> \<lparr>lr_statusCode = 500, lr_headers = [(''content-type'', ''text/plain; charset=utf-8''), (''cache-control'', ''no-store'')],
             lr_cookies = [], lr_body = ''Internal error'', lr_isBase64 = False\<rparr>)"

section \<open>Facts\<close>

lemma dnsTimeoutMs_bounds: "100 \<le> dnsTimeoutMs num env \<and> dnsTimeoutMs num env \<le> 10000"
  by (auto simp: dnsTimeoutMs_def DNS_TIMEOUT_DEFAULT_MS_def DNS_TIMEOUT_MIN_MS_def DNS_TIMEOUT_MAX_MS_def split: option.split)

lemma worker_dns_addresses: "worker_dns pd slow name ''A'' = Inr rs \<Longrightarrow> r \<in> set rs \<Longrightarrow> isIpAddress r"
  by (auto simp: worker_dns_def failed_lookup_def split: if_splits option.splits)

text \<open>A client's file is read under the root or not at all.\<close>

lemma client_file_confined:
  assumes "\<And>path. path = absolute_path base \<or> starts_with path (absolute_path base @ ''/'') \<Longrightarrow> read path = read' path"
  shows "client_file_get read parse base key = client_file_get read' parse base key"
  using assms by (auto simp: client_file_get_def Let_def)

lemma node_body_eq: "length kept \<le> MAX_REQUEST_BODY_BYTES \<Longrightarrow> node_body (length kept) kept cs =
    (if length kept + length (concat cs) \<le> MAX_REQUEST_BODY_BYTES then Inr (kept @ concat cs) else Inl Request_Body_Too_Large)"
proof (induction cs arbitrary: kept)
  case (Cons c cs)
  then show ?case using Cons.IH [of "kept @ c"] by auto
qed simp

lemma node_body_whole: "node_body 0 [] cs =
    (if length (concat cs) \<le> MAX_REQUEST_BODY_BYTES then Inr (concat cs) else Inl Request_Body_Too_Large)"
  using node_body_eq [of "[]" cs] by simp

lemma node_headers_ip:
  "map_of (node_headers nq) ''x-sag-client-ip'' = (if str_truthy (nq_remoteAddress nq) then nq_remoteAddress nq else None)"
  by (cases "nq_remoteAddress nq") (auto simp: node_headers_def Let_def update_conv delete_conv str_truthy_def)

lemma plain_headers_no_cookie: "map_of (plain_headers r) ''set-cookie'' = None"
proof -
  have "to_lower ''set-cookie'' = ''set-cookie''" by code_simp
  then show ?thesis by (auto simp: plain_headers_def map_of_eq_None_iff)
qed

lemma node_failed_no_cookie: "map_of (ns_headers (node_failed e)) ''set-cookie'' = None"
proof -
  have "map_of (spread [(''content-type'', ''text/plain; charset=utf-8''), (''cache-control'', ''no-store'')] SECURITY_HEADERS) ''set-cookie'' = None"
    by code_simp
  then show ?thesis by (simp add: node_failed_def)
qed

lemma node_serve_no_cookie: "map_of (ns_headers (node_serve core listen nq)) ''set-cookie'' = None"
  by (auto simp: node_serve_def node_failed_no_cookie plain_headers_no_cookie split: sum.split)

text \<open>C21: what the Node server hands to the core is what the socket says. The client address of every request is the address of
  the connection, whatever headers the caller sent; the core sees the whole body or, past 64 KiB, is not asked at all and the
  answer is 413; and no cookie of an answer is among the headers that are written once per name, where a second would replace it.\<close>

theorem node_request_trustworthy:
  "(\<exists>fq. map_of (fq_headers fq) ''x-sag-client-ip'' = (if str_truthy (nq_remoteAddress nq) then nq_remoteAddress nq else None) \<and>
     fq_body fq = (if nq_method nq \<in> {''GET'', ''HEAD''} then None else Some (concat (nq_chunks nq))) \<and>
     node_serve core listen nq =
       (if nq_method nq \<notin> {''GET'', ''HEAD''} \<and> length (concat (nq_chunks nq)) > MAX_REQUEST_BODY_BYTES
        then node_failed Request_Body_Too_Large
        else case core fq of Inl e \<Rightarrow> node_failed (Node_Failure e)
          | Inr r \<Rightarrow> \<lparr>ns_status = cr_status r, ns_headers = plain_headers r, ns_cookies = collectCookies r, ns_body = coalesce (cr_body r) []\<rparr>)) \<and>
   map_of (ns_headers (node_serve core listen nq)) ''set-cookie'' = None"
proof -
  let ?fq = "\<lparr>fq_url = node_origin listen nq @ nq_url nq, fq_method = nq_method nq, fq_headers = node_headers nq,
      fq_body = (if nq_method nq \<in> {''GET'', ''HEAD''} then None else Some (concat (nq_chunks nq)))\<rparr>"
  have "node_serve core listen nq =
       (if nq_method nq \<notin> {''GET'', ''HEAD''} \<and> length (concat (nq_chunks nq)) > MAX_REQUEST_BODY_BYTES
        then node_failed Request_Body_Too_Large
        else case core ?fq of Inl e \<Rightarrow> node_failed (Node_Failure e)
          | Inr r \<Rightarrow> \<lparr>ns_status = cr_status r, ns_headers = plain_headers r, ns_cookies = collectCookies r, ns_body = coalesce (cr_body r) []\<rparr>)"
    by (simp add: node_serve_def toFetchRequest_def node_body_whole)
  then show ?thesis
    using node_serve_no_cookie [of core listen nq] node_headers_ip [of nq] by (intro conjI exI [of _ ?fq]) simp_all
qed

end
