(* ===== verification/Peer_Caches.thy ===== *)
theory Peer_Caches
  imports Peers Dynamo
begin

text \<open>
  The shared caches of peer keys, \<^verbatim>\<open>src/keys/peers.js\<close>: a KV namespace, a DynamoDB table, and the choice of one. The namespace is a
  parameter, as is the service, which is asked as \<open>Dynamo\<close> asks it. What they document is a predicate on a view of what they
  hold; under it both meet the interface of \<open>Peers\<close>, so what is proved there of a cache holds of each.
\<close>

section \<open>A KV namespace\<close>

text \<open>A value read with \<open>type: 'json'\<close>; a key without one reads as \<open>null\<close>.\<close>

record 'k kv_namespace =
  kv_get :: "'k \<Rightarrow> string \<Rightarrow> (string, json option) result"
  kv_put :: "'k \<Rightarrow> string \<Rightarrow> string \<Rightarrow> int \<Rightarrow> (string, unit) result \<times> 'k"

definition entry_json :: "peer_entry \<Rightarrow> json" where
  "entry_json e = jobj [(''keys'', Some (JArr (pn_keys e))), (''fetchedAt'', Some (JNum (pn_fetchedAt e)))]"

text \<open>An entry without a number of seconds compares as neither fresh nor in grace, so it is as good as none.\<close>

definition entry_of :: "json \<Rightarrow> peer_entry option" where
  "entry_of j =
     (case (jget j ''keys'', jget j ''fetchedAt'') of (Some (JArr ks), Some (JNum n)) \<Rightarrow> Some \<lparr>pn_keys = ks, pn_fetchedAt = n\<rparr>
      | _ \<Rightarrow> None)"

definition kv_key :: "string \<Rightarrow> string" where
  "kv_key url = ''peer-jwks:'' @ url"

definition kv_cache :: "platform \<Rightarrow> peer_config \<Rightarrow> 'k kv_namespace \<Rightarrow> 'k cache_ops" where
  "kv_cache pf pc kv =
     \<lparr>pc_get = \<lambda>k now url. rbind (kv_get kv k (kv_key url)) (\<lambda>v. Inr (Option.bind v entry_of)),
      pc_put = \<lambda>k now url e. kv_put kv k (kv_key url) (pf_stringify pf (entry_json e)) (max 60 (pj_staleTtlSeconds pc))\<rparr>"

definition createKvCache :: "platform \<Rightarrow> peer_config \<Rightarrow> 'k kv_namespace option \<Rightarrow> (string, 'k cache_ops) result" where
  "createKvCache pf pc binding =
     (case binding of None \<Rightarrow> Inl (''PEER_JWKS_CACHE_BACKEND is cf-kv but no KV namespace is bound as '' @ pj_cacheKvBindingName pc)
      | Some kv \<Rightarrow> Inr (kv_cache pf pc kv))"

section \<open>A DynamoDB table\<close>

definition peer_dynamo ::
  "platform \<Rightarrow> (string \<Rightarrow> (string \<times> string \<times> params) option) \<Rightarrow> (string \<times> string) list \<Rightarrow>
     ('t \<Rightarrow> int \<Rightarrow> string \<Rightarrow> headers \<Rightarrow> json \<Rightarrow> aws_answer \<times> 't) \<Rightarrow> peer_config \<Rightarrow> 't dynamo" where
  "peer_dynamo pf target env serve pc =
     \<lparr>dy_pf = pf, dy_target = target, dy_env = env, dy_table = coalesce (pj_cacheTable pc) [], dy_region = coalesce (pj_cacheRegion pc) [],
      dy_endpoint = or_str (pj_cacheEndpoint pc) (''https://dynamodb.'' @ coalesce (pj_cacheRegion pc) [] @ ''.amazonaws.com/''), dy_serve = serve\<rparr>"

definition peer_read_body :: "string \<Rightarrow> string \<Rightarrow> json" where
  "peer_read_body table url = jobj [(''TableName'', Some (JStr table)), (''Key'', Some (jobj [(''peer_url'', Some (attr_s url))]))]"

definition peer_write_body :: "string \<Rightarrow> string \<Rightarrow> string \<Rightarrow> int \<Rightarrow> int \<Rightarrow> json" where
  "peer_write_body table url keys fetchedAt expires =
     jobj [(''TableName'', Some (JStr table)),
       (''Item'', Some (jobj [(''peer_url'', Some (attr_s url)), (''keys_json'', Some (attr_s keys)), (''fetched_at'', Some (attr_n fetchedAt)),
          (''expires_at'', Some (attr_n expires))]))]"

definition member_at :: "json \<Rightarrow> string \<Rightarrow> string \<Rightarrow> string option" where
  "member_at item name kind = as_str (Option.bind (jget item name) (\<lambda>a. jget a kind))"

text \<open>The entry of an item; what is not an array of keys has none to publish.\<close>

definition item_entry :: "platform \<Rightarrow> json \<Rightarrow> (string, peer_entry option) result" where
  "item_entry pf item =
     (case member_at item ''keys_json'' ''S'' of None \<Rightarrow> Inl ''Cannot read properties of undefined''
      | Some txt' \<Rightarrow> (case pf_parse pf txt' of None \<Rightarrow> Inl ''invalid JSON''
          | Some j \<Rightarrow> (case (j, number_of (member_at item ''fetched_at'' ''N'')) of
              (JArr ks, Some n) \<Rightarrow> Inr (Some \<lparr>pn_keys = ks, pn_fetchedAt = n\<rparr>) | _ \<Rightarrow> Inr None)))"

text \<open>A read leaves what the service holds.\<close>

definition peer_read :: "'t dynamo \<Rightarrow> 't \<Rightarrow> int \<Rightarrow> string \<Rightarrow> (string, peer_entry option) result" where
  "peer_read d t now url =
     rbind (fst (dyn_send d (1000 * now) ''GetItem'' (peer_read_body (dy_table d) url) t)) (\<lambda>(status, detail, content).
     if \<not> accepted (Inr (status, detail, content)) then Inl (''peer jwks cache read failed: HTTP '' @ show_int status)
     else (case content of None \<Rightarrow> Inl ''invalid JSON''
       | Some doc \<Rightarrow> (case jget doc ''Item'' of None \<Rightarrow> Inr None | Some item \<Rightarrow> item_entry (dy_pf d) item)))"

definition peer_write :: "'t dynamo \<Rightarrow> peer_config \<Rightarrow> 't \<Rightarrow> int \<Rightarrow> string \<Rightarrow> peer_entry \<Rightarrow> (string, unit) result \<times> 't" where
  "peer_write d pc t now url e =
     (case dyn_send d (1000 * now) ''PutItem''
         (peer_write_body (dy_table d) url (pf_stringify (dy_pf d) (JArr (pn_keys e))) (pn_fetchedAt e) (pn_fetchedAt e + pj_staleTtlSeconds pc)) t of
        (Inl err, t') \<Rightarrow> (Inl err, t')
      | (Inr answer, t') \<Rightarrow>
          if accepted (Inr answer) then (Inr (), t')
          else (Inl (''peer jwks cache write failed: HTTP '' @ show_int (fst answer)), t'))"

definition dynamo_cache :: "'t dynamo \<Rightarrow> peer_config \<Rightarrow> 't cache_ops" where
  "dynamo_cache d pc = \<lparr>pc_get = peer_read d, pc_put = peer_write d pc\<rparr>"

definition createDynamoCache ::
  "platform \<Rightarrow> (string \<Rightarrow> (string \<times> string \<times> params) option) \<Rightarrow> (string \<times> string) list \<Rightarrow>
     ('t \<Rightarrow> int \<Rightarrow> string \<Rightarrow> headers \<Rightarrow> json \<Rightarrow> aws_answer \<times> 't) \<Rightarrow> peer_config \<Rightarrow> (string, 't cache_ops) result" where
  "createDynamoCache pf target env serve pc =
     (if \<not> str_truthy (pj_cacheTable pc) then Inl ''PEER_JWKS_CACHE_BACKEND is dynamodb but PEER_JWKS_CACHE_TABLE is not set''
      else if \<not> str_truthy (pj_cacheRegion pc)
      then Inl ''PEER_JWKS_CACHE_BACKEND is dynamodb but neither PEER_JWKS_CACHE_REGION nor AWS_REGION is set''
      else Inr (dynamo_cache (peer_dynamo pf target env serve pc) pc))"

section \<open>The choice\<close>

datatype ('k, 't) peer_backend = Kv_Cache "'k cache_ops" | Dynamo_Cache "'t cache_ops" | Memory_Cache "(string \<times> peer_entry) list cache_ops"

definition createCache ::
  "platform \<Rightarrow> (string \<Rightarrow> (string \<times> string \<times> params) option) \<Rightarrow> (string \<times> string) list \<Rightarrow> 'k kv_namespace option \<Rightarrow>
     ('t \<Rightarrow> int \<Rightarrow> string \<Rightarrow> headers \<Rightarrow> json \<Rightarrow> aws_answer \<times> 't) \<Rightarrow> peer_config \<Rightarrow> (string, ('k, 't) peer_backend) result" where
  "createCache pf target env binding serve pc =
     (if pj_cacheBackend pc = ''cf-kv'' then rbind (createKvCache pf pc binding) (Inr \<circ> Kv_Cache)
      else if pj_cacheBackend pc = ''dynamodb'' then rbind (createDynamoCache pf target env serve pc) (Inr \<circ> Dynamo_Cache)
      else Inr (Memory_Cache createMemoryCache))"

section \<open>What the namespace documents\<close>

text \<open>A read returns what is held or nothing, for a value written elsewhere may not have arrived; a write changes one key.\<close>

definition kv_documented :: "platform \<Rightarrow> 'k kv_namespace \<Rightarrow> ('k \<Rightarrow> string \<Rightarrow> string option) \<Rightarrow> bool" where
  "kv_documented pf kv stored \<longleftrightarrow>
     (\<forall>k key j. kv_get kv k key = Inr (Some j) \<longrightarrow> (\<exists>t. stored k key = Some t \<and> pf_parse pf t = Some j)) \<and>
     (\<forall>k key t ttl key' t'. stored (snd (kv_put kv k key t ttl)) key' = Some t' \<longrightarrow> key' = key \<and> t' = t \<or> stored k key' = Some t')"

definition kv_held :: "platform \<Rightarrow> ('k \<Rightarrow> string \<Rightarrow> string option) \<Rightarrow> 'k \<Rightarrow> string \<Rightarrow> peer_entry option" where
  "kv_held pf stored k url = Option.bind (Option.bind (stored k (kv_key url)) (pf_parse pf)) entry_of"

lemma entry_of_json: "entry_of (entry_json e) = Some e"
  by (simp add: entry_of_def entry_json_def jobj.simps)

lemma kv_contract:
  assumes "kv_documented pf kv stored" "\<And>e. json_survives pf (entry_json e)"
  shows "peer_cache (kv_cache pf pc kv) (kv_held pf stored)"
proof
  fix c now url e
  assume "pc_get (kv_cache pf pc kv) c now url = Inr (Some e)"
  then obtain j where "kv_get kv c (kv_key url) = Inr (Some j)" "entry_of j = Some e"
    by (auto simp: kv_cache_def bind_eq_Some_conv)
  with assms(1) show "kv_held pf stored c url = Some e" by (fastforce simp: kv_documented_def kv_held_def)
next
  fix c now url e url' e'
  assume *: "kv_held pf stored (snd (pc_put (kv_cache pf pc kv) c now url e)) url' = Some e'"
  let ?t = "pf_stringify pf (entry_json e)"
  from * obtain t j where t: "stored (snd (kv_put kv c (kv_key url) ?t (max 60 (pj_staleTtlSeconds pc)))) (kv_key url') = Some t"
      "pf_parse pf t = Some j" "entry_of j = Some e'"
    by (auto simp: kv_held_def kv_cache_def bind_eq_Some_conv)
  from t(1) assms(1) have "kv_key url' = kv_key url \<and> t = ?t \<or> stored c (kv_key url') = Some t"
    unfolding kv_documented_def by blast
  with t(2,3) assms(2) [of e] show "url' = url \<and> e' = e \<or> kv_held pf stored c url' = Some e'"
    by (auto simp: kv_held_def kv_key_def json_survives_def entry_of_json)
qed

section \<open>What the service documents\<close>

text \<open>\<open>item\<close> shows the text and the number of an item; reading may lag behind writing, which replaces one item whole.\<close>

definition peers_documented :: "'t dynamo \<Rightarrow> ('t \<Rightarrow> string \<Rightarrow> (string \<times> int) option) \<Rightarrow> bool" where
  "peers_documented d item \<longleftrightarrow>
     (\<forall>t now hs url status detail doc it. fst (dy_serve d t now ''GetItem'' hs (peer_read_body (dy_table d) url)) = Inr (status, detail, Some doc) \<and>
        accepted (Inr (status, detail, Some doc)) \<and> jget doc ''Item'' = Some it \<longrightarrow>
        (\<exists>keys n. item t url = Some (keys, n) \<and> member_at it ''keys_json'' ''S'' = Some keys \<and> member_at it ''fetched_at'' ''N'' = Some (show_int n))) \<and>
     (\<forall>t now hs url keys n expires url' it.
        item (snd (dy_serve d t now ''PutItem'' hs (peer_write_body (dy_table d) url keys n expires))) url' = Some it \<longrightarrow>
        url' = url \<and> it = (keys, n) \<or> item t url' = Some it)"

definition dynamo_held :: "'t dynamo \<Rightarrow> ('t \<Rightarrow> string \<Rightarrow> (string \<times> int) option) \<Rightarrow> 't \<Rightarrow> string \<Rightarrow> peer_entry option" where
  "dynamo_held d item t url =
     (case item t url of None \<Rightarrow> None
      | Some (keys, n) \<Rightarrow> (case pf_parse (dy_pf d) keys of Some (JArr ks) \<Rightarrow> Some \<lparr>pn_keys = ks, pn_fetchedAt = n\<rparr> | _ \<Rightarrow> None))"

lemma peer_read_held:
  assumes "peers_documented d item" "peer_read d t now url = Inr (Some e)"
  shows "dynamo_held d item t url = Some e"
proof -
  obtain r t' where send: "dyn_send d (1000 * now) ''GetItem'' (peer_read_body (dy_table d) url) t = (r, t')" by force
  from assms(2) send obtain status detail doc it where
    a: "r = Inr (status, detail, Some doc)" "accepted r" "jget doc ''Item'' = Some it" "item_entry (dy_pf d) it = Inr (Some e)"
    by (auto simp: peer_read_def split: if_splits option.splits)
  from send a obtain hs r' where r': "dy_serve d t (1000 * now) ''GetItem'' hs (peer_read_body (dy_table d) url) = (r', t')" "r = no_redirect r'"
    by (cases rule: dyn_send_cases) auto
  then have "r' = r" using a(2) no_redirect_accepted [of r'] by simp
  with r'(1) have "fst (dy_serve d t (1000 * now) ''GetItem'' hs (peer_read_body (dy_table d) url)) = Inr (status, detail, Some doc)"
    using a(1) by simp
  with assms(1) a obtain keys n where i: "item t url = Some (keys, n)" "member_at it ''keys_json'' ''S'' = Some keys"
      "member_at it ''fetched_at'' ''N'' = Some (show_int n)"
    unfolding peers_documented_def by blast
  with a(4) number_of_show [of n] show ?thesis
    by (auto simp: dynamo_held_def item_entry_def split: option.splits json.splits)
qed

lemma peer_write_held:
  assumes "peers_documented d item" "json_survives (dy_pf d) (JArr (pn_keys e))"
    and "dynamo_held d item (snd (peer_write d pc t now url e)) url' = Some e'"
  shows "url' = url \<and> e' = e \<or> dynamo_held d item t url' = Some e'"
proof -
  let ?keys = "pf_stringify (dy_pf d) (JArr (pn_keys e))"
  let ?body = "peer_write_body (dy_table d) url ?keys (pn_fetchedAt e) (pn_fetchedAt e + pj_staleTtlSeconds pc)"
  obtain r t' where send: "dyn_send d (1000 * now) ''PutItem'' ?body t = (r, t')" by force
  then have t': "snd (peer_write d pc t now url e) = t'" by (auto simp: peer_write_def split: sum.splits)
  have "\<forall>it. item t' url' = Some it \<longrightarrow> url' = url \<and> it = (?keys, pn_fetchedAt e) \<or> item t url' = Some it"
    using send
  proof (cases rule: dyn_send_cases)
    case (2 hs r')
    then have "t' = snd (dy_serve d t (1000 * now) ''PutItem'' hs ?body)" by simp
    with assms(1) show ?thesis unfolding peers_documented_def by blast
  qed simp
  with assms(2,3) show ?thesis
    by (auto simp: t' dynamo_held_def json_survives_def split: option.splits json.splits)
qed

lemma dynamo_peer_contract:
  assumes "peers_documented d item" "\<And>ks. json_survives (dy_pf d) (JArr ks)"
  shows "peer_cache (dynamo_cache d pc) (dynamo_held d item)"
  by unfold_locales (auto simp: dynamo_cache_def intro: peer_read_held [OF assms(1)] dest: peer_write_held [OF assms(1) assms(2)])

text \<open>So a peer that comes back is published again from either shared cache, whatever happened before.\<close>

lemmas kv_peers_recover = peer_cache.recovers [OF kv_contract]
lemmas dynamo_peers_recover = peer_cache.recovers [OF dynamo_peer_contract]

end
