(* ===== verification/Data_Dir.thy ===== *)
theory Data_Dir
  imports Keys Environment
begin

text \<open>
  Key material: generating it (\<^verbatim>\<open>src/keys/generate.js\<close>), keeping it in a directory across restarts (\<^verbatim>\<open>tools/datadir.js\<close>,
  \<^verbatim>\<open>tools/bootstrap.js\<close>) and printing it (\<^verbatim>\<open>tools/keygen.js\<close>). A directory is the text of its two files; random bytes, the
  instant and whether the directory can be written are arguments. Names in these files are not array indices, so an object
  keeps their order.
\<close>

section \<open>Making key material\<close>

record key_pair =
  kp_alg :: string
  kp_kid :: string
  kp_privateJwk :: json
  kp_publicJwk :: json
  kp_family :: string

definition randomSecret :: "bytes \<Rightarrow> string" where
  "randomSecret random = b64 random"

definition keygenParams :: "string \<Rightarrow> (string, (string \<times> string) list) result" where
  "keygenParams alg =
     (case map_of ALGS alg of None \<Rightarrow> Inl (''unknown algorithm '' @ alg)
      | Some spec \<Rightarrow>
          if as_family spec = ''post-quantum'' then Inr [(''name'', as_name spec)]
          else if as_name spec = ''ECDSA'' then Inr [(''name'', ''ECDSA''), (''namedCurve'', coalesce (as_namedCurve spec) [])]
          else if as_name spec = ''HMAC'' then Inl (alg @ '' cannot sign id_tokens'')
          else Inr [(''name'', as_name spec), (''hash'', coalesce (as_hash spec) []), (''modulusLength'', ''3072''), (''publicExponent'', ''1,0,1'')])"

definition generateSigningKey ::
  "platform \<Rightarrow> key_ops \<Rightarrow> string \<Rightarrow> (string \<Rightarrow> bool) \<Rightarrow> string \<Rightarrow> (string, key_pair) result" where
  "generateSigningKey pf ops runtime gen alg =
     (if \<not> supportsAlg gen alg
      then Inl (alg @ '' is not available on this runtime ('' @ runtime @ ''). A newer Node with a newer OpenSSL may support it.'')
      else rbind (keygenParams alg) (\<lambda>_. rbind (ko_generate ops alg) (\<lambda>exported.
        let privateJwk = jput exported ''alg'' (Some (JStr alg)) in
        rbind (jwkThumbprint pf privateJwk) (\<lambda>kid.
        let held = jput privateJwk ''kid'' (Some (JStr kid)) in
        rbind (publicPartOf held) (\<lambda>public.
        Inr \<lparr>kp_alg = alg, kp_kid = kid, kp_privateJwk = held, kp_publicJwk = public,
          kp_family = (case map_of ALGS alg of None \<Rightarrow> [] | Some spec \<Rightarrow> as_family spec)\<rparr>)))))"

section \<open>Environment files\<close>

definition SECRETS_FILE :: string where "SECRETS_FILE = ''sag.env''"
definition SETTINGS_FILE :: string where "SETTINGS_FILE = ''config.env''"

definition env_unquote :: "string \<Rightarrow> string" where
  "env_unquote v =
     (if starts_with v [CHR 0x27] \<and> ends_with v [CHR 0x27] \<or> starts_with v [CHR 0x22] \<and> ends_with v [CHR 0x22] then butlast (tl v) else v)"

definition parse_line :: "string \<Rightarrow> (string \<times> string) option" where
  "parse_line ln =
     (let trimmed = trim ln in
      if trimmed = [] \<or> starts_with trimmed ''#'' then None
      else (case index_of (CHR ''='') trimmed of None \<Rightarrow> None
        | Some eq \<Rightarrow> if eq < 1 then None else Some (trim (take eq trimmed), env_unquote (trim (drop (eq + 1) trimmed)))))"

definition parseEnvFile :: "string \<Rightarrow> (string \<times> string) list" where
  "parseEnvFile txt' =
     fold (\<lambda>ln out. case parse_line ln of None \<Rightarrow> out | Some (k, v) \<Rightarrow> AList.update k v out) (split_on (CHR 0x0A) txt') []"

fun format_lines :: "(string \<times> string) list \<Rightarrow> (string, string list) result" where
  "format_lines [] = Inr []"
| "format_lines ((key, v) # rest) =
     (if CHR 0x27 \<in> set v \<or> CHR 0x0A \<in> set v then Inl (key @ '' cannot be written to an env file'')
      else rbind (format_lines rest) (\<lambda>ls. Inr ((key @ ''='' @ [CHR 0x27] @ v @ [CHR 0x27]) # ls)))"

definition comment_line :: "string \<Rightarrow> string" where
  "comment_line h = (if h \<noteq> [] then ''# '' @ h else ''#'')"

definition formatEnvFile :: "(string \<times> string) list \<Rightarrow> string list \<Rightarrow> (string, string) result" where
  "formatEnvFile values hdr =
     rbind (format_lines values) (\<lambda>ls. Inr (join [CHR 0x0A] (map comment_line hdr @ ls) @ [CHR 0x0A]))"

section \<open>The data directory\<close>

record data_dir =
  dd_secrets :: "string option"
  dd_settings :: "string option"

record start_options =
  so_alg :: "string option"
  so_backend :: "string option"
  so_now :: string
  so_secret :: bytes
  so_salt :: bytes

record key_material =
  mt_values :: "(string \<times> string) list"
  mt_settings :: "(string \<times> string) list"
  mt_generated :: "string list"

definition secrets_header :: "string \<Rightarrow> string list" where
  "secrets_header now =
     [''SAG instance key material, generated '' @ now @ ''.'', [],
      ''This file is the identity of this deployment: anyone holding it can'',
      ''impersonate it. It lives in the data volume and never in an image.'',
      ''Deleting it starts a new identity, which signs everybody out and'',
      ''invalidates every token this instance has issued.'', [],
      ''Settings belong in '' @ SETTINGS_FILE @ '' next to this file, not here.'']"

text \<open>The code and the message of the error that writing to the directory gave.\<close>

definition explainUnwritable :: "string \<Rightarrow> string \<times> string \<Rightarrow> string" where
  "explainUnwritable dir cause =
     (if fst cause \<noteq> ''EACCES'' \<and> fst cause \<noteq> ''EPERM'' then snd cause
      else join [CHR 0x0A]
        [''Cannot write key material to '' @ dir @ '': '' @ fst cause @ ''.'', [],
         ''This is almost always a bind-mounted directory whose owner is not the user'',
         ''inside the container. Either use a named volume, which is what'',
         ''docker-compose.yml does, or fix the ownership:'', [],
         ''  Docker:           chown 1000:1000 '' @ dir @ '' on the host'',
         ''  Rootless Podman:  add :U to the volume, for example ./data:/data:U,'',
         ''                    or run with --userns=keep-id'', [], ''See docs/docker.md.''])"

definition read_env :: "string option \<Rightarrow> (string \<times> string) list" where
  "read_env file = (case file of None \<Rightarrow> [] | Some txt' \<Rightarrow> parseEnvFile txt')"

definition want_alg :: "start_options \<Rightarrow> data_dir \<Rightarrow> string" where
  "want_alg so dd = or_str (so_alg so) (or_str (map_of (read_env (dd_settings dd)) ''SIGNING_ALG'') ''ES256'')"

definition want_backend :: "start_options \<Rightarrow> data_dir \<Rightarrow> string" where
  "want_backend so dd = or_str (so_backend so) (or_str (map_of (read_env (dd_settings dd)) ''SIGNING_BACKEND'') ''local'')"

definition ensure_secret :: "string \<Rightarrow> bytes \<Rightarrow> (string \<times> string) list \<times> string list \<Rightarrow> (string \<times> string) list \<times> string list" where
  "ensure_secret key random = (\<lambda>(values, generated).
     if str_truthy (map_of values key) then (values, generated)
     else (AList.update key (randomSecret random) values, generated @ [key]))"

definition ensure_key ::
  "platform \<Rightarrow> key_ops \<Rightarrow> string \<Rightarrow> (string \<Rightarrow> bool) \<Rightarrow> string \<Rightarrow> string \<Rightarrow> (string \<times> string) list \<times> string list \<Rightarrow>
     (string, (string \<times> string) list \<times> string list) result" where
  "ensure_key pf ops runtime gen backend alg = (\<lambda>(values, generated).
     if backend = ''local'' \<and> \<not> str_truthy (map_of values ''SIGNING_PRIVATE_JWK'')
     then rbind (generateSigningKey pf ops runtime gen alg) (\<lambda>key.
       Inr (AList.update ''SIGNING_PRIVATE_JWK'' (pf_stringify pf (kp_privateJwk key)) (AList.update ''SIGNING_ALG'' (kp_alg key) values),
            generated @ [''SIGNING_PRIVATE_JWK'']))
     else Inr (values, generated))"

definition ensureKeyMaterial ::
  "platform \<Rightarrow> key_ops \<Rightarrow> string \<Rightarrow> (string \<Rightarrow> bool) \<Rightarrow> string \<Rightarrow> (string \<times> string) option \<Rightarrow> start_options \<Rightarrow> data_dir \<Rightarrow>
     (string, key_material) result \<times> data_dir" where
  "ensureKeyMaterial pf ops runtime gen dir unwritable so dd =
     (case ensure_key pf ops runtime gen (want_backend so dd) (want_alg so dd)
             (ensure_secret ''SUBJECT_SALT'' (so_salt so) (ensure_secret ''SAG_SECRET'' (so_secret so) (read_env (dd_secrets dd), []))) of
        Inl e \<Rightarrow> (Inl e, dd)
      | Inr (values, generated) \<Rightarrow>
          let made = \<lparr>mt_values = values, mt_settings = read_env (dd_settings dd), mt_generated = generated\<rparr> in
          if generated = [] then (Inr made, dd)
          else (case unwritable of Some cause \<Rightarrow> (Inl (explainUnwritable dir cause), dd)
            | None \<Rightarrow> (case formatEnvFile values (secrets_header (so_now so)) of Inl e \<Rightarrow> (Inl e, dd)
                | Inr txt' \<Rightarrow> (Inr made, dd\<lparr>dd_secrets := Some txt'\<rparr>))))"

text \<open>The environment the server starts with: the real one, then the settings, then the generated secrets.\<close>

definition bootstrap_env :: "key_material \<Rightarrow> env \<Rightarrow> env" where
  "bootstrap_env m env =
     fold (\<lambda>(key, v) e. if str_truthy (map_of e key) then e else AList.update key v e)
       (fold (\<lambda>(key, v) held. AList.update key v held) (mt_settings m) (mt_values m)) env"

section \<open>The key tool\<close>

datatype flag_value = Flag_Absent | Flag_Set | Flag_Value string

definition flag :: "string list \<Rightarrow> string \<Rightarrow> flag_value" where
  "flag args name =
     (case index_of (''--'' @ name) args of None \<Rightarrow> Flag_Absent
      | Some i \<Rightarrow>
          (case drop (i + 1) args of [] \<Rightarrow> Flag_Set
           | next_arg # _ \<Rightarrow> if next_arg \<noteq> [] \<and> \<not> starts_with next_arg ''--'' then Flag_Value next_arg else Flag_Set))"

text \<open>What it ends with: the help, only errors, or errors with the printed lines and the keys for a file.\<close>

datatype keygen_outcome = Keygen_Help | Keygen_Failed "string list" | Keygen_Printed "string list" "string list" "(string \<times> json list) option"

definition keygen_key_lines :: "platform \<Rightarrow> key_pair list \<Rightarrow> string list" where
  "keygen_key_lines pf results =
     (case results of [] \<Rightarrow> []
      | primary # additional \<Rightarrow>
          [''SIGNING_ALG='' @ kp_alg primary, ''SIGNING_PRIVATE_JWK='' @ pf_stringify pf (kp_privateJwk primary)] @
          (if additional = [] then []
           else (''SIGNING_ADDITIONAL_ALGS='' @ join '','' (map kp_alg additional)) #
             map (\<lambda>k. ''SIGNING_PRIVATE_JWK_'' @ algEnvSuffix (kp_alg k) @ ''='' @ pf_stringify pf (kp_privateJwk k)) additional) @ [[]])"

definition keygen_public_lines :: "platform \<Rightarrow> key_pair list \<Rightarrow> string list" where
  "keygen_public_lines pf results =
     [''# Public half, for reference. SAG publishes this at /jwks.json itself,'',
      ''# so it does not need to be configured anywhere.'',
      ''# '' @ pf_stringify pf (jobj [(''keys'', Some (JArr (map kp_publicJwk results)))]), []] @
     (if list_ex (\<lambda>r. kp_family r = ''post-quantum'') results then []
      else [''# No post-quantum signing key was generated. To publish one alongside'',
            ''# the classical key, so relying parties can migrate at their own pace:'',
            ''#   npm run keygen -- --alg '' @ (case results of [] \<Rightarrow> [] | r # _ \<Rightarrow> kp_alg r) @ '',ML-DSA-44'', []])"

definition keygen ::
  "platform \<Rightarrow> key_ops \<Rightarrow> string \<Rightarrow> (string \<Rightarrow> bool) \<Rightarrow> string list \<Rightarrow> string \<Rightarrow> bytes \<Rightarrow> bytes \<Rightarrow> keygen_outcome" where
  "keygen pf ops runtime gen args now r1 r2 =
     (if flag args ''help'' \<noteq> Flag_Absent \<or> ''-h'' \<in> set args then Keygen_Help
      else
        let secretOnly = (flag args ''secret-only'' \<noteq> Flag_Absent);
            wanted = (case flag args ''alg'' of Flag_Absent \<Rightarrow> ''ES256'' | Flag_Set \<Rightarrow> ''true'' | Flag_Value v \<Rightarrow> v);
            tries = (if secretOnly then [] else map (generateSigningKey pf ops runtime gen) (Prelude.fields list_sep wanted));
            results = concat (map (\<lambda>r. case r of Inl _ \<Rightarrow> [] | Inr k \<Rightarrow> [k]) tries);
            errors = concat (map (\<lambda>r. case r of Inl e \<Rightarrow> [''  ! '' @ e] | Inr _ \<Rightarrow> []) tries)
        in if \<not> secretOnly \<and> results = [] then Keygen_Failed (errors @ [''No keys could be generated.''])
           else
             let opening = [[], ''# SAG key material - generated '' @ now, ''#'',
                    ''# Store every value below as a secret. Anything marked SIGNING_PRIVATE_JWK'',
                    ''# or SAG_SECRET is enough on its own to impersonate this deployment.'', []];
                 secrets = [''SAG_SECRET='' @ randomSecret r1, [], ''# Only needed with SUBJECT_TYPE=pairwise. Never change it once relying'',
                    ''# parties have stored subjects, or every account is orphaned.'', ''# SUBJECT_SALT='' @ randomSecret r2, []];
                 out = (case flag args ''out'' of Flag_Value path \<Rightarrow> Some (path, map kp_privateJwk results) | _ \<Rightarrow> None);
                 closing = (case out of None \<Rightarrow> []
                    | Some (path, _) \<Rightarrow> [''# Private JWKs also written to '' @ path @ '' with mode 600. Do not commit it.'', []])
             in Keygen_Printed errors
                  (opening @ keygen_key_lines pf results @ secrets @ (if secretOnly then [] else keygen_public_lines pf results) @ closing) out)"

section \<open>Reading back what was written\<close>

definition env_name :: "string \<Rightarrow> bool" where
  "env_name k \<longleftrightarrow> k \<noteq> [] \<and> trim k = k \<and> CHR ''='' \<notin> set k \<and> CHR 0x0A \<notin> set k \<and> hd k \<noteq> CHR ''#''"

definition env_values :: "(string \<times> string) list \<Rightarrow> bool" where
  "env_values vs \<longleftrightarrow> distinct (map fst vs) \<and> (\<forall>k\<in>fst ` set vs. env_name k)"

lemma dropWhile_twice [simp]: "dropWhile P (dropWhile P xs) = dropWhile P xs"
  by (induction xs) auto

lemma trim_front: "\<not> is_space c \<Longrightarrow> trim (c # s) = c # rev (dropWhile is_space (rev s))"
  by (auto simp: trim_def dropWhile_append)

lemma trim_ends: "\<not> is_space c \<Longrightarrow> \<not> is_space d \<Longrightarrow> trim (c # s @ [d]) = c # s @ [d]"
  by (simp add: trim_front)

lemma trim_Cons: "trim s = c # cs \<Longrightarrow> \<not> is_space c"
  by (cases "dropWhile is_space s") (auto simp: trim_def dropWhile_append dropWhile_eq_Cons_conv split: if_splits)

lemma trim_idem [simp]: "trim (trim s) = trim s"
proof (cases "dropWhile is_space s")
  case (Cons c cs)
  then have c: "\<not> is_space c" by (simp add: dropWhile_eq_Cons_conv)
  then have "trim s = c # rev (dropWhile is_space (rev cs))"
    using trim_front [OF c, of cs] Cons by (simp add: trim_def)
  with c show ?thesis by (simp add: trim_front)
next
  case Nil
  then have "trim s = []" by (metis dropWhile.simps(1) rev.simps(1) trim_def)
  moreover have "trim [] = []" by (simp add: trim_def)
  ultimately show ?thesis by simp
qed

lemma set_trimmed: "c \<in> set (trim s) \<Longrightarrow> c \<in> set s"
  by (auto simp: trim_def dest!: set_dropWhileD)

lemma index_of_here: "c \<notin> set n \<Longrightarrow> index_of c (n @ c # s) = Some (length n)"
  by (induction n) auto

lemma quote_solid: "\<not> is_space (CHR 0x27)" "\<not> is_space (CHR ''#'')"
  by (simp_all add: is_space_def)

lemma parse_line_entry:
  assumes "env_name k"
  shows "parse_line (k @ ''='' @ [CHR 0x27] @ v @ [CHR 0x27]) = Some (k, v)"
proof -
  from assms obtain c cs where k: "k = c # cs" "trim k = k" "CHR ''='' \<notin> set k" "c \<noteq> CHR ''#''"
    by (cases k) (auto simp: env_name_def)
  from trim_Cons [of k c cs] k have c: "\<not> is_space c" by simp
  let ?v = "CHR 0x27 # v @ [CHR 0x27]"
  have whole: "trim (k @ CHR ''='' # ?v) = k @ CHR ''='' # ?v"
    using trim_ends [OF c quote_solid(1), of "cs @ CHR ''='' # CHR 0x27 # v"] k(1) by simp
  have v: "trim ?v = ?v" by (rule trim_ends [OF quote_solid(1) quote_solid(1)])
  have un: "env_unquote ?v = v" by (simp add: env_unquote_def starts_with_def ends_with_def)
  have "index_of (CHR ''='') (k @ CHR ''='' # ?v) = Some (length k)" by (rule index_of_here [OF k(3)])
  moreover have "\<not> starts_with (k @ CHR ''='' # ?v) ''#''" using k(1,4) by (simp add: starts_with_def)
  moreover have "1 \<le> length k" "k \<noteq> []" using k(1) by simp_all
  ultimately show ?thesis
    using k(2) by (simp add: parse_line_def whole v un Let_def)
qed

lemma parse_line_comment: "parse_line (comment_line h) = None"
  by (simp add: parse_line_def comment_line_def trim_front [OF quote_solid(2)] starts_with_def)

lemma parse_line_name:
  assumes "parse_line ln = Some (k, v)" "CHR 0x0A \<notin> set ln"
  shows "env_name k"
proof -
  from assms(1) obtain eq where eq: "trim ln \<noteq> []" "\<not> starts_with (trim ln) ''#''" "index_of (CHR ''='') (trim ln) = Some eq"
      "1 \<le> eq" "k = trim (take eq (trim ln))"
    by (auto simp: parse_line_def Let_def split: if_splits option.splits)
  then obtain c cs n where t: "trim ln = c # cs" "eq = Suc n" by (cases "trim ln"; cases eq) auto
  have c: "\<not> is_space c" using t(1) by (rule trim_Cons)
  have k: "k = c # rev (dropWhile is_space (rev (take n cs)))" using eq(5) t c by (simp add: trim_front)
  have "set k \<subseteq> set (take eq (trim ln))" using eq(5) by (auto intro: set_trimmed)
  moreover have "CHR ''='' \<notin> set (take eq (trim ln))" using eq(3) by (simp add: index_of_Some_iff)
  moreover have "CHR 0x0A \<notin> set (take eq (trim ln))" using assms(2) by (auto dest: in_set_takeD set_trimmed)
  moreover have "c \<noteq> CHR ''#''" using eq(2) t(1) by (auto simp: starts_with_def)
  moreover have "trim k = k" by (simp add: eq(5))
  ultimately show ?thesis using k unfolding env_name_def by auto
qed

lemma env_values_update: "env_values vs \<Longrightarrow> env_name k \<Longrightarrow> env_values (AList.update k v vs)"
  by (auto simp: env_values_def distinct_update dom_update)

lemma parse_fold_values:
  "list_all (\<lambda>ln. CHR 0x0A \<notin> set ln) ls \<Longrightarrow> env_values vs \<Longrightarrow>
     env_values (fold (\<lambda>ln out. case parse_line ln of None \<Rightarrow> out | Some (k, v) \<Rightarrow> AList.update k v out) ls vs)"
proof (induction ls arbitrary: vs)
  case (Cons ln ls)
  then show ?case
    by (cases "parse_line ln") (auto simp: env_values_update parse_line_name)
qed simp

lemma parseEnvFile_values: "env_values (parseEnvFile t)"
  unfolding parseEnvFile_def
  by (rule parse_fold_values) (auto simp: list_all_iff env_values_def dest: split_on_parts)

lemma env_values_Nil: "env_values []"
  by (simp add: env_values_def)

lemma read_env_values: "env_values (read_env f)"
  by (cases f) (simp_all add: read_env_def parseEnvFile_values env_values_Nil)

lemma format_lines_Inr:
  "format_lines vs = Inr ls \<Longrightarrow>
     ls = map (\<lambda>(k, v). k @ ''='' @ [CHR 0x27] @ v @ [CHR 0x27]) vs \<and> list_all (\<lambda>(k, v). CHR 0x0A \<notin> set v) vs"
  by (induction vs arbitrary: ls rule: format_lines.induct) (auto split: if_splits)

lemma update_new: "k \<notin> fst ` set xs \<Longrightarrow> AList.update k v xs = xs @ [(k, v)]"
  by (induction xs) auto

lemma parse_entries:
  "env_values (out @ vs) \<Longrightarrow>
     fold (\<lambda>ln out. case parse_line ln of None \<Rightarrow> out | Some (k, v) \<Rightarrow> AList.update k v out)
       (map (\<lambda>(k, v). k @ ''='' @ [CHR 0x27] @ v @ [CHR 0x27]) vs) out = out @ vs"
proof (induction vs arbitrary: out)
  case (Cons kv vs)
  obtain k v where kv: "kv = (k, v)" by (cases kv)
  with Cons.prems have k: "env_name k" "k \<notin> fst ` set out" by (auto simp: env_values_def)
  from Cons.prems kv have "env_values ((out @ [(k, v)]) @ vs)" by simp
  from Cons.IH [OF this] show ?case by (simp add: kv parse_line_entry [OF k(1), simplified] update_new [OF k(2)])
qed simp

lemma parse_comments:
  "fold (\<lambda>ln out. case parse_line ln of None \<Rightarrow> out | Some (k, v) \<Rightarrow> AList.update k v out) (map comment_line hdr) out = out"
  by (induction hdr) (simp_all add: parse_line_comment)

lemma join_snoc: "xs \<noteq> [] \<Longrightarrow> join sep (xs @ [x]) = join sep xs @ sep @ x"
  by (induction sep xs rule: join.induct) auto

text \<open>Whatever is written is read back exactly.\<close>

lemma env_file_roundtrip:
  assumes "formatEnvFile vs hdr = Inr t" "env_values vs" "list_all (\<lambda>h. CHR 0x0A \<notin> set h) hdr" "hdr \<noteq> []"
  shows "parseEnvFile t = vs"
proof -
  from assms(1) obtain ls where ls: "format_lines vs = Inr ls" "t = join [CHR 0x0A] (map comment_line hdr @ ls) @ [CHR 0x0A]"
    by (auto simp: formatEnvFile_def)
  note fl = format_lines_Inr [OF ls(1)]
  let ?all = "(map comment_line hdr @ ls) @ [[]]"
  have "t = join [CHR 0x0A] ?all"
    using assms(4) ls(2) by (simp add: join_snoc [of "map comment_line hdr @ ls", simplified])
  moreover have "CHR 0x0A \<notin> set ln" if "ln \<in> set ?all" for ln
  proof -
    have "\<forall>(k, v)\<in>set vs. CHR 0x0A \<notin> set k \<and> CHR 0x0A \<notin> set v"
      using fl assms(2) by (fastforce simp: list_all_iff env_values_def env_name_def)
    then show ?thesis using that fl assms(3) by (fastforce simp: list_all_iff comment_line_def)
  qed
  ultimately have "split_on (CHR 0x0A) t = ?all" using split_on_join [of ?all "CHR 0x0A"] by simp
  moreover have "parse_line [] = None" by (simp add: parse_line_def trim_def)
  ultimately show ?thesis
    using fl parse_entries [of "[]" vs] assms(2) by (simp add: parseEnvFile_def parse_comments)
qed

section \<open>Restarts\<close>

lemma b64_nonempty: "bs \<noteq> [] \<Longrightarrow> b64 bs \<noteq> []"
  by (cases bs rule: b64_chunks.cases) (simp_all add: b64_eq)

lemma names_ok: "env_name ''SAG_SECRET''" "env_name ''SUBJECT_SALT''" "env_name ''SIGNING_ALG''" "env_name ''SIGNING_PRIVATE_JWK''"
  by (simp_all add: env_name_def trim_def is_space_def)

text \<open>After a start, every secret is there, and nothing was generated only if nothing changed.\<close>

definition keeps_identity :: "string \<Rightarrow> (string \<times> string) list \<Rightarrow> bool" where
  "keeps_identity backend vs \<longleftrightarrow> str_truthy (map_of vs ''SAG_SECRET'') \<and> str_truthy (map_of vs ''SUBJECT_SALT'') \<and>
     (backend = ''local'' \<longrightarrow> str_truthy (map_of vs ''SIGNING_PRIVATE_JWK''))"

lemma identity_kept:
  "keeps_identity backend vs \<Longrightarrow> backend' = ''local'' \<longrightarrow> backend = ''local'' \<Longrightarrow>
     ensure_key pf ops runtime gen backend' alg (ensure_secret ''SUBJECT_SALT'' r (ensure_secret ''SAG_SECRET'' r' (vs, g))) = Inr (vs, g)"
  by (auto simp: keeps_identity_def ensure_secret_def ensure_key_def)

lemma ensure_made:
  assumes "ensure_key pf ops runtime gen backend alg (ensure_secret ''SUBJECT_SALT'' r (ensure_secret ''SAG_SECRET'' r' (vs, []))) = Inr (vs', g)"
    and "r \<noteq> []" "r' \<noteq> []" "\<And>j. pf_stringify pf j \<noteq> []" "env_values vs"
  shows "keeps_identity backend vs' \<and> env_values vs' \<and> (g = [] \<longrightarrow> vs' = vs)"
proof -
  obtain vs1 g1 where s1: "ensure_secret ''SAG_SECRET'' r' (vs, []) = (vs1, g1)" by force
  obtain vs2 g2 where s2: "ensure_secret ''SUBJECT_SALT'' r (vs1, g1) = (vs2, g2)" by force
  from s1 assms(3,5) have 1: "str_truthy (map_of vs1 ''SAG_SECRET'')" "env_values vs1" "g1 = [] \<longrightarrow> vs1 = vs"
    by (auto simp: ensure_secret_def randomSecret_def b64_nonempty str_truthy_def update_conv' env_values_update names_ok split: if_splits)
  from s2 assms(2) 1 have 2: "str_truthy (map_of vs2 ''SAG_SECRET'')" "str_truthy (map_of vs2 ''SUBJECT_SALT'')" "env_values vs2"
      "g2 = [] \<longrightarrow> vs2 = vs"
    by (auto simp: ensure_secret_def randomSecret_def b64_nonempty str_truthy_def update_conv' env_values_update names_ok split: if_splits)
  from assms(1) have k: "ensure_key pf ops runtime gen backend alg (vs2, g2) = Inr (vs', g)" by (simp add: s1 s2)
  show ?thesis
  proof (cases "backend = ''local'' \<and> \<not> str_truthy (map_of vs2 ''SIGNING_PRIVATE_JWK'')")
    case True
    with k have "\<exists>key::key_pair. vs' = AList.update ''SIGNING_PRIVATE_JWK'' (pf_stringify pf (kp_privateJwk key)) (AList.update ''SIGNING_ALG'' (kp_alg key) vs2) \<and> g \<noteq> []"
      by (auto simp: ensure_key_def)
    with 2 assms(4) show ?thesis
      by (auto simp: keeps_identity_def str_truthy_def update_conv' env_values_update names_ok)
  next
    case False
    with k 2 show ?thesis by (auto simp: ensure_key_def keeps_identity_def)
  qed
qed

text \<open>C22: a restart keeps the identity of a deployment. Once a start has succeeded, every later start from the same directory,
  with other random bytes, at another time and even when the directory can no longer be written, has the same secrets and
  the same signing key, generates nothing and writes nothing, unless it newly asks for a key of its own.\<close>

theorem key_material_kept:
  assumes "ensureKeyMaterial pf ops runtime gen dir unwritable so dd = (Inr m, dd')"
    and "CHR 0x0A \<notin> set (so_now so)" "so_secret so \<noteq> []" "so_salt so \<noteq> []" "\<forall>j. pf_stringify pf j \<noteq> []"
    and "want_backend so' dd = ''local'' \<longrightarrow> want_backend so dd = ''local''"
  shows "ensureKeyMaterial pf ops runtime' gen' dir unwritable' so' dd' = (Inr (m\<lparr>mt_generated := []\<rparr>), dd')"
proof -
  obtain vs g where made: "ensure_key pf ops runtime gen (want_backend so dd) (want_alg so dd)
      (ensure_secret ''SUBJECT_SALT'' (so_salt so) (ensure_secret ''SAG_SECRET'' (so_secret so) (read_env (dd_secrets dd), []))) = Inr (vs, g)"
      "m = \<lparr>mt_values = vs, mt_settings = read_env (dd_settings dd), mt_generated = g\<rparr>"
    using assms(1) by (auto simp: ensureKeyMaterial_def Let_def split: sum.splits prod.splits if_splits option.splits)
  have vs: "keeps_identity (want_backend so dd) vs" "env_values vs" "g = [] \<longrightarrow> vs = read_env (dd_secrets dd)"
    using ensure_made [OF made(1) assms(4,3) _ read_env_values] assms(5) by auto
  have lines: "list_all (\<lambda>h. CHR 0x0A \<notin> set h) (secrets_header (so_now so))"
    using assms(2) by (simp add: secrets_header_def SETTINGS_FILE_def)
  have dd': "read_env (dd_secrets dd') = vs" "dd_settings dd' = dd_settings dd"
    using assms(1) made vs(2,3) lines env_file_roundtrip [of vs "secrets_header (so_now so)"]
    by (auto simp: ensureKeyMaterial_def Let_def read_env_def secrets_header_def split: if_splits option.splits sum.splits)
  have "want_backend so' dd' = want_backend so' dd" by (simp add: want_backend_def dd'(2))
  with vs(1) assms(6) made(2) dd' show ?thesis
    by (simp add: ensureKeyMaterial_def identity_kept)
qed

text \<open>The real environment wins, then the operator's settings, then what was generated.\<close>

lemma fold_held: "map_of (fold (\<lambda>(key, v) held. AList.update key v held) xs vs) k =
    (case map_of (rev xs) k of Some v \<Rightarrow> Some v | None \<Rightarrow> map_of vs k)"
  by (induction xs arbitrary: vs) (auto simp: update_conv' map_add_def split: option.splits)

lemma distinct_held: "distinct (map fst vs) \<Longrightarrow> distinct (map fst (fold (\<lambda>(key, v) held. AList.update key v held) xs vs))"
  by (induction xs arbitrary: vs) (auto simp: distinct_update)

lemma fold_env:
  "distinct (map fst xs) \<Longrightarrow> map_of (fold (\<lambda>(key, v) e. if str_truthy (map_of e key) then e else AList.update key v e) xs env) k =
     (if str_truthy (map_of env k) then map_of env k else case map_of xs k of Some v \<Rightarrow> Some v | None \<Rightarrow> map_of env k)"
proof (induction xs arbitrary: env)
  case (Cons kv xs)
  then have "map_of xs (fst kv) = None" by (auto simp: map_of_eq_None_iff)
  with Cons show ?case by (cases kv) (auto simp: update_conv' split: option.splits)
qed simp

lemma map_of_backwards: "distinct (map fst xs) \<Longrightarrow> map_of (rev xs) = map_of xs"
proof (induction xs)
  case (Cons kv xs)
  then have "map_of xs (fst kv) = None" by (auto simp: map_of_eq_None_iff)
  with Cons show ?case by (auto simp: map_add_def fun_eq_iff split: option.splits)
qed simp

lemma bootstrap_env_lookup:
  assumes "env_values (mt_values m)" "env_values (mt_settings m)"
  shows "map_of (bootstrap_env m env) k =
    (if str_truthy (map_of env k) then map_of env k
     else case map_of (mt_settings m) k of Some v \<Rightarrow> Some v
       | None \<Rightarrow> (case map_of (mt_values m) k of Some v \<Rightarrow> Some v | None \<Rightarrow> map_of env k))"
proof -
  have "map_of (rev (mt_settings m)) = map_of (mt_settings m)"
    using assms(2) by (simp add: env_values_def map_of_backwards)
  then show ?thesis
    using assms fold_env [OF distinct_held, of "mt_values m" "mt_settings m" env k]
    by (simp add: bootstrap_env_def env_values_def fold_held split: option.splits)
qed

section \<open>A first start\<close>

definition key_maker :: key_ops where
  "key_maker = \<lparr>ko_pem = (\<lambda>_ _. Inl []), ko_generate = (\<lambda>_. Inr (JObj [(''kty'', JStr ''EC''), (''d'', JStr ''secret'')])), ko_import = (\<lambda>_ _. Inr ()),
     ko_sign = (\<lambda>_ _ bs. Inr bs), ko_remote = (\<lambda>_ _. Inl [])\<rparr>"

definition bare_start :: start_options where
  "bare_start = \<lparr>so_alg = None, so_backend = None, so_now = ''2030'', so_secret = [1], so_salt = [2]\<rparr>"

definition kept_dir :: data_dir where
  "kept_dir = \<lparr>dd_secrets = Some (''SAG_SECRET=a'' @ [CHR 0x0A] @ ''SUBJECT_SALT=b''), dd_settings = None\<rparr>"

theorem key_material_kept_witness:
  "\<exists>m dd'. ensureKeyMaterial (toy_platform JNull) key_maker ''v24'' (\<lambda>_. True) ''/data'' None bare_start kept_dir = (Inr m, dd') \<and>
     mt_generated m = [''SIGNING_PRIVATE_JWK''] \<and>
     ensureKeyMaterial (toy_platform JNull) key_maker ''v26'' (\<lambda>_. True) ''/data'' (Some (''EACCES'', [])) bare_start dd' =
       (Inr (m\<lparr>mt_generated := []\<rparr>), dd')"
proof -
  have "case fst (ensureKeyMaterial (toy_platform JNull) key_maker ''v24'' (\<lambda>_. True) ''/data'' None bare_start kept_dir) of
      Inl _ \<Rightarrow> False | Inr m \<Rightarrow> mt_generated m = [''SIGNING_PRIVATE_JWK'']"
    by code_simp
  then obtain m dd' where first: "ensureKeyMaterial (toy_platform JNull) key_maker ''v24'' (\<lambda>_. True) ''/data'' None bare_start kept_dir = (Inr m, dd')"
      "mt_generated m = [''SIGNING_PRIVATE_JWK'']"
    by (cases "ensureKeyMaterial (toy_platform JNull) key_maker ''v24'' (\<lambda>_. True) ''/data'' None bare_start kept_dir")
      (auto split: sum.splits)
  have "ensureKeyMaterial (toy_platform JNull) key_maker ''v26'' (\<lambda>_. True) ''/data'' (Some (''EACCES'', [])) bare_start dd' =
      (Inr (m\<lparr>mt_generated := []\<rparr>), dd')"
    by (rule key_material_kept [OF first(1)]) (simp_all add: bare_start_def toy_platform_def)
  with first show ?thesis by blast
qed

end
