(* ===== verification/Provision.thy ===== *)
theory Provision
  imports Local_Identity Numbers
begin

text \<open>
  The provisioning tool of local identities, \<^verbatim>\<open>tools/generate-local-identity.js\<close>: its arguments, the password on standard input,
  the claims and links it reads, the record it writes through the file adapter of \<open>Identity_Files\<close>, and rekeying. The files it
  reads, the text decoder, the JSON parser and every random value are parameters; the directory is the value of
  \<open>Identity_Files\<close>. What it prints is left out, apart from what it returns.
\<close>

section \<open>Arguments\<close>

datatype arg_value = Switch | Arg string

definition VALUE_FLAGS :: "string list" where
  "VALUE_FLAGS = [''--email'', ''--directory'', ''--backup-codes'', ''--claims'', ''--upstreams'']"

definition BOOLEAN_FLAGS :: "string list" where
  "BOOLEAN_FLAGS = [''--password-stdin'', ''--totp'', ''--rekey'', ''--help'', ''-h'']"

definition option_name :: "string \<Rightarrow> string" where
  "option_name arg = replace_char (CHR ''-'') (CHR ''_'') (dropWhile (\<lambda>c. c = CHR ''-'') arg)"

fun parseArguments :: "(string \<times> arg_value) list \<Rightarrow> string list \<Rightarrow> (string, (string \<times> arg_value) list) result" where
  "parseArguments options [] = Inr options"
| "parseArguments options (arg # rest) =
     (if arg \<in> set BOOLEAN_FLAGS then parseArguments (AList.update (option_name arg) Switch options) rest
      else if arg \<notin> set VALUE_FLAGS then Inl (''unknown option: '' @ arg)
      else (case rest of [] \<Rightarrow> Inl (arg @ '' requires a value'')
        | v # others \<Rightarrow>
            if v = [] \<or> starts_with v ''--'' then Inl (arg @ '' requires a value'')
            else parseArguments (AList.update (option_name arg) (Arg v) options) others))"

type_synonym tool_options = "(string \<times> arg_value) list"

definition arg_of :: "tool_options \<Rightarrow> string \<Rightarrow> string option" where
  "arg_of options name = (case map_of options name of Some (Arg v) \<Rightarrow> Some v | _ \<Rightarrow> None)"

definition given :: "tool_options \<Rightarrow> string \<Rightarrow> bool" where
  "given options name \<longleftrightarrow> map_of options name \<noteq> None"

section \<open>What the tool reads\<close>

text \<open>The outside of the tool: primitives, and the files an argument may name with what \<open>stat\<close> says and what reading gives.\<close>

record tool =
  tl_pf :: platform
  tl_parse_url :: url_parser
  tl_argon :: argon
  tl_bytes_of :: "json \<Rightarrow> nat"
  tl_decode :: "bytes \<Rightarrow> string option"
  tl_json :: "string \<Rightarrow> json option"
  tl_file :: "string \<Rightarrow> (string, bool \<times> nat \<times> bytes) result"
  tl_fault :: "io_fault option"

text \<open>Only the members the tool sets are read; \<open>base\<close> supplies the rest of the type.\<close>

definition toolConfig :: "config \<Rightarrow> (string \<times> string) list \<Rightarrow> (string, config) result" where
  "toolConfig base env =
     (let salt = trim (coalesce (map_of env ''SUBJECT_SALT'') []) in
      if length salt < 16 then Inl ''SUBJECT_SALT must contain at least 16 characters and must never rotate''
      else Inr (base\<lparr>c_secrets := [], c_subjectSalt := Some salt\<rparr>))"

definition requiredSecret :: "(string \<times> string) list \<Rightarrow> string \<Rightarrow> (string, string) result" where
  "requiredSecret env name =
     (let v = trim (coalesce (map_of env name) []) in
      if length v < 32 then Inl (name @ '' must contain at least 32 characters'') else Inr v)"

definition JSON_LIMIT :: nat where "JSON_LIMIT = 64 * 1024"

definition boundedJson :: "tool \<Rightarrow> string \<Rightarrow> string \<Rightarrow> (string, json) result" where
  "boundedJson T path description =
     rbind (tl_file T path) (\<lambda>(regular, declared, content).
     if \<not> regular then Inl (description @ '' file must be a regular file'')
     else if declared > JSON_LIMIT then Inl (description @ '' file is larger than 64 KiB'')
     else if length content > JSON_LIMIT then Inl (description @ '' file is larger than 64 KiB'')
     else (case Option.bind (tl_decode T content) (tl_json T) of
         None \<Rightarrow> Inl (description @ '' file is not valid UTF-8 JSON'') | Some j \<Rightarrow> Inr j))"

text \<open>The first line of the input, whatever its chunks; nothing beyond 1024 bytes is kept.\<close>

fun stdin_line :: "bytes \<Rightarrow> bytes list \<Rightarrow> (string, bytes) result" where
  "stdin_line kept [] = Inr kept"
| "stdin_line kept (chunk # rest) =
     (let part = takeWhile (\<lambda>b. b \<noteq> 0x0A) chunk in
      if length kept + length part > 1024 then Inl ''password must contain at most 1024 UTF-8 bytes''
      else if 0x0A \<in> set chunk then Inr (kept @ part) else stdin_line (kept @ part) rest)"

definition passwordFromStdin :: "tool \<Rightarrow> bytes list \<Rightarrow> (string, string) result" where
  "passwordFromStdin T chunks =
     rbind (stdin_line [] chunks) (\<lambda>ln.
     let bare = (if ln \<noteq> [] \<and> last ln = 0x0D then butlast ln else ln) in
     (case tl_decode T bare of None \<Rightarrow> Inl ''password must be valid UTF-8''
      | Some v \<Rightarrow>
          if length (utf8 v) < 12 then Inl ''password must contain at least 12 UTF-8 bytes''
          else if length (utf8 v) > 1024 then Inl ''password must contain at most 1024 UTF-8 bytes'' else Inr v))"

section \<open>Claims and links\<close>

fun checked_entries :: "(string \<times> json) list \<Rightarrow> (string, unit) result" where
  "checked_entries [] = Inr ()"
| "checked_entries ((claim, held) # rest) =
     (if claim \<notin> set PROFILE_CLAIMS then Inl (''claims contains unsupported field: '' @ claim)
      else (case held of
          JStr s \<Rightarrow>
            if s = [] then Inl (''claim '' @ claim @ '' must be a non-empty string'')
            else if length s > 512 then Inl (''claim '' @ claim @ '' must contain at most 512 characters'')
            else if claim = ''picture'' \<and> \<not> https_text s then Inl ''claim picture must be an HTTPS URL''
            else checked_entries rest
        | _ \<Rightarrow> Inl (''claim '' @ claim @ '' must be a non-empty string'')))"

definition checkedClaims :: "json \<Rightarrow> (string, json) result" where
  "checkedClaims v =
     (case v of JObj entries \<Rightarrow> rbind (checked_entries entries) (\<lambda>_. Inr v) | _ \<Rightarrow> Inl ''claims must be a JSON object'')"

definition LINK_FIELDS :: "string list" where
  "LINK_FIELDS = [''id'', ''upstream'', ''issuer'', ''subject'', ''sub'', ''refresh_token_env'', ''refresh_token'']"

text \<open>A field with the empty name is not reported.\<close>

definition unknown_field :: "json \<Rightarrow> string option" where
  "unknown_field raw =
     (case raw of JObj fs \<Rightarrow>
        (case find (\<lambda>k. k \<notin> set LINK_FIELDS) (map fst fs) of None \<Rightarrow> None | Some k \<Rightarrow> if k = [] then None else Some k)
      | _ \<Rightarrow> None)"

definition variable_name :: "string \<Rightarrow> bool" where
  "variable_name s \<longleftrightarrow> s \<noteq> [] \<and> (is_upper (hd s) \<or> hd s = CHR ''_'') \<and> list_all (\<lambda>c. is_upper c \<or> is_digit c \<or> c = CHR ''_'') s"

text \<open>The refresh credential of one link, from the variable it names.\<close>

definition linked_token :: "tool \<Rightarrow> config \<Rightarrow> (string \<times> string) list \<Rightarrow> string \<Rightarrow> bytes \<Rightarrow> string option \<Rightarrow> link \<Rightarrow> (string, link) result" where
  "linked_token T c env identityId iv refreshEnv l =
     (if \<not> str_truthy refreshEnv then Inr l
      else rbind (requiredSecret env ''SAG_SECRET'') (\<lambda>currentSecret.
        let name = the refreshEnv in
        if \<not> variable_name name then Inl ''refresh_token_env is not a valid environment variable name''
        else if \<not> str_truthy (map_of env name) then Inl (name @ '' is empty or unset'')
        else if length (the (map_of env name)) > 16384 then Inl (name @ '' is too large to store'')
        else Inr (l\<lparr>ln_refresh_token := Some (sealUpstreamRefreshToken (tl_pf T) iv (c\<lparr>c_secrets := [currentSecret]\<rparr>) identityId l
          (the (map_of env name)))\<rparr>)))"

text \<open>One link; \<open>fresh\<close> are the bytes of its identifier and of the seal.\<close>

definition upstream_link :: "tool \<Rightarrow> config \<Rightarrow> (string \<times> string) list \<Rightarrow> string \<Rightarrow> bytes \<times> bytes \<Rightarrow> nat \<Rightarrow> json \<Rightarrow> (string, link) result" where
  "upstream_link T c env identityId fresh index raw =
     (if \<not> is_obj raw then Inl ''each upstream link must be an object''
      else (case unknown_field raw of Some k \<Rightarrow> Inl (''an upstream link contains unsupported field: '' @ k)
        | None \<Rightarrow>
            if jget raw ''refresh_token'' \<noteq> None
            then Inl ''put a refresh token in an environment variable named by refresh_token_env, not in JSON''
            else if \<not> opt_member as_str raw ''id'' then Inl ''upstream link id must be a string''
            else if as_str (jget raw ''upstream'') = None then Inl ''upstream link upstream must be a string''
            else if as_str (jget raw ''issuer'') = None then Inl ''upstream link issuer must be a string''
            else if jget raw ''subject'' \<noteq> None \<and> jget raw ''sub'' \<noteq> None then Inl ''an upstream link must use subject or sub, not both''
            else if as_str (jnull (jget raw ''subject'') (jget raw ''sub'')) = None then Inl ''upstream link subject must be a string''
            else if \<not> opt_member as_str raw ''refresh_token_env'' then Inl ''upstream link refresh_token_env must be a string''
            else (case normaliseLocalUpstreamLink (tl_parse_url T)
                 (jobj [(''id'', jnull (jget raw ''id'') (Some (JStr (b64u (fst fresh))))), (''upstream'', jget raw ''upstream''),
                    (''issuer'', jget raw ''issuer''), (''subject'', jnull (jget raw ''subject'') (jget raw ''sub''))]) index of
               None \<Rightarrow> Inl ''an upstream link is malformed or contains an unsupported value''
             | Some l \<Rightarrow> linked_token T c env identityId (snd fresh) (as_str (jget raw ''refresh_token_env'')) l)))"

fun upstream_links :: "tool \<Rightarrow> config \<Rightarrow> (string \<times> string) list \<Rightarrow> string \<Rightarrow> (bytes \<times> bytes) list \<Rightarrow> nat \<Rightarrow> json list \<Rightarrow> (string, link list) result" where
  "upstream_links T c env identityId fresh index [] = Inr []"
| "upstream_links T c env identityId fresh index (raw # rest) =
     rbind (upstream_link T c env identityId (case fresh of [] \<Rightarrow> ([], []) | f # _ \<Rightarrow> f) index raw) (\<lambda>l.
     rbind (upstream_links T c env identityId (drop 1 fresh) (index + 1) rest) (\<lambda>ls. Inr (l # ls)))"

definition upstreamLinks :: "tool \<Rightarrow> config \<Rightarrow> json option \<Rightarrow> (string \<times> string) list \<Rightarrow> string \<Rightarrow> (bytes \<times> bytes) list \<Rightarrow> (string, link list) result" where
  "upstreamLinks T c source env identityId fresh =
     (case source of None \<Rightarrow> Inr []
      | Some (JArr raws) \<Rightarrow>
          if length raws > 20 then Inl ''upstreams must be an array of at most 20 links'' else upstream_links T c env identityId fresh 0 raws
      | Some _ \<Rightarrow> Inl ''upstreams must be an array of at most 20 links'')"

section \<open>Provisioning\<close>

function fours :: "string \<Rightarrow> string list" where
  "fours s = (if s = [] then [] else take 4 s # fours (drop 4 s))"
  by pat_completeness auto
termination by (relation "measure length") auto

declare fours.simps [simp del]

definition recoveryCode :: "bytes \<Rightarrow> bytes \<Rightarrow> string \<times> string" where
  "recoveryCode r5 r10 = (let ident = encodeBase32 r5 in (ident, ident @ ''-'' @ join ''-'' (fours (encodeBase32 r10))))"

text \<open>The random bytes of one run; the supply for the codes is at least as long as their number.\<close>

record tool_random =
  tr_identity :: bytes
  tr_links :: "(bytes \<times> bytes) list"
  tr_totp_id :: bytes
  tr_totp_secret :: bytes
  tr_codes :: "(bytes \<times> bytes \<times> bytes) list"
  tr_salt :: bytes

record provisioned =
  pv_key :: string
  pv_identityId :: string
  pv_totpSecret :: "string option"
  pv_backupCodes :: "string list"

fun hashed_codes :: "argon \<Rightarrow> (bytes \<times> bytes \<times> bytes) list \<Rightarrow> (string, (string \<times> backup_code) list) result" where
  "hashed_codes argon [] = Inr []"
| "hashed_codes argon ((r5, r10, salt) # rest) =
     (let (ident, code) = recoveryCode r5 r10 in
      rbind (argon2id_hash argon salt code) (\<lambda>h.
      rbind (hashed_codes argon rest) (\<lambda>hashed. Inr ((code, \<lparr>bk_id = ident, bk_hash = h\<rparr>) # hashed))))"

definition totp_document :: "tool_random \<Rightarrow> json" where
  "totp_document rnd = jobj [(''id'', Some (JStr (b64u (tr_totp_id rnd)))), (''label'', Some (JStr ''Authenticator'')), (''algorithm'', Some (JStr ''SHA1'')),
     (''digits'', Some (JNum 6)), (''period'', Some (JNum 30)), (''secret'', Some (JStr (encodeBase32 (tr_totp_secret rnd))))]"

definition identity_document ::
  "string \<Rightarrow> string \<Rightarrow> json option \<Rightarrow> json list \<Rightarrow> backup_code list \<Rightarrow> link list \<Rightarrow> json" where
  "identity_document identityId hash clm totp codes links = jobj
     [(''v'', Some (JNum 1)), (''id'', Some (JStr identityId)), (''revision'', Some (JNum 1)), (''security_version'', Some (JNum 1)),
      (''password'', Some (JStr hash)), (''claims'', clm),
      (''mfa_required'', if totp \<noteq> [] \<or> codes \<noteq> [] then Some (JBool True) else None),
      (''totp'', Some (JArr totp)), (''backup_codes'', Some (JArr (map backup_json codes))), (''upstreams'', Some (JArr (map link_json links)))]"

text \<open>What is settled before anything is random: the configuration, the address and the number of codes.\<close>

definition provision_inputs :: "config \<Rightarrow> tool_options \<Rightarrow> (string \<times> string) list \<Rightarrow> (string, config \<times> string \<times> nat) result" where
  "provision_inputs base options env =
     rbind (toolConfig base env) (\<lambda>c.
     if \<not> str_truthy (arg_of options ''directory'') \<and> \<not> str_truthy (map_of env ''LOCAL_IDENTITIES_DIR'')
     then Inl ''--directory or LOCAL_IDENTITIES_DIR is required''
     else if \<not> given options ''password_stdin'' then Inl ''--password-stdin is required; passwords are never accepted in arguments''
     else (case normaliseEmail (arg_of options ''email'') of None \<Rightarrow> Inl ''--email must be an address such as name@example.com''
       | Some email \<Rightarrow>
           if email = [] \<or> \<not> looksLikeEmail (Some email) then Inl ''--email must be an address such as name@example.com''
           else (case js_integer (or_str (arg_of options ''backup_codes'') ''0'') of
               Some n \<Rightarrow> if n < 0 \<or> 20 < n then Inl ''--backup-codes must be a whole number from 0 to 20'' else Inr (c, email, nat n)
             | None \<Rightarrow> Inl ''--backup-codes must be a whole number from 0 to 20'')))"

definition optional_json :: "tool \<Rightarrow> string option \<Rightarrow> string \<Rightarrow> (string, json option) result" where
  "optional_json T path description = (if str_truthy path then rbind (boundedJson T (the path) description) (Inr \<circ> Some) else Inr None)"

text \<open>The document and what is returned for it.\<close>

definition provision_record ::
  "tool \<Rightarrow> tool_options \<Rightarrow> (string \<times> string) list \<Rightarrow> tool_random \<Rightarrow> config \<Rightarrow> string \<Rightarrow> nat \<Rightarrow> string \<Rightarrow> (string, json \<times> provisioned) result" where
  "provision_record T options env rnd c email howmany password =
     (let identityId = b64u (tr_identity rnd) in
      rbind (localIdentityKey (tl_pf T) c (Some email)) (\<lambda>key.
      rbind (optional_json T (arg_of options ''claims'') ''claims'') (\<lambda>rawClaims.
      rbind (case rawClaims of None \<Rightarrow> Inr None | Some j \<Rightarrow> rbind (checkedClaims j) (Inr \<circ> Some)) (\<lambda>clm.
      rbind (optional_json T (arg_of options ''upstreams'') ''upstreams'') (\<lambda>source.
      rbind (upstreamLinks T c source env identityId (tr_links rnd)) (\<lambda>links.
      let totp = (if given options ''totp'' then [totp_document rnd] else []) in
      rbind (hashed_codes (tl_argon T) (take howmany (tr_codes rnd))) (\<lambda>codes.
      rbind (argon2id_hash (tl_argon T) (tr_salt rnd) password) (\<lambda>hash.
      Inr (identity_document identityId hash clm totp (map snd codes) links,
           \<lparr>pv_key = key, pv_identityId = identityId,
             pv_totpSecret = (if given options ''totp'' then Some (encodeBase32 (tr_totp_secret rnd)) else None),
             pv_backupCodes = map fst codes\<rparr>)))))))))"

definition provision ::
  "tool \<Rightarrow> config \<Rightarrow> tool_options \<Rightarrow> (string \<times> string) list \<Rightarrow> bytes list \<Rightarrow> tool_random \<Rightarrow> directory \<Rightarrow> (string, provisioned) result \<times> directory" where
  "provision T base options env chunks rnd d =
     (case rbind (provision_inputs base options env) (\<lambda>(c, email, howmany).
             rbind (passwordFromStdin T chunks) (\<lambda>password. provision_record T options env rnd c email howmany password)) of
        Inl e \<Rightarrow> (Inl e, d)
      | Inr (doc, out) \<Rightarrow>
          if parseLocalIdentityRecord (tl_parse_url T) doc (pv_key out) = None
          then (Inl ''the generated identity did not pass schema validation'', d)
          else (case replace_record (tl_bytes_of T) (tl_fault T) (pv_key out) 0 doc d of
              (Inl e, d') \<Rightarrow> (Inl e, d')
            | (Inr False, d') \<Rightarrow> (Inl ''an identity already exists for that address; nothing was changed'', d')
            | (Inr True, d') \<Rightarrow> (Inr out, d')))"

section \<open>Rekeying, and the tool\<close>

definition rekey_tool ::
  "tool \<Rightarrow> config \<Rightarrow> tool_options \<Rightarrow> (string \<times> string) list \<Rightarrow> bytes list \<Rightarrow> int \<Rightarrow> directory \<Rightarrow> (string, nat \<times> nat) result \<times> directory" where
  "rekey_tool T base options env ivs now d =
     (case rbind (toolConfig base env) (\<lambda>c.
             rbind (requiredSecret env ''SAG_SECRET'') (\<lambda>currentSecret.
             if trim (coalesce (map_of env ''SAG_SECRET_PREVIOUS'') []) = [] then Inl ''--rekey requires SAG_SECRET_PREVIOUS''
             else rbind (requiredSecret env ''SAG_SECRET_PREVIOUS'') (\<lambda>previousSecret.
               if \<not> str_truthy (arg_of options ''directory'') \<and> \<not> str_truthy (map_of env ''LOCAL_IDENTITIES_DIR'')
               then Inl ''--directory or LOCAL_IDENTITIES_DIR is required''
               else (case d of
                   Missing \<Rightarrow> Inl '' does not exist; refusing to treat a missing identity directory as an empty rekey''
                 | Unsafe e \<Rightarrow> Inl e
                 | Dir _ \<Rightarrow> Inr (c\<lparr>c_secrets := [currentSecret, previousSecret]\<rparr>))))) of
        Inl e \<Rightarrow> (Inl e, d)
      | Inr c \<Rightarrow> rekeyAll (tl_pf T) ivs (tl_parse_url T) c (file_binding (tl_argon T) (tl_bytes_of T) (tl_fault T)) now d)"

datatype tool_outcome = Help_Shown | Rekeyed nat nat | Provisioned provisioned

definition tool_main ::
  "tool \<Rightarrow> config \<Rightarrow> string list \<Rightarrow> (string \<times> string) list \<Rightarrow> bytes list \<Rightarrow> tool_random \<Rightarrow> bytes list \<Rightarrow> int \<Rightarrow> directory \<Rightarrow> (string, tool_outcome) result \<times> directory" where
  "tool_main T base argv env chunks rnd ivs now d =
     (case parseArguments [] argv of Inl e \<Rightarrow> (Inl e, d)
      | Inr options \<Rightarrow>
          if given options ''help'' \<or> given options ''h'' then (Inr Help_Shown, d)
          else if given options ''rekey''
          then (if list_ex (given options) [''email'', ''password_stdin'', ''totp'', ''backup_codes'', ''claims'', ''upstreams'']
                then (Inl ''--rekey cannot be combined with identity-creation options'', d)
                else (case rekey_tool T base options env ivs now d of (r, d') \<Rightarrow> (rbind r (\<lambda>(changed, unchanged). Inr (Rekeyed changed unchanged)), d')))
          else (case provision T base options env chunks rnd d of (r, d') \<Rightarrow> (rbind r (Inr \<circ> Provisioned), d')))"

section \<open>What is provisioned can be used\<close>

lemma argon2id_hash_verifies:
  assumes "argon2id_hash argon salt password = Inr h"
  shows "argon2id_verify argon h password = Inr True"
proof -
  from assms obtain message tag where m: "passwordBytes password = Inr message" "length salt = 16"
      "argon (64 * 1024) 3 1 salt 32 message = Inr tag" "length tag = 32"
      "h = phc_text \<lparr>ph_memory = 64 * 1024, ph_passes = 3, ph_parallelism = 1, ph_salt = salt, ph_tag = tag\<rparr>"
    by (auto simp: argon2id_hash_def split: if_splits)
  have "phc_ok \<lparr>ph_memory = 64 * 1024, ph_passes = 3, ph_parallelism = 1, ph_salt = salt, ph_tag = tag\<rparr>"
    using m(2,4) by (simp add: phc_ok_def)
  from parse_phc_text [OF this] m show ?thesis by (simp add: argon2id_verify_def)
qed

lemma identity_document_members:
  "jget (identity_document i h clm totp codes links) ''password'' = Some (JStr h)"
  "jget (identity_document i h clm totp codes links) ''id'' = Some (JStr i)"
  "jget (identity_document i h clm totp codes links) ''disabled'' = None"
  "jget (identity_document i h clm totp codes links) ''totp'' = Some (JArr totp)"
  "jget (identity_document i h clm totp codes links) ''backup_codes'' = Some (JArr (map backup_json codes))"
  "as_bool (jget (identity_document i h clm totp codes links) ''mfa_required'') = (if totp \<noteq> [] \<or> codes \<noteq> [] then Some True else None)"
  by (cases clm; simp add: identity_document_def jobj.simps)+

lemma as_str_text: "as_str v = Some t \<longleftrightarrow> v = Some (JStr t)"
  by (cases v rule: as_str.cases) auto

lemma parse_members:
  assumes "parseLocalIdentityRecord parse_url doc key = Some r"
  shows "jget doc ''password'' = Some (JStr (lr_password r))" "jget doc ''id'' = Some (JStr (lr_id r))"
    "lr_disabled r \<longleftrightarrow> as_bool (jget doc ''disabled'') = Some True"
    "lr_mfa_required r \<longleftrightarrow> as_bool (jget doc ''mfa_required'') = Some True \<or> lr_totp r \<noteq> [] \<or> lr_backup_codes r \<noteq> []"
    "\<exists>links. parse_factors parse_url doc = Some (lr_totp r, lr_backup_codes r, links)"
  using assms
  by (auto simp: parseLocalIdentityRecord_def safe_id_of_def approvedArgon2id_def bind_eq_Some_conv as_str_text
      split: option.splits json.splits if_splits)

lemma parse_factors_empty:
  assumes "parse_factors parse_url doc = Some (ts, bs, ls)" "jget doc ''totp'' = Some (JArr xs)" "jget doc ''backup_codes'' = Some (JArr ys)"
  shows "ts = [] \<longleftrightarrow> xs = []" "bs = [] \<longleftrightarrow> ys = []"
  using assms by (auto simp: parse_factors_def bounded_array_def bind_eq_Some_conv those_Some split: if_splits)

lemma readRecord_revision: "readRecord d k = Inr (Some doc) \<Longrightarrow> 1 \<le> current_revision (Some doc)"
  by (auto simp: readRecord_def file_document_def checkedRevision_def current_revision_def coalesce_def ok_or_def
      split: directory.splits option.splits if_splits)

lemma localIdentityKey_salt: "c_subjectSalt c = c_subjectSalt c' \<Longrightarrow> localIdentityKey pf c e = localIdentityKey pf c' e"
  unfolding localIdentityKey_def by (cases "normaliseEmail e") simp_all

text \<open>How the input is cut into chunks does not matter.\<close>

lemma stdin_line_whole:
  "length kept \<le> 1024 \<Longrightarrow> stdin_line kept chunks =
     (let ln = takeWhile (\<lambda>b. b \<noteq> 0x0A) (concat chunks) in
      if length kept + length ln \<le> 1024 then Inr (kept @ ln) else Inl ''password must contain at most 1024 UTF-8 bytes'')"
proof (induction chunks arbitrary: kept)
  case (Cons chunk rest)
  show ?case
  proof (cases "0x0A \<in> set chunk")
    case True
    then have "takeWhile (\<lambda>b. b \<noteq> 0x0A) (chunk @ concat rest) = takeWhile (\<lambda>b. b \<noteq> 0x0A) chunk" by (auto intro: takeWhile_append1)
    with True show ?thesis by (simp add: Let_def)
  next
    case False
    then have tw: "takeWhile (\<lambda>b. b \<noteq> 0x0A) chunk = chunk"
        "takeWhile (\<lambda>b. b \<noteq> 0x0A) (chunk @ concat rest) = chunk @ takeWhile (\<lambda>b. b \<noteq> 0x0A) (concat rest)"
      by (auto intro: takeWhile_append2)
    show ?thesis using Cons.IH [of "kept @ chunk"] False by (simp add: Let_def tw)
  qed
qed (simp add: Let_def)

lemma passwordFromStdin_length: "passwordFromStdin T chunks = Inr password \<Longrightarrow> length (utf8 password) \<le> 1024 \<and> 12 \<le> length (utf8 password)"
proof -
  assume "passwordFromStdin T chunks = Inr password"
  then obtain bare where "(case tl_decode T bare of None \<Rightarrow> Inl ''password must be valid UTF-8''
      | Some v \<Rightarrow>
          if length (utf8 v) < 12 then Inl ''password must contain at least 12 UTF-8 bytes''
          else if length (utf8 v) > 1024 then Inl ''password must contain at most 1024 UTF-8 bytes'' else Inr v) = Inr password"
    unfolding passwordFromStdin_def Let_def rbind_Inr_iff by blast
  then show ?thesis by (simp split: option.splits if_splits)
qed

text \<open>C23: a provisioned identity can be used, and provisioning touches nothing else. When the tool reports success, no identity
  existed for the address and every other record is as it was; and the running instance, given the same salt, finds
  exactly this identity for the address, accepts the password that was on standard input exactly if its UTF-8 form is not longer than the
  instance's own limit for passwords (which the tool, whose limit is 1024 bytes, does not read), and asks for a second
  factor exactly when a seed or recovery codes were made.\<close>

theorem provisioned_identity_signs_in:
  assumes "provision T base options env chunks rnd d = (Inr out, d')"
    and "c_subjectSalt c = Some (trim (coalesce (map_of env ''SUBJECT_SALT'') []))"
    and "B = file_binding (tl_argon T) (tl_bytes_of T) io"
  shows "\<exists>email password r fd. normaliseEmail (arg_of options ''email'') = Some email \<and> passwordFromStdin T chunks = Inr password \<and>
    readRecord d (pv_key out) = Inr None \<and> (\<forall>k. k \<noteq> pv_key out \<longrightarrow> readRecord d' k = readRecord d k) \<and>
    find_identity (tl_pf T) (tl_parse_url T) c B d' (Some email) = Inr fd \<and> fd_record fd = Some r \<and> lr_id r = pv_identityId out \<and>
    (verifyPassword c B fd (Some password) = Inr True \<longleftrightarrow> int (length (utf8 password)) \<le> li_maxPasswordBytes (c_localIdentities c)) \<and>
    (requiresSecondFactor (Some r) \<longleftrightarrow> pv_totpSecret out \<noteq> None \<or> pv_backupCodes out \<noteq> [])"
proof -
  from assms(1) obtain c0 email howmany password doc where
    inp: "provision_inputs base options env = Inr (c0, email, howmany)" "passwordFromStdin T chunks = Inr password"
      "provision_record T options env rnd c0 email howmany password = Inr (doc, out)"
      "parseLocalIdentityRecord (tl_parse_url T) doc (pv_key out) \<noteq> None"
      "replace_record (tl_bytes_of T) (tl_fault T) (pv_key out) 0 doc d = (Inr True, d')"
    by (auto simp: provision_def split: sum.splits prod.splits if_splits bool.splits)
  from inp(1) have email: "normaliseEmail (arg_of options ''email'') = Some email" "c_subjectSalt c0 = c_subjectSalt c"
    using assms(2) by (auto simp: provision_inputs_def toolConfig_def Let_def split: if_splits option.splits)
  from inp(3) obtain hash clm codes links where rec:
    "localIdentityKey (tl_pf T) c0 (Some email) = Inr (pv_key out)" "argon2id_hash (tl_argon T) (tr_salt rnd) password = Inr hash"
    "doc = identity_document (pv_identityId out) hash clm (if given options ''totp'' then [totp_document rnd] else []) (map snd codes) links"
    "pv_totpSecret out \<noteq> None \<longleftrightarrow> given options ''totp''" "pv_backupCodes out = map fst codes"
    by (auto simp: provision_record_def Let_def)
  from inp(4) obtain r where r: "parseLocalIdentityRecord (tl_parse_url T) doc (pv_key out) = Some r" by auto
  from files.replaced [OF inp(5)] obtain cur where cur: "readRecord d (pv_key out) = Inr cur" "current_revision cur = 0"
      and read: "readRecord d' (pv_key out) = Inr (Some doc)" by blast
  have none: "cur = None" using cur readRecord_revision [of d "pv_key out"] by (cases cur) auto
  have others: "\<forall>k. k \<noteq> pv_key out \<longrightarrow> readRecord d' k = readRecord d k" using files.kept [OF inp(5)] by blast
  define fd where "fd = \<lparr>fd_key = pv_key out, fd_record = Some r, fd_malformed = False, fd_error = None\<rparr>"
  have key: "localIdentityKey (tl_pf T) c (Some email) = Inr (pv_key out)"
    using rec(1) localIdentityKey_salt [OF email(2)] by simp
  have found: "find_identity (tl_pf T) (tl_parse_url T) c B d' (Some email) = Inr fd"
    by (simp add: find_identity_def key assms(3) file_binding_def read read_doc_def r fd_def)
  note doc = identity_document_members [of "pv_identityId out" hash clm "if given options ''totp'' then [totp_document rnd] else []" "map snd codes" links,
      folded rec(3)]
  have members: "lr_password r = hash" "lr_id r = pv_identityId out" "\<not> lr_disabled r"
    using parse_members [OF r] doc by auto
  have "bd_verify B hash password = Inr True"
    using argon2id_hash_verifies [OF rec(2)] by (simp add: assms(3) file_binding_def)
  then have ok: "verifyPassword c B fd (Some password) = Inr True \<longleftrightarrow> int (length (utf8 password)) \<le> li_maxPasswordBytes (c_localIdentities c)"
    using members by (auto simp: verifyPassword_def Let_def coalesce_def fd_def rescue_def split: sum.splits)
  obtain links' where "parse_factors (tl_parse_url T) doc = Some (lr_totp r, lr_backup_codes r, links')" using parse_members(5) [OF r] by blast
  from parse_factors_empty [OF this doc(4,5)] have "lr_mfa_required r \<longleftrightarrow> given options ''totp'' \<or> codes \<noteq> []"
    using parse_members(4) [OF r] doc(6) by (auto split: if_splits)
  then have "requiresSecondFactor (Some r) \<longleftrightarrow> pv_totpSecret out \<noteq> None \<or> pv_backupCodes out \<noteq> []"
    using rec(4,5) by (simp add: requiresSecondFactor_def)
  with email(1) inp(2) cur(1) none others found members(2) ok show ?thesis by (auto simp: fd_def)
qed

section \<open>A first identity\<close>

definition first_tool :: tool where
  "first_tool = \<lparr>tl_pf = (toy_platform JNull)\<lparr>pf_hmac := \<lambda>_ _ _. replicate 32 0\<rparr>, tl_parse_url = (\<lambda>_. None), tl_argon = sample_argon,
     tl_bytes_of = (\<lambda>_. 100), tl_decode = (\<lambda>_. Some ''a long password''), tl_json = (\<lambda>_. None), tl_file = (\<lambda>_. Inl []), tl_fault = None\<rparr>"

definition first_options :: tool_options where
  "first_options = [(''email'', Arg ''jo@example.com''), (''directory'', Arg ''d''), (''password_stdin'', Switch)]"

definition first_env :: "(string \<times> string) list" where
  "first_env = [(''SUBJECT_SALT'', ''0123456789abcdef'')]"

definition first_random :: tool_random where
  "first_random = \<lparr>tr_identity = [0], tr_links = [], tr_totp_id = [], tr_totp_secret = [], tr_codes = [], tr_salt = replicate 16 1\<rparr>"

lemma first_facts:
  "normaliseEmail (Some ''jo@example.com'') = Some ''jo@example.com''" "looksLikeEmail (Some ''jo@example.com'')" "js_integer ''0'' = Some 0"
  "trim ''0123456789abcdef'' = ''0123456789abcdef''" "identity_id_ok (b64u [0])" "record_key (toHex (replicate 32 0))"
  "passwordFromStdin first_tool [[97, 10]] = Inr ''a long password''"
  by (code_simp, code_simp, code_simp, code_simp, code_simp, code_simp, code_simp)

lemma first_hash: "argon2id_hash sample_argon (replicate 16 1) ''a long password'' = Inr (phc_text sample_phc)"
  by (simp add: argon2id_hash_def passwordBytes_def utf8_def MAX_PASSWORD_BYTES_def sample_argon_def sample_phc_def)

definition first_document :: json where
  "first_document = identity_document (b64u [0]) (phc_text sample_phc) None [] [] []"

lemma first_parsed: "parseLocalIdentityRecord (\<lambda>_. None) first_document key \<noteq> None"
  using first_facts(5) sample_approved
  by (simp add: first_document_def identity_document_def jobj.simps parseLocalIdentityRecord_def RECORD_VERSION_def RECORD_FIELDS_def
      safe_id_of_def safe_integer_def MAX_SAFE_INTEGER_def opt_member_def parse_factors_def bounded_array_def lists_ok_def)

lemma first_replaced: "\<exists>d'. replace_record (\<lambda>_. 100) None (toHex (replicate 32 0)) 0 first_document Missing = (Inr True, d')"
  using first_facts(6)
  by (simp add: replace_record_def checkedKey_def checkedRevision_def checkedDocument_def readRecord_def current_revision_def writeAtomic_def
      coalesce_def ok_or_def MAX_SAFE_INTEGER_def MAX_RECORD_BYTES_def first_document_def identity_document_def jobj.simps)

lemma first_provisioned: "\<exists>out d'. provision first_tool sample_config first_options first_env [[97, 10]] first_random Missing = (Inr out, d') \<and>
    pv_identityId out = b64u [0]"
proof -
  obtain d' where d': "replace_record (\<lambda>_. 100) None (toHex (replicate 32 0)) 0 first_document Missing = (Inr True, d')"
    using first_replaced by blast
  define c where "c = sample_config\<lparr>c_secrets := [], c_subjectSalt := Some ''0123456789abcdef''\<rparr>"
  have inputs: "provision_inputs sample_config first_options first_env = Inr (c, ''jo@example.com'', 0)"
    by (simp add: provision_inputs_def toolConfig_def first_options_def first_env_def arg_of_def given_def str_truthy_def coalesce_def or_str_def
        first_facts c_def)
  have key: "localIdentityKey (tl_pf first_tool) c (Some ''jo@example.com'') = Inr (toHex (replicate 32 0))"
    by (simp add: localIdentityKey_def first_facts c_def str_truthy_def hmac_def first_tool_def)
  define out where "out = \<lparr>pv_key = toHex (replicate 32 0), pv_identityId = b64u [0], pv_totpSecret = None, pv_backupCodes = []\<rparr>"
  have rec: "provision_record first_tool first_options first_env first_random c ''jo@example.com'' 0 ''a long password'' = Inr (first_document, out)"
    unfolding provision_record_def key Let_def
    by (simp add: optional_json_def arg_of_def first_options_def given_def str_truthy_def upstreamLinks_def first_random_def first_tool_def
        first_hash first_document_def out_def)
  have "provision first_tool sample_config first_options first_env [[97, 10]] first_random Missing = (Inr out, d')"
    using first_parsed [of "toHex (replicate 32 0)"] d'
    by (auto simp: provision_def inputs first_facts(7) rec out_def) (simp_all add: first_tool_def)
  then show ?thesis by (auto simp: out_def)
qed

theorem provisioned_identity_signs_in_witness:
  "\<exists>out d' r fd. provision first_tool sample_config first_options first_env [[97, 10]] first_random Missing = (Inr out, d') \<and>
     find_identity (tl_pf first_tool) (tl_parse_url first_tool) (sample_config\<lparr>c_subjectSalt := Some ''0123456789abcdef''\<rparr>)
       (file_binding sample_argon (\<lambda>_. 100) None) d' (Some ''jo@example.com'') = Inr fd \<and> fd_record fd = Some r \<and> lr_id r = b64u [0] \<and>
     verifyPassword (sample_config\<lparr>c_subjectSalt := Some ''0123456789abcdef''\<rparr>) (file_binding sample_argon (\<lambda>_. 100) None) fd
       (Some ''a long password'') = Inr True"
proof -
  obtain out d' where p: "provision first_tool sample_config first_options first_env [[97, 10]] first_random Missing = (Inr out, d')"
      "pv_identityId out = b64u [0]"
    using first_provisioned by blast
  have "c_subjectSalt (sample_config\<lparr>c_subjectSalt := Some ''0123456789abcdef''\<rparr>) = Some (trim (coalesce (map_of first_env ''SUBJECT_SALT'') []))"
    by (simp add: first_env_def coalesce_def first_facts)
  moreover have "int (length (utf8 ''a long password'')) \<le> li_maxPasswordBytes (c_localIdentities (sample_config\<lparr>c_subjectSalt := Some ''0123456789abcdef''\<rparr>))"
    by (simp add: sample_config_def)
  moreover have "file_binding sample_argon (\<lambda>_. 100) None = file_binding (tl_argon first_tool) (tl_bytes_of first_tool) None"
    by (simp add: first_tool_def)
  moreover have "arg_of first_options ''email'' = Some ''jo@example.com''" by (simp add: arg_of_def first_options_def)
  ultimately show ?thesis
    using provisioned_identity_signs_in [OF p(1), of "sample_config\<lparr>c_subjectSalt := Some ''0123456789abcdef''\<rparr>"
        "file_binding sample_argon (\<lambda>_. 100) None" None] p first_facts(1,7)
    by fastforce
qed

end
