(* ===== verification/Release.thy ===== *)
theory Release
  imports Bytes Numbers "HOL-Library.List_Lexorder" "HOL-Library.Char_ord"
begin

text \<open>
  The policy of a release, \<^verbatim>\<open>tools/release/policy.js\<close>, and the promotion of \<^verbatim>\<open>tools/release/workflow.js\<close>: the shape of a tag, the
  manifest, the files of a release, and which image aliases move to it. The directory of a release is the list of its entries,
  the digest a parameter, and the registry and the list of releases are values that \<open>promote\<close> changes; the signatures that
  are checked before are the tools' own.
\<close>

section \<open>Tags\<close>

record version_info =
  vn_version :: string
  vn_major :: string
  vn_minor :: string
  vn_patch :: string
  vn_prerelease :: bool

definition numeric_id :: "string \<Rightarrow> bool" where
  "numeric_id s \<longleftrightarrow> s = ''0'' \<or> s \<noteq> [] \<and> hd s \<noteq> CHR ''0'' \<and> list_all is_digit s"

definition prerelease_id :: "string \<Rightarrow> bool" where
  "prerelease_id s \<longleftrightarrow> s \<noteq> [] \<and> list_all (\<lambda>c. is_alnum c \<or> c = CHR ''-'') s"

text \<open>The expression of a tag: the first hyphen ends the numbers, for no number has one.\<close>

definition match_tag :: "string \<Rightarrow> (string \<times> string \<times> string \<times> string option) option" where
  "match_tag tag =
     (case tag of [] \<Rightarrow> None
      | c # rest \<Rightarrow>
          let core = takeWhile (\<lambda>x. x \<noteq> CHR ''-'') rest; tail = dropWhile (\<lambda>x. x \<noteq> CHR ''-'') rest in
          if c \<noteq> CHR ''v'' then None
          else (case split_on (CHR ''.'') core of
              [a, b, p] \<Rightarrow>
                if numeric_id a \<and> numeric_id b \<and> numeric_id p
                then (case tail of [] \<Rightarrow> Some (a, b, p, None)
                  | _ # pre \<Rightarrow> if list_all prerelease_id (split_on (CHR ''.'') pre) then Some (a, b, p, Some pre) else None)
                else None
            | _ \<Rightarrow> None))"

definition version :: "string \<Rightarrow> (string, version_info) result" where
  "version tag =
     (if length tag > 120 then Inl ''Invalid release tag''
      else (case match_tag tag of None \<Rightarrow> Inl ''Expected vMAJOR.MINOR.PATCH[-PRERELEASE]''
        | Some (a, b, p, pre) \<Rightarrow>
            if list_ex (\<lambda>i. list_all is_digit i \<and> i \<noteq> [] \<and> length i > 1 \<and> hd i = CHR ''0'') (case pre of None \<Rightarrow> [] | Some s \<Rightarrow> split_on (CHR ''.'') s)
            then Inl ''Invalid numeric prerelease identifier''
            else Inr \<lparr>vn_version = drop 1 tag, vn_major = a, vn_minor = b, vn_patch = p, vn_prerelease = (pre \<noteq> None)\<rparr>))"

section \<open>What a release is checked against\<close>

definition REPOSITORY_URL :: string where "REPOSITORY_URL = ''https://github.com/RESOAuth/smart-access-gateway''"
definition WORKFLOW :: string where "WORKFLOW = ''.github/workflows/release.yml''"
definition IMAGE :: string where "IMAGE = ''ghcr.io/resoauth/sag''"

definition COMPANIONS :: "string list" where
  "COMPANIONS = [''release-manifest.json'', ''release-manifest.sigstore.json'', ''files.provenance.sigstore.json'',
     ''container.provenance.sigstore.json'', ''release.intoto.jsonl'']"

definition lower_hex :: "nat \<Rightarrow> string \<Rightarrow> bool" where
  "lower_hex n s \<longleftrightarrow> length s = n \<and> list_all (\<lambda>c. is_digit c \<or> c \<in> set ''abcdef'') s"

record policy =
  po_tag :: string
  po_commit :: string
  po_identity :: string
  po_runId :: "string option"

definition expected :: "string \<Rightarrow> string \<Rightarrow> (string, policy) result" where
  "expected tag commit =
     rbind (version tag) (\<lambda>_.
     if \<not> lower_hex 40 commit then Inl ''Expected full source commit''
     else Inr \<lparr>po_tag = tag, po_commit = commit, po_identity = REPOSITORY_URL @ ''/'' @ WORKFLOW @ ''@refs/tags/'' @ tag, po_runId = None\<rparr>)"

definition archive_name :: "string \<Rightarrow> string" where
  "archive_name tag = ''sag-'' @ tag @ ''-source.tar.gz''"

definition assetNames :: "string \<Rightarrow> (string, string list) result" where
  "assetNames tag = rbind (version tag) (\<lambda>_. Inr (sort (archive_name tag # COMPANIONS)))"

text \<open>The first check that fails names the error. Where an expression is matched against a value that is no text, the value is
  converted first: the identifier of a run may be a number, and an array of one text, which the code converts too, is refused here.\<close>

fun all_checks :: "(bool \<times> string) list \<Rightarrow> (string, unit) result" where
  "all_checks [] = Inr ()"
| "all_checks ((b, why) # rest) = (if b then all_checks rest else Inl why)"

definition text_of_id :: "json option \<Rightarrow> string" where
  "text_of_id v = (case v of Some (JStr s) \<Rightarrow> s | Some (JNum n) \<Rightarrow> show_int n | _ \<Rightarrow> [])"

definition elems :: "json option \<Rightarrow> json list" where
  "elems v = (case v of Some (JArr xs) \<Rightarrow> xs | _ \<Rightarrow> [])"

definition sole :: "json option \<Rightarrow> json" where
  "sole v = (case elems v of [x] \<Rightarrow> x | _ \<Rightarrow> JNull)"

definition image_digest_ok :: "string \<Rightarrow> bool" where
  "image_digest_ok d \<longleftrightarrow> starts_with d ''sha256:'' \<and> lower_hex 64 (drop 7 d)"

definition validateManifest :: "json \<Rightarrow> policy \<Rightarrow> (string, json) result" where
  "validateManifest m po =
     (let run = coalesce (jget m ''run'') JNull; i = text_of_id (jget run ''id''); file = sole (jget m ''files''); image = sole (jget m ''images'');
          digest = coalesce (as_str (jget image ''digest'')) [] in
      rbind (all_checks
        [(jget m ''schemaVersion'' = Some (JNum 1), ''Unsupported manifest schema''),
         (jget m ''repository'' = Some (JStr REPOSITORY_URL), ''Wrong repository''),
         (jget m ''tag'' = Some (JStr (po_tag po)), ''Wrong tag''),
         (jget m ''commit'' = Some (JStr (po_commit po)), ''Wrong source commit''),
         (jget m ''workflow'' = Some (JStr WORKFLOW), ''Wrong workflow''),
         (i \<noteq> [] \<and> hd i \<noteq> CHR ''0'' \<and> list_all is_digit i, ''Invalid run ID''),
         (case jget run ''attempt'' of Some (JNum n) \<Rightarrow> 0 < n \<and> n \<le> 2 ^ 53 - 1 | _ \<Rightarrow> False, ''Invalid run attempt''),
         (jget run ''url'' = Some (JStr (REPOSITORY_URL @ ''/actions/runs/'' @ i @ ''/attempts/'' @ text_of_id (jget run ''attempt''))), ''Wrong run URL''),
         (str_truthy (po_runId po) \<longrightarrow> jget run ''id'' = Some (JStr (the (po_runId po))), ''Different workflow run''),
         (length (elems (jget m ''files'')) = 1, ''Incomplete or unexpected payload set''),
         (jget file ''name'' = Some (JStr (archive_name (po_tag po))), ''Wrong source archive name''),
         (lower_hex 64 (coalesce (as_str (jget file ''sha256'')) []), ''Malformed file digest''),
         (length (elems (jget m ''images'')) = 1, ''Expected one container''),
         (jget image ''name'' = Some (JStr IMAGE), ''Wrong image repository''),
         (image_digest_ok digest, ''Malformed image digest''),
         (jget image ''reference'' = Some (JStr (IMAGE @ ''@'' @ digest)), ''Wrong image reference''),
         (jget image ''platforms'' = Some (JArr [JStr ''linux/amd64'']), ''Unexpected image platforms'')]) (\<lambda>_. Inr m))"

text \<open>The entries of the directory: whether each is a regular file, and its bytes.\<close>

type_synonym asset_dir = "(string \<times> bool \<times> bytes) list"

definition asset_name_ok :: "string \<Rightarrow> bool" where
  "asset_name_ok s \<longleftrightarrow> s \<noteq> [] \<and> is_alnum (hd s) \<and> list_all (\<lambda>c. is_alnum c \<or> c \<in> set ''._-'') s"

definition fileBytes :: "asset_dir \<Rightarrow> string \<Rightarrow> (string, bytes) result" where
  "fileBytes directory name =
     (if \<not> asset_name_ok name then Inl ''Unsafe asset name''
      else (case map_of directory name of None \<Rightarrow> Inl (''ENOENT: no such file or directory, '' @ name)
        | Some (regular, content) \<Rightarrow> if \<not> regular then Inl (''Not a regular file: '' @ name) else Inr content))"

fun read_all :: "asset_dir \<Rightarrow> string list \<Rightarrow> (string, unit) result" where
  "read_all directory [] = Inr ()"
| "read_all directory (n # ns) = rbind (fileBytes directory n) (\<lambda>_. read_all directory ns)"

fun hashed_as_named :: "(bytes \<Rightarrow> string) \<Rightarrow> asset_dir \<Rightarrow> json list \<Rightarrow> (string, unit) result" where
  "hashed_as_named sha256hex directory [] = Inr ()"
| "hashed_as_named sha256hex directory (f # fs) =
     (let name = coalesce (as_str (jget f ''name'')) [] in
      rbind (fileBytes directory name) (\<lambda>content.
      if jget f ''sha256'' = Some (JStr (sha256hex content)) then hashed_as_named sha256hex directory fs else Inl (''Hash mismatch: '' @ name)))"

definition validateFiles :: "(bytes \<Rightarrow> string) \<Rightarrow> asset_dir \<Rightarrow> json \<Rightarrow> (string, unit) result" where
  "validateFiles sha256hex directory m =
     rbind (assetNames (coalesce (as_str (jget m ''tag'')) [])) (\<lambda>names.
     if sort (map fst directory) \<noteq> names then Inl ''Incomplete or unexpected release assets''
     else rbind (read_all directory names) (\<lambda>_. hashed_as_named sha256hex directory (elems (jget m ''files''))))"

section \<open>Aliases\<close>

definition newer_than :: "version_info \<Rightarrow> version_info \<Rightarrow> bool" where
  "newer_than other current \<longleftrightarrow>
     read_nat (vn_major other) > read_nat (vn_major current) \<or>
     vn_major other = vn_major current \<and> read_nat (vn_minor other) > read_nat (vn_minor current) \<or>
     vn_major other = vn_major current \<and> vn_minor other = vn_minor current \<and> read_nat (vn_patch other) > read_nat (vn_patch current)"

fun versions :: "string list \<Rightarrow> (string, version_info list) result" where
  "versions [] = Inr []"
| "versions (t # ts) = rbind (version t) (\<lambda>v. rbind (versions ts) (\<lambda>vs. Inr (v # vs)))"

definition stableAliases :: "string \<Rightarrow> string list \<Rightarrow> (string, string list) result" where
  "stableAliases tag publishedTags =
     rbind (version tag) (\<lambda>current.
     if vn_prerelease current then Inr []
     else rbind (versions publishedTags) (\<lambda>published.
       let newer = filter (\<lambda>v. newer_than v current) (filter (\<lambda>v. \<not> vn_prerelease v) published) in
       Inr ((if newer = [] then [''latest''] else []) @
            (if list_ex (\<lambda>v. vn_major v = vn_major current) newer then [] else [vn_major current]) @
            (if list_ex (\<lambda>v. vn_major v = vn_major current \<and> vn_minor v = vn_minor current) newer then []
             else [vn_major current @ ''.'' @ vn_minor current]))))"

text \<open>Publishing a staged release: the tags of the registry move one after the other, then the release is published. A
  promotion may stop after any of them, which leaves a draft. The mark of the latest release at the code host, which follows
  the alias, is not kept.\<close>

record registry =
  rg_tags :: "string \<rightharpoonup> string"
  rg_published :: "(string \<times> string) list"

definition move_tags :: "string list \<Rightarrow> string \<Rightarrow> (string \<rightharpoonup> string) \<Rightarrow> (string \<rightharpoonup> string)" where
  "move_tags names digest tags = fold (\<lambda>name m. m(name \<mapsto> digest)) names tags"

definition promotion :: "string \<Rightarrow> string \<Rightarrow> registry \<Rightarrow> (string, string list) result" where
  "promotion tag digest rg =
     rbind (version tag) (\<lambda>v.
     if tag \<in> fst ` set (rg_published rg) then Inl ''Never change a published release''
     else if rg_tags rg (vn_version v) \<notin> {None, Some digest} then Inl ''Conflicting immutable version image''
     else rbind (stableAliases tag (map fst (rg_published rg))) (\<lambda>aliases. Inr (vn_version v # aliases)))"

definition promote :: "string \<Rightarrow> string \<Rightarrow> registry \<Rightarrow> (string, registry) result" where
  "promote tag digest rg =
     rbind (promotion tag digest rg) (\<lambda>names.
     Inr \<lparr>rg_tags = move_tags names digest (rg_tags rg), rg_published = (tag, digest) # rg_published rg\<rparr>)"

definition no_releases :: registry where
  "no_releases = \<lparr>rg_tags = (\<lambda>_. None), rg_published = []\<rparr>"

text \<open>The registries the workflow reaches; the flag says whether a promotion stopped on the way.\<close>

inductive released :: "bool \<Rightarrow> registry \<Rightarrow> bool" where
  released_none: "released False no_releases"
| released_more: "released stopped rg \<Longrightarrow> promote tag digest rg = Inr rg' \<Longrightarrow> released stopped rg'"
| released_part: "released stopped rg \<Longrightarrow> promotion tag digest rg = Inr names \<Longrightarrow>
    released True (rg\<lparr>rg_tags := move_tags (take n names) digest (rg_tags rg)\<rparr>)"

fun promote_all :: "(string \<times> string) list \<Rightarrow> registry \<Rightarrow> (string, registry) result" where
  "promote_all [] rg = Inr rg"
| "promote_all ((tag, digest) # rest) rg = rbind (promote tag digest rg) (promote_all rest)"

section \<open>Versions in order\<close>

definition order_key :: "version_info \<Rightarrow> nat \<times> nat \<times> nat" where
  "order_key v = (read_nat (vn_major v), read_nat (vn_minor v), read_nat (vn_patch v))"

definition before :: "version_info \<Rightarrow> version_info \<Rightarrow> bool" where
  "before v w \<longleftrightarrow>
     (case (order_key v, order_key w) of ((a, b, c), (a', b', c')) \<Rightarrow> a < a' \<or> a = a' \<and> (b < b' \<or> b = b' \<and> c < c'))"

lemma show_read_nat: "numeric_id s \<Longrightarrow> show_nat (read_nat s) = s"
proof (induction s rule: rev_induct)
  case (snoc c s)
  from snoc.prems have c: "is_digit c" by (auto simp: numeric_id_def is_digit_def)
  note dc = digit_char_value [OF c]
  show ?case
  proof (cases "s = []")
    case True
    then show ?thesis using dc by (simp add: read_nat_def show_nat.simps [of "digit_value c"])
  next
    case False
    with snoc.prems have s: "numeric_id s" "hd s \<noteq> CHR ''0''" by (auto simp: numeric_id_def)
    have IH: "show_nat (read_nat s) = s" by (rule snoc.IH [OF s(1)])
    have "read_nat s \<noteq> 0"
    proof
      assume "read_nat s = 0"
      with IH have "s = ''0''" by (simp add: show_nat.simps [of 0] digit_char_def)
      with s(2) show False by simp
    qed
    then have "\<not> 10 * read_nat s + digit_value c < 10" by simp
    then show ?thesis
      using dc IH by (subst show_nat.simps) (simp add: read_nat_snoc)
  qed
qed (simp add: numeric_id_def)

lemma read_nat_inj: "numeric_id s \<Longrightarrow> numeric_id t \<Longrightarrow> read_nat s = read_nat t \<longleftrightarrow> s = t"
  by (metis show_read_nat)

definition dots :: "string \<Rightarrow> nat" where
  "dots s = length (filter (\<lambda>c. c = CHR ''.'') s)"

lemma numeric_no_dot: "numeric_id s \<Longrightarrow> CHR ''.'' \<notin> set s"
  by (auto simp: numeric_id_def list_all_iff is_digit_def)

lemma dots_simps: "numeric_id s \<Longrightarrow> dots s = 0" "dots (a @ b) = dots a + dots b" "dots ''latest'' = 0"
  using numeric_no_dot by (auto simp: dots_def filter_empty_conv)

lemma version_parts:
  assumes "version tag = Inr v"
  shows "tag = CHR ''v'' # vn_version v" "numeric_id (vn_major v)" "numeric_id (vn_minor v)" "numeric_id (vn_patch v)" "2 \<le> dots (vn_version v)"
    "\<not> vn_prerelease v \<Longrightarrow> vn_version v = vn_major v @ ''.'' @ vn_minor v @ ''.'' @ vn_patch v"
proof -
  from assms obtain a b p pre where m: "match_tag tag = Some (a, b, p, pre)"
      "v = \<lparr>vn_version = drop 1 tag, vn_major = a, vn_minor = b, vn_patch = p, vn_prerelease = (pre \<noteq> None)\<rparr>"
    by (auto simp: version_def split: if_splits option.splits prod.splits)
  from m(1) obtain rest where t: "tag = CHR ''v'' # rest" "split_on (CHR ''.'') (takeWhile (\<lambda>x. x \<noteq> CHR ''-'') rest) = [a, b, p]"
      "numeric_id a" "numeric_id b" "numeric_id p" "pre = None \<Longrightarrow> dropWhile (\<lambda>x. x \<noteq> CHR ''-'') rest = []"
    by (cases tag) (auto simp: match_tag_def Let_def split: if_splits list.splits)
  have "takeWhile (\<lambda>x. x \<noteq> CHR ''-'') rest = a @ ''.'' @ b @ ''.'' @ p"
    using join_split_on [of "CHR ''.''" "takeWhile (\<lambda>x. x \<noteq> CHR ''-'') rest"] t(2) by simp
  then have rest: "rest = (a @ ''.'' @ b @ ''.'' @ p) @ dropWhile (\<lambda>x. x \<noteq> CHR ''-'') rest" by (metis takeWhile_dropWhile_id)
  then have "dots rest = dots ((a @ ''.'' @ b @ ''.'' @ p) @ dropWhile (\<lambda>x. x \<noteq> CHR ''-'') rest)" by simp
  then have "2 \<le> dots rest" by (simp only: dots_simps(2)) (simp add: dots_def)
  with t m(2) show "tag = CHR ''v'' # vn_version v" "numeric_id (vn_major v)" "numeric_id (vn_minor v)" "numeric_id (vn_patch v)"
    "2 \<le> dots (vn_version v)" by simp_all
  assume "\<not> vn_prerelease v"
  with m(2) t(6) have "dropWhile (\<lambda>x. x \<noteq> CHR ''-'') rest = []" by simp
  with rest have "rest = a @ ''.'' @ b @ ''.'' @ p" by (metis append_Nil2 append_assoc)
  with t(1) m(2) show "vn_version v = vn_major v @ ''.'' @ vn_minor v @ ''.'' @ vn_patch v" by simp
qed

lemma newer_than_before:
  assumes "version t = Inr v" "version u = Inr w"
  shows "newer_than w v \<longleftrightarrow> before v w"
proof -
  note eqs = read_nat_inj [OF version_parts(2) [OF assms(1)] version_parts(2) [OF assms(2)]]
    read_nat_inj [OF version_parts(3) [OF assms(1)] version_parts(3) [OF assms(2)]]
  show ?thesis
    unfolding newer_than_def before_def order_key_def prod.case eq_commute [of "vn_major w"]
      eq_commute [of "vn_minor w"] eqs [symmetric] by blast
qed

lemma before_total: "before v w \<or> order_key v = order_key w \<or> before w v"
  by (auto simp: before_def order_key_def)

lemma stable_key_inj:
  assumes "version t = Inr v" "version u = Inr w" "\<not> vn_prerelease v" "\<not> vn_prerelease w" "order_key v = order_key w"
  shows "t = u"
proof -
  note p = version_parts [OF assms(1)] and q = version_parts [OF assms(2)]
  have "vn_major v = vn_major w" "vn_minor v = vn_minor w" "vn_patch v = vn_patch w"
    using assms(5) read_nat_inj [OF p(2) q(2)] read_nat_inj [OF p(3) q(3)] read_nat_inj [OF p(4) q(4)] by (simp_all add: order_key_def)
  then show ?thesis using p(1) q(1) p(6) [OF assms(3)] q(6) [OF assms(4)] by simp
qed

section \<open>The names of the aliases\<close>

datatype alias_class = Latest | Major | Minor

lemma ex_class: "(\<exists>k. P k) \<longleftrightarrow> P Latest \<or> P Major \<or> P Minor"
  by (metis alias_class.exhaust)

fun alias_name :: "alias_class \<Rightarrow> version_info \<Rightarrow> string" where
  "alias_name Latest v = ''latest''"
| "alias_name Major v = vn_major v"
| "alias_name Minor v = vn_major v @ ''.'' @ vn_minor v"

fun same_class :: "alias_class \<Rightarrow> version_info \<Rightarrow> version_info \<Rightarrow> bool" where
  "same_class Latest v w \<longleftrightarrow> True"
| "same_class Major v w \<longleftrightarrow> vn_major v = vn_major w"
| "same_class Minor v w \<longleftrightarrow> vn_major v = vn_major w \<and> vn_minor v = vn_minor w"

definition superseded :: "alias_class \<Rightarrow> version_info \<Rightarrow> string list \<Rightarrow> bool" where
  "superseded k v tags \<longleftrightarrow> list_ex (\<lambda>t. case version t of Inl _ \<Rightarrow> False | Inr w \<Rightarrow> \<not> vn_prerelease w \<and> same_class k v w \<and> before v w) tags"

lemma versions_set: "versions ts = Inr vs \<Longrightarrow> w \<in> set vs \<longleftrightarrow> (\<exists>t \<in> set ts. version t = Inr w)"
  by (induction ts arbitrary: vs) (auto simp: rbind_Inr_iff)

lemma dot_split:
  "CHR ''.'' \<notin> set a \<Longrightarrow> CHR ''.'' \<notin> set c \<Longrightarrow> a @ CHR ''.'' # b = c @ CHR ''.'' # d \<longleftrightarrow> a = c \<and> b = d"
  by (auto simp: append_eq_append_conv2 append_eq_Cons_conv Cons_eq_append_conv)

lemma alias_dots: "version t = Inr v \<Longrightarrow> dots (alias_name k v) = (if k = Minor then 1 else 0)"
  using version_parts(2, 3) [of t v] dots_simps(1)
  by (cases k) (simp_all add: dots_simps(2, 3), simp_all add: dots_def)

lemma alias_name_eq:
  assumes "version t = Inr v" "version u = Inr w"
  shows "alias_name k v = alias_name j w \<longleftrightarrow> k = j \<and> same_class k v w"
proof (cases "k = Minor \<longleftrightarrow> j = Minor")
  case True
  note p = version_parts(2) [OF assms(1)] and q = version_parts(2) [OF assms(2)]
  have "\<not> numeric_id ''latest''" by (simp add: numeric_id_def is_digit_def)
  then have "vn_major v \<noteq> ''latest''" "vn_major w \<noteq> ''latest''" using p q by auto
  with True show ?thesis
    using dot_split [OF numeric_no_dot [OF p] numeric_no_dot [OF q]] by (cases k; cases j) auto
next
  case False
  then show ?thesis using alias_dots [OF assms(1), of k] alias_dots [OF assms(2), of j] by auto
qed

lemma alias_not_version: "version t = Inr v \<Longrightarrow> version u = Inr w \<Longrightarrow> alias_name k v \<noteq> vn_version w"
  using alias_dots [of t v k] version_parts(5) [of u w] by (auto split: if_splits)

lemma superseded_iff:
  "superseded k v tags \<longleftrightarrow> (\<exists>u \<in> set tags. \<exists>w. version u = Inr w \<and> \<not> vn_prerelease w \<and> same_class k v w \<and> before v w)"
proof -
  have "(case version u of Inl _ \<Rightarrow> False | Inr w \<Rightarrow> P w) \<longleftrightarrow> (\<exists>w. version u = Inr w \<and> P w)" for u P
    by (cases "version u") auto
  then show ?thesis by (simp add: superseded_def list_ex_iff)
qed

lemma stableAliases_set:
  assumes "stableAliases tag tags = Inr names" "version tag = Inr v"
  shows "vn_prerelease v \<Longrightarrow> names = []"
    "\<not> vn_prerelease v \<Longrightarrow> set names = {alias_name k v | k. \<not> superseded k v tags}"
proof -
  show "vn_prerelease v \<Longrightarrow> names = []" using assms by (simp add: stableAliases_def)
  assume stable: "\<not> vn_prerelease v"
  with assms obtain vs where vs: "versions tags = Inr vs" by (auto simp: stableAliases_def rbind_Inr_iff)
  define newer where "newer = filter (\<lambda>w. newer_than w v) (filter (\<lambda>w. \<not> vn_prerelease w) vs)"
  have new: "w \<in> set newer \<longleftrightarrow> (\<exists>u \<in> set tags. version u = Inr w \<and> \<not> vn_prerelease w \<and> before v w)" for w
    using versions_set [OF vs] newer_than_before [OF assms(2)] by (auto simp: newer_def)
  have sup: "superseded k v tags \<longleftrightarrow> list_ex (same_class k v) newer" for k
    unfolding list_ex_iff superseded_iff using new by blast
  have names: "names = (if newer = [] then [''latest''] else []) @
      (if list_ex (\<lambda>w. vn_major w = vn_major v) newer then [] else [vn_major v]) @
      (if list_ex (\<lambda>w. vn_major w = vn_major v \<and> vn_minor w = vn_minor v) newer then [] else [vn_major v @ ''.'' @ vn_minor v])"
    using assms stable vs by (simp add: stableAliases_def Let_def newer_def)
  have each: "list_ex (same_class Latest v) newer \<longleftrightarrow> newer \<noteq> []"
      "list_ex (same_class Major v) newer \<longleftrightarrow> list_ex (\<lambda>w. vn_major w = vn_major v) newer"
      "list_ex (same_class Minor v) newer \<longleftrightarrow> list_ex (\<lambda>w. vn_major w = vn_major v \<and> vn_minor w = vn_minor v) newer"
    by (cases newer; simp) (simp_all add: list_ex_iff eq_commute)
  have "x \<in> set names \<longleftrightarrow> (\<exists>k. x = alias_name k v \<and> \<not> list_ex (same_class k v) newer)" for x
    unfolding ex_class names each by simp
  then show "set names = {alias_name k v | k. \<not> superseded k v tags}" unfolding sup by blast
qed

section \<open>What a promotion moves\<close>

lemma move_tags_apply: "move_tags names digest tags x = (if x \<in> set names then Some digest else tags x)"
  unfolding move_tags_def by (induction names arbitrary: tags) auto

lemma promotion_names:
  assumes "promotion tag digest rg = Inr names"
  obtains v where "version tag = Inr v" "tag \<notin> fst ` set (rg_published rg)"
    "set names = insert (vn_version v) (if vn_prerelease v then {} else {alias_name k v | k. \<not> superseded k v (map fst (rg_published rg))})"
proof -
  from assms obtain v aliases where v: "version tag = Inr v" "tag \<notin> fst ` set (rg_published rg)"
      "stableAliases tag (map fst (rg_published rg)) = Inr aliases" "names = vn_version v # aliases"
    by (auto simp: promotion_def rbind_Inr_iff split: if_splits)
  show ?thesis using that [OF v(1, 2)] stableAliases_set [OF v(3, 1)] v(4) by (cases "vn_prerelease v") simp_all
qed

lemma version_image_kept:
  assumes "promotion tag digest rg = Inr names" "u \<in> fst ` set (rg_published rg)" "version u = Inr w"
  shows "vn_version w \<notin> set names"
proof -
  from assms(1) obtain v where v: "version tag = Inr v" "tag \<notin> fst ` set (rg_published rg)"
      "set names = insert (vn_version v) (if vn_prerelease v then {} else {alias_name k v | k. \<not> superseded k v (map fst (rg_published rg))})"
    by (rule promotion_names)
  have "vn_version w \<noteq> vn_version v"
    using version_parts(1) [OF v(1)] version_parts(1) [OF assms(3)] v(2) assms(2) by metis
  then show ?thesis using v(3) alias_not_version [OF v(1) assms(3)] by (auto split: if_splits)
qed

lemma newest_alias_kept:
  assumes "promotion tag digest rg = Inr names" "u \<in> fst ` set (rg_published rg)" "version u = Inr w" "\<not> vn_prerelease w"
    "\<not> superseded k w (tag # map fst (rg_published rg))"
  shows "alias_name k w \<notin> set names"
proof
  assume "alias_name k w \<in> set names"
  moreover from assms(1) obtain v where v: "version tag = Inr v" "tag \<notin> fst ` set (rg_published rg)"
      "set names = insert (vn_version v) (if vn_prerelease v then {} else {alias_name k v | k. \<not> superseded k v (map fst (rg_published rg))})"
    by (rule promotion_names)
  ultimately obtain j where j: "\<not> vn_prerelease v" "alias_name k w = alias_name j v" "\<not> superseded j v (map fst (rg_published rg))"
    using alias_not_version [OF assms(3) v(1)] by (auto split: if_splits)
  then have c: "k = j" "same_class k w v" "same_class k v w"
    using alias_name_eq [OF assms(3) v(1), of k j] alias_name_eq [OF v(1) assms(3), of k k] by metis+
  have "\<not> before v w" using j(3) c assms(2, 3, 4) unfolding superseded_iff set_map by blast
  moreover have "\<not> before w v" using assms(5) c(2) v(1) j(1) unfolding superseded_iff by (meson list.set_intros(1))
  ultimately have "order_key v = order_key w" using before_total by blast
  then show False using stable_key_inj [OF v(1) assms(3) j(1) assms(4)] v(2) assms(2) by simp
qed

lemma superseded_more: "superseded k v tags \<Longrightarrow> superseded k v (t # tags)"
  by (simp add: superseded_def)

lemma released_run: "promote_all rs rg = Inr rg' \<Longrightarrow> released stopped rg \<Longrightarrow> released stopped rg'"
  by (induction rs rg rule: promote_all.induct) (auto simp: rbind_Inr_iff intro: released_more)

section \<open>Published images\<close>

text \<open>C24: whatever releases were promoted, in whatever order and with whatever promotion stopped half way, the version image of
  every published release carries the digest it was published with; and where none was stopped, \<^verbatim>\<open>latest\<close> and the aliases of a major
  and of a minor version carry the digest of the newest published stable release of their class.\<close>

theorem published_images_hold:
  assumes "released stopped rg" "(t, d) \<in> set (rg_published rg)"
  shows "\<exists>v. version t = Inr v \<and> rg_tags rg (vn_version v) = Some d \<and>
    (\<not> stopped \<and> \<not> vn_prerelease v \<longrightarrow>
      (\<forall>k. \<not> superseded k v (map fst (rg_published rg)) \<longrightarrow> rg_tags rg (alias_name k v) = Some d))"
  using assms
proof (induction arbitrary: t d rule: released.induct)
  case released_none
  then show ?case by (simp add: no_releases_def)
next
  case (released_more stopped rg tag digest rg')
  from released_more.hyps(2) obtain names where n: "promotion tag digest rg = Inr names"
      "rg' = \<lparr>rg_tags = move_tags names digest (rg_tags rg), rg_published = (tag, digest) # rg_published rg\<rparr>"
    by (auto simp: promote_def rbind_Inr_iff)
  show ?case
  proof (cases "(t, d) = (tag, digest)")
    case True
    from n(1) obtain v where "version tag = Inr v"
      "set names = insert (vn_version v) (if vn_prerelease v then {} else {alias_name k v | k. \<not> superseded k v (map fst (rg_published rg))})"
      by (rule promotion_names)
    with True n(2) show ?thesis by (auto simp: move_tags_apply dest: superseded_more)
  next
    case False
    with released_more.prems n(2) have old: "(t, d) \<in> set (rg_published rg)" by auto
    then have u: "t \<in> fst ` set (rg_published rg)" by force
    from released_more.IH [OF old] obtain v where v: "version t = Inr v" "rg_tags rg (vn_version v) = Some d"
        "\<not> stopped \<and> \<not> vn_prerelease v \<longrightarrow> (\<forall>k. \<not> superseded k v (map fst (rg_published rg)) \<longrightarrow> rg_tags rg (alias_name k v) = Some d)"
      by blast
    then show ?thesis
      using version_image_kept [OF n(1) u v(1)] newest_alias_kept [OF n(1) u v(1)] superseded_more
      by (intro exI [of _ v]) (simp add: n(2) move_tags_apply, metis)
  qed
next
  case (released_part stopped rg tag digest names n)
  then have "(t, d) \<in> set (rg_published rg)" by simp
  then have u: "t \<in> fst ` set (rg_published rg)" by force
  from released_part.IH [OF \<open>(t, d) \<in> set (rg_published rg)\<close>] obtain v where v: "version t = Inr v" "rg_tags rg (vn_version v) = Some d" by blast
  then show ?case
    using version_image_kept [OF released_part.hyps(2) u v(1)] in_set_takeD [of "vn_version v" n names] by (auto simp: move_tags_apply)
qed

theorem published_images_hold_witness:
  "case promote_all [(''v1.9.0'', ''a''), (''v1.10.0'', ''b''), (''v1.9.1'', ''c''), (''v2.0.0-rc.1'', ''d'')] no_releases of
     Inl _ \<Rightarrow> False
   | Inr rg \<Rightarrow> rg_tags rg ''1.10.0'' = Some ''b'' \<and> rg_tags rg ''latest'' = Some ''b'' \<and> rg_tags rg ''1'' = Some ''b''"
proof -
  let ?rs = "[(''v1.9.0'', ''a''), (''v1.10.0'', ''b''), (''v1.9.1'', ''c''), (''v2.0.0-rc.1'', ''d'')]"
  let ?v = "\<lparr>vn_version = ''1.10.0'', vn_major = ''1'', vn_minor = ''10'', vn_patch = ''0'', vn_prerelease = False\<rparr>"
  have ok: "case promote_all ?rs no_releases of Inl _ \<Rightarrow> False | Inr rg \<Rightarrow> map fst (rg_published rg) = rev (map fst ?rs) \<and> (''v1.10.0'', ''b'') \<in> set (rg_published rg)"
    by code_simp
  then obtain rg where rg: "promote_all ?rs no_releases = Inr rg" "map fst (rg_published rg) = rev (map fst ?rs)" "(''v1.10.0'', ''b'') \<in> set (rg_published rg)"
    by (auto split: sum.splits)
  have "version ''v1.10.0'' = Inr ?v" by code_simp
  moreover have "\<not> superseded Latest ?v (rev (map fst ?rs))" "\<not> superseded Major ?v (rev (map fst ?rs))" by code_simp+
  ultimately have "rg_tags rg (vn_version ?v) = Some ''b''" "rg_tags rg (alias_name Latest ?v) = Some ''b''" "rg_tags rg (alias_name Major ?v) = Some ''b''"
    using published_images_hold [OF released_run [OF rg(1) released_none] rg(3)] unfolding rg(2) by auto
  then show ?thesis unfolding rg(1) by simp
qed

end
