(* ===== verification/Spec2Isabelle.thy ===== *)
theory Spec2Isabelle
  imports Totp Sealing State_Store Http Acr Identity Otp Limits Session Transaction Auth_Code Ip Request Respond Jose Client_Auth Discovery Local_Identity Upstream Router
    Configuration Mailers Pages Dynamo Hsm Adapters Peer_Caches Data_Dir Provision Release
begin

text \<open>
  Verification of the Smart Access Gateway (SAG), an OpenID Connect provider in front of mailed one-time codes, local
  identities and upstream providers. The program keeps almost no state of its own: what a sign-in has reached is sealed
  into the forms and cookies of the browser, an authorisation code is a sealed object, and one optional shared store makes
  codes, assertions, second factors and revocations single-use and counts sends and attempts. The development follows the
  modules of \<^verbatim>\<open>src/\<close>; the root imports all of it.

  \<^bold>\<open>How the parts interact.\<close> \<^verbatim>\<open>loadConfig\<close> turns the environment into a configuration, which the request context keeps.
  The router takes a request to a handler of its table. The interactive handlers (\<^verbatim>\<open>endpoints/authorize.js\<close>) parse the
  request against the registered relying party, decide between the held session and a fresh authentication, walk the
  browser through mailed codes, local passwords and second factors, or an upstream provider, and mint a code. The token
  endpoint authenticates the relying party, redeems the code once and signs the tokens; userinfo, discovery, the key
  set, health and sign-out complete the surface.

  \<^bold>\<open>Theories.\<close>
  \<^item> \<open>Prelude\<close>, \<open>Bytes\<close>, \<open>Numbers\<close>: strings, JSON, results and the errors of JavaScript as values; the codecs of
    \<^verbatim>\<open>util/bytes.js\<close> on words, each an interpretation of the locale of encoders and decoders; \<open>Number(s)\<close>.
  \<^item> \<open>Settings\<close>, \<open>Environment\<close>, \<open>Configuration\<close>: the records of the resolved configuration; \<^verbatim>\<open>config.js\<close>, from the readers of one
    variable to \<open>loadConfig\<close> and \<open>assertUsable\<close>, with every message as a value of a datatype.
  \<^item> \<open>Sealing\<close>, \<open>Sigv4\<close>, \<open>Jose\<close>, \<open>Keys\<close>, \<open>Peers\<close>: \<^verbatim>\<open>crypto/seal.js\<close>, \<^verbatim>\<open>crypto/sigv4.js\<close>, \<^verbatim>\<open>crypto/jose.js\<close> and the signing keys
    and peer key sets of \<^verbatim>\<open>keys/\<close>.
  \<^item> \<open>State_Store\<close>, \<open>Limits\<close>: the in-memory store and the Durable Object store of \<^verbatim>\<open>store/index.js\<close> as step functions with one
    contract (locales \<open>claim_store\<close>, \<open>counter_store\<close>), and \<^verbatim>\<open>store/limits.js\<close> over any store that meets it.
  \<^item> \<open>Http\<close>, \<open>Ip\<close>, \<open>Bounded_Cache\<close>, \<open>Respond\<close>: \<^verbatim>\<open>util/\<close>, the in-process caches, the answers and their policies (\<^verbatim>\<open>ui/csp.js\<close>).
  \<^item> \<open>Acr\<close>, \<open>Identity\<close>, \<open>Otp\<close>, \<open>Totp\<close>, \<open>Profile\<close>: authentication contexts, addresses and subjects, codes, profile claims.
  \<^item> \<open>Identity_Files\<close>, \<open>Local_Identity\<close>: the Node adapter's directory of records with compare-and-set, and the identities over it.
  \<^item> \<open>Client_Store\<close>, \<open>Clients\<close>, \<open>Client_Auth\<close>, \<open>Request\<close>: who is asking, how it proves it, and what it asks for.
  \<^item> \<open>Session\<close>, \<open>Transaction\<close>, \<open>Auth_Code\<close>, \<open>Tokens\<close>, \<open>Discovery\<close>: the sealed state and the protocol endpoints.
  \<^item> \<open>Mail_Hint\<close>, \<open>Upstream\<close>: choosing and using an upstream provider.
  \<^item> \<open>Authorize\<close>, \<open>Sign_In\<close>, \<open>Flow\<close>: the interactive handlers as actions on a world (store, directory, caches and four logs of
    what was let out), and the inductive runs of any number of browsers.
  \<^item> \<open>Mime\<close>, \<open>Smtp\<close>, \<open>Mailers\<close>: the text and the MIME form of a message, the SMTP conversation on a socket whose events are given, and
    the senders of \<^verbatim>\<open>email/\<close>.
  \<^item> \<open>Pages\<close>: every template of \<^verbatim>\<open>ui/pages.js\<close> and \<^verbatim>\<open>ui/layout.js\<close> as fragments, and the tokeniser that states what a browser reads.
  \<^item> \<open>Dynamo\<close>: the DynamoDB store of \<^verbatim>\<open>store/index.js\<close> as a third provider of the store contract, under the documented behaviour of
    the service: an evaluator of the condition, update and projection expressions, which the requests of the code are put to.
  \<^item> \<open>Peer_Caches\<close>: the KV and DynamoDB caches of peer keys, two more providers of the interface of \<open>Peers\<close>.
  \<^item> \<open>Data_Dir\<close>: generating key material, keeping it in a directory across restarts, and the key tool.
  \<^item> \<open>Provision\<close>: the tool that makes local identities, composed with the adapter that stores them and the service that reads them.
  \<^item> \<open>Release\<close>: the policy of a release and its promotion (\<^verbatim>\<open>tools/release/\<close>): what a published tag keeps and where the aliases point.
  \<^item> \<open>Remote_Keys\<close>, \<open>Hsm\<close>: the sealed environment, the KMS signer, and the private key Worker composed with its signer.
  \<^item> \<open>Adapters\<close>: the Node server with its client files and resolvers, the Worker and the Lambda handler.
  \<^item> \<open>Logout\<close>, \<open>Router\<close>: signing out, the routing table, and the runs of the whole server.

  \<^bold>\<open>State and operations.\<close> A store is a step function \<open>'s \<Rightarrow> int \<Rightarrow> store_op \<Rightarrow> reply \<times> 's\<close> on its state and the clock; a
  directory of files is a value; a cache is an association list in insertion order. A thrown error is the left value of a
  sum, with the class the router distinguishes (\<open>failure\<close>). A handler is a function on the world; requests interleave as the
  steps of \<open>flow\<close> and \<open>serving\<close>. What a browser presents as sealed was sealed here: this is the premise \<open>authentic\<close> of a
  step, the documented guarantee of authenticated encryption.

  \<^bold>\<open>What the lemmas show.\<close> The first properties are about the whole server: every code answers the request it was minted for
  with a sufficient authentication, and no answer sends a browser to an unregistered place. The next are about the parts
  that make this so: one redemption per code, tokens bound to their code, exact redirect matching, upstream identities
  bound to their issuer and domain, second factors spent once, limits that hold under any interleaving, sessions that end.
  The rest are contracts of single components: exactness of parsers and checks against reference definitions, round
  trips, bounds of caches and of the configuration, refinement of compare-and-set by files, and admission without
  starvation.

  \<^bold>\<open>Parameters and hypotheses.\<close> Cryptographic primitives, \<open>JSON.parse\<close> and \<open>JSON.stringify\<close>, the URL parser, \<open>fetch\<close>, DNS, Argon2id,
  collation, random values and the clock are arguments. Hypotheses about them state documented behaviour only: decryption
  undoes encryption, a digest has its length, a parser reads back what was written, setting a query parameter keeps the
  address. Each property with a hypothesis has a witness that instantiates it.

  \<^bold>\<open>Bounds and fuel.\<close> Loops over data are structural; a loop that waits for random bytes consumes the list of batches it is
  given and is \<open>None\<close> exactly when they run out before the code is complete. Integers that wrap are words of their width; the
  sums and comparisons of timestamps are unbounded integers, which agree with JavaScript numbers below \<open>2 ^ 53\<close>. Characters
  are code units up to 255; case mapping is the ASCII one.

  \<^bold>\<open>Not modelled.\<close> The style sheet and the browser script (\<^verbatim>\<open>ui/css.js\<close>, \<^verbatim>\<open>ui/js.js\<close>), which are static text; listening
  sockets, signals and the start-up report of the Node server; logging; of the release tools the provenance envelopes and the commands they run; the example relying party and
  the tests. Text outside the codecs, the mail and the templates is ASCII. Concurrency inside one request (\<open>Promise.all\<close>) is
  taken in order.
\<close>

end
